(* ===== verification/Prelude.thy ===== *)
theory Prelude
  imports Main "HOL-Library.Char_ord" "HOL-Library.List_Lexorder" "HOL-Library.Word"
    "HOL-Library.Sublist"
begin

text \<open>
  Shared vocabulary of the ThinWorkspace development.

  A Rust \<open>u8\<close> and the bytes of a Rust \<open>str\<close> are values of \<^typ>\<open>char\<close> (Isabelle's
  \<^typ>\<open>char\<close> is exactly one byte), so byte slices and strings are both \<^typ>\<open>string\<close>.
  A \<open>Result<T, E>\<close> is a sum with the error on the left.  The theory holds the standard
  library operations the sources use on slices (\<open>split\<close>, \<open>splitn\<close>, \<open>position\<close>,
  \<open>windows\<close>), the interface locale \<open>text_codec\<close> of every stable textual representation,
  and the generic reachability interface \<open>guarded_machine\<close>.
\<close>

named_theorems result_simps \<open>unfolding rules for results that may be errors\<close>
named_theorems model_defs \<open>definitions of records built by constructors of the source\<close>

subsection \<open>Results\<close>

type_synonym bytes = string
type_synonym u64 = "64 word"

abbreviation Err :: "'e \<Rightarrow> 'e + 'a" where "Err \<equiv> Inl"
abbreviation Ok :: "'a \<Rightarrow> 'e + 'a" where "Ok \<equiv> Inr"

fun and_then :: "'e + 'a \<Rightarrow> ('a \<Rightarrow> 'e + 'b) \<Rightarrow> 'e + 'b" where
  "and_then (Inl e) f = Inl e"
| "and_then (Inr x) f = f x"

fun map_err :: "('e \<Rightarrow> 'f) \<Rightarrow> 'e + 'a \<Rightarrow> 'f + 'a" where
  "map_err g (Inl e) = Inl (g e)"
| "map_err g (Inr x) = Inr x"

fun ok_or :: "'a option \<Rightarrow> 'e \<Rightarrow> 'e + 'a" where
  "ok_or None e = Inl e"
| "ok_or (Some x) e = Inr x"

fun result_ok :: "'e + 'a \<Rightarrow> 'a option" where
  "result_ok (Inl e) = None"
| "result_ok (Inr x) = Some x"

definition ensure :: "bool \<Rightarrow> 'e \<Rightarrow> 'e + unit" where
  "ensure b e = (if b then Inr () else Inl e)"

text \<open>\<open>collect::<Result<Vec<_>, _>>()\<close>: the first error wins.\<close>

fun collect_results :: "('e + 'a) list \<Rightarrow> 'e + 'a list" where
  "collect_results [] = Inr []"
| "collect_results (r # rs) =
     and_then r (\<lambda>x. and_then (collect_results rs) (\<lambda>xs. Inr (x # xs)))"

lemma and_then_eq_Ok [result_simps]:
  "and_then r f = Inr y \<longleftrightarrow> (\<exists>x. r = Inr x \<and> f x = Inr y)"
  by (cases r) auto

lemma and_then_eq_Err [result_simps]:
  "and_then r f = Inl e \<longleftrightarrow> r = Inl e \<or> (\<exists>x. r = Inr x \<and> f x = Inl e)"
  by (cases r) auto

lemma map_err_eq_Ok [result_simps]: "map_err g r = Inr x \<longleftrightarrow> r = Inr x"
  by (cases r) auto

lemma map_err_eq_Err [result_simps]: "map_err g r = Inl e \<longleftrightarrow> (\<exists>d. r = Inl d \<and> e = g d)"
  by (cases r) auto

lemma ok_or_eq_Ok [result_simps]: "ok_or opt e = Inr x \<longleftrightarrow> opt = Some x"
  by (cases opt) auto

lemma ok_or_eq_Err [result_simps]: "ok_or opt e = Inl d \<longleftrightarrow> opt = None \<and> d = e"
  by (cases opt) auto

lemma result_ok_eq_Some [result_simps]: "result_ok r = Some x \<longleftrightarrow> r = Inr x"
  by (cases r) auto

lemma result_ok_eq_None [result_simps]: "result_ok r = None \<longleftrightarrow> (\<exists>e. r = Inl e)"
  by (cases r) auto

lemma ensure_eq_Ok [result_simps]: "ensure b e = Inr u \<longleftrightarrow> b"
  by (auto simp: ensure_def)

lemma ensure_eq_Err [result_simps]: "ensure b e = Inl d \<longleftrightarrow> \<not> b \<and> d = e"
  by (auto simp: ensure_def)

lemma and_then_ensure_eq_Ok [result_simps]:
  "and_then (ensure b e) f = Inr y \<longleftrightarrow> b \<and> f () = Inr y"
  by (auto simp: ensure_def)

lemma if_Err_eq_Ok [result_simps]: "(if b then Inl e else r) = Inr y \<longleftrightarrow> \<not> b \<and> r = Inr y"
  by simp

lemma if_else_Err_eq_Ok [result_simps]: "(if b then r else Inl e) = Inr y \<longleftrightarrow> b \<and> r = Inr y"
  by simp

lemma ensure_simps [simp]: "ensure True e = Inr ()" "ensure False e = Inl e"
  by (simp_all add: ensure_def)

lemma collect_results_eq_Ok [result_simps]:
  "collect_results rs = Inr xs \<longleftrightarrow> rs = map Inr xs"
  by (induction rs arbitrary: xs) (auto simp: result_simps)

lemma result_not_Err: "(\<forall>e. r \<noteq> Inl e) \<longleftrightarrow> (\<exists>x. r = Inr x)"
  by (cases r) auto

subsection \<open>Slices\<close>

text \<open>\<open>slice.split(|b| *b == sep)\<close>: always at least one piece.\<close>

fun split_on :: "'a \<Rightarrow> 'a list \<Rightarrow> 'a list list" where
  "split_on sep [] = [[]]"
| "split_on sep (x # xs) =
     (if x = sep then [] # split_on sep xs
      else case split_on sep xs of [] \<Rightarrow> [[x]] | p # ps \<Rightarrow> (x # p) # ps)"

text \<open>\<open>slice.splitn(n, |b| *b == sep)\<close>: at most \<open>n\<close> pieces, the last one unsplit.\<close>

fun splitn :: "nat \<Rightarrow> 'a \<Rightarrow> 'a list \<Rightarrow> 'a list list" where
  "splitn 0 sep xs = []"
| "splitn (Suc 0) sep xs = [xs]"
| "splitn (Suc (Suc n)) sep xs =
     (case dropWhile (\<lambda>x. x \<noteq> sep) xs of
        [] \<Rightarrow> [xs]
      | _ # rest \<Rightarrow> takeWhile (\<lambda>x. x \<noteq> sep) xs # splitn (Suc n) sep rest)"

text \<open>\<open>slice.iter().position(p)\<close>.\<close>

fun position :: "('a \<Rightarrow> bool) \<Rightarrow> 'a list \<Rightarrow> nat option" where
  "position p [] = None"
| "position p (x # xs) = (if p x then Some 0 else map_option Suc (position p xs))"

text \<open>\<open>slice.windows(2).any(|w| w == [a, b])\<close>.\<close>

fun has_window2 :: "'a \<Rightarrow> 'a \<Rightarrow> 'a list \<Rightarrow> bool" where
  "has_window2 a b (x # y # zs) = (x = a \<and> y = b \<or> has_window2 a b (y # zs))"
| "has_window2 a b xs = False"

text \<open>\<open>str::strip_prefix\<close>.\<close>

definition strip_prefix :: "'a list \<Rightarrow> 'a list \<Rightarrow> 'a list option" where
  "strip_prefix p s = (if prefix p s then Some (drop (length p) s) else None)"

lemma strip_prefix_append [simp]: "strip_prefix p (p @ s) = Some s"
  by (simp add: strip_prefix_def)

lemma strip_prefix_eq_Some [result_simps]: "strip_prefix p s = Some t \<longleftrightarrow> s = p @ t"
  by (auto simp: strip_prefix_def prefix_def)

text \<open>Joining pieces with a separator, the inverse of \<^const>\<open>split_on\<close>.\<close>

fun join_with :: "'a \<Rightarrow> 'a list list \<Rightarrow> 'a list" where
  "join_with sep [] = []"
| "join_with sep [p] = p"
| "join_with sep (p # q # ps) = p @ sep # join_with sep (q # ps)"

lemma split_on_not_Nil [simp]: "split_on sep xs \<noteq> []"
  by (induction xs) (auto split: list.splits)

lemma split_on_Cons_other:
  assumes "x \<noteq> sep"
  shows "split_on sep (x # xs) = (x # hd (split_on sep xs)) # tl (split_on sep xs)"
  using assms split_on_not_Nil[of sep xs] by (cases "split_on sep xs") auto

lemma join_split_on [simp]: "join_with sep (split_on sep xs) = xs"
proof (induction xs)
  case (Cons x xs)
  obtain p ps where ps: "split_on sep xs = p # ps"
    using split_on_not_Nil[of sep xs] by (cases "split_on sep xs") auto
  then show ?case using Cons by (cases ps) auto
qed simp

lemma split_on_no_sep: "sep \<notin> set xs \<Longrightarrow> split_on sep xs = [xs]"
  by (induction xs) (auto split: list.splits)

lemma split_on_append_sep: "sep \<notin> set p \<Longrightarrow> split_on sep (p @ sep # xs) = p # split_on sep xs"
  by (induction p) (auto split: list.splits)

lemma split_join_with:
  "ps \<noteq> [] \<Longrightarrow> \<forall>p \<in> set ps. sep \<notin> set p \<Longrightarrow> split_on sep (join_with sep ps) = ps"
  by (induction sep ps rule: join_with.induct)
    (auto simp: split_on_no_sep split_on_append_sep)

lemma split_on_pieces: "p \<in> set (split_on sep xs) \<Longrightarrow> sep \<notin> set p"
proof (induction xs arbitrary: p)
  case (Cons x xs)
  obtain q qs where q: "split_on sep xs = q # qs"
    using split_on_not_Nil[of sep xs] by (cases "split_on sep xs") auto
  show ?case using Cons q by (auto split: if_splits)
qed simp

lemma split_on_piece_elements: "p \<in> set (split_on sep xs) \<Longrightarrow> set p \<subseteq> set xs"
proof (induction xs arbitrary: p)
  case (Cons x xs)
  obtain q qs where q: "split_on sep xs = q # qs"
    using split_on_not_Nil[of sep xs] by (cases "split_on sep xs") auto
  show ?case using Cons q by (fastforce split: if_splits)
qed simp

lemma join_with_append_single:
  "ps \<noteq> [] \<Longrightarrow> join_with sep (ps @ [p]) = join_with sep ps @ sep # p"
  by (induction sep ps rule: join_with.induct) auto

lemma position_Some_iff:
  "position p xs = Some i \<longleftrightarrow> i < length xs \<and> p (xs ! i) \<and> (\<forall>j < i. \<not> p (xs ! j))"
proof (induction xs arbitrary: i)
  case (Cons x xs)
  show ?case
  proof (cases i)
    case 0
    then show ?thesis by auto
  next
    case (Suc k)
    then show ?thesis using Cons[of k] by (auto simp: All_less_Suc2)
  qed
qed simp

lemma position_None_iff: "position p xs = None \<longleftrightarrow> (\<forall>x \<in> set xs. \<not> p x)"
  by (induction xs) auto

lemma position_append_hit:
  "\<forall>x \<in> set xs. \<not> p x \<Longrightarrow> p y \<Longrightarrow> position p (xs @ y # ys) = Some (length xs)"
  by (induction xs) auto

lemma splitn_piece:
  "sep \<notin> set p \<Longrightarrow> splitn (Suc (Suc n)) sep (p @ sep # rest) = p # splitn (Suc n) sep rest"
proof -
  assume "sep \<notin> set p"
  then have "dropWhile (\<lambda>x. x \<noteq> sep) (p @ sep # rest) = sep # rest"
    "takeWhile (\<lambda>x. x \<noteq> sep) (p @ sep # rest) = p"
    by (auto simp: dropWhile_append3 takeWhile_tail)
  then show ?thesis by simp
qed

lemma splitn_not_Nil [simp]: "splitn (Suc n) sep xs \<noteq> []"
  by (cases n) (auto split: list.splits)

lemma splitn_length: "length (splitn n sep xs) \<le> n"
  by (induction n sep xs rule: splitn.induct) (auto split: list.splits)

lemma join_splitn: "join_with sep (splitn (Suc n) sep xs) = xs"
proof (induction n arbitrary: xs)
  case (Suc n)
  show ?case
  proof (cases "dropWhile (\<lambda>x. x \<noteq> sep) xs")
    case Nil
    then show ?thesis by (simp del: dropWhile_eq_Nil_conv)
  next
    case (Cons y rest)
    then have y: "y = sep" using hd_dropWhile[of "\<lambda>x. x \<noteq> sep" xs] by auto
    obtain q qs where q: "splitn (Suc n) sep rest = q # qs"
      using splitn_not_Nil[of n sep rest] by (cases "splitn (Suc n) sep rest") auto
    have "xs = takeWhile (\<lambda>x. x \<noteq> sep) xs @ sep # rest"
      using Cons y takeWhile_dropWhile_id[of "\<lambda>x. x \<noteq> sep" xs] by simp
    then show ?thesis using Cons Suc[of rest] q by simp
  qed
qed simp

lemma join_with_Cons: "fs \<noteq> [] \<Longrightarrow> join_with sep (f # fs) = f @ sep # join_with sep fs"
  by (cases fs) auto

text \<open>The pieces of \<open>splitn\<close>, when all \<open>n\<close> are present, are the unique reading of the text.\<close>

lemma splitn_full_iff:
  "length fs = Suc n \<Longrightarrow>
   splitn (Suc n) sep xs = fs \<longleftrightarrow>
     xs = join_with sep fs \<and> (\<forall>p \<in> set (butlast fs). sep \<notin> set p)"
proof (induction n arbitrary: fs xs)
  case 0
  then obtain f where "fs = [f]" by (auto simp: length_Suc_conv)
  then show ?case by auto
next
  case (Suc n)
  then obtain f gs where fs: "fs = f # gs" "length gs = Suc n" by (auto simp: length_Suc_conv)
  then have gs: "gs \<noteq> []" by auto
  show ?case
  proof
    assume split: "splitn (Suc (Suc n)) sep xs = fs"
    then obtain y rest where d: "dropWhile (\<lambda>x. x \<noteq> sep) xs = y # rest"
      using fs by (cases "dropWhile (\<lambda>x. x \<noteq> sep) xs") auto
    then have "f = takeWhile (\<lambda>x. x \<noteq> sep) xs" "splitn (Suc n) sep rest = gs" "y = sep"
      using split fs hd_dropWhile[of "\<lambda>x. x \<noteq> sep" xs] by auto
    moreover from this have "rest = join_with sep gs \<and> (\<forall>p \<in> set (butlast gs). sep \<notin> set p)"
      using Suc.IH[OF fs(2)] by simp
    moreover have "xs = takeWhile (\<lambda>x. x \<noteq> sep) xs @ y # rest"
      using d takeWhile_dropWhile_id[of "\<lambda>x. x \<noteq> sep" xs] by simp
    ultimately show "xs = join_with sep fs \<and> (\<forall>p \<in> set (butlast fs). sep \<notin> set p)"
      using gs fs by (auto simp: join_with_Cons dest: set_takeWhileD)
  next
    assume r: "xs = join_with sep fs \<and> (\<forall>p \<in> set (butlast fs). sep \<notin> set p)"
    then have "sep \<notin> set f" "xs = f @ sep # join_with sep gs"
      using gs fs by (auto simp: join_with_Cons)
    moreover have "splitn (Suc n) sep (join_with sep gs) = gs"
      using Suc.IH[OF fs(2)] r gs fs by auto
    ultimately show "splitn (Suc (Suc n)) sep xs = fs"
      using fs splitn_piece[of sep f n "join_with sep gs"] by (simp del: splitn.simps)
  qed
qed

lemma has_window2_iff: "has_window2 a b xs \<longleftrightarrow> (\<exists>us vs. xs = us @ a # b # vs)"
proof (induction a b xs rule: has_window2.induct)
  case (1 a b x y zs)
  show ?case
  proof
    assume "has_window2 a b (x # y # zs)"
    then consider "x = a \<and> y = b" | us vs where "y # zs = us @ a # b # vs"
      using 1 by auto
    then show "\<exists>us vs. x # y # zs = us @ a # b # vs"
    proof cases
      case 1 then show ?thesis by (intro exI[of _ "[]"] exI[of _ zs]) simp
    next
      case 2 then show ?thesis by (metis append_Cons)
    qed
  next
    assume "\<exists>us vs. x # y # zs = us @ a # b # vs"
    then obtain us vs where "x # y # zs = us @ a # b # vs" by blast
    then show "has_window2 a b (x # y # zs)"
    proof (cases us)
      case (Cons u us')
      with \<open>x # y # zs = us @ a # b # vs\<close> have "y # zs = us' @ a # b # vs" by simp
      then have "has_window2 a b (y # zs)" using 1 by blast
      then show ?thesis by simp
    qed simp
  qed
qed (auto simp: Cons_eq_append_conv)

subsection \<open>ASCII classes\<close>

definition is_ascii_lowercase :: "char \<Rightarrow> bool" where
  "is_ascii_lowercase c = (CHR ''a'' \<le> c \<and> c \<le> CHR ''z'')"

definition is_ascii_digit :: "char \<Rightarrow> bool" where
  "is_ascii_digit c = (CHR ''0'' \<le> c \<and> c \<le> CHR ''9'')"

definition is_ascii_hexdigit :: "char \<Rightarrow> bool" where
  "is_ascii_hexdigit c =
     (is_ascii_digit c \<or> CHR ''a'' \<le> c \<and> c \<le> CHR ''f'' \<or> CHR ''A'' \<le> c \<and> c \<le> CHR ''F'')"

text \<open>The NUL byte.\<close>

abbreviation NUL :: char where "NUL \<equiv> CHR 0x00"

subsection \<open>The interface of a stable textual representation\<close>

text \<open>
  Every value the program persists has one canonical text or byte form: \<open>as_str\<close> or
  \<open>Display\<close> writes it, \<open>FromStr\<close> or \<open>try_from\<close> reads it and refuses everything
  else.  \<open>valid\<close> is the invariant of the wrapped value.
\<close>

locale text_codec =
  fixes encode :: "'a \<Rightarrow> 'b"
    and decode :: "'b \<Rightarrow> 'e + 'a"
    and valid :: "'a \<Rightarrow> bool"
  assumes decode_encode: "valid x \<Longrightarrow> decode (encode x) = Inr x"
    and decode_sound: "decode s = Inr x \<Longrightarrow> encode x = s \<and> valid x"
begin

lemma encode_inject: "valid x \<Longrightarrow> valid y \<Longrightarrow> encode x = encode y \<longleftrightarrow> x = y"
  by (metis decode_encode sum.inject(2))

lemma decode_eq_Ok: "decode s = Inr x \<longleftrightarrow> valid x \<and> s = encode x"
  using decode_encode decode_sound by blast

lemma decode_inject: "decode s = Inr x \<Longrightarrow> decode t = Inr x \<Longrightarrow> s = t"
  using decode_sound by metis

lemma decode_fails: "(\<exists>e. decode s = Inl e) \<longleftrightarrow> s \<notin> encode ` Collect valid"
proof -
  have "(\<exists>e. decode s = Inl e) \<longleftrightarrow> \<not> (\<exists>x. decode s = Inr x)"
    by (cases "decode s") auto
  then show ?thesis by (auto simp: decode_eq_Ok)
qed

end

subsection \<open>The interface of a guarded machine\<close>

text \<open>
  A component whose operations are guarded steps on a state: an operation is accepted and
  gives the next state, or refuses.  \<open>inv\<close> is kept by every accepted operation, so it
  holds after every history.
\<close>

fun run_accepted :: "('s \<Rightarrow> 'op \<Rightarrow> 's) \<Rightarrow> 's \<Rightarrow> 'op list \<Rightarrow> 's" where
  "run_accepted step s [] = s"
| "run_accepted step s (x # xs) = run_accepted step (step s x) xs"

lemma run_accepted_append:
  "run_accepted step s (xs @ ys) = run_accepted step (run_accepted step s xs) ys"
  by (induction xs arbitrary: s) auto

locale guarded_machine =
  fixes step :: "'s \<Rightarrow> 'op \<Rightarrow> 's"
    and inv :: "'s \<Rightarrow> bool"
    and before :: "'s \<Rightarrow> 's \<Rightarrow> bool"
    and allowed :: "'op \<Rightarrow> bool"
  assumes step_inv: "inv s \<Longrightarrow> allowed x \<Longrightarrow> inv (step s x)"
    and before_refl: "before s s"
    and before_trans: "before s t \<Longrightarrow> before t u \<Longrightarrow> before s u"
    and step_before: "inv s \<Longrightarrow> allowed x \<Longrightarrow> before s (step s x)"
begin

lemma run_inv: "inv s \<Longrightarrow> list_all allowed xs \<Longrightarrow> inv (run_accepted step s xs)"
  by (induction xs arbitrary: s) (auto intro: step_inv)

lemma run_before: "inv s \<Longrightarrow> list_all allowed xs \<Longrightarrow> before s (run_accepted step s xs)"
proof (induction xs arbitrary: s)
  case (Cons x xs)
  then show ?case
    by (auto intro: before_trans[OF step_before] step_inv)
qed (simp add: before_refl)

lemma run_before_later:
  "inv s \<Longrightarrow> list_all allowed (xs @ ys) \<Longrightarrow>
   before (run_accepted step s xs) (run_accepted step s (xs @ ys))"
  by (simp add: run_accepted_append run_before run_inv)

end

end
