(* ===== verification/Identifiers.thy ===== *)
theory Identifiers
  imports Prelude
begin

text \<open>
  Typed identifiers and timestamps: \<open>thinws-core/src/id.rs\<close>, \<open>volume.rs\<close> and
  \<open>time.rs\<close>.

  The \<open>uuid\<close> crate is not part of the repository.  A \<open>Uuid\<close> is its 128-bit value; the
  four functions the code calls are the fields of \<open>uuid_api\<close>, an argument of every
  definition that uses them.  What the code relies on is stated by \<open>uuid_roundtrip\<close> and
  \<open>uuid_text_format\<close>, the crate's documented behaviour of \<open>hyphenated\<close>.
\<close>

type_synonym uuid = "128 word"

record uuid_api =
  uuid_parse_str :: "string \<Rightarrow> uuid option"
  uuid_hyphenated :: "uuid \<Rightarrow> string"
  uuid_version_num :: "uuid \<Rightarrow> nat"
  uuid_is_rfc4122 :: "uuid \<Rightarrow> bool"

definition uuid_roundtrip :: "uuid_api \<Rightarrow> bool" where
  "uuid_roundtrip U \<longleftrightarrow> (\<forall>u. uuid_parse_str U (uuid_hyphenated U u) = Some u)"

text \<open>The 8-4-4-4-12 layout of the hyphenated form, with the version and variant digits.\<close>

definition is_lower_hex :: "char \<Rightarrow> bool" where
  "is_lower_hex c = (c \<in> set ''0123456789abcdef'')"

definition uuid_text_shape :: "string \<Rightarrow> bool" where
  "uuid_text_shape s \<longleftrightarrow> length s = 36 \<and>
     (\<forall>i < 36. if i \<in> {8, 13, 18, 23} then s ! i = CHR ''-'' else is_lower_hex (s ! i))"

definition uuid_text_format :: "uuid_api \<Rightarrow> bool" where
  "uuid_text_format U \<longleftrightarrow> (\<forall>u. uuid_text_shape (uuid_hyphenated U u)
     \<and> (uuid_version_num U u = 7 \<longrightarrow> uuid_hyphenated U u ! 14 = CHR ''7'')
     \<and> (uuid_is_rfc4122 U u \<longrightarrow> uuid_hyphenated U u ! 19 \<in> set ''89ab''))"

subsection \<open>UUIDv7 identifiers\<close>

datatype id_parse_error =
  InvalidPrefix string
| InvalidFormat
| WrongVersion
| WrongVariant

definition validate_uuid_v7 :: "uuid_api \<Rightarrow> uuid \<Rightarrow> id_parse_error + unit" where
  "validate_uuid_v7 U v =
     (if uuid_version_num U v \<noteq> 7 then Err WrongVersion
      else if \<not> uuid_is_rfc4122 U v then Err WrongVariant
      else Ok ())"

definition parse_uuid_v7 :: "uuid_api \<Rightarrow> string \<Rightarrow> id_parse_error + uuid" where
  "parse_uuid_v7 U s =
     and_then (ok_or (uuid_parse_str U s) InvalidFormat) (\<lambda>parsed.
       if uuid_hyphenated U parsed \<noteq> s then Err InvalidFormat
       else and_then (validate_uuid_v7 U parsed) (\<lambda>_. Ok parsed))"

datatype workspace_id = WorkspaceId (workspace_uuid: uuid)
datatype operation_id = OperationId (operation_uuid: uuid)
datatype instance_id = InstanceId (instance_uuid: uuid)

definition workspace_id_try_from :: "uuid_api \<Rightarrow> uuid \<Rightarrow> id_parse_error + workspace_id" where
  "workspace_id_try_from U v = and_then (validate_uuid_v7 U v) (\<lambda>_. Ok (WorkspaceId v))"

definition operation_id_try_from :: "uuid_api \<Rightarrow> uuid \<Rightarrow> id_parse_error + operation_id" where
  "operation_id_try_from U v = and_then (validate_uuid_v7 U v) (\<lambda>_. Ok (OperationId v))"

definition instance_id_try_from :: "uuid_api \<Rightarrow> uuid \<Rightarrow> id_parse_error + instance_id" where
  "instance_id_try_from U v = and_then (validate_uuid_v7 U v) (\<lambda>_. Ok (InstanceId v))"

definition typed_uuid_from_str :: "uuid_api \<Rightarrow> string \<Rightarrow> string \<Rightarrow> id_parse_error + uuid" where
  "typed_uuid_from_str U pre s =
     and_then (ok_or (strip_prefix pre s) (InvalidPrefix pre)) (\<lambda>payload. parse_uuid_v7 U payload)"

definition workspace_id_from_str :: "uuid_api \<Rightarrow> string \<Rightarrow> id_parse_error + workspace_id" where
  "workspace_id_from_str U s =
     and_then (typed_uuid_from_str U ''ws_'' s) (\<lambda>v. Ok (WorkspaceId v))"

definition operation_id_from_str :: "uuid_api \<Rightarrow> string \<Rightarrow> id_parse_error + operation_id" where
  "operation_id_from_str U s =
     and_then (typed_uuid_from_str U ''op_'' s) (\<lambda>v. Ok (OperationId v))"

definition instance_id_from_str :: "uuid_api \<Rightarrow> string \<Rightarrow> id_parse_error + instance_id" where
  "instance_id_from_str U s = and_then (parse_uuid_v7 U s) (\<lambda>v. Ok (InstanceId v))"

definition workspace_id_to_string :: "uuid_api \<Rightarrow> workspace_id \<Rightarrow> string" where
  "workspace_id_to_string U i = ''ws_'' @ uuid_hyphenated U (workspace_uuid i)"

definition operation_id_to_string :: "uuid_api \<Rightarrow> operation_id \<Rightarrow> string" where
  "operation_id_to_string U i = ''op_'' @ uuid_hyphenated U (operation_uuid i)"

definition instance_id_to_string :: "uuid_api \<Rightarrow> instance_id \<Rightarrow> string" where
  "instance_id_to_string U i = uuid_hyphenated U (instance_uuid i)"

text \<open>The derived \<open>Ord\<close> compares the wrapped UUID, that is its big-endian bytes.\<close>

instantiation workspace_id :: linorder
begin

definition less_eq_workspace_id :: "workspace_id \<Rightarrow> workspace_id \<Rightarrow> bool" where
  "less_eq_workspace_id a b = (workspace_uuid a \<le> workspace_uuid b)"

definition less_workspace_id :: "workspace_id \<Rightarrow> workspace_id \<Rightarrow> bool" where
  "less_workspace_id a b = (workspace_uuid a < workspace_uuid b)"

instance
  by standard
    (auto simp: less_eq_workspace_id_def less_workspace_id_def workspace_id.expand)

end

subsection \<open>Volume identity\<close>

datatype volume_id = VolumeId (volume_uuid: uuid)
datatype volume_id_parse_error = VolumeIdParseError

definition volume_id_from_str :: "uuid_api \<Rightarrow> string \<Rightarrow> volume_id_parse_error + volume_id" where
  "volume_id_from_str U s =
     and_then (ok_or (uuid_parse_str U s) VolumeIdParseError) (\<lambda>parsed.
       if uuid_hyphenated U parsed \<noteq> s then Err VolumeIdParseError
       else Ok (VolumeId parsed))"

definition volume_id_to_string :: "uuid_api \<Rightarrow> volume_id \<Rightarrow> string" where
  "volume_id_to_string U v = uuid_hyphenated U (volume_uuid v)"

subsection \<open>Timestamps\<close>

text \<open>An \<open>i64\<close> that is only compared, never added to, so it is an \<^typ>\<open>int\<close>.\<close>

datatype unix_millis = UnixMillis (millis: int)
datatype unix_millis_error = UnixMillisError int

definition unix_millis_new :: "int \<Rightarrow> unix_millis_error + unix_millis" where
  "unix_millis_new v = (if v < 0 then Err (UnixMillisError v) else Ok (UnixMillis v))"

definition valid_millis :: "unix_millis \<Rightarrow> bool" where
  "valid_millis t \<longleftrightarrow> 0 \<le> millis t"

instantiation unix_millis :: linorder
begin

definition less_eq_unix_millis :: "unix_millis \<Rightarrow> unix_millis \<Rightarrow> bool" where
  "less_eq_unix_millis a b = (millis a \<le> millis b)"

definition less_unix_millis :: "unix_millis \<Rightarrow> unix_millis \<Rightarrow> bool" where
  "less_unix_millis a b = (millis a < millis b)"

instance
  by standard (auto simp: less_eq_unix_millis_def less_unix_millis_def unix_millis.expand)

end

interpretation millis_codec: text_codec millis unix_millis_new valid_millis
  by unfold_locales (auto simp: unix_millis_new_def valid_millis_def split: if_splits)

subsection \<open>Identifiers as text\<close>

definition valid_uuid_v7 :: "uuid_api \<Rightarrow> uuid \<Rightarrow> bool" where
  "valid_uuid_v7 U v \<longleftrightarrow> uuid_version_num U v = 7 \<and> uuid_is_rfc4122 U v"

definition valid_workspace_id :: "uuid_api \<Rightarrow> workspace_id \<Rightarrow> bool" where
  "valid_workspace_id U i = valid_uuid_v7 U (workspace_uuid i)"

definition valid_operation_id :: "uuid_api \<Rightarrow> operation_id \<Rightarrow> bool" where
  "valid_operation_id U i = valid_uuid_v7 U (operation_uuid i)"

definition valid_instance_id :: "uuid_api \<Rightarrow> instance_id \<Rightarrow> bool" where
  "valid_instance_id U i = valid_uuid_v7 U (instance_uuid i)"

lemmas id_text_defs =
  workspace_id_from_str_def operation_id_from_str_def instance_id_from_str_def
  workspace_id_to_string_def operation_id_to_string_def instance_id_to_string_def
  typed_uuid_from_str_def valid_workspace_id_def valid_operation_id_def valid_instance_id_def

lemma validate_uuid_v7_eq_Ok [result_simps]:
  "validate_uuid_v7 U v = Inr u \<longleftrightarrow> valid_uuid_v7 U v"
  by (auto simp: validate_uuid_v7_def valid_uuid_v7_def)

lemma parse_uuid_v7_eq_Ok [result_simps]:
  "parse_uuid_v7 U s = Inr v \<longleftrightarrow>
     uuid_parse_str U s = Some v \<and> uuid_hyphenated U v = s \<and> valid_uuid_v7 U v"
  by (auto simp: parse_uuid_v7_def result_simps split: if_splits)

lemma uuid_parse_hyphenated [simp]:
  "uuid_roundtrip U \<Longrightarrow> uuid_parse_str U (uuid_hyphenated U v) = Some v"
  by (simp add: uuid_roundtrip_def)

lemma uuid_hyphenated_inject:
  "uuid_roundtrip U \<Longrightarrow> uuid_hyphenated U v = uuid_hyphenated U w \<longleftrightarrow> v = w"
  by (metis option.inject uuid_parse_hyphenated)

lemma workspace_id_codec:
  "uuid_roundtrip U \<Longrightarrow>
   text_codec (workspace_id_to_string U) (workspace_id_from_str U) (valid_workspace_id U)"
  by unfold_locales (auto simp: id_text_defs result_simps)

lemma operation_id_codec:
  "uuid_roundtrip U \<Longrightarrow>
   text_codec (operation_id_to_string U) (operation_id_from_str U) (valid_operation_id U)"
  by unfold_locales (auto simp: id_text_defs result_simps)

lemma instance_id_codec:
  "uuid_roundtrip U \<Longrightarrow>
   text_codec (instance_id_to_string U) (instance_id_from_str U) (valid_instance_id U)"
  by unfold_locales (auto simp: id_text_defs result_simps)

lemma volume_id_codec:
  "uuid_roundtrip U \<Longrightarrow>
   text_codec (volume_id_to_string U) (volume_id_from_str U) (\<lambda>_. True)"
  by unfold_locales
    (auto simp: volume_id_from_str_def volume_id_to_string_def result_simps split: if_splits)

lemma workspace_id_to_string_inject:
  "uuid_roundtrip U \<Longrightarrow> workspace_id_to_string U i = workspace_id_to_string U j \<longleftrightarrow> i = j"
  by (auto simp: workspace_id_to_string_def uuid_hyphenated_inject workspace_id.expand)

lemma instance_id_to_string_inject:
  "uuid_roundtrip U \<Longrightarrow> instance_id_to_string U i = instance_id_to_string U j \<longleftrightarrow> i = j"
  by (auto simp: instance_id_to_string_def uuid_hyphenated_inject instance_id.expand)

lemma volume_id_to_string_inject:
  "uuid_roundtrip U \<Longrightarrow> volume_id_to_string U i = volume_id_to_string U j \<longleftrightarrow> i = j"
  by (auto simp: volume_id_to_string_def uuid_hyphenated_inject volume_id.expand)

lemma lower_hex_not_special:
  "is_lower_hex c \<Longrightarrow> c \<noteq> CHR ''/'' \<and> c \<noteq> CHR 0x00 \<and> c \<noteq> CHR ''.'' \<and> c \<noteq> CHR ''-''"
  by (auto simp: is_lower_hex_def)

lemma uuid_text_shape_chars:
  assumes "uuid_text_shape s" and "c \<in> set s"
  shows "c = CHR ''-'' \<or> is_lower_hex c"
proof -
  from assms(2) obtain i where "i < length s" "c = s ! i" by (auto simp: in_set_conv_nth)
  then show ?thesis using assms(1) by (cases "i \<in> {8, 13, 18, 23}") (auto simp: uuid_text_shape_def)
qed

end
