(* ===== verification/Uuid_Instance.thy ===== *)
theory Uuid_Instance
  imports Identifiers
begin

text \<open>
  A concrete \<open>uuid_api\<close> that satisfies the documented behaviour the development assumes of
  the \<open>uuid\<close> crate.  It models no code of the repository: the witnesses use it to show
  that the hypotheses \<open>uuid_roundtrip\<close> and \<open>uuid_text_format\<close> hold together.
\<close>

definition hex_char :: "nat \<Rightarrow> char" where
  "hex_char d = ''0123456789abcdef'' ! d"

definition hex_value :: "char \<Rightarrow> nat" where
  "hex_value c = (if c \<le> CHR ''9'' then of_char c - 48 else of_char c - 87)"

definition nibbles :: "nat \<Rightarrow> nat \<Rightarrow> nat list" where
  "nibbles k n = map (\<lambda>i. n div 16 ^ i mod 16) (rev [0..<k])"

definition from_nibbles :: "nat list \<Rightarrow> nat" where
  "from_nibbles ds = foldl (\<lambda>a d. a * 16 + d) 0 ds"

definition digit_positions :: "nat list" where
  "digit_positions = filter (\<lambda>i. i \<notin> {8, 13, 18, 23}) [0..<36]"

definition digit_index :: "nat \<Rightarrow> nat" where
  "digit_index i = (if i < 8 then i else if i < 13 then i - 1 else if i < 18 then i - 2
     else if i < 23 then i - 3 else i - 4)"

definition plain_hyphenated :: "uuid \<Rightarrow> string" where
  "plain_hyphenated u = map (\<lambda>i. if i \<in> {8, 13, 18, 23} then CHR ''-''
     else hex_char (nibbles 32 (unat u) ! digit_index i)) [0..<36]"

definition plain_digits :: "string \<Rightarrow> string" where
  "plain_digits s = map (\<lambda>i. s ! i) digit_positions"

definition plain_parse_str :: "string \<Rightarrow> uuid option" where
  "plain_parse_str s =
     (if length s = 36 \<and> list_all (\<lambda>i. s ! i = CHR ''-'') [8, 13, 18, 23]
        \<and> list_all is_lower_hex (plain_digits s)
      then Some (of_nat (from_nibbles (map hex_value (plain_digits s)))) else None)"

definition plain_uuid :: uuid_api where
  "plain_uuid =
     \<lparr>uuid_parse_str = plain_parse_str, uuid_hyphenated = plain_hyphenated,
      uuid_version_num = (\<lambda>u. nibbles 32 (unat u) ! 12),
      uuid_is_rfc4122 = (\<lambda>u. nibbles 32 (unat u) ! 16 \<in> {8, 9, 10, 11})\<rparr>"

lemma plain_uuid_sel [simp]:
  "uuid_parse_str plain_uuid = plain_parse_str"
  "uuid_hyphenated plain_uuid = plain_hyphenated"
  by (simp_all add: plain_uuid_def)

lemma length_nibbles [simp]: "length (nibbles k n) = k"
  by (simp add: nibbles_def)

lemma nibbles_less: "d \<in> set (nibbles k n) \<Longrightarrow> d < 16"
  by (auto simp: nibbles_def)

lemma foldl_nibbles: "foldl (\<lambda>a d. a * 16 + d) a (nibbles k n) = a * 16 ^ k + n mod 16 ^ k"
proof (induction k arbitrary: a)
  case (Suc k)
  have "n mod 16 ^ Suc k = 16 ^ k * (n div 16 ^ k mod 16) + n mod 16 ^ k"
    using mod_mult2_eq[of n "16 ^ k" 16] by (simp add: mult.commute)
  then show ?case using Suc[of "a * 16 + n div 16 ^ k mod 16"]
    by (simp add: nibbles_def algebra_simps)
qed (simp add: nibbles_def)

lemma from_nibbles_nibbles: "n < 16 ^ k \<Longrightarrow> from_nibbles (nibbles k n) = n"
  by (simp add: from_nibbles_def foldl_nibbles)

lemma hex_char_table:
  "d < 16 \<Longrightarrow> is_lower_hex (hex_char d) \<and> hex_value (hex_char d) = d"
proof -
  have "\<forall>d \<in> set [0..<16]. is_lower_hex (hex_char d) \<and> hex_value (hex_char d) = d"
    by code_simp
  then show "d < 16 \<Longrightarrow> is_lower_hex (hex_char d) \<and> hex_value (hex_char d) = d" by simp
qed

lemma map_digit_index: "map digit_index digit_positions = [0..<32]"
  by code_simp

lemma digit_index_less: "i < 36 \<Longrightarrow> digit_index i < 32"
  by (auto simp: digit_index_def)

lemma plain_hyphenated_nth:
  "i < 36 \<Longrightarrow> plain_hyphenated u ! i = (if i \<in> {8, 13, 18, 23} then CHR ''-''
     else hex_char (nibbles 32 (unat u) ! digit_index i))"
  by (simp add: plain_hyphenated_def)

lemma plain_digits_hyphenated:
  "plain_digits (plain_hyphenated u) = map hex_char (nibbles 32 (unat u))"
proof -
  have "plain_digits (plain_hyphenated u)
      = map (\<lambda>i. hex_char (nibbles 32 (unat u) ! digit_index i)) digit_positions"
    by (auto simp: plain_digits_def plain_hyphenated_nth digit_positions_def)
  also have "\<dots> = map (\<lambda>k. hex_char (nibbles 32 (unat u) ! k)) (map digit_index digit_positions)"
    by simp
  also have "\<dots> = map hex_char (nibbles 32 (unat u))"
    unfolding map_digit_index by (rule nth_equalityI) auto
  finally show ?thesis .
qed

lemma plain_uuid_roundtrip: "uuid_roundtrip plain_uuid"
proof -
  have "plain_parse_str (plain_hyphenated u) = Some u" for u
  proof -
    have hex: "list_all is_lower_hex (plain_digits (plain_hyphenated u))"
      by (auto simp: plain_digits_hyphenated list_all_iff hex_char_table dest: nibbles_less)
    have "map hex_value (plain_digits (plain_hyphenated u)) = nibbles 32 (unat u)"
      by (simp add: plain_digits_hyphenated map_idI hex_char_table nibbles_less o_def)
    moreover have "unat u < 16 ^ 32" using unsigned_less[of u] by simp
    ultimately have "of_nat (from_nibbles (map hex_value (plain_digits (plain_hyphenated u)))) = u"
      by (simp add: from_nibbles_nibbles)
    moreover have "length (plain_hyphenated u) = 36" by (simp add: plain_hyphenated_def)
    ultimately show ?thesis using hex
      by (simp add: plain_parse_str_def plain_hyphenated_nth)
  qed
  then show ?thesis by (simp add: uuid_roundtrip_def)
qed

lemma plain_uuid_text_format: "uuid_text_format plain_uuid"
  unfolding uuid_text_format_def
proof (intro allI conjI impI)
  fix u :: uuid
  show "uuid_text_shape (uuid_hyphenated plain_uuid u)"
    unfolding uuid_text_shape_def
  proof (intro conjI allI impI)
    show "length (uuid_hyphenated plain_uuid u) = 36" by (simp add: plain_hyphenated_def)
    fix i :: nat assume i: "i < 36"
    have "nibbles 32 (unat u) ! digit_index i < 16"
      by (rule nibbles_less[of _ 32 "unat u"]) (simp add: digit_index_less[OF i])
    then show "if i \<in> {8, 13, 18, 23} then uuid_hyphenated plain_uuid u ! i = CHR ''-''
        else is_lower_hex (uuid_hyphenated plain_uuid u ! i)"
      using i by (simp add: plain_hyphenated_nth hex_char_table)
  qed
  show "uuid_hyphenated plain_uuid u ! 14 = CHR ''7''" if "uuid_version_num plain_uuid u = 7"
    using that by (simp add: plain_uuid_def hex_char_def plain_hyphenated_nth digit_index_def)
  show "uuid_hyphenated plain_uuid u ! 19 \<in> set ''89ab''" if "uuid_is_rfc4122 plain_uuid u"
    using that by (auto simp: plain_uuid_def hex_char_def plain_hyphenated_nth digit_index_def)
qed

text \<open>A version-7 identifier of the instance, as text and as a value.\<close>

definition sample_uuid :: uuid where
  "sample_uuid = 0x01890a5dac96774bbd5b55c7b8d09f33"

lemma sample_uuid_valid: "valid_uuid_v7 plain_uuid sample_uuid"
  by (simp add: valid_uuid_v7_def plain_uuid_def sample_uuid_def nibbles_def nth_map rev_nth)

end
