(* ===== verification/Git_Status.thy ===== *)
theory Git_Status
  imports Prelude
begin

text \<open>
  Tracked-change evidence: the porcelain-v2 parser and the aggregate policy of
  \<open>thinws-core/src/git.rs\<close>, and the inspection reports of \<open>thinws-ports/src/git.rs\<close>.

  The first half translates the parser field by field; the second half states what it
  accepts: \<open>status_entry\<close> is the grammar, \<open>render_entry\<close> its text, and the parser returns a
  count exactly on the texts of well-formed entries.
\<close>

subsection \<open>The parser\<close>

datatype status_field =
  RecordType | HeaderField | Xy | Submodule | HeadMode | IndexMode | WorktreeMode
| HeadObject | IndexObject | StageOneMode | StageTwoMode | StageThreeMode
| StageOneObject | StageTwoObject | StageThreeObject | Score | Path

datatype status_parse_error =
  UnknownRecord nat char
| InvalidField nat char status_field
| TruncatedRecord nat "char option"
| MissingRenameSource nat

abbreviation SP :: char where "SP \<equiv> CHR '' ''"

definition invalid_field :: "nat \<Rightarrow> char \<Rightarrow> status_field \<Rightarrow> status_parse_error" where
  "invalid_field off rt f = InvalidField off rt f"

text \<open>\<open>std::array::from_fn\<close> over the \<open>splitn\<close> iterator: absent fields become empty.\<close>

definition pad_fields :: "nat \<Rightarrow> bytes list \<Rightarrow> bytes list" where
  "pad_fields n fs = fs @ replicate (n - length fs) []"

definition split_fields :: "nat \<Rightarrow> bytes \<Rightarrow> nat \<Rightarrow> char \<Rightarrow> status_parse_error + bytes list" where
  "split_fields n rec off rt =
     (let parsed = pad_fields n (splitn n SP rec)
      in if list_ex (\<lambda>f. f = []) parsed then Err (TruncatedRecord off (Some rt))
         else if parsed ! 0 \<noteq> [rt] then Err (invalid_field off rt RecordType)
         else Ok parsed)"

definition xy_ok :: "bytes \<Rightarrow> bool \<Rightarrow> bool" where
  "xy_ok xy unmerged =
     (if unmerged then xy \<in> {''DD'', ''AU'', ''UD'', ''UA'', ''DU'', ''AA'', ''UU''}
      else length xy = 2 \<and> list_all (\<lambda>b. b \<in> set ''.MTADRC'') xy)"

definition validate_xy :: "bytes \<Rightarrow> bool \<Rightarrow> nat \<Rightarrow> char \<Rightarrow> status_parse_error + unit" where
  "validate_xy xy unmerged off rt =
     (if xy_ok xy unmerged then Ok () else Err (invalid_field off rt Xy))"

definition submodule_ok :: "bytes \<Rightarrow> bool" where
  "submodule_ok s =
     (s = ''N...'' \<or>
      length s = 4 \<and> s ! 0 = CHR ''S'' \<and> s ! 1 \<in> {CHR ''.'', CHR ''C''}
        \<and> s ! 2 \<in> {CHR ''.'', CHR ''M''} \<and> s ! 3 \<in> {CHR ''.'', CHR ''U''})"

definition validate_submodule :: "bytes \<Rightarrow> nat \<Rightarrow> char \<Rightarrow> status_parse_error + unit" where
  "validate_submodule s off rt =
     (if submodule_ok s then Ok () else Err (invalid_field off rt Submodule))"

definition mode_ok :: "bytes \<Rightarrow> bool" where
  "mode_ok m = (length m = 6 \<and> list_all (\<lambda>b. CHR ''0'' \<le> b \<and> b \<le> CHR ''7'') m)"

definition validate_mode :: "bytes \<Rightarrow> status_field \<Rightarrow> nat \<Rightarrow> char \<Rightarrow> status_parse_error + unit" where
  "validate_mode m f off rt = (if mode_ok m then Ok () else Err (invalid_field off rt f))"

definition object_ok :: "bytes \<Rightarrow> bool" where
  "object_ok obj = (length obj \<in> {40, 64} \<and> list_all is_ascii_hexdigit obj)"

definition validate_object :: "bytes \<Rightarrow> status_field \<Rightarrow> nat \<Rightarrow> char \<Rightarrow> status_parse_error + unit" where
  "validate_object obj f off rt = (if object_ok obj then Ok () else Err (invalid_field off rt f))"

text \<open>\<open>try_fold\<close> over \<open>u16\<close> with \<open>checked_mul\<close> and \<open>checked_add\<close>.\<close>

definition checked_mul_u16 :: "16 word \<Rightarrow> 16 word \<Rightarrow> 16 word option" where
  "checked_mul_u16 a b = (if unat a * unat b < 2 ^ 16 then Some (a * b) else None)"

definition checked_add_u16 :: "16 word \<Rightarrow> 16 word \<Rightarrow> 16 word option" where
  "checked_add_u16 a b = (if unat a + unat b < 2 ^ 16 then Some (a + b) else None)"

fun parse_decimal_from :: "16 word \<Rightarrow> bytes \<Rightarrow> 16 word option" where
  "parse_decimal_from v [] = Some v"
| "parse_decimal_from v (d # ds) =
     Option.bind (checked_mul_u16 v 10) (\<lambda>m.
     Option.bind (checked_add_u16 m (of_nat (of_char d - 48))) (\<lambda>v'.
       parse_decimal_from v' ds))"

definition parse_decimal :: "bytes \<Rightarrow> 16 word option" where
  "parse_decimal ds = parse_decimal_from 0 ds"

definition score_ok :: "bytes \<Rightarrow> bytes \<Rightarrow> bool" where
  "score_ok score xy =
     (case score of
        [] \<Rightarrow> False
      | kind # v \<Rightarrow>
          kind \<in> {CHR ''R'', CHR ''C''} \<and> kind \<in> set xy \<and> v \<noteq> [] \<and> length v \<le> 3
          \<and> list_all is_ascii_digit v
          \<and> (case parse_decimal v of None \<Rightarrow> False | Some n \<Rightarrow> n \<le> 100))"

definition validate_score :: "bytes \<Rightarrow> bytes \<Rightarrow> nat \<Rightarrow> status_parse_error + unit" where
  "validate_score score xy off =
     (if score_ok score xy then Ok () else Err (invalid_field off (CHR ''2'') Score))"

definition only_untracked_submodule :: "bytes list \<Rightarrow> bool" where
  "only_untracked_submodule fs =
     (fs ! 1 = ''.M'' \<and> fs ! 2 = ''S..U'' \<and> fs ! 3 = ''160000'' \<and> fs ! 3 = fs ! 4
      \<and> fs ! 4 = fs ! 5 \<and> fs ! 6 = fs ! 7)"

definition parse_ordinary :: "bytes \<Rightarrow> nat \<Rightarrow> bytes set \<Rightarrow> status_parse_error + bytes set" where
  "parse_ordinary rec off paths =
     and_then (split_fields 9 rec off (CHR ''1'')) (\<lambda>fs.
     and_then (validate_xy (fs ! 1) False off (CHR ''1'')) (\<lambda>_.
     and_then (validate_submodule (fs ! 2) off (CHR ''1'')) (\<lambda>_.
     and_then (validate_mode (fs ! 3) HeadMode off (CHR ''1'')) (\<lambda>_.
     and_then (validate_mode (fs ! 4) IndexMode off (CHR ''1'')) (\<lambda>_.
     and_then (validate_mode (fs ! 5) WorktreeMode off (CHR ''1'')) (\<lambda>_.
     and_then (validate_object (fs ! 6) HeadObject off (CHR ''1'')) (\<lambda>_.
     and_then (validate_object (fs ! 7) IndexObject off (CHR ''1'')) (\<lambda>_.
       if fs ! 1 = ''..'' \<or> list_ex (\<lambda>b. b \<in> {CHR ''R'', CHR ''C''}) (fs ! 1)
       then Err (invalid_field off (CHR ''1'') Xy)
       else if \<not> only_untracked_submodule fs then Ok (insert (fs ! 8) paths)
       else Ok paths))))))))"

definition parse_renamed :: "bytes \<Rightarrow> nat \<Rightarrow> bytes set \<Rightarrow> status_parse_error + bytes set" where
  "parse_renamed rec off paths =
     and_then (split_fields 10 rec off (CHR ''2'')) (\<lambda>fs.
     and_then (validate_xy (fs ! 1) False off (CHR ''2'')) (\<lambda>_.
     and_then (validate_submodule (fs ! 2) off (CHR ''2'')) (\<lambda>_.
     and_then (validate_mode (fs ! 3) HeadMode off (CHR ''2'')) (\<lambda>_.
     and_then (validate_mode (fs ! 4) IndexMode off (CHR ''2'')) (\<lambda>_.
     and_then (validate_mode (fs ! 5) WorktreeMode off (CHR ''2'')) (\<lambda>_.
     and_then (validate_object (fs ! 6) HeadObject off (CHR ''2'')) (\<lambda>_.
     and_then (validate_object (fs ! 7) IndexObject off (CHR ''2'')) (\<lambda>_.
     and_then (validate_score (fs ! 8) (fs ! 1) off) (\<lambda>_.
       Ok (insert (fs ! 9) paths))))))))))"

definition parse_unmerged :: "bytes \<Rightarrow> nat \<Rightarrow> bytes set \<Rightarrow> status_parse_error + bytes set" where
  "parse_unmerged rec off paths =
     and_then (split_fields 11 rec off (CHR ''u'')) (\<lambda>fs.
     and_then (validate_xy (fs ! 1) True off (CHR ''u'')) (\<lambda>_.
     and_then (validate_submodule (fs ! 2) off (CHR ''u'')) (\<lambda>_.
     and_then (validate_mode (fs ! 3) StageOneMode off (CHR ''u'')) (\<lambda>_.
     and_then (validate_mode (fs ! 4) StageTwoMode off (CHR ''u'')) (\<lambda>_.
     and_then (validate_mode (fs ! 5) StageThreeMode off (CHR ''u'')) (\<lambda>_.
     and_then (validate_mode (fs ! 6) WorktreeMode off (CHR ''u'')) (\<lambda>_.
     and_then (validate_object (fs ! 7) StageOneObject off (CHR ''u'')) (\<lambda>_.
     and_then (validate_object (fs ! 8) StageTwoObject off (CHR ''u'')) (\<lambda>_.
     and_then (validate_object (fs ! 9) StageThreeObject off (CHR ''u'')) (\<lambda>_.
       Ok (insert (fs ! 10) paths)))))))))))"

definition parse_other_item :: "bytes \<Rightarrow> nat \<Rightarrow> char \<Rightarrow> status_parse_error + unit" where
  "parse_other_item rec off rt =
     (if length rec < 3 \<or> rec ! 1 \<noteq> SP \<or> drop 2 rec = [] then Err (invalid_field off rt Path)
      else Ok ())"

definition parse_header :: "bytes \<Rightarrow> nat \<Rightarrow> status_parse_error + unit" where
  "parse_header rec off =
     (if length rec < 3 \<or> rec ! 1 \<noteq> SP \<or> drop 2 rec = [] \<or> rec ! 2 = SP
         \<or> list_ex (\<lambda>b. b \<in> {CHR 0x0A, CHR 0x0D}) (drop 2 rec)
      then Err (invalid_field off (CHR ''#'') HeaderField)
      else Ok ())"

text \<open>
  The \<open>while offset < output.len()\<close> loop.  Slices \<open>output[a..b]\<close> are \<open>take\<close> and \<open>drop\<close>; every
  turn consumes at least the terminating NUL, so the distance to the end decreases.
\<close>

function parse_records :: "bytes \<Rightarrow> nat \<Rightarrow> bytes set \<Rightarrow> status_parse_error + bytes set" where
  "parse_records output offset paths =
     (if offset < length output then
        case position (\<lambda>b. b = NUL) (drop offset output) of
          None \<Rightarrow> Err (TruncatedRecord offset (Some (output ! offset)))
        | Some relative \<Rightarrow>
            let record_end = offset + relative;
                rec = take relative (drop offset output);
                next_off = record_end + 1;
                record_type = (case rec of [] \<Rightarrow> NUL | b # _ \<Rightarrow> b)
            in if record_type = CHR ''1'' then
                 and_then (parse_ordinary rec offset paths) (parse_records output next_off)
               else if record_type = CHR ''2'' then
                 and_then (parse_renamed rec offset paths) (\<lambda>paths'.
                   case position (\<lambda>b. b = NUL) (drop next_off output) of
                     None \<Rightarrow> Err (MissingRenameSource offset)
                   | Some rel \<Rightarrow>
                       if next_off + rel = next_off then Err (MissingRenameSource offset)
                       else parse_records output (next_off + rel + 1) paths')
               else if record_type = CHR ''u'' then
                 and_then (parse_unmerged rec offset paths) (parse_records output next_off)
               else if record_type = CHR ''?'' \<or> record_type = CHR ''!'' then
                 and_then (parse_other_item rec offset record_type)
                   (\<lambda>_. parse_records output next_off paths)
               else if record_type = CHR ''#'' then
                 and_then (parse_header rec offset) (\<lambda>_. parse_records output next_off paths)
               else Err (UnknownRecord offset record_type)
      else Ok paths)"
  by pat_completeness auto
termination
  by (relation "measure (\<lambda>(output, offset, _). length output - offset)") auto

declare parse_records.simps [simp del]

definition parse_tracked_change_count :: "bytes \<Rightarrow> status_parse_error + nat" where
  "parse_tracked_change_count output =
     and_then (parse_records output 0 {}) (\<lambda>paths. Ok (card paths))"

subsection \<open>The accepted grammar\<close>

text \<open>
  One entry of the output.  The constructors follow the porcelain-v2 record types; the
  fields are the texts between the spaces.
\<close>

datatype status_entry =
  Ordinary (ent_xy: bytes) (ent_sub: bytes) (ent_modes: "bytes list") (ent_objects: "bytes list")
    (ent_path: bytes)
| Renamed (ent_xy: bytes) (ent_sub: bytes) (ent_modes: "bytes list") (ent_objects: "bytes list")
    (ent_score: bytes) (ent_path: bytes) (ent_origin: bytes)
| Unmerged (ent_xy: bytes) (ent_sub: bytes) (ent_modes: "bytes list") (ent_objects: "bytes list")
    (ent_path: bytes)
| Other char bytes
| Header bytes

fun entry_fields :: "status_entry \<Rightarrow> bytes list" where
  "entry_fields (Ordinary xy sub ms os p) = ''1'' # xy # sub # ms @ os @ [p]"
| "entry_fields (Renamed xy sub ms os sc p origin) = ''2'' # xy # sub # ms @ os @ [sc, p]"
| "entry_fields (Unmerged xy sub ms os p) = ''u'' # xy # sub # ms @ os @ [p]"
| "entry_fields (Other t p) = [[t], p]"
| "entry_fields (Header h) = [''#'', h]"

definition entry_record :: "status_entry \<Rightarrow> bytes" where
  "entry_record e = join_with SP (entry_fields e)"

fun entry_trailer :: "status_entry \<Rightarrow> bytes" where
  "entry_trailer (Renamed xy sub ms os sc p origin) = origin @ [NUL]"
| "entry_trailer e = []"

definition render_entry :: "status_entry \<Rightarrow> bytes" where
  "render_entry e = entry_record e @ NUL # entry_trailer e"

definition path_text :: "bytes \<Rightarrow> bool" where
  "path_text p \<longleftrightarrow> p \<noteq> [] \<and> NUL \<notin> set p"

definition meta_ok :: "nat \<Rightarrow> nat \<Rightarrow> bytes \<Rightarrow> bool \<Rightarrow> bytes \<Rightarrow> bytes list \<Rightarrow> bytes list \<Rightarrow> bool" where
  "meta_ok nm no xy unmerged sub ms os \<longleftrightarrow>
     xy_ok xy unmerged \<and> submodule_ok sub \<and> length ms = nm \<and> list_all mode_ok ms
     \<and> length os = no \<and> list_all object_ok os"

fun entry_ok :: "status_entry \<Rightarrow> bool" where
  "entry_ok (Ordinary xy sub ms os p) \<longleftrightarrow>
     meta_ok 3 2 xy False sub ms os \<and> path_text p \<and> xy \<noteq> ''..''
     \<and> CHR ''R'' \<notin> set xy \<and> CHR ''C'' \<notin> set xy"
| "entry_ok (Renamed xy sub ms os sc p origin) \<longleftrightarrow>
     meta_ok 3 2 xy False sub ms os \<and> score_ok sc xy \<and> path_text p \<and> path_text origin"
| "entry_ok (Unmerged xy sub ms os p) \<longleftrightarrow> meta_ok 4 3 xy True sub ms os \<and> path_text p"
| "entry_ok (Other t p) \<longleftrightarrow> t \<in> {CHR ''?'', CHR ''!''} \<and> path_text p"
| "entry_ok (Header h) \<longleftrightarrow>
     path_text h \<and> hd h \<noteq> SP \<and> CHR 0x0A \<notin> set h \<and> CHR 0x0D \<notin> set h"

text \<open>The tracked path an entry contributes, if any.\<close>

fun tracked_paths :: "status_entry \<Rightarrow> bytes set" where
  "tracked_paths (Ordinary xy sub ms os p) =
     (if xy = ''.M'' \<and> sub = ''S..U'' \<and> ms = [''160000'', ''160000'', ''160000''] \<and> os ! 0 = os ! 1
      then {} else {p})"
| "tracked_paths (Renamed xy sub ms os sc p origin) = {p}"
| "tracked_paths (Unmerged xy sub ms os p) = {p}"
| "tracked_paths (Other t p) = {}"
| "tracked_paths (Header h) = {}"

subsection \<open>Field and record lemmas\<close>

lemma split_fields_eq_Ok:
  assumes "0 < n"
  shows "split_fields n rec off rt = Inr fs \<longleftrightarrow>
    length fs = n \<and> rec = join_with SP fs \<and> (\<forall>p \<in> set (butlast fs). SP \<notin> set p)
    \<and> [] \<notin> set fs \<and> fs ! 0 = [rt]"
proof -
  obtain m where n: "n = Suc m" using assms by (cases n) auto
  have le: "length (splitn n SP rec) \<le> n" by (rule splitn_length)
  have pad: "[] \<notin> set (pad_fields n (splitn n SP rec)) \<longleftrightarrow>
      length (splitn n SP rec) = n \<and> [] \<notin> set (splitn n SP rec)"
    using le by (auto simp: pad_fields_def)
  have pad_id: "pad_fields n (splitn n SP rec) = splitn n SP rec" if "length (splitn n SP rec) = n"
    using that by (simp add: pad_fields_def)
  have ex: "list_ex (\<lambda>f. f = []) xs \<longleftrightarrow> [] \<in> set xs" for xs :: "bytes list"
    by (auto simp: list_ex_iff)
  have "split_fields n rec off rt = Inr fs \<longleftrightarrow>
      length fs = n \<and> splitn n SP rec = fs \<and> [] \<notin> set fs \<and> fs ! 0 = [rt]"
    using pad pad_id by (auto simp: split_fields_def Let_def ex)
  then show ?thesis using splitn_full_iff[of fs m SP rec] n by auto
qed

lemma validate_field_simps [result_simps]:
  "validate_xy xy um off rt = Inr u \<longleftrightarrow> xy_ok xy um"
  "validate_submodule s off rt = Inr u \<longleftrightarrow> submodule_ok s"
  "validate_mode m f off rt = Inr u \<longleftrightarrow> mode_ok m"
  "validate_object obj f off rt = Inr u \<longleftrightarrow> object_ok obj"
  "validate_score sc xy off = Inr u \<longleftrightarrow> score_ok sc xy"
  by (simp_all add: validate_xy_def validate_submodule_def validate_mode_def
      validate_object_def validate_score_def)

text \<open>No field but the last may hold a space, and none may hold a NUL.\<close>

definition plain_field :: "bytes \<Rightarrow> bool" where
  "plain_field f \<longleftrightarrow> f \<noteq> [] \<and> SP \<notin> set f \<and> NUL \<notin> set f"

lemma xy_ok_plain: "xy_ok xy um \<Longrightarrow> plain_field xy"
proof (cases um)
  case False
  assume "xy_ok xy um"
  with False have "length xy = 2" and sub: "\<forall>b \<in> set xy. b \<in> set ''.MTADRC''"
    by (simp_all add: xy_ok_def list_all_iff)
  moreover have "SP \<notin> set ''.MTADRC''" "NUL \<notin> set ''.MTADRC''" by simp_all
  ultimately show ?thesis unfolding plain_field_def by (metis list.size(3) zero_neq_numeral)
qed (auto simp: xy_ok_def plain_field_def)

lemma submodule_ok_plain: "submodule_ok s \<Longrightarrow> plain_field s"
proof (cases "s = ''N...''")
  case False
  assume "submodule_ok s"
  with False have len: "length s = 4" and chars: "s ! 0 = CHR ''S''" "s ! 1 \<in> {CHR ''.'', CHR ''C''}"
    "s ! 2 \<in> {CHR ''.'', CHR ''M''}" "s ! 3 \<in> {CHR ''.'', CHR ''U''}"
    by (simp_all add: submodule_ok_def)
  have "s ! i \<noteq> SP \<and> s ! i \<noteq> NUL" if "i < 4" for i
  proof -
    from that consider "i = 0" | "i = 1" | "i = 2" | "i = 3" by linarith
    then show ?thesis by cases (use chars in auto)
  qed
  then show ?thesis using len by (auto simp: plain_field_def in_set_conv_nth)
qed (simp add: plain_field_def)

lemma mode_ok_plain: "mode_ok m \<Longrightarrow> plain_field m"
  by (auto simp: mode_ok_def plain_field_def list_all_iff)

lemma hexdigit_plain: "is_ascii_hexdigit c \<Longrightarrow> c \<noteq> SP \<and> c \<noteq> NUL"
  by (auto simp: is_ascii_hexdigit_def is_ascii_digit_def)

lemma object_ok_plain: "object_ok m \<Longrightarrow> plain_field m"
  using hexdigit_plain by (fastforce simp: object_ok_def plain_field_def list_all_iff)

lemma score_ok_plain: "score_ok s xy \<Longrightarrow> plain_field s"
  by (auto simp: score_ok_def plain_field_def list_all_iff is_ascii_digit_def split: list.splits)

lemmas field_plain = xy_ok_plain submodule_ok_plain mode_ok_plain object_ok_plain score_ok_plain

lemma plain_tags [simp]: "plain_field ''1''" "plain_field ''2''" "plain_field ''u''"
  by (simp_all add: plain_field_def)

lemma list_ex_rename_flags [simp]:
  "list_ex (\<lambda>b. b \<in> {CHR ''R'', CHR ''C''}) xy \<longleftrightarrow> CHR ''R'' \<in> set xy \<or> CHR ''C'' \<in> set xy"
  "list_ex (\<lambda>b. b = CHR ''R'' \<or> b = CHR ''C'') xy \<longleftrightarrow> CHR ''R'' \<in> set xy \<or> CHR ''C'' \<in> set xy"
  by (auto simp: list_ex_iff)

lemma split_fields_join:
  assumes "list_all plain_field (butlast fs)" "length fs = n" "0 < n" "last fs \<noteq> []" "fs ! 0 = [rt]"
  shows "split_fields n (join_with SP fs) off rt = Inr fs"
proof -
  have "fs \<noteq> []" using assms(2,3) by auto
  then have "set fs = insert (last fs) (set (butlast fs))"
    by (metis append_butlast_last_id list.set(1,2) set_append Un_insert_right sup_bot_right)
  then show ?thesis using assms
    by (auto simp: split_fields_eq_Ok plain_field_def list_all_iff)
qed

lemma split_fields_parts:
  assumes "split_fields n rec off rt = Inr fs" "0 < n"
  shows "length fs = n" "rec = join_with SP fs" "fs ! 0 = [rt]" "fs ! (n - 1) \<noteq> []"
    "fs = map (\<lambda>i. fs ! i) [0..<n]"
proof -
  from assms have f: "length fs = n" "rec = join_with SP fs" "fs ! 0 = [rt]" "[] \<notin> set fs"
    by (simp_all add: split_fields_eq_Ok)
  then show "length fs = n" "rec = join_with SP fs" "fs ! 0 = [rt]" by simp_all
  have "fs ! (n - 1) \<in> set fs" using f(1) assms(2) by simp
  then show "fs ! (n - 1) \<noteq> []" using f(4) by metis
  show "fs = map (\<lambda>i. fs ! i) [0..<n]" using f(1) by (metis map_nth)
qed

lemma list_length_2: "length xs = 2 \<longleftrightarrow> (\<exists>a b. xs = [a, b])"
  by (auto simp: numeral_eq_Suc length_Suc_conv)

lemma list_length_3: "length xs = 3 \<longleftrightarrow> (\<exists>a b c. xs = [a, b, c])"
  by (auto simp: numeral_eq_Suc length_Suc_conv)

lemma list_length_4: "length xs = 4 \<longleftrightarrow> (\<exists>a b c d. xs = [a, b, c, d])"
  by (auto simp: numeral_eq_Suc length_Suc_conv)

text \<open>
  The syntax of an entry apart from the NULs, which the enclosing loop has already used to
  cut the record out.
\<close>

fun body_ok :: "status_entry \<Rightarrow> bool" where
  "body_ok (Ordinary xy sub ms os p) \<longleftrightarrow>
     meta_ok 3 2 xy False sub ms os \<and> p \<noteq> [] \<and> xy \<noteq> ''..''
     \<and> CHR ''R'' \<notin> set xy \<and> CHR ''C'' \<notin> set xy"
| "body_ok (Renamed xy sub ms os sc p origin) \<longleftrightarrow>
     meta_ok 3 2 xy False sub ms os \<and> score_ok sc xy \<and> p \<noteq> []"
| "body_ok (Unmerged xy sub ms os p) \<longleftrightarrow> meta_ok 4 3 xy True sub ms os \<and> p \<noteq> []"
| "body_ok (Other t p) \<longleftrightarrow> t \<in> {CHR ''?'', CHR ''!''} \<and> p \<noteq> []"
| "body_ok (Header h) \<longleftrightarrow> h \<noteq> [] \<and> hd h \<noteq> SP \<and> CHR 0x0A \<notin> set h \<and> CHR 0x0D \<notin> set h"

lemmas validations = validate_xy_def validate_submodule_def validate_mode_def
  validate_object_def validate_score_def

lemma parse_ordinary_sound:
  assumes "parse_ordinary rec off paths = Inr paths'"
  obtains xy sub ms os p where "body_ok (Ordinary xy sub ms os p)"
    "rec = entry_record (Ordinary xy sub ms os p)"
    "paths' = paths \<union> tracked_paths (Ordinary xy sub ms os p)"
proof -
  from assms obtain fs where fs: "split_fields 9 rec off (CHR ''1'') = Inr fs" and
    ok: "xy_ok (fs ! 1) False"
    "submodule_ok (fs ! 2)" "mode_ok (fs ! 3)" "mode_ok (fs ! 4)" "mode_ok (fs ! 5)"
    "object_ok (fs ! 6)" "object_ok (fs ! 7)" and out: "fs ! 1 \<noteq> ''..''"
    "CHR ''R'' \<notin> set (fs ! 1)" "CHR ''C'' \<notin> set (fs ! 1)"
    "paths' = (if \<not> only_untracked_submodule fs then insert (fs ! 8) paths else paths)"
    by (auto simp: parse_ordinary_def result_simps split: if_splits)
  note parts = split_fields_parts[OF fs]
  have e: "fs = [fs ! 0, fs ! 1, fs ! 2, fs ! 3, fs ! 4, fs ! 5, fs ! 6, fs ! 7, fs ! 8]"
    by (rule trans[OF parts(5)]) (simp_all add: upt_rec numeral_eq_Suc)
  let ?e = "Ordinary (fs ! 1) (fs ! 2) [fs ! 3, fs ! 4, fs ! 5] [fs ! 6, fs ! 7] (fs ! 8)"
  have "rec = entry_record ?e"
    unfolding entry_record_def using parts(2,3) e by simp
  moreover have "paths' = paths \<union> tracked_paths ?e"
    using out(4) by (auto simp: only_untracked_submodule_def)
  moreover have "body_ok ?e" using ok out(1-3) parts(4) by (simp add: meta_ok_def)
  ultimately show ?thesis using that by blast
qed

lemma parse_ordinary_complete:
  assumes "body_ok (Ordinary xy sub ms os p)"
  shows "parse_ordinary (entry_record (Ordinary xy sub ms os p)) off paths
    = Inr (paths \<union> tracked_paths (Ordinary xy sub ms os p))"
proof -
  from assms obtain a b c d e where l: "ms = [a, b, c]" "os = [d, e]"
    by (auto simp: meta_ok_def list_length_2 list_length_3)
  with assms have ok: "xy_ok xy False" "submodule_ok sub" "mode_ok a" "mode_ok b" "mode_ok c"
    "object_ok d" "object_ok e" "p \<noteq> []" "xy \<noteq> ''..''" "CHR ''R'' \<notin> set xy" "CHR ''C'' \<notin> set xy"
    by (simp_all add: meta_ok_def)
  have "split_fields 9 (entry_record (Ordinary xy sub ms os p)) off (CHR ''1'')
      = Inr [''1'', xy, sub, a, b, c, d, e, p]"
    unfolding entry_record_def l entry_fields.simps append.simps
    by (rule split_fields_join) (use ok in \<open>simp_all add: field_plain xy_ok_plain[OF ok(1)]\<close>)
  then show ?thesis using ok
    by (simp add: parse_ordinary_def validations only_untracked_submodule_def l)
qed

lemma parse_renamed_sound:
  assumes "parse_renamed rec off paths = Inr paths'"
  obtains xy sub ms os sc p where "\<And>origin. body_ok (Renamed xy sub ms os sc p origin)"
    "\<And>origin. rec = entry_record (Renamed xy sub ms os sc p origin)" "paths' = insert p paths"
proof -
  from assms obtain fs where fs: "split_fields 10 rec off (CHR ''2'') = Inr fs" and
    ok: "xy_ok (fs ! 1) False"
    "submodule_ok (fs ! 2)" "mode_ok (fs ! 3)" "mode_ok (fs ! 4)" "mode_ok (fs ! 5)"
    "object_ok (fs ! 6)" "object_ok (fs ! 7)" "score_ok (fs ! 8) (fs ! 1)" and
    out: "paths' = insert (fs ! 9) paths"
    by (auto simp: parse_renamed_def result_simps)
  note parts = split_fields_parts[OF fs]
  have e: "fs = [fs ! 0, fs ! 1, fs ! 2, fs ! 3, fs ! 4, fs ! 5, fs ! 6, fs ! 7, fs ! 8, fs ! 9]"
    by (rule trans[OF parts(5)]) (simp_all add: upt_rec numeral_eq_Suc)
  let ?e = "Renamed (fs ! 1) (fs ! 2) [fs ! 3, fs ! 4, fs ! 5] [fs ! 6, fs ! 7] (fs ! 8) (fs ! 9)"
  have "rec = entry_record (?e origin)" for origin
    unfolding entry_record_def using parts(2,3) e by simp
  moreover have "body_ok (?e origin)" for origin using ok parts(4) by (simp add: meta_ok_def)
  ultimately show ?thesis using that out by blast
qed

lemma parse_renamed_complete:
  assumes "body_ok (Renamed xy sub ms os sc p origin)"
  shows "parse_renamed (entry_record (Renamed xy sub ms os sc p origin)) off paths
    = Inr (insert p paths)"
proof -
  from assms obtain a b c d e where l: "ms = [a, b, c]" "os = [d, e]"
    by (auto simp: meta_ok_def list_length_2 list_length_3)
  with assms have ok: "xy_ok xy False" "submodule_ok sub" "mode_ok a" "mode_ok b" "mode_ok c"
    "object_ok d" "object_ok e" "score_ok sc xy" "p \<noteq> []"
    by (simp_all add: meta_ok_def)
  have "split_fields 10 (entry_record (Renamed xy sub ms os sc p origin)) off (CHR ''2'')
      = Inr [''2'', xy, sub, a, b, c, d, e, sc, p]"
    unfolding entry_record_def l entry_fields.simps append.simps
    by (rule split_fields_join)
      (use ok in \<open>simp_all add: field_plain xy_ok_plain[OF ok(1)] score_ok_plain[OF ok(8)]\<close>)
  then show ?thesis using ok by (simp add: parse_renamed_def validations)
qed

lemma parse_unmerged_sound:
  assumes "parse_unmerged rec off paths = Inr paths'"
  obtains xy sub ms os p where "body_ok (Unmerged xy sub ms os p)"
    "rec = entry_record (Unmerged xy sub ms os p)" "paths' = insert p paths"
proof -
  from assms obtain fs where fs: "split_fields 11 rec off (CHR ''u'') = Inr fs" and
    ok: "xy_ok (fs ! 1) True"
    "submodule_ok (fs ! 2)" "mode_ok (fs ! 3)" "mode_ok (fs ! 4)" "mode_ok (fs ! 5)" "mode_ok (fs ! 6)"
    "object_ok (fs ! 7)" "object_ok (fs ! 8)" "object_ok (fs ! 9)" and
    out: "paths' = insert (fs ! 10) paths"
    by (auto simp: parse_unmerged_def result_simps)
  note parts = split_fields_parts[OF fs]
  have e: "fs = [fs ! 0, fs ! 1, fs ! 2, fs ! 3, fs ! 4, fs ! 5, fs ! 6, fs ! 7, fs ! 8, fs ! 9, fs ! 10]"
    by (rule trans[OF parts(5)]) (simp_all add: upt_rec numeral_eq_Suc)
  let ?e = "Unmerged (fs ! 1) (fs ! 2) [fs ! 3, fs ! 4, fs ! 5, fs ! 6] [fs ! 7, fs ! 8, fs ! 9] (fs ! 10)"
  have "rec = entry_record ?e"
    unfolding entry_record_def using parts(2,3) e by simp
  moreover have "body_ok ?e" using ok parts(4) by (simp add: meta_ok_def)
  ultimately show ?thesis using that out by blast
qed

lemma parse_unmerged_complete:
  assumes "body_ok (Unmerged xy sub ms os p)"
  shows "parse_unmerged (entry_record (Unmerged xy sub ms os p)) off paths = Inr (insert p paths)"
proof -
  from assms obtain a b c d e f g where l: "ms = [a, b, c, d]" "os = [e, f, g]"
    by (auto simp: meta_ok_def list_length_4 list_length_3)
  with assms have ok: "xy_ok xy True" "submodule_ok sub" "mode_ok a" "mode_ok b" "mode_ok c"
    "mode_ok d" "object_ok e" "object_ok f" "object_ok g" "p \<noteq> []"
    by (simp_all add: meta_ok_def)
  have "split_fields 11 (entry_record (Unmerged xy sub ms os p)) off (CHR ''u'')
      = Inr [''u'', xy, sub, a, b, c, d, e, f, g, p]"
    unfolding entry_record_def l entry_fields.simps append.simps
    by (rule split_fields_join) (use ok in \<open>simp_all add: field_plain xy_ok_plain[OF ok(1)]\<close>)
  then show ?thesis using ok by (simp add: parse_unmerged_def validations)
qed

lemma two_byte_prefix: "length r \<ge> 3 \<Longrightarrow> r ! 1 = y \<Longrightarrow> \<exists>q. r = hd r # y # q \<and> q \<noteq> []"
  by (auto simp: numeral_3_eq_3 Suc_le_length_iff)

lemma parse_other_iff:
  assumes "rec \<noteq> []" "hd rec = t" "t \<in> {CHR ''?'', CHR ''!''}"
  shows "parse_other_item rec off t = Inr u \<longleftrightarrow> (\<exists>p. body_ok (Other t p) \<and> rec = entry_record (Other t p))"
    (is "?l \<longleftrightarrow> ?r")
proof
  assume ?l
  then have "length rec \<ge> 3" "rec ! 1 = SP"
    by (auto simp: parse_other_item_def split: if_splits)
  then obtain p where "rec = t # SP # p" "p \<noteq> []"
    using two_byte_prefix[of rec SP] assms(2) by auto
  then show ?r using assms(3) by (auto simp: entry_record_def)
next
  assume ?r
  then obtain p where "p \<noteq> []" "rec = t # SP # p" by (auto simp: entry_record_def)
  then show ?l by (cases p) (auto simp: parse_other_item_def)
qed

lemma parse_header_iff:
  assumes "rec \<noteq> []" "hd rec = CHR ''#''"
  shows "parse_header rec off = Inr u \<longleftrightarrow> (\<exists>h. body_ok (Header h) \<and> rec = entry_record (Header h))"
    (is "?l \<longleftrightarrow> ?r")
proof
  assume ?l
  then have c: "length rec \<ge> 3" "rec ! 1 = SP" "rec ! 2 \<noteq> SP"
    "\<forall>b \<in> set (drop 2 rec). b \<noteq> CHR 0x0A \<and> b \<noteq> CHR 0x0D"
    by (simp_all add: parse_header_def list_ex_iff not_less split: if_splits)
  then obtain h where h: "rec = CHR ''#'' # SP # h" "h \<noteq> []"
    using two_byte_prefix[of rec SP] assms by auto
  then obtain b h' where "h = b # h'" by (cases h) auto
  with c h have "body_ok (Header h)" by auto
  then show ?r using h by (auto simp: entry_record_def)
next
  assume ?r
  then obtain h where "body_ok (Header h)" "rec = CHR ''#'' # SP # h"
    by (auto simp: entry_record_def)
  then show ?l by (cases h) (simp_all add: parse_header_def list_ex_iff, auto)
qed

lemma NUL_in_join [simp]: "NUL \<in> set (join_with SP fs) \<longleftrightarrow> (\<exists>f \<in> set fs. NUL \<in> set f)"
  by (induction SP fs rule: join_with.induct) auto

lemma entry_record_neq_Nil [simp]: "entry_record e \<noteq> []"
  by (cases e) (auto simp: entry_record_def join_with_Cons)

fun entry_tag :: "status_entry \<Rightarrow> char" where
  "entry_tag (Ordinary xy sub ms os p) = CHR ''1''"
| "entry_tag (Renamed xy sub ms os sc p origin) = CHR ''2''"
| "entry_tag (Unmerged xy sub ms os p) = CHR ''u''"
| "entry_tag (Other t p) = t"
| "entry_tag (Header h) = CHR ''#''"

lemma hd_entry_record [simp]: "hd (entry_record e) = entry_tag e"
  by (cases e) (auto simp: entry_record_def join_with_Cons)

definition origin_ok :: "status_entry \<Rightarrow> bool" where
  "origin_ok e = (case e of Renamed xy sub ms os sc p origin \<Rightarrow> path_text origin | _ \<Rightarrow> True)"

lemma origin_ok_simps [simp]:
  "origin_ok (Ordinary xy sub ms os p)" "origin_ok (Unmerged xy sub ms os p)"
  "origin_ok (Other t p)" "origin_ok (Header h)"
  "origin_ok (Renamed xy sub ms os sc p origin) = path_text origin"
  by (simp_all add: origin_ok_def)

lemma meta_ok_no_NUL:
  assumes "meta_ok nm no xy um sub ms os"
  shows "NUL \<notin> set xy" "NUL \<notin> set sub" "f \<in> set ms \<union> set os \<Longrightarrow> NUL \<notin> set f"
proof -
  have "plain_field xy" "plain_field sub" "f \<in> set ms \<union> set os \<Longrightarrow> plain_field f"
    using assms xy_ok_plain[of xy um]
    by (auto simp: meta_ok_def list_all_iff submodule_ok_plain mode_ok_plain object_ok_plain)
  then show "NUL \<notin> set xy" "NUL \<notin> set sub" "f \<in> set ms \<union> set os \<Longrightarrow> NUL \<notin> set f"
    by (simp_all add: plain_field_def)
qed

lemma entry_ok_iff: "entry_ok e \<longleftrightarrow> body_ok e \<and> NUL \<notin> set (entry_record e) \<and> origin_ok e"
proof (cases e)
  case (Ordinary xy sub ms os p)
  then show ?thesis using meta_ok_no_NUL[of 3 2 xy False sub ms os]
    by (auto simp: entry_record_def path_text_def origin_ok_def)
next
  case (Renamed xy sub ms os sc p origin)
  have "score_ok sc xy \<Longrightarrow> NUL \<notin> set sc" using score_ok_plain by (simp add: plain_field_def)
  then show ?thesis using Renamed meta_ok_no_NUL[of 3 2 xy False sub ms os]
    by (auto simp: entry_record_def path_text_def origin_ok_def)
next
  case (Unmerged xy sub ms os p)
  then show ?thesis using meta_ok_no_NUL[of 4 3 xy True sub ms os]
    by (auto simp: entry_record_def path_text_def origin_ok_def)
qed (auto simp: entry_record_def path_text_def origin_ok_def)

lemma cut_at_NUL:
  assumes "position (\<lambda>b. b = NUL) (drop k xs) = Some r"
  shows "drop k xs = take r (drop k xs) @ NUL # drop (k + r + 1) xs" "NUL \<notin> set (take r (drop k xs))"
proof -
  from assms have r: "r < length (drop k xs)" "drop k xs ! r = NUL" "\<forall>j < r. drop k xs ! j \<noteq> NUL"
    by (simp_all add: position_Some_iff)
  then show "drop k xs = take r (drop k xs) @ NUL # drop (k + r + 1) xs"
    using id_take_nth_drop[of r "drop k xs"] by (simp add: add.commute add.left_commute)
  show "NUL \<notin> set (take r (drop k xs))" using r by (auto simp: in_set_conv_nth)
qed

lemma position_NUL_cut:
  "NUL \<notin> set p \<Longrightarrow> drop k xs = p @ NUL # rest \<Longrightarrow>
   position (\<lambda>b. b = NUL) (drop k xs) = Some (length p)"
  using position_append_hit[of p "\<lambda>b. b = NUL" NUL rest] by auto

lemma drop_cut: "drop k xs = p @ NUL # rest \<Longrightarrow> drop (Suc (k + length p)) xs = rest"
proof -
  assume "drop k xs = p @ NUL # rest"
  then have "drop (Suc (length p)) (drop k xs) = rest" by simp
  then show ?thesis by (simp add: add.commute)
qed

text \<open>One turn of the loop reads exactly one well-formed entry \<open>\<dots>\<close>\<close>

lemma parse_records_step_complete:
  assumes "entry_ok e" "drop off output = render_entry e @ rest"
  shows "parse_records output off paths =
    parse_records output (off + length (render_entry e)) (paths \<union> tracked_paths e)"
proof -
  let ?r = "entry_record e"
  from assms(1) have b: "body_ok e" and n: "NUL \<notin> set ?r" and o: "origin_ok e"
    by (simp_all add: entry_ok_iff)
  have d: "drop off output = ?r @ NUL # entry_trailer e @ rest"
    using assms(2) by (simp add: render_entry_def)
  then have lt: "off < length output" by (metis Nil_is_append_conv drop_eq_Nil list.distinct(1) not_less)
  have pos: "position (\<lambda>b. b = NUL) (drop off output) = Some (length ?r)"
    using position_NUL_cut[OF n d] .
  have tk: "take (length ?r) (drop off output) = ?r" using d by simp
  have tag: "(case ?r of [] \<Rightarrow> NUL | b # _ \<Rightarrow> b) = entry_tag e"
    by (metis entry_record_neq_Nil hd_entry_record list.case(2) list.collapse)
  have nxt: "drop (off + length ?r + 1) output = entry_trailer e @ rest" using drop_cut[OF d] by simp
  have cut: "parse_records output off paths =
     (if entry_tag e = CHR ''1'' then
        and_then (parse_ordinary ?r off paths) (parse_records output (off + length ?r + 1))
      else if entry_tag e = CHR ''2'' then
        and_then (parse_renamed ?r off paths) (\<lambda>paths'.
          case position (\<lambda>b. b = NUL) (entry_trailer e @ rest) of
            None \<Rightarrow> Err (MissingRenameSource off)
          | Some rel \<Rightarrow>
              if off + length ?r + 1 + rel = off + length ?r + 1 then Err (MissingRenameSource off)
              else parse_records output (off + length ?r + 1 + rel + 1) paths')
      else if entry_tag e = CHR ''u'' then
        and_then (parse_unmerged ?r off paths) (parse_records output (off + length ?r + 1))
      else if entry_tag e = CHR ''?'' \<or> entry_tag e = CHR ''!'' then
        and_then (parse_other_item ?r off (entry_tag e))
          (\<lambda>_. parse_records output (off + length ?r + 1) paths)
      else if entry_tag e = CHR ''#'' then
        and_then (parse_header ?r off) (\<lambda>_. parse_records output (off + length ?r + 1) paths)
      else Err (UnknownRecord off (entry_tag e)))"
    by (subst parse_records.simps) (simp only: lt pos tk tag nxt Let_def option.case if_True)
  show ?thesis
  proof (cases e)
    case (Renamed xy sub ms os sc p origin)
    then have origin: "origin \<noteq> []" "NUL \<notin> set origin" using o by (simp_all add: origin_ok_def path_text_def)
    have "position (\<lambda>b. b = NUL) (origin @ NUL # rest) = Some (length origin)"
      using position_append_hit[of origin "\<lambda>b. b = NUL" NUL rest] origin by auto
    moreover have "parse_renamed ?r off paths = Inr (insert p paths)"
      using parse_renamed_complete b Renamed by blast
    ultimately show ?thesis unfolding cut using origin Renamed
      by (simp add: render_entry_def add.assoc)
  next
    case (Ordinary xy sub ms os p)
    then have "parse_ordinary ?r off paths = Inr (paths \<union> tracked_paths e)"
      using parse_ordinary_complete b by blast
    then show ?thesis unfolding cut using Ordinary by (simp add: render_entry_def)
  next
    case (Unmerged xy sub ms os p)
    then have "parse_unmerged ?r off paths = Inr (insert p paths)"
      using parse_unmerged_complete b by blast
    then show ?thesis unfolding cut using Unmerged by (simp add: render_entry_def)
  next
    case (Other t p)
    then have "t = CHR ''?'' \<or> t = CHR ''!''" using b by auto
    moreover have "parse_other_item ?r off t = Inr ()"
      using parse_other_iff[of ?r t off "()"] Other b by auto
    ultimately show ?thesis unfolding cut using Other by (auto simp add: render_entry_def)
  next
    case (Header h)
    have "parse_header ?r off = Inr ()"
      using parse_header_iff[of ?r off "()"] Header b by auto
    then show ?thesis unfolding cut using Header by (simp add: render_entry_def)
  qed
qed

text \<open>\<open>\<dots>\<close> and a turn that does not fail has read one.\<close>

lemma parse_records_step_sound:
  assumes "parse_records output off paths = Inr paths'" "off < length output"
  obtains e rest where "entry_ok e" "drop off output = render_entry e @ rest"
proof -
  note result = that
  obtain r where pos: "position (\<lambda>b. b = NUL) (drop off output) = Some r"
    using assms by (cases "position (\<lambda>b. b = NUL) (drop off output)")
      (auto simp: parse_records.simps[of "output" off paths])
  define rec where "rec = take r (drop off output)"
  define tag where "tag = (case rec of [] \<Rightarrow> NUL | b # _ \<Rightarrow> b)"
  let ?next = "off + r + 1"
  note cut = cut_at_NUL[OF pos, folded rec_def]
  have found: thesis if "body_ok e" "rec = entry_record e" "origin_ok e"
      "drop ?next output = entry_trailer e @ rest" for e rest
  proof -
    have "entry_ok e" using that(1-3) cut(2) by (simp add: entry_ok_iff)
    moreover have "drop off output = render_entry e @ rest"
      using cut(1) that(2,4) by (simp add: render_entry_def)
    ultimately show thesis by (rule result)
  qed
  have tagged: "tag \<noteq> NUL \<Longrightarrow> rec \<noteq> [] \<and> hd rec = tag" by (cases rec) (auto simp: tag_def)
  have run: "(if tag = CHR ''1'' then
         and_then (parse_ordinary rec off paths) (parse_records output ?next)
       else if tag = CHR ''2'' then
         and_then (parse_renamed rec off paths) (\<lambda>paths'.
           case position (\<lambda>b. b = NUL) (drop ?next output) of
             None \<Rightarrow> Err (MissingRenameSource off)
           | Some rel \<Rightarrow>
               if ?next + rel = ?next then Err (MissingRenameSource off)
               else parse_records output (?next + rel + 1) paths')
       else if tag = CHR ''u'' then
         and_then (parse_unmerged rec off paths) (parse_records output ?next)
       else if tag = CHR ''?'' \<or> tag = CHR ''!'' then
         and_then (parse_other_item rec off tag) (\<lambda>_. parse_records output ?next paths)
       else if tag = CHR ''#'' then
         and_then (parse_header rec off) (\<lambda>_. parse_records output ?next paths)
       else Err (UnknownRecord off tag)) = Inr paths'"
    using assms(1) parse_records.simps[of "output" off paths] assms(2) pos
    by (simp only: if_True option.case Let_def rec_def tag_def)
  consider "tag = CHR ''1''" | "tag = CHR ''2''" | "tag = CHR ''u''"
    | "tag = CHR ''?'' \<or> tag = CHR ''!''" | "tag = CHR ''#''"
    using run by (auto split: if_splits)
  then show thesis
  proof cases
    case 1
    with run obtain q where "parse_ordinary rec off paths = Inr q" by (auto simp: result_simps)
    then obtain xy sub ms os p where "body_ok (Ordinary xy sub ms os p)"
      "rec = entry_record (Ordinary xy sub ms os p)" by (rule parse_ordinary_sound)
    then show thesis by (rule found) simp_all
  next
    case 2
    with run obtain q rel where q: "parse_renamed rec off paths = Inr q" and
      rel: "position (\<lambda>b. b = NUL) (drop ?next output) = Some rel" "rel \<noteq> 0"
      by (auto simp: result_simps split: option.splits if_splits)
    note origin = cut_at_NUL[OF rel(1)]
    let ?origin = "take rel (drop ?next output)"
    have ne: "?origin \<noteq> []" using rel by (auto simp: position_Some_iff)
    from q obtain xy sub ms os sc p where "body_ok (Renamed xy sub ms os sc p ?origin)"
      "rec = entry_record (Renamed xy sub ms os sc p ?origin)" by (rule parse_renamed_sound) blast
    then show thesis by (rule found) (use origin ne in \<open>simp_all add: path_text_def\<close>)
  next
    case 3
    with run obtain q where "parse_unmerged rec off paths = Inr q" by (auto simp: result_simps)
    then obtain xy sub ms os p where "body_ok (Unmerged xy sub ms os p)"
      "rec = entry_record (Unmerged xy sub ms os p)" by (rule parse_unmerged_sound)
    then show thesis by (rule found) simp_all
  next
    case 4
    with run have "parse_other_item rec off tag = Inr ()" by (auto simp: result_simps)
    then obtain p where "body_ok (Other tag p)" "rec = entry_record (Other tag p)"
      using parse_other_iff[of rec tag off "()"] tagged 4 by auto
    then show thesis by (rule found) simp_all
  next
    case 5
    with run have "parse_header rec off = Inr ()" by (auto simp: result_simps)
    then obtain h where "body_ok (Header h)" "rec = entry_record (Header h)"
      using parse_header_iff[of rec off "()"] tagged 5 by auto
    then show thesis by (rule found) simp_all
  qed
qed

lemma render_entry_neq_Nil [simp]: "render_entry e \<noteq> []"
  by (simp add: render_entry_def)

lemma parse_records_complete:
  assumes "list_all entry_ok es" "drop off output = concat (map render_entry es)"
  shows "parse_records output off paths = Inr (paths \<union> \<Union> (tracked_paths ` set es))"
  using assms
proof (induction es arbitrary: off paths)
  case Nil
  then show ?case by (subst parse_records.simps) auto
next
  case (Cons e es)
  have "drop (length (render_entry e)) (drop off output) = concat (map render_entry es)"
    using Cons.prems(2) by simp
  then have "drop (off + length (render_entry e)) output = concat (map render_entry es)"
    by (simp add: add.commute)
  then show ?case
    using parse_records_step_complete[of e off "output" "concat (map render_entry es)" paths] Cons
    by (simp add: Un_assoc)
qed

lemma parse_records_sound:
  assumes "parse_records output off paths = Inr paths'"
  shows "\<exists>es. list_all entry_ok es \<and> drop off output = concat (map render_entry es)"
  using assms
proof (induction "length output - off" arbitrary: off paths rule: less_induct)
  case less
  show ?case
  proof (cases "off < length output")
    case False
    then show ?thesis by (intro exI[of _ "[]"]) simp
  next
    case True
    obtain e rest where e: "entry_ok e" "drop off output = render_entry e @ rest"
      using parse_records_step_sound[OF less.prems True] by blast
    let ?off = "off + length (render_entry e)"
    have rest: "drop ?off output = rest"
      using arg_cong[OF e(2), of "drop (length (render_entry e))"] by (simp add: add.commute)
    have "length output - ?off < length output - off" using True by (simp add: diff_less_mono2)
    then obtain es where "list_all entry_ok es" "drop ?off output = concat (map render_entry es)"
      using less.hyps parse_records_step_complete[OF e] less.prems by metis
    then show ?thesis using e rest by (intro exI[of _ "e # es"]) simp
  qed
qed

text \<open>
  C35. \<open>parse_tracked_change_count\<close> returns a count exactly when the whole output is a
  concatenation of well-formed porcelain-v2 entries, and the count is then the number of
  distinct tracked paths those entries name (a rename counts its destination once, untracked
  and ignored entries and headers count nothing, and a submodule whose only change is
  untracked content counts nothing).
\<close>

theorem status_count_characterized:
  "parse_tracked_change_count output = Ok n \<longleftrightarrow>
     (\<exists>es. list_all entry_ok es \<and> output = concat (map render_entry es)
       \<and> n = card (\<Union> (tracked_paths ` set es)))" (is "?l \<longleftrightarrow> ?r")
proof
  assume ?l
  then obtain paths where p: "parse_records output 0 {} = Inr paths" "n = card paths"
    by (auto simp: parse_tracked_change_count_def result_simps)
  then obtain es where es: "list_all entry_ok es" "drop 0 output = concat (map render_entry es)"
    using parse_records_sound by blast
  with p parse_records_complete[OF this, of "{}"] show ?r by auto
next
  assume ?r
  then obtain es where es: "list_all entry_ok es" "drop 0 output = concat (map render_entry es)"
    "n = card (\<Union> (tracked_paths ` set es))" by auto
  then show ?l using parse_records_complete[OF es(1,2), of "{}"]
    by (simp add: parse_tracked_change_count_def)
qed

text \<open>\<open>parse_decimal\<close> in 16 bits is the decimal value whenever that value fits.\<close>

fun decimal_value :: "nat \<Rightarrow> bytes \<Rightarrow> nat" where
  "decimal_value v [] = v"
| "decimal_value v (d # ds) = decimal_value (10 * v + (of_char d - 48)) ds"

lemma decimal_value_ge: "v \<le> decimal_value v ds"
proof (induction ds arbitrary: v)
  case (Cons d ds)
  have "v \<le> 10 * v + (of_char d - 48)" by simp
  also have "\<dots> \<le> decimal_value (10 * v + (of_char d - 48)) ds" by (rule Cons)
  finally show ?case by simp
qed simp

lemma unat_16_less: "unat (v :: 16 word) < 65536"
proof -
  have "unat v < 2 ^ LENGTH(16)" by (rule unsigned_less)
  then show ?thesis by simp
qed

lemma parse_decimal_from_value:
  "list_all is_ascii_digit ds \<Longrightarrow>
   map_option unat (parse_decimal_from v ds) =
     (if decimal_value (unat v) ds < 2 ^ 16 then Some (decimal_value (unat v) ds) else None)"
proof (induction ds arbitrary: v)
  case Nil
  then show ?case using unat_16_less[of v] by simp
next
  case (Cons d ds)
  have "CHR ''0'' \<le> d \<and> d \<le> CHR ''9''" using Cons.prems by (simp add: is_ascii_digit_def)
  then have d: "(of_char d :: nat) - 48 \<le> 9" and g: "48 \<le> (of_char d :: nat)"
    by (auto simp: less_eq_char_def)
  let ?m = "10 * unat v + (of_char d - 48)"
  show ?case
  proof (cases "?m < 2 ^ 16")
    case True
    then have mul: "unat (v * 10) = 10 * unat v" by (simp add: unat_mult_lem[THEN iffD1])
    have dig: "unat (word_of_nat (of_char d - 48) :: 16 word) = of_char d - 48"
      using d by (simp add: unat_of_nat)
    have "unat (v * 10 + word_of_nat (of_char d - 48)) = ?m"
      using True mul dig by (subst unat_add_lem[THEN iffD1]) simp_all
    then show ?thesis using Cons True mul dig
      by (simp add: checked_mul_u16_def checked_add_u16_def)
  next
    case False
    have "\<not> decimal_value ?m ds < 2 ^ 16" using decimal_value_ge[of ?m ds] False by simp
    moreover have "parse_decimal_from v (d # ds) = None"
    proof (cases "unat v * 10 < 2 ^ 16")
      case True
      then have mul: "unat (v * 10) = 10 * unat v" by (simp add: unat_mult_lem[THEN iffD1])
      have dig: "unat (word_of_nat (of_char d - 48) :: 16 word) = of_char d - 48"
        using d by (simp add: unat_of_nat)
      show ?thesis using True False mul dig g by (auto simp: checked_mul_u16_def checked_add_u16_def)
    qed (simp add: checked_mul_u16_def)
    ultimately show ?thesis by simp
  qed
qed

lemma parse_decimal_value:
  "list_all is_ascii_digit ds \<Longrightarrow>
   map_option unat (parse_decimal ds) =
     (if decimal_value 0 ds < 2 ^ 16 then Some (decimal_value 0 ds) else None)"
  using parse_decimal_from_value[of ds 0] by (simp add: parse_decimal_def)

end
