(* ===== verification/Git_Report.thy ===== *)
theory Git_Report
  imports Git_Status
begin

text \<open>
  Repository states and their conservative aggregate (end of \<open>thinws-core/src/git.rs\<close>), and
  the inspection reports of \<open>thinws-ports/src/git.rs\<close> built from them.
\<close>

subsection \<open>Repository states and their aggregate\<close>

datatype discovery_completeness = Complete | Incomplete

text \<open>\<open>NonZeroUsize\<close>: the count of a \<open>Dirty\<close> repository is positive.\<close>

datatype repository_state = Clean | Dirty (tracked_changes: nat) | Unknown

definition repository_state_ok :: "repository_state \<Rightarrow> bool" where
  "repository_state_ok s = (case s of Dirty n \<Rightarrow> 0 < n | _ \<Rightarrow> True)"

definition from_tracked_change_count :: "nat \<Rightarrow> repository_state" where
  "from_tracked_change_count n = (if n = 0 then Clean else Dirty n)"

fun tracked_change_count :: "repository_state \<Rightarrow> nat option" where
  "tracked_change_count Clean = Some 0"
| "tracked_change_count (Dirty n) = Some n"
| "tracked_change_count Unknown = None"

datatype git_state = NotApplicable | Clean | Dirty | Unknown

fun is_dirty :: "repository_state \<Rightarrow> bool" where
  "is_dirty (repository_state.Dirty n) = True"
| "is_dirty _ = False"

lemma is_dirty_iff: "is_dirty s \<longleftrightarrow> (\<exists>n. s = repository_state.Dirty n)"
  by (cases s) auto

definition aggregate_git_state :: "discovery_completeness \<Rightarrow> repository_state list \<Rightarrow> git_state" where
  "aggregate_git_state d rs =
     (if d = Incomplete \<or> repository_state.Unknown \<in> set rs then git_state.Unknown
      else if list_ex is_dirty rs then git_state.Dirty
      else if rs = [] then git_state.NotApplicable
      else git_state.Clean)"

lemma aggregate_cases:
  "aggregate_git_state d rs = git_state.Unknown \<longleftrightarrow> d = Incomplete \<or> repository_state.Unknown \<in> set rs"
  "aggregate_git_state d rs = git_state.NotApplicable \<longleftrightarrow> d = Complete \<and> rs = []"
  "aggregate_git_state d rs = git_state.Dirty \<longleftrightarrow>
     d = Complete \<and> repository_state.Unknown \<notin> set rs \<and> list_ex is_dirty rs"
  "aggregate_git_state d rs = git_state.Clean \<longleftrightarrow>
     d = Complete \<and> repository_state.Unknown \<notin> set rs \<and> \<not> list_ex is_dirty rs \<and> rs \<noteq> []"
  by (cases d; auto simp: aggregate_git_state_def)+

lemma only_clean_iff:
  "repository_state.Unknown \<notin> set rs \<and> \<not> list_ex is_dirty rs \<longleftrightarrow>
     list_all (\<lambda>s. s = repository_state.Clean) rs"
proof -
  have "s = repository_state.Clean \<longleftrightarrow> s \<noteq> repository_state.Unknown \<and> \<not> is_dirty s" for s
    by (cases s) auto
  then show ?thesis by (auto simp: list_all_iff list_ex_iff)
qed

lemma tracked_change_count_of_count [simp]:
  "tracked_change_count (from_tracked_change_count n) = Some n"
  "repository_state_ok (from_tracked_change_count n)"
  by (simp_all add: from_tracked_change_count_def repository_state_ok_def)

subsection \<open>Inspection reports (\<open>thinws-ports/src/git.rs\<close>)\<close>

record git_exit =
  code :: "int option"
  signal :: "int option"

definition git_exit_success :: "git_exit \<Rightarrow> bool" where
  "git_exit_success e = (code e = Some 0)"

text \<open>
  \<open>std::io::ErrorKind\<close> is only carried and compared, so it is its discriminant; an \<open>i32\<close>
  error number and an exit code are only carried and compared, so they are integers.
\<close>

type_synonym io_error_kind = nat

datatype output_stream = Stdout | Stderr

datatype io_operation = ConfigureStdout | ConfigureStderr | ReadStdout | ReadStderr | PollExit

datatype input_field = Cwd | ConfigFile | ConfigIsolationDevice

datatype git_query_failure_kind =
  InvalidInput input_field
| Start io_error_kind "int option"
| Io io_operation io_error_kind "int option"
| TimedOut
| OutputLimitExceeded output_stream nat

datatype direct_child_exit = NotStarted | Confirmed git_exit | Unconfirmed

datatype cleanup_operation = InitialPoll | Kill | ConfirmPoll

record cleanup_io_failure =
  operation :: cleanup_operation
  error_kind :: io_error_kind
  raw_os_error :: "int option"

datatype git_inspection_issue =
  InvalidCopyRoot | EnvironmentUnsupported | InvalidExecPath | ScanFailed | ScanLimitReached
| DepthLimitReached | RepositoryLimitReached | UnsafeRepositoryMetadata
| ExternalRepositoryMetadata | UnsupportedConfiguration | UnsafeAttributes | HiddenIndexFlags
| SparseCheckout
| QueryFailed git_query_failure_kind direct_child_exit "cleanup_io_failure option"
| QueryNonZeroExit git_exit
| InvalidGitOutput | EvidenceChanged | UnsafeDescendant | BudgetExpired

record repository_inspection =
  ri_relative_path :: bytes
  ri_state :: repository_state
  ri_issues :: "git_inspection_issue list"

definition repository_inspection_new ::
    "bytes \<Rightarrow> repository_state \<Rightarrow> git_inspection_issue list \<Rightarrow> repository_inspection" where
  "repository_inspection_new p s is =
     \<lparr>ri_relative_path = p, ri_state = (if is = [] then s else repository_state.Unknown), ri_issues = is\<rparr>"

record git_inspection =
  gi_discovery :: discovery_completeness
  gi_repositories :: "repository_inspection list"
  gi_aggregate :: git_state
  gi_issues :: "git_inspection_issue list"

definition git_inspection_new ::
    "discovery_completeness \<Rightarrow> repository_inspection list \<Rightarrow> git_inspection_issue list \<Rightarrow> git_inspection" where
  "git_inspection_new d rs is =
     \<lparr>gi_discovery = d, gi_repositories = rs,
      gi_aggregate = (if is = [] then aggregate_git_state d (map ri_state rs) else git_state.Unknown),
      gi_issues = is\<rparr>"

text \<open>
  The end of \<open>inspect_status\<close> in \<open>thinws-adapter-git-cli\<close>: the state recorded for a
  repository from the text \<open>git status\<close> printed, after the issues found before it.
\<close>

definition status_verdict ::
    "bytes \<Rightarrow> git_inspection_issue list \<Rightarrow> bytes \<Rightarrow> repository_inspection" where
  "status_verdict p issues stdout =
     (case parse_tracked_change_count stdout of
        Inr count \<Rightarrow>
          \<lparr>ri_relative_path = p, ri_state = from_tracked_change_count count, ri_issues = issues\<rparr>
      | Inl _ \<Rightarrow>
          \<lparr>ri_relative_path = p, ri_state = repository_state.Unknown,
           ri_issues = issues @ [InvalidGitOutput]\<rparr>)"

lemma status_verdict_states:
  "ri_state (status_verdict p issues stdout) = repository_state.Unknown \<longleftrightarrow>
     (\<exists>e. parse_tracked_change_count stdout = Inl e)"
  "ri_state (status_verdict p issues stdout) = repository_state.Clean \<longleftrightarrow>
     parse_tracked_change_count stdout = Inr 0"
  by (auto simp: status_verdict_def from_tracked_change_count_def split: sum.splits)

text \<open>A report assembled from one (path, state, issues) triple per repository.\<close>

definition report_of ::
    "discovery_completeness \<Rightarrow> git_inspection_issue list \<Rightarrow>
     (bytes \<times> repository_state \<times> git_inspection_issue list) list \<Rightarrow> git_inspection" where
  "report_of d issues repos =
     git_inspection_new d (map (\<lambda>(p, s, is). repository_inspection_new p s is) repos) issues"

definition fully_known ::
    "discovery_completeness \<Rightarrow> git_inspection_issue list \<Rightarrow>
     (bytes \<times> repository_state \<times> git_inspection_issue list) list \<Rightarrow> bool" where
  "fully_known d issues repos \<longleftrightarrow> d = Complete \<and> issues = []
     \<and> list_all (\<lambda>(p, s, is). is = [] \<and> s \<noteq> repository_state.Unknown) repos"

definition reported_state :: "bytes \<times> repository_state \<times> git_inspection_issue list \<Rightarrow> repository_state" where
  "reported_state r = (case r of (p, s, is) \<Rightarrow> if is = [] then s else repository_state.Unknown)"

lemma report_of_aggregate:
  "gi_aggregate (report_of d issues repos) =
     (if issues = [] then aggregate_git_state d (map reported_state repos) else git_state.Unknown)"
proof -
  have "map ri_state (map (\<lambda>(p, s, is). repository_inspection_new p s is) repos)
      = map reported_state repos"
    by (auto simp: repository_inspection_new_def reported_state_def)
  then show ?thesis by (simp add: report_of_def git_inspection_new_def del: map_map)
qed

lemma report_Unknown:
  "gi_aggregate (report_of d issues repos) = git_state.Unknown \<longleftrightarrow> \<not> fully_known d issues repos"
proof -
  have "repository_state.Unknown \<in> set (map reported_state repos) \<longleftrightarrow>
      \<not> list_all (\<lambda>(p, s, is). is = [] \<and> s \<noteq> repository_state.Unknown) repos"
    by (induction repos) (auto simp: reported_state_def)
  then show ?thesis
    by (cases d) (simp_all add: report_of_aggregate fully_known_def aggregate_cases)
qed

lemma report_known_aggregate:
  assumes "fully_known d issues repos"
  shows "gi_aggregate (report_of d issues repos) = aggregate_git_state Complete (map (\<lambda>(p, s, is). s) repos)"
proof -
  have eq: "map reported_state repos = map (\<lambda>(p, s, is). s) repos"
    using assms by (auto simp: fully_known_def list_all_iff reported_state_def)
  show ?thesis unfolding report_of_aggregate eq using assms by (simp add: fully_known_def)
qed

text \<open>
  An inspection report is conservative.  The report built from a discovery verdict,
  whole-scan issues and one (path, state, issues) triple per repository is \<open>Unknown\<close> exactly
  when discovery was incomplete, an issue was raised anywhere or a state is unknown (so unknown
  outranks dirty); otherwise it is \<open>NotApplicable\<close> exactly when no repository was found,
  \<open>Clean\<close> exactly when at least one was found and all are clean, and \<open>Dirty\<close> exactly when one
  is dirty.
\<close>

theorem inspection_conservative:
  "(gi_aggregate (report_of d issues repos) = git_state.Unknown \<longleftrightarrow> \<not> fully_known d issues repos)
   \<and> (gi_aggregate (report_of d issues repos) = git_state.NotApplicable \<longleftrightarrow>
        fully_known d issues repos \<and> repos = [])
   \<and> (gi_aggregate (report_of d issues repos) = git_state.Clean \<longleftrightarrow>
        fully_known d issues repos \<and> repos \<noteq> []
        \<and> list_all (\<lambda>(p, s, is). s = repository_state.Clean) repos)
   \<and> (gi_aggregate (report_of d issues repos) = git_state.Dirty \<longleftrightarrow>
        fully_known d issues repos \<and> list_ex (\<lambda>(p, s, is). is_dirty s) repos)"
proof (cases "fully_known d issues repos")
  case False
  then have "gi_aggregate (report_of d issues repos) = git_state.Unknown"
    by (simp add: report_Unknown)
  with False show ?thesis by simp
next
  case True
  have known: "repository_state.Unknown \<notin> set (map (\<lambda>(p, s, is). s) repos)"
    using True by (auto simp: fully_known_def list_all_iff)
  have dirty: "list_ex is_dirty (map (\<lambda>(p, s, is). s) repos) \<longleftrightarrow> list_ex (\<lambda>(p, s, is). is_dirty s) repos"
    by (induction repos) auto
  have clean: "list_all (\<lambda>s. s = repository_state.Clean) (map (\<lambda>(p, s, is). s) repos) \<longleftrightarrow>
      list_all (\<lambda>(p, s, is). s = repository_state.Clean) repos"
    by (induction repos) auto
  note cases = aggregate_cases[of Complete "map (\<lambda>(p, s, is). s) repos"]
  show ?thesis unfolding report_known_aggregate[OF True] cases
    using True known only_clean_iff[of "map (\<lambda>(p, s, is). s) repos"]
    by (simp add: dirty clean del: set_map, auto)
qed

end
