(* ===== verification/Names.thy ===== *)
theory Names
  imports Prelude
begin

text \<open>
  Workspace names: \<open>thinws-core/src/workspace_name.rs\<close>.  The validator is the sequence of
  checks of \<open>validate_workspace_name\<close>; \<open>name_grammar\<close> is the public grammar it promises.
\<close>

definition MAX_WORKSPACE_NAME_LEN :: nat where
  "MAX_WORKSPACE_NAME_LEN = 63"

datatype workspace_name_error =
  Empty
| TooLong nat
| InvalidBoundary
| InvalidCharacter nat
| ConsecutiveDots

definition is_boundary :: "char \<Rightarrow> bool" where
  "is_boundary b = (is_ascii_lowercase b \<or> is_ascii_digit b)"

definition is_allowed :: "char \<Rightarrow> bool" where
  "is_allowed b = (is_boundary b \<or> b \<in> {CHR ''.'', CHR ''_'', CHR ''-''})"

definition validate_workspace_name :: "string \<Rightarrow> workspace_name_error + unit" where
  "validate_workspace_name s =
     (if s = [] then Err Empty
      else if length s > MAX_WORKSPACE_NAME_LEN then Err (TooLong (length s))
      else if \<not> is_boundary (s ! 0) \<or> \<not> is_boundary (s ! (length s - 1)) then Err InvalidBoundary
      else case position (\<lambda>b. \<not> is_allowed b) s of
             Some i \<Rightarrow> Err (InvalidCharacter i)
           | None \<Rightarrow>
               if has_window2 (CHR ''.'') (CHR ''.'') s then Err ConsecutiveDots else Ok ())"

datatype workspace_name = WorkspaceName (name_str: string)

definition workspace_name_from_str :: "string \<Rightarrow> workspace_name_error + workspace_name" where
  "workspace_name_from_str s = and_then (validate_workspace_name s) (\<lambda>_. Ok (WorkspaceName s))"

definition valid_workspace_name :: "workspace_name \<Rightarrow> bool" where
  "valid_workspace_name n \<longleftrightarrow> validate_workspace_name (name_str n) = Ok ()"

text \<open>The derived \<open>Ord\<close> of the wrapped \<open>String\<close>: bytewise lexicographic.\<close>

instantiation workspace_name :: linorder
begin

definition less_eq_workspace_name :: "workspace_name \<Rightarrow> workspace_name \<Rightarrow> bool" where
  "less_eq_workspace_name a b = (name_str a \<le> name_str b)"

definition less_workspace_name :: "workspace_name \<Rightarrow> workspace_name \<Rightarrow> bool" where
  "less_workspace_name a b = (name_str a < name_str b)"

instance
  by standard
    (auto simp: less_eq_workspace_name_def less_workspace_name_def workspace_name.expand)

end

interpretation name_codec: text_codec name_str workspace_name_from_str valid_workspace_name
  by unfold_locales
    (auto simp: workspace_name_from_str_def valid_workspace_name_def result_simps)

subsection \<open>The grammar\<close>

definition name_grammar :: "string \<Rightarrow> bool" where
  "name_grammar s \<longleftrightarrow>
     1 \<le> length s \<and> length s \<le> 63 \<and> (\<forall>c \<in> set s. is_allowed c)
     \<and> is_boundary (hd s) \<and> is_boundary (last s) \<and> \<not> sublist ''..'' s"

lemma has_window2_sublist: "has_window2 a b s \<longleftrightarrow> sublist [a, b] s"
  by (auto simp: has_window2_iff sublist_def)

lemma validate_workspace_name_eq_Ok:
  "validate_workspace_name s = Inr u \<longleftrightarrow> name_grammar s"
proof (cases "s = []")
  case False
  then have "s ! 0 = hd s" "s ! (length s - 1) = last s" "1 \<le> length s"
    by (auto simp: hd_conv_nth last_conv_nth Suc_le_eq)
  then show ?thesis using False
    by (auto simp: validate_workspace_name_def name_grammar_def MAX_WORKSPACE_NAME_LEN_def
        has_window2_sublist position_None_iff split: option.splits)
      (metis not_None_eq position_None_iff)+
qed (simp add: validate_workspace_name_def name_grammar_def)

lemma valid_workspace_name_iff: "valid_workspace_name n \<longleftrightarrow> name_grammar (name_str n)"
  by (simp add: valid_workspace_name_def validate_workspace_name_eq_Ok)

lemma allowed_plain: "is_allowed c \<Longrightarrow> c \<noteq> CHR ''/'' \<and> c \<noteq> NUL"
  by (auto simp: is_allowed_def is_boundary_def is_ascii_lowercase_def is_ascii_digit_def)

text \<open>
  A Workspace name is accepted exactly when it satisfies the published grammar, and a
  refusal names the first violated rule: empty, then too long with the real length, then a
  bad first or last byte, then the index of the first byte outside the alphabet, and
  consecutive dots only for a name that satisfies every other rule.
\<close>

theorem workspace_name_accepts_grammar:
  "(validate_workspace_name s = Ok () \<longleftrightarrow> name_grammar s)
   \<and> (validate_workspace_name s = Err Empty \<longleftrightarrow> s = [])
   \<and> (validate_workspace_name s = Err (TooLong n) \<longleftrightarrow> n = length s \<and> 63 < length s)
   \<and> (validate_workspace_name s = Err InvalidBoundary \<longleftrightarrow>
        s \<noteq> [] \<and> length s \<le> 63 \<and> \<not> (is_boundary (hd s) \<and> is_boundary (last s)))
   \<and> (validate_workspace_name s = Err (InvalidCharacter i) \<longleftrightarrow>
        s \<noteq> [] \<and> length s \<le> 63 \<and> is_boundary (hd s) \<and> is_boundary (last s)
        \<and> i < length s \<and> \<not> is_allowed (s ! i) \<and> list_all is_allowed (take i s))
   \<and> (validate_workspace_name s = Err ConsecutiveDots \<longleftrightarrow>
        s \<noteq> [] \<and> length s \<le> 63 \<and> is_boundary (hd s) \<and> is_boundary (last s)
        \<and> list_all is_allowed s \<and> sublist ''..'' s)"
proof (cases "s = []")
  case True
  then show ?thesis by (simp add: validate_workspace_name_def name_grammar_def)
next
  case False
  have def: "validate_workspace_name s =
      (if length s > 63 then Err (TooLong (length s))
       else if \<not> (is_boundary (hd s) \<and> is_boundary (last s)) then Err InvalidBoundary
       else case position (\<lambda>b. \<not> is_allowed b) s of
              Some i \<Rightarrow> Err (InvalidCharacter i)
            | None \<Rightarrow> if sublist ''..'' s then Err ConsecutiveDots else Ok ())"
    using False
    by (simp add: validate_workspace_name_def MAX_WORKSPACE_NAME_LEN_def has_window2_sublist
        hd_conv_nth last_conv_nth)
  have some: "position (\<lambda>b. \<not> is_allowed b) s = Some i \<longleftrightarrow>
      i < length s \<and> \<not> is_allowed (s ! i) \<and> list_all is_allowed (take i s)" for i
    by (auto simp: position_Some_iff list_all_length)
  have none: "position (\<lambda>b. \<not> is_allowed b) s = None \<longleftrightarrow> list_all is_allowed s"
    by (simp add: position_None_iff list_all_iff)
  show ?thesis
  proof (cases "position (\<lambda>b. \<not> is_allowed b) s")
    case None
    then have "list_all is_allowed s" by (simp add: none)
    then show ?thesis using None False some[of i]
      by (simp add: def name_grammar_def list_all_iff Suc_le_eq) blast
  next
    case (Some k)
    then have "\<not> list_all is_allowed s" using none by auto
    then show ?thesis using Some False some[of i]
      by (simp add: def name_grammar_def list_all_iff Suc_le_eq) blast
  qed
qed

end
