(* ===== verification/Paths.thy ===== *)
theory Paths
  imports Prelude
begin

text \<open>
  Canonical paths: \<open>thinws-core/src/path.rs\<close> (\<open>AbsolutePath\<close>) and the \<open>RelativePath\<close> of
  \<open>materialization.rs\<close>.  The code compares raw bytes; \<open>path_components\<close> is the list of
  names a valid path denotes, and \<open>path_of_components\<close> its canonical spelling.
\<close>

datatype absolute_path = AbsolutePath (path_bytes: bytes)

datatype absolute_path_error = NotAbsolute | ContainsNul | NonCanonicalComponent

definition bad_component :: "bytes \<Rightarrow> bool" where
  "bad_component c = (c = [] \<or> c = ''.'' \<or> c = ''..'')"

definition validate_path :: "bytes \<Rightarrow> absolute_path_error + unit" where
  "validate_path bs =
     (if bs = [] \<or> hd bs \<noteq> CHR ''/'' then Err NotAbsolute
      else if NUL \<in> set bs then Err ContainsNul
      else if length bs = 1 then Ok ()
      else if last bs = CHR ''/'' then Err NonCanonicalComponent
      else if list_ex bad_component (split_on (CHR ''/'') (drop 1 bs))
      then Err NonCanonicalComponent
      else Ok ())"

definition absolute_path_try_from_bytes :: "bytes \<Rightarrow> absolute_path_error + absolute_path" where
  "absolute_path_try_from_bytes bs = and_then (validate_path bs) (\<lambda>_. Ok (AbsolutePath bs))"

datatype relative_path = RelativePath (relative_bytes: bytes)

datatype relative_path_error = RelativePathError

definition relative_path_try_from_bytes :: "bytes \<Rightarrow> relative_path_error + relative_path" where
  "relative_path_try_from_bytes bs =
     (if bs = [] \<or> bs ! 0 = CHR ''/'' \<or> NUL \<in> set bs then Err RelativePathError
      else if list_ex bad_component (split_on (CHR ''/'') bs) then Err RelativePathError
      else Ok (RelativePath bs))"

definition valid_path :: "absolute_path \<Rightarrow> bool" where
  "valid_path p \<longleftrightarrow> validate_path (path_bytes p) = Ok ()"

definition valid_relative :: "relative_path \<Rightarrow> bool" where
  "valid_relative r \<longleftrightarrow> relative_path_try_from_bytes (relative_bytes r) = Ok r"

interpretation path_codec: text_codec path_bytes absolute_path_try_from_bytes valid_path
  by unfold_locales (auto simp: absolute_path_try_from_bytes_def valid_path_def result_simps)

interpretation relative_codec: text_codec relative_bytes relative_path_try_from_bytes valid_relative
  by unfold_locales
    (auto simp: relative_path_try_from_bytes_def valid_relative_def split: if_splits)

subsection \<open>Paths as lists of names\<close>

definition normal_component :: "bytes \<Rightarrow> bool" where
  "normal_component c \<longleftrightarrow> \<not> bad_component c \<and> CHR ''/'' \<notin> set c \<and> NUL \<notin> set c"

definition path_of_components :: "bytes list \<Rightarrow> bytes" where
  "path_of_components cs =
     (if cs = [] then ''/'' else concat (map (\<lambda>c. CHR ''/'' # c) cs))"

definition path_components :: "absolute_path \<Rightarrow> bytes list" where
  "path_components p =
     (if length (path_bytes p) \<le> 1 then [] else split_on (CHR ''/'') (drop 1 (path_bytes p)))"

lemma normal_component_not_Nil: "normal_component c \<Longrightarrow> c \<noteq> []"
  by (auto simp: normal_component_def bad_component_def)

lemma concat_slash_join:
  "cs \<noteq> [] \<Longrightarrow> concat (map (\<lambda>c. CHR ''/'' # c) cs) = CHR ''/'' # join_with (CHR ''/'') cs"
  by (induction "CHR ''/''" cs rule: join_with.induct) auto

lemma join_with_not_Nil: "cs \<noteq> [] \<Longrightarrow> last cs \<noteq> [] \<Longrightarrow> join_with sep cs \<noteq> []"
  by (induction sep cs rule: join_with.induct) auto

lemma last_join_with:
  "cs \<noteq> [] \<Longrightarrow> last cs \<noteq> [] \<Longrightarrow> last (join_with sep cs) = last (last cs)"
  by (induction sep cs rule: join_with.induct) (auto simp: join_with_not_Nil)

lemma set_join_with: "set (join_with sep cs) \<subseteq> insert sep (\<Union> (set ` set cs))"
  by (induction sep cs rule: join_with.induct) auto

lemma validate_path_components:
  assumes "\<forall>c \<in> set cs. normal_component c"
  shows "validate_path (path_of_components cs) = Ok ()"
proof (cases "cs = []")
  case True
  then show ?thesis by (simp add: validate_path_def path_of_components_def)
next
  case False
  let ?j = "join_with (CHR ''/'') cs"
  have bytes: "path_of_components cs = CHR ''/'' # ?j"
    using False by (simp add: path_of_components_def concat_slash_join)
  have last: "last cs \<noteq> []" "last cs \<in> set cs"
    using assms False normal_component_not_Nil by auto
  then have ne: "?j \<noteq> []" and tail: "last ?j = last (last cs)"
    using False by (simp_all add: join_with_not_Nil last_join_with)
  have "last (last cs) \<noteq> CHR ''/''"
    using last assms last_in_set[of "last cs"] unfolding normal_component_def by metis
  moreover have "NUL \<notin> set ?j"
    using set_join_with[of "CHR ''/''" cs] assms by (fastforce simp: normal_component_def)
  moreover have "split_on (CHR ''/'') ?j = cs"
    using assms False by (intro split_join_with) (auto simp: normal_component_def)
  ultimately show ?thesis
    using ne tail assms by (auto simp: validate_path_def bytes list_ex_iff normal_component_def)
qed

lemma validate_path_decompose:
  assumes "validate_path bs = Ok ()"
  shows "\<exists>cs. (\<forall>c \<in> set cs. normal_component c) \<and> bs = path_of_components cs"
proof (cases "length bs = 1")
  case True
  then have "bs = ''/''" using assms by (cases bs) (auto simp: validate_path_def split: if_splits)
  then show ?thesis by (intro exI[of _ "[]"]) (simp add: path_of_components_def)
next
  case False
  let ?cs = "split_on (CHR ''/'') (drop 1 bs)"
  from assms False have bs: "bs \<noteq> []" "hd bs = CHR ''/''" "NUL \<notin> set bs"
    "\<not> list_ex bad_component ?cs"
    by (auto simp: validate_path_def split: if_splits)
  have "normal_component c" if "c \<in> set ?cs" for c
    using that bs(3,4) split_on_pieces[OF that] split_on_piece_elements[OF that]
    by (auto simp: normal_component_def list_ex_iff dest: in_set_dropD)
  moreover have "path_of_components ?cs = bs"
    using bs(1,2) by (cases bs) (simp_all add: path_of_components_def concat_slash_join)
  ultimately show ?thesis by metis
qed

lemma valid_path_iff:
  "valid_path p \<longleftrightarrow> (\<exists>cs. (\<forall>c \<in> set cs. normal_component c) \<and> path_bytes p = path_of_components cs)"
  using validate_path_decompose validate_path_components by (auto simp: valid_path_def)

lemma path_components_of:
  assumes "\<forall>c \<in> set cs. normal_component c"
  shows "path_components (AbsolutePath (path_of_components cs)) = cs"
proof (cases "cs = []")
  case False
  have "last cs \<noteq> []" using assms False normal_component_not_Nil by auto
  then have "join_with (CHR ''/'') cs \<noteq> []" using False by (rule join_with_not_Nil[rotated])
  then show ?thesis using assms False
    by (auto simp: path_components_def path_of_components_def concat_slash_join
        normal_component_def intro: split_join_with)
qed (simp add: path_components_def path_of_components_def)

lemma valid_path_spelling:
  assumes "valid_path p"
  shows "path_bytes p = path_of_components (path_components p)
    \<and> (\<forall>c \<in> set (path_components p). normal_component c)"
  using assms path_components_of unfolding valid_path_iff by (metis absolute_path.collapse)

lemma path_components_inject:
  "valid_path p \<Longrightarrow> valid_path q \<Longrightarrow> path_components p = path_components q \<longleftrightarrow> p = q"
  by (metis absolute_path.expand valid_path_spelling)

lemma path_of_components_snoc:
  "path_of_components (cs @ [c]) = (if cs = [] then [] else path_of_components cs) @ CHR ''/'' # c"
  by (simp add: path_of_components_def)

lemma path_of_components_append:
  "ds \<noteq> [] \<Longrightarrow> path_of_components (cs @ ds)
     = (if cs = [] then [] else path_of_components cs) @ path_of_components ds"
  by (simp add: path_of_components_def)

lemma path_of_components_hd: "path_of_components cs \<noteq> [] \<and> hd (path_of_components cs) = CHR ''/''"
  by (cases cs) (simp_all add: path_of_components_def)

lemma relative_path_iff:
  "(\<exists>r. relative_path_try_from_bytes bs = Ok r) \<longleftrightarrow>
     (\<exists>cs. cs \<noteq> [] \<and> list_all normal_component cs \<and> bs = join_with (CHR ''/'') cs)" (is "?l \<longleftrightarrow> ?r")
proof
  let ?cs = "split_on (CHR ''/'') bs"
  assume ?l
  then have bs: "NUL \<notin> set bs" "\<not> list_ex bad_component ?cs"
    by (auto simp: relative_path_try_from_bytes_def split: if_splits)
  have "normal_component c" if "c \<in> set ?cs" for c
    using that bs split_on_pieces[OF that] split_on_piece_elements[OF that]
    by (auto simp: normal_component_def list_ex_iff)
  then show ?r by (intro exI[of _ ?cs]) (auto simp: list_all_iff)
next
  assume ?r
  then obtain cs where cs: "cs \<noteq> []" "list_all normal_component cs" "bs = join_with (CHR ''/'') cs"
    by blast
  have "last cs \<noteq> []" using cs normal_component_not_Nil by (auto simp: list_all_iff)
  then have ne: "bs \<noteq> []" using cs join_with_not_Nil[of cs] by simp
  obtain c ds where c: "cs = c # ds" "normal_component c" using cs by (cases cs) auto
  then obtain b bs' where b: "c = b # bs'" "b \<noteq> CHR ''/''"
    by (cases c) (auto simp: normal_component_def bad_component_def)
  then have "bs ! 0 = b" using cs(3) c by (cases ds) auto
  moreover have "NUL \<notin> set bs"
    using set_join_with[of "CHR ''/''" cs] cs by (fastforce simp: normal_component_def list_all_iff)
  moreover have "split_on (CHR ''/'') bs = cs"
    unfolding cs(3) using cs(1,2) by (intro split_join_with) (auto simp: normal_component_def list_all_iff)
  ultimately show ?l
    using ne b cs by (auto simp: relative_path_try_from_bytes_def list_ex_iff normal_component_def list_all_iff)
qed

text \<open>
  Path acceptance.  A byte string is accepted as an absolute path exactly when it is the
  canonical spelling of a list of normal names (non-empty, not \<open>.\<close> or \<open>..\<close>, free of separators
  and NUL), and that list is unique; the bytes are kept unchanged.  A rejected string is
  reported as not absolute before anything else, then as containing NUL, then as
  non-canonical.  A relative path is accepted exactly when it spells a non-empty list of
  normal names.
\<close>

theorem path_acceptance:
  "(absolute_path_try_from_bytes bs = Ok p \<longleftrightarrow>
      path_bytes p = bs \<and> (\<exists>!cs. list_all normal_component cs \<and> bs = path_of_components cs))
   \<and> (absolute_path_try_from_bytes bs = Err NotAbsolute \<longleftrightarrow> \<not> prefix ''/'' bs)
   \<and> (absolute_path_try_from_bytes bs = Err ContainsNul \<longleftrightarrow> prefix ''/'' bs \<and> NUL \<in> set bs)
   \<and> ((\<exists>r. relative_path_try_from_bytes bs = Ok r) \<longleftrightarrow>
      (\<exists>cs. cs \<noteq> [] \<and> list_all normal_component cs \<and> bs = join_with (CHR ''/'') cs))"
proof -
  have unique: "valid_path (AbsolutePath bs) \<longleftrightarrow>
      (\<exists>!cs. list_all normal_component cs \<and> bs = path_of_components cs)"
    unfolding valid_path_iff list_all_iff using path_components_of by (auto, metis)
  have "absolute_path_try_from_bytes bs = Ok p \<longleftrightarrow> path_bytes p = bs \<and> valid_path (AbsolutePath bs)"
    by (cases p) (auto simp: path_codec.decode_eq_Ok)
  moreover have "absolute_path_try_from_bytes bs = Err NotAbsolute \<longleftrightarrow> \<not> prefix ''/'' bs"
    by (cases bs) (auto simp: absolute_path_try_from_bytes_def validate_path_def result_simps)
  moreover have "absolute_path_try_from_bytes bs = Err ContainsNul \<longleftrightarrow> prefix ''/'' bs \<and> NUL \<in> set bs"
    by (cases bs) (auto simp: absolute_path_try_from_bytes_def validate_path_def result_simps)
  ultimately show ?thesis using unique relative_path_iff[of bs] by blast
qed

end
