(* ===== verification/Diagnostics.thy ===== *)
theory Diagnostics
  imports Prelude
begin

text \<open>
  Public diagnostics: \<open>thinws-core/src/diagnostic.rs\<close>, and the classified failures of the
  external boundaries: \<open>thinws-ports/src/error.rs\<close>.
\<close>

datatype error_code =
  Usage | NotInitialized | CapabilityUnavailable | CowUnavailable | NameConflict
| WorkspaceNotFound | WorkspaceNotReady | WorkspaceDirty | WorkspaceBusy
| GitCheckIncomplete | Git | Filesystem | ControlUnavailable | ControlLayout
| ControlNotEmpty | TargetLayout | TargetConflict | TargetExists | Metadata
| TargetMissing | TargetIdentity | WorkspaceIncomplete | LockTimeout

definition error_code_ALL :: "error_code list" where
  "error_code_ALL =
     [Usage, NotInitialized, CapabilityUnavailable, CowUnavailable, NameConflict,
      WorkspaceNotFound, WorkspaceNotReady, WorkspaceDirty, WorkspaceBusy,
      GitCheckIncomplete, Git, Filesystem, ControlUnavailable, ControlLayout,
      ControlNotEmpty, TargetLayout, TargetConflict, TargetExists, Metadata,
      TargetMissing, TargetIdentity, WorkspaceIncomplete, LockTimeout]"

fun error_code_as_str :: "error_code \<Rightarrow> string" where
  "error_code_as_str Usage = ''E_USAGE''"
| "error_code_as_str NotInitialized = ''E_NOT_INITIALIZED''"
| "error_code_as_str CapabilityUnavailable = ''E_CAPABILITY_UNAVAILABLE''"
| "error_code_as_str CowUnavailable = ''E_COW_UNAVAILABLE''"
| "error_code_as_str NameConflict = ''E_NAME_CONFLICT''"
| "error_code_as_str WorkspaceNotFound = ''E_WORKSPACE_NOT_FOUND''"
| "error_code_as_str WorkspaceNotReady = ''E_WORKSPACE_NOT_READY''"
| "error_code_as_str WorkspaceDirty = ''E_WORKSPACE_DIRTY''"
| "error_code_as_str WorkspaceBusy = ''E_WORKSPACE_BUSY''"
| "error_code_as_str GitCheckIncomplete = ''E_GIT_CHECK_INCOMPLETE''"
| "error_code_as_str Git = ''E_GIT''"
| "error_code_as_str Filesystem = ''E_FILESYSTEM''"
| "error_code_as_str ControlUnavailable = ''E_CONTROL_UNAVAILABLE''"
| "error_code_as_str ControlLayout = ''E_CONTROL_LAYOUT''"
| "error_code_as_str ControlNotEmpty = ''E_CONTROL_NOT_EMPTY''"
| "error_code_as_str TargetLayout = ''E_TARGET_LAYOUT''"
| "error_code_as_str TargetConflict = ''E_TARGET_CONFLICT''"
| "error_code_as_str TargetExists = ''E_TARGET_EXISTS''"
| "error_code_as_str Metadata = ''E_METADATA''"
| "error_code_as_str TargetMissing = ''E_TARGET_MISSING''"
| "error_code_as_str TargetIdentity = ''E_TARGET_IDENTITY''"
| "error_code_as_str WorkspaceIncomplete = ''E_WORKSPACE_INCOMPLETE''"
| "error_code_as_str LockTimeout = ''E_LOCK_TIMEOUT''"

datatype error_code_parse_error = ErrorCodeParseError

definition error_code_from_str :: "string \<Rightarrow> error_code_parse_error + error_code" where
  "error_code_from_str s =
     ok_or (find (\<lambda>c. error_code_as_str c = s) error_code_ALL) ErrorCodeParseError"

lemma error_code_ALL_complete: "c \<in> set error_code_ALL"
  by (cases c) (simp_all add: error_code_ALL_def)

lemma error_code_ALL_distinct: "distinct (map error_code_as_str error_code_ALL)"
  by code_simp

lemma error_code_as_str_inject [simp]:
  "error_code_as_str c = error_code_as_str d \<longleftrightarrow> c = d"
  using error_code_ALL_distinct error_code_ALL_complete by (metis distinct_map inj_onD)

lemma error_code_from_as_str [simp]: "error_code_from_str (error_code_as_str c) = Ok c"
proof -
  have "find (\<lambda>d. d = c) cs = Some c" if "c \<in> set cs" for cs :: "error_code list"
    using that by (induction cs) auto
  then show ?thesis by (simp add: error_code_from_str_def error_code_ALL_complete)
qed

lemma error_code_from_str_sound: "error_code_from_str s = Ok c \<Longrightarrow> error_code_as_str c = s"
  by (auto simp: error_code_from_str_def result_simps find_Some_iff)

interpretation error_code_codec: text_codec error_code_as_str error_code_from_str "\<lambda>_. True"
  by unfold_locales (simp_all add: error_code_from_str_sound)

text \<open>The persisted code satisfies the \<open>GLOB 'E_*'\<close> check of the schema.\<close>

lemma error_code_as_str_prefix: "take 2 (error_code_as_str c) = ''E_''"
  by (cases c) simp_all

subsection \<open>Context and structured errors\<close>

record context_value =
  cv_value :: string
  cv_sensitive :: bool

definition context_public :: "string \<Rightarrow> context_value" where
  "context_public v = \<lparr>cv_value = v, cv_sensitive = False\<rparr>"

definition context_sensitive :: "string \<Rightarrow> context_value" where
  "context_sensitive v = \<lparr>cv_value = v, cv_sensitive = True\<rparr>"

definition user_value :: "context_value \<Rightarrow> string" where
  "user_value c = cv_value c"

definition log_value :: "context_value \<Rightarrow> string" where
  "log_value c = (if cv_sensitive c then ''[redacted]'' else cv_value c)"

record core_error =
  ce_code :: error_code
  ce_message :: string
  ce_context :: "string \<rightharpoonup> context_value"
  ce_remediation :: "string option"

definition core_error_new :: "error_code \<Rightarrow> string \<Rightarrow> core_error" where
  "core_error_new c m =
     \<lparr>ce_code = c, ce_message = m, ce_context = Map.empty, ce_remediation = None\<rparr>"

definition core_error_with_context :: "core_error \<Rightarrow> string \<Rightarrow> context_value \<Rightarrow> core_error" where
  "core_error_with_context e k v = e\<lparr>ce_context := (ce_context e)(k \<mapsto> v)\<rparr>"

definition core_error_with_remediation :: "core_error \<Rightarrow> string \<Rightarrow> core_error" where
  "core_error_with_remediation e r = e\<lparr>ce_remediation := Some r\<rparr>"

definition core_error_display :: "core_error \<Rightarrow> string" where
  "core_error_display e = error_code_as_str (ce_code e) @ '': '' @ ce_message e"

lemma core_error_sel [simp]:
  "ce_code (core_error_new c m) = c"
  "ce_message (core_error_new c m) = m"
  "ce_remediation (core_error_new c m) = None"
  "ce_code (core_error_with_context e k v) = ce_code e"
  "ce_message (core_error_with_context e k v) = ce_message e"
  "ce_context (core_error_with_context e k v) = (ce_context e)(k \<mapsto> v)"
  "ce_remediation (core_error_with_context e k v) = ce_remediation e"
  "ce_code (core_error_with_remediation e r) = ce_code e"
  "ce_context (core_error_with_remediation e r) = ce_context e"
  by (simp_all add: core_error_new_def core_error_with_context_def
      core_error_with_remediation_def)

subsection \<open>Failures at an external boundary\<close>

datatype port_error_kind =
  NotFound | Conflict | InvalidData | InvalidLayout | UnsupportedVersion
| CapabilityUnavailable | NotEmpty | Unavailable | Timeout | Io | Storage

datatype port_conflict =
  InstallationIdentity | WorkspaceIdConflict | WorkspaceNameConflict | TargetPath | ExpectedState

datatype materialization_path_role = Source | TargetRoot | Staging | Trash

text \<open>The concrete source error is opaque to the code: it is only carried along.\<close>

datatype foreign_error = ForeignError string

record port_error =
  pe_kind :: port_error_kind
  pe_operation :: string
  pe_conflict :: "port_conflict option"
  pe_path_role :: "materialization_path_role option"
  pe_source :: "foreign_error option"

definition port_error_new :: "port_error_kind \<Rightarrow> string \<Rightarrow> port_error" where
  "port_error_new k oper =
     \<lparr>pe_kind = k, pe_operation = oper, pe_conflict = None, pe_path_role = None, pe_source = None\<rparr>"

definition port_error_conflict :: "string \<Rightarrow> port_conflict \<Rightarrow> port_error" where
  "port_error_conflict oper c =
     \<lparr>pe_kind = Conflict, pe_operation = oper, pe_conflict = Some c, pe_path_role = None,
      pe_source = None\<rparr>"

definition port_error_with_source :: "port_error \<Rightarrow> foreign_error \<Rightarrow> port_error" where
  "port_error_with_source e src = e\<lparr>pe_source := Some src\<rparr>"

definition port_error_with_role :: "port_error \<Rightarrow> materialization_path_role \<Rightarrow> port_error" where
  "port_error_with_role e r = e\<lparr>pe_path_role := Some r\<rparr>"

lemma port_error_sel [simp]:
  "pe_kind (port_error_new k oper) = k"
  "pe_conflict (port_error_new k oper) = None"
  "pe_kind (port_error_conflict oper c) = Conflict"
  "pe_conflict (port_error_conflict oper c) = Some c"
  "pe_kind (port_error_with_source e src) = pe_kind e"
  "pe_conflict (port_error_with_source e src) = pe_conflict e"
  by (simp_all add: port_error_new_def port_error_conflict_def port_error_with_source_def)

text \<open>
  The symbolic codes are a stable bijection: every public code has its own text, parsing
  the text gives the code back, every other text is refused, and every text satisfies the
  \<open>E_\<close> prefix the database checks.
\<close>

theorem error_code_text_stable:
  "(error_code_from_str s = Ok c \<longleftrightarrow> s = error_code_as_str c)
   \<and> ((\<exists>e. error_code_from_str s = Err e) \<longleftrightarrow> s \<notin> error_code_as_str ` set error_code_ALL)
   \<and> prefix ''E_'' (error_code_as_str c)"
proof -
  have "set error_code_ALL = UNIV" using error_code_ALL_complete by blast
  moreover have "prefix ''E_'' (error_code_as_str c)"
    by (metis error_code_as_str_prefix take_is_prefix)
  ultimately show ?thesis
    by (simp add: error_code_codec.decode_eq_Ok error_code_codec.decode_fails)
qed

text \<open>
  Sensitive context never reaches a log, and the user still sees the original value.
\<close>

lemma sensitive_context_redacted:
  "log_value (context_sensitive v) = ''[redacted]'' \<and> user_value (context_sensitive v) = v
   \<and> log_value (context_public v) = v"
  by (simp add: log_value_def user_value_def context_sensitive_def context_public_def)

end
