(* ===== verification/Lifecycle.thy ===== *)
theory Lifecycle
  imports Identifiers Names Paths Diagnostics
begin

text \<open>
  The Workspace life cycle: \<open>thinws-core/src/workspace.rs\<close> (states, events, reservations,
  durable records, tombstones) and \<open>installation.rs\<close>.
\<close>

subsection \<open>States and events\<close>

datatype workspace_state = Creating | Ready | Deleting | Error

fun workspace_state_as_str :: "workspace_state \<Rightarrow> string" where
  "workspace_state_as_str Creating = ''creating''"
| "workspace_state_as_str Ready = ''ready''"
| "workspace_state_as_str Deleting = ''deleting''"
| "workspace_state_as_str Error = ''error''"

datatype workspace_state_parse_error = WorkspaceStateParseError

definition workspace_state_from_str :: "string \<Rightarrow> workspace_state_parse_error + workspace_state" where
  "workspace_state_from_str s =
     (if s = ''creating'' then Ok Creating
      else if s = ''ready'' then Ok Ready
      else if s = ''deleting'' then Ok Deleting
      else if s = ''error'' then Ok Error
      else Err WorkspaceStateParseError)"

datatype removal_mode = Normal | Force

datatype workspace_event = Materialized | Failed | BeginRemoval removal_mode

datatype workspace_transition_error =
  WorkspaceTransitionError (wte_current: workspace_state) (wte_event: workspace_event)

fun transition ::
  "workspace_state \<Rightarrow> workspace_event \<Rightarrow> workspace_transition_error + workspace_state" where
  "transition Creating Materialized = Ok Ready"
| "transition Creating Failed = Ok Error"
| "transition Ready Failed = Ok Error"
| "transition Deleting Failed = Ok Error"
| "transition Ready (BeginRemoval m) = Ok Deleting"
| "transition Creating (BeginRemoval Force) = Ok Deleting"
| "transition Deleting (BeginRemoval Force) = Ok Deleting"
| "transition Error (BeginRemoval Force) = Ok Deleting"
| "transition s e = Err (WorkspaceTransitionError s e)"

interpretation workspace_state_codec:
  text_codec workspace_state_as_str workspace_state_from_str "\<lambda>_. True"
proof
  show "workspace_state_from_str (workspace_state_as_str s) = Ok s" for s
    by (cases s) (simp_all add: workspace_state_from_str_def)
  show "workspace_state_as_str t = s \<and> True" if "workspace_state_from_str s = Ok t" for s t
    using that by (auto simp: workspace_state_from_str_def split: if_splits)
qed

lemma workspace_state_as_str_inject [simp]:
  "workspace_state_as_str s = workspace_state_as_str t \<longleftrightarrow> s = t"
  using workspace_state_codec.encode_inject by simp

subsection \<open>Records\<close>

record workspace_reservation =
  res_workspace_id :: workspace_id
  res_instance_id :: instance_id
  res_name :: workspace_name
  res_source_path :: absolute_path
  res_target_path :: absolute_path
  res_source_volume_id :: volume_id
  res_target_volume_id :: volume_id
  res_allow_full_copy :: bool
  res_created_at :: unix_millis

record workspace_record =
  rec_reservation :: workspace_reservation
  rec_state :: workspace_state
  rec_last_error_code :: "error_code option"
  rec_updated_at :: unix_millis

datatype workspace_record_error = TimestampRegression | ErrorCodeMismatch

definition workspace_record_new ::
  "workspace_reservation \<Rightarrow> workspace_state \<Rightarrow> error_code option \<Rightarrow> unix_millis
   \<Rightarrow> workspace_record_error + workspace_record" where
  "workspace_record_new res st err upd =
     (if upd < res_created_at res then Err TimestampRegression
      else if (st = Error) \<noteq> (err \<noteq> None) then Err ErrorCodeMismatch
      else Ok \<lparr>rec_reservation = res, rec_state = st, rec_last_error_code = err,
               rec_updated_at = upd\<rparr>)"

record deletion_tombstone =
  tomb_workspace_id :: workspace_id
  tomb_instance_id :: instance_id
  tomb_deleted_at :: unix_millis

record installation_identity =
  ii_instance_id :: instance_id
  ii_data_root :: absolute_path
  ii_volume_id :: volume_id

record installation_record =
  inst_identity :: installation_identity
  inst_created_at :: unix_millis

datatype root_marker_state = Initializing | Ready

record root_marker =
  rm_identity :: installation_identity
  rm_state :: root_marker_state

text \<open>From here on the bare name is the Workspace state again.\<close>

abbreviation WsReady :: workspace_state where "WsReady \<equiv> workspace_state.Ready"

definition record_consistent :: "workspace_record \<Rightarrow> bool" where
  "record_consistent r \<longleftrightarrow>
     res_created_at (rec_reservation r) \<le> rec_updated_at r
     \<and> (rec_state r = Error \<longleftrightarrow> rec_last_error_code r \<noteq> None)"

lemma workspace_record_new_eq_Ok [result_simps]:
  "workspace_record_new res st err upd = Inr r \<longleftrightarrow>
     record_consistent r \<and> r = \<lparr>rec_reservation = res, rec_state = st,
       rec_last_error_code = err, rec_updated_at = upd\<rparr>"
  by (auto simp: workspace_record_new_def record_consistent_def)

subsection \<open>Histories\<close>

text \<open>The states a Workspace goes through when a list of events is applied in order.\<close>

fun apply_events ::
  "workspace_state \<Rightarrow> workspace_event list \<Rightarrow> workspace_transition_error + workspace_state" where
  "apply_events s [] = Ok s"
| "apply_events s (e # es) = and_then (transition s e) (\<lambda>t. apply_events t es)"

text \<open>The step relation of the life cycle, one rule per approved event.\<close>

inductive lifecycle_step :: "workspace_state \<Rightarrow> workspace_event \<Rightarrow> workspace_state \<Rightarrow> bool" where
  materialized: "lifecycle_step Creating Materialized WsReady"
| failed: "s \<noteq> Error \<Longrightarrow> lifecycle_step s Failed Error"
| remove_ready: "lifecycle_step WsReady (BeginRemoval m) Deleting"
| remove_forced: "lifecycle_step s (BeginRemoval Force) Deleting"

code_pred (modes: i \<Rightarrow> i \<Rightarrow> o \<Rightarrow> bool, i \<Rightarrow> i \<Rightarrow> i \<Rightarrow> bool) lifecycle_step .

inductive_cases step_to_ready: "lifecycle_step s e WsReady"
inductive_cases step_to_deleting: "lifecycle_step s e Deleting"
inductive_simps step_from_error: "lifecycle_step Error e t"
inductive_simps step_materialized: "lifecycle_step s Materialized t"
inductive_simps step_failed: "lifecycle_step s Failed t"
inductive_simps step_removal: "lifecycle_step s (BeginRemoval m) t"

lemma transition_step: "transition s e = Ok t \<longleftrightarrow> lifecycle_step s e t"
proof (cases e)
  case (BeginRemoval m)
  then show ?thesis by (cases s; cases m) (auto simp: step_removal)
next
  case Materialized
  then show ?thesis by (cases s) (auto simp: step_materialized)
next
  case Failed
  then show ?thesis by (cases s) (auto simp: step_failed)
qed

lemma transition_error: "transition s e = Err x \<Longrightarrow> x = WorkspaceTransitionError s e"
  by (cases "(s, e)" rule: transition.cases) auto

lemma apply_events_append:
  "apply_events s (xs @ ys) = and_then (apply_events s xs) (\<lambda>t. apply_events t ys)"
proof (induction xs arbitrary: s)
  case (Cons x xs)
  then show ?case by (cases "transition s x") auto
qed simp

lemma apply_events_snoc_Ok:
  "apply_events s (es @ [e]) = Ok u \<longleftrightarrow> (\<exists>t. apply_events s es = Ok t \<and> lifecycle_step t e u)"
  by (auto simp: apply_events_append result_simps transition_step)

lemma no_step_into_creating: "\<not> lifecycle_step s e Creating"
  by (auto elim: lifecycle_step.cases)

lemma creating_history: "apply_events Creating es = Ok Creating \<longleftrightarrow> es = []"
  by (cases es rule: rev_cases) (auto simp: apply_events_snoc_Ok no_step_into_creating)

lemma ready_history: "apply_events Creating es = Ok WsReady \<longleftrightarrow> es = [Materialized]"
proof
  assume h: "apply_events Creating es = Ok WsReady"
  then obtain xs e where es: "es = xs @ [e]" by (cases es rule: rev_cases) auto
  with h obtain t where "apply_events Creating xs = Ok t" "lifecycle_step t e WsReady"
    by (auto simp: apply_events_snoc_Ok)
  then show "es = [Materialized]"
    using es by (auto elim: step_to_ready simp: creating_history)
qed simp

lemma deleting_history:
  assumes "apply_events Creating es = Ok Deleting"
  shows "(\<exists>xs. es = xs @ [BeginRemoval Force]) \<or> es = [Materialized, BeginRemoval Normal]"
proof -
  from assms obtain xs e where es: "es = xs @ [e]" by (cases es rule: rev_cases) auto
  with assms obtain t where t: "apply_events Creating xs = Ok t" "lifecycle_step t e Deleting"
    by (auto simp: apply_events_snoc_Ok)
  from t(2) consider "e = BeginRemoval Force" | "t = WsReady" "e = BeginRemoval Normal"
    by (elim step_to_deleting) (metis removal_mode.exhaust)+
  then show ?thesis by cases (use es t(1) in \<open>auto simp: ready_history\<close>)
qed

text \<open>
  Life-cycle histories of a reserved Workspace.  It is Ready exactly when the one event
  so far is the persisted receipt: nothing leads back to Ready after a failure or a removal.
  Deletion is only ever entered by an explicit removal, which is either forced or was asked
  of a Ready Workspace; and the failed state is left by force only.
\<close>

theorem lifecycle_histories:
  "(apply_events Creating es = Ok workspace_state.Ready \<longleftrightarrow> es = [Materialized])
   \<and> (apply_events Creating es = Ok Deleting \<longrightarrow>
        (\<exists>xs. es = xs @ [BeginRemoval Force]) \<or> es = [Materialized, BeginRemoval Normal])
   \<and> (apply_events Creating es = Ok Error \<longrightarrow> apply_events Creating (es @ [e]) = Ok t \<longrightarrow>
        e = BeginRemoval Force \<and> t = Deleting)"
  using ready_history deleting_history
  by (auto simp: apply_events_snoc_Ok step_from_error)

theorem lifecycle_histories_witness:
  "apply_events Creating [Materialized, Failed] = Ok Error
   \<and> apply_events Creating [Materialized, Failed, BeginRemoval Force] = Ok Deleting
   \<and> (\<exists>xs. [Materialized, Failed, BeginRemoval Force] = xs @ [BeginRemoval Force])"
  using lifecycle_histories[of "[Materialized, Failed, BeginRemoval Force]" Failed Error]
  by simp

end
