(* ===== verification/Removal_Policy.thy ===== *)
theory Removal_Policy
  imports Git_Report Lifecycle
begin

text \<open>
  The pure cleanup decision of \<open>thinws-core/src/removal.rs\<close>: process evidence blocks both
  modes, Git evidence blocks only ordinary cleanup, and an incomplete process scan is carried
  as a warning.
\<close>

datatype process_use = NoEvidence | ScanIncomplete | ConfirmedInUse

datatype removal_refusal = ConfirmedInUse | GitCheckIncomplete | TrackedChanges

datatype removal_warning = ProcessScanIncomplete

datatype removal_decision = Proceed "removal_warning option" | Refuse removal_refusal

definition decide_removal :: "git_state \<Rightarrow> process_use \<Rightarrow> removal_mode \<Rightarrow> removal_decision" where
  "decide_removal git process mode =
     (if process = process_use.ConfirmedInUse then Refuse removal_refusal.ConfirmedInUse
      else
        let proceed = Proceed (if process = ScanIncomplete then Some ProcessScanIncomplete else None)
        in if mode = Normal then
             (case git of
                git_state.Unknown \<Rightarrow> Refuse GitCheckIncomplete
              | git_state.Dirty \<Rightarrow> Refuse TrackedChanges
              | git_state.Clean \<Rightarrow> proceed
              | git_state.NotApplicable \<Rightarrow> proceed)
           else proceed)"

lemma decide_removal_proceeds:
  "decide_removal git process mode = Proceed w \<longleftrightarrow>
     process \<noteq> process_use.ConfirmedInUse
     \<and> (mode = Normal \<longrightarrow> git = git_state.Clean \<or> git = git_state.NotApplicable)
     \<and> w = (if process = ScanIncomplete then Some ProcessScanIncomplete else None)"
  by (auto simp: decide_removal_def Let_def split: git_state.splits)

lemma decide_removal_refusals:
  "decide_removal git process mode = Refuse removal_refusal.ConfirmedInUse \<longleftrightarrow>
     process = process_use.ConfirmedInUse"
  "decide_removal git process mode = Refuse GitCheckIncomplete \<longleftrightarrow>
     process \<noteq> process_use.ConfirmedInUse \<and> mode = Normal \<and> git = git_state.Unknown"
  "decide_removal git process mode = Refuse TrackedChanges \<longleftrightarrow>
     process \<noteq> process_use.ConfirmedInUse \<and> mode = Normal \<and> git = git_state.Dirty"
  by (auto simp: decide_removal_def Let_def split: git_state.splits)

text \<open>
  A report from the raw evidence: whether discovery was complete, the issues of the whole scan,
  and of each repository its path, its issues and the output of \<open>git status\<close>.
\<close>

definition inspected ::
  "discovery_completeness \<Rightarrow> git_inspection_issue list \<Rightarrow> (bytes \<times> git_inspection_issue list \<times> bytes) list
   \<Rightarrow> git_inspection" where
  "inspected d issues repositories =
     git_inspection_new d
       (map (\<lambda>(p, is, out). let v = status_verdict p is out in
          repository_inspection_new (ri_relative_path v) (ri_state v) (ri_issues v)) repositories)
       issues"

text \<open>A repository proved clean: no issue, and the output parsed with a count of zero.\<close>

abbreviation counted_clean :: "bytes \<times> git_inspection_issue list \<times> bytes \<Rightarrow> bool" where
  "counted_clean \<equiv> \<lambda>(p, is, out). is = [] \<and> parse_tracked_change_count out = Ok 0"

lemma inspected_aggregate:
  "gi_aggregate (inspected d issues repositories) = git_state.Clean \<or>
     gi_aggregate (inspected d issues repositories) = git_state.NotApplicable \<longleftrightarrow>
   d = Complete \<and> issues = [] \<and> list_all counted_clean repositories"
proof -
  let ?report = "\<lambda>(p, is, out). let v = status_verdict p is out in
      repository_inspection_new (ri_relative_path v) (ri_state v) (ri_issues v)"
  let ?states = "map ri_state (map ?report repositories)"
  have "ri_state (?report r) = repository_state.Clean \<longleftrightarrow> counted_clean r" for r
    by (auto simp: Let_def repository_inspection_new_def status_verdict_def from_tracked_change_count_def
        split: sum.splits if_splits)
  then have "list_all (\<lambda>s. s = repository_state.Clean) ?states \<longleftrightarrow> list_all counted_clean repositories"
    by (simp add: list_all_iff del: split_paired_All)
  moreover have "gi_aggregate (inspected d issues repositories)
      = (if issues = [] then aggregate_git_state d ?states else git_state.Unknown)"
    by (simp add: inspected_def git_inspection_new_def del: map_map)
  moreover have "aggregate_git_state d states = git_state.Clean \<or> aggregate_git_state d states = git_state.NotApplicable
      \<longleftrightarrow> d = Complete \<and> list_all (\<lambda>s. s = repository_state.Clean) states" for states
    using only_clean_iff[of states] by (auto simp: aggregate_cases)
  ultimately show ?thesis by (simp del: map_map)
qed

text \<open>A text that is a well-formed listing whose entries name no tracked path.\<close>

definition clean_listing :: "bytes \<Rightarrow> bool" where
  "clean_listing output \<longleftrightarrow>
     (\<exists>es. list_all (\<lambda>e. entry_ok e \<and> tracked_paths e = {}) es
       \<and> output = concat (map render_entry es))"

lemma tracked_paths_finite [simp]: "finite (tracked_paths e)"
  by (cases e) auto

lemma clean_listing_iff: "parse_tracked_change_count output = Ok 0 \<longleftrightarrow> clean_listing output"
proof
  assume "parse_tracked_change_count output = Ok 0"
  then obtain paths where p: "parse_records output 0 {} = Inr paths" "card paths = 0"
    by (auto simp: parse_tracked_change_count_def result_simps)
  then obtain es where es: "list_all entry_ok es" "drop 0 output = concat (map render_entry es)"
    using parse_records_sound by blast
  with p parse_records_complete[OF this, of "{}"] have "\<Union> (tracked_paths ` set es) = {}" by auto
  with es show "clean_listing output"
    unfolding clean_listing_def by (intro exI[of _ es]) (auto simp: list_all_iff)
next
  assume "clean_listing output"
  then obtain es where es: "list_all (\<lambda>e. entry_ok e \<and> tracked_paths e = {}) es"
    "output = concat (map render_entry es)" by (auto simp: clean_listing_def)
  then have "list_all entry_ok es" "\<Union> (tracked_paths ` set es) = {}"
    by (auto simp: list_all_iff)
  with es(2) parse_records_complete[of es 0 "output" "{}"]
  show "parse_tracked_change_count output = Ok 0"
    by (simp add: parse_tracked_change_count_def)
qed

text \<open>
  C36. The cleanup policy end to end.  With the evidence of an inspection, ordinary cleanup
  proceeds exactly when no process is confirmed inside, discovery was complete, the scan raised
  no issue, and of every repository there is no issue and the output of \<open>git status\<close> is a
  well-formed listing whose entries name no tracked path; forced cleanup proceeds
  exactly when no process is confirmed inside.  Either way an incomplete process scan becomes
  the visible warning, and a confirmed process is the refusal reported whatever Git says.
\<close>

theorem removal_policy:
  "(decide_removal (gi_aggregate (inspected d issues repositories)) process Normal = Proceed w \<longleftrightarrow>
      process \<noteq> process_use.ConfirmedInUse \<and> d = Complete \<and> issues = []
      \<and> list_all (\<lambda>(p, is, out). is = [] \<and> clean_listing out) repositories
      \<and> w = (if process = ScanIncomplete then Some ProcessScanIncomplete else None))
   \<and> (decide_removal git process Force = Proceed w \<longleftrightarrow>
      process \<noteq> process_use.ConfirmedInUse
      \<and> w = (if process = ScanIncomplete then Some ProcessScanIncomplete else None))
   \<and> (decide_removal git process mode = Refuse removal_refusal.ConfirmedInUse \<longleftrightarrow>
      process = process_use.ConfirmedInUse)"
  using inspected_aggregate[of d issues repositories]
  by (auto simp: decide_removal_proceeds decide_removal_refusals clean_listing_iff)

end
