(* ===== verification/Materialization.thy ===== *)
theory Materialization
  imports Identifiers Paths
begin

text \<open>
  Materialization facts: the data of \<open>thinws-core/src/materialization.rs\<close>.  Capability
  evidence observed by an Adapter, the immutable plan, attempt evidence and the receipt.
  The constructors with checks are \<open>Plans\<close> and \<open>Receipts\<close>; this theory holds the types, the
  field-only constructors and \<open>path_capability_report_new\<close>.
\<close>

subsection \<open>Enumerations\<close>

datatype support_state = Supported | Unsupported | Unknown

datatype materializer_kind = ApfsFileClone | BtrfsReflink | FullCopy

datatype materialization_mode = CowClone | FullCopy

datatype fallback_policy = Deny | AllowFullCopyOnCowUnsupported

datatype fallback_reason = CloneUnsupportedAtPreflight | CloneUnavailableAtRuntime

datatype materialization_outcome = Succeeded | Partial | Failed

datatype cow_evidence = Confirmed | NotUsed | Unknown

datatype rollback_status = NotNeeded | ConfirmedBaseline | Incomplete

datatype path_resolution = ExistingDirectory | MissingTarget

datatype materialized_entry_kind = Directory | RegularFile | SymbolicLink

datatype materialization_failure_kind =
  PlanStale | InvalidLayout | UnsupportedSourceEntry | SourceChanged | TargetChanged
| CowUnavailable | NoSpace | ManifestMismatch | Filesystem

text \<open>\<open>Evidence<T>\<close>: an unknown observation keeps its reason and errno.\<close>

datatype 'a evidence = Known 'a | Unknown string "int option"

fun evidence_known :: "'a evidence \<Rightarrow> 'a option" where
  "evidence_known (Known v) = Some v"
| "evidence_known (Unknown r e) = None"

fun unknown_reason :: "'a evidence \<Rightarrow> string option" where
  "unknown_reason (Known v) = None"
| "unknown_reason (Unknown r e) = Some r"

fun unknown_errno :: "'a evidence \<Rightarrow> int option" where
  "unknown_errno (Known v) = None"
| "unknown_errno (Unknown r e) = e"

subsection \<open>Observed facts\<close>

record host_capability_report =
  host_platform :: string
  host_product_version :: string
  host_kernel_release :: string
  host_architecture :: string
  host_adapter :: string
  host_cow_clone :: support_state

record file_identity =
  device :: u64
  inode :: u64

record directory_identity_evidence =
  di_path :: absolute_path
  di_identity :: file_identity

text \<open>The \<open>fsid\<close> words are only compared.\<close>

record file_system_identity =
  type_name :: string
  fsid :: "int \<times> int"
  fs_volume_id :: "volume_id evidence"

record mount_evidence =
  raw_flags :: "32 word"
  writable :: bool
  mount_id :: "u64 option"

definition mount_evidence_new :: "32 word \<Rightarrow> bool \<Rightarrow> mount_evidence" where
  "mount_evidence_new flags w = \<lparr>raw_flags = flags, writable = w, mount_id = None\<rparr>"

definition with_mount_id :: "u64 \<Rightarrow> mount_evidence \<Rightarrow> mount_evidence" where
  "with_mount_id i m = m\<lparr>mount_id := Some i\<rparr>"

record candidate_evidence =
  cand_kind :: materializer_kind
  cand_state :: support_state
  cand_reasons :: "string list"

text \<open>A BLAKE3 digest is the array of its 32 bytes.\<close>

datatype probe_evidence_digest = ProbeEvidenceDigest (probe_digest_bytes: bytes)

datatype tree_digest = TreeDigest (tree_digest_bytes: bytes)

definition probe_digest_ok :: "probe_evidence_digest \<Rightarrow> bool" where
  "probe_digest_ok d \<longleftrightarrow> length (probe_digest_bytes d) = 32"

definition tree_digest_ok :: "tree_digest \<Rightarrow> bool" where
  "tree_digest_ok d \<longleftrightarrow> length (tree_digest_bytes d) = 32"

record path_capability_report =
  requested_path :: absolute_path
  resolution :: path_resolution
  nearest_existing_ancestor :: absolute_path
  missing_components :: "bytes list"
  ancestry :: "directory_identity_evidence list"
  filesystem :: file_system_identity
  mount :: mount_evidence
  readability :: support_state
  writability :: support_state
  path_cow_clone :: support_state

datatype path_capability_report_error = MissingAncestry | ResolutionMismatch | AncestorMismatch

definition path_capability_report_new ::
  "absolute_path \<Rightarrow> path_resolution \<Rightarrow> absolute_path \<Rightarrow> bytes list
   \<Rightarrow> directory_identity_evidence list \<Rightarrow> file_system_identity \<Rightarrow> mount_evidence
   \<Rightarrow> support_state \<Rightarrow> support_state \<Rightarrow> support_state
   \<Rightarrow> path_capability_report_error + path_capability_report" where
  "path_capability_report_new req res anc missing ancs fs mnt rd wr cow =
     (if ancs = [] then Err MissingAncestry
      else if (res = ExistingDirectory) \<noteq> (missing = []) then Err ResolutionMismatch
      else if di_path (last ancs) \<noteq> anc then Err AncestorMismatch
      else Ok \<lparr>requested_path = req, resolution = res, nearest_existing_ancestor = anc,
               missing_components = missing, ancestry = ancs, filesystem = fs, mount = mnt,
               readability = rd, writability = wr, path_cow_clone = cow\<rparr>)"

definition path_report_ok :: "path_capability_report \<Rightarrow> bool" where
  "path_report_ok r \<longleftrightarrow> ancestry r \<noteq> []
     \<and> (resolution r = ExistingDirectory \<longleftrightarrow> missing_components r = [])
     \<and> di_path (last (ancestry r)) = nearest_existing_ancestor r"

lemma path_capability_report_new_ok:
  "path_capability_report_new req res anc missing ancs fs mnt rd wr cow = Ok r \<Longrightarrow> path_report_ok r"
  by (auto simp: path_capability_report_new_def path_report_ok_def split: if_splits)

record materialization_path_report =
  mpr_source :: path_capability_report
  mpr_target_root :: path_capability_report
  mpr_staging :: path_capability_report
  mpr_trash :: path_capability_report
  mpr_cow_clone :: candidate_evidence
  mpr_full_copy :: candidate_evidence
  mpr_evidence_digest :: probe_evidence_digest

record materialize_request =
  req_source :: absolute_path
  req_target :: absolute_path
  req_staging :: absolute_path
  req_trash :: absolute_path

subsection \<open>Attempts, plans and receipts\<close>

record created_object_evidence =
  co_path :: relative_path
  co_kind :: materialized_entry_kind
  co_identity :: "file_identity option"

record rollback_evidence =
  rb_status :: rollback_status
  rb_removed :: "relative_path list"
  rb_quarantined :: "relative_path list"
  rb_unconfirmed_quarantined :: "relative_path list"
  rb_remaining :: "created_object_evidence list"

definition rollback_evidence_new ::
  "rollback_status \<Rightarrow> relative_path list \<Rightarrow> created_object_evidence list \<Rightarrow> rollback_evidence" where
  "rollback_evidence_new st removed remaining =
     \<lparr>rb_status = st, rb_removed = removed, rb_quarantined = [],
      rb_unconfirmed_quarantined = [], rb_remaining = remaining\<rparr>"

definition with_quarantined :: "relative_path list \<Rightarrow> rollback_evidence \<Rightarrow> rollback_evidence" where
  "with_quarantined ps r = r\<lparr>rb_quarantined := ps\<rparr>"

definition with_unconfirmed_quarantined ::
  "relative_path list \<Rightarrow> rollback_evidence \<Rightarrow> rollback_evidence" where
  "with_unconfirmed_quarantined ps r = r\<lparr>rb_unconfirmed_quarantined := ps\<rparr>"

record attempt_evidence =
  ev_logical_bytes :: "u64 option"
  ev_physical_bytes :: "u64 option"
  ev_regular_file_count :: "u64 option"
  ev_clone_calls_succeeded :: u64
  ev_source_manifest_digest :: "tree_digest option"
  ev_target_manifest_digest :: "tree_digest option"

record failed_attempt =
  fa_probe_evidence_digest :: probe_evidence_digest
  fa_attempted_mode :: materialization_mode
  fa_actual_adapter :: materializer_kind
  fa_outcome :: materialization_outcome
  fa_failure_kind :: materialization_failure_kind
  fa_source_volume_id :: "volume_id option"
  fa_target_volume_id :: "volume_id option"
  fa_created :: "created_object_evidence list"
  fa_rollback :: rollback_evidence
  fa_elapsed_millis :: u64
  fa_evidence :: attempt_evidence

text \<open>The array \<open>path_evidence\<close> lists source, target, staging and trash, in this order.\<close>

record materialization_plan =
  pl_requested_mode :: materialization_mode
  pl_effective_mode :: materialization_mode
  pl_selected_adapter :: materializer_kind
  pl_fallback_policy :: fallback_policy
  pl_probe_evidence_digest :: probe_evidence_digest
  pl_path_evidence :: "path_capability_report list"
  pl_source_path :: absolute_path
  pl_target_path :: absolute_path
  pl_staging_path :: absolute_path
  pl_trash_path :: absolute_path
  pl_source_volume_id :: volume_id
  pl_target_volume_id :: volume_id
  pl_fallback_reason :: "fallback_reason option"
  pl_failed_attempts :: "failed_attempt list"

record materialization_receipt =
  rc_probe_evidence_digest :: probe_evidence_digest
  rc_requested_mode :: materialization_mode
  rc_effective_mode :: materialization_mode
  rc_actual_mode :: materialization_mode
  rc_actual_adapter :: materializer_kind
  rc_outcome :: materialization_outcome
  rc_cow_evidence :: cow_evidence
  rc_source_volume_id :: "volume_id option"
  rc_target_volume_id :: "volume_id option"
  rc_created :: "created_object_evidence list"
  rc_unconfirmed_staging :: "created_object_evidence option"
  rc_rollback :: rollback_evidence
  rc_elapsed_millis :: u64
  rc_logical_bytes :: "u64 option"
  rc_physical_bytes :: "u64 option"
  rc_regular_file_count :: "u64 option"
  rc_clone_calls_succeeded :: u64
  rc_source_manifest_digest :: "tree_digest option"
  rc_target_manifest_digest :: "tree_digest option"
  rc_failure_kind :: "materialization_failure_kind option"
  rc_fallback_reason :: "fallback_reason option"
  rc_failed_attempts :: "failed_attempt list"

end
