(* ===== verification/Metadata_Port.thy ===== *)
theory Metadata_Port
  imports Lifecycle Materialization
begin

text \<open>
  The values that cross the \<open>MetadataStore\<close> boundary (\<open>thinws-ports/src/metadata.rs\<close>): the
  typed summary of a final receipt and the read-only snapshot.
\<close>

record final_summary =
  fs_requested_mode :: materialization_mode
  fs_effective_mode :: materialization_mode
  fs_actual_mode :: materialization_mode
  fs_adapter :: materializer_kind
  fs_cow :: cow_evidence
  fs_fallback_reason :: "fallback_reason option"
  fs_failed_attempt_count :: nat

record metadata_snapshot =
  ms_installation :: installation_record
  ms_workspaces :: "workspace_record list"
  ms_final_materializations :: "(workspace_id \<times> final_summary) list"

definition metadata_snapshot_new ::
  "installation_record \<Rightarrow> workspace_record list \<Rightarrow> metadata_snapshot" where
  "metadata_snapshot_new inst ws =
     \<lparr>ms_installation = inst, ms_workspaces = ws, ms_final_materializations = []\<rparr>"

definition with_final_materializations ::
  "(workspace_id \<times> final_summary) list \<Rightarrow> metadata_snapshot \<Rightarrow> metadata_snapshot" where
  "with_final_materializations fs s = s\<lparr>ms_final_materializations := fs\<rparr>"

text \<open>\<open>iter().find(|(id, _)| *id == workspace_id).map(..)\<close>.\<close>

definition snapshot_final_materialization ::
  "metadata_snapshot \<Rightarrow> workspace_id \<Rightarrow> final_summary option" where
  "snapshot_final_materialization s w =
     map_option snd (find (\<lambda>(i, _). i = w) (ms_final_materializations s))"

end
