(* ===== verification/Metadata_Schema.thy ===== *)
theory Metadata_Schema
  imports Metadata_Port
begin

text \<open>
  The durable tables of \<open>thinws-metadata-sqlite/src/schema_v2.sql\<close>: rows, \<open>CHECK\<close>
  constraints, triggers, and the statements the adapter executes on them.

  A table is the list of its rows.  A statement that violates a key, a \<open>CHECK\<close>, a foreign key
  or a trigger is one constraint failure and changes nothing, as SQLite's statement abort
  does.  The texts the adapter binds are ASCII, so SQL's character functions are byte
  functions; \<open>sql_length\<close> and \<open>GLOB\<close> stop at a NUL as SQLite's do.
\<close>

subsection \<open>SQL text functions\<close>

definition sql_length :: "string \<Rightarrow> nat" where
  "sql_length s = length (takeWhile (\<lambda>c. c \<noteq> NUL) s)"

definition sql_substr :: "string \<Rightarrow> nat \<Rightarrow> nat \<Rightarrow> string" where
  "sql_substr s i n = take n (drop (i - 1) s)"

definition sql_last :: "string \<Rightarrow> string" where
  "sql_last s = (if s = [] then [] else [last s])"

definition sql_no_nul :: "string \<Rightarrow> bool" where
  "sql_no_nul s = (NUL \<notin> set s)"

definition sql_without_dash :: "string \<Rightarrow> string" where
  "sql_without_dash s = filter (\<lambda>c. c \<noteq> CHR ''-'') s"

text \<open>A \<open>GLOB\<close> pattern: \<open>*\<close>, or one character in (or, negated, outside) a list of ranges.\<close>

datatype glob_token = AnyRun | OneOf bool "(char \<times> char) list"

definition in_ranges :: "(char \<times> char) list \<Rightarrow> char \<Rightarrow> bool" where
  "in_ranges rs c = list_ex (\<lambda>(a, b). a \<le> c \<and> c \<le> b) rs"

function glob_match :: "glob_token list \<Rightarrow> string \<Rightarrow> bool" where
  "glob_match [] s = (s = [])"
| "glob_match (AnyRun # ts) s =
     (glob_match ts s \<or> (case s of [] \<Rightarrow> False | _ # s' \<Rightarrow> glob_match (AnyRun # ts) s'))"
| "glob_match (OneOf neg rs # ts) s =
     (case s of [] \<Rightarrow> False | c # s' \<Rightarrow> in_ranges rs c \<noteq> neg \<and> glob_match ts s')"
  by pat_completeness auto
termination
  by (relation "measures [\<lambda>(ts, s). length ts, \<lambda>(ts, s). length s]") auto

definition sql_glob :: "glob_token list \<Rightarrow> string \<Rightarrow> bool" where
  "sql_glob p s = glob_match p (takeWhile (\<lambda>c. c \<noteq> NUL) s)"

text \<open>\<open>'*[^0-9a-f]*'\<close>, \<open>'*[^a-z0-9._-]*'\<close>, \<open>'[a-z0-9]'\<close> and \<open>'E_*'\<close>.\<close>

definition glob_not_hex :: "glob_token list" where
  "glob_not_hex = [AnyRun, OneOf True [(CHR ''0'', CHR ''9''), (CHR ''a'', CHR ''f'')], AnyRun]"

definition glob_not_name :: "glob_token list" where
  "glob_not_name = [AnyRun, OneOf True [(CHR ''a'', CHR ''z''), (CHR ''0'', CHR ''9''),
     (CHR ''.'', CHR ''.''), (CHR ''_'', CHR ''_''), (CHR ''-'', CHR ''-'')], AnyRun]"

definition glob_boundary :: "glob_token list" where
  "glob_boundary = [OneOf False [(CHR ''a'', CHR ''z''), (CHR ''0'', CHR ''9'')]]"

definition glob_error_code :: "glob_token list" where
  "glob_error_code = [OneOf False [(CHR ''E'', CHR ''E'')], OneOf False [(CHR ''_'', CHR ''_'')], AnyRun]"

subsection \<open>Rows\<close>

record installation_row =
  ir_instance_id :: string
  ir_control_root :: bytes
  ir_control_volume_id :: string
  ir_created_at :: int

record workspace_row =
  wr_workspace_id :: string
  wr_instance_id :: string
  wr_name :: string
  wr_source_path :: bytes
  wr_target_path :: bytes
  wr_source_volume_id :: string
  wr_target_volume_id :: string
  wr_allow_full_copy :: int
  wr_state :: string
  wr_last_error_code :: "string option"
  wr_created_at :: int
  wr_updated_at :: int

record receipt_row =
  rr_workspace_id :: string
  rr_schema_version :: int
  rr_json :: string
  rr_recorded_at :: int

record tombstone_row =
  tr_workspace_id :: string
  tr_instance_id :: string
  tr_deleted_at :: int

text \<open>
  A row of \<open>sqlite_schema\<close>: type, name, table name and SQL text.  The file header carries the
  application ID and the schema version.
\<close>

type_synonym catalog_entry = "string \<times> string \<times> string \<times> string"

record database =
  db_application_id :: int
  db_user_version :: int
  db_catalog :: "catalog_entry list"
  db_installation :: "installation_row list"
  db_workspaces :: "workspace_row list"
  db_receipts :: "receipt_row list"
  db_tombstones :: "tombstone_row list"

definition empty_database :: database where
  "empty_database = \<lparr>db_application_id = 0, db_user_version = 0, db_catalog = [],
     db_installation = [], db_workspaces = [], db_receipts = [], db_tombstones = []\<rparr>"

subsection \<open>\<open>CHECK\<close> constraints\<close>

definition uuid_text_check :: "string \<Rightarrow> bool" where
  "uuid_text_check s =
     (sql_length s = 36
      \<and> sql_substr s 9 1 = ''-'' \<and> sql_substr s 14 1 = ''-''
      \<and> sql_substr s 19 1 = ''-'' \<and> sql_substr s 24 1 = ''-''
      \<and> sql_no_nul s
      \<and> sql_length (sql_without_dash s) = 32
      \<and> \<not> sql_glob glob_not_hex (sql_without_dash s))"

definition uuid_v7_text_check :: "string \<Rightarrow> bool" where
  "uuid_v7_text_check s =
     (uuid_text_check s \<and> sql_substr s 15 1 = ''7''
      \<and> sql_substr s 20 1 \<in> {''8'', ''9'', ''a'', ''b''})"

definition workspace_id_check :: "string \<Rightarrow> bool" where
  "workspace_id_check s =
     (sql_length s = 39
      \<and> sql_substr s 1 3 = ''ws_''
      \<and> sql_substr s 12 1 = ''-'' \<and> sql_substr s 17 1 = ''-'' \<and> sql_substr s 18 1 = ''7''
      \<and> sql_substr s 22 1 = ''-'' \<and> sql_substr s 23 1 \<in> {''8'', ''9'', ''a'', ''b''}
      \<and> sql_substr s 27 1 = ''-''
      \<and> sql_no_nul s
      \<and> sql_length (sql_without_dash (drop 3 s)) = 32
      \<and> \<not> sql_glob glob_not_hex (sql_without_dash (drop 3 s)))"

definition name_check :: "string \<Rightarrow> bool" where
  "name_check s =
     (1 \<le> sql_length s \<and> sql_length s \<le> 63
      \<and> sql_no_nul s
      \<and> \<not> sql_glob glob_not_name s
      \<and> sql_glob glob_boundary (sql_substr s 1 1)
      \<and> sql_glob glob_boundary (sql_last s)
      \<and> \<not> sublist ''..'' s)"

definition installation_row_check :: "installation_row \<Rightarrow> bool" where
  "installation_row_check r =
     (uuid_v7_text_check (ir_instance_id r) \<and> ir_control_root r \<noteq> []
      \<and> uuid_text_check (ir_control_volume_id r) \<and> 0 \<le> ir_created_at r)"

definition workspace_row_check :: "workspace_row \<Rightarrow> bool" where
  "workspace_row_check r =
     (workspace_id_check (wr_workspace_id r)
      \<and> name_check (wr_name r)
      \<and> wr_source_path r \<noteq> [] \<and> wr_target_path r \<noteq> []
      \<and> uuid_text_check (wr_source_volume_id r) \<and> uuid_text_check (wr_target_volume_id r)
      \<and> wr_allow_full_copy r \<in> {0, 1}
      \<and> wr_state r \<in> {''creating'', ''ready'', ''deleting'', ''error''}
      \<and> 0 \<le> wr_created_at r \<and> wr_created_at r \<le> wr_updated_at r
      \<and> (case wr_last_error_code r of
           Some c \<Rightarrow> wr_state r = ''error'' \<and> sql_glob glob_error_code c
         | None \<Rightarrow> wr_state r \<noteq> ''error''))"

definition receipt_row_check :: "(string \<Rightarrow> bool) \<Rightarrow> receipt_row \<Rightarrow> bool" where
  "receipt_row_check json_ok r =
     (0 < rr_schema_version r \<and> json_ok (rr_json r) \<and> 0 \<le> rr_recorded_at r)"

definition tombstone_row_check :: "tombstone_row \<Rightarrow> bool" where
  "tombstone_row_check r = (0 \<le> tr_deleted_at r)"

subsection \<open>Statements\<close>

text \<open>
  The failures the adapter tells apart: a constraint violation, or anything else (I/O, a
  busy database).  A statement returns the number of rows it changed.
\<close>

datatype sql_error = ConstraintViolation foreign_error | OtherSql foreign_error

fun is_constraint :: "sql_error \<Rightarrow> bool" where
  "is_constraint (ConstraintViolation e) = True"
| "is_constraint (OtherSql e) = False"

fun sql_error_source :: "sql_error \<Rightarrow> foreign_error" where
  "sql_error_source (ConstraintViolation e) = e"
| "sql_error_source (OtherSql e) = e"

type_synonym statement = "database \<Rightarrow> sql_error + nat \<times> database"

definition abort :: "string \<Rightarrow> sql_error + 'a" where
  "abort msg = Err (ConstraintViolation (ForeignError msg))"

definition insert_installation :: "installation_row \<Rightarrow> statement" where
  "insert_installation r db =
     (if db_installation db \<noteq> [] then abort ''installation is insert-once''
      else if \<not> installation_row_check r then abort ''CHECK''
      else Ok (1, db\<lparr>db_installation := [r]\<rparr>))"

text \<open>\<open>workspaces_insert_guard\<close>, then the keys, the foreign key and the \<open>CHECK\<close>s.\<close>

definition insert_workspace :: "workspace_row \<Rightarrow> statement" where
  "insert_workspace r db =
     (if list_ex (\<lambda>w. wr_workspace_id w = wr_workspace_id r \<or> wr_name w = wr_name r
          \<or> wr_target_path w = wr_target_path r) (db_workspaces db)
      then abort ''workspace conflicts cannot be replaced''
      else if wr_state r \<noteq> ''creating'' \<or> wr_last_error_code r \<noteq> None
      then abort ''workspace must be inserted as creating''
      else if \<not> list_ex (\<lambda>i. ir_instance_id i = wr_instance_id r) (db_installation db)
          \<or> wr_source_volume_id r \<noteq> wr_target_volume_id r
      then abort ''workspace installation or volume mismatch''
      else if list_ex (\<lambda>t. tr_workspace_id t = wr_workspace_id r) (db_tombstones db)
      then abort ''workspace ID is tombstoned''
      else if \<not> workspace_row_check r then abort ''CHECK''
      else Ok (1, db\<lparr>db_workspaces := db_workspaces db @ [r]\<rparr>))"

text \<open>The four \<open>BEFORE UPDATE\<close> triggers of \<open>workspaces\<close>, for one row and its replacement.\<close>

definition same_identity_fields :: "workspace_row \<Rightarrow> workspace_row \<Rightarrow> bool" where
  "same_identity_fields old new =
     (wr_workspace_id old = wr_workspace_id new \<and> wr_instance_id old = wr_instance_id new
      \<and> wr_name old = wr_name new \<and> wr_source_path old = wr_source_path new
      \<and> wr_target_path old = wr_target_path new
      \<and> wr_source_volume_id old = wr_source_volume_id new
      \<and> wr_target_volume_id old = wr_target_volume_id new
      \<and> wr_allow_full_copy old = wr_allow_full_copy new
      \<and> wr_created_at old = wr_created_at new)"

definition state_transition_allowed :: "string \<Rightarrow> string \<Rightarrow> bool" where
  "state_transition_allowed old new =
     (old = new
      \<or> old = ''creating'' \<and> new \<in> {''ready'', ''error'', ''deleting''}
      \<or> old = ''ready'' \<and> new \<in> {''deleting'', ''error''}
      \<or> old = ''deleting'' \<and> new = ''error''
      \<or> old = ''error'' \<and> new = ''deleting'')"

definition update_guard :: "database \<Rightarrow> workspace_row \<Rightarrow> workspace_row \<Rightarrow> sql_error + unit" where
  "update_guard db old new =
     (if \<not> same_identity_fields old new then abort ''workspace identity fields are immutable''
      else if \<not> state_transition_allowed (wr_state old) (wr_state new)
      then abort ''illegal workspace state transition''
      else if wr_updated_at new < wr_updated_at old then abort ''workspace timestamp regressed''
      else if wr_state old \<noteq> ''ready'' \<and> wr_state new = ''ready''
          \<and> \<not> list_ex (\<lambda>r. rr_workspace_id r = wr_workspace_id new) (db_receipts db)
      then abort ''ready workspace requires final receipt''
      else if \<not> workspace_row_check new then abort ''CHECK''
      else Ok ())"

text \<open>
  \<open>UPDATE workspaces SET state, last_error_code, updated_at_unix_ms WHERE workspace_id = ?
  AND state = ?\<close>: every matching row is guarded, and one refusal undoes the statement.
\<close>

definition set_state :: "string \<Rightarrow> string option \<Rightarrow> int \<Rightarrow> workspace_row \<Rightarrow> workspace_row" where
  "set_state st err t r = r\<lparr>wr_state := st, wr_last_error_code := err, wr_updated_at := t\<rparr>"

definition update_state ::
  "string \<Rightarrow> string \<Rightarrow> string \<Rightarrow> string option \<Rightarrow> int \<Rightarrow> statement" where
  "update_state i expected st err t db =
     (let hit = (\<lambda>w. wr_workspace_id w = i \<and> wr_state w = expected);
          upd = (\<lambda>w. if hit w then set_state st err t w else w)
      in and_then (collect_results (map (\<lambda>w. update_guard db w (set_state st err t w))
                     (filter hit (db_workspaces db))))
           (\<lambda>us. Ok (length us, db\<lparr>db_workspaces := map upd (db_workspaces db)\<rparr>)))"

text \<open>The two \<open>BEFORE INSERT\<close> triggers, the foreign key and the \<open>CHECK\<close>s.\<close>

definition insert_receipt :: "(string \<Rightarrow> bool) \<Rightarrow> receipt_row \<Rightarrow> statement" where
  "insert_receipt json_ok r db =
     (if list_ex (\<lambda>q. rr_workspace_id q = rr_workspace_id r) (db_receipts db)
      then abort ''receipt is insert-once''
      else if \<not> list_ex (\<lambda>w. wr_workspace_id w = rr_workspace_id r \<and> wr_state w = ''creating'')
               (db_workspaces db)
      then abort ''receipt requires creating workspace''
      else if \<not> receipt_row_check json_ok r then abort ''CHECK''
      else Ok (1, db\<lparr>db_receipts := db_receipts db @ [r]\<rparr>))"

definition insert_tombstone :: "tombstone_row \<Rightarrow> statement" where
  "insert_tombstone r db =
     (if list_ex (\<lambda>t. tr_workspace_id t = tr_workspace_id r) (db_tombstones db)
      then abort ''tombstone is insert-once''
      else if \<not> list_ex (\<lambda>w. wr_workspace_id w = tr_workspace_id r
               \<and> wr_instance_id w = tr_instance_id r \<and> wr_state w = ''deleting'') (db_workspaces db)
      then abort ''tombstone requires matching deleting workspace''
      else if \<not> list_ex (\<lambda>i. ir_instance_id i = tr_instance_id r) (db_installation db)
      then abort ''FOREIGN KEY''
      else if \<not> tombstone_row_check r then abort ''CHECK''
      else Ok (1, db\<lparr>db_tombstones := db_tombstones db @ [r]\<rparr>))"

text \<open>
  \<open>DELETE FROM workspaces WHERE workspace_id = ? AND state = 'deleting'\<close>: the trigger asks for
  a tombstone, and the receipts of a deleted row go with it (\<open>ON DELETE CASCADE\<close>; their own
  delete trigger only refuses while the parent row exists).
\<close>

definition delete_workspace :: "string \<Rightarrow> statement" where
  "delete_workspace i db =
     (let hit = (\<lambda>w. wr_workspace_id w = i \<and> wr_state w = ''deleting'');
          victims = filter hit (db_workspaces db)
      in if \<not> list_all (\<lambda>w. list_ex (\<lambda>t. tr_workspace_id t = wr_workspace_id w
                \<and> tr_instance_id t = wr_instance_id w) (db_tombstones db)) victims
         then abort ''workspace delete requires tombstone''
         else Ok (length victims,
                db\<lparr>db_workspaces := filter (\<lambda>w. \<not> hit w) (db_workspaces db),
                   db_receipts := filter (\<lambda>r. \<not> list_ex (\<lambda>w. wr_workspace_id w = rr_workspace_id r) victims)
                     (db_receipts db)\<rparr>))"

end
