(* ===== verification/Plans.thy ===== *)
theory Plans
  imports Materialization
begin

text \<open>
  Derivation of the immutable \<open>MaterializationPlan\<close> (\<open>materialization.rs\<close>): the first
  copy-on-write plan, the Full Copy plan after a negative probe, and the Full Copy plan after
  one rolled-back clone attempt.  The checks are in the code's order, because the first one
  that fails is the error reported.
\<close>

datatype plan_error =
  WrongCandidate | CandidateUnsupported | UnknownVolume | WrongFilesystem | UnknownMount
| DifferentMount | DifferentVolume | WrongFullCopyCandidate | FullCopyUnavailable
| FallbackDenied | FallbackNotEligible | PreviousAttemptNotClean | PreviousAttemptMismatch

subsection \<open>Helper checks\<close>

definition require_fallback_policy :: "fallback_policy \<Rightarrow> plan_error + unit" where
  "require_fallback_policy p =
     (if p = AllowFullCopyOnCowUnsupported then Ok () else Err FallbackDenied)"

fun require_cow_backend :: "materializer_kind \<Rightarrow> plan_error + unit" where
  "require_cow_backend ApfsFileClone = Ok ()"
| "require_cow_backend BtrfsReflink = Ok ()"
| "require_cow_backend materializer_kind.FullCopy = Err WrongCandidate"

definition require_candidate_kinds :: "materialization_path_report \<Rightarrow> plan_error + unit" where
  "require_candidate_kinds r =
     and_then (require_cow_backend (cand_kind (mpr_cow_clone r))) (\<lambda>_.
       if cand_kind (mpr_full_copy r) \<noteq> materializer_kind.FullCopy
       then Err WrongFullCopyCandidate else Ok ())"

definition require_full_copy_supported :: "materialization_path_report \<Rightarrow> plan_error + unit" where
  "require_full_copy_supported r =
     (if cand_state (mpr_full_copy r) = Supported then Ok () else Err FullCopyUnavailable)"

definition plan_volume_id :: "path_capability_report \<Rightarrow> plan_error + volume_id" where
  "plan_volume_id r = ok_or (evidence_known (fs_volume_id (filesystem r))) UnknownVolume"

definition path_evidence :: "materialization_path_report \<Rightarrow> path_capability_report list" where
  "path_evidence r = [mpr_source r, mpr_target_root r, mpr_staging r, mpr_trash r]"

text \<open>The loop over the mount IDs of target, staging and trash.\<close>

fun check_mounts :: "u64 \<Rightarrow> path_capability_report list \<Rightarrow> plan_error + unit" where
  "check_mounts m [] = Ok ()"
| "check_mounts m (p # ps) =
     and_then (ok_or (mount_id (mount p)) UnknownMount) (\<lambda>i.
       if i \<noteq> m then Err DifferentMount else check_mounts m ps)"

fun expected_type :: "materializer_kind \<Rightarrow> plan_error + string" where
  "expected_type ApfsFileClone = Ok ''apfs''"
| "expected_type BtrfsReflink = Ok ''btrfs''"
| "expected_type materializer_kind.FullCopy = Err WrongCandidate"

definition phase1_volume_layout ::
  "materialization_path_report \<Rightarrow> materializer_kind \<Rightarrow> plan_error + volume_id \<times> volume_id" where
  "phase1_volume_layout r backend =
     and_then (require_cow_backend backend) (\<lambda>_.
     let paths = path_evidence r;
         source_type = type_name (filesystem (paths ! 0))
     in and_then (expected_type backend) (\<lambda>expected.
        if source_type \<noteq> expected
           \<or> list_ex (\<lambda>p. type_name (filesystem p) \<noteq> source_type) (drop 1 paths)
        then Err WrongFilesystem
        else
          and_then (plan_volume_id (paths ! 0)) (\<lambda>source_volume.
          and_then (plan_volume_id (paths ! 1)) (\<lambda>target_volume.
          and_then (plan_volume_id (paths ! 2)) (\<lambda>staging_volume.
          and_then (plan_volume_id (paths ! 3)) (\<lambda>trash_volume.
            if list_ex (\<lambda>v. v \<noteq> source_volume) [target_volume, staging_volume, trash_volume]
            then Err DifferentVolume
            else and_then
                   (if backend = BtrfsReflink
                    then and_then (ok_or (mount_id (mount (paths ! 0))) UnknownMount)
                           (\<lambda>m. check_mounts m (drop 1 paths))
                    else Ok ())
                   (\<lambda>_. Ok (source_volume, target_volume))))))))"

definition frozen_facts_match :: "path_capability_report \<Rightarrow> path_capability_report \<Rightarrow> bool" where
  "frozen_facts_match fresh frozen =
     (requested_path fresh = requested_path frozen
      \<and> resolution fresh = resolution frozen
      \<and> nearest_existing_ancestor fresh = nearest_existing_ancestor frozen
      \<and> missing_components fresh = missing_components frozen
      \<and> ancestry fresh = ancestry frozen
      \<and> filesystem fresh = filesystem frozen
      \<and> mount fresh = mount frozen)"

definition report_paths_match_plan :: "materialization_path_report \<Rightarrow> materialization_plan \<Rightarrow> bool" where
  "report_paths_match_plan r plan =
     list_all (\<lambda>(fresh, frozen). frozen_facts_match fresh frozen)
       (zip (path_evidence r) (pl_path_evidence plan))"

definition receipt_matches_plan :: "materialization_receipt \<Rightarrow> materialization_plan \<Rightarrow> bool" where
  "receipt_matches_plan rc plan =
     (rc_probe_evidence_digest rc = pl_probe_evidence_digest plan
      \<and> rc_requested_mode rc = pl_requested_mode plan
      \<and> rc_effective_mode rc = pl_effective_mode plan
      \<and> rc_actual_mode rc = CowClone
      \<and> rc_actual_adapter rc = pl_selected_adapter plan
      \<and> rc_source_volume_id rc = Some (pl_source_volume_id plan)
      \<and> rc_target_volume_id rc = Some (pl_target_volume_id plan)
      \<and> rc_fallback_reason rc = pl_fallback_reason plan
      \<and> rc_failed_attempts rc = pl_failed_attempts plan
      \<and> rc_outcome rc \<noteq> Succeeded)"

definition receipt_restored_baseline :: "materialization_receipt \<Rightarrow> bool" where
  "receipt_restored_baseline rc =
     (if rc_unconfirmed_staging rc \<noteq> None then False
      else
        let rb = rc_rollback rc;
            rollback_is_empty = (rb_remaining rb = [] \<and> rb_unconfirmed_quarantined rb = [])
        in case rb_status rb of
             ConfirmedBaseline \<Rightarrow> rollback_is_empty
           | NotNeeded \<Rightarrow>
               rollback_is_empty \<and> rb_removed rb = [] \<and> rb_quarantined rb = []
               \<and> rc_outcome rc = Failed \<and> rc_created rc = [] \<and> rc_clone_calls_succeeded rc = 0
           | Incomplete \<Rightarrow> False)"

subsection \<open>Plan constructors\<close>

definition for_cow_clone ::
  "materialization_path_report \<Rightarrow> fallback_policy \<Rightarrow> plan_error + materialization_plan" where
  "for_cow_clone r policy =
     (let backend = cand_kind (mpr_cow_clone r) in
      and_then (require_cow_backend backend) (\<lambda>_.
      and_then (phase1_volume_layout r backend) (\<lambda>(source_volume, target_volume).
        if cand_state (mpr_cow_clone r) = Unsupported then Err CandidateUnsupported
        else Ok
          \<lparr>pl_requested_mode = CowClone, pl_effective_mode = CowClone,
           pl_selected_adapter = backend, pl_fallback_policy = policy,
           pl_probe_evidence_digest = mpr_evidence_digest r,
           pl_path_evidence = path_evidence r,
           pl_source_path = requested_path (mpr_source r),
           pl_target_path = requested_path (mpr_target_root r),
           pl_staging_path = requested_path (mpr_staging r),
           pl_trash_path = requested_path (mpr_trash r),
           pl_source_volume_id = source_volume, pl_target_volume_id = target_volume,
           pl_fallback_reason = None, pl_failed_attempts = []\<rparr>)))"

definition plan_full_copy ::
  "materialization_path_report \<Rightarrow> fallback_policy \<Rightarrow> volume_id \<Rightarrow> volume_id \<Rightarrow> fallback_reason
   \<Rightarrow> failed_attempt list \<Rightarrow> materialization_plan" where
  "plan_full_copy r policy source_volume target_volume reason attempts =
     \<lparr>pl_requested_mode = CowClone, pl_effective_mode = FullCopy,
      pl_selected_adapter = materializer_kind.FullCopy, pl_fallback_policy = policy,
      pl_probe_evidence_digest = mpr_evidence_digest r,
      pl_path_evidence = path_evidence r,
      pl_source_path = requested_path (mpr_source r),
      pl_target_path = requested_path (mpr_target_root r),
      pl_staging_path = requested_path (mpr_staging r),
      pl_trash_path = requested_path (mpr_trash r),
      pl_source_volume_id = source_volume, pl_target_volume_id = target_volume,
      pl_fallback_reason = Some reason, pl_failed_attempts = attempts\<rparr>"

definition for_full_copy_after_preflight ::
  "materialization_path_report \<Rightarrow> fallback_policy \<Rightarrow> plan_error + materialization_plan" where
  "for_full_copy_after_preflight r policy =
     and_then (require_fallback_policy policy) (\<lambda>_.
     and_then (require_candidate_kinds r) (\<lambda>_.
     and_then (phase1_volume_layout r (cand_kind (mpr_cow_clone r))) (\<lambda>(source_volume, target_volume).
     and_then (require_full_copy_supported r) (\<lambda>_.
       if cand_state (mpr_cow_clone r) \<noteq> Unsupported
          \<or> cand_reasons (mpr_cow_clone r) \<noteq> [''clone_capability_unsupported'']
       then Err FallbackNotEligible
       else Ok (plan_full_copy r policy source_volume target_volume CloneUnsupportedAtPreflight [])))))"

definition failed_attempt_of :: "materialization_receipt \<Rightarrow> failed_attempt" where
  "failed_attempt_of rc =
     \<lparr>fa_probe_evidence_digest = rc_probe_evidence_digest rc,
      fa_attempted_mode = rc_actual_mode rc, fa_actual_adapter = rc_actual_adapter rc,
      fa_outcome = rc_outcome rc, fa_failure_kind = CowUnavailable,
      fa_source_volume_id = rc_source_volume_id rc, fa_target_volume_id = rc_target_volume_id rc,
      fa_created = rc_created rc, fa_rollback = rc_rollback rc,
      fa_elapsed_millis = rc_elapsed_millis rc,
      fa_evidence =
        \<lparr>ev_logical_bytes = rc_logical_bytes rc, ev_physical_bytes = rc_physical_bytes rc,
         ev_regular_file_count = rc_regular_file_count rc,
         ev_clone_calls_succeeded = rc_clone_calls_succeeded rc,
         ev_source_manifest_digest = rc_source_manifest_digest rc,
         ev_target_manifest_digest = rc_target_manifest_digest rc\<rparr>\<rparr>"

definition for_full_copy_after_cow_unavailable ::
  "materialization_path_report \<Rightarrow> materialization_plan \<Rightarrow> materialization_receipt
   \<Rightarrow> plan_error + materialization_plan" where
  "for_full_copy_after_cow_unavailable fresh prior rc =
     and_then (require_fallback_policy (pl_fallback_policy prior)) (\<lambda>_.
     and_then (require_candidate_kinds fresh) (\<lambda>_.
       if pl_requested_mode prior \<noteq> CowClone \<or> pl_effective_mode prior \<noteq> CowClone
          \<or> pl_selected_adapter prior \<noteq> cand_kind (mpr_cow_clone fresh)
          \<or> pl_fallback_reason prior \<noteq> None \<or> pl_failed_attempts prior \<noteq> []
          \<or> \<not> receipt_matches_plan rc prior
       then Err PreviousAttemptMismatch
       else if rc_failure_kind rc \<noteq> Some CowUnavailable then Err FallbackNotEligible
       else if \<not> receipt_restored_baseline rc then Err PreviousAttemptNotClean
       else if rc_source_manifest_digest rc = None then Err FallbackNotEligible
       else if \<not> report_paths_match_plan fresh prior then Err PreviousAttemptMismatch
       else
         and_then (phase1_volume_layout fresh (pl_selected_adapter prior)) (\<lambda>(source_volume, target_volume).
           if source_volume \<noteq> pl_source_volume_id prior \<or> target_volume \<noteq> pl_target_volume_id prior
           then Err PreviousAttemptMismatch
           else and_then (require_full_copy_supported fresh) (\<lambda>_.
             Ok (plan_full_copy fresh (pl_fallback_policy prior) source_volume target_volume
                   CloneUnavailableAtRuntime [failed_attempt_of rc])))))"

subsection \<open>The layout policy\<close>

text \<open>The Phase 1 layout as a condition: one filesystem type, one volume, one Btrfs mount.\<close>

definition one_volume_layout :: "materialization_path_report \<Rightarrow> materializer_kind \<Rightarrow> volume_id \<Rightarrow> bool" where
  "one_volume_layout r backend v \<longleftrightarrow>
     (\<exists>t. expected_type backend = Ok t \<and> list_all (\<lambda>p. type_name (filesystem p) = t) (path_evidence r))
     \<and> list_all (\<lambda>p. fs_volume_id (filesystem p) = Known v) (path_evidence r)
     \<and> (backend = BtrfsReflink \<longrightarrow>
          (\<exists>m. list_all (\<lambda>p. mount_id (mount p) = Some m) (path_evidence r)))"

lemma evidence_known_eq_Some [result_simps]: "evidence_known e = Some v \<longleftrightarrow> e = Known v"
  by (cases e) auto

lemma plan_volume_id_eq_Ok [result_simps]:
  "plan_volume_id r = Inr v \<longleftrightarrow> fs_volume_id (filesystem r) = Known v"
  by (simp add: plan_volume_id_def result_simps)

lemma check_mounts_eq_Ok [result_simps]:
  "check_mounts m ps = Inr u \<longleftrightarrow> list_all (\<lambda>p. mount_id (mount p) = Some m) ps"
  by (induction ps) (auto simp: result_simps split: if_splits)

lemma require_cow_backend_eq_Ok [result_simps]:
  "require_cow_backend k = Inr u \<longleftrightarrow> k \<noteq> materializer_kind.FullCopy"
  by (cases k) auto

lemma plan_checks_eq_Ok [result_simps]:
  "require_fallback_policy p = Inr u \<longleftrightarrow> p = AllowFullCopyOnCowUnsupported"
  "require_candidate_kinds r = Inr u \<longleftrightarrow>
     cand_kind (mpr_cow_clone r) \<noteq> materializer_kind.FullCopy
     \<and> cand_kind (mpr_full_copy r) = materializer_kind.FullCopy"
  "require_full_copy_supported r = Inr u \<longleftrightarrow> cand_state (mpr_full_copy r) = Supported"
  by (auto simp: require_fallback_policy_def require_candidate_kinds_def
      require_full_copy_supported_def result_simps)

lemma phase1_volume_layout_eq_Ok [result_simps]:
  "phase1_volume_layout r backend = Inr (v, w) \<longleftrightarrow> one_volume_layout r backend v \<and> w = v"
  by (cases backend)
    (auto simp: phase1_volume_layout_def one_volume_layout_def path_evidence_def result_simps
      Let_def split: if_splits)

lemma for_cow_clone_eq_Ok:
  "for_cow_clone r policy = Ok plan \<longleftrightarrow>
     cand_kind (mpr_cow_clone r) \<noteq> materializer_kind.FullCopy
     \<and> cand_state (mpr_cow_clone r) \<noteq> Unsupported
     \<and> (\<exists>v. one_volume_layout r (cand_kind (mpr_cow_clone r)) v
          \<and> plan = \<lparr>pl_requested_mode = CowClone, pl_effective_mode = CowClone,
               pl_selected_adapter = cand_kind (mpr_cow_clone r), pl_fallback_policy = policy,
               pl_probe_evidence_digest = mpr_evidence_digest r,
               pl_path_evidence = path_evidence r,
               pl_source_path = requested_path (mpr_source r),
               pl_target_path = requested_path (mpr_target_root r),
               pl_staging_path = requested_path (mpr_staging r),
               pl_trash_path = requested_path (mpr_trash r),
               pl_source_volume_id = v, pl_target_volume_id = v,
               pl_fallback_reason = None, pl_failed_attempts = []\<rparr>)"
  by (auto simp: for_cow_clone_def Let_def result_simps split: if_splits)

lemma for_full_copy_after_preflight_eq_Ok:
  "for_full_copy_after_preflight r policy = Ok plan \<longleftrightarrow>
     policy = AllowFullCopyOnCowUnsupported
     \<and> cand_kind (mpr_cow_clone r) \<noteq> materializer_kind.FullCopy
     \<and> cand_kind (mpr_full_copy r) = materializer_kind.FullCopy
     \<and> cand_state (mpr_full_copy r) = Supported
     \<and> cand_state (mpr_cow_clone r) = Unsupported
     \<and> cand_reasons (mpr_cow_clone r) = [''clone_capability_unsupported'']
     \<and> (\<exists>v. one_volume_layout r (cand_kind (mpr_cow_clone r)) v
          \<and> plan = plan_full_copy r policy v v CloneUnsupportedAtPreflight [])"
  by (auto simp: for_full_copy_after_preflight_def result_simps split: if_splits)

text \<open>When a second backend may be planned after a clone attempt.\<close>

definition fallback_permitted ::
  "materialization_path_report \<Rightarrow> materialization_plan \<Rightarrow> materialization_receipt \<Rightarrow> bool" where
  "fallback_permitted fresh prior rc \<longleftrightarrow>
     pl_fallback_policy prior = AllowFullCopyOnCowUnsupported
     \<and> pl_requested_mode prior = CowClone \<and> pl_effective_mode prior = CowClone
     \<and> pl_selected_adapter prior \<noteq> materializer_kind.FullCopy
     \<and> cand_kind (mpr_cow_clone fresh) = pl_selected_adapter prior
     \<and> pl_fallback_reason prior = None \<and> pl_failed_attempts prior = []
     \<and> cand_kind (mpr_full_copy fresh) = materializer_kind.FullCopy
     \<and> cand_state (mpr_full_copy fresh) = Supported
     \<and> receipt_matches_plan rc prior \<and> rc_failure_kind rc = Some CowUnavailable
     \<and> receipt_restored_baseline rc \<and> rc_source_manifest_digest rc \<noteq> None
     \<and> report_paths_match_plan fresh prior
     \<and> one_volume_layout fresh (pl_selected_adapter prior) (pl_source_volume_id prior)
     \<and> pl_target_volume_id prior = pl_source_volume_id prior"

lemma for_full_copy_after_cow_unavailable_eq_Ok:
  "for_full_copy_after_cow_unavailable fresh prior rc = Ok plan \<longleftrightarrow>
     fallback_permitted fresh prior rc
     \<and> plan = plan_full_copy fresh AllowFullCopyOnCowUnsupported (pl_source_volume_id prior)
         (pl_source_volume_id prior) CloneUnavailableAtRuntime [failed_attempt_of rc]"
  unfolding for_full_copy_after_cow_unavailable_def fallback_permitted_def
  by (simp add: result_simps split_paired_Ex split del: if_split) (safe; simp)

text \<open>
  Full Copy is never substituted silently.  A Full Copy plan exists after a clone attempt
  exactly when the frozen policy allows it, the attempt was the first one and ran the planned
  clone backend, its receipt reports clone unavailability with the target baseline restored
  (nothing unconfirmed in staging or trash, nothing left in the target) and a source digest,
  and a fresh probe still shows the same paths, one volume and a usable Full Copy.  The plan
  then keeps the policy and exactly that failed attempt, and no plan derived from it, from any
  report and any receipt, is another fallback.
\<close>

theorem runtime_fallback_once:
  "(for_full_copy_after_cow_unavailable fresh prior rc = Ok plan \<longleftrightarrow>
      fallback_permitted fresh prior rc
      \<and> plan = plan_full_copy fresh (pl_fallback_policy prior) (pl_source_volume_id prior)
          (pl_source_volume_id prior) CloneUnavailableAtRuntime [failed_attempt_of rc])
   \<and> (\<nexists>later. for_full_copy_after_cow_unavailable fresh' (plan_full_copy r policy v w reason attempts) rc'
        = Ok later)"
proof -
  have "\<not> fallback_permitted fresh' (plan_full_copy r policy v w reason attempts) rc'"
    by (simp add: fallback_permitted_def plan_full_copy_def)
  moreover have "fallback_permitted fresh prior rc \<Longrightarrow>
      pl_fallback_policy prior = AllowFullCopyOnCowUnsupported"
    by (simp add: fallback_permitted_def)
  ultimately show ?thesis by (auto simp: for_full_copy_after_cow_unavailable_eq_Ok)
qed

text \<open>
  The preflight choice.  With a clone candidate and a Full Copy candidate, the two first
  plans exclude each other: a clone plan exists exactly when the four paths form one volume
  layout and the probe did not disprove the clone; a Full Copy plan exists before any attempt
  exactly when the policy allows it, the layout is the same, Full Copy was proved usable and
  the one reason the clone is excluded is the missing capability.  A different filesystem
  type, volume or mount therefore never becomes a silent copy.
\<close>

theorem preflight_choice:
  "((\<exists>plan. for_cow_clone r policy = Ok plan) \<longleftrightarrow>
      cand_kind (mpr_cow_clone r) \<noteq> materializer_kind.FullCopy
      \<and> cand_state (mpr_cow_clone r) \<noteq> Unsupported
      \<and> (\<exists>v. one_volume_layout r (cand_kind (mpr_cow_clone r)) v))
   \<and> ((\<exists>plan. for_full_copy_after_preflight r policy = Ok plan) \<longleftrightarrow>
      policy = AllowFullCopyOnCowUnsupported
      \<and> cand_kind (mpr_cow_clone r) \<noteq> materializer_kind.FullCopy
      \<and> cand_kind (mpr_full_copy r) = materializer_kind.FullCopy
      \<and> cand_state (mpr_full_copy r) = Supported
      \<and> cand_state (mpr_cow_clone r) = Unsupported
      \<and> cand_reasons (mpr_cow_clone r) = [''clone_capability_unsupported'']
      \<and> (\<exists>v. one_volume_layout r (cand_kind (mpr_cow_clone r)) v))
   \<and> (\<nexists>p q. for_cow_clone r policy = Ok p \<and> for_full_copy_after_preflight r policy' = Ok q)"
proof (intro conjI)
  show "(\<exists>plan. for_cow_clone r policy = Ok plan) \<longleftrightarrow>
      cand_kind (mpr_cow_clone r) \<noteq> materializer_kind.FullCopy
      \<and> cand_state (mpr_cow_clone r) \<noteq> Unsupported
      \<and> (\<exists>v. one_volume_layout r (cand_kind (mpr_cow_clone r)) v)"
    by (simp only: for_cow_clone_eq_Ok) blast
  show "(\<exists>plan. for_full_copy_after_preflight r policy = Ok plan) \<longleftrightarrow>
      policy = AllowFullCopyOnCowUnsupported
      \<and> cand_kind (mpr_cow_clone r) \<noteq> materializer_kind.FullCopy
      \<and> cand_kind (mpr_full_copy r) = materializer_kind.FullCopy
      \<and> cand_state (mpr_full_copy r) = Supported
      \<and> cand_state (mpr_cow_clone r) = Unsupported
      \<and> cand_reasons (mpr_cow_clone r) = [''clone_capability_unsupported'']
      \<and> (\<exists>v. one_volume_layout r (cand_kind (mpr_cow_clone r)) v)"
    by (simp only: for_full_copy_after_preflight_eq_Ok) blast
  show "\<nexists>p q. for_cow_clone r policy = Ok p \<and> for_full_copy_after_preflight r policy' = Ok q"
    by (simp only: for_cow_clone_eq_Ok for_full_copy_after_preflight_eq_Ok) simp
qed

subsection \<open>Every plan the program can hold\<close>

text \<open>Plans are private structures: these three constructors are the only source of one.\<close>

inductive derived_plan :: "materialization_plan \<Rightarrow> bool" where
  cow: "for_cow_clone r policy = Ok plan \<Longrightarrow> derived_plan plan"
| preflight: "for_full_copy_after_preflight r policy = Ok plan \<Longrightarrow> derived_plan plan"
| runtime: "derived_plan prior \<Longrightarrow> for_full_copy_after_cow_unavailable r prior rc = Ok plan \<Longrightarrow>
    derived_plan plan"

definition plan_ok :: "materialization_plan \<Rightarrow> bool" where
  "plan_ok p \<longleftrightarrow>
     pl_requested_mode p = CowClone
     \<and> (pl_effective_mode p = FullCopy \<longleftrightarrow> pl_selected_adapter p = materializer_kind.FullCopy)
     \<and> (pl_effective_mode p = FullCopy \<longleftrightarrow> pl_fallback_reason p \<noteq> None)
     \<and> (pl_fallback_reason p \<noteq> None \<longrightarrow> pl_fallback_policy p = AllowFullCopyOnCowUnsupported)
     \<and> (pl_fallback_reason p = Some CloneUnavailableAtRuntime \<longleftrightarrow> length (pl_failed_attempts p) = 1)
     \<and> (pl_fallback_reason p \<noteq> Some CloneUnavailableAtRuntime \<longleftrightarrow> pl_failed_attempts p = [])
     \<and> pl_target_volume_id p = pl_source_volume_id p
     \<and> map requested_path (pl_path_evidence p)
         = [pl_source_path p, pl_target_path p, pl_staging_path p, pl_trash_path p]
     \<and> list_all (\<lambda>e. fs_volume_id (filesystem e) = Known (pl_source_volume_id p)) (pl_path_evidence p)"

lemma cow_plan_ok:
  assumes "one_volume_layout r k v" "k \<noteq> materializer_kind.FullCopy"
  shows "plan_ok \<lparr>pl_requested_mode = CowClone, pl_effective_mode = CowClone,
    pl_selected_adapter = k, pl_fallback_policy = policy, pl_probe_evidence_digest = d,
    pl_path_evidence = path_evidence r,
    pl_source_path = requested_path (mpr_source r), pl_target_path = requested_path (mpr_target_root r),
    pl_staging_path = requested_path (mpr_staging r), pl_trash_path = requested_path (mpr_trash r),
    pl_source_volume_id = v, pl_target_volume_id = v, pl_fallback_reason = None, pl_failed_attempts = []\<rparr>"
  using assms by (simp add: plan_ok_def path_evidence_def one_volume_layout_def)

lemma full_copy_plan_ok:
  assumes "one_volume_layout r k v"
    "reason = CloneUnavailableAtRuntime \<longleftrightarrow> length attempts = 1"
    "reason \<noteq> CloneUnavailableAtRuntime \<longleftrightarrow> attempts = []"
  shows "plan_ok (plan_full_copy r AllowFullCopyOnCowUnsupported v v reason attempts)"
  using assms by (cases reason) (auto simp: plan_ok_def plan_full_copy_def path_evidence_def one_volume_layout_def)

lemma derived_plan_ok: "derived_plan plan \<Longrightarrow> plan_ok plan"
proof (induction rule: derived_plan.induct)
  case (cow r policy plan)
  then show ?case by (auto simp: for_cow_clone_eq_Ok intro: cow_plan_ok)
next
  case (preflight r policy plan)
  then show ?case by (auto simp: for_full_copy_after_preflight_eq_Ok intro: full_copy_plan_ok)
next
  case (runtime prior r rc plan)
  then show ?case
    by (auto simp: for_full_copy_after_cow_unavailable_eq_Ok fallback_permitted_def
        intro: full_copy_plan_ok)
qed

text \<open>
  Every plan the program can hold is coherent: the request was for copy-on-write; the
  effective mode, the selected backend and the fallback reason agree; Full Copy only under
  the permissive policy; a failed attempt is kept exactly for a runtime fallback; the four
  frozen paths are those of the evidence and lie on one known volume.
\<close>

theorem derived_plans_ok:
  "derived_plan plan \<Longrightarrow>
     pl_requested_mode plan = CowClone
     \<and> (pl_effective_mode plan = FullCopy \<longleftrightarrow> pl_selected_adapter plan = materializer_kind.FullCopy)
     \<and> (pl_effective_mode plan = FullCopy \<longleftrightarrow> pl_fallback_reason plan \<noteq> None)
     \<and> (pl_effective_mode plan = CowClone \<or> pl_fallback_policy plan = AllowFullCopyOnCowUnsupported)
     \<and> length (pl_failed_attempts plan) =
         (if pl_fallback_reason plan = Some CloneUnavailableAtRuntime then 1 else 0)
     \<and> pl_target_volume_id plan = pl_source_volume_id plan
     \<and> map requested_path (pl_path_evidence plan)
         = [pl_source_path plan, pl_target_path plan, pl_staging_path plan, pl_trash_path plan]
     \<and> list_all (\<lambda>e. fs_volume_id (filesystem e) = Known (pl_source_volume_id plan)) (pl_path_evidence plan)"
  by (drule derived_plan_ok)
    (cases "pl_effective_mode plan"; auto simp: plan_ok_def)

subsection \<open>A concrete layout\<close>

text \<open>Four directories of one APFS volume, used by the worked examples of later theories.\<close>

definition sample_path_report :: "bytes \<Rightarrow> path_capability_report" where
  "sample_path_report p =
     \<lparr>requested_path = AbsolutePath p, resolution = ExistingDirectory,
      nearest_existing_ancestor = AbsolutePath p, missing_components = [],
      ancestry = [\<lparr>di_path = AbsolutePath p, di_identity = \<lparr>device = 1, inode = 2\<rparr>\<rparr>],
      filesystem = \<lparr>type_name = ''apfs'', fsid = (1, 2), fs_volume_id = Known (VolumeId 5)\<rparr>,
      mount = mount_evidence_new 0 True,
      readability = Supported, writability = Supported, path_cow_clone = Supported\<rparr>"

definition sample_report :: "support_state \<Rightarrow> string list \<Rightarrow> materialization_path_report" where
  "sample_report cow reasons =
     \<lparr>mpr_source = sample_path_report ''/src'', mpr_target_root = sample_path_report ''/target'',
      mpr_staging = sample_path_report ''/staging'', mpr_trash = sample_path_report ''/trash'',
      mpr_cow_clone = \<lparr>cand_kind = ApfsFileClone, cand_state = cow, cand_reasons = reasons\<rparr>,
      mpr_full_copy = \<lparr>cand_kind = materializer_kind.FullCopy, cand_state = Supported, cand_reasons = []\<rparr>,
      mpr_evidence_digest = ProbeEvidenceDigest (replicate 32 CHR ''d'')\<rparr>"

definition sample_fallback_plan :: materialization_plan where
  "sample_fallback_plan =
     plan_full_copy (sample_report Unsupported [''clone_capability_unsupported''])
       AllowFullCopyOnCowUnsupported (VolumeId 5) (VolumeId 5) CloneUnsupportedAtPreflight []"

lemma sample_layout: "one_volume_layout (sample_report cow reasons) ApfsFileClone (VolumeId 5)"
  by (simp add: one_volume_layout_def sample_report_def sample_path_report_def path_evidence_def)

lemma sample_fallback_derived: "derived_plan sample_fallback_plan"
proof (rule derived_plan.preflight)
  show "for_full_copy_after_preflight (sample_report Unsupported [''clone_capability_unsupported''])
      AllowFullCopyOnCowUnsupported = Ok sample_fallback_plan"
    unfolding for_full_copy_after_preflight_eq_Ok sample_fallback_plan_def
    using sample_layout[of Unsupported "[''clone_capability_unsupported'']"]
    by (auto simp: sample_report_def)
qed

lemma derived_plans_ok_witness:
  "pl_effective_mode sample_fallback_plan = FullCopy
   \<and> pl_fallback_policy sample_fallback_plan = AllowFullCopyOnCowUnsupported
   \<and> pl_target_volume_id sample_fallback_plan = pl_source_volume_id sample_fallback_plan"
  using derived_plans_ok[OF sample_fallback_derived]
  by (simp add: sample_fallback_plan_def plan_full_copy_def)

end
