(* ===== verification/Receipts.thy ===== *)
theory Receipts
  imports Plans
begin

text \<open>
  Materialization receipts (\<open>materialization.rs\<close>): the four constructors an Adapter may use,
  the staged-object amendment, and what every receipt can and cannot claim.
\<close>

datatype receipt_error = CloneCountMismatch | ManifestMismatch | AdapterMismatch

definition successful_cow_clone ::
  "materialization_plan \<Rightarrow> u64 \<Rightarrow> u64 \<Rightarrow> created_object_evidence list \<Rightarrow> tree_digest \<Rightarrow> tree_digest
   \<Rightarrow> u64 \<Rightarrow> u64 \<Rightarrow> u64 option \<Rightarrow> receipt_error + materialization_receipt" where
  "successful_cow_clone plan files clones created source_digest target_digest elapsed logical physical =
     (if (\<exists>e. require_cow_backend (pl_selected_adapter plan) = Err e) \<or> pl_effective_mode plan \<noteq> CowClone
      then Err AdapterMismatch
      else if files \<noteq> clones then Err CloneCountMismatch
      else if source_digest \<noteq> target_digest then Err receipt_error.ManifestMismatch
      else Ok
        \<lparr>rc_probe_evidence_digest = pl_probe_evidence_digest plan,
         rc_requested_mode = pl_requested_mode plan, rc_effective_mode = pl_effective_mode plan,
         rc_actual_mode = CowClone, rc_actual_adapter = pl_selected_adapter plan,
         rc_outcome = Succeeded,
         rc_cow_evidence = (if clones = 0 then NotUsed else Confirmed),
         rc_source_volume_id = Some (pl_source_volume_id plan),
         rc_target_volume_id = Some (pl_target_volume_id plan),
         rc_created = created, rc_unconfirmed_staging = None,
         rc_rollback = rollback_evidence_new NotNeeded [] [],
         rc_elapsed_millis = elapsed, rc_logical_bytes = Some logical,
         rc_physical_bytes = physical, rc_regular_file_count = Some files,
         rc_clone_calls_succeeded = clones,
         rc_source_manifest_digest = Some source_digest,
         rc_target_manifest_digest = Some target_digest,
         rc_failure_kind = None, rc_fallback_reason = pl_fallback_reason plan,
         rc_failed_attempts = pl_failed_attempts plan\<rparr>)"

definition failed_outcome :: "bool \<Rightarrow> created_object_evidence list \<Rightarrow> materialization_outcome" where
  "failed_outcome target_modified created =
     (if target_modified \<or> created \<noteq> [] then Partial else Failed)"

definition failed_cow_clone ::
  "materialization_plan \<Rightarrow> materialization_failure_kind \<Rightarrow> created_object_evidence list \<Rightarrow> bool
   \<Rightarrow> rollback_evidence \<Rightarrow> attempt_evidence \<Rightarrow> u64 \<Rightarrow> materialization_receipt" where
  "failed_cow_clone plan kind created target_modified rb ev elapsed =
     \<lparr>rc_probe_evidence_digest = pl_probe_evidence_digest plan,
      rc_requested_mode = pl_requested_mode plan, rc_effective_mode = pl_effective_mode plan,
      rc_actual_mode = CowClone, rc_actual_adapter = pl_selected_adapter plan,
      rc_outcome = failed_outcome target_modified created,
      rc_cow_evidence = cow_evidence.Unknown,
      rc_source_volume_id = Some (pl_source_volume_id plan),
      rc_target_volume_id = Some (pl_target_volume_id plan),
      rc_created = created, rc_unconfirmed_staging = None, rc_rollback = rb,
      rc_elapsed_millis = elapsed, rc_logical_bytes = ev_logical_bytes ev,
      rc_physical_bytes = ev_physical_bytes ev,
      rc_regular_file_count = ev_regular_file_count ev,
      rc_clone_calls_succeeded = ev_clone_calls_succeeded ev,
      rc_source_manifest_digest = ev_source_manifest_digest ev,
      rc_target_manifest_digest = ev_target_manifest_digest ev,
      rc_failure_kind = Some kind, rc_fallback_reason = pl_fallback_reason plan,
      rc_failed_attempts = pl_failed_attempts plan\<rparr>"

definition failed_full_copy ::
  "materialization_plan \<Rightarrow> materialization_failure_kind \<Rightarrow> created_object_evidence list \<Rightarrow> bool
   \<Rightarrow> rollback_evidence \<Rightarrow> attempt_evidence \<Rightarrow> u64 \<Rightarrow> materialization_receipt" where
  "failed_full_copy plan kind created target_modified rb ev elapsed =
     \<lparr>rc_probe_evidence_digest = pl_probe_evidence_digest plan,
      rc_requested_mode = pl_requested_mode plan, rc_effective_mode = pl_effective_mode plan,
      rc_actual_mode = FullCopy, rc_actual_adapter = materializer_kind.FullCopy,
      rc_outcome = failed_outcome target_modified created,
      rc_cow_evidence = NotUsed,
      rc_source_volume_id = Some (pl_source_volume_id plan),
      rc_target_volume_id = Some (pl_target_volume_id plan),
      rc_created = created, rc_unconfirmed_staging = None, rc_rollback = rb,
      rc_elapsed_millis = elapsed, rc_logical_bytes = ev_logical_bytes ev,
      rc_physical_bytes = ev_physical_bytes ev,
      rc_regular_file_count = ev_regular_file_count ev,
      rc_clone_calls_succeeded = 0,
      rc_source_manifest_digest = ev_source_manifest_digest ev,
      rc_target_manifest_digest = ev_target_manifest_digest ev,
      rc_failure_kind = Some kind, rc_fallback_reason = pl_fallback_reason plan,
      rc_failed_attempts = pl_failed_attempts plan\<rparr>"

definition successful_full_copy ::
  "materialization_plan \<Rightarrow> u64 \<Rightarrow> created_object_evidence list \<Rightarrow> tree_digest \<Rightarrow> tree_digest
   \<Rightarrow> u64 \<Rightarrow> u64 \<Rightarrow> u64 option \<Rightarrow> receipt_error + materialization_receipt" where
  "successful_full_copy plan files created source_digest target_digest elapsed logical physical =
     (if pl_selected_adapter plan \<noteq> materializer_kind.FullCopy \<or> pl_effective_mode plan \<noteq> FullCopy
      then Err AdapterMismatch
      else if source_digest \<noteq> target_digest then Err receipt_error.ManifestMismatch
      else Ok
        \<lparr>rc_probe_evidence_digest = pl_probe_evidence_digest plan,
         rc_requested_mode = pl_requested_mode plan, rc_effective_mode = pl_effective_mode plan,
         rc_actual_mode = FullCopy, rc_actual_adapter = materializer_kind.FullCopy,
         rc_outcome = Succeeded, rc_cow_evidence = NotUsed,
         rc_source_volume_id = Some (pl_source_volume_id plan),
         rc_target_volume_id = Some (pl_target_volume_id plan),
         rc_created = created, rc_unconfirmed_staging = None,
         rc_rollback = rollback_evidence_new NotNeeded [] [],
         rc_elapsed_millis = elapsed, rc_logical_bytes = Some logical,
         rc_physical_bytes = physical, rc_regular_file_count = Some files,
         rc_clone_calls_succeeded = 0,
         rc_source_manifest_digest = Some source_digest,
         rc_target_manifest_digest = Some target_digest,
         rc_failure_kind = None, rc_fallback_reason = pl_fallback_reason plan,
         rc_failed_attempts = pl_failed_attempts plan\<rparr>)"

text \<open>The \<open>assert_ne!\<close> panics on a successful receipt: no result.\<close>

definition with_unconfirmed_staging ::
  "created_object_evidence \<Rightarrow> materialization_receipt \<Rightarrow> materialization_receipt option" where
  "with_unconfirmed_staging obj rc =
     (if rc_outcome rc = Succeeded then None
      else Some (rc\<lparr>rc_unconfirmed_staging := Some obj, rc_outcome := Partial\<rparr>))"

subsection \<open>What a receipt can claim\<close>

text \<open>Every receipt for a plan comes from these constructors.\<close>

inductive derived_receipt :: "materialization_plan \<Rightarrow> materialization_receipt \<Rightarrow> bool"
  for plan where
  cow_ok: "successful_cow_clone plan files clones created sd td elapsed logical physical = Ok rc \<Longrightarrow>
    derived_receipt plan rc"
| copy_ok: "successful_full_copy plan files created sd td elapsed logical physical = Ok rc \<Longrightarrow>
    derived_receipt plan rc"
| cow_failed: "derived_receipt plan (failed_cow_clone plan kind created tm rb ev elapsed)"
| copy_failed: "derived_receipt plan (failed_full_copy plan kind created tm rb ev elapsed)"
| staged: "derived_receipt plan rc \<Longrightarrow> with_unconfirmed_staging obj rc = Some rc' \<Longrightarrow>
    derived_receipt plan rc'"

definition success_claim :: "materialization_plan \<Rightarrow> materialization_receipt \<Rightarrow> bool" where
  "success_claim plan rc \<longleftrightarrow>
     rc_failure_kind rc = None \<and> rc_unconfirmed_staging rc = None
     \<and> rc_actual_mode rc = pl_effective_mode plan
     \<and> rc_actual_adapter rc = pl_selected_adapter plan
     \<and> rc_source_manifest_digest rc \<noteq> None
     \<and> rc_target_manifest_digest rc = rc_source_manifest_digest rc
     \<and> rc_logical_bytes rc \<noteq> None
     \<and> rc_rollback rc = rollback_evidence_new NotNeeded [] []
     \<and> (rc_actual_mode rc = CowClone \<longleftrightarrow> rc_actual_adapter rc \<noteq> materializer_kind.FullCopy)
     \<and> (rc_actual_mode rc = CowClone \<longrightarrow> rc_regular_file_count rc = Some (rc_clone_calls_succeeded rc))
     \<and> (rc_actual_mode rc = FullCopy \<longrightarrow> rc_clone_calls_succeeded rc = 0 \<and> rc_regular_file_count rc \<noteq> None)"

definition receipt_ok :: "materialization_plan \<Rightarrow> materialization_receipt \<Rightarrow> bool" where
  "receipt_ok plan rc \<longleftrightarrow>
     rc_probe_evidence_digest rc = pl_probe_evidence_digest plan
     \<and> rc_requested_mode rc = pl_requested_mode plan
     \<and> rc_effective_mode rc = pl_effective_mode plan
     \<and> rc_source_volume_id rc = Some (pl_source_volume_id plan)
     \<and> rc_target_volume_id rc = Some (pl_target_volume_id plan)
     \<and> rc_fallback_reason rc = pl_fallback_reason plan
     \<and> rc_failed_attempts rc = pl_failed_attempts plan
     \<and> (rc_outcome rc = Succeeded \<longleftrightarrow> rc_failure_kind rc = None)
     \<and> (rc_outcome rc = Succeeded \<longrightarrow> success_claim plan rc)
     \<and> (rc_outcome rc = Failed \<longrightarrow> rc_created rc = [] \<and> rc_unconfirmed_staging rc = None)
     \<and> (rc_cow_evidence rc = Confirmed \<longleftrightarrow>
          rc_outcome rc = Succeeded \<and> rc_actual_mode rc = CowClone \<and> rc_clone_calls_succeeded rc \<noteq> 0)"

lemma successful_cow_clone_ok:
  "successful_cow_clone plan files clones created sd td elapsed logical physical = Ok rc \<Longrightarrow>
   receipt_ok plan rc \<and> rc_outcome rc = Succeeded"
  by (cases "pl_selected_adapter plan")
    (auto simp: successful_cow_clone_def receipt_ok_def success_claim_def result_simps)

lemma successful_full_copy_ok:
  "successful_full_copy plan files created sd td elapsed logical physical = Ok rc \<Longrightarrow>
   receipt_ok plan rc \<and> rc_outcome rc = Succeeded \<and> rc_source_manifest_digest rc = Some sd"
  by (auto simp: successful_full_copy_def receipt_ok_def success_claim_def result_simps)

lemma failed_outcome_simps [simp]:
  "failed_outcome tm created \<noteq> Succeeded"
  "failed_outcome tm created = Failed \<longleftrightarrow> \<not> tm \<and> created = []"
  "failed_outcome tm created = Partial \<longleftrightarrow> tm \<or> created \<noteq> []"
  by (auto simp: failed_outcome_def)

lemma failed_receipts_ok:
  "receipt_ok plan (failed_cow_clone plan kind created tm rb ev elapsed)"
  "receipt_ok plan (failed_full_copy plan kind created tm rb ev elapsed)"
  by (auto simp: failed_cow_clone_def failed_full_copy_def receipt_ok_def)

lemma with_unconfirmed_staging_ok:
  "receipt_ok plan rc \<Longrightarrow> with_unconfirmed_staging obj rc = Some rc' \<Longrightarrow>
   receipt_ok plan rc' \<and> rc_outcome rc' = Partial \<and> rc_unconfirmed_staging rc' = Some obj"
  by (cases "rc_outcome rc") (simp_all add: with_unconfirmed_staging_def receipt_ok_def split: if_splits, safe, simp_all)

lemma derived_receipt_ok: "derived_receipt plan rc \<Longrightarrow> receipt_ok plan rc"
proof (induction rule: derived_receipt.induct)
  case (staged rc obj rc')
  then show ?case using with_unconfirmed_staging_ok by blast
next
  case (cow_ok files clones created sd td elapsed logical physical rc)
  then show ?case by (rule successful_cow_clone_ok[THEN conjunct1])
next
  case (copy_ok files created sd td elapsed logical physical rc)
  then show ?case by (rule successful_full_copy_ok[THEN conjunct1])
qed (rule failed_receipts_ok)+

lemma derived_success_cow:
  "derived_receipt plan rc \<Longrightarrow> rc_outcome rc = Succeeded \<Longrightarrow>
   rc_cow_evidence rc = (if rc_actual_mode rc = CowClone \<and> rc_clone_calls_succeeded rc \<noteq> 0
     then Confirmed else NotUsed)"
  by (induction rule: derived_receipt.induct)
    (auto simp: successful_cow_clone_def successful_full_copy_def failed_cow_clone_def
      failed_full_copy_def with_unconfirmed_staging_def split: if_splits)


definition sample_receipt :: materialization_receipt where
  "sample_receipt =
     failed_full_copy sample_fallback_plan NoSpace [] True (rollback_evidence_new ConfirmedBaseline [] [])
       \<lparr>ev_logical_bytes = None, ev_physical_bytes = None, ev_regular_file_count = Some 3,
        ev_clone_calls_succeeded = 0, ev_source_manifest_digest = None,
        ev_target_manifest_digest = None\<rparr> 17"


text \<open>The receipt of the sample plan after a copy of three files.\<close>

definition sample_success :: materialization_receipt where
  "sample_success =
     (case successful_full_copy sample_fallback_plan 3 [] (TreeDigest (replicate 32 CHR ''t''))
        (TreeDigest (replicate 32 CHR ''t'')) 20 4096 None of Inr r \<Rightarrow> r | Inl _ \<Rightarrow> sample_receipt)"

lemma sample_success_derived:
  "derived_receipt sample_fallback_plan sample_success" "rc_outcome sample_success = Succeeded"
  "rc_source_manifest_digest sample_success = Some (TreeDigest (replicate 32 CHR ''t''))"
proof -
  let ?d = "TreeDigest (replicate 32 CHR ''t'')"
  have "\<exists>r. successful_full_copy sample_fallback_plan 3 [] ?d ?d 20 4096 None = Ok r
      \<and> sample_success = r"
    by (simp add: sample_success_def successful_full_copy_def sample_fallback_plan_def plan_full_copy_def)
  then have ok: "successful_full_copy sample_fallback_plan 3 [] ?d ?d 20 4096 None = Ok sample_success"
    by blast
  then show "derived_receipt sample_fallback_plan sample_success" by (rule derived_receipt.copy_ok)
  show "rc_outcome sample_success = Succeeded" "rc_source_manifest_digest sample_success = Some ?d"
    using successful_full_copy_ok[OF ok] by simp_all
qed

subsection \<open>The runtime fallback on receipts of the clone attempt\<close>

definition clean_rollback :: "rollback_evidence \<Rightarrow> bool" where
  "clean_rollback rb \<longleftrightarrow> rb_remaining rb = [] \<and> rb_unconfirmed_quarantined rb = []"

definition untouched_rollback :: "rollback_evidence \<Rightarrow> bool" where
  "untouched_rollback rb \<longleftrightarrow> clean_rollback rb \<and> rb_removed rb = [] \<and> rb_quarantined rb = []"

lemma failed_cow_clone_restored:
  "receipt_restored_baseline (failed_cow_clone plan kind created tm rb ev elapsed) \<longleftrightarrow>
     rb_status rb = ConfirmedBaseline \<and> clean_rollback rb
     \<or> rb_status rb = NotNeeded \<and> untouched_rollback rb \<and> \<not> tm \<and> created = []
       \<and> ev_clone_calls_succeeded ev = 0"
  by (auto simp: receipt_restored_baseline_def failed_cow_clone_def Let_def clean_rollback_def
      untouched_rollback_def split: rollback_status.splits)

lemma staged_receipt_not_restored:
  "with_unconfirmed_staging obj rc = Some rc' \<Longrightarrow> \<not> receipt_restored_baseline rc'"
  by (auto simp: with_unconfirmed_staging_def receipt_restored_baseline_def split: if_splits)

lemma failed_cow_clone_matches:
  "receipt_matches_plan (failed_cow_clone plan kind created tm rb ev elapsed) plan"
  by (simp add: receipt_matches_plan_def failed_cow_clone_def)

text \<open>
  C32. The second attempt only starts from a clean target.  After a failed clone attempt of a
  clone plan, Full Copy is planned on a fresh report of the same paths exactly when the
  failure was clone unavailability, the source manifest was read, and either rollback
  confirmed the baseline with nothing left or unconfirmed, or nothing had been touched, made
  or cloned; an object left in staging rules it out, and a successful receipt cannot be
  amended to have one.
\<close>

theorem fallback_after_failed_clone:
  "for_cow_clone r policy = Ok prior \<Longrightarrow>
     ((\<exists>plan. for_full_copy_after_cow_unavailable fresh prior
          (failed_cow_clone prior kind created tm rb ev elapsed) = Ok plan) \<longleftrightarrow>
       policy = AllowFullCopyOnCowUnsupported
       \<and> cand_kind (mpr_cow_clone fresh) = cand_kind (mpr_cow_clone r)
       \<and> cand_kind (mpr_full_copy fresh) = materializer_kind.FullCopy
       \<and> cand_state (mpr_full_copy fresh) = Supported
       \<and> kind = CowUnavailable \<and> ev_source_manifest_digest ev \<noteq> None
       \<and> (rb_status rb = ConfirmedBaseline \<and> clean_rollback rb
          \<or> rb_status rb = NotNeeded \<and> untouched_rollback rb \<and> \<not> tm \<and> created = []
            \<and> ev_clone_calls_succeeded ev = 0)
       \<and> report_paths_match_plan fresh prior
       \<and> one_volume_layout fresh (cand_kind (mpr_cow_clone r)) (pl_source_volume_id prior))
     \<and> (\<nexists>plan rc. with_unconfirmed_staging obj
            (failed_cow_clone prior kind created tm rb ev elapsed) = Some rc
          \<and> for_full_copy_after_cow_unavailable fresh prior rc = Ok plan)"
proof -
  assume prior: "for_cow_clone r policy = Ok prior"
  let ?rc = "failed_cow_clone prior kind created tm rb ev elapsed"
  from prior have p: "pl_requested_mode prior = CowClone" "pl_effective_mode prior = CowClone"
    "pl_selected_adapter prior = cand_kind (mpr_cow_clone r)"
    "cand_kind (mpr_cow_clone r) \<noteq> materializer_kind.FullCopy"
    "pl_fallback_policy prior = policy" "pl_fallback_reason prior = None"
    "pl_failed_attempts prior = []" "pl_target_volume_id prior = pl_source_volume_id prior"
    by (auto simp: for_cow_clone_eq_Ok)
  have f: "rc_failure_kind ?rc = Some kind" "rc_source_manifest_digest ?rc = ev_source_manifest_digest ev"
    by (simp_all add: failed_cow_clone_def)
  have "\<not> fallback_permitted fresh prior rc" if "with_unconfirmed_staging obj ?rc = Some rc" for rc
    using staged_receipt_not_restored[OF that] by (simp add: fallback_permitted_def)
  moreover have "fallback_permitted fresh prior ?rc \<longleftrightarrow>
       policy = AllowFullCopyOnCowUnsupported
       \<and> cand_kind (mpr_cow_clone fresh) = cand_kind (mpr_cow_clone r)
       \<and> cand_kind (mpr_full_copy fresh) = materializer_kind.FullCopy
       \<and> cand_state (mpr_full_copy fresh) = Supported
       \<and> kind = CowUnavailable \<and> ev_source_manifest_digest ev \<noteq> None
       \<and> receipt_restored_baseline ?rc
       \<and> report_paths_match_plan fresh prior
       \<and> one_volume_layout fresh (cand_kind (mpr_cow_clone r)) (pl_source_volume_id prior)"
    using p f failed_cow_clone_matches by (auto simp: fallback_permitted_def)
  ultimately show ?thesis
    unfolding for_full_copy_after_cow_unavailable_eq_Ok failed_cow_clone_restored by blast
qed

lemma fallback_after_failed_clone_witness:
  "\<exists>prior. for_cow_clone (sample_report Supported []) AllowFullCopyOnCowUnsupported = Ok prior
   \<and> (\<exists>plan. for_full_copy_after_cow_unavailable (sample_report Supported []) prior
        (failed_cow_clone prior CowUnavailable [] False (rollback_evidence_new NotNeeded [] [])
          \<lparr>ev_logical_bytes = None, ev_physical_bytes = None, ev_regular_file_count = None,
           ev_clone_calls_succeeded = 0, ev_source_manifest_digest = Some (TreeDigest (replicate 32 CHR ''s'')),
           ev_target_manifest_digest = None\<rparr> 4) = Ok plan)"
proof -
  let ?r = "sample_report Supported []"
  obtain prior where p: "for_cow_clone ?r AllowFullCopyOnCowUnsupported = Ok prior"
    and path: "pl_path_evidence prior = path_evidence ?r" "pl_source_volume_id prior = VolumeId 5"
  proof
    show "for_cow_clone ?r AllowFullCopyOnCowUnsupported = Ok
       \<lparr>pl_requested_mode = CowClone, pl_effective_mode = CowClone,
        pl_selected_adapter = ApfsFileClone, pl_fallback_policy = AllowFullCopyOnCowUnsupported,
        pl_probe_evidence_digest = mpr_evidence_digest ?r, pl_path_evidence = path_evidence ?r,
        pl_source_path = requested_path (mpr_source ?r),
        pl_target_path = requested_path (mpr_target_root ?r),
        pl_staging_path = requested_path (mpr_staging ?r),
        pl_trash_path = requested_path (mpr_trash ?r),
        pl_source_volume_id = VolumeId 5, pl_target_volume_id = VolumeId 5,
        pl_fallback_reason = None, pl_failed_attempts = []\<rparr>"
      unfolding for_cow_clone_eq_Ok using sample_layout[of Supported "[]"]
      by (auto simp: sample_report_def)
  qed simp_all
  have "report_paths_match_plan ?r prior"
    using path by (simp add: report_paths_match_plan_def path_evidence_def frozen_facts_match_def)
  then show ?thesis
    using fallback_after_failed_clone[OF p, of ?r CowUnavailable "[]" False
        "rollback_evidence_new NotNeeded [] []"
        "\<lparr>ev_logical_bytes = None, ev_physical_bytes = None, ev_regular_file_count = None,
          ev_clone_calls_succeeded = 0, ev_source_manifest_digest = Some (TreeDigest (replicate 32 CHR ''s'')),
          ev_target_manifest_digest = None\<rparr>" 4] p path sample_layout[of Supported "[]"]
    by (auto simp: sample_report_def rollback_evidence_new_def clean_rollback_def untouched_rollback_def)
qed

end
