(* ===== verification/Receipt_Json.thy ===== *)
theory Receipt_Json
  imports Metadata_Port Receipts Uuid_Instance
begin

text \<open>
  The stored form of a successful receipt:
  \<open>thinws-metadata-sqlite/src/receipt_json.rs\<close>.

  \<open>serde_json\<close> and SQLite's \<open>json_valid\<close> are not part of the repository.  A \<open>Value\<close> is the
  datatype \<open>json\<close>, an object being its list of entries; the text functions are the fields of
  \<open>json_api\<close>, an argument of every definition that uses them.  \<open>json_stored\<close> states what the
  code relies on for one value: its text parses back to it and SQLite accepts the text.
\<close>

datatype json =
  JNull | JBool bool | JNumber int | JString string | JArray "json list"
| JObject "(string \<times> json) list"

record json_api =
  json_to_string :: "json \<Rightarrow> foreign_error + string"
  json_from_str :: "string \<Rightarrow> foreign_error + json"
  json_valid :: "string \<Rightarrow> bool"

definition json_stored :: "json_api \<Rightarrow> json \<Rightarrow> string \<Rightarrow> bool" where
  "json_stored J v text \<longleftrightarrow>
     json_to_string J v = Ok text \<and> json_from_str J text = Ok v \<and> json_valid J text"

text \<open>\<open>Value::get\<close> with a text key, \<open>as_str\<close> and \<open>as_array\<close>.\<close>

fun json_get :: "json \<Rightarrow> string \<Rightarrow> json option" where
  "json_get (JObject kvs) k = map_of kvs k"
| "json_get _ k = None"

fun json_as_str :: "json \<Rightarrow> string option" where
  "json_as_str (JString s) = Some s"
| "json_as_str _ = None"

fun json_as_array :: "json \<Rightarrow> json list option" where
  "json_as_array (JArray xs) = Some xs"
| "json_as_array _ = None"

fun json_opt :: "('a \<Rightarrow> json) \<Rightarrow> 'a option \<Rightarrow> json" where
  "json_opt f None = JNull"
| "json_opt f (Some x) = f x"

definition json_u64 :: "u64 \<Rightarrow> json" where
  "json_u64 n = JNumber (uint n)"

subsection \<open>Encoding\<close>

definition hex_digits :: string where
  "hex_digits = ''0123456789abcdef''"

fun hex :: "bytes \<Rightarrow> string" where
  "hex [] = []"
| "hex (b # bs) = hex_digits ! (of_char b div 16) # hex_digits ! (of_char b mod 16) # hex bs"

definition digest_text :: "tree_digest \<Rightarrow> string" where
  "digest_text d = hex (tree_digest_bytes d)"

fun mode_text :: "materialization_mode \<Rightarrow> string" where
  "mode_text CowClone = ''cow_clone''"
| "mode_text FullCopy = ''full_copy''"

fun adapter_text :: "materializer_kind \<Rightarrow> string" where
  "adapter_text ApfsFileClone = ''apfs_file_clone''"
| "adapter_text BtrfsReflink = ''btrfs_reflink''"
| "adapter_text materializer_kind.FullCopy = ''full_copy''"

fun outcome_text :: "materialization_outcome \<Rightarrow> string" where
  "outcome_text Succeeded = ''succeeded''"
| "outcome_text Partial = ''partial''"
| "outcome_text materialization_outcome.Failed = ''failed''"

fun cow_text :: "cow_evidence \<Rightarrow> string" where
  "cow_text Confirmed = ''confirmed''"
| "cow_text NotUsed = ''not_used''"
| "cow_text cow_evidence.Unknown = ''unknown''"

fun fallback_text :: "fallback_reason \<Rightarrow> string" where
  "fallback_text CloneUnsupportedAtPreflight = ''clone_unsupported_at_preflight''"
| "fallback_text CloneUnavailableAtRuntime = ''clone_unavailable_at_runtime''"

fun failure_text :: "materialization_failure_kind \<Rightarrow> string" where
  "failure_text PlanStale = ''plan_stale''"
| "failure_text materialization_failure_kind.InvalidLayout = ''invalid_layout''"
| "failure_text UnsupportedSourceEntry = ''unsupported_source_entry''"
| "failure_text SourceChanged = ''source_changed''"
| "failure_text TargetChanged = ''target_changed''"
| "failure_text CowUnavailable = ''cow_unavailable''"
| "failure_text NoSpace = ''no_space''"
| "failure_text materialization_failure_kind.ManifestMismatch = ''manifest_mismatch''"
| "failure_text Filesystem = ''filesystem''"

fun entry_kind_text :: "materialized_entry_kind \<Rightarrow> string" where
  "entry_kind_text Directory = ''directory''"
| "entry_kind_text RegularFile = ''regular_file''"
| "entry_kind_text SymbolicLink = ''symbolic_link''"

fun rollback_status_text :: "rollback_status \<Rightarrow> string" where
  "rollback_status_text NotNeeded = ''not_needed''"
| "rollback_status_text ConfirmedBaseline = ''confirmed_baseline''"
| "rollback_status_text Incomplete = ''incomplete''"

definition created_json :: "created_object_evidence \<Rightarrow> json" where
  "created_json c = JObject
     [(''path_hex'', JString (hex (relative_bytes (co_path c)))),
      (''kind'', JString (entry_kind_text (co_kind c))),
      (''identity'', json_opt (\<lambda>i. JObject
         [(''device'', json_u64 (device i)), (''inode'', json_u64 (inode i))]) (co_identity c))]"

definition paths_json :: "relative_path list \<Rightarrow> json" where
  "paths_json ps = JArray (map (\<lambda>p. JString (hex (relative_bytes p))) ps)"

definition rollback_json :: "rollback_evidence \<Rightarrow> json" where
  "rollback_json r = JObject
     [(''status'', JString (rollback_status_text (rb_status r))),
      (''removed_hex'', paths_json (rb_removed r)),
      (''quarantined_hex'', paths_json (rb_quarantined r)),
      (''unconfirmed_quarantined_hex'', paths_json (rb_unconfirmed_quarantined r)),
      (''remaining'', JArray (map created_json (rb_remaining r)))]"

definition failed_attempt_json :: "uuid_api \<Rightarrow> failed_attempt \<Rightarrow> json" where
  "failed_attempt_json U a = JObject
     [(''probe_evidence_digest'', JString (hex (probe_digest_bytes (fa_probe_evidence_digest a)))),
      (''attempted_mode'', JString (mode_text (fa_attempted_mode a))),
      (''actual_adapter'', JString (adapter_text (fa_actual_adapter a))),
      (''outcome'', JString (outcome_text (fa_outcome a))),
      (''failure_kind'', JString (failure_text (fa_failure_kind a))),
      (''source_volume_id'', json_opt (\<lambda>v. JString (volume_id_to_string U v)) (fa_source_volume_id a)),
      (''target_volume_id'', json_opt (\<lambda>v. JString (volume_id_to_string U v)) (fa_target_volume_id a)),
      (''created'', JArray (map created_json (fa_created a))),
      (''rollback'', rollback_json (fa_rollback a)),
      (''elapsed_millis'', json_u64 (fa_elapsed_millis a)),
      (''logical_bytes'', json_opt json_u64 (ev_logical_bytes (fa_evidence a))),
      (''physical_bytes'', json_opt json_u64 (ev_physical_bytes (fa_evidence a))),
      (''regular_file_count'', json_opt json_u64 (ev_regular_file_count (fa_evidence a))),
      (''clone_calls_succeeded'', json_u64 (ev_clone_calls_succeeded (fa_evidence a))),
      (''source_manifest_digest'', json_opt (\<lambda>d. JString (digest_text d)) (ev_source_manifest_digest (fa_evidence a))),
      (''target_manifest_digest'', json_opt (\<lambda>d. JString (digest_text d)) (ev_target_manifest_digest (fa_evidence a)))]"

definition final_receipt_json :: "uuid_api \<Rightarrow> materialization_receipt \<Rightarrow> json" where
  "final_receipt_json U r = JObject
     [(''probe_evidence_digest'', JString (hex (probe_digest_bytes (rc_probe_evidence_digest r)))),
      (''requested_mode'', JString (mode_text (rc_requested_mode r))),
      (''effective_mode'', JString (mode_text (rc_effective_mode r))),
      (''actual_mode'', JString (mode_text (rc_actual_mode r))),
      (''actual_adapter'', JString (adapter_text (rc_actual_adapter r))),
      (''outcome'', JString (outcome_text (rc_outcome r))),
      (''cow_evidence'', JString (cow_text (rc_cow_evidence r))),
      (''source_volume_id'', json_opt (\<lambda>v. JString (volume_id_to_string U v)) (rc_source_volume_id r)),
      (''target_volume_id'', json_opt (\<lambda>v. JString (volume_id_to_string U v)) (rc_target_volume_id r)),
      (''created'', JArray (map created_json (rc_created r))),
      (''unconfirmed_staging'', json_opt created_json (rc_unconfirmed_staging r)),
      (''rollback'', rollback_json (rc_rollback r)),
      (''elapsed_millis'', json_u64 (rc_elapsed_millis r)),
      (''logical_bytes'', json_opt json_u64 (rc_logical_bytes r)),
      (''physical_bytes'', json_opt json_u64 (rc_physical_bytes r)),
      (''regular_file_count'', json_opt json_u64 (rc_regular_file_count r)),
      (''clone_calls_succeeded'', json_u64 (rc_clone_calls_succeeded r)),
      (''source_manifest_digest'', json_opt (\<lambda>d. JString (digest_text d)) (rc_source_manifest_digest r)),
      (''target_manifest_digest'', json_opt (\<lambda>d. JString (digest_text d)) (rc_target_manifest_digest r)),
      (''failure_kind'', json_opt (\<lambda>k. JString (failure_text k)) (rc_failure_kind r)),
      (''fallback_reason'', json_opt (\<lambda>k. JString (fallback_text k)) (rc_fallback_reason r)),
      (''failed_attempts'', JArray (map (failed_attempt_json U) (rc_failed_attempts r)))]"

subsection \<open>Decoding\<close>

definition RECEIPT_SCHEMA_VERSION :: int where
  "RECEIPT_SCHEMA_VERSION = 1"

definition invalid_receipt :: port_error where
  "invalid_receipt = port_error_new InvalidData ''decode final receipt''"

definition json_field :: "json \<Rightarrow> string \<Rightarrow> port_error + string" where
  "json_field v k = ok_or (Option.bind (json_get v k) json_as_str) invalid_receipt"

definition decode_mode :: "string \<Rightarrow> port_error + materialization_mode" where
  "decode_mode s =
     (if s = ''cow_clone'' then Ok CowClone
      else if s = ''full_copy'' then Ok FullCopy
      else Err invalid_receipt)"

definition decode_adapter :: "string \<Rightarrow> port_error + materializer_kind" where
  "decode_adapter s =
     (if s = ''apfs_file_clone'' then Ok ApfsFileClone
      else if s = ''btrfs_reflink'' then Ok BtrfsReflink
      else if s = ''full_copy'' then Ok materializer_kind.FullCopy
      else Err invalid_receipt)"

definition decode_cow :: "string \<Rightarrow> port_error + cow_evidence" where
  "decode_cow s =
     (if s = ''confirmed'' then Ok Confirmed
      else if s = ''not_used'' then Ok NotUsed
      else Err invalid_receipt)"

definition decode_fallback :: "string \<Rightarrow> port_error + fallback_reason" where
  "decode_fallback s =
     (if s = ''clone_unsupported_at_preflight'' then Ok CloneUnsupportedAtPreflight
      else if s = ''clone_unavailable_at_runtime'' then Ok CloneUnavailableAtRuntime
      else Err invalid_receipt)"

definition decode_fallback_field :: "json \<Rightarrow> port_error + fallback_reason option" where
  "decode_fallback_field v =
     (case json_get v ''fallback_reason'' of
        Some JNull \<Rightarrow> Ok None
      | Some (JString s) \<Rightarrow> and_then (decode_fallback s) (\<lambda>f. Ok (Some f))
      | _ \<Rightarrow> Err invalid_receipt)"

definition mode_combination_ok ::
  "materialization_mode \<Rightarrow> materializer_kind \<Rightarrow> cow_evidence \<Rightarrow> fallback_reason option \<Rightarrow> bool" where
  "mode_combination_ok actual adapter cow reason =
     (actual = CowClone \<and> (adapter = ApfsFileClone \<or> adapter = BtrfsReflink)
        \<and> (cow = Confirmed \<or> cow = NotUsed) \<and> reason = None
      \<or> actual = FullCopy \<and> adapter = materializer_kind.FullCopy \<and> cow = NotUsed \<and> reason \<noteq> None)"

definition attempt_count_valid :: "fallback_reason option \<Rightarrow> nat \<Rightarrow> bool" where
  "attempt_count_valid reason n =
     (case reason of
        None \<Rightarrow> n = 0
      | Some CloneUnsupportedAtPreflight \<Rightarrow> n = 0
      | Some CloneUnavailableAtRuntime \<Rightarrow> n = 1)"

definition decode_final_value ::
  "uuid_api \<Rightarrow> json \<Rightarrow> volume_id \<Rightarrow> port_error + final_summary" where
  "decode_final_value U v expected_volume =
     and_then (and_then (json_field v ''requested_mode'') decode_mode) (\<lambda>requested.
     and_then (and_then (json_field v ''effective_mode'') decode_mode) (\<lambda>effective.
     and_then (and_then (json_field v ''actual_mode'') decode_mode) (\<lambda>actual.
     and_then (and_then (json_field v ''actual_adapter'') decode_adapter) (\<lambda>adapter.
     and_then (and_then (json_field v ''cow_evidence'') decode_cow) (\<lambda>cow.
     and_then (decode_fallback_field v) (\<lambda>reason.
     and_then (ok_or (Option.bind (json_get v ''failed_attempts'') json_as_array) invalid_receipt) (\<lambda>attempts.
     and_then (json_field v ''source_manifest_digest'') (\<lambda>source_digest.
     and_then (json_field v ''target_manifest_digest'') (\<lambda>target_digest.
     and_then (json_field v ''outcome'') (\<lambda>outcome.
     and_then (json_field v ''source_volume_id'') (\<lambda>source_volume.
     and_then (json_field v ''target_volume_id'') (\<lambda>target_volume.
       if list_all id
            [outcome = ''succeeded'',
             json_get v ''failure_kind'' = Some JNull,
             json_get v ''unconfirmed_staging'' = Some JNull,
             Option.bind (Option.bind (json_get v ''rollback'') (\<lambda>r. json_get r ''status'')) json_as_str
               = Some ''not_needed'',
             source_digest = target_digest,
             length source_digest = 64,
             list_all is_ascii_hexdigit source_digest,
             source_volume = volume_id_to_string U expected_volume,
             target_volume = volume_id_to_string U expected_volume,
             requested = CowClone,
             effective = actual,
             attempt_count_valid reason (length attempts),
             mode_combination_ok actual adapter cow reason]
       then Ok \<lparr>fs_requested_mode = requested, fs_effective_mode = effective,
                fs_actual_mode = actual, fs_adapter = adapter, fs_cow = cow,
                fs_fallback_reason = reason, fs_failed_attempt_count = length attempts\<rparr>
       else Err invalid_receipt))))))))))))"

definition decode_final_summary ::
  "uuid_api \<Rightarrow> json_api \<Rightarrow> int \<Rightarrow> string \<Rightarrow> volume_id \<Rightarrow> port_error + final_summary" where
  "decode_final_summary U J version document expected_volume =
     (if version \<noteq> RECEIPT_SCHEMA_VERSION
      then Err (port_error_new UnsupportedVersion ''read final receipt schema version'')
      else and_then (map_err (port_error_with_source (port_error_new InvalidData ''parse final receipt JSON''))
                       (json_from_str J document))
             (\<lambda>v. decode_final_value U v expected_volume))"

subsection \<open>The texts are codecs\<close>

interpretation mode_codec: text_codec mode_text decode_mode "\<lambda>_. True"
proof
  show "decode_mode (mode_text m) = Ok m" for m by (cases m) (simp_all add: decode_mode_def)
  show "mode_text m = s \<and> True" if "decode_mode s = Ok m" for s m
    using that by (auto simp: decode_mode_def split: if_splits)
qed

interpretation adapter_codec: text_codec adapter_text decode_adapter "\<lambda>_. True"
proof
  show "decode_adapter (adapter_text m) = Ok m" for m
    by (cases m) (simp_all add: decode_adapter_def)
  show "adapter_text m = s \<and> True" if "decode_adapter s = Ok m" for s m
    using that by (auto simp: decode_adapter_def split: if_splits)
qed

interpretation cow_codec: text_codec cow_text decode_cow "\<lambda>c. c \<noteq> cow_evidence.Unknown"
proof
  show "decode_cow (cow_text c) = Ok c" if "c \<noteq> cow_evidence.Unknown" for c
    using that by (cases c) (simp_all add: decode_cow_def)
  show "cow_text c = s \<and> c \<noteq> cow_evidence.Unknown" if "decode_cow s = Ok c" for s c
    using that by (auto simp: decode_cow_def split: if_splits)
qed

interpretation fallback_codec: text_codec fallback_text decode_fallback "\<lambda>_. True"
proof
  show "decode_fallback (fallback_text m) = Ok m" for m
    by (cases m) (simp_all add: decode_fallback_def)
  show "fallback_text m = s \<and> True" if "decode_fallback s = Ok m" for s m
    using that by (auto simp: decode_fallback_def split: if_splits)
qed

lemma decode_requested_mode [simp]: "decode_mode ''cow_clone'' = Ok CowClone"
  by (simp add: decode_mode_def)

lemmas text_roundtrips = mode_codec.decode_encode adapter_codec.decode_encode
  cow_codec.decode_encode fallback_codec.decode_encode

subsection \<open>Hexadecimal\<close>

text \<open>The reading of a hexadecimal text that \<open>hex\<close> is the inverse of.\<close>

definition hex_value :: "char \<Rightarrow> nat" where
  "hex_value c = (if c \<le> CHR ''9'' then of_char c - 48 else of_char c - 87)"

fun unhex :: "string \<Rightarrow> bytes option" where
  "unhex [] = Some []"
| "unhex [c] = None"
| "unhex (c # d # cs) =
     (if is_lower_hex c \<and> is_lower_hex d
      then map_option (\<lambda>bs. char_of (hex_value c * 16 + hex_value d) # bs) (unhex cs) else None)"

lemma nibbles: "(of_char b :: nat) div 16 < 16" "(of_char b :: nat) mod 16 < 16"
proof -
  have "(of_char b :: nat) < 256" by simp
  then show "(of_char b :: nat) div 16 < 16" by linarith
qed simp

lemma hex_digit_facts:
  assumes "n < 16"
  shows "hex_value (hex_digits ! n) = n" "is_lower_hex (hex_digits ! n)"
    "is_ascii_hexdigit (hex_digits ! n)"
proof -
  have "\<forall>i \<in> set [0..<16]. hex_value (hex_digits ! i) = i \<and> is_lower_hex (hex_digits ! i)
      \<and> is_ascii_hexdigit (hex_digits ! i)"
    by code_simp
  then show "hex_value (hex_digits ! n) = n" "is_lower_hex (hex_digits ! n)"
    "is_ascii_hexdigit (hex_digits ! n)" using assms by auto
qed

lemma unhex_hex: "unhex (hex bs) = Some bs"
proof (induction bs)
  case (Cons b bs)
  have "char_of ((of_char b :: nat) div 16 * 16 + of_char b mod 16) = b" by simp
  then show ?case using Cons by (simp add: hex_digit_facts nibbles)
qed simp

lemma hex_length [simp]: "length (hex bs) = 2 * length bs"
  by (induction bs) auto

lemma hex_is_hexdigits: "list_all is_ascii_hexdigit (hex bs)"
proof (induction bs)
  case (Cons b bs)
  then show ?case by (simp add: hex_digit_facts nibbles)
qed simp

lemma hex_inject: "hex a = hex b \<longleftrightarrow> a = b"
  by (metis option.inject unhex_hex)

subsection \<open>Round trip\<close>

definition summary_of :: "materialization_receipt \<Rightarrow> final_summary" where
  "summary_of r =
     \<lparr>fs_requested_mode = rc_requested_mode r, fs_effective_mode = rc_effective_mode r,
      fs_actual_mode = rc_actual_mode r, fs_adapter = rc_actual_adapter r,
      fs_cow = rc_cow_evidence r, fs_fallback_reason = rc_fallback_reason r,
      fs_failed_attempt_count = length (rc_failed_attempts r)\<rparr>"

text \<open>What a stored receipt has to satisfy to be read back.\<close>

definition storable_receipt :: "materialization_receipt \<Rightarrow> volume_id \<Rightarrow> bool" where
  "storable_receipt r v \<longleftrightarrow>
     rc_outcome r = Succeeded \<and> rc_failure_kind r = None \<and> rc_unconfirmed_staging r = None
     \<and> rb_status (rc_rollback r) = NotNeeded
     \<and> (\<exists>d. rc_source_manifest_digest r = Some d \<and> rc_target_manifest_digest r = Some d \<and> tree_digest_ok d)
     \<and> rc_source_volume_id r = Some v \<and> rc_target_volume_id r = Some v
     \<and> rc_requested_mode r = CowClone \<and> rc_effective_mode r = rc_actual_mode r
     \<and> attempt_count_valid (rc_fallback_reason r) (length (rc_failed_attempts r))
     \<and> mode_combination_ok (rc_actual_mode r) (rc_actual_adapter r) (rc_cow_evidence r) (rc_fallback_reason r)"

lemma receipt_json_fields:
  "json_get (final_receipt_json U r) ''requested_mode'' = Some (JString (mode_text (rc_requested_mode r)))"
  "json_get (final_receipt_json U r) ''effective_mode'' = Some (JString (mode_text (rc_effective_mode r)))"
  "json_get (final_receipt_json U r) ''actual_mode'' = Some (JString (mode_text (rc_actual_mode r)))"
  "json_get (final_receipt_json U r) ''actual_adapter'' = Some (JString (adapter_text (rc_actual_adapter r)))"
  "json_get (final_receipt_json U r) ''outcome'' = Some (JString (outcome_text (rc_outcome r)))"
  "json_get (final_receipt_json U r) ''cow_evidence'' = Some (JString (cow_text (rc_cow_evidence r)))"
  "json_get (final_receipt_json U r) ''source_volume_id''
     = Some (json_opt (\<lambda>v. JString (volume_id_to_string U v)) (rc_source_volume_id r))"
  "json_get (final_receipt_json U r) ''target_volume_id''
     = Some (json_opt (\<lambda>v. JString (volume_id_to_string U v)) (rc_target_volume_id r))"
  "json_get (final_receipt_json U r) ''unconfirmed_staging''
     = Some (json_opt created_json (rc_unconfirmed_staging r))"
  "json_get (final_receipt_json U r) ''rollback'' = Some (rollback_json (rc_rollback r))"
  "json_get (final_receipt_json U r) ''source_manifest_digest''
     = Some (json_opt (\<lambda>d. JString (digest_text d)) (rc_source_manifest_digest r))"
  "json_get (final_receipt_json U r) ''target_manifest_digest''
     = Some (json_opt (\<lambda>d. JString (digest_text d)) (rc_target_manifest_digest r))"
  "json_get (final_receipt_json U r) ''failure_kind''
     = Some (json_opt (\<lambda>k. JString (failure_text k)) (rc_failure_kind r))"
  "json_get (final_receipt_json U r) ''fallback_reason''
     = Some (json_opt (\<lambda>k. JString (fallback_text k)) (rc_fallback_reason r))"
  "json_get (final_receipt_json U r) ''failed_attempts''
     = Some (JArray (map (failed_attempt_json U) (rc_failed_attempts r)))"
  "json_get (rollback_json rb) ''status'' = Some (JString (rollback_status_text (rb_status rb)))"
  by (simp_all add: final_receipt_json_def rollback_json_def)

lemma decode_fallback_field_json:
  "decode_fallback_field (final_receipt_json U r) = Ok (rc_fallback_reason r)"
  by (cases "rc_fallback_reason r")
    (simp_all add: decode_fallback_field_def receipt_json_fields text_roundtrips)

lemma decode_final_value_json:
  assumes "storable_receipt r v"
  shows "decode_final_value U (final_receipt_json U r) v = Ok (summary_of r)"
proof -
  from assms obtain d where d: "rc_source_manifest_digest r = Some d"
    "rc_target_manifest_digest r = Some d" "length (tree_digest_bytes d) = 32"
    by (auto simp: storable_receipt_def tree_digest_ok_def)
  have cow: "rc_cow_evidence r \<noteq> cow_evidence.Unknown"
    using assms by (auto simp: storable_receipt_def mode_combination_ok_def)
  show ?thesis
    using assms d cow
    by (simp add: decode_final_value_def json_field_def receipt_json_fields text_roundtrips
        decode_fallback_field_json storable_receipt_def summary_of_def digest_text_def
        hex_is_hexdigits)
qed

lemma rollback_status_text_NotNeeded: "rollback_status_text s = ''not_needed'' \<longleftrightarrow> s = NotNeeded"
  by (cases s) auto

lemma outcome_text_Succeeded: "outcome_text s = ''succeeded'' \<longleftrightarrow> s = Succeeded"
  by (cases s) auto

lemma decode_final_value_sound:
  assumes "decode_final_value U v expected = Ok s"
  shows "fs_requested_mode s = CowClone \<and> fs_effective_mode s = fs_actual_mode s
    \<and> mode_combination_ok (fs_actual_mode s) (fs_adapter s) (fs_cow s) (fs_fallback_reason s)
    \<and> attempt_count_valid (fs_fallback_reason s) (fs_failed_attempt_count s)"
  using assms by (auto simp: decode_final_value_def result_simps)

text \<open>A successful receipt of a plan the program can hold is storable.\<close>

definition receipt_digests_ok :: "materialization_receipt \<Rightarrow> bool" where
  "receipt_digests_ok r \<longleftrightarrow>
     (case rc_source_manifest_digest r of None \<Rightarrow> True | Some d \<Rightarrow> tree_digest_ok d)"

lemma derived_receipt_storable:
  assumes plan: "derived_plan plan" and rc: "derived_receipt plan r" and ok: "rc_outcome r = Succeeded"
    and digest: "receipt_digests_ok r"
  shows "storable_receipt r (pl_source_volume_id plan)"
proof -
  have p: "plan_ok plan" by (rule derived_plan_ok[OF plan])
  have r: "receipt_ok plan r" by (rule derived_receipt_ok[OF rc])
  then have claim: "success_claim plan r" using ok by (simp add: receipt_ok_def)
  obtain d where "rc_source_manifest_digest r = Some d" "rc_target_manifest_digest r = Some d"
    "tree_digest_ok d"
    using claim digest by (auto simp: success_claim_def receipt_digests_ok_def)
  moreover have "attempt_count_valid (rc_fallback_reason r) (length (rc_failed_attempts r))"
    using p r by (auto simp: plan_ok_def receipt_ok_def attempt_count_valid_def
        split: option.splits fallback_reason.splits)
  moreover have "mode_combination_ok (rc_actual_mode r) (rc_actual_adapter r) (rc_cow_evidence r)
      (rc_fallback_reason r)"
    using p r claim ok derived_success_cow[OF rc ok]
    by (cases "rc_actual_mode r"; cases "rc_actual_adapter r")
      (auto simp: plan_ok_def receipt_ok_def success_claim_def mode_combination_ok_def)
  ultimately show ?thesis
    using p r claim ok
    by (auto simp: storable_receipt_def plan_ok_def receipt_ok_def success_claim_def
        rollback_evidence_new_def)
qed

text \<open>
  C34. A stored receipt is read back as what it was.  For a successful receipt of any plan the
  program can hold, whose digests are 32 bytes, the document written for it is accepted on the
  plan's volume and decodes to exactly the receipt's modes, backend, clone evidence, fallback
  reason and number of failed attempts; with any other schema version it is refused as
  unsupported.
\<close>

theorem receipt_document_roundtrip:
  "derived_plan plan \<Longrightarrow> derived_receipt plan r \<Longrightarrow> rc_outcome r = Succeeded \<Longrightarrow>
   receipt_digests_ok r \<Longrightarrow> json_stored J (final_receipt_json U r) document \<Longrightarrow>
     decode_final_summary U J version document (pl_source_volume_id plan) =
       (if version = RECEIPT_SCHEMA_VERSION then Ok (summary_of r)
        else Err (port_error_new UnsupportedVersion ''read final receipt schema version''))"
  using decode_final_value_json[OF derived_receipt_storable]
  by (simp add: decode_final_summary_def json_stored_def)

text \<open>A text form for the one document of the example.\<close>

definition sample_json :: "json \<Rightarrow> json_api" where
  "sample_json v =
     \<lparr>json_to_string = (\<lambda>w. if w = v then Ok ''{}'' else Err (ForeignError ''unsupported'')),
      json_from_str = (\<lambda>s. if s = ''{}'' then Ok v else Err (ForeignError ''syntax'')),
      json_valid = (\<lambda>s. s = ''{}'')\<rparr>"

lemma sample_json_stored: "json_stored (sample_json v) v ''{}''"
  by (simp add: json_stored_def sample_json_def)

lemma sample_success_digests: "receipt_digests_ok sample_success"
  by (simp add: receipt_digests_ok_def sample_success_derived tree_digest_ok_def)

lemma receipt_document_roundtrip_witness:
  "decode_final_summary plain_uuid (sample_json (final_receipt_json plain_uuid sample_success)) 1 ''{}''
     (pl_source_volume_id sample_fallback_plan) = Ok (summary_of sample_success)
   \<and> decode_final_summary plain_uuid (sample_json (final_receipt_json plain_uuid sample_success)) 2 ''{}''
     (pl_source_volume_id sample_fallback_plan)
      = Err (port_error_new UnsupportedVersion ''read final receipt schema version'')"
  using receipt_document_roundtrip[OF sample_fallback_derived sample_success_derived(1,2)
      sample_success_digests sample_json_stored, of plain_uuid]
  by (simp add: RECEIPT_SCHEMA_VERSION_def)

text \<open>
  The decoder accepts only coherent documents.  A summary is returned only for schema
  version 1 and a document that parses, whose outcome is \<open>succeeded\<close> with a null failure kind
  and no staged leftover, whose two 64-digit manifest digests agree and whose volumes are the
  expected one; the summary then requests copy-on-write, ran the mode it planned, and its
  backend, clone evidence, fallback reason and number of failed attempts fit together.
\<close>

theorem decoded_receipt_coherent:
  "decode_final_summary U J version document v = Ok s \<Longrightarrow>
     version = RECEIPT_SCHEMA_VERSION
     \<and> (\<exists>w digest. json_from_str J document = Ok w
         \<and> json_get w ''outcome'' = Some (JString ''succeeded'')
         \<and> json_get w ''failure_kind'' = Some JNull
         \<and> json_get w ''unconfirmed_staging'' = Some JNull
         \<and> json_get w ''source_manifest_digest'' = Some (JString digest)
         \<and> json_get w ''target_manifest_digest'' = Some (JString digest)
         \<and> length digest = 64 \<and> list_all is_ascii_hexdigit digest
         \<and> json_get w ''source_volume_id'' = Some (JString (volume_id_to_string U v))
         \<and> json_get w ''target_volume_id'' = Some (JString (volume_id_to_string U v)))
     \<and> fs_requested_mode s = CowClone \<and> fs_effective_mode s = fs_actual_mode s
     \<and> mode_combination_ok (fs_actual_mode s) (fs_adapter s) (fs_cow s) (fs_fallback_reason s)
     \<and> attempt_count_valid (fs_fallback_reason s) (fs_failed_attempt_count s)"
proof -
  assume ok: "decode_final_summary U J version document v = Ok s"
  then obtain w where version: "version = RECEIPT_SCHEMA_VERSION"
    and parse: "json_from_str J document = Ok w" and final: "decode_final_value U w v = Ok s"
    by (auto simp: decode_final_summary_def result_simps)
  have field: "json_field w k = Ok t \<longleftrightarrow> json_get w k = Some (JString t)" for k t
  proof -
    have "json_as_str x = Some t \<longleftrightarrow> x = JString t" for x by (cases x) auto
    then show ?thesis by (auto simp: json_field_def result_simps bind_eq_Some_conv)
  qed
  have "\<exists>digest. json_get w ''outcome'' = Some (JString ''succeeded'')
         \<and> json_get w ''failure_kind'' = Some JNull
         \<and> json_get w ''unconfirmed_staging'' = Some JNull
         \<and> json_get w ''source_manifest_digest'' = Some (JString digest)
         \<and> json_get w ''target_manifest_digest'' = Some (JString digest)
         \<and> length digest = 64 \<and> list_all is_ascii_hexdigit digest
         \<and> json_get w ''source_volume_id'' = Some (JString (volume_id_to_string U v))
         \<and> json_get w ''target_volume_id'' = Some (JString (volume_id_to_string U v))"
    using final by (auto simp: decode_final_value_def result_simps field)
  with version parse decode_final_value_sound[OF final] show ?thesis by blast
qed

lemma decoded_receipt_coherent_witness:
  "mode_combination_ok (fs_actual_mode (summary_of sample_success)) (fs_adapter (summary_of sample_success))
     (fs_cow (summary_of sample_success)) (fs_fallback_reason (summary_of sample_success))"
proof -
  have "decode_final_summary plain_uuid (sample_json (final_receipt_json plain_uuid sample_success)) 1 ''{}''
     (pl_source_volume_id sample_fallback_plan) = Ok (summary_of sample_success)"
    using decode_final_value_json[OF derived_receipt_storable[OF sample_fallback_derived
          sample_success_derived(1,2) sample_success_digests], of plain_uuid] sample_json_stored
    by (simp add: decode_final_summary_def json_stored_def RECEIPT_SCHEMA_VERSION_def)
  from decoded_receipt_coherent[OF this] show ?thesis by blast
qed

end
