(* ===== verification/Metadata_Store.thy ===== *)
theory Metadata_Store
  imports Metadata_Schema Receipt_Json "HOL-Library.Product_Lexorder"
begin

text \<open>
  The SQLite adapter \<open>thinws-metadata-sqlite/src/lib.rs\<close>: opening and validating a database,
  and every \<open>MetadataStore\<close> operation, statement by statement.

  A connection is the database file and the number of calls made on it.  The file is what its
  tables and header fields hold and the journal mode it records, which stays with it after the
  connection is closed.  Every call (a statement, a query, the step to a row, a \<open>BEGIN\<close> or
  \<open>COMMIT\<close>, a pragma) may fail: the environment says which, by its number.  A failed or
  abandoned transaction leaves the tables as they were when the transaction began.  SQLite may
  decline a change of the journal mode, and a change that reports a failure may have been made:
  the environment says at which calls the file records the write-ahead log.
\<close>

subsection \<open>The environment and the connection\<close>

record raw_settings =
  raw_synchronous :: int
  raw_foreign_keys :: int
  raw_busy_timeout :: int

record store_env =
  env_uuid :: uuid_api
  env_json :: json_api
  env_fault :: "nat \<Rightarrow> foreign_error option"
  env_layout :: "nat \<Rightarrow> port_error option"
  env_schema_v2 :: "catalog_entry list"
  env_settings :: raw_settings
  env_wal :: "nat \<Rightarrow> bool"

record conn =
  c_db :: database
  c_journal :: string
  c_tick :: nat

type_synonym 'a store_op = "conn \<Rightarrow> (port_error + 'a) \<times> conn"

definition APPLICATION_ID :: int where
  "APPLICATION_ID = 1414027091"

definition SCHEMA_VERSION :: int where
  "SCHEMA_VERSION = 2"

definition storage_error :: "string \<Rightarrow> foreign_error \<Rightarrow> port_error" where
  "storage_error oper e = port_error_with_source (port_error_new Storage oper) e"

definition invalid_data :: "string \<Rightarrow> foreign_error \<Rightarrow> port_error" where
  "invalid_data oper e = port_error_with_source (port_error_new InvalidData oper) e"

definition update_error :: "string \<Rightarrow> sql_error \<Rightarrow> port_error" where
  "update_error oper e =
     (if is_constraint e then invalid_data oper (sql_error_source e)
      else storage_error oper (sql_error_source e))"

text \<open>A typed decoding error becomes the source of an \<open>InvalidData\<close> failure.\<close>

definition decoded :: "string \<Rightarrow> 'e + 'a \<Rightarrow> port_error + 'a" where
  "decoded oper r = map_err (\<lambda>_. invalid_data oper (ForeignError oper)) r"

definition st_return :: "'a \<Rightarrow> 'a store_op" where
  "st_return x c = (Ok x, c)"

definition st_fail :: "port_error \<Rightarrow> 'a store_op" where
  "st_fail e c = (Err e, c)"

definition st_lift :: "port_error + 'a \<Rightarrow> 'a store_op" where
  "st_lift r c = (r, c)"

definition st_bind :: "'a store_op \<Rightarrow> ('a \<Rightarrow> 'b store_op) \<Rightarrow> 'b store_op" where
  "st_bind m f c = (case m c of (Inl e, c') \<Rightarrow> (Inl e, c') | (Inr x, c') \<Rightarrow> f x c')"

definition next_call :: "conn \<Rightarrow> conn" where
  "next_call c = c\<lparr>c_tick := Suc (c_tick c)\<rparr>"

text \<open>A query, and a statement.\<close>

definition db_query :: "store_env \<Rightarrow> string \<Rightarrow> (database \<Rightarrow> 'a) \<Rightarrow> 'a store_op" where
  "db_query E oper f c =
     (case env_fault E (c_tick c) of
        Some e \<Rightarrow> (Err (storage_error oper e), next_call c)
      | None \<Rightarrow> (Ok (f (c_db c)), next_call c))"

definition db_execute ::
  "store_env \<Rightarrow> statement \<Rightarrow> (sql_error \<Rightarrow> port_error) \<Rightarrow> nat store_op" where
  "db_execute E stmt on_error c =
     (case env_fault E (c_tick c) of
        Some e \<Rightarrow> (Err (on_error (OtherSql e)), next_call c)
      | None \<Rightarrow>
          (case stmt (c_db c) of
             Inl e \<Rightarrow> (Err (on_error e), next_call c)
           | Inr (n, db) \<Rightarrow> (Ok n, (next_call c)\<lparr>c_db := db\<rparr>)))"

text \<open>\<open>transaction_with_behavior\<close>, the body, \<open>commit\<close>; dropping the transaction rolls back.\<close>

definition in_transaction :: "store_env \<Rightarrow> string \<Rightarrow> string \<Rightarrow> 'a store_op \<Rightarrow> 'a store_op" where
  "in_transaction E begin_op commit_op body c =
     (case env_fault E (c_tick c) of
        Some e \<Rightarrow> (Err (storage_error begin_op e), next_call c)
      | None \<Rightarrow>
          (case body (next_call c) of
             (Inl e, c') \<Rightarrow> (Inl e, c'\<lparr>c_db := c_db c\<rparr>)
           | (Inr x, c') \<Rightarrow>
               (case env_fault E (c_tick c') of
                  Some e \<Rightarrow> (Err (storage_error commit_op e), (next_call c')\<lparr>c_db := c_db c\<rparr>)
                | None \<Rightarrow> (Inr x, next_call c'))))"

definition revalidate :: "store_env \<Rightarrow> unit store_op" where
  "revalidate E c =
     (case env_layout E (c_tick c) of
        Some e \<Rightarrow> (Err e, next_call c)
      | None \<Rightarrow> (Ok (), next_call c))"

subsection \<open>Decoding rows\<close>

definition decode_allow_full_copy :: "int \<Rightarrow> port_error + bool" where
  "decode_allow_full_copy n =
     (if n = 0 then Ok False else if n = 1 then Ok True
      else Err (port_error_new InvalidData ''decode full-copy permission''))"

definition decode_error_code :: "string option \<Rightarrow> port_error + error_code option" where
  "decode_error_code v =
     (case v of
        None \<Rightarrow> Ok None
      | Some s \<Rightarrow> and_then (decoded ''decode Workspace error code'' (error_code_from_str s)) (\<lambda>c. Ok (Some c)))"

definition into_record :: "uuid_api \<Rightarrow> workspace_row \<Rightarrow> port_error + workspace_record" where
  "into_record U r =
     and_then (decoded ''decode Workspace ID'' (workspace_id_from_str U (wr_workspace_id r))) (\<lambda>wid.
     and_then (decoded ''decode instance ID'' (instance_id_from_str U (wr_instance_id r))) (\<lambda>iid.
     and_then (decoded ''decode Workspace name'' (workspace_name_from_str (wr_name r))) (\<lambda>name.
     and_then (decoded ''decode source path'' (absolute_path_try_from_bytes (wr_source_path r))) (\<lambda>source.
     and_then (decoded ''decode target path'' (absolute_path_try_from_bytes (wr_target_path r))) (\<lambda>target.
     and_then (decoded ''decode source volume'' (volume_id_from_str U (wr_source_volume_id r))) (\<lambda>svol.
     and_then (decoded ''decode target volume'' (volume_id_from_str U (wr_target_volume_id r))) (\<lambda>tvol.
     and_then (decode_allow_full_copy (wr_allow_full_copy r)) (\<lambda>allow.
     and_then (decoded ''decode creation timestamp'' (unix_millis_new (wr_created_at r))) (\<lambda>created.
     and_then (decoded ''decode Workspace state'' (workspace_state_from_str (wr_state r))) (\<lambda>state.
     and_then (decode_error_code (wr_last_error_code r)) (\<lambda>err.
     and_then (decoded ''decode update timestamp'' (unix_millis_new (wr_updated_at r))) (\<lambda>updated.
       decoded ''validate Workspace row''
         (workspace_record_new
            \<lparr>res_workspace_id = wid, res_instance_id = iid, res_name = name,
             res_source_path = source, res_target_path = target,
             res_source_volume_id = svol, res_target_volume_id = tvol,
             res_allow_full_copy = allow, res_created_at = created\<rparr>
            state err updated)))))))))))))"

definition read_workspace :: "store_env \<Rightarrow> workspace_id \<Rightarrow> workspace_record option store_op" where
  "read_workspace E wid =
     st_bind (db_query E ''read Workspace''
                (\<lambda>db. find (\<lambda>w. wr_workspace_id w = workspace_id_to_string (env_uuid E) wid) (db_workspaces db)))
       (\<lambda>row. case row of
          None \<Rightarrow> st_return None
        | Some r \<Rightarrow> st_bind (st_lift (into_record (env_uuid E) r)) (\<lambda>rec. st_return (Some rec)))"

text \<open>\<open>rows.map(..).collect()\<close>: step to each row, decode it, stop at the first failure.\<close>

fun collect_rows :: "store_env \<Rightarrow> string \<Rightarrow> workspace_row list \<Rightarrow> workspace_record list store_op" where
  "collect_rows E oper [] = st_return []"
| "collect_rows E oper (r # rs) =
     st_bind (db_query E oper (\<lambda>_. ())) (\<lambda>_.
     st_bind (st_lift (into_record (env_uuid E) r)) (\<lambda>rec.
     st_bind (collect_rows E oper rs) (\<lambda>recs. st_return (rec # recs))))"

definition read_workspaces :: "store_env \<Rightarrow> workspace_record list store_op" where
  "read_workspaces E =
     st_bind (db_query E ''prepare Workspace list'' (\<lambda>_. ())) (\<lambda>_.
     st_bind (db_query E ''query Workspace list''
                (\<lambda>db. sort_key (\<lambda>w. (wr_name w, wr_workspace_id w)) (db_workspaces db)))
       (collect_rows E ''read Workspace row''))"

definition read_workspaces_by_workspace_id :: "store_env \<Rightarrow> workspace_record list store_op" where
  "read_workspaces_by_workspace_id E =
     st_bind (db_query E ''prepare Workspace snapshot'' (\<lambda>_. ())) (\<lambda>_.
     st_bind (db_query E ''query Workspace snapshot'' (\<lambda>db. sort_key wr_workspace_id (db_workspaces db)))
       (collect_rows E ''read Workspace snapshot row''))"

definition read_final_materialization ::
  "store_env \<Rightarrow> workspace_id \<Rightarrow> volume_id \<Rightarrow> final_summary option store_op" where
  "read_final_materialization E wid vol =
     st_bind (db_query E ''read final receipt''
                (\<lambda>db. find (\<lambda>r. rr_workspace_id r = workspace_id_to_string (env_uuid E) wid) (db_receipts db)))
       (\<lambda>row. case row of
          None \<Rightarrow> st_return None
        | Some r \<Rightarrow>
            st_bind (st_lift (decode_final_summary (env_uuid E) (env_json E) (rr_schema_version r) (rr_json r) vol))
              (\<lambda>s. st_return (Some s)))"

definition decode_installation :: "uuid_api \<Rightarrow> installation_row \<Rightarrow> port_error + installation_record" where
  "decode_installation U r =
     and_then (decoded ''decode installation ID'' (instance_id_from_str U (ir_instance_id r))) (\<lambda>iid.
     and_then (decoded ''decode control-root path'' (absolute_path_try_from_bytes (ir_control_root r))) (\<lambda>root.
     and_then (decoded ''decode control volume'' (volume_id_from_str U (ir_control_volume_id r))) (\<lambda>vol.
     and_then (decoded ''decode installation timestamp'' (unix_millis_new (ir_created_at r))) (\<lambda>t.
       Ok \<lparr>inst_identity = \<lparr>ii_instance_id = iid, ii_data_root = root, ii_volume_id = vol\<rparr>,
           inst_created_at = t\<rparr>))))"

definition read_installation :: "store_env \<Rightarrow> installation_record store_op" where
  "read_installation E =
     st_bind (db_query E ''read installation row'' (\<lambda>db. find (\<lambda>_. True) (db_installation db)))
       (\<lambda>row. case row of
          None \<Rightarrow> st_fail (port_error_new InvalidData ''read installation row'')
        | Some r \<Rightarrow> st_lift (decode_installation (env_uuid E) r))"

subsection \<open>Reservation\<close>

text \<open>The row bound by the \<open>INSERT\<close>.\<close>

definition reservation_row :: "uuid_api \<Rightarrow> workspace_reservation \<Rightarrow> workspace_row" where
  "reservation_row U r =
     \<lparr>wr_workspace_id = workspace_id_to_string U (res_workspace_id r),
      wr_instance_id = instance_id_to_string U (res_instance_id r),
      wr_name = name_str (res_name r),
      wr_source_path = path_bytes (res_source_path r),
      wr_target_path = path_bytes (res_target_path r),
      wr_source_volume_id = volume_id_to_string U (res_source_volume_id r),
      wr_target_volume_id = volume_id_to_string U (res_target_volume_id r),
      wr_allow_full_copy = (if res_allow_full_copy r then 1 else 0),
      wr_state = ''creating'', wr_last_error_code = None,
      wr_created_at = millis (res_created_at r), wr_updated_at = millis (res_created_at r)\<rparr>"

text \<open>The \<open>SELECT CASE\<close> that finds which resource is taken.\<close>

definition reservation_conflict :: "uuid_api \<Rightarrow> workspace_reservation \<Rightarrow> database \<Rightarrow> port_conflict option" where
  "reservation_conflict U r db =
     (let wid = workspace_id_to_string U (res_workspace_id r) in
      if list_ex (\<lambda>w. wr_workspace_id w = wid) (db_workspaces db)
         \<or> list_ex (\<lambda>t. tr_workspace_id t = wid) (db_tombstones db) then Some WorkspaceIdConflict
      else if list_ex (\<lambda>w. wr_name w = name_str (res_name r)) (db_workspaces db)
      then Some WorkspaceNameConflict
      else if list_ex (\<lambda>w. wr_target_path w = path_bytes (res_target_path r)) (db_workspaces db)
      then Some TargetPath
      else None)"

definition classify_reservation_error ::
  "store_env \<Rightarrow> workspace_reservation \<Rightarrow> sql_error \<Rightarrow> conn \<Rightarrow> port_error \<times> conn" where
  "classify_reservation_error E r e c =
     (if \<not> is_constraint e then (storage_error ''reserve workspace'' (sql_error_source e), c)
      else
        let (found, c') = db_query E ''reserve workspace'' (reservation_conflict (env_uuid E) r) c
        in (case result_ok found of
              Some (Some conflict) \<Rightarrow>
                (port_error_with_source (port_error_conflict ''reserve workspace'' conflict) (sql_error_source e), c')
            | _ \<Rightarrow> (invalid_data ''reserve workspace'' (sql_error_source e), c')))"

definition reserve_workspace ::
  "store_env \<Rightarrow> installation_record \<Rightarrow> workspace_reservation \<Rightarrow> workspace_record store_op" where
  "reserve_workspace E inst r c =
     (if res_instance_id r \<noteq> ii_instance_id (inst_identity inst)
         \<or> res_source_volume_id r \<noteq> res_target_volume_id r
      then (Err (port_error_conflict ''reserve workspace'' InstallationIdentity), c)
      else
        let stmt = insert_workspace (reservation_row (env_uuid E) r);
            outcome = (case env_fault E (c_tick c) of
                         Some e \<Rightarrow> Inl (OtherSql e) | None \<Rightarrow> stmt (c_db c))
        in case outcome of
             Inl e \<Rightarrow>
               (let (err, c') = classify_reservation_error E r e (next_call c) in (Err err, c'))
           | Inr (n, db) \<Rightarrow>
               (decoded ''build reserved workspace''
                  (workspace_record_new r Creating None (res_created_at r)),
                (next_call c)\<lparr>c_db := db\<rparr>))"

subsection \<open>Completion of a materialization\<close>

definition final_receipt_checks ::
  "workspace_reservation \<Rightarrow> materialization_plan \<Rightarrow> materialization_receipt \<Rightarrow> bool list" where
  "final_receipt_checks r plan rc =
     [(pl_source_path plan, pl_target_path plan, pl_source_volume_id plan, pl_target_volume_id plan)
        = (res_source_path r, res_target_path r, res_source_volume_id r, res_target_volume_id r),
      pl_fallback_reason plan = None \<or> res_allow_full_copy r,
      (rc_probe_evidence_digest rc, rc_requested_mode rc, rc_effective_mode rc, rc_actual_mode rc,
       rc_actual_adapter rc, rc_source_volume_id rc, rc_target_volume_id rc,
       rc_fallback_reason rc, rc_failed_attempts rc)
        = (pl_probe_evidence_digest plan, pl_requested_mode plan, pl_effective_mode plan,
           pl_effective_mode plan, pl_selected_adapter plan, Some (pl_source_volume_id plan),
           Some (pl_target_volume_id plan), pl_fallback_reason plan, pl_failed_attempts plan),
      (rc_outcome rc, rc_failure_kind rc, rc_unconfirmed_staging rc, rb_status (rc_rollback rc))
        = (Succeeded, None, None, NotNeeded),
      (case (rc_source_manifest_digest rc, rc_target_manifest_digest rc) of
         (Some s, Some t) \<Rightarrow> s = t | _ \<Rightarrow> False)]"

definition completion_body ::
  "store_env \<Rightarrow> workspace_id \<Rightarrow> materialization_plan \<Rightarrow> materialization_receipt \<Rightarrow> string \<Rightarrow> unix_millis
   \<Rightarrow> workspace_record store_op" where
  "completion_body E wid plan rc document recorded_at =
     (let ids = workspace_id_to_string (env_uuid E) wid in
      st_bind (read_workspace E wid) (\<lambda>found.
      st_bind (st_lift (ok_or found (port_error_new NotFound ''complete materialization''))) (\<lambda>rec.
        if rec_state rec \<noteq> Creating
        then st_fail (port_error_conflict ''complete materialization'' ExpectedState)
        else
          st_bind (st_lift (decoded ''validate Ready transition'' (transition (rec_state rec) Materialized))) (\<lambda>_.
          if list_ex Not (final_receipt_checks (rec_reservation rec) plan rc)
          then st_fail (port_error_new InvalidData ''validate final receipt against Workspace and Plan'')
          else
            st_bind (db_execute E
                (insert_receipt (json_valid (env_json E))
                   \<lparr>rr_workspace_id = ids, rr_schema_version = RECEIPT_SCHEMA_VERSION,
                    rr_json = document, rr_recorded_at = millis recorded_at\<rparr>)
                (update_error ''insert final receipt'')) (\<lambda>_.
            st_bind (db_execute E (update_state ids ''creating'' ''ready'' None (millis recorded_at))
                (update_error ''complete materialization'')) (\<lambda>changed.
              if changed \<noteq> 1
              then st_fail (port_error_conflict ''complete materialization'' ExpectedState)
              else
                st_bind (read_workspace E wid) (\<lambda>ready.
                  st_lift (ok_or ready (port_error_conflict ''read Ready Workspace'' ExpectedState)))))))))"

definition complete_materialization ::
  "store_env \<Rightarrow> workspace_id \<Rightarrow> materialization_plan \<Rightarrow> materialization_receipt \<Rightarrow> unix_millis
   \<Rightarrow> workspace_record store_op" where
  "complete_materialization E wid plan rc recorded_at =
     st_bind (st_lift (map_err (invalid_data ''serialize final receipt'')
                (json_to_string (env_json E) (final_receipt_json (env_uuid E) rc)))) (\<lambda>document.
       in_transaction E ''begin final receipt transaction'' ''commit final receipt transaction''
         (completion_body E wid plan rc document recorded_at))"

subsection \<open>Reads\<close>

definition deletion_tombstone ::
  "store_env \<Rightarrow> installation_record \<Rightarrow> workspace_id \<Rightarrow> deletion_tombstone option store_op" where
  "deletion_tombstone E inst wid =
     st_bind (db_query E ''read Workspace deletion tombstone''
                (\<lambda>db. find (\<lambda>t. tr_workspace_id t = workspace_id_to_string (env_uuid E) wid) (db_tombstones db)))
       (\<lambda>row. case row of
          None \<Rightarrow> st_return None
        | Some t \<Rightarrow> st_lift (
            and_then (decoded ''parse deletion instance ID'' (instance_id_from_str (env_uuid E) (tr_instance_id t))) (\<lambda>iid.
              if iid \<noteq> ii_instance_id (inst_identity inst)
              then Err (port_error_conflict ''read Workspace deletion tombstone'' InstallationIdentity)
              else and_then (decoded ''parse deletion time'' (unix_millis_new (tr_deleted_at t))) (\<lambda>at.
                Ok (Some \<lparr>tomb_workspace_id = wid, tomb_instance_id = iid, tomb_deleted_at = at\<rparr>)))))"

definition final_materialization :: "store_env \<Rightarrow> workspace_id \<Rightarrow> final_summary option store_op" where
  "final_materialization E wid =
     st_bind (read_workspace E wid) (\<lambda>found.
       case found of
         None \<Rightarrow> st_return None
       | Some rec \<Rightarrow> read_final_materialization E wid (res_target_volume_id (rec_reservation rec)))"

subsection \<open>Updates that expect a state\<close>

definition finish_expected_update ::
  "store_env \<Rightarrow> workspace_id \<Rightarrow> workspace_state \<Rightarrow> string \<Rightarrow> nat \<Rightarrow> workspace_record store_op" where
  "finish_expected_update E wid expected oper changed =
     (if changed = 0 then
        st_bind (read_workspace E wid) (\<lambda>found.
          case found of
            None \<Rightarrow> st_fail (port_error_new NotFound oper)
          | Some _ \<Rightarrow> st_fail (port_error_conflict oper ExpectedState))
      else
        st_bind (read_workspace E wid) (\<lambda>found.
        st_bind (st_lift (ok_or found (port_error_conflict oper ExpectedState))) (\<lambda>rec.
          if rec_state rec = expected then st_fail (port_error_conflict oper ExpectedState)
          else st_return rec)))"

definition require_expected ::
  "store_env \<Rightarrow> workspace_id \<Rightarrow> workspace_state \<Rightarrow> string \<Rightarrow> workspace_record store_op" where
  "require_expected E wid expected oper =
     st_bind (read_workspace E wid) (\<lambda>found.
       case found of
         None \<Rightarrow> st_fail (port_error_new NotFound oper)
       | Some rec \<Rightarrow>
           if rec_state rec \<noteq> expected then st_fail (port_error_conflict oper ExpectedState)
           else st_return rec)"

definition record_failure ::
  "store_env \<Rightarrow> workspace_id \<Rightarrow> workspace_state \<Rightarrow> error_code \<Rightarrow> unix_millis \<Rightarrow> workspace_record store_op" where
  "record_failure E wid expected code updated_at =
     st_bind (st_lift (decoded ''validate failure transition'' (transition expected workspace_event.Failed))) (\<lambda>_.
     st_bind (db_execute E
         (update_state (workspace_id_to_string (env_uuid E) wid) (workspace_state_as_str expected)
            ''error'' (Some (error_code_as_str code)) (millis updated_at))
         (update_error ''record Workspace failure''))
       (finish_expected_update E wid expected ''record Workspace failure''))"

definition begin_removal ::
  "store_env \<Rightarrow> workspace_id \<Rightarrow> workspace_state \<Rightarrow> removal_mode \<Rightarrow> unix_millis \<Rightarrow> workspace_record store_op" where
  "begin_removal E wid expected mode updated_at =
     st_bind (st_lift (decoded ''validate removal transition'' (transition expected (BeginRemoval mode)))) (\<lambda>next.
       if next = expected then require_expected E wid expected ''reaffirm Workspace removal''
       else
         st_bind (db_execute E
             (update_state (workspace_id_to_string (env_uuid E) wid) (workspace_state_as_str expected)
                ''deleting'' None (millis updated_at))
             (update_error ''begin Workspace removal''))
           (finish_expected_update E wid expected ''begin Workspace removal''))"

subsection \<open>Completion of a deletion\<close>

definition deletion_body ::
  "store_env \<Rightarrow> workspace_id \<Rightarrow> instance_id \<Rightarrow> unix_millis \<Rightarrow> unit store_op" where
  "deletion_body E wid iid deleted_at =
     (let ids = workspace_id_to_string (env_uuid E) wid;
          iids = instance_id_to_string (env_uuid E) iid
      in st_bind (db_query E ''read deleting Workspace''
                    (\<lambda>db. map_option (\<lambda>w. (wr_instance_id w, wr_state w))
                       (find (\<lambda>w. wr_workspace_id w = ids) (db_workspaces db)))) (\<lambda>found.
         case found of
           None \<Rightarrow> st_fail (port_error_new NotFound ''complete Workspace deletion'')
         | Some (actual_instance, actual_state) \<Rightarrow>
             if actual_instance \<noteq> iids
             then st_fail (port_error_conflict ''complete Workspace deletion'' InstallationIdentity)
             else if actual_state \<noteq> workspace_state_as_str Deleting
             then st_fail (port_error_conflict ''complete Workspace deletion'' ExpectedState)
             else
               st_bind (db_execute E
                   (insert_tombstone \<lparr>tr_workspace_id = ids, tr_instance_id = iids, tr_deleted_at = millis deleted_at\<rparr>)
                   (\<lambda>e. storage_error ''write deletion tombstone'' (sql_error_source e))) (\<lambda>_.
               st_bind (db_execute E (delete_workspace ids)
                   (\<lambda>e. storage_error ''delete active Workspace row'' (sql_error_source e))) (\<lambda>deleted.
                 if deleted \<noteq> 1
                 then st_fail (port_error_conflict ''delete active Workspace row'' ExpectedState)
                 else st_return ()))))"

definition complete_deletion ::
  "store_env \<Rightarrow> workspace_id \<Rightarrow> instance_id \<Rightarrow> unix_millis \<Rightarrow> deletion_tombstone store_op" where
  "complete_deletion E wid iid deleted_at =
     st_bind (in_transaction E ''begin deletion transaction'' ''commit deletion transaction''
                (deletion_body E wid iid deleted_at)) (\<lambda>_.
       st_return \<lparr>tomb_workspace_id = wid, tomb_instance_id = iid, tomb_deleted_at = deleted_at\<rparr>)"

subsection \<open>Opening a database\<close>

record connection_settings =
  set_journal_mode :: string
  set_synchronous :: int
  set_foreign_keys :: bool
  set_busy_timeout_ms :: int

definition to_ascii_lowercase :: "string \<Rightarrow> string" where
  "to_ascii_lowercase s =
     map (\<lambda>c. if CHR ''A'' \<le> c \<and> c \<le> CHR ''Z'' then char_of (of_char c + 32 :: nat) else c) s"

definition query_journal_mode :: "store_env \<Rightarrow> string store_op" where
  "query_journal_mode E c =
     (case env_fault E (c_tick c) of
        Some e \<Rightarrow> (Err (storage_error ''read SQLite journal mode'' e), next_call c)
      | None \<Rightarrow> (Ok (c_journal c), next_call c))"

definition read_connection_settings :: "store_env \<Rightarrow> connection_settings store_op" where
  "read_connection_settings E =
     st_bind (query_journal_mode E) (\<lambda>j.
     st_bind (db_query E ''read SQLite synchronous mode'' (\<lambda>_. raw_synchronous (env_settings E))) (\<lambda>s.
     st_bind (db_query E ''read SQLite foreign keys'' (\<lambda>_. raw_foreign_keys (env_settings E) = 1)) (\<lambda>f.
     st_bind (db_query E ''read SQLite busy timeout'' (\<lambda>_. raw_busy_timeout (env_settings E))) (\<lambda>b.
       st_return \<lparr>set_journal_mode = to_ascii_lowercase j, set_synchronous = s, set_foreign_keys = f,
                  set_busy_timeout_ms = b\<rparr>))))"

definition verify_connection_settings :: "connection_settings \<Rightarrow> int \<Rightarrow> port_error + unit" where
  "verify_connection_settings settings timeout_ms =
     (if settings \<noteq> \<lparr>set_journal_mode = ''wal'', set_synchronous = 2, set_foreign_keys = True,
                      set_busy_timeout_ms = timeout_ms\<rparr>
      then Err (port_error_new Storage ''verify SQLite connection settings'')
      else Ok ())"

text \<open>A \<open>Duration\<close> is its number of milliseconds; the conversion to \<open>i64\<close> may fail.\<close>

definition timeout_millis :: "nat \<Rightarrow> port_error + int" where
  "timeout_millis d =
     (if d < 2 ^ 63 then Ok (int d)
      else Err (invalid_data ''validate SQLite busy timeout'' (ForeignError ''TryFromIntError'')))"

text \<open>\<open>PRAGMA journal_mode = WAL\<close> writes the mode into the file; it gives no error when it is declined.\<close>

definition update_journal_mode :: "store_env \<Rightarrow> unit store_op" where
  "update_journal_mode E c =
     (let d = (next_call c)\<lparr>c_journal := if env_wal E (c_tick c) then ''wal'' else c_journal c\<rparr>
      in case env_fault E (c_tick c) of
           Some e \<Rightarrow> (Err (storage_error ''set SQLite journal mode'' e), d)
         | None \<Rightarrow> (Ok (), d))"

definition configure_connection :: "store_env \<Rightarrow> nat \<Rightarrow> unit store_op" where
  "configure_connection E timeout =
     st_bind (st_lift (timeout_millis timeout)) (\<lambda>ms.
     st_bind (db_query E ''set SQLite busy timeout'' (\<lambda>_. ())) (\<lambda>_.
     st_bind (update_journal_mode E) (\<lambda>_.
     st_bind (db_query E ''set SQLite synchronous mode'' (\<lambda>_. ())) (\<lambda>_.
     st_bind (db_query E ''enable SQLite foreign keys'' (\<lambda>_. ())) (\<lambda>_.
     st_bind (read_connection_settings E) (\<lambda>settings.
       st_lift (verify_connection_settings settings ms)))))))"

definition glob_sqlite :: "glob_token list" where
  "glob_sqlite = map (\<lambda>c. OneOf False [(c, c)]) ''sqlite_'' @ [AnyRun]"

definition user_table_count :: "database \<Rightarrow> nat" where
  "user_table_count db =
     length (filter (\<lambda>(t, n, _, _). t = ''table'' \<and> \<not> sql_glob glob_sqlite n) (db_catalog db))"

definition schema_catalog :: "catalog_entry list \<Rightarrow> catalog_entry list" where
  "schema_catalog cat =
     sort_key (\<lambda>(t, n, b, _). (t, n, b)) (filter (\<lambda>(_, n, _, _). \<not> sql_glob glob_sqlite n) cat)"

definition read_schema_catalog :: "store_env \<Rightarrow> (database \<Rightarrow> catalog_entry list) \<Rightarrow> catalog_entry list store_op" where
  "read_schema_catalog E f =
     st_bind (db_query E ''prepare SQLite schema catalog'' (\<lambda>_. ())) (\<lambda>_.
     st_bind (db_query E ''query SQLite schema catalog'' (\<lambda>_. ())) (\<lambda>_.
       db_query E ''read SQLite schema catalog'' (\<lambda>db. schema_catalog (f db))))"

text \<open>The expected catalog is that of an in-memory database on which the batch was run.\<close>

definition validate_schema_catalog :: "store_env \<Rightarrow> unit store_op" where
  "validate_schema_catalog E =
     st_bind (db_query E ''open expected schema database'' (\<lambda>_. ())) (\<lambda>_.
     st_bind (db_query E ''build expected schema catalog'' (\<lambda>_. ())) (\<lambda>_.
     st_bind (read_schema_catalog E db_catalog) (\<lambda>actual.
     st_bind (read_schema_catalog E (\<lambda>_. env_schema_v2 E)) (\<lambda>expected.
       if actual \<noteq> expected
       then st_fail (port_error_new InvalidData ''validate SQLite schema catalog'')
       else st_return ()))))"

definition pragma_application_id :: "store_env \<Rightarrow> int store_op" where
  "pragma_application_id E = db_query E ''read SQLite schema identity'' db_application_id"

definition pragma_user_version :: "store_env \<Rightarrow> int store_op" where
  "pragma_user_version E = db_query E ''read SQLite schema identity'' db_user_version"

definition require_identity ::
  "installation_record \<Rightarrow> installation_record \<Rightarrow> port_error + unit" where
  "require_identity actual expected =
     (if inst_identity actual \<noteq> inst_identity expected
      then Err (port_error_conflict ''validate installation identity'' InstallationIdentity)
      else Ok ())"

definition validate_existing_database :: "store_env \<Rightarrow> installation_record \<Rightarrow> unit store_op" where
  "validate_existing_database E expected =
     st_bind (pragma_application_id E) (\<lambda>application_id.
     st_bind (pragma_user_version E) (\<lambda>user_version.
       if application_id \<noteq> APPLICATION_ID
       then st_fail (port_error_new UnsupportedVersion ''validate SQLite application ID'')
       else if user_version \<noteq> SCHEMA_VERSION
       then st_fail (port_error_new (if user_version > SCHEMA_VERSION then UnsupportedVersion else InvalidData)
                       ''validate SQLite schema version'')
       else
         st_bind (validate_schema_catalog E) (\<lambda>_.
         st_bind (read_installation E) (\<lambda>actual. st_lift (require_identity actual expected)))))"

text \<open>
  The migration.  The batch of \<open>CREATE\<close> statements fails when a name of the schema is taken,
  and otherwise adds the schema's catalog entries.
\<close>

definition create_schema :: "catalog_entry list \<Rightarrow> statement" where
  "create_schema schema db =
     (if list_ex (\<lambda>(_, n, _, _). list_ex (\<lambda>(_, m, _, _). m = n) (db_catalog db)) schema
      then Err (OtherSql (ForeignError ''object already exists''))
      else Ok (0, db\<lparr>db_catalog := db_catalog db @ schema\<rparr>))"

definition installation_row_of :: "uuid_api \<Rightarrow> installation_record \<Rightarrow> installation_row" where
  "installation_row_of U inst =
     \<lparr>ir_instance_id = instance_id_to_string U (ii_instance_id (inst_identity inst)),
      ir_control_root = path_bytes (ii_data_root (inst_identity inst)),
      ir_control_volume_id = volume_id_to_string U (ii_volume_id (inst_identity inst)),
      ir_created_at = millis (inst_created_at inst)\<rparr>"

definition apply_v2 :: "store_env \<Rightarrow> installation_record \<Rightarrow> unit store_op" where
  "apply_v2 E inst =
     st_bind (db_execute E (create_schema (env_schema_v2 E))
                (\<lambda>e. storage_error ''create metadata schema'' (sql_error_source e))) (\<lambda>_.
     st_bind (db_execute E (insert_installation (installation_row_of (env_uuid E) inst))
                (\<lambda>e. storage_error ''write installation row'' (sql_error_source e))) (\<lambda>_.
     st_bind (db_execute E (\<lambda>db. Ok (0, db\<lparr>db_application_id := APPLICATION_ID\<rparr>))
                (\<lambda>e. storage_error ''set SQLite application ID'' (sql_error_source e))) (\<lambda>_.
     st_bind (db_execute E (\<lambda>db. Ok (0, db\<lparr>db_user_version := SCHEMA_VERSION\<rparr>))
                (\<lambda>e. storage_error ''set SQLite schema version'' (sql_error_source e))) (\<lambda>_.
       st_return ()))))"

definition initialize_empty_database :: "store_env \<Rightarrow> installation_record \<Rightarrow> unit store_op" where
  "initialize_empty_database E inst =
     in_transaction E ''begin metadata migration'' ''commit metadata migration'' (apply_v2 E inst)"

text \<open>The \<open>match\<close> on application ID, schema version and number of tables.\<close>

definition database_action :: "int \<Rightarrow> int \<Rightarrow> nat \<Rightarrow> port_error + bool" where
  "database_action application_id user_version tables =
     (if application_id = 0 \<and> user_version = 0 \<and> tables = 0 then Ok True
      else if application_id = APPLICATION_ID \<and> user_version = SCHEMA_VERSION then Ok False
      else if application_id = APPLICATION_ID \<and> user_version > SCHEMA_VERSION
      then Err (port_error_new UnsupportedVersion ''open future metadata schema'')
      else if application_id = 0
      then Err (port_error_new UnsupportedVersion ''refuse unowned metadata database'')
      else if application_id = APPLICATION_ID
      then Err (port_error_new InvalidData ''validate metadata schema version'')
      else Err (port_error_new UnsupportedVersion ''refuse foreign metadata database''))"

definition open_or_initialize ::
  "store_env \<Rightarrow> installation_record \<Rightarrow> nat \<Rightarrow> installation_record store_op" where
  "open_or_initialize E inst timeout =
     st_bind (pragma_application_id E) (\<lambda>application_id.
     st_bind (pragma_user_version E) (\<lambda>user_version.
     st_bind (db_query E ''inspect SQLite user tables'' user_table_count) (\<lambda>tables.
     st_bind (st_lift (database_action application_id user_version tables)) (\<lambda>fresh.
     st_bind (if fresh
              then st_bind (configure_connection E timeout) (\<lambda>_.
                   st_bind (initialize_empty_database E inst) (\<lambda>_. read_installation E))
              else st_bind (validate_existing_database E inst) (\<lambda>_.
                   st_bind (configure_connection E timeout) (\<lambda>_. read_installation E))) (\<lambda>actual.
     st_bind (st_lift (require_identity actual inst)) (\<lambda>_. st_return actual))))))"

definition factory_initialize ::
  "store_env \<Rightarrow> installation_record \<Rightarrow> nat \<Rightarrow> installation_record store_op" where
  "factory_initialize E expected timeout =
     st_bind (revalidate E) (\<lambda>_.
     st_bind (db_query E ''open prepared metadata database'' (\<lambda>_. ())) (\<lambda>_.
     st_bind (revalidate E) (\<lambda>_.
     st_bind (open_or_initialize E expected timeout) (\<lambda>actual.
     st_bind (revalidate E) (\<lambda>_. st_return actual)))))"

definition factory_open_existing ::
  "store_env \<Rightarrow> installation_record \<Rightarrow> nat \<Rightarrow> installation_record store_op" where
  "factory_open_existing E expected timeout =
     st_bind (revalidate E) (\<lambda>_.
     st_bind (db_query E ''open existing metadata writer'' (\<lambda>_. ())) (\<lambda>_.
     st_bind (revalidate E) (\<lambda>_.
     st_bind (db_query E ''set lifecycle SQLite busy timeout'' (\<lambda>_. ())) (\<lambda>_.
     st_bind (validate_existing_database E expected) (\<lambda>_.
     st_bind (configure_connection E timeout) (\<lambda>_.
     st_bind (read_installation E) (\<lambda>inst.
     st_bind (revalidate E) (\<lambda>_. st_return inst))))))))"

text \<open>The loop over the listed Workspaces that attaches their receipts.\<close>

fun collect_receipts ::
  "store_env \<Rightarrow> workspace_record list \<Rightarrow> (workspace_id \<times> final_summary) list store_op" where
  "collect_receipts E [] = st_return []"
| "collect_receipts E (w # ws) =
     st_bind (read_final_materialization E (res_workspace_id (rec_reservation w))
                (res_target_volume_id (rec_reservation w))) (\<lambda>summary.
       case summary of
         Some s \<Rightarrow> st_bind (collect_receipts E ws) (\<lambda>fs. st_return ((res_workspace_id (rec_reservation w), s) # fs))
       | None \<Rightarrow>
           if rec_state w = WsReady
           then st_fail (port_error_new InvalidData ''Ready workspace is missing its final receipt'')
           else collect_receipts E ws)"

definition factory_inspect ::
  "store_env \<Rightarrow> installation_record \<Rightarrow> metadata_snapshot store_op" where
  "factory_inspect E expected =
     st_bind (revalidate E) (\<lambda>_.
     st_bind (db_query E ''open metadata database read-only'' (\<lambda>_. ())) (\<lambda>_.
     st_bind (db_query E ''set read-only SQLite busy timeout'' (\<lambda>_. ())) (\<lambda>_.
     st_bind (revalidate E) (\<lambda>_.
     st_bind (in_transaction E ''begin read-only metadata snapshot'' ''finish read-only metadata snapshot''
                (st_bind (validate_existing_database E expected) (\<lambda>_.
                 st_bind (read_installation E) (\<lambda>inst.
                 st_bind (read_workspaces_by_workspace_id E) (\<lambda>ws.
                 st_bind (collect_receipts E ws) (\<lambda>fs.
                   st_return (inst, ws, fs))))))) (\<lambda>(inst, ws, fs).
     st_bind (revalidate E) (\<lambda>_.
       st_return (with_final_materializations fs (metadata_snapshot_new inst ws))))))))"

end
