(* ===== verification/Schema_Facts.thy ===== *)
theory Schema_Facts
  imports Metadata_Schema
begin

text \<open>
  What the \<open>CHECK\<close>s and triggers mean: the SQL name check is the Core grammar, the state
  trigger is the Core life cycle, and the texts the typed identifiers print pass the
  identifier checks.
\<close>

subsection \<open>Texts without NUL\<close>

lemma takeWhile_not_NUL [simp]: "NUL \<notin> set s \<Longrightarrow> takeWhile (\<lambda>c. c \<noteq> NUL) s = s"
  by (induction s) auto

lemma sql_length_plain [simp]: "NUL \<notin> set s \<Longrightarrow> sql_length s = length s"
  by (simp add: sql_length_def)

lemma sql_glob_plain: "NUL \<notin> set s \<Longrightarrow> sql_glob p s = glob_match p s"
  by (simp add: sql_glob_def)

declare glob_match.simps(2,3) [simp del]

lemma glob_match_step [simp]:
  "glob_match (AnyRun # ts) [] = glob_match ts []"
  "glob_match (AnyRun # ts) (c # s) = (glob_match ts (c # s) \<or> glob_match (AnyRun # ts) s)"
  "glob_match (OneOf neg rs # ts) [] = False"
  "glob_match (OneOf neg rs # ts) (c # s) = (in_ranges rs c \<noteq> neg \<and> glob_match ts s)"
  by (simp_all add: glob_match.simps(2)[of ts] glob_match.simps(3))

lemma glob_match_AnyRun [simp]: "glob_match [AnyRun] s"
  by (induction s) auto

lemma glob_match_contains:
  "glob_match [AnyRun, OneOf neg rs, AnyRun] s \<longleftrightarrow> (\<exists>c \<in> set s. in_ranges rs c \<noteq> neg)"
  by (induction s) auto

lemma hex_ranges: "in_ranges [(CHR ''0'', CHR ''9''), (CHR ''a'', CHR ''f'')] c \<longleftrightarrow> is_lower_hex c"
proof -
  let ?n = "of_char c :: nat"
  have gen: "?n \<in> of_char ` S \<longleftrightarrow> c \<in> S" for S by (auto simp: image_iff)
  have "in_ranges [(CHR ''0'', CHR ''9''), (CHR ''a'', CHR ''f'')] c \<longleftrightarrow>
      48 \<le> ?n \<and> ?n \<le> 57 \<or> 97 \<le> ?n \<and> ?n \<le> 102"
    by (simp add: in_ranges_def less_eq_char_def)
  also have "\<dots> \<longleftrightarrow> ?n \<in> of_char ` set ''0123456789abcdef''" by (simp, presburger)
  also have "\<dots> \<longleftrightarrow> is_lower_hex c" unfolding is_lower_hex_def by (rule gen)
  finally show ?thesis .
qed

lemma glob_not_hex_iff:
  "NUL \<notin> set s \<Longrightarrow> sql_glob glob_not_hex s \<longleftrightarrow> \<not> list_all is_lower_hex s"
  by (simp add: glob_not_hex_def sql_glob_plain glob_match_contains hex_ranges list_all_iff
      del: glob_match_step)

lemma allowed_ranges:
  "in_ranges [(CHR ''a'', CHR ''z''), (CHR ''0'', CHR ''9''), (CHR ''.'', CHR ''.''),
     (CHR ''_'', CHR ''_''), (CHR ''-'', CHR ''-'')] c \<longleftrightarrow> is_allowed c"
  by (auto simp: in_ranges_def is_allowed_def is_boundary_def is_ascii_lowercase_def is_ascii_digit_def)

lemma boundary_ranges:
  "in_ranges [(CHR ''a'', CHR ''z''), (CHR ''0'', CHR ''9'')] c \<longleftrightarrow> is_boundary c"
  by (auto simp: in_ranges_def is_boundary_def is_ascii_lowercase_def is_ascii_digit_def)

lemma glob_not_name_iff:
  "NUL \<notin> set s \<Longrightarrow> sql_glob glob_not_name s \<longleftrightarrow> \<not> list_all is_allowed s"
  by (simp add: glob_not_name_def sql_glob_plain glob_match_contains allowed_ranges list_all_iff
      del: glob_match_step)

lemma glob_boundary_iff: "NUL \<notin> set s \<Longrightarrow> sql_glob glob_boundary s \<longleftrightarrow> (\<exists>c. s = [c] \<and> is_boundary c)"
  by (cases s) (auto simp: glob_boundary_def sql_glob_plain boundary_ranges)

lemma glob_error_code_iff:
  "NUL \<notin> set s \<Longrightarrow> sql_glob glob_error_code s \<longleftrightarrow> prefix ''E_'' s"
  by (cases s; cases "tl s") (auto simp: glob_error_code_def sql_glob_plain in_ranges_def)

subsection \<open>Names\<close>

lemma name_check_iff: "name_check s \<longleftrightarrow> name_grammar s"
proof (cases "NUL \<in> set s")
  case True
  then have "\<not> name_grammar s" using allowed_plain by (auto simp: name_grammar_def)
  with True show ?thesis by (simp add: name_check_def sql_no_nul_def)
next
  case False
  show ?thesis
  proof (cases "s = []")
    case True
    then show ?thesis by (simp add: name_check_def name_grammar_def)
  next
    case ne: False
    have "sql_substr s 1 1 = [hd s]" using ne by (cases s) (auto simp: sql_substr_def)
    moreover have "NUL \<notin> set [hd s]" "NUL \<notin> set [last s]" using ne False by auto
    ultimately show ?thesis using ne False
      by (auto simp: name_check_def name_grammar_def sql_no_nul_def sql_last_def glob_not_name_iff
          glob_boundary_iff list_all_iff)
  qed
qed

text \<open>
  The database accepts exactly the names Core accepts: the \<open>CHECK\<close> on \<open>workspaces.name\<close>
  holds of a text exactly when \<open>WorkspaceName::from_str\<close> succeeds on it.
\<close>

theorem name_check_is_core_validation:
  "name_check s \<longleftrightarrow> (\<exists>n. workspace_name_from_str s = Ok n)"
  by (auto simp: name_check_iff workspace_name_from_str_def validate_workspace_name_eq_Ok result_simps)

subsection \<open>States\<close>

text \<open>
  C37. The database allows exactly the state changes Core allows: the transition trigger admits
  an update from one state to another exactly when the state is unchanged or some Core event
  leads from the one to the other.
\<close>

theorem state_trigger_is_core_transition:
  "state_transition_allowed (workspace_state_as_str s) (workspace_state_as_str t) \<longleftrightarrow>
     s = t \<or> (\<exists>e. transition s e = Ok t)"
proof -
  have "(\<exists>e. transition s e = Ok t) \<longleftrightarrow>
      transition s Materialized = Ok t \<or> transition s workspace_event.Failed = Ok t
      \<or> transition s (BeginRemoval Normal) = Ok t \<or> transition s (BeginRemoval Force) = Ok t"
    (is "?l = ?r")
  proof
    assume ?l
    then obtain e where "transition s e = Ok t" by blast
    moreover have "e = Materialized \<or> e = workspace_event.Failed \<or> e = BeginRemoval Normal
        \<or> e = BeginRemoval Force"
      by (cases e; cases "(case e of BeginRemoval m \<Rightarrow> m | _ \<Rightarrow> Normal)") auto
    ultimately show ?r by auto
  qed blast
  then show ?thesis by (cases s; cases t) (auto simp: state_transition_allowed_def)
qed

subsection \<open>Identifiers\<close>

lemma uuid_shape_no_NUL: "uuid_text_shape s \<Longrightarrow> NUL \<notin> set s"
  using uuid_text_shape_chars[of s NUL] lower_hex_not_special[of NUL] by auto

lemma uuid_shape_digits:
  assumes "uuid_text_shape s"
  shows "length (sql_without_dash s) = 32" "list_all is_lower_hex (sql_without_dash s)"
proof -
  have len: "length s = 36" using assms by (simp add: uuid_text_shape_def)
  have at: "s ! i \<noteq> CHR ''-'' \<longleftrightarrow> i \<notin> {8, 13, 18, 23}" if "i < 36" for i
    using assms that lower_hex_not_special by (auto simp: uuid_text_shape_def)
  have "{i. i < length s \<and> s ! i \<noteq> CHR ''-''} = {..<36} - {8, 13, 18, 23}"
    using at len by auto
  then show "length (sql_without_dash s) = 32"
    by (simp add: sql_without_dash_def length_filter_conv_card)
  show "list_all is_lower_hex (sql_without_dash s)"
    using uuid_text_shape_chars[OF assms] by (auto simp: sql_without_dash_def list_all_iff)
qed

lemma substr_one: "0 < i \<Longrightarrow> i \<le> length s \<Longrightarrow> sql_substr s i (Suc 0) = [s ! (i - 1)]"
  by (simp add: sql_substr_def hd_drop_conv_nth take_Suc)

lemma uuid_shape_dashes:
  assumes "uuid_text_shape s"
  shows "length s = 36" "s ! 8 = CHR ''-''" "s ! 13 = CHR ''-''" "s ! 18 = CHR ''-''" "s ! 23 = CHR ''-''"
  using assms by (auto simp: uuid_text_shape_def)

lemma uuid_shape_check: "uuid_text_shape s \<Longrightarrow> uuid_text_check s"
proof -
  assume shape: "uuid_text_shape s"
  have nul: "NUL \<notin> set s" by (rule uuid_shape_no_NUL[OF shape])
  then have "NUL \<notin> set (sql_without_dash s)" by (simp add: sql_without_dash_def)
  then show ?thesis
    using shape nul uuid_shape_digits[OF shape] uuid_shape_dashes[OF shape]
    by (simp add: uuid_text_check_def sql_no_nul_def substr_one glob_not_hex_iff)
qed

lemma volume_text_check:
  "uuid_text_format U \<Longrightarrow> uuid_text_check (volume_id_to_string U v)"
  by (simp add: volume_id_to_string_def uuid_text_format_def uuid_shape_check)

lemma instance_text_check:
  assumes "uuid_text_format U" "valid_instance_id U i"
  shows "uuid_v7_text_check (instance_id_to_string U i)"
proof -
  let ?s = "uuid_hyphenated U (instance_uuid i)"
  have "uuid_text_shape ?s" "?s ! 14 = CHR ''7''" "?s ! 19 \<in> set ''89ab''"
    using assms by (auto simp: uuid_text_format_def valid_instance_id_def valid_uuid_v7_def)
  then show ?thesis
    using uuid_shape_check uuid_shape_dashes(1)
    by (auto simp: uuid_v7_text_check_def instance_id_to_string_def substr_one)
qed

lemma workspace_text_check:
  assumes "uuid_text_format U" "valid_workspace_id U i"
  shows "workspace_id_check (workspace_id_to_string U i)"
proof -
  let ?s = "uuid_hyphenated U (workspace_uuid i)"
  have shape: "uuid_text_shape ?s" "?s ! 14 = CHR ''7''" "?s ! 19 \<in> set ''89ab''"
    using assms by (auto simp: uuid_text_format_def valid_workspace_id_def valid_uuid_v7_def)
  have nul: "NUL \<notin> set ?s" by (rule uuid_shape_no_NUL[OF shape(1)])
  then have "NUL \<notin> set (sql_without_dash ?s)" by (simp add: sql_without_dash_def)
  then have hex: "\<not> sql_glob glob_not_hex (sql_without_dash ?s)"
    "sql_length (sql_without_dash ?s) = 32"
    using uuid_shape_digits[OF shape(1)] by (simp_all add: glob_not_hex_iff)
  define t where "t = workspace_id_to_string U i"
  have t: "t = ''ws_'' @ ?s" by (simp add: t_def workspace_id_to_string_def)
  have len: "length t = 39" using uuid_shape_dashes(1)[OF shape(1)] by (simp add: t)
  have at: "sql_substr t (4 + n) 1 = [?s ! n]" if "n < 36" for n
    using that len substr_one[of "4 + n" t] by (simp add: t nth_append)
  have "sql_substr t 12 1 = ''-''" "sql_substr t 17 1 = ''-''" "sql_substr t 18 1 = ''7''"
    "sql_substr t 22 1 = ''-''" "sql_substr t 23 1 \<in> {''8'', ''9'', ''a'', ''b''}"
    "sql_substr t 27 1 = ''-''"
    using at[of 8] at[of 13] at[of 14] at[of 18] at[of 19] at[of 23] shape uuid_shape_dashes[OF shape(1)]
    by simp_all
  moreover have "sql_substr t 1 3 = ''ws_''" "drop 3 t = ?s" by (simp_all add: t sql_substr_def)
  moreover have "NUL \<notin> set t" using nul by (simp add: t)
  ultimately have "workspace_id_check t"
    using len hex by (simp add: workspace_id_check_def sql_no_nul_def)
  then show ?thesis by (simp add: t_def)
qed

lemma error_code_text_check: "sql_glob glob_error_code (error_code_as_str c)"
proof -
  have "NUL \<notin> set (error_code_as_str c)" by (cases c) simp_all
  moreover have "prefix ''E_'' (error_code_as_str c)" by (cases c) simp_all
  ultimately show ?thesis by (simp add: glob_error_code_iff)
qed

end
