(* ===== verification/Store_Spec.thy ===== *)
theory Store_Spec
  imports Metadata_Store Schema_Facts
begin

text \<open>
  The abstract metadata store: an installation, active Workspaces, their final receipts and
  the tombstones of deleted ones, as typed values.  \<open>encode\<close> is its representation in the
  tables; this theory states the abstract operations and what each SQL statement of the
  adapter does to an encoded store.
\<close>

subsection \<open>The abstract state\<close>

record stored_receipt =
  sr_workspace_id :: workspace_id
  sr_document :: string
  sr_recorded_at :: unix_millis

record store_spec =
  sp_installation :: installation_record
  sp_workspaces :: "workspace_record list"
  sp_receipts :: "stored_receipt list"
  sp_tombstones :: "deletion_tombstone list"

abbreviation rec_id :: "workspace_record \<Rightarrow> workspace_id" where
  "rec_id w \<equiv> res_workspace_id (rec_reservation w)"

abbreviation spec_instance :: "store_spec \<Rightarrow> instance_id" where
  "spec_instance a \<equiv> ii_instance_id (inst_identity (sp_installation a))"

definition reservation_valid :: "uuid_api \<Rightarrow> workspace_reservation \<Rightarrow> bool" where
  "reservation_valid U r \<longleftrightarrow>
     valid_workspace_id U (res_workspace_id r) \<and> valid_instance_id U (res_instance_id r)
     \<and> valid_workspace_name (res_name r) \<and> valid_path (res_source_path r)
     \<and> valid_path (res_target_path r) \<and> valid_millis (res_created_at r)"

definition record_valid :: "uuid_api \<Rightarrow> workspace_record \<Rightarrow> bool" where
  "record_valid U w \<longleftrightarrow>
     reservation_valid U (rec_reservation w) \<and> valid_millis (rec_updated_at w) \<and> record_consistent w"

definition installation_valid :: "uuid_api \<Rightarrow> installation_record \<Rightarrow> bool" where
  "installation_valid U i \<longleftrightarrow>
     valid_instance_id U (ii_instance_id (inst_identity i))
     \<and> valid_path (ii_data_root (inst_identity i)) \<and> valid_millis (inst_created_at i)"

definition receipt_of :: "store_spec \<Rightarrow> workspace_id \<Rightarrow> stored_receipt option" where
  "receipt_of a i = find (\<lambda>r. sr_workspace_id r = i) (sp_receipts a)"

definition lookup :: "store_spec \<Rightarrow> workspace_id \<Rightarrow> workspace_record option" where
  "lookup a i = find (\<lambda>w. rec_id w = i) (sp_workspaces a)"

definition tombstoned :: "store_spec \<Rightarrow> workspace_id \<Rightarrow> bool" where
  "tombstoned a i = list_ex (\<lambda>t. tomb_workspace_id t = i) (sp_tombstones a)"

text \<open>The invariant of the store.\<close>

definition workspaces_ok :: "uuid_api \<Rightarrow> instance_id \<Rightarrow> workspace_record list \<Rightarrow> bool" where
  "workspaces_ok U iid ws \<longleftrightarrow>
     (\<forall>w \<in> set ws. record_valid U w \<and> res_instance_id (rec_reservation w) = iid
        \<and> res_source_volume_id (rec_reservation w) = res_target_volume_id (rec_reservation w))
     \<and> distinct (map rec_id ws)
     \<and> distinct (map (\<lambda>w. res_name (rec_reservation w)) ws)
     \<and> distinct (map (\<lambda>w. res_target_path (rec_reservation w)) ws)"

definition receipts_ok :: "workspace_record list \<Rightarrow> stored_receipt list \<Rightarrow> bool" where
  "receipts_ok ws rs \<longleftrightarrow>
     distinct (map sr_workspace_id rs)
     \<and> (\<forall>r \<in> set rs. valid_millis (sr_recorded_at r)
          \<and> (\<exists>w \<in> set ws. rec_id w = sr_workspace_id r \<and> rec_state w \<noteq> Creating))
     \<and> (\<forall>w \<in> set ws. rec_state w = WsReady \<longrightarrow> rec_id w \<in> sr_workspace_id ` set rs)"

definition tombstones_ok ::
  "uuid_api \<Rightarrow> instance_id \<Rightarrow> workspace_record list \<Rightarrow> deletion_tombstone list \<Rightarrow> bool" where
  "tombstones_ok U iid ws ts \<longleftrightarrow>
     distinct (map tomb_workspace_id ts)
     \<and> (\<forall>t \<in> set ts. tomb_instance_id t = iid \<and> valid_millis (tomb_deleted_at t)
          \<and> valid_workspace_id U (tomb_workspace_id t))
     \<and> tomb_workspace_id ` set ts \<inter> rec_id ` set ws = {}"

definition spec_ok :: "uuid_api \<Rightarrow> store_spec \<Rightarrow> bool" where
  "spec_ok U a \<longleftrightarrow>
     installation_valid U (sp_installation a)
     \<and> workspaces_ok U (spec_instance a) (sp_workspaces a)
     \<and> receipts_ok (sp_workspaces a) (sp_receipts a)
     \<and> tombstones_ok U (spec_instance a) (sp_workspaces a) (sp_tombstones a)"

subsection \<open>The representation\<close>

definition record_row :: "uuid_api \<Rightarrow> workspace_record \<Rightarrow> workspace_row" where
  "record_row U w =
     set_state (workspace_state_as_str (rec_state w))
       (map_option error_code_as_str (rec_last_error_code w)) (millis (rec_updated_at w))
       (reservation_row U (rec_reservation w))"

definition stored_receipt_row :: "uuid_api \<Rightarrow> stored_receipt \<Rightarrow> receipt_row" where
  "stored_receipt_row U r =
     \<lparr>rr_workspace_id = workspace_id_to_string U (sr_workspace_id r),
      rr_schema_version = RECEIPT_SCHEMA_VERSION, rr_json = sr_document r,
      rr_recorded_at = millis (sr_recorded_at r)\<rparr>"

definition stored_tombstone_row :: "uuid_api \<Rightarrow> deletion_tombstone \<Rightarrow> tombstone_row" where
  "stored_tombstone_row U t =
     \<lparr>tr_workspace_id = workspace_id_to_string U (tomb_workspace_id t),
      tr_instance_id = instance_id_to_string U (tomb_instance_id t),
      tr_deleted_at = millis (tomb_deleted_at t)\<rparr>"

definition encode :: "store_env \<Rightarrow> store_spec \<Rightarrow> database" where
  "encode E a =
     \<lparr>db_application_id = APPLICATION_ID, db_user_version = SCHEMA_VERSION,
      db_catalog = env_schema_v2 E,
      db_installation = [installation_row_of (env_uuid E) (sp_installation a)],
      db_workspaces = map (record_row (env_uuid E)) (sp_workspaces a),
      db_receipts = map (stored_receipt_row (env_uuid E)) (sp_receipts a),
      db_tombstones = map (stored_tombstone_row (env_uuid E)) (sp_tombstones a)\<rparr>"

lemma record_row_sel [simp]:
  "wr_workspace_id (record_row U w) = workspace_id_to_string U (rec_id w)"
  "wr_instance_id (record_row U w) = instance_id_to_string U (res_instance_id (rec_reservation w))"
  "wr_name (record_row U w) = name_str (res_name (rec_reservation w))"
  "wr_source_path (record_row U w) = path_bytes (res_source_path (rec_reservation w))"
  "wr_target_path (record_row U w) = path_bytes (res_target_path (rec_reservation w))"
  "wr_source_volume_id (record_row U w) = volume_id_to_string U (res_source_volume_id (rec_reservation w))"
  "wr_target_volume_id (record_row U w) = volume_id_to_string U (res_target_volume_id (rec_reservation w))"
  "wr_allow_full_copy (record_row U w) = (if res_allow_full_copy (rec_reservation w) then 1 else 0)"
  "wr_state (record_row U w) = workspace_state_as_str (rec_state w)"
  "wr_last_error_code (record_row U w) = map_option error_code_as_str (rec_last_error_code w)"
  "wr_created_at (record_row U w) = millis (res_created_at (rec_reservation w))"
  "wr_updated_at (record_row U w) = millis (rec_updated_at w)"
  by (simp_all add: record_row_def set_state_def reservation_row_def)

lemma reservation_row_record:
  "reservation_row U r = record_row U \<lparr>rec_reservation = r, rec_state = Creating,
     rec_last_error_code = None, rec_updated_at = res_created_at r\<rparr>"
  by (simp add: record_row_def set_state_def reservation_row_def)

lemma encode_sel [simp]:
  "db_application_id (encode E a) = APPLICATION_ID"
  "db_user_version (encode E a) = SCHEMA_VERSION"
  "db_catalog (encode E a) = env_schema_v2 E"
  "db_installation (encode E a) = [installation_row_of (env_uuid E) (sp_installation a)]"
  "db_workspaces (encode E a) = map (record_row (env_uuid E)) (sp_workspaces a)"
  "db_receipts (encode E a) = map (stored_receipt_row (env_uuid E)) (sp_receipts a)"
  "db_tombstones (encode E a) = map (stored_tombstone_row (env_uuid E)) (sp_tombstones a)"
  by (simp_all add: encode_def)

lemma stored_rows_sel [simp]:
  "rr_workspace_id (stored_receipt_row U r) = workspace_id_to_string U (sr_workspace_id r)"
  "rr_schema_version (stored_receipt_row U r) = RECEIPT_SCHEMA_VERSION"
  "rr_json (stored_receipt_row U r) = sr_document r"
  "tr_workspace_id (stored_tombstone_row U t) = workspace_id_to_string U (tomb_workspace_id t)"
  "tr_instance_id (stored_tombstone_row U t) = instance_id_to_string U (tomb_instance_id t)"
  "tr_deleted_at (stored_tombstone_row U t) = millis (tomb_deleted_at t)"
  "ir_instance_id (installation_row_of U i) = instance_id_to_string U (ii_instance_id (inst_identity i))"
  by (simp_all add: stored_receipt_row_def stored_tombstone_row_def installation_row_of_def)

subsection \<open>Rows decode to the records they encode\<close>

lemma decoded_eq_Ok [result_simps]: "decoded oper r = Inr x \<longleftrightarrow> r = Inr x"
  by (simp add: decoded_def result_simps)

lemma decoded_Ok [simp]: "decoded oper (Inr x) = Inr x"
  by (simp add: decoded_def)

context text_codec begin

lemma decoded_encode [simp]: "valid x \<Longrightarrow> decoded oper (decode (encode x)) = Inr x"
  by (simp add: decode_encode)

end

lemma decode_allow_full_copy_bool [simp]: "decode_allow_full_copy (if b then 1 else 0) = Ok b"
  by (simp add: decode_allow_full_copy_def)

lemma workspace_record_new_consistent:
  "record_consistent w \<Longrightarrow>
   workspace_record_new (rec_reservation w) (rec_state w) (rec_last_error_code w) (rec_updated_at w) = Ok w"
  by (auto simp: workspace_record_new_def record_consistent_def)

lemma into_record_row:
  assumes U: "uuid_roundtrip U" and valid: "record_valid U w"
  shows "into_record U (record_row U w) = Ok w"
proof -
  note ids = workspace_id_codec[OF U, THEN text_codec.decode_encode]
    instance_id_codec[OF U, THEN text_codec.decode_encode]
    volume_id_codec[OF U, THEN text_codec.decode_encode]
  note texts = name_codec.decode_encode path_codec.decode_encode millis_codec.decode_encode
    workspace_state_codec.decode_encode
  have err: "decode_error_code (map_option error_code_as_str (rec_last_error_code w)) = Ok (rec_last_error_code w)"
    by (cases "rec_last_error_code w")
      (simp_all add: decode_error_code_def error_code_codec.decode_encode)
  have resv: "\<lparr>res_workspace_id = rec_id w, res_instance_id = res_instance_id (rec_reservation w),
      res_name = res_name (rec_reservation w), res_source_path = res_source_path (rec_reservation w),
      res_target_path = res_target_path (rec_reservation w),
      res_source_volume_id = res_source_volume_id (rec_reservation w),
      res_target_volume_id = res_target_volume_id (rec_reservation w),
      res_allow_full_copy = res_allow_full_copy (rec_reservation w),
      res_created_at = res_created_at (rec_reservation w)\<rparr> = rec_reservation w" by simp
  show ?thesis
    using valid
    by (simp add: into_record_def ids texts err record_valid_def
        reservation_valid_def workspace_record_new_consistent resv)
qed

subsection \<open>Queries on an encoded store\<close>

definition quiet :: "store_env \<Rightarrow> bool" where
  "quiet E \<longleftrightarrow> (\<forall>n. env_fault E n = None)"

lemma find_map: "find P (map f xs) = map_option f (find (P \<circ> f) xs)"
  by (induction xs) auto

lemma list_ex_map [simp]: "list_ex P (map f xs) \<longleftrightarrow> list_ex (P \<circ> f) xs"
  by (induction xs) auto

lemma list_all_map [simp]: "list_all P (map f xs) \<longleftrightarrow> list_all (P \<circ> f) xs"
  by (induction xs) auto

lemma find_Some_mem: "find P xs = Some x \<Longrightarrow> x \<in> set xs \<and> P x"
  by (induction xs) (auto split: if_splits)

lemma find_distinct_key:
  "distinct (map k xs) \<Longrightarrow> find (\<lambda>x. k x = i) xs = Some x \<longleftrightarrow> x \<in> set xs \<and> k x = i"
  by (induction xs) (auto simp: image_iff)

lemma filter_distinct_key:
  "distinct (map k xs) \<Longrightarrow> filter (\<lambda>x. k x = i \<and> P x) xs =
     (case find (\<lambda>x. k x = i) xs of None \<Rightarrow> [] | Some x \<Rightarrow> if P x then [x] else [])"
proof (induction xs)
  case (Cons x xs)
  show ?case
  proof (cases "k x = i")
    case True
    then have "find (\<lambda>y. k y = i) xs = None" using Cons.prems by (auto simp: find_None_iff image_iff)
    then show ?thesis using Cons True by simp
  qed (use Cons in simp)
qed simp

lemma workspace_ok_at:
  "workspaces_ok U iid ws \<Longrightarrow> w \<in> set ws \<Longrightarrow> record_valid U w"
  by (simp add: workspaces_ok_def)

lemma find_workspace_row:
  assumes U: "uuid_roundtrip U"
  shows "find (\<lambda>r. wr_workspace_id r = workspace_id_to_string U i) (map (record_row U) ws)
    = map_option (record_row U) (find (\<lambda>w. rec_id w = i) ws)"
  by (simp add: find_map comp_def workspace_id_to_string_inject[OF U])

lemma next_call_sel [simp]:
  "c_db (next_call c) = c_db c" "c_journal (next_call c) = c_journal c" "c_tick (next_call c) = Suc (c_tick c)"
  by (simp_all add: next_call_def)

lemma db_query_quiet [simp]: "quiet E \<Longrightarrow> db_query E oper f c = (Ok (f (c_db c)), next_call c)"
  by (simp add: db_query_def quiet_def)

lemma st_bind_simps [simp]:
  "st_bind (st_return x) f c = f x c"
  "st_bind (st_lift (Inr x)) f c = f x c"
  "st_bind (st_lift (Inl e)) f c = (Inl e, c)"
  "st_bind (st_fail e) f c = (Inl e, c)"
  by (simp_all add: st_bind_def st_return_def st_lift_def st_fail_def)

lemma read_workspace_quiet:
  assumes "quiet E" "uuid_roundtrip (env_uuid E)" "workspaces_ok (env_uuid E) iid (sp_workspaces a)"
    "c_db c = encode E a"
  shows "read_workspace E i c = (Ok (lookup a i), next_call c)"
proof (cases "lookup a i")
  case None
  then show ?thesis using assms
    by (simp add: read_workspace_def st_bind_def lookup_def find_workspace_row st_return_def)
next
  case (Some w)
  then have "w \<in> set (sp_workspaces a)" by (auto simp: lookup_def dest: find_Some_mem)
  then have "into_record (env_uuid E) (record_row (env_uuid E) w) = Ok w"
    using assms by (auto intro: into_record_row workspace_ok_at)
  then show ?thesis using assms Some
    by (simp add: read_workspace_def st_bind_def lookup_def find_workspace_row st_return_def st_lift_def)
qed

subsection \<open>The abstract operations\<close>

type_synonym 'a spec_result = "(port_error + 'a) \<times> store_spec"

definition new_record :: "workspace_reservation \<Rightarrow> workspace_record" where
  "new_record r = \<lparr>rec_reservation = r, rec_state = Creating, rec_last_error_code = None,
     rec_updated_at = res_created_at r\<rparr>"

definition spec_conflict :: "store_spec \<Rightarrow> workspace_reservation \<Rightarrow> port_conflict option" where
  "spec_conflict a r =
     (if lookup a (res_workspace_id r) \<noteq> None \<or> tombstoned a (res_workspace_id r)
      then Some WorkspaceIdConflict
      else if list_ex (\<lambda>w. res_name (rec_reservation w) = res_name r) (sp_workspaces a)
      then Some WorkspaceNameConflict
      else if list_ex (\<lambda>w. res_target_path (rec_reservation w) = res_target_path r) (sp_workspaces a)
      then Some TargetPath
      else None)"

definition spec_reserve :: "store_spec \<Rightarrow> workspace_reservation \<Rightarrow> workspace_record spec_result" where
  "spec_reserve a r =
     (if res_instance_id r \<noteq> spec_instance a \<or> res_source_volume_id r \<noteq> res_target_volume_id r
      then (Err (port_error_conflict ''reserve workspace'' InstallationIdentity), a)
      else case spec_conflict a r of
             Some k \<Rightarrow> (Err (port_error_conflict ''reserve workspace'' k), a)
           | None \<Rightarrow> (Ok (new_record r), a\<lparr>sp_workspaces := sp_workspaces a @ [new_record r]\<rparr>))"

definition moved :: "workspace_state \<Rightarrow> error_code option \<Rightarrow> unix_millis \<Rightarrow> workspace_record \<Rightarrow> workspace_record" where
  "moved st err t w = w\<lparr>rec_state := st, rec_last_error_code := err, rec_updated_at := t\<rparr>"

definition move_workspace ::
  "workspace_id \<Rightarrow> workspace_state \<Rightarrow> error_code option \<Rightarrow> unix_millis \<Rightarrow> store_spec \<Rightarrow> store_spec" where
  "move_workspace i st err t a =
     a\<lparr>sp_workspaces := map (\<lambda>w. if rec_id w = i then moved st err t w else w) (sp_workspaces a)\<rparr>"

text \<open>A compare-and-set of the state: the Workspace exists, is in the expected state, and time
  does not run backwards.\<close>

definition spec_update ::
  "string \<Rightarrow> workspace_id \<Rightarrow> workspace_state \<Rightarrow> workspace_state \<Rightarrow> error_code option \<Rightarrow> unix_millis
   \<Rightarrow> store_spec \<Rightarrow> workspace_record spec_result" where
  "spec_update oper i expected st err t a =
     (case lookup a i of
        None \<Rightarrow> (Err (port_error_new NotFound oper), a)
      | Some w \<Rightarrow>
          if rec_state w \<noteq> expected then (Err (port_error_conflict oper ExpectedState), a)
          else if t < rec_updated_at w then (Err (port_error_new InvalidData oper), a)
          else (Ok (moved st err t w), move_workspace i st err t a))"

definition spec_complete ::
  "(string \<Rightarrow> bool) \<Rightarrow> string \<Rightarrow> workspace_id \<Rightarrow> materialization_plan \<Rightarrow> materialization_receipt
   \<Rightarrow> unix_millis \<Rightarrow> store_spec \<Rightarrow> workspace_record spec_result" where
  "spec_complete json_ok document i plan rc t a =
     (case lookup a i of
        None \<Rightarrow> (Err (port_error_new NotFound ''complete materialization''), a)
      | Some w \<Rightarrow>
          if rec_state w \<noteq> Creating
          then (Err (port_error_conflict ''complete materialization'' ExpectedState), a)
          else if \<not> list_all id (final_receipt_checks (rec_reservation w) plan rc)
          then (Err (port_error_new InvalidData ''validate final receipt against Workspace and Plan''), a)
          else if \<not> json_ok document then (Err (port_error_new InvalidData ''insert final receipt''), a)
          else if t < rec_updated_at w
          then (Err (port_error_new InvalidData ''complete materialization''), a)
          else (Ok (moved WsReady None t w),
                (move_workspace i WsReady None t a)
                  \<lparr>sp_receipts := sp_receipts a @
                     [\<lparr>sr_workspace_id = i, sr_document = document, sr_recorded_at = t\<rparr>]\<rparr>))"

definition spec_record_failure ::
  "workspace_id \<Rightarrow> workspace_state \<Rightarrow> error_code \<Rightarrow> unix_millis \<Rightarrow> store_spec \<Rightarrow> workspace_record spec_result" where
  "spec_record_failure i expected code t a =
     (case transition expected workspace_event.Failed of
        Inl _ \<Rightarrow> (Err (port_error_new InvalidData ''validate failure transition''), a)
      | Inr _ \<Rightarrow> spec_update ''record Workspace failure'' i expected Error (Some code) t a)"

definition spec_begin_removal ::
  "workspace_id \<Rightarrow> workspace_state \<Rightarrow> removal_mode \<Rightarrow> unix_millis \<Rightarrow> store_spec \<Rightarrow> workspace_record spec_result" where
  "spec_begin_removal i expected mode t a =
     (case transition expected (BeginRemoval mode) of
        Inl _ \<Rightarrow> (Err (port_error_new InvalidData ''validate removal transition''), a)
      | Inr st \<Rightarrow>
          if st = expected then
            (case lookup a i of
               None \<Rightarrow> (Err (port_error_new NotFound ''reaffirm Workspace removal''), a)
             | Some w \<Rightarrow>
                 if rec_state w \<noteq> expected
                 then (Err (port_error_conflict ''reaffirm Workspace removal'' ExpectedState), a)
                 else (Ok w, a))
          else spec_update ''begin Workspace removal'' i expected Deleting None t a)"

definition spec_complete_deletion ::
  "workspace_id \<Rightarrow> instance_id \<Rightarrow> unix_millis \<Rightarrow> store_spec \<Rightarrow> deletion_tombstone spec_result" where
  "spec_complete_deletion i iid t a =
     (case lookup a i of
        None \<Rightarrow> (Err (port_error_new NotFound ''complete Workspace deletion''), a)
      | Some w \<Rightarrow>
          if iid \<noteq> spec_instance a
          then (Err (port_error_conflict ''complete Workspace deletion'' InstallationIdentity), a)
          else if rec_state w \<noteq> Deleting
          then (Err (port_error_conflict ''complete Workspace deletion'' ExpectedState), a)
          else
            let tomb = \<lparr>tomb_workspace_id = i, tomb_instance_id = iid, tomb_deleted_at = t\<rparr>
            in (Ok tomb,
                a\<lparr>sp_workspaces := filter (\<lambda>w. rec_id w \<noteq> i) (sp_workspaces a),
                  sp_receipts := filter (\<lambda>r. sr_workspace_id r \<noteq> i) (sp_receipts a),
                  sp_tombstones := sp_tombstones a @ [tomb]\<rparr>))"

subsection \<open>Statements on an encoded store\<close>

lemma name_str_inject [simp]: "name_str m = name_str n \<longleftrightarrow> m = n"
  by (auto intro: workspace_name.expand)

lemma path_bytes_inject [simp]: "path_bytes p = path_bytes q \<longleftrightarrow> p = q"
  by (auto intro: absolute_path.expand)

lemma millis_le [simp]: "millis s \<le> millis t \<longleftrightarrow> s \<le> t"
  by (simp add: less_eq_unix_millis_def)

lemma millis_less [simp]: "millis s < millis t \<longleftrightarrow> s < t"
  by (simp add: less_unix_millis_def)

lemma valid_path_not_Nil: "valid_path p \<Longrightarrow> path_bytes p \<noteq> []"
  unfolding valid_path_iff using path_of_components_hd by metis

lemma workspace_state_text_cases:
  "workspace_state_as_str s \<in> {''creating'', ''ready'', ''deleting'', ''error''}"
  by (cases s) simp_all

lemma workspace_state_text_simps [simp]:
  "workspace_state_as_str s = ''creating'' \<longleftrightarrow> s = Creating"
  "workspace_state_as_str s = ''ready'' \<longleftrightarrow> s = WsReady"
  "workspace_state_as_str s = ''deleting'' \<longleftrightarrow> s = Deleting"
  "workspace_state_as_str s = ''error'' \<longleftrightarrow> s = Error"
  by (cases s; simp)+

lemma record_row_check:
  assumes "uuid_text_format U" "record_valid U w"
  shows "workspace_row_check (record_row U w)"
  using assms workspace_state_text_cases[of "rec_state w"]
  by (auto simp: workspace_row_check_def record_valid_def reservation_valid_def record_consistent_def
      workspace_text_check volume_text_check name_check_iff valid_workspace_name_iff valid_path_not_Nil
      error_code_text_check valid_millis_def split: option.splits)

definition uuid_ok :: "uuid_api \<Rightarrow> bool" where
  "uuid_ok U \<longleftrightarrow> uuid_roundtrip U \<and> uuid_text_format U"

lemma uuid_okD [dest]: "uuid_ok U \<Longrightarrow> uuid_roundtrip U" "uuid_ok U \<Longrightarrow> uuid_text_format U"
  by (simp_all add: uuid_ok_def)

lemmas id_text_inject = workspace_id_to_string_inject instance_id_to_string_inject
  volume_id_to_string_inject

lemma find_None_list_ex: "find P xs = None \<longleftrightarrow> \<not> list_ex P xs"
  by (induction xs) auto

lemma reservation_conflict_encode:
  assumes "uuid_ok (env_uuid E)"
  shows "reservation_conflict (env_uuid E) r (encode E a) = spec_conflict a r"
  using uuid_okD(1)[OF assms]
  by (simp add: reservation_conflict_def spec_conflict_def Let_def lookup_def tombstoned_def
      find_None_list_ex comp_def id_text_inject)

lemma new_record_valid:
  "reservation_valid U r \<Longrightarrow> record_valid U (new_record r)"
  by (simp add: record_valid_def new_record_def record_consistent_def reservation_valid_def)

lemma insert_workspace_encode:
  assumes U: "uuid_ok (env_uuid E)" and r: "reservation_valid (env_uuid E) r"
    and inst: "res_instance_id r = spec_instance a" "res_source_volume_id r = res_target_volume_id r"
  shows "spec_conflict a r = None \<Longrightarrow>
      insert_workspace (reservation_row (env_uuid E) r) (encode E a)
        = Ok (1, encode E (a\<lparr>sp_workspaces := sp_workspaces a @ [new_record r]\<rparr>))"
    and "spec_conflict a r = Some k \<Longrightarrow>
      \<exists>e. insert_workspace (reservation_row (env_uuid E) r) (encode E a) = Err (ConstraintViolation e)"
proof -
  note U' = uuid_okD(1)[OF U]
  have row: "reservation_row (env_uuid E) r = record_row (env_uuid E) (new_record r)"
    by (simp add: reservation_row_record new_record_def)
  have check: "workspace_row_check (record_row (env_uuid E) (new_record r))"
    by (intro record_row_check uuid_okD(2)[OF U] new_record_valid[OF r])
  have taken: "list_ex (\<lambda>w. wr_workspace_id w = wr_workspace_id (record_row (env_uuid E) (new_record r))
        \<or> wr_name w = wr_name (record_row (env_uuid E) (new_record r))
        \<or> wr_target_path w = wr_target_path (record_row (env_uuid E) (new_record r)))
        (db_workspaces (encode E a)) \<longleftrightarrow>
      lookup a (res_workspace_id r) \<noteq> None
        \<or> list_ex (\<lambda>w. res_name (rec_reservation w) = res_name r) (sp_workspaces a)
        \<or> list_ex (\<lambda>w. res_target_path (rec_reservation w) = res_target_path r) (sp_workspaces a)"
    by (auto simp: new_record_def lookup_def find_None_list_ex id_text_inject[OF U'] list_ex_iff)
  have tomb: "list_ex (\<lambda>t. tr_workspace_id t = wr_workspace_id (record_row (env_uuid E) (new_record r)))
        (db_tombstones (encode E a)) \<longleftrightarrow> tombstoned a (res_workspace_id r)"
    by (simp add: new_record_def tombstoned_def comp_def id_text_inject[OF U'])
  show "spec_conflict a r = None \<Longrightarrow>
      insert_workspace (reservation_row (env_uuid E) r) (encode E a)
        = Ok (1, encode E (a\<lparr>sp_workspaces := sp_workspaces a @ [new_record r]\<rparr>))"
    unfolding row insert_workspace_def taken tomb using check inst
    by (auto simp: spec_conflict_def new_record_def encode_def split: if_splits)
  show "spec_conflict a r = Some k \<Longrightarrow>
      \<exists>e. insert_workspace (reservation_row (env_uuid E) r) (encode E a) = Err (ConstraintViolation e)"
    unfolding row insert_workspace_def taken tomb using inst
    by (auto simp: spec_conflict_def new_record_def abort_def split: if_splits)
qed

text \<open>The text comparison of a guarded update, on typed rows.\<close>

lemma record_row_moved:
  "set_state (workspace_state_as_str st) (map_option error_code_as_str err) (millis t) (record_row U w)
     = record_row U (moved st err t w)"
  by (simp add: record_row_def set_state_def moved_def)

lemma moved_sel [simp]:
  "rec_reservation (moved st err t w) = rec_reservation w"
  "rec_state (moved st err t w) = st"
  "rec_last_error_code (moved st err t w) = err"
  "rec_updated_at (moved st err t w) = t"
  by (simp_all add: moved_def)

lemma moved_valid:
  assumes "record_valid U w" "valid_millis t" "rec_updated_at w \<le> t" "st = Error \<longleftrightarrow> err \<noteq> None"
  shows "record_valid U (moved st err t w)"
  using assms by (auto simp: record_valid_def record_consistent_def)

lemma update_guard_encode:
  assumes U: "uuid_ok (env_uuid E)" and w: "record_valid (env_uuid E) w" and t: "valid_millis t"
    and step: "rec_state w = st \<or> (\<exists>e. transition (rec_state w) e = Ok st)"
    and err: "st = Error \<longleftrightarrow> err \<noteq> None"
    and receipt: "st = WsReady \<Longrightarrow> receipt_of a (rec_id w) \<noteq> None"
  shows "update_guard (encode E a) (record_row (env_uuid E) w) (record_row (env_uuid E) (moved st err t w))
    = (if t < rec_updated_at w then abort ''workspace timestamp regressed'' else Ok ())"
proof -
  have same: "same_identity_fields (record_row (env_uuid E) w) (record_row (env_uuid E) (moved st err t w))"
    by (simp add: same_identity_fields_def)
  have trans: "state_transition_allowed (workspace_state_as_str (rec_state w)) (workspace_state_as_str st)"
    using step by (cases "rec_state w"; cases st) (auto simp: state_transition_allowed_def elim: transition.elims)
  have ready: "st = WsReady \<Longrightarrow> list_ex (\<lambda>r. rr_workspace_id r = workspace_id_to_string (env_uuid E) (rec_id w))
      (map (stored_receipt_row (env_uuid E)) (sp_receipts a))"
    using receipt by (simp add: receipt_of_def find_None_list_ex comp_def id_text_inject[OF uuid_okD(1)[OF U]])
  have check: "\<not> t < rec_updated_at w \<Longrightarrow> workspace_row_check (record_row (env_uuid E) (moved st err t w))"
    using err by (intro record_row_check[OF uuid_okD(2)[OF U]] moved_valid[OF w t]) auto
  show ?thesis
    using same trans ready check by (auto simp: update_guard_def)
qed

lemma update_state_encode:
  assumes U: "uuid_ok (env_uuid E)" and a: "workspaces_ok (env_uuid E) iid (sp_workspaces a)" and t: "valid_millis t"
    and step: "expected = st \<or> (\<exists>e. transition expected e = Ok st)"
    and err: "st = Error \<longleftrightarrow> err \<noteq> None"
    and receipt: "st = WsReady \<Longrightarrow> receipt_of a i \<noteq> None"
  shows "update_state (workspace_id_to_string (env_uuid E) i) (workspace_state_as_str expected)
      (workspace_state_as_str st) (map_option error_code_as_str err) (millis t) (encode E a)
    = (case lookup a i of
         None \<Rightarrow> Ok (0, encode E a)
       | Some w \<Rightarrow>
           if rec_state w \<noteq> expected then Ok (0, encode E a)
           else if t < rec_updated_at w then abort ''workspace timestamp regressed''
           else Ok (1, encode E (move_workspace i st err t a)))"
proof -
  let ?U = "env_uuid E"
  let ?hit = "\<lambda>w. wr_workspace_id w = workspace_id_to_string ?U i \<and> wr_state w = workspace_state_as_str expected"
  let ?hit' = "\<lambda>w. rec_id w = i \<and> rec_state w = expected"
  note inj = id_text_inject[OF uuid_okD(1)[OF U]]
  have hit: "?hit (record_row ?U w) \<longleftrightarrow> ?hit' w" for w by (simp add: inj)
  have dist: "distinct (map rec_id (sp_workspaces a))"
    using a by (simp add: workspaces_ok_def)
  have rows: "filter ?hit (db_workspaces (encode E a))
      = map (record_row ?U) (case lookup a i of None \<Rightarrow> [] | Some w \<Rightarrow> if rec_state w = expected then [w] else [])"
    using filter_distinct_key[OF dist, of i "\<lambda>w. rec_state w = expected"]
    by (simp add: filter_map comp_def inj lookup_def)
  have upd: "map (\<lambda>w. if ?hit w then set_state (workspace_state_as_str st) (map_option error_code_as_str err) (millis t) w
        else w) (db_workspaces (encode E a))
      = map (record_row ?U) (map (\<lambda>w. if ?hit' w then moved st err t w else w) (sp_workspaces a))"
    by (auto simp: record_row_moved inj)
  show ?thesis
  proof (cases "lookup a i")
    case None
    then have none: "\<forall>w \<in> set (sp_workspaces a). rec_id w \<noteq> i"
      by (auto simp: lookup_def find_None_iff)
    have "map (\<lambda>w. if ?hit' w then moved st err t w else w) (sp_workspaces a) = sp_workspaces a"
      using none by (intro map_idI) auto
    then show ?thesis unfolding update_state_def Let_def rows upd using None
      by (simp add: encode_def)
  next
    case (Some w)
    then have w: "w \<in> set (sp_workspaces a)" "rec_id w = i"
      by (auto simp: lookup_def dest: find_Some_mem)
    then have valid: "record_valid ?U w" using a by (auto intro: workspace_ok_at)
    have only: "v \<in> set (sp_workspaces a) \<Longrightarrow> rec_id v = i \<Longrightarrow> v = w" for v
      using w dist by (metis distinct_map inj_on_contraD)
    show ?thesis
    proof (cases "rec_state w = expected")
      case False
      then have "map (\<lambda>w. if ?hit' w then moved st err t w else w) (sp_workspaces a) = sp_workspaces a"
        using only by (intro map_idI) auto
      then show ?thesis unfolding update_state_def Let_def rows upd using Some False
        by (simp add: encode_def)
    next
      case True
      have same: "map (\<lambda>w. if ?hit' w then moved st err t w else w) (sp_workspaces a)
          = map (\<lambda>w. if rec_id w = i then moved st err t w else w) (sp_workspaces a)"
        using only True by (intro map_cong) auto
      have guard: "update_guard (encode E a) (record_row ?U w)
          (set_state (workspace_state_as_str st) (map_option error_code_as_str err) (millis t) (record_row ?U w))
          = (if t < rec_updated_at w then abort ''workspace timestamp regressed'' else Ok ())"
        unfolding record_row_moved
        using update_guard_encode[OF U valid t, of st err a] step err receipt True w(2) by auto
      show ?thesis unfolding update_state_def Let_def rows upd same using Some True guard
        by (auto simp: abort_def move_workspace_def encode_def)
    qed
  qed
qed

lemma insert_receipt_encode:
  assumes U: "uuid_ok (env_uuid E)" and a: "spec_ok (env_uuid E) a" and t: "valid_millis t"
    and w: "lookup a i = Some w" "rec_state w = Creating"
  shows "insert_receipt json_ok \<lparr>rr_workspace_id = workspace_id_to_string (env_uuid E) i,
      rr_schema_version = RECEIPT_SCHEMA_VERSION, rr_json = document, rr_recorded_at = millis t\<rparr> (encode E a)
    = (if json_ok document
       then Ok (1, encode E (a\<lparr>sp_receipts := sp_receipts a @
              [\<lparr>sr_workspace_id = i, sr_document = document, sr_recorded_at = t\<rparr>]\<rparr>))
       else abort ''CHECK'')"
proof -
  note inj = id_text_inject[OF uuid_okD(1)[OF U]]
  have mem: "w \<in> set (sp_workspaces a)" "rec_id w = i"
    using w(1) by (auto simp: lookup_def dest: find_Some_mem)
  have "\<not> list_ex (\<lambda>r. sr_workspace_id r = i) (sp_receipts a)"
  proof
    assume "list_ex (\<lambda>r. sr_workspace_id r = i) (sp_receipts a)"
    then obtain v where v: "v \<in> set (sp_workspaces a)" "rec_id v = i" "rec_state v \<noteq> Creating"
      using a by (auto simp: spec_ok_def receipts_ok_def list_ex_iff)
    moreover have "distinct (map rec_id (sp_workspaces a))"
      using a by (simp add: spec_ok_def workspaces_ok_def)
    ultimately have "v = w" using mem by (metis distinct_map inj_on_contraD)
    then show False using v w(2) by simp
  qed
  then have once: "\<not> list_ex (\<lambda>q. rr_workspace_id q = workspace_id_to_string (env_uuid E) i) (db_receipts (encode E a))"
    by (simp add: comp_def inj)
  have creating: "list_ex (\<lambda>v. wr_workspace_id v = workspace_id_to_string (env_uuid E) i \<and> wr_state v = ''creating'')
      (db_workspaces (encode E a))"
    using mem w(2) by (auto simp: list_ex_iff)
  show ?thesis
    using once creating t
    by (auto simp: insert_receipt_def receipt_row_check_def RECEIPT_SCHEMA_VERSION_def valid_millis_def
        encode_def stored_receipt_row_def)
qed

lemma insert_tombstone_encode:
  assumes U: "uuid_ok (env_uuid E)" and a: "spec_ok (env_uuid E) a" and t: "valid_millis t"
    and w: "lookup a i = Some w" "rec_state w = Deleting"
  shows "insert_tombstone \<lparr>tr_workspace_id = workspace_id_to_string (env_uuid E) i,
      tr_instance_id = instance_id_to_string (env_uuid E) (spec_instance a), tr_deleted_at = millis t\<rparr> (encode E a)
    = Ok (1, encode E (a\<lparr>sp_tombstones := sp_tombstones a @
        [\<lparr>tomb_workspace_id = i, tomb_instance_id = spec_instance a, tomb_deleted_at = t\<rparr>]\<rparr>))"
proof -
  note inj = id_text_inject[OF uuid_okD(1)[OF U]]
  have mem: "w \<in> set (sp_workspaces a)" "rec_id w = i"
    using w(1) by (auto simp: lookup_def dest: find_Some_mem)
  have inst: "res_instance_id (rec_reservation w) = spec_instance a"
    using a mem by (simp add: spec_ok_def workspaces_ok_def)
  have "i \<notin> tomb_workspace_id ` set (sp_tombstones a)"
    using a mem by (auto simp: spec_ok_def tombstones_ok_def)
  then have once: "\<not> list_ex (\<lambda>t. tr_workspace_id t = workspace_id_to_string (env_uuid E) i) (db_tombstones (encode E a))"
    by (auto simp: list_ex_iff inj)
  have deleting: "list_ex (\<lambda>v. wr_workspace_id v = workspace_id_to_string (env_uuid E) i
      \<and> wr_instance_id v = instance_id_to_string (env_uuid E) (spec_instance a) \<and> wr_state v = ''deleting'')
      (db_workspaces (encode E a))"
    using mem w(2) inst by (auto simp: list_ex_iff)
  show ?thesis
    using once deleting t
    by (simp add: insert_tombstone_def tombstone_row_check_def valid_millis_def encode_def
        stored_tombstone_row_def)
qed

lemma delete_workspace_encode:
  assumes U: "uuid_ok (env_uuid E)" and dist: "distinct (map rec_id (sp_workspaces a))"
    and w: "lookup a i = Some w" "rec_state w = Deleting"
      "res_instance_id (rec_reservation w) = spec_instance a"
    and tomb: "t \<in> set (sp_tombstones a)" "tomb_workspace_id t = i" "tomb_instance_id t = spec_instance a"
  shows "delete_workspace (workspace_id_to_string (env_uuid E) i) (encode E a)
    = Ok (1, encode E (a\<lparr>sp_workspaces := filter (\<lambda>w. rec_id w \<noteq> i) (sp_workspaces a),
        sp_receipts := filter (\<lambda>r. sr_workspace_id r \<noteq> i) (sp_receipts a)\<rparr>))"
proof -
  let ?U = "env_uuid E"
  let ?hit = "\<lambda>w. wr_workspace_id w = workspace_id_to_string ?U i \<and> wr_state w = ''deleting''"
  note inj = id_text_inject[OF uuid_okD(1)[OF U]]
  have mem: "w \<in> set (sp_workspaces a)" "rec_id w = i"
    using w(1) by (auto simp: lookup_def dest: find_Some_mem)
  have only: "v \<in> set (sp_workspaces a) \<Longrightarrow> rec_id v = i \<Longrightarrow> v = w" for v
    using mem dist by (metis distinct_map inj_on_contraD)
  have victims: "filter ?hit (db_workspaces (encode E a)) = [record_row ?U w]"
    using filter_distinct_key[OF dist, of i "\<lambda>w. rec_state w = Deleting"] w
    by (simp add: filter_map comp_def inj lookup_def)
  have kept: "filter (\<lambda>w. \<not> ?hit w) (db_workspaces (encode E a))
      = map (record_row ?U) (filter (\<lambda>w. rec_id w \<noteq> i) (sp_workspaces a))"
  proof -
    have "filter (\<lambda>v. \<not> (rec_id v = i \<and> rec_state v = Deleting)) (sp_workspaces a)
        = filter (\<lambda>v. rec_id v \<noteq> i) (sp_workspaces a)"
      using only w(2) by (intro filter_cong) auto
    then show ?thesis by (simp add: filter_map comp_def inj)
  qed
  have receipts: "filter (\<lambda>r. \<not> list_ex (\<lambda>w. wr_workspace_id w = rr_workspace_id r) [record_row ?U w])
      (db_receipts (encode E a))
      = map (stored_receipt_row ?U) (filter (\<lambda>r. sr_workspace_id r \<noteq> i) (sp_receipts a))"
    using mem(2) by (simp add: filter_map comp_def inj eq_commute)
  have guard: "list_ex (\<lambda>t. tr_workspace_id t = wr_workspace_id (record_row ?U w)
      \<and> tr_instance_id t = wr_instance_id (record_row ?U w)) (db_tombstones (encode E a))"
    using tomb mem(2) w(3) by (auto simp: list_ex_iff)
  show ?thesis
    unfolding delete_workspace_def Let_def victims kept receipts using guard
    by (simp add: encode_def)
qed

end
