(* ===== verification/Store_Refinement.thy ===== *)
theory Store_Refinement
  imports Store_Spec
begin

text \<open>
  The SQLite adapter implements the abstract store: on an encoded store every operation
  returns what the abstract one returns and leaves the encoding of the abstract result, and
  with failing calls it never leaves anything but the old or the new store.
\<close>

subsection \<open>The relation\<close>

definition hide_source :: "port_error \<Rightarrow> port_error" where
  "hide_source e = e\<lparr>pe_source := None\<rparr>"

definition visible :: "port_error + 'a \<Rightarrow> port_error + 'a" where
  "visible r = map_err hide_source r"

text \<open>
  \<open>outcome_ok\<close> relates the result of an operation on an encoded \<open>a\<close> to the abstract result: a
  success is the abstract success; a failure leaves the old or the new store; and without
  failing calls the visible error (kind, operation, conflict) is the abstract one.
\<close>

definition outcome_ok ::
  "store_env \<Rightarrow> store_spec \<Rightarrow> (port_error + 'a) \<times> conn \<Rightarrow> 'a spec_result \<Rightarrow> bool" where
  "outcome_ok E a out spec \<longleftrightarrow>
     (case fst out of
        Inr x \<Rightarrow> fst spec = Inr x \<and> c_db (snd out) = encode E (snd spec)
      | Inl e \<Rightarrow> c_db (snd out) = encode E a \<or> c_db (snd out) = encode E (snd spec))
     \<and> (quiet E \<longrightarrow> visible (fst out) = fst spec \<and> c_db (snd out) = encode E (snd spec))"

lemma hide_source_simps [simp]:
  "hide_source (port_error_new k oper) = port_error_new k oper"
  "hide_source (port_error_conflict oper k') = port_error_conflict oper k'"
  "hide_source (storage_error oper e) = port_error_new Storage oper"
  "hide_source (invalid_data oper e) = port_error_new InvalidData oper"
  "hide_source (port_error_with_source p e) = hide_source p"
  by (simp_all add: hide_source_def port_error_new_def port_error_conflict_def storage_error_def
      invalid_data_def port_error_with_source_def)

lemma visible_simps [simp]:
  "visible (Inr x) = Inr x"
  "visible (Inl e) = Inl (hide_source e)"
  by (simp_all add: visible_def)

lemma outcome_faulted:
  "\<not> quiet E \<Longrightarrow> c_db c = encode E a \<Longrightarrow> outcome_ok E a (Inl e, c) spec"
  by (simp add: outcome_ok_def)

lemma outcome_refused:
  "c_db c = encode E a \<Longrightarrow> hide_source e = e' \<Longrightarrow> outcome_ok E a (Inl e, c) (Inl e', a)"
  by (simp add: outcome_ok_def)

lemma outcome_done:
  "c_db c = encode E a' \<Longrightarrow> outcome_ok E a (Inr x, c) (Inr x, a')"
  by (simp add: outcome_ok_def)

lemma fault_not_quiet: "env_fault E n = Some e \<Longrightarrow> \<not> quiet E"
  by (auto simp: quiet_def)

subsection \<open>Calls with faults\<close>

lemma read_workspace_faults:
  assumes "uuid_ok (env_uuid E)" "workspaces_ok (env_uuid E) iid (sp_workspaces a)" "c_db c = encode E a"
  shows "read_workspace E i c =
    (case env_fault E (c_tick c) of
       Some e \<Rightarrow> (Inl (storage_error ''read Workspace'' e), next_call c)
     | None \<Rightarrow> (Ok (lookup a i), next_call c))"
proof (cases "env_fault E (c_tick c)")
  case (Some e)
  then show ?thesis by (simp add: read_workspace_def st_bind_def db_query_def)
next
  case None
  let ?E = "E\<lparr>env_fault := \<lambda>_. None\<rparr>"
  have "read_workspace ?E i c = (Ok (lookup a i), next_call c)"
    using assms by (intro read_workspace_quiet[of _ iid]) (auto simp: quiet_def encode_def)
  then show ?thesis using None
    by (simp add: read_workspace_def st_bind_def db_query_def split: option.splits)
qed

lemma decoded_Err [simp]: "decoded oper (Inl e) = Inl (invalid_data oper (ForeignError oper))"
  by (simp add: decoded_def)

subsection \<open>Reservation\<close>

lemma reserve_workspace_refines:
  assumes U: "uuid_ok (env_uuid E)" and db: "c_db c = encode E a"
    and r: "reservation_valid (env_uuid E) r" and inst: "inst = sp_installation a"
  shows "outcome_ok E a (reserve_workspace E inst r c) (spec_reserve a r)"
proof (cases "res_instance_id r \<noteq> spec_instance a \<or> res_source_volume_id r \<noteq> res_target_volume_id r")
  case True
  then show ?thesis using db inst
    by (auto simp: reserve_workspace_def spec_reserve_def intro: outcome_refused)
next
  case False
  then have m: "res_instance_id r = spec_instance a" "res_source_volume_id r = res_target_volume_id r"
    by simp_all
  have built: "workspace_record_new r Creating None (res_created_at r) = Ok (new_record r)"
    by (simp add: workspace_record_new_def new_record_def)
  show ?thesis
  proof (cases "env_fault E (c_tick c)")
    case (Some e)
    then show ?thesis using m inst db fault_not_quiet[OF Some]
      by (auto simp: reserve_workspace_def Let_def classify_reservation_error_def
          intro: outcome_faulted)
  next
    case None
    show ?thesis
    proof (cases "spec_conflict a r")
      case None': None
      then have "reserve_workspace E inst r c = (Ok (new_record r),
          (next_call c)\<lparr>c_db := encode E (a\<lparr>sp_workspaces := sp_workspaces a @ [new_record r]\<rparr>)\<rparr>)"
        using m inst db None insert_workspace_encode(1)[OF U r m None']
        by (simp add: reserve_workspace_def Let_def built)
      then show ?thesis using m None' by (simp add: spec_reserve_def outcome_done)
    next
      case (Some k)
      obtain e where e: "insert_workspace (reservation_row (env_uuid E) r) (encode E a) = Err (ConstraintViolation e)"
        using insert_workspace_encode(2)[OF U r m Some] by blast
      have spec: "spec_reserve a r = (Err (port_error_conflict ''reserve workspace'' k), a)"
        using m Some by (simp add: spec_reserve_def)
      show ?thesis
        unfolding spec using m inst db None e Some reservation_conflict_encode[OF U, of r a]
        by (cases "env_fault E (Suc (c_tick c))")
          (auto simp: reserve_workspace_def Let_def classify_reservation_error_def db_query_def
            intro: outcome_refused outcome_faulted dest: fault_not_quiet)
    qed
  qed
qed

subsection \<open>Compare-and-set updates\<close>

lemma lookup_move_workspace:
  "lookup (move_workspace i st err t a) j =
     (if j = i then map_option (moved st err t) (lookup a i) else lookup a j)"
proof -
  have eq: "(\<lambda>w. rec_id w = j) \<circ> (\<lambda>w. if rec_id w = i then moved st err t w else w) = (\<lambda>w. rec_id w = j)"
    by (auto simp: fun_eq_iff)
  have "find (\<lambda>w. rec_id w = j) (sp_workspaces a) = Some w \<Longrightarrow> rec_id w = j" for w
    by (auto dest: find_Some_mem)
  then show ?thesis
    by (cases "find (\<lambda>w. rec_id w = j) (sp_workspaces a)")
      (auto simp: lookup_def move_workspace_def find_map eq)
qed

lemma move_workspaces_ok:
  assumes a: "workspaces_ok U iid ws" and w: "find (\<lambda>w. rec_id w = i) ws = Some w"
    and t: "valid_millis t" "rec_updated_at w \<le> t" and err: "st = Error \<longleftrightarrow> err \<noteq> None"
  shows "workspaces_ok U iid (map (\<lambda>w. if rec_id w = i then moved st err t w else w) ws)"
proof -
  let ?f = "\<lambda>w. if rec_id w = i then moved st err t w else w"
  have dist: "distinct (map rec_id ws)" using a by (simp add: workspaces_ok_def)
  have only: "v \<in> set ws \<Longrightarrow> rec_id v = i \<Longrightarrow> v = w" for v
    using find_distinct_key[OF dist, of i] w by (metis option.inject)
  have valid: "record_valid U (?f v) \<and> res_instance_id (rec_reservation (?f v)) = iid
      \<and> res_source_volume_id (rec_reservation (?f v)) = res_target_volume_id (rec_reservation (?f v))"
    if "v \<in> set ws" for v
    using that only[OF that] a t err by (auto simp: workspaces_ok_def intro: moved_valid)
  have keys: "map rec_id (map ?f ws) = map rec_id ws"
    "map (\<lambda>w. res_name (rec_reservation w)) (map ?f ws) = map (\<lambda>w. res_name (rec_reservation w)) ws"
    "map (\<lambda>w. res_target_path (rec_reservation w)) (map ?f ws) = map (\<lambda>w. res_target_path (rec_reservation w)) ws"
    by auto
  have "\<forall>v \<in> set (map ?f ws). record_valid U v \<and> res_instance_id (rec_reservation v) = iid
      \<and> res_source_volume_id (rec_reservation v) = res_target_volume_id (rec_reservation v)"
    using valid by (simp only: set_map ball_simps) blast
  then show ?thesis
    using a unfolding workspaces_ok_def keys by blast
qed

lemma moved_receipts_ok:
  assumes rs: "receipts_ok ws rs"
    and st: "st \<noteq> Creating" "st = WsReady \<Longrightarrow> i \<in> sr_workspace_id ` set rs"
  shows "receipts_ok (map (\<lambda>w. if rec_id w = i then moved st err t w else w) ws) rs"
proof -
  let ?f = "\<lambda>w. if rec_id w = i then moved st err t w else w"
  have "\<exists>w \<in> set (map ?f ws). rec_id w = sr_workspace_id r \<and> rec_state w \<noteq> Creating"
    if r: "r \<in> set rs" for r
  proof -
    obtain w where "w \<in> set ws" "rec_id w = sr_workspace_id r" "rec_state w \<noteq> Creating"
      using rs r by (auto simp: receipts_ok_def)
    then show ?thesis using st(1) by (intro bexI[of _ "?f w"]) auto
  qed
  moreover have "rec_id w \<in> sr_workspace_id ` set rs"
    if "w \<in> set (map ?f ws)" "rec_state w = WsReady" for w
    using that rs st(2) by (auto simp: receipts_ok_def split: if_splits)
  ultimately show ?thesis using rs by (simp add: receipts_ok_def)
qed

lemma spec_ok_workspaces: "spec_ok U a \<Longrightarrow> workspaces_ok U (spec_instance a) (sp_workspaces a)"
  by (simp add: spec_ok_def)

lemma move_workspace_sel [simp]:
  "sp_installation (move_workspace i st err t a) = sp_installation a"
  "sp_receipts (move_workspace i st err t a) = sp_receipts a"
  "sp_tombstones (move_workspace i st err t a) = sp_tombstones a"
  "sp_workspaces (move_workspace i st err t a)
     = map (\<lambda>w. if rec_id w = i then moved st err t w else w) (sp_workspaces a)"
  by (simp_all add: move_workspace_def)

lemma move_workspace_ok:
  assumes a: "spec_ok U a" and w: "lookup a i = Some w"
    and t: "valid_millis t" "rec_updated_at w \<le> t" and err: "st = Error \<longleftrightarrow> err \<noteq> None"
    and st: "st \<noteq> Creating" "st = WsReady \<Longrightarrow> i \<in> sr_workspace_id ` set (sp_receipts a)"
  shows "spec_ok U (move_workspace i st err t a)"
proof -
  let ?f = "\<lambda>w. if rec_id w = i then moved st err t w else w"
  have "workspaces_ok U (spec_instance a) (map ?f (sp_workspaces a))"
    using a w t err by (intro move_workspaces_ok) (auto simp: spec_ok_def lookup_def)
  moreover have "receipts_ok (map ?f (sp_workspaces a)) (sp_receipts a)"
    using a st by (intro moved_receipts_ok) (simp_all add: spec_ok_def)
  moreover have "rec_id ` set (map ?f (sp_workspaces a)) = rec_id ` set (sp_workspaces a)"
    unfolding set_map image_image by (intro image_cong) auto
  ultimately show ?thesis using a by (auto simp: spec_ok_def tombstones_ok_def simp del: set_map)
qed

text \<open>The \<open>UPDATE\<close> with its error mapping and the re-reading of the row.\<close>

lemma expected_update_refines:
  assumes U: "uuid_ok (env_uuid E)" and a: "spec_ok (env_uuid E) a" and db: "c_db c = encode E a"
    and t: "valid_millis t" and err: "st = Error \<longleftrightarrow> err \<noteq> None"
    and step: "\<exists>e. transition expected e = Ok st" and st: "st \<noteq> Creating" "st \<noteq> WsReady" "st \<noteq> expected"
  shows "outcome_ok E a
     (st_bind (db_execute E
         (update_state (workspace_id_to_string (env_uuid E) i) (workspace_state_as_str expected)
            (workspace_state_as_str st) (map_option error_code_as_str err) (millis t))
         (update_error oper))
       (finish_expected_update E i expected oper) c)
     (spec_update oper i expected st err t a)"
proof (cases "env_fault E (c_tick c)")
  case (Some e)
  then show ?thesis using db fault_not_quiet[OF Some]
    by (simp add: st_bind_def db_execute_def outcome_faulted)
next
  case None
  note ws = spec_ok_workspaces[OF a]
  have upd: "update_state (workspace_id_to_string (env_uuid E) i) (workspace_state_as_str expected)
      (workspace_state_as_str st) (map_option error_code_as_str err) (millis t) (encode E a)
    = (case lookup a i of
         None \<Rightarrow> Ok (0, encode E a)
       | Some w \<Rightarrow>
           if rec_state w \<noteq> expected then Ok (0, encode E a)
           else if t < rec_updated_at w then abort ''workspace timestamp regressed''
           else Ok (1, encode E (move_workspace i st err t a)))"
    using step st by (intro update_state_encode[OF U ws t _ err]) auto
  have same: "(next_call c)\<lparr>c_db := encode E a\<rparr> = next_call c"
    by (simp add: db[symmetric])
  note read = read_workspace_faults[OF U ws]
  show ?thesis
  proof (cases "lookup a i")
    case None': None
    then have unchanged: "db_execute E (update_state (workspace_id_to_string (env_uuid E) i)
          (workspace_state_as_str expected) (workspace_state_as_str st)
          (map_option error_code_as_str err) (millis t)) (update_error oper) c = (Ok 0, next_call c)"
      using None db upd same by (simp add: db_execute_def)
    have spec: "spec_update oper i expected st err t a = (Err (port_error_new NotFound oper), a)"
      using None' by (simp add: spec_update_def)
    show ?thesis
      unfolding spec using unchanged None' db
      by (cases "env_fault E (Suc (c_tick c))")
        (simp_all add: st_bind_def finish_expected_update_def read st_fail_def outcome_refused
          outcome_faulted fault_not_quiet)
  next
    case (Some w)
    consider "rec_state w \<noteq> expected" | "rec_state w = expected" "t < rec_updated_at w"
      | "rec_state w = expected" "rec_updated_at w \<le> t" by fastforce
    then show ?thesis
    proof cases
      case 1
      then have unchanged: "db_execute E (update_state (workspace_id_to_string (env_uuid E) i)
          (workspace_state_as_str expected) (workspace_state_as_str st)
          (map_option error_code_as_str err) (millis t)) (update_error oper) c = (Ok 0, next_call c)"
        using None Some db upd same by (simp add: db_execute_def)
      have spec: "spec_update oper i expected st err t a = (Err (port_error_conflict oper ExpectedState), a)"
        using Some 1 by (simp add: spec_update_def)
      show ?thesis
        unfolding spec using unchanged Some db
        by (cases "env_fault E (Suc (c_tick c))")
          (simp_all add: st_bind_def finish_expected_update_def read st_fail_def outcome_refused
            outcome_faulted fault_not_quiet)
    next
      case 2
      then have spec: "spec_update oper i expected st err t a = (Err (port_error_new InvalidData oper), a)"
        using Some by (simp add: spec_update_def)
      show ?thesis
        unfolding spec using None Some 2 db upd
        by (simp add: st_bind_def db_execute_def abort_def update_error_def outcome_refused)
    next
      case 3
      then have True: "rec_state w = expected" "rec_updated_at w \<le> t" "\<not> t < rec_updated_at w"
        by simp_all
      let ?a = "move_workspace i st err t a"
      have ok: "spec_ok (env_uuid E) ?a"
        using a Some t True err st by (intro move_workspace_ok) auto
      have spec: "spec_update oper i expected st err t a = (Ok (moved st err t w), ?a)"
        using Some True by (simp add: spec_update_def not_less)
      have look: "lookup ?a i = Some (moved st err t w)" using Some by (simp add: lookup_move_workspace)
      have exe: "db_execute E (update_state (workspace_id_to_string (env_uuid E) i)
            (workspace_state_as_str expected) (workspace_state_as_str st)
            (map_option error_code_as_str err) (millis t)) (update_error oper) c
          = (Ok 1, (next_call c)\<lparr>c_db := encode E ?a\<rparr>)"
        using None Some db upd True by (simp add: db_execute_def not_less)
      note read' = read_workspace_faults[OF U spec_ok_workspaces[OF ok], of "(next_call c)\<lparr>c_db := encode E ?a\<rparr>"]
      show ?thesis
      proof (cases "env_fault E (Suc (c_tick c))")
        case None
        then show ?thesis unfolding spec using exe read' look st
          by (simp add: st_bind_def finish_expected_update_def st_lift_def st_return_def outcome_done)
      next
        case (Some e)
        then show ?thesis unfolding spec using exe read' fault_not_quiet[OF Some]
          by (simp add: st_bind_def finish_expected_update_def outcome_ok_def)
      qed
    qed
  qed
qed

lemma record_failure_refines:
  assumes U: "uuid_ok (env_uuid E)" and a: "spec_ok (env_uuid E) a" and db: "c_db c = encode E a"
    and t: "valid_millis t"
  shows "outcome_ok E a (record_failure E i expected code t c) (spec_record_failure i expected code t a)"
proof (cases "transition expected workspace_event.Failed")
  case (Inl e)
  then show ?thesis using db
    by (simp add: record_failure_def spec_record_failure_def outcome_refused)
next
  case (Inr st)
  then have st: "st = Error" "expected \<noteq> Error" by (cases expected; simp)+
  have spec: "spec_record_failure i expected code t a
      = spec_update ''record Workspace failure'' i expected Error (Some code) t a"
    using Inr by (simp add: spec_record_failure_def)
  have ex: "\<exists>e. transition expected e = Ok Error" using Inr st by blast
  show ?thesis
    using expected_update_refines[OF U a db t, of Error "Some code" expected i "''record Workspace failure''"]
      ex st
    unfolding spec record_failure_def Inr by simp
qed

lemma require_expected_refines:
  assumes U: "uuid_ok (env_uuid E)" and a: "spec_ok (env_uuid E) a" and db: "c_db c = encode E a"
  shows "outcome_ok E a (require_expected E i expected oper c)
    (case lookup a i of
       None \<Rightarrow> (Err (port_error_new NotFound oper), a)
     | Some w \<Rightarrow> if rec_state w \<noteq> expected then (Err (port_error_conflict oper ExpectedState), a) else (Ok w, a))"
  using read_workspace_faults[OF U spec_ok_workspaces[OF a] db] db
  by (cases "env_fault E (c_tick c)"; cases "lookup a i")
    (simp_all add: require_expected_def st_bind_def st_fail_def st_return_def outcome_faulted
      fault_not_quiet outcome_refused outcome_done)

lemma begin_removal_refines:
  assumes U: "uuid_ok (env_uuid E)" and a: "spec_ok (env_uuid E) a" and db: "c_db c = encode E a"
    and t: "valid_millis t"
  shows "outcome_ok E a (begin_removal E i expected mode t c) (spec_begin_removal i expected mode t a)"
proof (cases "transition expected (BeginRemoval mode)")
  case (Inl e)
  then show ?thesis using db
    by (simp add: begin_removal_def spec_begin_removal_def outcome_refused)
next
  case (Inr st)
  then have st: "st = Deleting" by (cases expected; cases mode; simp)
  show ?thesis
  proof (cases "expected = Deleting")
    case True
    then show ?thesis
      using require_expected_refines[OF U a db, of i Deleting "''reaffirm Workspace removal''"] Inr st
      by (simp add: begin_removal_def spec_begin_removal_def)
  next
    case False
    have ex: "\<exists>e. transition expected e = Ok Deleting" using Inr st by blast
    show ?thesis
      using expected_update_refines[OF U a db t, of Deleting None expected i "''begin Workspace removal''"]
        ex st False Inr
      by (simp add: begin_removal_def spec_begin_removal_def)
  qed
qed

subsection \<open>Transactions\<close>

text \<open>
  A transaction refines what its body does: a body failure is rolled back, a body success is
  committed or, when the commit fails, rolled back.
\<close>

definition body_ok ::
  "store_env \<Rightarrow> store_spec \<Rightarrow> (port_error + 'a) \<times> conn \<Rightarrow> 'a spec_result \<Rightarrow> bool" where
  "body_ok E a out spec \<longleftrightarrow>
     (case fst out of
        Inr x \<Rightarrow> spec = (Inr x, snd spec) \<and> c_db (snd out) = encode E (snd spec)
      | Inl e \<Rightarrow> quiet E \<longrightarrow> spec = (Inl (hide_source e), a))"

lemma body_faulted: "\<not> quiet E \<Longrightarrow> body_ok E a (Inl e, c) spec"
  by (simp add: body_ok_def)

lemma body_refused: "hide_source e = e' \<Longrightarrow> body_ok E a (Inl e, c) (Inl e', a)"
  by (simp add: body_ok_def)

lemma body_done: "c_db c = encode E a' \<Longrightarrow> body_ok E a (Inr x, c) (Inr x, a')"
  by (simp add: body_ok_def)

lemma in_transaction_refines:
  assumes db: "c_db c = encode E a"
    and body: "body_ok E a (body (next_call c)) spec"
  shows "outcome_ok E a (in_transaction E b k body c) spec"
proof (cases "env_fault E (c_tick c)")
  case (Some e)
  then show ?thesis using db by (simp add: in_transaction_def outcome_faulted fault_not_quiet)
next
  case None
  obtain r c' where run: "body (next_call c) = (r, c')" by fastforce
  obtain s a' where spec: "spec = (s, a')" by fastforce
  show ?thesis
  proof (cases r)
    case (Inl e)
    then show ?thesis using None run body db by (auto simp: in_transaction_def outcome_ok_def body_ok_def)
  next
    case (Inr x)
    then show ?thesis using None run body db spec fault_not_quiet[of E "c_tick c'"]
      by (cases "env_fault E (c_tick c')") (simp_all add: in_transaction_def outcome_ok_def body_ok_def)
  qed
qed

text \<open>Without any assumption on the store, a transaction that fails changes nothing.\<close>

lemma in_transaction_atomic:
  "fst (in_transaction E b k body c) = Inl e \<Longrightarrow> c_db (snd (in_transaction E b k body c)) = c_db c"
  by (auto simp: in_transaction_def split: option.splits prod.splits sum.splits)

subsection \<open>Completion of a materialization\<close>

definition add_receipt :: "workspace_id \<Rightarrow> string \<Rightarrow> unix_millis \<Rightarrow> store_spec \<Rightarrow> store_spec" where
  "add_receipt i document t a = a\<lparr>sp_receipts := sp_receipts a @
     [\<lparr>sr_workspace_id = i, sr_document = document, sr_recorded_at = t\<rparr>]\<rparr>"

lemma add_receipt_sel [simp]:
  "sp_installation (add_receipt i d t a) = sp_installation a"
  "sp_workspaces (add_receipt i d t a) = sp_workspaces a"
  "sp_tombstones (add_receipt i d t a) = sp_tombstones a"
  "sp_receipts (add_receipt i d t a) = sp_receipts a @ [\<lparr>sr_workspace_id = i, sr_document = d, sr_recorded_at = t\<rparr>]"
  "lookup (add_receipt i d t a) = lookup a"
  "receipt_of (add_receipt i d t a) i \<noteq> None"
  by (auto simp: add_receipt_def lookup_def fun_eq_iff receipt_of_def find_None_iff)

text \<open>The \<open>UPDATE\<close> to Ready, which the trigger allows because of the receipt just inserted.\<close>

lemma ready_update_encode:
  assumes U: "uuid_ok (env_uuid E)" and a: "workspaces_ok (env_uuid E) iid (sp_workspaces a)"
    and t: "valid_millis t" and w: "lookup a i = Some w" "rec_state w = Creating"
    and receipt: "receipt_of a i \<noteq> None"
  shows "update_state (workspace_id_to_string (env_uuid E) i) ''creating'' ''ready'' None (millis t) (encode E a)
    = (if t < rec_updated_at w then abort ''workspace timestamp regressed''
       else Ok (1, encode E (move_workspace i WsReady None t a)))"
proof -
  have "transition Creating Materialized = Ok WsReady" by simp
  then have "Creating = WsReady \<or> (\<exists>e. transition Creating e = Ok WsReady)" by blast
  note update_state_encode[OF U a t this, of None i, OF _ receipt]
  then show ?thesis using w by simp
qed

lemma completion_body_refines:
  assumes U: "uuid_ok (env_uuid E)" and a: "spec_ok (env_uuid E) a" and db: "c_db c = encode E a"
    and t: "valid_millis t"
  shows "body_ok E a (completion_body E i plan rc document t c)
    (spec_complete (json_valid (env_json E)) document i plan rc t a)"
proof -
  let ?J = "json_valid (env_json E)"
  let ?b = "add_receipt i document t a"
  let ?m = "move_workspace i WsReady None t ?b"
  let ?spec = "spec_complete ?J document i plan rc t a"
  let ?out = "completion_body E i plan rc document t c"
  note read = read_workspace_faults[OF U spec_ok_workspaces[OF a] db]
  note body_def = completion_body_def Let_def st_bind_def st_lift_def st_fail_def
  show ?thesis
  proof (cases "env_fault E (c_tick c)")
    case (Some e)
    then show ?thesis by (simp add: body_def read fault_not_quiet body_faulted)
  next
    case quiet0: None
    show ?thesis
    proof (cases "lookup a i")
      case None
      then show ?thesis using quiet0 by (simp add: body_def read spec_complete_def body_refused)
    next
      case (Some w)
      consider "rec_state w \<noteq> Creating"
        | "rec_state w = Creating" "\<not> list_all id (final_receipt_checks (rec_reservation w) plan rc)"
        | "rec_state w = Creating" "list_all id (final_receipt_checks (rec_reservation w) plan rc)" by blast
      then show ?thesis
      proof cases
        case 1
        then show ?thesis using quiet0 Some by (simp add: body_def read spec_complete_def body_refused)
      next
        case 2
        then have "list_ex Not (final_receipt_checks (rec_reservation w) plan rc)"
          by (auto simp: list_ex_iff list_all_iff)
        then show ?thesis using quiet0 Some 2 by (simp add: body_def read spec_complete_def body_refused)
      next
        case 3
        then have no_ex: "\<not> list_ex Not (final_receipt_checks (rec_reservation w) plan rc)"
          by (auto simp: list_ex_iff list_all_iff)
        have ins: "insert_receipt ?J \<lparr>rr_workspace_id = workspace_id_to_string (env_uuid E) i,
            rr_schema_version = RECEIPT_SCHEMA_VERSION, rr_json = document, rr_recorded_at = millis t\<rparr> (encode E a)
          = (if ?J document then Ok (1, encode E ?b) else abort ''CHECK'')"
          using insert_receipt_encode[OF U a t Some 3(1)] by (simp add: add_receipt_def)
        have upd: "update_state (workspace_id_to_string (env_uuid E) i) ''creating'' ''ready'' None (millis t)
            (encode E ?b) = (if t < rec_updated_at w then abort ''workspace timestamp regressed''
              else Ok (1, encode E ?m))"
          using spec_ok_workspaces[OF a] Some 3(1) by (intro ready_update_encode[OF U _ t]) simp_all
        have wsm: "workspaces_ok (env_uuid E) (spec_instance a) (sp_workspaces ?m)" if "rec_updated_at w \<le> t"
          using spec_ok_workspaces[OF a] Some t that
          by (auto simp: lookup_def intro: move_workspaces_ok)
        have final: "lookup ?m i = Some (moved WsReady None t w)"
          using Some by (simp add: lookup_move_workspace)
        have spec: "?spec = (if \<not> ?J document then (Err (port_error_new InvalidData ''insert final receipt''), a)
            else if t < rec_updated_at w then (Err (port_error_new InvalidData ''complete materialization''), a)
            else (Ok (moved WsReady None t w), ?m))"
          using Some 3 by (simp add: spec_complete_def move_workspace_def add_receipt_def)
        have start: "?out = (case env_fault E (Suc (c_tick c)) of
              Some e \<Rightarrow> (Inl (update_error ''insert final receipt'' (OtherSql e)), next_call (next_call c))
            | None \<Rightarrow> if \<not> ?J document then (Inl (update_error ''insert final receipt'' (ConstraintViolation (ForeignError ''CHECK''))), next_call (next_call c))
              else (case env_fault E (Suc (Suc (c_tick c))) of
                Some e \<Rightarrow> (Inl (update_error ''complete materialization'' (OtherSql e)),
                  next_call ((next_call (next_call c))\<lparr>c_db := encode E ?b\<rparr>))
              | None \<Rightarrow> if t < rec_updated_at w then (Inl (update_error ''complete materialization''
                    (ConstraintViolation (ForeignError ''workspace timestamp regressed''))),
                      next_call ((next_call (next_call c))\<lparr>c_db := encode E ?b\<rparr>))
                else st_bind (read_workspace E i) (\<lambda>ready.
                       st_lift (ok_or ready (port_error_conflict ''read Ready Workspace'' ExpectedState)))
                   ((next_call ((next_call (next_call c))\<lparr>c_db := encode E ?b\<rparr>))\<lparr>c_db := encode E ?m\<rparr>)))"
          using quiet0 Some 3(1) no_ex db ins upd
          by (simp add: body_def read db_execute_def abort_def split: option.splits)
        let ?c3 = "(next_call ((next_call (next_call c))\<lparr>c_db := encode E ?b\<rparr>))\<lparr>c_db := encode E ?m\<rparr>"
        have end_read: "body_ok E a (st_bind (read_workspace E i) (\<lambda>ready.
              st_lift (ok_or ready (port_error_conflict ''read Ready Workspace'' ExpectedState))) ?c3)
            (Ok (moved WsReady None t w), ?m)" if "rec_updated_at w \<le> t"
          using read_workspace_faults[OF U wsm[OF that], of ?c3 i] final
          by (cases "env_fault E (c_tick ?c3)")
            (simp_all add: st_bind_def st_lift_def fault_not_quiet body_faulted body_done)
        show ?thesis
        proof (cases "env_fault E (Suc (c_tick c))")
          case (Some e)
          then show ?thesis unfolding start by (simp add: fault_not_quiet body_faulted)
        next
          case quiet1: None
          show ?thesis
          proof (cases "?J document")
            case False
            then show ?thesis unfolding start spec using quiet1
              by (simp add: update_error_def body_refused)
          next
            case True
            show ?thesis
            proof (cases "env_fault E (Suc (Suc (c_tick c)))")
              case (Some e)
              then show ?thesis unfolding start using quiet1 True by (simp add: fault_not_quiet body_faulted)
            next
              case None
              show ?thesis
              proof (cases "t < rec_updated_at w")
                case True
                then show ?thesis unfolding start spec using quiet1 \<open>?J document\<close> None
                  by (simp add: update_error_def body_refused)
              next
                case False
                then show ?thesis unfolding start spec using quiet1 \<open>?J document\<close> None end_read by simp
              qed
            qed
          qed
        qed
      qed
    qed
  qed
qed

lemma complete_materialization_refines:
  assumes U: "uuid_ok (env_uuid E)" and a: "spec_ok (env_uuid E) a" and db: "c_db c = encode E a"
    and t: "valid_millis t"
    and doc: "json_to_string (env_json E) (final_receipt_json (env_uuid E) rc) = Ok document"
  shows "outcome_ok E a (complete_materialization E i plan rc t c)
    (spec_complete (json_valid (env_json E)) document i plan rc t a)"
proof -
  have "complete_materialization E i plan rc t c
    = in_transaction E ''begin final receipt transaction'' ''commit final receipt transaction''
        (completion_body E i plan rc document t) c"
    by (simp add: complete_materialization_def doc)
  moreover have "body_ok E a (completion_body E i plan rc document t (next_call c))
      (spec_complete (json_valid (env_json E)) document i plan rc t a)"
    by (rule completion_body_refines[OF U a _ t]) (simp add: db)
  ultimately show ?thesis using in_transaction_refines[OF db] by simp
qed

subsection \<open>Completion of a deletion\<close>

definition forget_value :: "'a spec_result \<Rightarrow> unit spec_result" where
  "forget_value r = map_prod (map_sum id (\<lambda>_. ())) id r"

lemma forget_value_simps [simp]:
  "forget_value (Inr x, a) = (Inr (), a)" "forget_value (Inl e, a) = (Inl e, a)"
  by (simp_all add: forget_value_def)

definition remove_workspace :: "workspace_id \<Rightarrow> store_spec \<Rightarrow> store_spec" where
  "remove_workspace i a = a\<lparr>sp_workspaces := filter (\<lambda>w. rec_id w \<noteq> i) (sp_workspaces a),
     sp_receipts := filter (\<lambda>r. sr_workspace_id r \<noteq> i) (sp_receipts a)\<rparr>"

definition add_tombstone :: "deletion_tombstone \<Rightarrow> store_spec \<Rightarrow> store_spec" where
  "add_tombstone tomb a = a\<lparr>sp_tombstones := sp_tombstones a @ [tomb]\<rparr>"

lemma add_tombstone_sel [simp]:
  "sp_installation (add_tombstone x a) = sp_installation a"
  "sp_workspaces (add_tombstone x a) = sp_workspaces a"
  "sp_receipts (add_tombstone x a) = sp_receipts a"
  "sp_tombstones (add_tombstone x a) = sp_tombstones a @ [x]"
  "lookup (add_tombstone x a) = lookup a"
  by (simp_all add: add_tombstone_def lookup_def fun_eq_iff)

lemma find_deleting_row:
  assumes U: "uuid_ok (env_uuid E)" and db: "c_db c = encode E a" and quiet0: "env_fault E (c_tick c) = None"
  shows "db_query E oper (\<lambda>db. map_option (\<lambda>w. (wr_instance_id w, wr_state w))
      (find (\<lambda>w. wr_workspace_id w = workspace_id_to_string (env_uuid E) i) (db_workspaces db))) c
    = (Ok (map_option (\<lambda>w. (instance_id_to_string (env_uuid E) (res_instance_id (rec_reservation w)),
        workspace_state_as_str (rec_state w))) (lookup a i)), next_call c)"
  using find_workspace_row[OF uuid_okD(1)[OF U], of i "sp_workspaces a"] quiet0
  by (simp add: lookup_def option.map_comp comp_def db_query_def db)

lemma deletion_body_refines:
  assumes U: "uuid_ok (env_uuid E)" and a: "spec_ok (env_uuid E) a" and db: "c_db c = encode E a"
    and t: "valid_millis t"
  shows "body_ok E a (deletion_body E i iid t c) (forget_value (spec_complete_deletion i iid t a))"
proof (cases "env_fault E (c_tick c)")
  case (Some e)
  then show ?thesis by (simp add: deletion_body_def Let_def st_bind_def db_query_def fault_not_quiet body_faulted)
next
  case quiet0: None
  note body_def = deletion_body_def Let_def st_bind_def st_fail_def find_deleting_row[OF U db quiet0]
  note inj = id_text_inject[OF uuid_okD(1)[OF U]]
  show ?thesis
  proof (cases "lookup a i")
    case None
    then show ?thesis by (simp add: body_def spec_complete_deletion_def body_refused)
  next
    case (Some w)
    then have inst: "res_instance_id (rec_reservation w) = spec_instance a"
      using spec_ok_workspaces[OF a] by (auto simp: lookup_def workspaces_ok_def dest: find_Some_mem)
    consider "iid \<noteq> spec_instance a" | "iid = spec_instance a" "rec_state w \<noteq> Deleting"
      | "iid = spec_instance a" "rec_state w = Deleting" by blast
    then show ?thesis
    proof cases
      case 1
      then show ?thesis using Some inst
        by (simp add: body_def spec_complete_deletion_def body_refused inj eq_commute[of iid])
    next
      case 2
      then show ?thesis using Some inst
        by (simp add: body_def spec_complete_deletion_def body_refused inj)
    next
      case 3
      let ?tomb = "\<lparr>tomb_workspace_id = i, tomb_instance_id = iid, tomb_deleted_at = t\<rparr>"
      let ?b = "add_tombstone ?tomb a"
      let ?m = "remove_workspace i ?b"
      have ins: "insert_tombstone \<lparr>tr_workspace_id = workspace_id_to_string (env_uuid E) i,
          tr_instance_id = instance_id_to_string (env_uuid E) (spec_instance a), tr_deleted_at = millis t\<rparr> (encode E a)
          = Ok (1, encode E ?b)"
        using insert_tombstone_encode[OF U a t Some 3(2)] 3(1) by (simp add: add_tombstone_def)
      have dist: "distinct (map rec_id (sp_workspaces ?b))"
        using spec_ok_workspaces[OF a] by (simp add: workspaces_ok_def)
      have del: "delete_workspace (workspace_id_to_string (env_uuid E) i) (encode E ?b) = Ok (1, encode E ?m)"
        using delete_workspace_encode[OF U dist, of i w ?tomb] Some 3 inst
        by (simp add: remove_workspace_def)
      have spec: "forget_value (spec_complete_deletion i iid t a) = (Inr (), ?m)"
        using Some 3 by (simp add: spec_complete_deletion_def Let_def remove_workspace_def add_tombstone_def)
      show ?thesis unfolding spec using Some 3 inst ins del
        by (cases "env_fault E (Suc (c_tick c))"; cases "env_fault E (Suc (Suc (c_tick c)))")
          (simp_all add: body_def db db_execute_def st_return_def fault_not_quiet body_faulted body_done)
    qed
  qed
qed

lemma complete_deletion_refines:
  assumes U: "uuid_ok (env_uuid E)" and a: "spec_ok (env_uuid E) a" and db: "c_db c = encode E a"
    and t: "valid_millis t"
  shows "outcome_ok E a (complete_deletion E i iid t c) (spec_complete_deletion i iid t a)"
proof -
  let ?tomb = "\<lparr>tomb_workspace_id = i, tomb_instance_id = iid, tomb_deleted_at = t\<rparr>"
  let ?run = "in_transaction E ''begin deletion transaction'' ''commit deletion transaction'' (deletion_body E i iid t) c"
  obtain s a' where spec: "spec_complete_deletion i iid t a = (s, a')" by fastforce
  have tomb: "s = Inr x \<Longrightarrow> x = ?tomb" for x
    using spec by (auto simp: spec_complete_deletion_def Let_def split: option.splits if_splits)
  have "body_ok E a (deletion_body E i iid t (next_call c)) (forget_value (s, a'))"
    unfolding spec[symmetric] by (rule deletion_body_refines[OF U a _ t]) (simp add: db)
  then have run: "outcome_ok E a ?run (forget_value (s, a'))" by (rule in_transaction_refines[OF db])
  obtain r c' where out: "?run = (r, c')" by fastforce
  show ?thesis
    unfolding spec complete_deletion_def
    using run out tomb by (cases r; cases s) (auto simp: st_bind_def st_return_def outcome_ok_def)
qed

end
