(* ===== verification/Store_Contract.thy ===== *)
theory Store_Contract
  imports Store_Refinement
begin

text \<open>
  The \<open>MetadataStore\<close> port as one machine: its requests, what the abstract store answers, and
  what holds after every history of requests with any of the calls failing.
\<close>

subsection \<open>Requests\<close>

datatype store_request =
    ReserveWorkspace workspace_reservation
  | CompleteMaterialization workspace_id materialization_plan materialization_receipt unix_millis
  | RecordFailure workspace_id workspace_state error_code unix_millis
  | BeginRemovalOf workspace_id workspace_state removal_mode unix_millis
  | CompleteDeletion workspace_id instance_id unix_millis

datatype store_reply = WorkspaceReply workspace_record | TombstoneReply deletion_tombstone

fun request_valid :: "uuid_api \<Rightarrow> store_request \<Rightarrow> bool" where
  "request_valid U (ReserveWorkspace r) = reservation_valid U r"
| "request_valid U (CompleteMaterialization i plan rc t) = valid_millis t"
| "request_valid U (RecordFailure i expected code t) = valid_millis t"
| "request_valid U (BeginRemovalOf i expected mode t) = valid_millis t"
| "request_valid U (CompleteDeletion i iid t) = valid_millis t"

definition map_reply :: "('a \<Rightarrow> 'b) \<Rightarrow> (port_error + 'a) \<times> 's \<Rightarrow> (port_error + 'b) \<times> 's" where
  "map_reply f = map_prod (map_sum id f) id"

fun run_request ::
  "store_env \<Rightarrow> installation_record \<Rightarrow> store_request \<Rightarrow> store_reply store_op" where
  "run_request E inst (ReserveWorkspace r) c = map_reply WorkspaceReply (reserve_workspace E inst r c)"
| "run_request E inst (CompleteMaterialization i plan rc t) c =
     map_reply WorkspaceReply (complete_materialization E i plan rc t c)"
| "run_request E inst (RecordFailure i expected code t) c =
     map_reply WorkspaceReply (record_failure E i expected code t c)"
| "run_request E inst (BeginRemovalOf i expected mode t) c =
     map_reply WorkspaceReply (begin_removal E i expected mode t c)"
| "run_request E inst (CompleteDeletion i iid t) c =
     map_reply TombstoneReply (complete_deletion E i iid t c)"

fun spec_request :: "uuid_api \<Rightarrow> json_api \<Rightarrow> store_request \<Rightarrow> store_spec \<Rightarrow> store_reply spec_result" where
  "spec_request U J (ReserveWorkspace r) a = map_reply WorkspaceReply (spec_reserve a r)"
| "spec_request U J (CompleteMaterialization i plan rc t) a =
     (case json_to_string J (final_receipt_json U rc) of
        Inl e \<Rightarrow> (Err (port_error_new InvalidData ''serialize final receipt''), a)
      | Inr document \<Rightarrow>
          map_reply WorkspaceReply (spec_complete (json_valid J) document i plan rc t a))"
| "spec_request U J (RecordFailure i expected code t) a =
     map_reply WorkspaceReply (spec_record_failure i expected code t a)"
| "spec_request U J (BeginRemovalOf i expected mode t) a =
     map_reply WorkspaceReply (spec_begin_removal i expected mode t a)"
| "spec_request U J (CompleteDeletion i iid t) a =
     map_reply TombstoneReply (spec_complete_deletion i iid t a)"

lemma map_reply_snd [simp]: "snd (map_reply f out) = snd out"
  by (simp add: map_reply_def)

lemma map_reply_simps [simp]:
  "map_reply f (Inl e, c) = (Inl e, c)" "map_reply f (Inr x, c) = (Inr (f x), c)"
  by (simp_all add: map_reply_def)

lemma outcome_map_reply:
  assumes "outcome_ok E a out spec"
  shows "outcome_ok E a (map_reply f out) (map_reply f spec)"
proof -
  obtain r c where out: "out = (r, c)" by fastforce
  obtain s b where spec: "spec = (s, b)" by fastforce
  show ?thesis
  proof (cases r)
    case (Inl e)
    have "visible (Inl e :: port_error + 'b) = map_sum id f s \<longleftrightarrow> visible (Inl e :: port_error + 'a) = s" for s
      by (cases s) simp_all
    then show ?thesis using assms unfolding out spec Inl
      by (simp only: outcome_ok_def map_reply_def fst_conv snd_conv map_prod_simp map_sum.simps id_apply sum.case) blast
  next
    case (Inr x)
    then show ?thesis using assms unfolding out spec Inr
      by (simp only: outcome_ok_def map_reply_def fst_conv snd_conv map_prod_simp map_sum.simps id_apply
          sum.case visible_simps) auto
  qed
qed

lemma request_refines:
  assumes U: "uuid_ok (env_uuid E)" and a: "spec_ok (env_uuid E) a" and db: "c_db c = encode E a"
    and inst: "inst = sp_installation a" and valid: "request_valid (env_uuid E) q"
  shows "outcome_ok E a (run_request E inst q c) (spec_request (env_uuid E) (env_json E) q a)"
proof (cases q)
  case (ReserveWorkspace r)
  then have "reservation_valid (env_uuid E) r" using valid by simp
  note outcome_map_reply[OF reserve_workspace_refines[OF U db this inst]]
  then show ?thesis unfolding ReserveWorkspace run_request.simps spec_request.simps .
next
  case (CompleteMaterialization i plan rc t)
  then have t: "valid_millis t" using valid by simp
  show ?thesis
  proof (cases "json_to_string (env_json E) (final_receipt_json (env_uuid E) rc)")
    case (Inl e)
    then show ?thesis unfolding CompleteMaterialization using db
      by (simp add: complete_materialization_def outcome_refused)
  next
    case (Inr document)
    note outcome_map_reply[OF complete_materialization_refines[OF U a db t Inr]]
    then show ?thesis unfolding CompleteMaterialization run_request.simps spec_request.simps Inr sum.case .
  qed
next
  case (RecordFailure i expected code t)
  then have "valid_millis t" using valid by simp
  note outcome_map_reply[OF record_failure_refines[OF U a db this]]
  then show ?thesis unfolding RecordFailure run_request.simps spec_request.simps .
next
  case (BeginRemovalOf i expected mode t)
  then have "valid_millis t" using valid by simp
  note outcome_map_reply[OF begin_removal_refines[OF U a db this]]
  then show ?thesis unfolding BeginRemovalOf run_request.simps spec_request.simps .
next
  case (CompleteDeletion i iid t)
  then have "valid_millis t" using valid by simp
  note outcome_map_reply[OF complete_deletion_refines[OF U a db this]]
  then show ?thesis unfolding CompleteDeletion run_request.simps spec_request.simps .
qed

subsection \<open>The abstract store keeps its invariant\<close>

lemma spec_reserve_ok:
  assumes a: "spec_ok U a" and r: "reservation_valid U r"
  shows "spec_ok U (snd (spec_reserve a r))"
proof (cases "res_instance_id r \<noteq> spec_instance a \<or> res_source_volume_id r \<noteq> res_target_volume_id r
    \<or> spec_conflict a r \<noteq> None")
  case True
  then show ?thesis using a by (auto simp: spec_reserve_def split: option.splits)
next
  case False
  then have ids: "res_instance_id r = spec_instance a" "res_source_volume_id r = res_target_volume_id r"
    and free: "lookup a (res_workspace_id r) = None" "\<not> tombstoned a (res_workspace_id r)"
      "\<not> list_ex (\<lambda>w. res_name (rec_reservation w) = res_name r) (sp_workspaces a)"
      "\<not> list_ex (\<lambda>w. res_target_path (rec_reservation w) = res_target_path r) (sp_workspaces a)"
    by (auto simp: spec_conflict_def split: if_splits)
  have sel: "rec_reservation (new_record r) = r" "rec_state (new_record r) = Creating"
    by (simp_all add: new_record_def)
  have "workspaces_ok U (spec_instance a) (sp_workspaces a @ [new_record r])"
    using a ids free new_record_valid[OF r]
    by (auto simp: spec_ok_def workspaces_ok_def sel lookup_def find_None_iff list_ex_iff image_iff)
  moreover have "receipts_ok (sp_workspaces a @ [new_record r]) (sp_receipts a)"
    using a by (auto simp: spec_ok_def receipts_ok_def sel)
  moreover have "tombstones_ok U (spec_instance a) (sp_workspaces a @ [new_record r]) (sp_tombstones a)"
    using a free by (auto simp: spec_ok_def tombstones_ok_def sel tombstoned_def list_ex_iff)
  ultimately show ?thesis using a False by (simp add: spec_reserve_def spec_ok_def)
qed

lemma spec_update_ok:
  assumes a: "spec_ok U a" and t: "valid_millis t" and err: "st = Error \<longleftrightarrow> err \<noteq> None"
    and st: "st \<noteq> Creating" "st \<noteq> WsReady"
  shows "spec_ok U (snd (spec_update oper i expected st err t a))"
  using assms by (auto simp: spec_update_def not_less intro: move_workspace_ok split: option.splits)

lemma ready_with_receipt_ok:
  assumes a: "spec_ok U a" and t: "valid_millis t" and w: "lookup a i = Some w" "rec_state w = Creating"
    and later: "rec_updated_at w \<le> t"
  shows "spec_ok U (move_workspace i WsReady None t (add_receipt i document t a))"
proof -
  let ?ws = "map (\<lambda>w. if rec_id w = i then moved WsReady None t w else w) (sp_workspaces a)"
  let ?rs = "sp_receipts a @ [\<lparr>sr_workspace_id = i, sr_document = document, sr_recorded_at = t\<rparr>]"
  have mem: "w \<in> set (sp_workspaces a)" "rec_id w = i"
    using w(1) by (auto simp: lookup_def dest: find_Some_mem)
  have dist: "distinct (map rec_id (sp_workspaces a))"
    using a by (simp add: spec_ok_def workspaces_ok_def)
  have only: "v \<in> set (sp_workspaces a) \<Longrightarrow> rec_id v = i \<Longrightarrow> v = w" for v
    using mem dist by (metis distinct_map inj_on_contraD)
  have rs: "receipts_ok (sp_workspaces a) (sp_receipts a)" using a by (simp add: spec_ok_def)
  have fresh: "i \<notin> sr_workspace_id ` set (sp_receipts a)"
    using rs only w(2) by (fastforce simp: receipts_ok_def)
  have held: "\<exists>v \<in> set ?ws. rec_id v = sr_workspace_id r \<and> rec_state v \<noteq> Creating"
    if r: "r \<in> set ?rs" for r
  proof (cases "sr_workspace_id r = i")
    case True
    then show ?thesis using mem by (intro bexI[of _ "moved WsReady None t w"]) force+
  next
    case False
    then obtain v where "v \<in> set (sp_workspaces a)" "rec_id v = sr_workspace_id r" "rec_state v \<noteq> Creating"
      using rs r by (auto simp: receipts_ok_def)
    then show ?thesis using False by (intro bexI[of _ v]) (force simp: image_iff)+
  qed
  have covered: "rec_id v \<in> sr_workspace_id ` set ?rs" if "v \<in> set ?ws" "rec_state v = WsReady" for v
    using that rs by (auto simp: receipts_ok_def split: if_splits)
  have "receipts_ok ?ws ?rs"
    using rs fresh t held covered unfolding receipts_ok_def
    by (auto simp del: set_map simp: set_map[of sr_workspace_id])
  moreover have "workspaces_ok U (spec_instance a) ?ws"
    using a w t later by (intro move_workspaces_ok) (auto simp: spec_ok_def lookup_def)
  moreover have "rec_id ` set ?ws = rec_id ` set (sp_workspaces a)"
    unfolding set_map image_image by (intro image_cong) auto
  ultimately show ?thesis using a by (auto simp: spec_ok_def tombstones_ok_def simp del: set_map)
qed

lemma spec_complete_ok:
  assumes a: "spec_ok U a" and t: "valid_millis t"
  shows "spec_ok U (snd (spec_complete J document i plan rc t a))"
proof (cases "snd (spec_complete J document i plan rc t a) = a")
  case False
  then obtain w where "lookup a i = Some w" "rec_state w = Creating" "rec_updated_at w \<le> t"
    and b: "snd (spec_complete J document i plan rc t a)
      = move_workspace i WsReady None t (add_receipt i document t a)"
    by (auto simp: spec_complete_def move_workspace_def add_receipt_def not_less
        split: option.splits if_splits)
  then show ?thesis using a t by (simp add: ready_with_receipt_ok)
qed (simp add: a)

lemma spec_complete_deletion_ok:
  assumes a: "spec_ok U a" and t: "valid_millis t"
  shows "spec_ok U (snd (spec_complete_deletion i iid t a))"
proof (cases "snd (spec_complete_deletion i iid t a) = a")
  case False
  let ?tomb = "\<lparr>tomb_workspace_id = i, tomb_instance_id = spec_instance a, tomb_deleted_at = t\<rparr>"
  obtain w where w: "lookup a i = Some w"
    and b: "snd (spec_complete_deletion i iid t a) = remove_workspace i (add_tombstone ?tomb a)"
    using False by (auto simp: spec_complete_deletion_def Let_def remove_workspace_def add_tombstone_def
        split: option.splits if_splits)
  have mem: "w \<in> set (sp_workspaces a)" "rec_id w = i"
    using w by (auto simp: lookup_def dest: find_Some_mem)
  let ?ws = "filter (\<lambda>w. rec_id w \<noteq> i) (sp_workspaces a)"
  have "workspaces_ok U (spec_instance a) ?ws"
    using a by (auto simp: spec_ok_def workspaces_ok_def distinct_map_filter)
  moreover have "receipts_ok ?ws (filter (\<lambda>r. sr_workspace_id r \<noteq> i) (sp_receipts a))"
    using a by (fastforce simp: spec_ok_def receipts_ok_def distinct_map_filter)
  moreover have "tombstones_ok U (spec_instance a) ?ws (sp_tombstones a @ [?tomb])"
    using a mem t by (fastforce simp: spec_ok_def tombstones_ok_def workspaces_ok_def record_valid_def
        reservation_valid_def)
  ultimately show ?thesis using a unfolding b by (simp add: spec_ok_def remove_workspace_def add_tombstone_def)
qed (simp add: a)

lemma spec_request_ok:
  assumes a: "spec_ok U a" and q: "request_valid U q"
  shows "spec_ok U (snd (spec_request U J q a))"
proof (cases q)
  case (RecordFailure i expected code t)
  then show ?thesis using a q
    by (auto simp: spec_record_failure_def spec_update_ok split: sum.splits)
next
  case (BeginRemovalOf i expected mode t)
  then show ?thesis using a q
    by (auto simp: spec_begin_removal_def spec_update_ok split: sum.splits option.splits)
qed (use a q in \<open>simp_all add: spec_reserve_ok spec_complete_ok spec_complete_deletion_ok split: sum.splits\<close>)

subsection \<open>What no request undoes\<close>

text \<open>
  \<open>kept\<close>: the installation is the same, tombstones stay, a Workspace keeps its identity and
  does not go back in time until it is tombstoned, and a receipt is never changed.
\<close>

definition kept :: "store_spec \<Rightarrow> store_spec \<Rightarrow> bool" where
  "kept a b \<longleftrightarrow>
     sp_installation b = sp_installation a
     \<and> set (sp_tombstones a) \<subseteq> set (sp_tombstones b)
     \<and> (\<forall>w \<in> set (sp_workspaces a).
          (\<exists>v \<in> set (sp_workspaces b).
             rec_reservation v = rec_reservation w \<and> rec_updated_at w \<le> rec_updated_at v)
          \<or> rec_id w \<in> tomb_workspace_id ` set (sp_tombstones b))
     \<and> (\<forall>r \<in> set (sp_receipts a).
          r \<in> set (sp_receipts b) \<or> sr_workspace_id r \<in> tomb_workspace_id ` set (sp_tombstones b))"

lemma kept_refl [simp]: "kept a a"
  by (auto simp: kept_def)

lemma kept_move_workspace:
  assumes dist: "distinct (map rec_id (sp_workspaces a))"
    and w: "lookup a i = Some w" "rec_updated_at w \<le> t"
  shows "kept a (move_workspace i st err t a)"
proof -
  have mem: "w \<in> set (sp_workspaces a)" "rec_id w = i"
    using w(1) by (auto simp: lookup_def dest: find_Some_mem)
  have only: "v \<in> set (sp_workspaces a) \<Longrightarrow> rec_id v = i \<Longrightarrow> v = w" for v
    using mem dist by (metis distinct_map inj_on_contraD)
  let ?f = "\<lambda>w. if rec_id w = i then moved st err t w else w"
  have "\<exists>v \<in> set (map ?f (sp_workspaces a)).
      rec_reservation v = rec_reservation u \<and> rec_updated_at u \<le> rec_updated_at v"
    if u: "u \<in> set (sp_workspaces a)" for u
  proof (rule bexI[of _ "?f u"])
    show "?f u \<in> set (map ?f (sp_workspaces a))" using u by (simp only: set_map image_eqI)
    show "rec_reservation (?f u) = rec_reservation u \<and> rec_updated_at u \<le> rec_updated_at (?f u)"
      using only[OF u] w(2) by auto
  qed
  then show ?thesis unfolding kept_def move_workspace_sel by blast
qed

lemma kept_trans_receipt: "kept a b \<Longrightarrow> kept a (add_receipt i d t b)"
  by (auto simp: kept_def)

lemma spec_ok_distinct: "spec_ok U a \<Longrightarrow> distinct (map rec_id (sp_workspaces a))"
  by (simp add: spec_ok_def workspaces_ok_def)

lemma spec_update_kept:
  "spec_ok U a \<Longrightarrow> kept a (snd (spec_update oper i expected st err t a))"
  by (auto simp: spec_update_def not_less intro: kept_move_workspace spec_ok_distinct
      split: option.splits)

lemma spec_request_kept:
  assumes a: "spec_ok U a"
  shows "kept a (snd (spec_request U J q a))"
proof (cases q)
  case (ReserveWorkspace r)
  then show ?thesis by (auto simp: spec_reserve_def kept_def split: option.splits)
next
  case (CompleteMaterialization i plan rc t)
  have "kept a (snd (spec_complete (json_valid J) document i plan rc t a))" for document
  proof (cases "snd (spec_complete (json_valid J) document i plan rc t a) = a")
    case False
    then obtain w where "lookup a i = Some w" "rec_updated_at w \<le> t"
      and b: "snd (spec_complete (json_valid J) document i plan rc t a)
        = add_receipt i document t (move_workspace i WsReady None t a)"
      by (auto simp: spec_complete_def add_receipt_def not_less split: option.splits if_splits)
    then show ?thesis using a by (simp add: kept_trans_receipt kept_move_workspace spec_ok_distinct)
  qed simp
  then show ?thesis using CompleteMaterialization by (simp split: sum.splits)
next
  case (RecordFailure i expected code t)
  then show ?thesis using a
    by (auto simp: spec_record_failure_def spec_update_kept split: sum.splits)
next
  case (BeginRemovalOf i expected mode t)
  then show ?thesis using a
    by (auto simp: spec_begin_removal_def spec_update_kept split: sum.splits option.splits)
next
  case (CompleteDeletion i iid t)
  then show ?thesis
    by (auto simp: spec_complete_deletion_def Let_def kept_def split: option.splits)
qed

text \<open>The same on the tables.\<close>

definition tombstone_listed :: "database \<Rightarrow> string \<Rightarrow> bool" where
  "tombstone_listed db i = list_ex (\<lambda>t. tr_workspace_id t = i) (db_tombstones db)"

definition workspace_kept :: "database \<Rightarrow> workspace_row \<Rightarrow> bool" where
  "workspace_kept db w =
     (list_ex (\<lambda>v. same_identity_fields w v \<and> wr_updated_at w \<le> wr_updated_at v) (db_workspaces db)
      \<or> tombstone_listed db (wr_workspace_id w))"

definition receipt_kept :: "database \<Rightarrow> receipt_row \<Rightarrow> bool" where
  "receipt_kept db r = (r \<in> set (db_receipts db) \<or> tombstone_listed db (rr_workspace_id r))"

definition db_kept :: "database \<Rightarrow> database \<Rightarrow> bool" where
  "db_kept d e =
     (db_installation e = db_installation d
      \<and> set (db_tombstones d) \<subseteq> set (db_tombstones e)
      \<and> list_all (workspace_kept e) (db_workspaces d)
      \<and> list_all (receipt_kept e) (db_receipts d))"

lemma db_kept_refl: "db_kept d d"
  by (auto simp: db_kept_def list_all_iff workspace_kept_def receipt_kept_def list_ex_iff
      same_identity_fields_def)

lemma tombstone_listed_mono:
  "set (db_tombstones d) \<subseteq> set (db_tombstones e) \<Longrightarrow> tombstone_listed d i \<Longrightarrow> tombstone_listed e i"
  by (auto simp: tombstone_listed_def list_ex_iff)

lemma workspace_kept_trans:
  assumes w: "workspace_kept d w" and de: "db_kept d e"
  shows "workspace_kept e w"
proof (cases "tombstone_listed e (wr_workspace_id w)")
  case False
  then have "\<not> tombstone_listed d (wr_workspace_id w)"
    using de tombstone_listed_mono[of d e] by (auto simp: db_kept_def)
  then obtain v where v: "v \<in> set (db_workspaces d)" "same_identity_fields w v"
    "wr_updated_at w \<le> wr_updated_at v"
    using w by (auto simp: workspace_kept_def list_ex_iff)
  then have "workspace_kept e v" "wr_workspace_id v = wr_workspace_id w"
    using de by (auto simp: db_kept_def list_all_iff same_identity_fields_def)
  then obtain u where "u \<in> set (db_workspaces e)" "same_identity_fields v u"
    "wr_updated_at v \<le> wr_updated_at u"
    using False by (auto simp: workspace_kept_def list_ex_iff)
  then have "u \<in> set (db_workspaces e)" "same_identity_fields w u" "wr_updated_at w \<le> wr_updated_at u"
    using v by (auto simp: same_identity_fields_def)
  then show ?thesis by (auto simp: workspace_kept_def list_ex_iff)
qed (simp add: workspace_kept_def)

lemma receipt_kept_trans: "receipt_kept d r \<Longrightarrow> db_kept d e \<Longrightarrow> receipt_kept e r"
  using tombstone_listed_mono[of d e] by (auto simp: receipt_kept_def db_kept_def list_all_iff)

lemma db_kept_trans: "db_kept c d \<Longrightarrow> db_kept d e \<Longrightarrow> db_kept c e"
proof -
  assume cd: "db_kept c d" and de: "db_kept d e"
  then have "list_all (workspace_kept e) (db_workspaces c)" "list_all (receipt_kept e) (db_receipts c)"
    using workspace_kept_trans[OF _ de] receipt_kept_trans[OF _ de]
    by (simp_all add: db_kept_def list_all_iff)
  then show "db_kept c e" using cd de by (auto simp: db_kept_def)
qed

lemma tombstone_listed_encode:
  "i \<in> tomb_workspace_id ` set (sp_tombstones a) \<Longrightarrow>
   tombstone_listed (encode E a) (workspace_id_to_string (env_uuid E) i)"
  by (auto simp: tombstone_listed_def list_ex_iff)

lemma kept_encode:
  assumes "kept a b"
  shows "db_kept (encode E a) (encode E b)"
proof -
  let ?U = "env_uuid E"
  have w: "workspace_kept (encode E b) (record_row ?U w)" if w: "w \<in> set (sp_workspaces a)" for w
  proof (cases "rec_id w \<in> tomb_workspace_id ` set (sp_tombstones b)")
    case True
    then show ?thesis by (simp add: workspace_kept_def tombstone_listed_encode)
  next
    case False
    then obtain v where v: "v \<in> set (sp_workspaces b)" "rec_reservation v = rec_reservation w"
      "rec_updated_at w \<le> rec_updated_at v"
      using assms w by (auto simp: kept_def)
    then have "same_identity_fields (record_row ?U w) (record_row ?U v)"
      by (simp add: same_identity_fields_def)
    then show ?thesis using v by (auto simp: workspace_kept_def list_ex_iff)
  qed
  have r: "receipt_kept (encode E b) (stored_receipt_row ?U r)" if "r \<in> set (sp_receipts a)" for r
    using that assms by (auto simp: kept_def receipt_kept_def tombstone_listed_encode)
  show ?thesis using assms w r by (auto simp: db_kept_def kept_def list_all_iff)
qed

subsection \<open>The store as a machine\<close>

definition store_step :: "store_env \<Rightarrow> installation_record \<Rightarrow> conn \<Rightarrow> store_request \<Rightarrow> conn" where
  "store_step E inst c q = snd (run_request E inst q c)"

definition store_inv :: "store_env \<Rightarrow> installation_record \<Rightarrow> conn \<Rightarrow> bool" where
  "store_inv E inst c \<longleftrightarrow> uuid_ok (env_uuid E)
     \<and> (\<exists>a. spec_ok (env_uuid E) a \<and> sp_installation a = inst \<and> c_db c = encode E a)"

lemma outcome_db:
  "outcome_ok E a out spec \<Longrightarrow> c_db (snd out) = encode E a \<or> c_db (snd out) = encode E (snd spec)"
  by (auto simp: outcome_ok_def split: sum.splits)

lemma store_step_effect:
  assumes U: "uuid_ok (env_uuid E)" and a: "spec_ok (env_uuid E) a" "sp_installation a = inst"
    and db: "c_db c = encode E a" and q: "request_valid (env_uuid E) q"
  obtains b where "spec_ok (env_uuid E) b" "kept a b" "c_db (store_step E inst c q) = encode E b"
proof -
  let ?b = "snd (spec_request (env_uuid E) (env_json E) q a)"
  have "c_db (store_step E inst c q) = encode E a \<or> c_db (store_step E inst c q) = encode E ?b"
    unfolding store_step_def
    by (rule outcome_db[OF request_refines[OF U a(1) db a(2)[symmetric] q]])
  then show thesis
    using that[of a] that[of ?b] a(1) spec_request_ok[OF a(1) q] spec_request_kept[OF a(1)] by auto
qed

interpretation sqlite: guarded_machine "store_step E inst" "store_inv E inst"
  "\<lambda>c d. db_kept (c_db c) (c_db d)" "request_valid (env_uuid E)" for E inst
proof
  fix c q
  assume inv: "store_inv E inst c" and q: "request_valid (env_uuid E) q"
  then obtain a where a: "spec_ok (env_uuid E) a" "sp_installation a = inst" "c_db c = encode E a"
    and U: "uuid_ok (env_uuid E)" by (auto simp: store_inv_def)
  obtain b where b: "spec_ok (env_uuid E) b" "kept a b" "c_db (store_step E inst c q) = encode E b"
    using store_step_effect[OF U a q] .
  then have "sp_installation b = inst" using a(2) by (simp add: kept_def)
  then show "store_inv E inst (store_step E inst c q)" using b U by (auto simp: store_inv_def)
  show "db_kept (c_db c) (c_db (store_step E inst c q))" using a(3) b by (simp add: kept_encode)
qed (auto intro: db_kept_refl db_kept_trans)

end
