(* ===== verification/Store_Properties.thy ===== *)
theory Store_Properties
  imports Store_Contract Uuid_Instance
begin

text \<open>
  The properties of the metadata store, with a concrete installation and store for their
  witnesses: each request refines the abstract store whatever calls fail, failed requests
  change nothing, and what holds after every history.
\<close>

subsection \<open>A concrete store\<close>

definition sample_installation :: installation_record where
  "sample_installation =
     \<lparr>inst_identity = \<lparr>ii_instance_id = InstanceId sample_uuid, ii_data_root = AbsolutePath ''/d'',
        ii_volume_id = VolumeId 5\<rparr>, inst_created_at = UnixMillis 1\<rparr>"

definition sample_reservation :: workspace_reservation where
  "sample_reservation =
     \<lparr>res_workspace_id = WorkspaceId sample_uuid, res_instance_id = InstanceId sample_uuid,
      res_name = WorkspaceName ''demo'', res_source_path = AbsolutePath ''/s'',
      res_target_path = AbsolutePath ''/t'', res_source_volume_id = VolumeId 5,
      res_target_volume_id = VolumeId 5, res_allow_full_copy = True, res_created_at = UnixMillis 7\<rparr>"

definition sample_env :: "(nat \<Rightarrow> foreign_error option) \<Rightarrow> store_env" where
  "sample_env faults =
     \<lparr>env_uuid = plain_uuid, env_json = sample_json JNull, env_fault = faults,
      env_layout = (\<lambda>_. None), env_schema_v2 = [(''table'', ''workspaces'', '''', ''CREATE TABLE workspaces'')],
      env_settings = \<lparr>raw_synchronous = 2, raw_foreign_keys = 1, raw_busy_timeout = 5000\<rparr>,
      env_wal = (\<lambda>_. True)\<rparr>"

definition empty_store :: "installation_record \<Rightarrow> store_spec" where
  "empty_store inst = \<lparr>sp_installation = inst, sp_workspaces = [], sp_receipts = [], sp_tombstones = []\<rparr>"

lemma empty_store_ok: "installation_valid U inst \<Longrightarrow> spec_ok U (empty_store inst)"
  by (simp add: spec_ok_def workspaces_ok_def receipts_ok_def tombstones_ok_def empty_store_def)

lemma plain_uuid_ok: "uuid_ok plain_uuid"
  by (simp add: uuid_ok_def plain_uuid_roundtrip plain_uuid_text_format)

lemma sample_env_sel [simp]:
  "env_uuid (sample_env f) = plain_uuid" "env_fault (sample_env f) = f"
  "env_layout (sample_env f) = (\<lambda>_. None)" "env_json (sample_env f) = sample_json JNull"
  "quiet (sample_env (\<lambda>_. None))"
  by (simp_all add: sample_env_def quiet_def)

lemma sample_installation_valid: "installation_valid plain_uuid sample_installation"
proof -
  have "valid_path (AbsolutePath ''/d'')" by code_simp
  then show ?thesis
    by (simp add: installation_valid_def sample_installation_def valid_instance_id_def sample_uuid_valid
        valid_millis_def)
qed

lemma sample_reservation_valid: "reservation_valid plain_uuid sample_reservation"
proof -
  have "valid_path (AbsolutePath ''/s'')" "valid_path (AbsolutePath ''/t'')"
    "valid_workspace_name (WorkspaceName ''demo'')" by code_simp+
  then show ?thesis
    by (simp add: reservation_valid_def sample_reservation_def valid_instance_id_def valid_workspace_id_def
        sample_uuid_valid valid_millis_def)
qed

subsection \<open>Refinement\<close>

lemma outcome_quiet:
  assumes "outcome_ok E a out (Inr x, b)" "quiet E"
  shows "fst out = Inr x \<and> c_db (snd out) = encode E b"
proof -
  have "visible (fst out) = Inr x" and db: "c_db (snd out) = encode E b"
    using assms unfolding outcome_ok_def fst_conv snd_conv by blast+
  then have "fst out = Inr x" unfolding visible_def by (simp only: map_err_eq_Ok)
  with db show ?thesis by blast
qed

text \<open>
  C4. The SQLite adapter implements the abstract store.  On the tables of any well-formed
  store, with any of its calls failing, a request that succeeds gives the reply and leaves the
  tables of the abstract store's success, and one that fails leaves the old or the new store
  and nothing between; when no call fails, the answer (and the kind, operation and conflict of
  an error) and the store are exactly the abstract ones.
\<close>

theorem store_implements_contract:
  assumes "uuid_ok (env_uuid E)" "spec_ok (env_uuid E) a" "c_db c = encode E a"
    "request_valid (env_uuid E) q"
  shows "outcome_ok E a (run_request E (sp_installation a) q c) (spec_request (env_uuid E) (env_json E) q a)"
  using request_refines[OF assms(1,2,3) refl assms(4)] .

definition sample_conn :: "(nat \<Rightarrow> foreign_error option) \<Rightarrow> conn" where
  "sample_conn f = \<lparr>c_db = encode (sample_env f) (empty_store sample_installation), c_journal = ''delete'', c_tick = 0\<rparr>"

lemma sample_reserve:
  "spec_reserve (empty_store sample_installation) sample_reservation
    = (Ok (new_record sample_reservation), (empty_store sample_installation)
        \<lparr>sp_workspaces := [new_record sample_reservation]\<rparr>)"
  by (simp add: spec_reserve_def empty_store_def sample_installation_def sample_reservation_def
      spec_conflict_def lookup_def tombstoned_def)

lemma store_implements_contract_witness:
  "let out = run_request (sample_env (\<lambda>_. None)) sample_installation (ReserveWorkspace sample_reservation)
       (sample_conn (\<lambda>_. None))
   in fst out = Ok (WorkspaceReply (new_record sample_reservation))
      \<and> c_db (snd out) = encode (sample_env (\<lambda>_. None))
          ((empty_store sample_installation)\<lparr>sp_workspaces := [new_record sample_reservation]\<rparr>)"
proof -
  let ?E = "sample_env (\<lambda>_. None)"
  have "outcome_ok ?E (empty_store sample_installation)
     (run_request ?E (sp_installation (empty_store sample_installation))
        (ReserveWorkspace sample_reservation) (sample_conn (\<lambda>_. None)))
     (spec_request (env_uuid ?E) (env_json ?E) (ReserveWorkspace sample_reservation)
        (empty_store sample_installation))"
    by (rule store_implements_contract)
      (simp_all add: plain_uuid_ok empty_store_ok sample_installation_valid sample_reservation_valid
        sample_conn_def)
  moreover have "spec_request (env_uuid ?E) (env_json ?E) (ReserveWorkspace sample_reservation)
        (empty_store sample_installation)
    = (Ok (WorkspaceReply (new_record sample_reservation)),
        (empty_store sample_installation)\<lparr>sp_workspaces := [new_record sample_reservation]\<rparr>)"
    by (simp add: sample_reserve)
  moreover have "sp_installation (empty_store sample_installation) = sample_installation"
    by (simp add: empty_store_def)
  ultimately show ?thesis unfolding Let_def by (metis outcome_quiet sample_env_sel(5))
qed

subsection \<open>Failed requests\<close>

lemma reserve_workspace_atomic:
  "fst (reserve_workspace E inst r c) = Inl e \<Longrightarrow> c_db (snd (reserve_workspace E inst r c)) = c_db c"
  by (auto simp: reserve_workspace_def Let_def classify_reservation_error_def db_query_def
      workspace_record_new_def split: option.splits sum.splits prod.splits if_splits)

lemma complete_materialization_atomic:
  assumes "fst (complete_materialization E i plan rc t c) = Inl e"
  shows "c_db (snd (complete_materialization E i plan rc t c)) = c_db c"
proof (cases "json_to_string (env_json E) (final_receipt_json (env_uuid E) rc)")
  case (Inl x)
  then show ?thesis by (simp add: complete_materialization_def)
next
  case (Inr document)
  then show ?thesis using assms by (simp add: complete_materialization_def in_transaction_atomic)
qed

lemma complete_deletion_atomic:
  assumes "fst (complete_deletion E i iid t c) = Inl e"
  shows "c_db (snd (complete_deletion E i iid t c)) = c_db c"
proof -
  let ?run = "in_transaction E ''begin deletion transaction'' ''commit deletion transaction'' (deletion_body E i iid t) c"
  obtain r c' where run: "?run = (r, c')" by fastforce
  then show ?thesis using assms in_transaction_atomic[of E "''begin deletion transaction''"
      "''commit deletion transaction''" "deletion_body E i iid t" c]
    by (cases r) (auto simp: complete_deletion_def st_bind_def st_return_def)
qed

text \<open>
  C26. Reserving, completing a materialization and completing a deletion are all-or-nothing on
  every database, well-formed or not, and whatever calls fail: when one of them reports an
  error, the database file is the one it started from.
\<close>

theorem failed_requests_change_nothing:
  "(case fst (reserve_workspace E inst r c) of
      Inl _ \<Rightarrow> c_db (snd (reserve_workspace E inst r c)) = c_db c | Inr _ \<Rightarrow> True)
   \<and> (case fst (complete_materialization E i plan rc t c) of
      Inl _ \<Rightarrow> c_db (snd (complete_materialization E i plan rc t c)) = c_db c | Inr _ \<Rightarrow> True)
   \<and> (case fst (complete_deletion E i iid t c) of
      Inl _ \<Rightarrow> c_db (snd (complete_deletion E i iid t c)) = c_db c | Inr _ \<Rightarrow> True)"
  using reserve_workspace_atomic[of E inst r c] complete_materialization_atomic[of E i plan rc t c]
    complete_deletion_atomic[of E i iid t c]
  by (simp split: sum.splits)

subsection \<open>Histories\<close>

definition ready_rows_receipted :: "database \<Rightarrow> bool" where
  "ready_rows_receipted db =
     list_all (\<lambda>w. wr_state w \<noteq> ''ready''
       \<or> list_ex (\<lambda>r. rr_workspace_id r = wr_workspace_id w) (db_receipts db)) (db_workspaces db)"

definition receipts_owned :: "database \<Rightarrow> bool" where
  "receipts_owned db =
     list_all (\<lambda>r. list_ex (\<lambda>w. wr_workspace_id w = rr_workspace_id r \<and> wr_state w \<noteq> ''creating'')
       (db_workspaces db)) (db_receipts db)"

definition identities_unique :: "database \<Rightarrow> bool" where
  "identities_unique db =
     (distinct (map wr_workspace_id (db_workspaces db) @ map tr_workspace_id (db_tombstones db))
      \<and> distinct (map wr_name (db_workspaces db)) \<and> distinct (map wr_target_path (db_workspaces db)))"

lemma inj_workspace_text: "uuid_ok U \<Longrightarrow> inj (workspace_id_to_string U)"
  by (auto simp: inj_def id_text_inject[OF uuid_okD(1)])

lemma distinct_map_inj: "inj f \<Longrightarrow> distinct (map (\<lambda>x. f (k x)) xs) \<longleftrightarrow> distinct (map k xs)"
  using distinct_map[of f "map k xs"] by (auto simp: inj_def inj_on_def comp_def)

lemma encode_consistent:
  assumes U: "uuid_ok (env_uuid E)" and a: "spec_ok (env_uuid E) a"
  shows "ready_rows_receipted (encode E a)" "receipts_owned (encode E a)" "identities_unique (encode E a)"
proof -
  note inj = id_text_inject[OF uuid_okD(1)[OF U]]
  show "ready_rows_receipted (encode E a)"
    using a by (auto simp: ready_rows_receipted_def list_all_iff list_ex_iff spec_ok_def receipts_ok_def inj image_iff
        eq_commute[of "sr_workspace_id _"])
  show "receipts_owned (encode E a)"
    using a unfolding spec_ok_def receipts_ok_def
    by (auto simp: receipts_owned_def list_all_iff list_ex_iff inj)
  have "inj name_str" "inj path_bytes" by (simp_all add: inj_def)
  note injs = distinct_map_inj[OF this(1), THEN iffD2] distinct_map_inj[OF this(2), THEN iffD2]
    distinct_map_inj[OF inj_workspace_text[OF U], THEN iffD2]
  have w: "workspaces_ok (env_uuid E) (spec_instance a) (sp_workspaces a)"
    and t: "tombstones_ok (env_uuid E) (spec_instance a) (sp_workspaces a) (sp_tombstones a)"
    using a by (simp_all add: spec_ok_def)
  have disjoint: "set (map wr_workspace_id (db_workspaces (encode E a))) \<inter> set (map tr_workspace_id (db_tombstones (encode E a))) = {}"
    using t by (force simp: tombstones_ok_def inj)
  have "distinct (map wr_workspace_id (db_workspaces (encode E a)))" "distinct (map tr_workspace_id (db_tombstones (encode E a)))"
    "distinct (map wr_name (db_workspaces (encode E a)))" "distinct (map wr_target_path (db_workspaces (encode E a)))"
    using w t unfolding workspaces_ok_def tombstones_ok_def
    by (simp_all add: comp_def injs)
  then show "identities_unique (encode E a)"
    unfolding identities_unique_def distinct_append using disjoint by blast
qed

text \<open>
  C8. After every history of valid requests on a well-formed store, with any calls failing on
  the way, a Ready Workspace has its receipt, a receipt belongs to an active Workspace past
  Creating, active and tombstoned identifiers, names and target paths are unique; and compared
  with the start the installation is the same, every tombstone is still there, and every
  Workspace and receipt is still there unless its Workspace was tombstoned (a Workspace keeps
  its identity fields and its update time does not go back).
\<close>

theorem store_histories:
  assumes "uuid_ok (env_uuid E)" "spec_ok (env_uuid E) a" "c_db c = encode E a"
    "list_all (request_valid (env_uuid E)) qs"
  shows "let db = c_db (run_accepted (store_step E (sp_installation a)) c qs)
    in ready_rows_receipted db \<and> receipts_owned db \<and> identities_unique db \<and> db_kept (c_db c) db"
proof -
  have inv: "store_inv E (sp_installation a) c" using assms by (auto simp: store_inv_def)
  show ?thesis
    using sqlite.run_inv[OF inv assms(4)] sqlite.run_before[OF inv assms(4)] encode_consistent
    by (auto simp: store_inv_def Let_def)
qed

text \<open>An environment whose third call fails.\<close>

definition sample_faults :: "nat \<Rightarrow> foreign_error option" where
  "sample_faults n = (if n = 2 then Some (ForeignError ''disk'') else None)"

lemma store_histories_witness:
  "let db = c_db (run_accepted (store_step (sample_env sample_faults) sample_installation)
        (sample_conn sample_faults)
      [ReserveWorkspace sample_reservation, RecordFailure (WorkspaceId sample_uuid) Creating ControlLayout (UnixMillis 9)])
   in ready_rows_receipted db \<and> receipts_owned db \<and> identities_unique db"
proof -
  have "let db = c_db (run_accepted (store_step (sample_env sample_faults) (sp_installation (empty_store sample_installation)))
        (sample_conn sample_faults)
        [ReserveWorkspace sample_reservation, RecordFailure (WorkspaceId sample_uuid) Creating ControlLayout (UnixMillis 9)])
     in ready_rows_receipted db \<and> receipts_owned db \<and> identities_unique db
        \<and> db_kept (c_db (sample_conn sample_faults)) db"
    by (rule store_histories)
      (simp_all add: plain_uuid_ok empty_store_ok sample_installation_valid sample_reservation_valid
        sample_conn_def valid_millis_def)
  then show ?thesis by (simp add: Let_def empty_store_def)
qed

subsection \<open>Deleted identifiers\<close>

lemma tombstoned_encode:
  assumes U: "uuid_ok (env_uuid E)"
  shows "tombstone_listed (encode E a) (workspace_id_to_string (env_uuid E) i) = tombstoned a i"
  by (simp add: tombstone_listed_def tombstoned_def comp_def id_text_inject[OF uuid_okD(1)[OF U]])

lemma reserve_tombstoned_refused:
  assumes U: "uuid_ok (env_uuid E)" and db: "c_db c = encode E a" and r: "reservation_valid (env_uuid E) r"
    and tomb: "tombstoned a (res_workspace_id r)" and inst: "inst = sp_installation a"
  shows "\<exists>e. fst (reserve_workspace E inst r c) = Inl e"
proof -
  have "outcome_ok E a (reserve_workspace E inst r c) (spec_reserve a r)"
    by (rule reserve_workspace_refines[OF U db r inst])
  moreover have "fst (spec_reserve a r) \<noteq> Inr x" for x
    using tomb by (simp add: spec_reserve_def spec_conflict_def)
  ultimately show ?thesis
    by (cases "fst (reserve_workspace E inst r c)") (auto simp: outcome_ok_def)
qed

text \<open>
  C17. An identifier is used once.  Once a deletion of a Workspace has been completed, no
  reservation of its identifier ever succeeds again: not after any history of valid requests,
  and whatever calls fail before, during or after.
\<close>

theorem deleted_identifier_is_retired:
  assumes "uuid_ok (env_uuid E)" "spec_ok (env_uuid E) a" "c_db c = encode E a"
    "list_all (request_valid (env_uuid E)) qs" "valid_millis t" "reservation_valid (env_uuid E) r"
    "fst (complete_deletion E (res_workspace_id r) iid t c) = Ok tomb"
  shows "let later = run_accepted (store_step E (sp_installation a)) c
           (CompleteDeletion (res_workspace_id r) iid t # qs)
    in result_ok (fst (reserve_workspace E (sp_installation a) r later)) = None"
proof -
  let ?i = "res_workspace_id r"
  let ?c = "store_step E (sp_installation a) c (CompleteDeletion ?i iid t)"
  let ?later = "run_accepted (store_step E (sp_installation a)) ?c qs"
  have out: "outcome_ok E a (complete_deletion E ?i iid t c) (spec_complete_deletion ?i iid t a)"
    by (rule complete_deletion_refines[OF assms(1-3,5)])
  then have spec: "fst (spec_complete_deletion ?i iid t a) = Ok tomb"
    and db: "c_db ?c = encode E (snd (spec_complete_deletion ?i iid t a))"
    using assms(7) by (simp_all add: outcome_ok_def store_step_def)
  have tomb: "tombstoned (snd (spec_complete_deletion ?i iid t a)) ?i"
    using spec by (auto simp: spec_complete_deletion_def Let_def tombstoned_def
        split: option.splits if_splits)
  have inv: "store_inv E (sp_installation a) c" using assms(1-3) by (auto simp: store_inv_def)
  have inv': "store_inv E (sp_installation a) ?c" using assms(5) by (intro sqlite.step_inv[OF inv]) simp
  obtain b where b: "c_db ?later = encode E b" "sp_installation b = sp_installation a"
    using sqlite.run_inv[OF inv' assms(4)] by (auto simp: store_inv_def)
  have "set (db_tombstones (c_db ?c)) \<subseteq> set (db_tombstones (c_db ?later))"
    using sqlite.run_before[OF inv' assms(4)] by (simp add: db_kept_def)
  moreover have "tombstone_listed (c_db ?c) (workspace_id_to_string (env_uuid E) ?i)"
    using tomb by (simp only: db tombstoned_encode[OF assms(1)])
  ultimately have "tombstone_listed (c_db ?later) (workspace_id_to_string (env_uuid E) ?i)"
    by (rule tombstone_listed_mono)
  then have "tombstoned b ?i" by (simp only: b(1) tombstoned_encode[OF assms(1)])
  then obtain e where "fst (reserve_workspace E (sp_installation a) r ?later) = Inl e"
    using reserve_tombstoned_refused[OF assms(1) b(1) assms(6) _ b(2)[symmetric]] by blast
  then show ?thesis by (simp add: Let_def)
qed

definition sample_deleting :: store_spec where
  "sample_deleting = (empty_store sample_installation)
     \<lparr>sp_workspaces := [moved Deleting None (UnixMillis 8) (new_record sample_reservation)]\<rparr>"

lemma sample_deleting_ok: "spec_ok plain_uuid sample_deleting"
proof -
  have "record_valid plain_uuid (moved Deleting None (UnixMillis 8) (new_record sample_reservation))"
    using new_record_valid[OF sample_reservation_valid]
    by (rule moved_valid) (simp_all add: valid_millis_def new_record_def sample_reservation_def less_eq_unix_millis_def)
  then show ?thesis using empty_store_ok[OF sample_installation_valid]
    by (simp add: spec_ok_def sample_deleting_def empty_store_def workspaces_ok_def receipts_ok_def
        tombstones_ok_def new_record_def sample_reservation_def sample_installation_def)
qed

lemma deleted_identifier_is_retired_witness:
  "result_ok (fst (reserve_workspace (sample_env (\<lambda>_. None)) sample_installation sample_reservation
     (run_accepted (store_step (sample_env (\<lambda>_. None)) sample_installation)
        \<lparr>c_db = encode (sample_env (\<lambda>_. None)) sample_deleting, c_journal = ''delete'', c_tick = 0\<rparr>
        [CompleteDeletion (WorkspaceId sample_uuid) (InstanceId sample_uuid) (UnixMillis 9),
         ReserveWorkspace sample_reservation]))) = None"
proof -
  let ?E = "sample_env (\<lambda>_. None)"
  let ?c = "\<lparr>c_db = encode ?E sample_deleting, c_journal = ''delete'', c_tick = 0\<rparr>"
  let ?tomb = "\<lparr>tomb_workspace_id = WorkspaceId sample_uuid, tomb_instance_id = InstanceId sample_uuid,
    tomb_deleted_at = UnixMillis 9\<rparr>"
  have sel: "sp_installation sample_deleting = sample_installation"
    "res_workspace_id sample_reservation = WorkspaceId sample_uuid"
    by (simp_all add: sample_deleting_def empty_store_def sample_reservation_def)
  have "fst (spec_complete_deletion (WorkspaceId sample_uuid) (InstanceId sample_uuid) (UnixMillis 9) sample_deleting)
      = Ok ?tomb"
    by (simp add: spec_complete_deletion_def Let_def lookup_def sample_deleting_def new_record_def
        sample_reservation_def sample_installation_def empty_store_def)
  moreover have "outcome_ok ?E sample_deleting
      (complete_deletion ?E (WorkspaceId sample_uuid) (InstanceId sample_uuid) (UnixMillis 9) ?c)
      (spec_complete_deletion (WorkspaceId sample_uuid) (InstanceId sample_uuid) (UnixMillis 9) sample_deleting)"
    by (rule complete_deletion_refines)
      (simp_all add: plain_uuid_ok sample_deleting_ok valid_millis_def)
  ultimately have deleted: "fst (complete_deletion ?E (res_workspace_id sample_reservation) (InstanceId sample_uuid) (UnixMillis 9) ?c)
      = Ok ?tomb"
    using outcome_quiet[OF _ sample_env_sel(5)] sel by (metis prod.collapse)
  show ?thesis
    using deleted_identifier_is_retired[where E = ?E and a = sample_deleting and c = ?c
        and qs = "[ReserveWorkspace sample_reservation]" and r = sample_reservation, OF _ _ _ _ _ _ deleted]
    by (simp add: plain_uuid_ok sample_deleting_ok valid_millis_def sample_reservation_valid sel Let_def
        del: run_accepted.simps)
qed

end
