(* ===== verification/Store_Opening.thy ===== *)
theory Store_Opening
  imports Store_Properties
begin

text \<open>
  Opening, initializing and inspecting a database: a fresh file becomes the empty store, an
  existing one keeps its tables, a file of someone else or of another version is refused with
  its journal mode as it was, and a snapshot only ever reports what the tables hold.
\<close>

subsection \<open>Operations that leave the file alone\<close>

text \<open>The file: what its tables and header fields hold, and its journal mode.\<close>

definition file_of :: "conn \<Rightarrow> database \<times> string" where
  "file_of c = (c_db c, c_journal c)"

lemma file_of_iff: "file_of d = file_of c \<longleftrightarrow> c_db d = c_db c \<and> c_journal d = c_journal c"
  by (simp add: file_of_def)

lemma file_of_next [simp]: "file_of (next_call c) = file_of c"
  by (simp add: file_of_def)

definition preserving :: "'a store_op \<Rightarrow> bool" where
  "preserving m \<longleftrightarrow> (\<forall>c. file_of (snd (m c)) = file_of c)"

named_theorems preserving_rules \<open>operations that leave the database file unchanged\<close>

lemma preserving_file: "preserving m \<Longrightarrow> file_of (snd (m c)) = file_of c"
  by (simp add: preserving_def)

lemma preservingD: "preserving m \<Longrightarrow> c_db (snd (m c)) = c_db c"
  by (simp add: preserving_def file_of_iff)

lemma preserving_basic [preserving_rules]:
  "preserving (st_return x)" "preserving (st_fail e)" "preserving (st_lift r)"
  "preserving (db_query E oper f)" "preserving (revalidate E)"
  by (auto simp: preserving_def st_return_def st_fail_def st_lift_def db_query_def revalidate_def
      split: option.splits)

lemma preserving_journal_mode [preserving_rules]: "preserving (query_journal_mode E)"
  by (auto simp: preserving_def query_journal_mode_def split: option.splits)

lemma preserving_bind [preserving_rules]:
  "preserving m \<Longrightarrow> (\<And>x. preserving (f x)) \<Longrightarrow> preserving (st_bind m f)"
  by (auto simp: preserving_def st_bind_def split: prod.splits sum.splits) (metis snd_conv)+

lemma preserving_cases [preserving_rules]:
  "\<lbrakk>b \<Longrightarrow> preserving m; \<not> b \<Longrightarrow> preserving n\<rbrakk> \<Longrightarrow> preserving (if b then m else n)"
  "\<lbrakk>preserving m; \<And>x. preserving (g x)\<rbrakk> \<Longrightarrow> preserving (case v of None \<Rightarrow> m | Some x \<Rightarrow> g x)"
  by (auto split: option.splits)

lemma preserving_in_transaction [preserving_rules]:
  assumes "preserving m"
  shows "preserving (in_transaction E b k m)"
  unfolding preserving_def
proof
  fix c
  obtain r c' where m: "m (next_call c) = (r, c')" by fastforce
  then have "file_of c' = file_of c" using preserving_file[OF assms, of "next_call c"] by simp
  then show "file_of (snd (in_transaction E b k m c)) = file_of c"
    using m by (auto simp: in_transaction_def file_of_iff split: option.splits sum.splits)
qed

lemma preserving_rows [preserving_rules]: "preserving (collect_rows E oper rs)"
  by (induction rs) (simp_all add: preserving_rules)

lemma preserving_reads [preserving_rules]:
  "preserving (read_installation E)"
  "preserving (pragma_application_id E)" "preserving (pragma_user_version E)"
  "preserving (read_workspaces_by_workspace_id E)"
  "preserving (read_final_materialization E i v)"
  "preserving (read_schema_catalog E f)"
  "preserving (read_connection_settings E)"
  by (auto simp: read_installation_def pragma_application_id_def pragma_user_version_def
      read_workspaces_by_workspace_id_def read_final_materialization_def read_schema_catalog_def
      read_connection_settings_def intro!: preserving_rules)

lemma preserving_receipts [preserving_rules]: "preserving (collect_receipts E ws)"
  by (induction ws) (auto intro!: preserving_rules)

lemma preserving_validate [preserving_rules]: "preserving (validate_existing_database E expected)"
  by (auto simp: validate_existing_database_def validate_schema_catalog_def intro!: preserving_rules)

lemma preserving_inspect [preserving_rules]: "preserving (factory_inspect E expected)"
  by (auto simp: factory_inspect_def intro!: preserving_rules)

text \<open>Every operation but the change of the journal mode leaves that mode as it was.\<close>

definition journal_kept :: "'a store_op \<Rightarrow> bool" where
  "journal_kept m \<longleftrightarrow> (\<forall>c. c_journal (snd (m c)) = c_journal c)"

lemma journal_keptD: "journal_kept m \<Longrightarrow> m c = (r, d) \<Longrightarrow> c_journal d = c_journal c"
  unfolding journal_kept_def by (metis snd_conv)

lemma journal_kept_basic:
  "journal_kept (st_return x)" "journal_kept (db_execute E stmt h)"
  by (auto simp: journal_kept_def st_return_def db_execute_def split: option.splits sum.splits)

lemma journal_kept_bind:
  "journal_kept m \<Longrightarrow> (\<And>x. journal_kept (f x)) \<Longrightarrow> journal_kept (st_bind m f)"
  by (auto simp: journal_kept_def st_bind_def split: prod.splits sum.splits) (metis snd_conv)+

lemma journal_kept_apply: "journal_kept (apply_v2 E inst)"
  unfolding apply_v2_def by (intro journal_kept_bind journal_kept_basic)

subsection \<open>Initialization\<close>

definition initialized :: "store_env \<Rightarrow> installation_record \<Rightarrow> database \<Rightarrow> database" where
  "initialized E inst db = db
     \<lparr>db_application_id := APPLICATION_ID, db_user_version := SCHEMA_VERSION,
      db_catalog := db_catalog db @ env_schema_v2 E,
      db_installation := [installation_row_of (env_uuid E) inst]\<rparr>"

definition blank :: "database \<Rightarrow> bool" where
  "blank db = (db_application_id db = 0 \<and> db_user_version db = 0 \<and> user_table_count db = 0)"

lemma st_bind_Ok:
  "st_bind m f c = (Inr y, d) \<longleftrightarrow> (\<exists>x c'. m c = (Inr x, c') \<and> f x c' = (Inr y, d))"
  by (auto simp: st_bind_def split: prod.splits sum.splits)

lemma st_simple_Ok:
  "st_return x c = (Inr y, d) \<longleftrightarrow> y = x \<and> d = c"
  "st_fail e c = (Inr z, d) \<longleftrightarrow> False"
  "st_lift r c = (Inr z, d) \<longleftrightarrow> r = Inr z \<and> d = c"
  by (auto simp: st_return_def st_fail_def st_lift_def)

lemma db_query_Ok:
  "db_query E oper f c = (Inr y, d) \<longleftrightarrow>
     env_fault E (c_tick c) = None \<and> y = f (c_db c) \<and> d = next_call c"
  by (auto simp: db_query_def split: option.splits)

lemma db_execute_Ok:
  "db_execute E stmt h c = (Inr n, d) \<longleftrightarrow> env_fault E (c_tick c) = None
     \<and> (\<exists>db. stmt (c_db c) = Inr (n, db) \<and> d = (next_call c)\<lparr>c_db := db\<rparr>)"
  by (auto simp: db_execute_def split: option.splits sum.splits)

lemmas st_Ok = st_bind_Ok st_simple_Ok db_query_Ok db_execute_Ok

lemma create_schema_Ok: "create_schema schema db = Inr (n, db') \<Longrightarrow> db' = db\<lparr>db_catalog := db_catalog db @ schema\<rparr>"
  by (auto simp: create_schema_def split: if_splits)

lemma insert_installation_Ok:
  "insert_installation r db = Inr (n, db') \<Longrightarrow> db' = db\<lparr>db_installation := [r]\<rparr>"
  by (auto simp: insert_installation_def abort_def split: if_splits)

lemma apply_v2_Ok:
  "apply_v2 E inst c = (Inr x, d) \<Longrightarrow> c_db d = initialized E inst (c_db c)"
  by (auto simp: apply_v2_def st_Ok initialized_def dest!: create_schema_Ok insert_installation_Ok)

lemma initialize_effect:
  assumes "initialize_empty_database E inst c = (r, d)"
  shows "c_journal d = c_journal c
    \<and> c_db d = (case r of Inl _ \<Rightarrow> c_db c | Inr _ \<Rightarrow> initialized E inst (c_db c))"
proof -
  obtain q c' where body: "apply_v2 E inst (next_call c) = (q, c')" by fastforce
  then have "c_journal c' = c_journal c" using journal_keptD[OF journal_kept_apply body] by simp
  moreover have "q = Inr x \<Longrightarrow> c_db c' = initialized E inst (c_db c)" for x
    using body apply_v2_Ok[of E inst "next_call c"] by simp
  ultimately show ?thesis using body assms
    by (cases q) (auto simp: initialize_empty_database_def in_transaction_def split: option.splits)
qed

text \<open>Weakest preconditions of the operations, for opening.\<close>

definition ends :: "'a store_op \<Rightarrow> conn \<Rightarrow> ((port_error + 'a) \<Rightarrow> conn \<Rightarrow> bool) \<Rightarrow> bool" where
  "ends m c P \<longleftrightarrow> P (fst (m c)) (snd (m c))"

lemma ends_bind:
  assumes "\<And>e d. m c = (Inl e, d) \<Longrightarrow> P (Inl e) d" "\<And>x d. m c = (Inr x, d) \<Longrightarrow> ends (f x) d P"
  shows "ends (st_bind m f) c P"
  using assms by (auto simp: ends_def st_bind_def split: prod.splits sum.splits)

lemma st_bind_assoc: "st_bind (st_bind m f) g = st_bind m (\<lambda>x. st_bind (f x) g)"
  by (rule ext) (simp add: st_bind_def split: prod.split sum.split)

lemma ends_return: "P (Inr x) c \<Longrightarrow> ends (st_return x) c P"
  by (simp add: ends_def st_return_def)

lemma ends_lift_bind:
  assumes "\<And>e. r = Inl e \<Longrightarrow> P (Inl e) c" "\<And>x. r = Inr x \<Longrightarrow> ends (f x) c P"
  shows "ends (st_bind (st_lift r) f) c P"
  using assms by (auto simp: ends_def st_bind_def st_lift_def split: sum.splits)

lemma ends_preserving_bind:
  assumes "preserving m" "\<And>e d. file_of d = file_of c \<Longrightarrow> P (Inl e) d"
    "\<And>x d. m c = (Inr x, d) \<Longrightarrow> file_of d = file_of c \<Longrightarrow> ends (f x) d P"
  shows "ends (st_bind m f) c P"
  by (rule ends_bind) (use assms preserving_file[OF assms(1), of c] in simp_all)

lemma ends_query_bind:
  assumes "\<And>e d. file_of d = file_of c \<Longrightarrow> P (Inl e) d"
    "\<And>d. file_of d = file_of c \<Longrightarrow> ends (g (f (c_db c))) d P"
  shows "ends (st_bind (db_query E oper f) g) c P"
  by (rule ends_preserving_bind) (use assms in \<open>auto simp: db_query_Ok intro: preserving_rules\<close>)

subsection \<open>Whose database it is\<close>

definition compatible :: "store_env \<Rightarrow> database \<Rightarrow> bool" where
  "compatible E db =
     (db_application_id db = APPLICATION_ID \<and> db_user_version db = SCHEMA_VERSION
      \<and> schema_catalog (db_catalog db) = schema_catalog (env_schema_v2 E))"

text \<open>What the installation row holds, if it decodes, and that it holds the identity asked for.\<close>

definition stored_installation :: "store_env \<Rightarrow> database \<Rightarrow> installation_record option" where
  "stored_installation E db =
     (case db_installation db of
        [] \<Rightarrow> None
      | r # _ \<Rightarrow> result_ok (decode_installation (env_uuid E) r))"

definition owned :: "store_env \<Rightarrow> installation_record \<Rightarrow> database \<Rightarrow> bool" where
  "owned E inst db \<longleftrightarrow> map_option inst_identity (stored_installation E db) = Some (inst_identity inst)"

lemma require_identity_Ok: "require_identity actual inst = Inr x \<longleftrightarrow> inst_identity actual = inst_identity inst"
  by (simp add: require_identity_def)

lemma read_installation_stored:
  "read_installation E c = (Inr actual, d) \<Longrightarrow> stored_installation E (c_db c) = Some actual"
  by (cases "db_installation (c_db c)") (auto simp: read_installation_def st_Ok stored_installation_def)

lemma read_installation_owned:
  assumes "read_installation E c = (Inr actual, d)"
  shows "owned E inst (c_db c) \<longleftrightarrow> inst_identity actual = inst_identity inst"
  using read_installation_stored[OF assms] by (simp add: owned_def)

lemma validate_Ok:
  assumes "validate_existing_database E expected c = (Inr x, d)"
  shows "compatible E (c_db c)" "owned E expected (c_db c)"
  using assms
  by (auto simp: validate_existing_database_def validate_schema_catalog_def read_schema_catalog_def
      pragma_application_id_def pragma_user_version_def st_Ok compatible_def require_identity_Ok
      dest: read_installation_owned split: if_splits)

lemma database_action_cases:
  "database_action a u n = Inr fresh \<Longrightarrow> fresh = (a = 0 \<and> u = 0 \<and> n = 0)"
  by (auto simp: database_action_def APPLICATION_ID_def split: if_splits)

subsection \<open>The journal mode\<close>

lemma wal_lowercase: "to_ascii_lowercase ''wal'' = ''wal''"
  by (simp add: to_ascii_lowercase_def)

lemma query_journal_mode_Ok:
  "query_journal_mode E c = (Inr j, d) \<longleftrightarrow> env_fault E (c_tick c) = None \<and> j = c_journal c \<and> d = next_call c"
  by (auto simp: query_journal_mode_def split: option.splits)

lemma settings_Ok:
  "read_connection_settings E c = (Inr settings, d) \<Longrightarrow>
     set_journal_mode settings = to_ascii_lowercase (c_journal c)"
  by (auto simp: read_connection_settings_def st_Ok query_journal_mode_Ok)

lemma verify_settings_Ok:
  "verify_connection_settings settings ms = Inr x \<Longrightarrow> set_journal_mode settings = ''wal''"
  by (auto simp: verify_connection_settings_def split: if_splits)

lemma ends_journal_bind:
  assumes "\<And>e d. c_db d = c_db c \<Longrightarrow> c_journal d \<in> {c_journal c, ''wal''} \<Longrightarrow> P (Inl e) d"
    "\<And>x d. c_db d = c_db c \<Longrightarrow> c_journal d \<in> {c_journal c, ''wal''} \<Longrightarrow> ends (f x) d P"
  shows "ends (st_bind (update_journal_mode E) f) c P"
  by (rule ends_bind) (use assms in \<open>auto simp: update_journal_mode_def Let_def split: option.splits\<close>)

text \<open>What configuring leaves of the connection \<open>c\<close>.\<close>

definition configured :: "conn \<Rightarrow> (port_error + unit) \<Rightarrow> conn \<Rightarrow> bool" where
  "configured c r d \<longleftrightarrow> c_db d = c_db c \<and> c_journal d \<in> {c_journal c, ''wal''}
     \<and> (case r of Inl _ \<Rightarrow> True | Inr _ \<Rightarrow> to_ascii_lowercase (c_journal d) = ''wal'')"

lemma configure_ends: "ends (configure_connection E timeout) c (configured c)"
proof -
  have same: "configured c (Inl e) d" if "file_of d = file_of c" for e d
    using that by (simp add: configured_def file_of_iff)
  have later: "configured c (Inl e) d"
    if "c_db d1 = c_db c" "c_journal d1 \<in> {c_journal c, ''wal''}" "file_of d = file_of d1" for e d d1
    using that by (simp add: configured_def file_of_iff)
  have check: "ends (st_lift (verify_connection_settings settings ms)) d (configured c)"
    if "set_journal_mode settings = to_ascii_lowercase (c_journal d)" "c_db d = c_db c"
      "c_journal d \<in> {c_journal c, ''wal''}" for settings ms d
    using that verify_settings_Ok[of settings ms]
    by (cases "verify_connection_settings settings ms") (auto simp: ends_def st_lift_def configured_def)
  show ?thesis unfolding configure_connection_def
  proof (rule ends_lift_bind)
    show "configured c (Inl e) c" for e by (rule same) simp
  next
    fix ms :: int
    show "ends (st_bind (db_query E ''set SQLite busy timeout'' (\<lambda>_. ())) (\<lambda>_.
        st_bind (update_journal_mode E) (\<lambda>_.
        st_bind (db_query E ''set SQLite synchronous mode'' (\<lambda>_. ())) (\<lambda>_.
        st_bind (db_query E ''enable SQLite foreign keys'' (\<lambda>_. ())) (\<lambda>_.
        st_bind (read_connection_settings E) (\<lambda>settings.
          st_lift (verify_connection_settings settings ms)))))) ) c (configured c)"
      by (rule ends_query_bind, erule same, rule ends_journal_bind, simp add: configured_def file_of_iff,
          rule ends_query_bind, simp add: configured_def file_of_iff, rule ends_query_bind,
          simp add: configured_def file_of_iff, rule ends_preserving_bind, rule preserving_reads,
          simp add: configured_def file_of_iff, rule check)
        (auto simp: file_of_iff dest: settings_Ok)
  qed
qed

lemma configure_cases:
  "configure_connection E timeout c = (r, d) \<Longrightarrow> configured c r d"
  using configure_ends[of E timeout c] by (simp add: ends_def)

lemma configure_db: "configure_connection E timeout c = (r, d) \<Longrightarrow> c_db d = c_db c"
  by (auto dest: configure_cases simp: configured_def)

subsection \<open>What opening guarantees\<close>

text \<open>
  A file that is not blank, opened as \<open>c\<close>: it is unchanged, or it is a database of this
  version and of this installation, its tables are unchanged and it now records the
  write-ahead log.
\<close>

definition reopened ::
  "store_env \<Rightarrow> installation_record \<Rightarrow> conn \<Rightarrow> (port_error + installation_record) \<Rightarrow> conn \<Rightarrow> bool" where
  "reopened E inst c r d \<longleftrightarrow>
     (file_of d = file_of c
      \<or> compatible E (c_db c) \<and> owned E inst (c_db c) \<and> file_of d = (c_db c, ''wal''))
     \<and> (case r of
          Inl _ \<Rightarrow> True
        | Inr actual \<Rightarrow> inst_identity actual = inst_identity inst \<and> compatible E (c_db c)
            \<and> stored_installation E (c_db c) = Some actual \<and> to_ascii_lowercase (c_journal d) = ''wal'')"

text \<open>A blank file: its tables are unchanged or complete, and complete when opening succeeds.\<close>

definition made_fresh ::
  "store_env \<Rightarrow> installation_record \<Rightarrow> conn \<Rightarrow> (port_error + installation_record) \<Rightarrow> conn \<Rightarrow> bool" where
  "made_fresh E inst c r d \<longleftrightarrow>
     c_db d \<in> {c_db c, initialized E inst (c_db c)} \<and> c_journal d \<in> {c_journal c, ''wal''}
     \<and> (case r of
          Inl _ \<Rightarrow> True
        | Inr actual \<Rightarrow> inst_identity actual = inst_identity inst
            \<and> c_db d = initialized E inst (c_db c) \<and> stored_installation E (c_db d) = Some actual
            \<and> to_ascii_lowercase (c_journal d) = ''wal'')"

definition opened ::
  "store_env \<Rightarrow> installation_record \<Rightarrow> conn \<Rightarrow> (port_error + installation_record) \<Rightarrow> conn \<Rightarrow> bool" where
  "opened E inst c r d \<longleftrightarrow> (if blank (c_db c) then made_fresh E inst c r d else reopened E inst c r d)"

lemma reopened_error: "file_of d = file_of c \<Longrightarrow> reopened E inst c (Inl e) d"
  by (simp add: reopened_def)

lemma opened_error: "file_of d = file_of c \<Longrightarrow> opened E inst c (Inl e) d"
  by (simp add: opened_def reopened_def made_fresh_def file_of_iff)

text \<open>The moment after the connection of a validated database was configured.\<close>

definition ready_again :: "store_env \<Rightarrow> installation_record \<Rightarrow> conn \<Rightarrow> conn \<Rightarrow> bool" where
  "ready_again E inst c d \<longleftrightarrow> compatible E (c_db c) \<and> owned E inst (c_db c) \<and> c_db d = c_db c
     \<and> c_journal d \<in> {c_journal c, ''wal''} \<and> to_ascii_lowercase (c_journal d) = ''wal''"

lemma ready_again_file: "ready_again E inst c d \<Longrightarrow> file_of d' = file_of d \<Longrightarrow> ready_again E inst c d'"
  by (simp add: ready_again_def file_of_iff)

lemma ready_again_reopened:
  assumes "ready_again E inst c d"
  shows "reopened E inst c (Inl e) d"
    "stored_installation E (c_db c) = Some actual \<Longrightarrow> reopened E inst c (Inr actual) d"
  using assms by (auto simp: ready_again_def reopened_def file_of_def owned_def)

lemma ends_validated_bind:
  assumes "file_of c' = file_of c" "\<And>e d. reopened E inst c (Inl e) d \<Longrightarrow> P (Inl e) d"
    "\<And>x d. ready_again E inst c d \<Longrightarrow> ends (f x) d P"
  shows "ends (st_bind (validate_existing_database E inst) (\<lambda>_. st_bind (configure_connection E timeout) f)) c' P"
proof (rule ends_preserving_bind)
  show "P (Inl e) d" if "file_of d = file_of c'" for e d
    using that assms(1) by (intro assms(2) reopened_error) simp
next
  fix x d assume "validate_existing_database E inst c' = (Inr x, d)" and d: "file_of d = file_of c'"
  then have ok: "compatible E (c_db c)" "owned E inst (c_db c)"
    using validate_Ok[of E inst c' x d] assms(1) by (simp_all add: file_of_iff)
  show "ends (st_bind (configure_connection E timeout) f) d P"
  proof (rule ends_bind)
    fix e d' assume "configure_connection E timeout d = (Inl e, d')"
    from configure_cases[OF this] show "P (Inl e) d'"
      using ok d assms(1) by (intro assms(2)) (auto simp: configured_def reopened_def file_of_def)
  next
    fix u d' assume "configure_connection E timeout d = (Inr u, d')"
    from configure_cases[OF this] show "ends (f u) d' P"
      using ok d assms(1) by (intro assms(3)) (auto simp: configured_def ready_again_def file_of_iff)
  qed
qed (rule preserving_rules)

lemma existing_branch_ends:
  assumes "file_of c' = file_of c"
  shows "ends (st_bind (st_bind (validate_existing_database E inst) (\<lambda>_.
       st_bind (configure_connection E timeout) (\<lambda>_. read_installation E))) (\<lambda>actual.
     st_bind (st_lift (require_identity actual inst)) (\<lambda>_. st_return actual))) c' (reopened E inst c)"
proof -
  let ?finish = "\<lambda>actual. st_bind (st_lift (require_identity actual inst)) (\<lambda>_. st_return actual)"
  have read: "ends (st_bind (read_installation E) ?finish) d (reopened E inst c)"
    if "ready_again E inst c d" for d
  proof (rule ends_preserving_bind, rule preserving_rules)
    show "reopened E inst c (Inl e) d'" if "file_of d' = file_of d" for e d'
      by (rule ready_again_reopened(1)[OF ready_again_file[OF \<open>ready_again E inst c d\<close> that]])
  next
    fix actual d' assume run: "read_installation E d = (Inr actual, d')" and "file_of d' = file_of d"
    note ready = ready_again_file[OF that this(2)]
    have "stored_installation E (c_db c) = Some actual"
      using read_installation_stored[OF run] that by (simp add: ready_again_def)
    then show "ends (?finish actual) d' (reopened E inst c)"
      by (intro ends_lift_bind ends_return ready_again_reopened[OF ready]) simp_all
  qed
  show ?thesis unfolding st_bind_assoc by (rule ends_validated_bind[OF assms _ read])
qed

lemma fresh_branch_ends:
  assumes same: "file_of c' = file_of c"
  shows "ends (st_bind (st_bind (configure_connection E timeout) (\<lambda>_.
       st_bind (initialize_empty_database E inst) (\<lambda>_. read_installation E))) (\<lambda>actual.
     st_bind (st_lift (require_identity actual inst)) (\<lambda>_. st_return actual))) c' (made_fresh E inst c)"
proof -
  let ?finish = "\<lambda>actual. st_bind (st_lift (require_identity actual inst)) (\<lambda>_. st_return actual)"
  let ?done = "\<lambda>d. c_db d = initialized E inst (c_db c) \<and> c_journal d \<in> {c_journal c, ''wal''}
    \<and> to_ascii_lowercase (c_journal d) = ''wal''"
  have read: "ends (st_bind (read_installation E) ?finish) d (made_fresh E inst c)" if "?done d" for d
  proof (rule ends_preserving_bind, rule preserving_rules)
    show "made_fresh E inst c (Inl e) d'" if "file_of d' = file_of d" for e d'
      using that \<open>?done d\<close> by (simp add: made_fresh_def file_of_iff)
  next
    fix actual d' assume run: "read_installation E d = (Inr actual, d')" and "file_of d' = file_of d"
    then have d': "?done d'" "stored_installation E (c_db d') = Some actual"
      using that read_installation_stored[OF run] by (simp_all add: file_of_iff)
    show "ends (?finish actual) d' (made_fresh E inst c)"
      using d' by (intro ends_lift_bind ends_return) (simp_all add: made_fresh_def require_identity_Ok)
  qed
  have init: "ends (st_bind (initialize_empty_database E inst) (\<lambda>_. st_bind (read_installation E) ?finish)) d
      (made_fresh E inst c)" if "configured c' (Inr u) d" for u d
  proof (rule ends_bind)
    fix e d' assume "initialize_empty_database E inst d = (Inl e, d')"
    from initialize_effect[OF this] show "made_fresh E inst c (Inl e) d'"
      using that same by (simp add: made_fresh_def configured_def file_of_iff)
  next
    fix x d' assume "initialize_empty_database E inst d = (Inr x, d')"
    from initialize_effect[OF this] show "ends (st_bind (read_installation E) ?finish) d' (made_fresh E inst c)"
      using that same by (intro read) (simp add: configured_def file_of_iff)
  qed
  have "ends (st_bind (configure_connection E timeout)
      (\<lambda>_. st_bind (initialize_empty_database E inst) (\<lambda>_. st_bind (read_installation E) ?finish))) c' (made_fresh E inst c)"
  proof (rule ends_bind)
    fix e d assume "configure_connection E timeout c' = (Inl e, d)"
    from configure_cases[OF this] show "made_fresh E inst c (Inl e) d"
      using same by (simp add: made_fresh_def configured_def file_of_iff)
  qed (rule init, erule configure_cases)
  then show ?thesis unfolding st_bind_assoc .
qed

lemma open_or_initialize_ends: "ends (open_or_initialize E inst timeout) c' (opened E inst c)"
  if "file_of c' = file_of c"
  unfolding open_or_initialize_def pragma_application_id_def pragma_user_version_def
proof (rule ends_query_bind, simp add: that opened_error, rule ends_query_bind, simp add: that opened_error,
    rule ends_query_bind, simp add: that opened_error, rule ends_lift_bind)
  fix d1 d2 d3 :: conn
  assume d: "file_of d1 = file_of c'" "file_of d2 = file_of d1" "file_of d3 = file_of d2"
  let ?action = "database_action (db_application_id (c_db c')) (db_user_version (c_db d1)) (user_table_count (c_db d2))"
  have d3: "file_of d3 = file_of c" using d that by simp
  show "opened E inst c (Inl e) d3" for e by (rule opened_error[OF d3])
  fix fresh assume "?action = Inr fresh"
  then have fresh: "fresh = blank (c_db c)"
    using d that database_action_cases by (simp add: blank_def file_of_iff)
  show "ends (st_bind (if fresh
              then st_bind (configure_connection E timeout) (\<lambda>_.
                   st_bind (initialize_empty_database E inst) (\<lambda>_. read_installation E))
              else st_bind (validate_existing_database E inst) (\<lambda>_.
                   st_bind (configure_connection E timeout) (\<lambda>_. read_installation E))) (\<lambda>actual.
     st_bind (st_lift (require_identity actual inst)) (\<lambda>_. st_return actual))) d3 (opened E inst c)"
  proof (cases "blank (c_db c)")
    case True
    then have post: "opened E inst c = made_fresh E inst c" by (intro ext) (simp add: opened_def)
    show ?thesis unfolding post fresh if_P[OF True] by (rule fresh_branch_ends[OF d3])
  next
    case False
    then have post: "opened E inst c = reopened E inst c" by (intro ext) (simp add: opened_def)
    show ?thesis unfolding post fresh if_not_P[OF False] by (rule existing_branch_ends[OF d3])
  qed
qed

lemma open_or_initialize_cases:
  "open_or_initialize E inst timeout c' = (r, d) \<Longrightarrow> file_of c' = file_of c \<Longrightarrow> opened E inst c r d"
  using open_or_initialize_ends[of c' c E inst timeout] by (simp add: ends_def)

lemma opened_file: "opened E inst c (Inr x) d \<Longrightarrow> file_of d' = file_of d
    \<Longrightarrow> opened E inst c (Inr x) d' \<and> opened E inst c (Inl e) d'"
  by (auto simp: opened_def made_fresh_def reopened_def file_of_iff file_of_def)

lemma factory_initialize_ends: "ends (factory_initialize E inst timeout) c (opened E inst c)"
proof -
  have last: "ends (st_bind (revalidate E) (\<lambda>_. st_return actual)) d (opened E inst c)"
    if "opened E inst c (Inr actual) d" for actual d
    by (rule ends_preserving_bind) (use opened_file[OF that] in \<open>auto intro: preserving_rules ends_return\<close>)
  have main: "ends (st_bind (open_or_initialize E inst timeout)
      (\<lambda>actual. st_bind (revalidate E) (\<lambda>_. st_return actual))) d (opened E inst c)"
    if "file_of d = file_of c" for d
    by (rule ends_bind) (use that in \<open>auto intro: last dest!: open_or_initialize_cases\<close>)
  show ?thesis unfolding factory_initialize_def
    by (rule ends_preserving_bind, rule preserving_rules, erule opened_error, rule ends_query_bind,
        simp add: opened_error, rule ends_preserving_bind, rule preserving_rules, simp add: opened_error,
        rule main) simp
qed

lemma open_existing_ends: "ends (factory_open_existing E inst timeout) c (reopened E inst c)"
proof -
  have read: "ends (st_bind (read_installation E) (\<lambda>actual.
      st_bind (revalidate E) (\<lambda>_. st_return actual))) d (reopened E inst c)"
    if ready: "ready_again E inst c d" for d
  proof (rule ends_preserving_bind, rule preserving_rules)
    show "reopened E inst c (Inl e) d'" if "file_of d' = file_of d" for e d'
      by (rule ready_again_reopened(1)[OF ready_again_file[OF ready that]])
  next
    fix actual d' assume run: "read_installation E d = (Inr actual, d')" and d': "file_of d' = file_of d"
    have same: "stored_installation E (c_db c) = Some actual"
      using read_installation_stored[OF run] ready by (simp add: ready_again_def)
    have result: "reopened E inst c (Inl e) d''" "reopened E inst c (Inr actual) d''" if "file_of d'' = file_of d'" for e d''
      using ready_again_reopened[OF ready_again_file[OF ready]] same that d' by simp_all
    show "ends (st_bind (revalidate E) (\<lambda>_. st_return actual)) d' (reopened E inst c)"
      by (rule ends_preserving_bind) (auto intro: preserving_rules ends_return result)
  qed
  show ?thesis unfolding factory_open_existing_def
    by (rule ends_preserving_bind, rule preserving_rules, erule reopened_error, rule ends_query_bind,
        simp add: reopened_error, rule ends_preserving_bind, rule preserving_rules, simp add: reopened_error,
        rule ends_query_bind, simp add: reopened_error, rule ends_validated_bind[where c = c])
      (simp_all add: read)
qed

lemma open_existing_cases:
  "factory_open_existing E inst timeout c = (r, d) \<Longrightarrow> reopened E inst c r d"
  using open_existing_ends[of E inst timeout c] by (simp add: ends_def)

lemma initialize_cases: "factory_initialize E inst timeout c = (r, d) \<Longrightarrow> opened E inst c r d"
  using factory_initialize_ends[of E inst timeout c] by (simp add: ends_def)

lemma reopened_db: "reopened E inst c r d \<Longrightarrow> c_db d = c_db c"
  by (auto simp: reopened_def file_of_def)

text \<open>
  C27. Opening never damages a database.  On every file, whatever calls fail and whether or not
  SQLite takes the write-ahead log: opening or initializing a blank file (no application ID, no
  schema version, no tables) leaves its tables as they were or, as it does whenever it
  succeeds, makes it a complete version-2 database of this installation, and nothing in
  between.  A file that is not blank keeps its tables; even its journal mode is as it was
  unless its application ID, schema version, schema catalog and stored identity are those
  asked for, and only such a file is opened.  A success gives the installation that the file
  holds, with the identity asked for, and a file that records the write-ahead log.  Opening an existing store treats every file, blank
  ones included, as one that is not blank, and a snapshot changes nothing, the journal mode
  included.
\<close>

theorem opening_never_damages:
  "case_prod (opened E inst c) (open_or_initialize E inst timeout c)
   \<and> case_prod (opened E inst c) (factory_initialize E inst timeout c)
   \<and> case_prod (reopened E inst c) (factory_open_existing E inst timeout c)
   \<and> file_of (snd (factory_inspect E inst c)) = file_of c"
  using open_or_initialize_ends[OF refl, of E inst timeout c] factory_initialize_ends[of E inst timeout c]
    open_existing_ends[of E inst timeout c] preserving_file[OF preserving_inspect, of E inst c]
  by (simp add: ends_def case_prod_beta)

subsection \<open>A fresh file\<close>

definition settings_good :: "store_env \<Rightarrow> nat \<Rightarrow> bool" where
  "settings_good E timeout \<longleftrightarrow>
     (\<forall>n. env_wal E n)
     \<and> raw_synchronous (env_settings E) = 2 \<and> raw_foreign_keys (env_settings E) = 1
     \<and> raw_busy_timeout (env_settings E) = int timeout \<and> timeout < 2 ^ 63"

definition yields :: "'a store_op \<Rightarrow> conn \<Rightarrow> 'a \<Rightarrow> database \<Rightarrow> bool" where
  "yields m c x db \<longleftrightarrow> (\<exists>d. m c = (Inr x, d) \<and> c_db d = db)"

lemma yields_bind:
  "yields m c x db \<Longrightarrow> (\<And>d. c_db d = db \<Longrightarrow> yields (f x) d y db') \<Longrightarrow> yields (st_bind m f) c y db'"
  by (auto simp: yields_def st_bind_def)

lemma yields_query: "quiet E \<Longrightarrow> yields (db_query E oper f) c (f (c_db c)) (c_db c)"
  by (simp add: yields_def)

lemma yields_return: "c_db c = db \<Longrightarrow> yields (st_return x) c x db"
  by (simp add: yields_def st_return_def)

lemma yields_lift: "r = Inr x \<Longrightarrow> c_db c = db \<Longrightarrow> yields (st_lift r) c x db"
  by (simp add: yields_def st_lift_def)

lemma yields_execute:
  "quiet E \<Longrightarrow> stmt (c_db c) = Inr (n, db) \<Longrightarrow> yields (db_execute E stmt h) c n db"
  by (simp add: yields_def db_execute_def quiet_def)

lemma yields_in_transaction:
  "quiet E \<Longrightarrow> (\<And>d. c_db d = c_db c \<Longrightarrow> yields m d x db) \<Longrightarrow> yields (in_transaction E b k m) c x db"
  using next_call_sel(1)[of c] by (fastforce simp: yields_def in_transaction_def quiet_def)

lemma yields_configure:
  assumes "quiet E" "settings_good E timeout"
  shows "yields (configure_connection E timeout) c () (c_db c)"
  using assms
  by (simp add: yields_def configure_connection_def read_connection_settings_def st_bind_def
      update_journal_mode_def query_journal_mode_def quiet_def wal_lowercase db_query_def Let_def
      timeout_millis_def st_lift_def st_return_def settings_good_def verify_connection_settings_def)

lemma yields_read_installation:
  assumes E: "quiet E" "uuid_ok (env_uuid E)" and inst: "installation_valid (env_uuid E) inst"
    and db: "db_installation (c_db c) = [installation_row_of (env_uuid E) inst]"
  shows "yields (read_installation E) c inst (c_db c)"
proof -
  note ids = instance_id_codec[OF uuid_okD(1)[OF E(2)], THEN text_codec.decode_encode]
    volume_id_codec[OF uuid_okD(1)[OF E(2)], THEN text_codec.decode_encode]
  show ?thesis using E inst db
    by (simp add: yields_def read_installation_def decode_installation_def st_bind_def st_lift_def installation_row_of_def
        installation_valid_def ids path_codec.decode_encode millis_codec.decode_encode)
qed

lemma installation_row_checked:
  "uuid_text_format U \<Longrightarrow> installation_valid U inst \<Longrightarrow> installation_row_check (installation_row_of U inst)"
  by (simp add: installation_row_check_def installation_row_of_def installation_valid_def
      instance_text_check volume_text_check valid_path_not_Nil valid_millis_def)

lemma initialized_empty: "initialized E inst empty_database = encode E (empty_store inst)"
  by (simp add: initialized_def empty_database_def encode_def empty_store_def)

lemma yields_initialize:
  assumes E: "quiet E" "uuid_ok (env_uuid E)" and inst: "installation_valid (env_uuid E) inst"
    and db: "c_db c = empty_database"
  shows "yields (initialize_empty_database E inst) c () (encode E (empty_store inst))"
proof -
  have check: "installation_row_check (installation_row_of (env_uuid E) inst)"
    by (rule installation_row_checked[OF uuid_okD(2)[OF E(2)] inst])
  have "yields (apply_v2 E inst) d () (initialized E inst empty_database)" if "c_db d = empty_database" for d
    unfolding apply_v2_def
    by (rule yields_bind yields_execute[OF E(1)] yields_return
        | simp add: that create_schema_def insert_installation_def check empty_database_def
            list_ex_iff initialized_def)+
  then show ?thesis unfolding initialize_empty_database_def initialized_empty[symmetric] db[symmetric]
    by (intro yields_in_transaction[OF E(1)]) (simp add: db)
qed

lemma bind_query_quiet:
  "quiet E \<Longrightarrow> st_bind (db_query E oper f) g c = g (f (c_db c)) (next_call c)"
  by (simp add: st_bind_def)

lemma encode_empty_compatible: "compatible E (encode E (empty_store inst))"
  by (simp add: compatible_def)

text \<open>A fresh file gets the schema; the store it becomes is empty.\<close>

lemma yields_fresh_open:
  assumes E: "quiet E" "uuid_ok (env_uuid E)" "settings_good E timeout"
    and inst: "installation_valid (env_uuid E) inst" and db: "c_db c = empty_database"
  shows "yields (open_or_initialize E inst timeout) c inst (encode E (empty_store inst))"
proof -
  have counts: "user_table_count empty_database = 0" "db_application_id empty_database = 0"
    "db_user_version empty_database = 0"
    by (simp_all add: user_table_count_def empty_database_def)
  let ?c = "next_call (next_call (next_call c))"
  have start: "open_or_initialize E inst timeout c =
      st_bind (st_bind (configure_connection E timeout) (\<lambda>_.
          st_bind (initialize_empty_database E inst) (\<lambda>_. read_installation E))) (\<lambda>actual.
        st_bind (st_lift (require_identity actual inst)) (\<lambda>_. st_return actual)) ?c"
    by (simp add: open_or_initialize_def pragma_application_id_def pragma_user_version_def
        bind_query_quiet[OF E(1)] db counts database_action_def)
  have conf: "yields (configure_connection E timeout) ?c () empty_database"
    using yields_configure[OF E(1,3), of ?c] by (simp add: db)
  have read: "yields (read_installation E) d inst (encode E (empty_store inst))"
    if "c_db d = encode E (empty_store inst)" for d
    using yields_read_installation[OF E(1,2) inst, of d] that by (simp add: empty_store_def)
  have init: "yields (st_bind (initialize_empty_database E inst) (\<lambda>_. read_installation E)) d inst
      (encode E (empty_store inst))" if "c_db d = empty_database" for d
    by (rule yields_bind[OF yields_initialize[OF E(1,2) inst that] read])
  have finish: "yields (st_bind (st_lift (require_identity inst inst)) (\<lambda>_. st_return inst)) d inst db'"
    if "c_db d = db'" for d db'
    using that by (simp add: yields_def require_identity_def st_return_def)
  have "yields (st_bind (st_bind (configure_connection E timeout) (\<lambda>_.
          st_bind (initialize_empty_database E inst) (\<lambda>_. read_installation E))) (\<lambda>actual.
        st_bind (st_lift (require_identity actual inst)) (\<lambda>_. st_return actual))) ?c inst
      (encode E (empty_store inst))"
    by (rule yields_bind[OF yields_bind[OF conf init]]) (assumption | rule finish)+
  then show ?thesis unfolding yields_def start .
qed

lemma yields_catalog:
  assumes "quiet E" "compatible E (c_db c)"
  shows "yields (validate_schema_catalog E) c () (c_db c)"
  using assms
  by (simp add: yields_def validate_schema_catalog_def read_schema_catalog_def st_bind_def
      compatible_def st_return_def)

lemma yields_validate:
  assumes E: "quiet E" "uuid_ok (env_uuid E)" and inst: "installation_valid (env_uuid E) inst"
    and db: "compatible E (c_db c)" "db_installation (c_db c) = [installation_row_of (env_uuid E) inst]"
    and same: "inst_identity other = inst_identity inst"
  shows "yields (validate_existing_database E other) c () (c_db c)"
proof -
  have read: "yields (read_installation E) d inst (c_db c)" if "c_db d = c_db c" for d
    using yields_read_installation[OF E inst, of d] that db(2) by simp
  have last: "yields (st_bind (read_installation E) (\<lambda>actual. st_lift (require_identity actual other))) d () (c_db c)"
    if "c_db d = c_db c" for d
    by (rule yields_bind[OF read[OF that]]) (simp add: yields_def st_lift_def require_identity_def same)
  have catalog: "yields (validate_schema_catalog E) (next_call (next_call c)) () (c_db c)"
    using yields_catalog[of E "next_call (next_call c)"] E(1) db(1) by simp
  have start: "validate_existing_database E other c = st_bind (validate_schema_catalog E) (\<lambda>_.
      st_bind (read_installation E) (\<lambda>actual. st_lift (require_identity actual other))) (next_call (next_call c))"
    using db(1) by (simp add: validate_existing_database_def pragma_application_id_def
        pragma_user_version_def bind_query_quiet[OF E(1)] compatible_def)
  have "yields (st_bind (validate_schema_catalog E) (\<lambda>_.
      st_bind (read_installation E) (\<lambda>actual. st_lift (require_identity actual other)))) (next_call (next_call c)) () (c_db c)"
    by (rule yields_bind[OF catalog last])
  then show ?thesis unfolding yields_def start .
qed

lemma yields_reopen:
  assumes E: "quiet E" "uuid_ok (env_uuid E)" "settings_good E timeout"
    and a: "installation_valid (env_uuid E) (sp_installation a)" and db: "c_db c = encode E a"
    and same: "inst_identity other = inst_identity (sp_installation a)"
  shows "yields (open_or_initialize E other timeout) c (sp_installation a) (encode E a)"
proof -
  let ?c = "next_call (next_call (next_call c))"
  have start: "open_or_initialize E other timeout c =
      st_bind (st_bind (validate_existing_database E other) (\<lambda>_.
          st_bind (configure_connection E timeout) (\<lambda>_. read_installation E))) (\<lambda>actual.
        st_bind (st_lift (require_identity actual other)) (\<lambda>_. st_return actual)) ?c"
    by (simp add: open_or_initialize_def pragma_application_id_def pragma_user_version_def
        bind_query_quiet[OF E(1)] db database_action_def APPLICATION_ID_def)
  have valid: "yields (validate_existing_database E other) ?c () (encode E a)"
    using yields_validate[OF E(1,2) a, of ?c other] same by (simp add: db compatible_def)
  have conf: "yields (configure_connection E timeout) d () (encode E a)" if "c_db d = encode E a" for d
    using yields_configure[OF E(1,3), of d] that by simp
  have read: "yields (read_installation E) d (sp_installation a) (encode E a)" if "c_db d = encode E a" for d
    using yields_read_installation[OF E(1,2) a, of d] that by simp
  have finish: "yields (st_bind (st_lift (require_identity (sp_installation a) other))
      (\<lambda>_. st_return (sp_installation a))) d (sp_installation a) (encode E a)" if "c_db d = encode E a" for d
    using that by (simp add: yields_def require_identity_def st_return_def same)
  have "yields (st_bind (st_bind (validate_existing_database E other) (\<lambda>_.
          st_bind (configure_connection E timeout) (\<lambda>_. read_installation E))) (\<lambda>actual.
        st_bind (st_lift (require_identity actual other)) (\<lambda>_. st_return actual))) ?c (sp_installation a) (encode E a)"
    by (rule yields_bind[OF yields_bind[OF valid yields_bind[OF conf read]]]) (assumption | rule finish)+
  then show ?thesis unfolding yields_def start .
qed

text \<open>
  A fresh file and a restart.  When no call fails and the connection settings are the
  required ones, opening an empty file gives this installation and the tables of the empty
  store; opening the tables of any store of the same identity again changes nothing and gives
  the installation that is stored, with its creation time, not the one passed.
\<close>

theorem fresh_then_reopened:
  assumes "quiet E" "uuid_ok (env_uuid E)" "settings_good E timeout"
    "installation_valid (env_uuid E) inst" "c_db c = empty_database"
    "spec_ok (env_uuid E) a" "sp_installation a = inst" "c_db d = encode E a"
    "inst_identity other = inst_identity inst"
  shows "yields (open_or_initialize E inst timeout) c inst (encode E (empty_store inst))
    \<and> yields (open_or_initialize E other timeout) d inst (encode E a)"
  using yields_fresh_open[OF assms(1-5)] yields_reopen[OF assms(1-3) _ assms(8)] assms by simp

lemma fresh_then_reopened_witness:
  "yields (open_or_initialize (sample_env (\<lambda>_. None)) sample_installation 5000)
     \<lparr>c_db = empty_database, c_journal = ''delete'', c_tick = 0\<rparr> sample_installation
     (encode (sample_env (\<lambda>_. None)) (empty_store sample_installation))
   \<and> yields (open_or_initialize (sample_env (\<lambda>_. None))
        (sample_installation\<lparr>inst_created_at := UnixMillis 99\<rparr>) 5000)
     \<lparr>c_db = encode (sample_env (\<lambda>_. None)) sample_deleting, c_journal = ''delete'', c_tick = 0\<rparr> sample_installation
     (encode (sample_env (\<lambda>_. None)) sample_deleting)"
proof (rule fresh_then_reopened)
  show "settings_good (sample_env (\<lambda>_. None)) 5000"
    by (simp add: settings_good_def sample_env_def)
  show "sp_installation sample_deleting = sample_installation"
    by (simp add: sample_deleting_def empty_store_def)
qed (simp_all add: plain_uuid_ok sample_installation_valid sample_deleting_ok)

subsection \<open>Snapshots\<close>

lemma collect_receipts_Ok:
  "collect_receipts E ws c = (Inr fs, d) \<Longrightarrow>
     list_all (\<lambda>w. rec_state w \<noteq> WsReady \<or> rec_id w \<in> fst ` set fs) ws
     \<and> set (map fst fs) \<subseteq> rec_id ` set ws"
proof (induction ws arbitrary: c fs)
  case (Cons w ws)
  obtain s c' where s: "read_final_materialization E (rec_id w) (res_target_volume_id (rec_reservation w)) c = (Inr s, c')"
    and rest: "(case s of
         Some s \<Rightarrow> st_bind (collect_receipts E ws) (\<lambda>fs. st_return ((rec_id w, s) # fs))
       | None \<Rightarrow> if rec_state w = WsReady
           then st_fail (port_error_new InvalidData ''Ready workspace is missing its final receipt'')
           else collect_receipts E ws) c' = (Inr fs, d)"
    using Cons.prems by (auto simp: st_bind_Ok)
  show ?case
  proof (cases s)
    case None
    then show ?thesis using rest Cons.IH[of c' fs]
      by (auto simp: st_Ok list_all_iff split: if_splits)
  next
    case (Some x)
    then obtain gs c'' where gs: "collect_receipts E ws c' = (Inr gs, c'')" "fs = (rec_id w, x) # gs"
      using rest by (auto simp: st_Ok)
    have "collect_receipts E ws c' = (Inr gs, d)" using gs rest Some by (auto simp: st_Ok)
    from Cons.IH[OF this] show ?thesis using gs(2) by (auto simp: list_all_iff)
  qed
qed (simp add: st_Ok)

lemma in_transaction_Ok:
  "in_transaction E b k m c = (Inr x, d) \<Longrightarrow> \<exists>d'. m (next_call c) = (Inr x, d')"
  by (auto simp: in_transaction_def split: option.splits prod.splits sum.splits)

definition snapshot_complete :: "metadata_snapshot \<Rightarrow> bool" where
  "snapshot_complete s =
     (list_all (\<lambda>w. rec_state w \<noteq> WsReady \<or> snapshot_final_materialization s (rec_id w) \<noteq> None)
        (ms_workspaces s)
      \<and> list_all (\<lambda>(i, _). i \<in> set (map rec_id (ms_workspaces s))) (ms_final_materializations s))"

lemma revalidate_Ok: "revalidate E c = (Inr x, d) \<longleftrightarrow> env_layout E (c_tick c) = None \<and> d = next_call c"
  by (auto simp: revalidate_def split: option.splits)

lemma snapshot_completeI:
  assumes "list_all (\<lambda>w. rec_state w \<noteq> WsReady \<or> rec_id w \<in> fst ` set fs) ws" "set (map fst fs) \<subseteq> rec_id ` set ws"
  shows "snapshot_complete (with_final_materializations fs (metadata_snapshot_new inst ws))"
proof -
  have "find (\<lambda>(i, _). i = j) fs \<noteq> None \<longleftrightarrow> j \<in> fst ` set fs" for j
    by (force simp: find_None_iff)
  then show ?thesis using assms
    by (force simp: snapshot_complete_def with_final_materializations_def metadata_snapshot_new_def
        snapshot_final_materialization_def list_all_iff)
qed

lemma inspect_Ok:
  assumes "factory_inspect E expected c = (Inr s, d)"
  shows "snapshot_complete s" "compatible E (c_db c)"
proof -
  obtain inst ws fs c0 c1 c2 x d' where fs: "collect_receipts E ws c1 = (Inr fs, c2)"
    and s: "s = with_final_materializations fs (metadata_snapshot_new inst ws)"
    and valid: "validate_existing_database E expected c0 = (Inr x, d')" and c0: "c_db c0 = c_db c"
    using assms
    by (fastforce simp: factory_inspect_def st_Ok revalidate_Ok dest!: in_transaction_Ok)
  show "snapshot_complete s" using collect_receipts_Ok[OF fs] snapshot_completeI unfolding s by blast
  show "compatible E (c_db c)" using validate_Ok[OF valid] c0 by simp
qed

text \<open>
  A snapshot writes nothing and is complete.  On every file and whatever calls fail,
  inspecting leaves the file as it was; the snapshot it returns, if any, has the final summary
  of every Ready Workspace it lists and no summary of a Workspace it does not list; and it is
  returned only for a database of this version and schema.
\<close>

theorem snapshot_is_complete:
  "c_db (snd (factory_inspect E expected c)) = c_db c
   \<and> (case fst (factory_inspect E expected c) of
        Inl _ \<Rightarrow> True
      | Inr s \<Rightarrow> snapshot_complete s \<and> compatible E (c_db c))"
proof -
  obtain r d where run: "factory_inspect E expected c = (r, d)" by fastforce
  then have "c_db d = c_db c" using preservingD[OF preserving_inspect, of E expected c] by simp
  then show ?thesis using run inspect_Ok[of E expected c] by (cases r) simp_all
qed

end
