(* ===== verification/App_Errors.thy ===== *)
theory App_Errors
  imports Metadata_Port Diagnostics Git_Report Removal_Policy
begin

text \<open>
  The failures of the use cases (\<open>UseCaseError\<close> of \<open>thinws-application/src/lib.rs\<close>): a
  public diagnostic, the port failure it came from, the receipts of the attempts made and the
  Git evidence of a refusal; and the classification of port failures by stage.
\<close>

subsection \<open>Use-case errors\<close>

record use_case_error =
  uce_diagnostic :: core_error
  uce_source :: "port_error option"
  uce_partial_receipts :: "materialization_receipt list"
  uce_git_inspection :: "git_inspection option"

abbreviation uce_code :: "use_case_error \<Rightarrow> error_code" where
  "uce_code e \<equiv> ce_code (uce_diagnostic e)"

definition semantic_error :: "error_code \<Rightarrow> string \<Rightarrow> use_case_error" where
  "semantic_error c message =
     \<lparr>uce_diagnostic = core_error_new c message, uce_source = None,
      uce_partial_receipts = [], uce_git_inspection = None\<rparr>"

text \<open>\<open>usize::to_string\<close> and \<open>bool::to_string\<close>.\<close>

fun decimal :: "nat \<Rightarrow> string" where
  "decimal n = (if n < 10 then [char_of (48 + n)] else decimal (n div 10) @ [char_of (48 + n mod 10)])"

declare decimal.simps [simp del]

definition bool_text :: "bool \<Rightarrow> string" where
  "bool_text b = (if b then ''true'' else ''false'')"

definition with_partial_receipt :: "materialization_receipt \<Rightarrow> use_case_error \<Rightarrow> use_case_error" where
  "with_partial_receipt rc e =
     (let receipts = uce_partial_receipts e @ [rc];
          incomplete = list_ex (\<lambda>r. rb_status (rc_rollback r) = rollback_status.Incomplete) receipts;
          unconfirmed = list_ex (\<lambda>r. rc_unconfirmed_staging r \<noteq> None) receipts
      in e\<lparr>uce_partial_receipts := receipts,
           uce_diagnostic :=
             core_error_with_context
               (core_error_with_context
                 (core_error_with_context (uce_diagnostic e)
                    ''materialization_attempt_count'' (context_public (decimal (length receipts))))
                 ''rollback_incomplete'' (context_public (bool_text incomplete)))
               ''unconfirmed_staging'' (context_public (bool_text unconfirmed))\<rparr>)"

definition with_workspace_id :: "uuid_api \<Rightarrow> workspace_id \<Rightarrow> use_case_error \<Rightarrow> use_case_error" where
  "with_workspace_id U w e = e\<lparr>uce_diagnostic :=
     core_error_with_context (uce_diagnostic e) ''workspace_id''
       (context_public (workspace_id_to_string U w))\<rparr>"

definition with_remediation :: "string \<Rightarrow> use_case_error \<Rightarrow> use_case_error" where
  "with_remediation r e = e\<lparr>uce_diagnostic := core_error_with_remediation (uce_diagnostic e) r\<rparr>"

definition with_git_inspection :: "git_inspection option \<Rightarrow> use_case_error \<Rightarrow> use_case_error" where
  "with_git_inspection g e = e\<lparr>uce_git_inspection := g\<rparr>"

definition with_public_context :: "string \<Rightarrow> string \<Rightarrow> use_case_error \<Rightarrow> use_case_error" where
  "with_public_context k v e = e\<lparr>uce_diagnostic :=
     core_error_with_context (uce_diagnostic e) k (context_public v)\<rparr>"

lemma uce_sel [simp]:
  "uce_code (semantic_error c m) = c"
  "uce_source (semantic_error c m) = None"
  "uce_partial_receipts (semantic_error c m) = []"
  "uce_git_inspection (semantic_error c m) = None"
  "uce_code (with_partial_receipt rc e) = uce_code e"
  "uce_source (with_partial_receipt rc e) = uce_source e"
  "uce_partial_receipts (with_partial_receipt rc e) = uce_partial_receipts e @ [rc]"
  "uce_code (with_workspace_id U w e) = uce_code e"
  "uce_source (with_workspace_id U w e) = uce_source e"
  "uce_partial_receipts (with_workspace_id U w e) = uce_partial_receipts e"
  "uce_code (with_remediation r e) = uce_code e"
  "uce_code (with_git_inspection g e) = uce_code e"
  "uce_git_inspection (with_git_inspection g e) = g"
  "uce_code (with_public_context k v e) = uce_code e"
  by (simp_all add: semantic_error_def with_partial_receipt_def with_workspace_id_def
      with_remediation_def with_git_inspection_def with_public_context_def Let_def)

subsection \<open>Classifying port failures\<close>

datatype stage = Control | Lock | Layout | Source | Metadata

text \<open>The arms of the \<open>match\<close> on the kind of failure, in their order.\<close>

definition stage_code :: "stage \<Rightarrow> port_error \<Rightarrow> error_code" where
  "stage_code st e =
     (let k = pe_kind e in
      if k = port_error_kind.Timeout then LockTimeout
      else if k = port_error_kind.CapabilityUnavailable then error_code.CapabilityUnavailable
      else if k = port_error_kind.Conflict \<and> pe_conflict e = Some TargetPath then TargetConflict
      else if k = port_error_kind.NotEmpty \<and> st = Control then ControlNotEmpty
      else if k = port_error_kind.NotEmpty \<and> st = Layout then TargetExists
      else if k = port_error_kind.Unavailable
              \<and> (st = stage.Source \<or> pe_path_role e = Some materialization_path_role.Source)
      then error_code.Filesystem
      else if k = port_error_kind.Unavailable \<and> st = Layout then TargetLayout
      else if k = port_error_kind.Unavailable then ControlUnavailable
      else if k = port_error_kind.InvalidLayout \<and> st = Control then ControlLayout
      else if k = port_error_kind.InvalidLayout \<and> st = stage.Metadata then error_code.Metadata
      else if k = port_error_kind.InvalidLayout then TargetLayout
      else if k = port_error_kind.Io then error_code.Filesystem
      else if st = stage.Metadata then error_code.Metadata
      else if k \<in> {port_error_kind.Conflict, port_error_kind.InvalidData, port_error_kind.UnsupportedVersion, port_error_kind.NotFound} \<and> st = Control
      then ControlLayout
      else if k \<in> {port_error_kind.Conflict, port_error_kind.InvalidData, port_error_kind.UnsupportedVersion, port_error_kind.NotFound} \<and> st = Layout
      then TargetLayout
      else error_code.Filesystem)"

fun code_message :: "error_code \<Rightarrow> string" where
  "code_message LockTimeout = ''lifecycle lock wait timed out''"
| "code_message error_code.CapabilityUnavailable = ''required platform capability is unavailable''"
| "code_message ControlNotEmpty = ''control directory is not empty''"
| "code_message ControlUnavailable = ''fixed control directory is unavailable''"
| "code_message ControlLayout = ''control directory identity or layout is invalid''"
| "code_message TargetLayout = ''target path, volume, or ownership layout is invalid''"
| "code_message TargetConflict = ''target path belongs to another active Workspace''"
| "code_message TargetExists = ''target path already exists''"
| "code_message error_code.Metadata = ''metadata database validation failed''"
| "code_message _ = ''filesystem operation failed''"

definition map_port :: "stage \<Rightarrow> port_error \<Rightarrow> use_case_error" where
  "map_port st e =
     \<lparr>uce_diagnostic = core_error_new (stage_code st e) (code_message (stage_code st e)),
      uce_source = Some e, uce_partial_receipts = [], uce_git_inspection = None\<rparr>"

lemma map_port_sel [simp]:
  "uce_code (map_port st e) = stage_code st e"
  "uce_source (map_port st e) = Some e"
  "uce_partial_receipts (map_port st e) = []"
  "uce_git_inspection (map_port st e) = None"
  by (simp_all add: map_port_def)

definition stage_codes :: "stage \<Rightarrow> error_code set" where
  "stage_codes st =
     {LockTimeout, error_code.CapabilityUnavailable, TargetConflict, error_code.Filesystem}
     \<union> (case st of
          Control \<Rightarrow> {ControlNotEmpty, ControlUnavailable, ControlLayout}
        | Lock \<Rightarrow> {ControlUnavailable, TargetLayout}
        | Layout \<Rightarrow> {TargetExists, TargetLayout}
        | stage.Source \<Rightarrow> {TargetLayout}
        | stage.Metadata \<Rightarrow> {ControlUnavailable, error_code.Metadata})"

text \<open>
  Classification of port failures.  The public code never leaves the vocabulary of its
  stage: a control-directory step never reports a problem of the target or of the metadata
  database, a target step never blames the control directory, and a metadata step reports the
  database (or the lock, a capability, an I/O failure, a target conflict or the unavailable
  directory).  A lost lock wait and a missing capability keep their code at every stage, an
  unavailable source is never reported as the target, and the original failure is kept as the
  source of the error.
\<close>

theorem port_failures_by_stage:
  "uce_code (map_port st e) \<in> stage_codes st
   \<and> (uce_code (map_port st e) = LockTimeout \<longleftrightarrow> pe_kind e = port_error_kind.Timeout)
   \<and> (uce_code (map_port st e) = error_code.CapabilityUnavailable \<longleftrightarrow>
        pe_kind e = port_error_kind.CapabilityUnavailable)
   \<and> (uce_code (map_port st e) = TargetConflict \<longleftrightarrow>
        pe_kind e = port_error_kind.Conflict \<and> pe_conflict e = Some TargetPath)
   \<and> (pe_path_role e = Some materialization_path_role.Source \<and> pe_kind e = port_error_kind.Unavailable
        \<longrightarrow> uce_code (map_port st e) = error_code.Filesystem)
   \<and> uce_source (map_port st e) = Some e \<and> uce_partial_receipts (map_port st e) = []
   \<and> ce_message (uce_diagnostic (map_port st e)) = code_message (uce_code (map_port st e))"
  by (cases st; cases "pe_kind e") (auto simp: stage_code_def stage_codes_def map_port_def)

lemma port_failures_by_stage_witness:
  "uce_code (map_port Layout (port_error_with_role (port_error_new port_error_kind.Unavailable ''open source path'')
      materialization_path_role.Source)) = error_code.Filesystem"
proof -
  let ?e = "port_error_with_role (port_error_new port_error_kind.Unavailable ''open source path'') materialization_path_role.Source"
  have "pe_path_role ?e = Some materialization_path_role.Source \<and> pe_kind ?e = port_error_kind.Unavailable"
    by (simp add: port_error_with_role_def port_error_new_def)
  then show ?thesis using port_failures_by_stage[of Layout ?e] by blast
qed

subsection \<open>Initialization requests and results\<close>

record init_request =
  iq_data_root :: absolute_path
  iq_now :: unix_millis

definition init_request_try_from_raw :: "bytes \<Rightarrow> int \<Rightarrow> use_case_error + init_request" where
  "init_request_try_from_raw root now_ms =
     and_then (map_err (\<lambda>_. semantic_error Usage ''control root must be a canonical absolute path'')
                (absolute_path_try_from_bytes root)) (\<lambda>data_root.
     and_then (map_err (\<lambda>_. semantic_error Usage ''system clock predates the Unix epoch'')
                (unix_millis_new now_ms)) (\<lambda>now.
       Ok \<lparr>iq_data_root = data_root, iq_now = now\<rparr>))"

datatype init_result = Initialized | AlreadyInitialized

fun init_result_as_str :: "init_result \<Rightarrow> string" where
  "init_result_as_str Initialized = ''initialized''"
| "init_result_as_str AlreadyInitialized = ''already-initialized''"

record init_outcome =
  io_result :: init_result
  io_installation :: installation_record

record doctor_outcome =
  do_installation :: installation_record
  do_incomplete_workspaces :: nat

definition workspace_state_is_incomplete :: "workspace_state \<Rightarrow> bool" where
  "workspace_state_is_incomplete s = (s \<noteq> WsReady)"

end
