(* ===== verification/App_Ports.thy ===== *)
theory App_Ports
  imports App_Errors Store_Contract
begin

text \<open>
  The ports the use cases are written against (\<open>thinws-ports/src/bootstrap.rs\<close>,
  \<open>materialization.rs\<close>, \<open>process.rs\<close>, \<open>git.rs\<close>, \<open>metadata.rs\<close>), and the
  use-case monad.

  The service is generic in its adapters, so a port is a record of functions on the adapter's
  own state: \<open>'p\<close> is everything outside the process that the platform adapter reads and
  changes, \<open>'m\<close> the metadata store.  Guards, layouts and proofs are opaque handles, as in
  the traits.  A run also keeps the list of the port calls made so far that change something or
  that a decision rests on, each with whether it succeeded; no use case reads it.
\<close>

subsection \<open>Values of the ports\<close>

datatype lifecycle_scope = Bootstrap | DataRoot

datatype lock_guard = LockGuard lifecycle_scope nat

definition guard_scope :: "lock_guard \<Rightarrow> lifecycle_scope" where
  "guard_scope g = (case g of LockGuard s _ \<Rightarrow> s)"

datatype prepared_data_root = PreparedDataRoot nat
datatype initializing_proof = InitializingProof nat
datatype data_root_layout = DataRootLayout nat
datatype prepared_workspace = PreparedWorkspace nat

datatype publish_result = Published | AlreadyCurrent

datatype workspace_removal = AlreadyAbsent | Removed nat

datatype workspace_space = CompleteSpace u64 u64 | UnknownSpace

datatype removal_log_event = Refused | Started | Completed | Failed

record removal_log_record =
  log_occurred_at :: unix_millis
  log_operation_id :: operation_id
  log_workspace_id :: workspace_id
  log_event :: removal_log_event
  log_mode :: removal_mode
  log_git_state :: git_state
  log_git_check_complete :: bool
  log_repositories :: "repository_inspection list"
  log_process_use :: "process_use option"
  log_protection :: "removal_refusal option"
  log_error_code :: "error_code option"
  log_outcome :: "workspace_removal option"

record path_probe_request =
  pp_source :: absolute_path
  pp_target_root :: absolute_path
  pp_staging :: absolute_path
  pp_trash :: absolute_path

definition probe_of_request :: "materialize_request \<Rightarrow> path_probe_request" where
  "probe_of_request r =
     \<lparr>pp_source = req_source r, pp_target_root = req_target r, pp_staging = req_staging r,
      pp_trash = req_trash r\<rparr>"

record process_observation =
  observed_at :: unix_millis
  use_state :: process_use

record materialization_failure =
  mf_error :: port_error
  mf_receipt :: materialization_receipt

subsection \<open>Ports\<close>

type_synonym ('s, 'a) port_call = "'s \<Rightarrow> (port_error + 'a) \<times> 's"

record 'p platform =
  acquire_bootstrap :: "nat \<Rightarrow> ('p, lock_guard) port_call"
  acquire_data_root :: "absolute_path \<Rightarrow> nat \<Rightarrow> ('p, lock_guard) port_call"
  lock_revalidate :: "lock_guard \<Rightarrow> ('p, unit) port_call"
  root_path :: "prepared_data_root \<Rightarrow> absolute_path"
  root_volume_id :: "prepared_data_root \<Rightarrow> volume_id"
  layout_revalidate :: "data_root_layout \<Rightarrow> ('p, unit) port_call"
  prepared_target_root :: "prepared_workspace \<Rightarrow> absolute_path"
  prepared_staging_root :: "prepared_workspace \<Rightarrow> absolute_path"
  prepared_trash_root :: "prepared_workspace \<Rightarrow> absolute_path"
  prepared_target_identity :: "prepared_workspace \<Rightarrow> file_identity"
  prepared_revalidate :: "prepared_workspace \<Rightarrow> ('p, unit) port_call"
  prepare_bootstrap :: "('p, unit) port_call"
  prepare_data_root :: "absolute_path \<Rightarrow> ('p, prepared_data_root) port_call"
  read_config :: "('p, installation_identity option) port_call"
  read_root_marker :: "absolute_path \<Rightarrow> ('p, root_marker option) port_call"
  create_initializing ::
    "lock_guard \<Rightarrow> prepared_data_root \<Rightarrow> installation_identity \<Rightarrow> ('p, initializing_proof) port_call"
  initialize_layout :: "lock_guard \<Rightarrow> initializing_proof \<Rightarrow> ('p, data_root_layout) port_call"
  validate_layout :: "installation_identity \<Rightarrow> ('p, data_root_layout) port_call"
  prepare_workspace ::
    "lock_guard \<Rightarrow> data_root_layout \<Rightarrow> workspace_id \<Rightarrow> absolute_path \<Rightarrow> ('p, prepared_workspace) port_call"
  clear_workspace_incomplete ::
    "lock_guard \<Rightarrow> data_root_layout \<Rightarrow> prepared_workspace \<Rightarrow> ('p, unit) port_call"
  validate_ready_workspace ::
    "data_root_layout \<Rightarrow> workspace_reservation \<Rightarrow> ('p, absolute_path) port_call"
  measure_ready_workspace_space ::
    "data_root_layout \<Rightarrow> workspace_reservation \<Rightarrow> ('p, workspace_space) port_call"
  inspect_removal_container ::
    "lock_guard \<Rightarrow> data_root_layout \<Rightarrow> workspace_reservation \<Rightarrow> ('p, absolute_path option) port_call"
  append_removal_log ::
    "lock_guard \<Rightarrow> data_root_layout \<Rightarrow> removal_log_record \<Rightarrow> ('p, absolute_path) port_call"
  remove_workspace_container ::
    "lock_guard \<Rightarrow> data_root_layout \<Rightarrow> workspace_reservation \<Rightarrow> ('p, workspace_removal) port_call"
  publish_ready :: "lock_guard \<Rightarrow> initializing_proof \<Rightarrow> ('p, root_marker) port_call"
  publish_config :: "lock_guard \<Rightarrow> installation_identity \<Rightarrow> ('p, publish_result) port_call"
  inspect_path :: "absolute_path \<Rightarrow> ('p, path_capability_report) port_call"
  inspect_materialization_paths :: "path_probe_request \<Rightarrow> ('p, materialization_path_report) port_call"
  new_uuid :: "'p \<Rightarrow> uuid \<times> 'p"

record 'p materializer =
  mz_kind :: materializer_kind
  mz_materialize ::
    "materialize_request \<Rightarrow> materialization_plan \<Rightarrow> 'p
     \<Rightarrow> (materialization_failure + materialization_receipt) \<times> 'p"

type_synonym 'p git_inspector = "absolute_path \<Rightarrow> 'p \<Rightarrow> git_inspection \<times> 'p"
type_synonym 'p process_probe = "absolute_path \<Rightarrow> ('p, process_observation) port_call"

text \<open>
  \<open>MetadataStoreFactory\<close> and \<open>MetadataStore\<close>.  An open store is known by the installation
  validated when it was opened, as its \<open>installation()\<close> says.
\<close>

record 'm metadata_port =
  md_initialize :: "data_root_layout \<Rightarrow> installation_record \<Rightarrow> nat \<Rightarrow> ('m, installation_record) port_call"
  md_inspect :: "data_root_layout \<Rightarrow> installation_record \<Rightarrow> nat \<Rightarrow> ('m, metadata_snapshot) port_call"
  md_open_existing :: "data_root_layout \<Rightarrow> installation_record \<Rightarrow> nat \<Rightarrow> ('m, installation_record) port_call"
  md_reserve_workspace :: "installation_record \<Rightarrow> workspace_reservation \<Rightarrow> ('m, workspace_record) port_call"
  md_complete_materialization ::
    "installation_record \<Rightarrow> workspace_id \<Rightarrow> materialization_plan \<Rightarrow> materialization_receipt \<Rightarrow> unix_millis
     \<Rightarrow> ('m, workspace_record) port_call"
  md_record_failure ::
    "installation_record \<Rightarrow> workspace_id \<Rightarrow> workspace_state \<Rightarrow> error_code \<Rightarrow> unix_millis
     \<Rightarrow> ('m, workspace_record) port_call"
  md_begin_removal ::
    "installation_record \<Rightarrow> workspace_id \<Rightarrow> workspace_state \<Rightarrow> removal_mode \<Rightarrow> unix_millis
     \<Rightarrow> ('m, workspace_record) port_call"
  md_complete_deletion ::
    "installation_record \<Rightarrow> workspace_id \<Rightarrow> instance_id \<Rightarrow> unix_millis \<Rightarrow> ('m, deletion_tombstone) port_call"
  md_workspace :: "workspace_id \<Rightarrow> ('m, workspace_record option) port_call"
  md_deletion_tombstone :: "installation_record \<Rightarrow> workspace_id \<Rightarrow> ('m, deletion_tombstone option) port_call"
  md_final_materialization :: "workspace_id \<Rightarrow> ('m, final_summary option) port_call"
  md_workspaces :: "('m, workspace_record list) port_call"

text \<open>The five mutating operations as one, indexed by the request.\<close>

fun md_request :: "'m metadata_port \<Rightarrow> installation_record \<Rightarrow> store_request \<Rightarrow> ('m, store_reply) port_call" where
  "md_request M inst (ReserveWorkspace r) c = map_reply WorkspaceReply (md_reserve_workspace M inst r c)"
| "md_request M inst (CompleteMaterialization i plan rc t) c =
     map_reply WorkspaceReply (md_complete_materialization M inst i plan rc t c)"
| "md_request M inst (RecordFailure i expected e t) c =
     map_reply WorkspaceReply (md_record_failure M inst i expected e t c)"
| "md_request M inst (BeginRemovalOf i expected mode t) c =
     map_reply WorkspaceReply (md_begin_removal M inst i expected mode t c)"
| "md_request M inst (CompleteDeletion i iid t) c =
     map_reply TombstoneReply (md_complete_deletion M inst i iid t c)"

record ('p, 'm) service =
  sv_uuid :: uuid_api
  sv_platform :: "'p platform"
  sv_metadata :: "'m metadata_port"
  sv_lock_timeout :: nat
  sv_sqlite_timeout :: nat

subsection \<open>Runs\<close>

text \<open>The recorded port calls, each with the answer it got.\<close>

datatype port_event =
    PrepareBootstrap "port_error + unit"
  | AcquireLock lifecycle_scope "port_error + lock_guard"
  | ReadConfig "port_error + installation_identity option"
  | PrepareDataRoot absolute_path "port_error + prepared_data_root"
  | CreateInitializing installation_identity "port_error + initializing_proof"
  | InitializeLayout "port_error + data_root_layout"
  | InitializeMetadata installation_record "port_error + installation_record"
  | PublishReady "port_error + root_marker"
  | PublishConfig installation_identity "port_error + publish_result"
  | OpenStore installation_record "port_error + installation_record"
  | InspectStore installation_record "port_error + metadata_snapshot"
  | ReadWorkspaces "port_error + workspace_record list"
  | ReadWorkspace workspace_id "port_error + workspace_record option"
  | ReadTombstone workspace_id "port_error + deletion_tombstone option"
  | ReadFinal workspace_id "port_error + final_summary option"
  | StoreRequest store_request "port_error + store_reply"
  | ProbePaths path_probe_request "port_error + materialization_path_report"
  | PrepareWorkspace workspace_id absolute_path "port_error + prepared_workspace"
  | Materialize materializer_kind materialize_request materialization_plan
      "materialization_failure + materialization_receipt"
  | ClearIncomplete workspace_id "port_error + unit"
  | ValidateReady workspace_reservation "port_error + absolute_path"
  | NewUuid uuid
  | InspectGit absolute_path git_inspection
  | ScanProcesses absolute_path "port_error + process_observation"
  | InspectContainer workspace_reservation "port_error + absolute_path option"
  | AppendLog removal_log_record "port_error + absolute_path"
  | RemoveContainer workspace_reservation "port_error + workspace_removal"

text \<open>The calls that change the control root, the target or the metadata.\<close>

fun mutating :: "port_event \<Rightarrow> bool" where
  "mutating (PrepareBootstrap r) = True"
| "mutating (PrepareDataRoot p r) = True"
| "mutating (CreateInitializing i r) = True"
| "mutating (InitializeLayout r) = True"
| "mutating (InitializeMetadata i r) = True"
| "mutating (PublishReady r) = True"
| "mutating (PublishConfig i r) = True"
| "mutating (StoreRequest q r) = True"
| "mutating (PrepareWorkspace i p r) = True"
| "mutating (Materialize k q pl r) = True"
| "mutating (ClearIncomplete i r) = True"
| "mutating (AppendLog l r) = True"
| "mutating (RemoveContainer v r) = True"
| "mutating _ = False"

type_synonym trace = "port_event list"

record ('p, 'm) world =
  w_platform :: 'p
  w_metadata :: 'm
  w_trace :: trace

definition start :: "'p \<Rightarrow> 'm \<Rightarrow> ('p, 'm) world" where
  "start p c = \<lparr>w_platform = p, w_metadata = c, w_trace = []\<rparr>"

type_synonym ('p, 'm, 'a) use_case = "('p, 'm) world \<Rightarrow> (use_case_error + 'a) \<times> ('p, 'm) world"

definition uc_return :: "'a \<Rightarrow> ('p, 'm, 'a) use_case" where
  "uc_return x w = (Ok x, w)"

definition uc_fail :: "use_case_error \<Rightarrow> ('p, 'm, 'a) use_case" where
  "uc_fail e w = (Err e, w)"

definition uc_lift :: "use_case_error + 'a \<Rightarrow> ('p, 'm, 'a) use_case" where
  "uc_lift r w = (r, w)"

definition uc_bind :: "('p, 'm, 'a) use_case \<Rightarrow> ('a \<Rightarrow> ('p, 'm, 'b) use_case) \<Rightarrow> ('p, 'm, 'b) use_case" where
  "uc_bind m f w = (case m w of (Inl e, w') \<Rightarrow> (Inl e, w') | (Inr x, w') \<Rightarrow> f x w')"

text \<open>The result of a step as a value, for the places that handle its failure.\<close>

definition uc_attempt :: "('p, 'm, 'a) use_case \<Rightarrow> ('p, 'm, use_case_error + 'a) use_case" where
  "uc_attempt m w = (case m w of (r, w') \<Rightarrow> (Ok r, w'))"

text \<open>\<open>map_err\<close> on the result of a step.\<close>

definition uc_map_err ::
  "(use_case_error \<Rightarrow> use_case_error) \<Rightarrow> ('p, 'm, 'a) use_case \<Rightarrow> ('p, 'm, 'a) use_case" where
  "uc_map_err f m w = (case m w of (r, w') \<Rightarrow> (map_err f r, w'))"

fun is_ok :: "'e + 'a \<Rightarrow> bool" where
  "is_ok (Inl e) = False"
| "is_ok (Inr x) = True"

lemma is_ok_iff: "is_ok r \<longleftrightarrow> (\<exists>x. r = Inr x)"
  by (cases r) auto

definition note_event :: "port_event \<Rightarrow> ('p, 'm) world \<Rightarrow> ('p, 'm) world" where
  "note_event ev w = w\<lparr>w_trace := w_trace w @ [ev]\<rparr>"

text \<open>A platform call that is not recorded, and one that is.\<close>

definition observe ::
  "(port_error \<Rightarrow> use_case_error) \<Rightarrow> ('p, 'a) port_call \<Rightarrow> ('p, 'm, 'a) use_case" where
  "observe on_error call w =
     (case call (w_platform w) of (r, p) \<Rightarrow> (map_err on_error r, w\<lparr>w_platform := p\<rparr>))"

definition perform ::
  "(port_error + 'a \<Rightarrow> port_event) \<Rightarrow> (port_error \<Rightarrow> use_case_error) \<Rightarrow> ('p, 'a) port_call
   \<Rightarrow> ('p, 'm, 'a) use_case" where
  "perform ev on_error call w =
     (case call (w_platform w) of
        (r, p) \<Rightarrow> (map_err on_error r, note_event (ev r) (w\<lparr>w_platform := p\<rparr>)))"

text \<open>Every call of the metadata port is recorded.\<close>

definition md_perform ::
  "(port_error + 'a \<Rightarrow> port_event) \<Rightarrow> ('m, 'a) port_call \<Rightarrow> ('p, 'm, port_error + 'a) use_case" where
  "md_perform ev call w =
     (case call (w_metadata w) of (r, c) \<Rightarrow> (Ok r, note_event (ev r) (w\<lparr>w_metadata := c\<rparr>)))"

definition or_fail ::
  "(port_error \<Rightarrow> use_case_error) \<Rightarrow> ('p, 'm, port_error + 'a) use_case \<Rightarrow> ('p, 'm, 'a) use_case" where
  "or_fail on_error m = uc_bind m (\<lambda>r. uc_lift (map_err on_error r))"

text \<open>The calls of the metadata port.\<close>

definition initialize_metadata ::
  "('p, 'm) service \<Rightarrow> data_root_layout \<Rightarrow> installation_record \<Rightarrow> ('p, 'm, port_error + installation_record) use_case" where
  "initialize_metadata S layout expected =
     md_perform (InitializeMetadata expected) (md_initialize (sv_metadata S) layout expected (sv_sqlite_timeout S))"

definition inspect_metadata ::
  "('p, 'm) service \<Rightarrow> data_root_layout \<Rightarrow> installation_record \<Rightarrow> ('p, 'm, port_error + metadata_snapshot) use_case" where
  "inspect_metadata S layout expected =
     md_perform (InspectStore expected) (md_inspect (sv_metadata S) layout expected (sv_sqlite_timeout S))"

definition open_existing_store ::
  "('p, 'm) service \<Rightarrow> data_root_layout \<Rightarrow> installation_record \<Rightarrow> ('p, 'm, port_error + installation_record) use_case" where
  "open_existing_store S layout expected =
     md_perform (OpenStore expected) (md_open_existing (sv_metadata S) layout expected (sv_sqlite_timeout S))"

definition store_workspaces :: "('p, 'm) service \<Rightarrow> ('p, 'm, port_error + workspace_record list) use_case" where
  "store_workspaces S = md_perform ReadWorkspaces (md_workspaces (sv_metadata S))"

definition store_workspace ::
  "('p, 'm) service \<Rightarrow> workspace_id \<Rightarrow> ('p, 'm, port_error + workspace_record option) use_case" where
  "store_workspace S i = md_perform (ReadWorkspace i) (md_workspace (sv_metadata S) i)"

definition store_tombstone ::
  "('p, 'm) service \<Rightarrow> installation_record \<Rightarrow> workspace_id
   \<Rightarrow> ('p, 'm, port_error + deletion_tombstone option) use_case" where
  "store_tombstone S store i = md_perform (ReadTombstone i) (md_deletion_tombstone (sv_metadata S) store i)"

definition store_final ::
  "('p, 'm) service \<Rightarrow> workspace_id \<Rightarrow> ('p, 'm, port_error + final_summary option) use_case" where
  "store_final S i = md_perform (ReadFinal i) (md_final_materialization (sv_metadata S) i)"

definition store_event :: "store_request \<Rightarrow> ('a \<Rightarrow> store_reply) \<Rightarrow> port_error + 'a \<Rightarrow> port_event" where
  "store_event q reply r = StoreRequest q (map_sum id reply r)"

definition store_reserve ::
  "('p, 'm) service \<Rightarrow> installation_record \<Rightarrow> workspace_reservation \<Rightarrow> ('p, 'm, port_error + workspace_record) use_case" where
  "store_reserve S store r =
     md_perform (store_event (ReserveWorkspace r) WorkspaceReply) (md_reserve_workspace (sv_metadata S) store r)"

definition store_complete_materialization ::
  "('p, 'm) service \<Rightarrow> installation_record \<Rightarrow> workspace_id \<Rightarrow> materialization_plan \<Rightarrow> materialization_receipt
   \<Rightarrow> unix_millis \<Rightarrow> ('p, 'm, port_error + workspace_record) use_case" where
  "store_complete_materialization S store i plan rc t =
     md_perform (store_event (CompleteMaterialization i plan rc t) WorkspaceReply)
       (md_complete_materialization (sv_metadata S) store i plan rc t)"

definition store_record_failure ::
  "('p, 'm) service \<Rightarrow> installation_record \<Rightarrow> workspace_id \<Rightarrow> workspace_state \<Rightarrow> error_code
   \<Rightarrow> unix_millis \<Rightarrow> ('p, 'm, port_error + workspace_record) use_case" where
  "store_record_failure S store i expected e t =
     md_perform (store_event (RecordFailure i expected e t) WorkspaceReply)
       (md_record_failure (sv_metadata S) store i expected e t)"

definition store_begin_removal ::
  "('p, 'm) service \<Rightarrow> installation_record \<Rightarrow> workspace_id \<Rightarrow> workspace_state \<Rightarrow> removal_mode
   \<Rightarrow> unix_millis \<Rightarrow> ('p, 'm, port_error + workspace_record) use_case" where
  "store_begin_removal S store i expected mode t =
     md_perform (store_event (BeginRemovalOf i expected mode t) WorkspaceReply)
       (md_begin_removal (sv_metadata S) store i expected mode t)"

definition store_complete_deletion ::
  "('p, 'm) service \<Rightarrow> installation_record \<Rightarrow> workspace_id \<Rightarrow> instance_id \<Rightarrow> unix_millis
   \<Rightarrow> ('p, 'm, port_error + deletion_tombstone) use_case" where
  "store_complete_deletion S store i iid t =
     md_perform (store_event (CompleteDeletion i iid t) TombstoneReply)
       (md_complete_deletion (sv_metadata S) store i iid t)"

text \<open>\<open>WorkspaceId::new\<close>, \<open>InstanceId::new\<close>, \<open>OperationId::new\<close> (UUIDv7).\<close>

definition fresh_uuid :: "('p, 'm) service \<Rightarrow> ('p, 'm, uuid) use_case" where
  "fresh_uuid S w =
     (case new_uuid (sv_platform S) (w_platform w) of
        (u, p) \<Rightarrow> (Ok u, note_event (NewUuid u) (w\<lparr>w_platform := p\<rparr>)))"

definition run_git :: "'p git_inspector \<Rightarrow> absolute_path \<Rightarrow> ('p, 'm, git_inspection) use_case" where
  "run_git git path w =
     (case git path (w_platform w) of
        (g, p) \<Rightarrow> (Ok g, note_event (InspectGit path g) (w\<lparr>w_platform := p\<rparr>)))"

definition run_materializer ::
  "'p materializer \<Rightarrow> materialize_request \<Rightarrow> materialization_plan
   \<Rightarrow> ('p, 'm, materialization_failure + materialization_receipt) use_case" where
  "run_materializer mz q plan w =
     (case mz_materialize mz q plan (w_platform w) of
        (r, p) \<Rightarrow> (Ok r, note_event (Materialize (mz_kind mz) q plan r) (w\<lparr>w_platform := p\<rparr>)))"

subsection \<open>Reasoning about the calls of a run\<close>

text \<open>
  \<open>calls m Q t\<close>: started with the calls \<open>t\<close> made so far, on every platform and metadata
  state, \<open>m\<close> ends with a result and calls that satisfy \<open>Q\<close>.
\<close>

definition calls ::
  "('p, 'm, 'a) use_case \<Rightarrow> (use_case_error + 'a \<Rightarrow> trace \<Rightarrow> bool) \<Rightarrow> trace \<Rightarrow> bool" where
  "calls m Q t \<longleftrightarrow> (\<forall>p c. case m \<lparr>w_platform = p, w_metadata = c, w_trace = t\<rparr> of
     (r, w) \<Rightarrow> Q r (w_trace w))"

named_theorems calls_rules \<open>weakest preconditions of the steps of use cases\<close>

lemma callsD:
  assumes "calls m Q (w_trace w)"
  shows "Q (fst (m w)) (w_trace (snd (m w)))"
proof -
  have "\<lparr>w_platform = w_platform w, w_metadata = w_metadata w, w_trace = w_trace w\<rparr> = w" by simp
  then show ?thesis using assms unfolding calls_def by (metis (mono_tags, lifting) case_prod_beta)
qed

lemma calls_start: "calls m Q [] \<Longrightarrow> case m (start p c) of (r, w) \<Rightarrow> Q r (w_trace w)"
  by (simp add: calls_def start_def)

lemma calls_weaken: "calls m Q t \<Longrightarrow> (\<And>r t. Q r t \<Longrightarrow> R r t) \<Longrightarrow> calls m R t"
  by (fastforce simp: calls_def split: prod.splits)

lemma calls_bind:
  assumes "calls m (\<lambda>r t. case r of Inl e \<Rightarrow> Q (Inl e) t | Inr x \<Rightarrow> calls (f x) Q t) t"
  shows "calls (uc_bind m f) Q t"
  unfolding calls_def
proof (intro allI)
  fix p c
  obtain r w where m: "m \<lparr>w_platform = p, w_metadata = c, w_trace = t\<rparr> = (r, w)" by fastforce
  have split: "case r of Inl e \<Rightarrow> Q (Inl e) (w_trace w) | Inr x \<Rightarrow> calls (f x) Q (w_trace w)"
    using assms m unfolding calls_def by (metis (mono_tags, lifting) case_prod_conv)
  show "case uc_bind m f \<lparr>w_platform = p, w_metadata = c, w_trace = t\<rparr> of
      (r, w) \<Rightarrow> Q r (w_trace w)"
    using split m by (cases r) (auto simp: uc_bind_def split: prod.splits dest: callsD)
qed

lemma calls_return [calls_rules]: "Q (Inr x) t \<Longrightarrow> calls (uc_return x) Q t"
  by (simp add: calls_def uc_return_def)

lemma calls_fail [calls_rules]: "Q (Inl e) t \<Longrightarrow> calls (uc_fail e) Q t"
  by (simp add: calls_def uc_fail_def)

lemma calls_lift: "Q r t \<Longrightarrow> calls (uc_lift r) Q t"
  by (simp add: calls_def uc_lift_def)

lemma calls_lift_cases [calls_rules]:
  "\<lbrakk>\<And>e. r = Inl e \<Longrightarrow> Q (Inl e) t; \<And>x. r = Inr x \<Longrightarrow> Q (Inr x) t\<rbrakk> \<Longrightarrow> calls (uc_lift r) Q t"
  by (cases r) (simp_all add: calls_def uc_lift_def)

lemma calls_observe [calls_rules]:
  "\<lbrakk>\<And>e. Q (Inl (g e)) t; \<And>x. Q (Inr x) t\<rbrakk> \<Longrightarrow> calls (observe g call) Q t"
  by (auto simp: calls_def observe_def split: prod.splits) (metis map_err.elims)

lemma calls_perform [calls_rules]:
  "\<lbrakk>\<And>e. Q (Inl (g e)) (t @ [ev (Inl e)]); \<And>x. Q (Inr x) (t @ [ev (Inr x)])\<rbrakk>
   \<Longrightarrow> calls (perform ev g call) Q t"
  by (auto simp: calls_def perform_def note_event_def split: prod.splits) (metis map_err.simps old.sum.exhaust)

lemma calls_md_perform [calls_rules]:
  "(\<And>r. Q (Inr r) (t @ [ev r])) \<Longrightarrow> calls (md_perform ev call) Q t"
  by (auto simp: calls_def md_perform_def note_event_def split: prod.splits)

lemma calls_or_fail [calls_rules]:
  "calls m (\<lambda>r t. case r of Inl e \<Rightarrow> Q (Inl e) t | Inr x \<Rightarrow> Q (map_err g x) t) t \<Longrightarrow> calls (or_fail g m) Q t"
  unfolding or_fail_def by (rule calls_bind) (auto elim!: calls_weaken intro: calls_lift split: sum.splits)

lemma calls_fresh [calls_rules]: "(\<And>u. Q (Inr u) (t @ [NewUuid u])) \<Longrightarrow> calls (fresh_uuid S) Q t"
  by (auto simp: calls_def fresh_uuid_def note_event_def split: prod.splits)

lemma calls_git [calls_rules]:
  "(\<And>g. Q (Inr g) (t @ [InspectGit path g])) \<Longrightarrow> calls (run_git git path) Q t"
  by (auto simp: calls_def run_git_def note_event_def split: prod.splits)

lemma calls_materializer [calls_rules]:
  "(\<And>r. Q (Inr r) (t @ [Materialize (mz_kind mz) q plan r])) \<Longrightarrow> calls (run_materializer mz q plan) Q t"
  by (auto simp: calls_def run_materializer_def note_event_def split: prod.splits)

lemma calls_attempt [calls_rules]: "calls m (\<lambda>r t. Q (Inr r) t) t \<Longrightarrow> calls (uc_attempt m) Q t"
  by (simp add: calls_def uc_attempt_def split: prod.splits)

lemma calls_map_err [calls_rules]: "calls m (\<lambda>r t. Q (map_err f r) t) t \<Longrightarrow> calls (uc_map_err f m) Q t"
  by (simp add: calls_def uc_map_err_def split: prod.splits)

text \<open>A step that leaves the record of calls as it is, whatever it answers.\<close>

definition silent :: "('p, 'm, 'a) use_case \<Rightarrow> bool" where
  "silent m \<longleftrightarrow> (\<forall>w. w_trace (snd (m w)) = w_trace w)"

lemma calls_silent: "silent m \<Longrightarrow> (\<And>r. Q r t) \<Longrightarrow> calls m Q t"
  unfolding silent_def calls_def
  by (metis (mono_tags, lifting) case_prod_beta world.select_convs(3))

named_theorems silent_rules \<open>steps that record no call\<close>

lemma silent_basic [silent_rules]:
  "silent (uc_return x)" "silent (uc_fail e)" "silent (uc_lift r)" "silent (observe g call)"
  by (auto simp: silent_def uc_return_def uc_fail_def uc_lift_def observe_def split: prod.splits)

lemma silent_bind [silent_rules]:
  "silent m \<Longrightarrow> (\<And>x. silent (f x)) \<Longrightarrow> silent (uc_bind m f)"
  by (auto simp: silent_def uc_bind_def split: prod.splits sum.splits) (metis snd_conv)+

lemma silent_cases [silent_rules]:
  "\<lbrakk>b \<Longrightarrow> silent m; \<not> b \<Longrightarrow> silent n\<rbrakk> \<Longrightarrow> silent (if b then m else n)"
  "\<lbrakk>silent m; \<And>x. silent (g x)\<rbrakk> \<Longrightarrow> silent (case v of None \<Rightarrow> m | Some x \<Rightarrow> g x)"
  "silent m \<Longrightarrow> silent (uc_map_err f m)"
  by (auto simp: silent_def uc_map_err_def split: option.splits prod.splits) (metis snd_conv)

text \<open>The common shapes of a step inside a sequence.\<close>

lemma calls_bind_silent:
  "\<lbrakk>silent m; \<And>e. Q (Inl e) t; \<And>x. calls (f x) Q t\<rbrakk> \<Longrightarrow> calls (uc_bind m f) Q t"
  by (rule calls_bind, erule calls_silent) (simp split: sum.splits)

lemma calls_bind_observe:
  "\<lbrakk>\<And>e. Q (Inl (g e)) t; \<And>x. calls (f x) Q t\<rbrakk> \<Longrightarrow> calls (uc_bind (observe g call) f) Q t"
  by (rule calls_bind, rule calls_observe) simp_all

lemma calls_bind_perform:
  "\<lbrakk>\<And>e. Q (Inl (g e)) (t @ [ev (Inl e)]); \<And>x. calls (f x) Q (t @ [ev (Inr x)])\<rbrakk>
   \<Longrightarrow> calls (uc_bind (perform ev g call) f) Q t"
  by (rule calls_bind, rule calls_perform) simp_all

lemma calls_bind_md:
  "\<lbrakk>\<And>e. Q (Inl (g e)) (t @ [ev (Inl e)]); \<And>x. calls (f x) Q (t @ [ev (Inr x)])\<rbrakk>
   \<Longrightarrow> calls (uc_bind (or_fail g (md_perform ev call)) f) Q t"
  by (rule calls_bind, rule calls_or_fail, rule calls_md_perform) (auto split: sum.splits elim: map_err.elims)

lemma calls_bind_md_result:
  "\<lbrakk>\<And>r. calls (f r) Q (t @ [ev r])\<rbrakk> \<Longrightarrow> calls (uc_bind (md_perform ev call) f) Q t"
  by (rule calls_bind, rule calls_md_perform) simp

lemma calls_bind_lift:
  "\<lbrakk>\<And>e. r = Inl e \<Longrightarrow> Q (Inl e) t; \<And>x. r = Inr x \<Longrightarrow> calls (f x) Q t\<rbrakk> \<Longrightarrow> calls (uc_bind (uc_lift r) f) Q t"
  by (rule calls_bind, rule calls_lift) (auto split: sum.splits)

lemma calls_bind_fresh: "(\<And>u. calls (f u) Q (t @ [NewUuid u])) \<Longrightarrow> calls (uc_bind (fresh_uuid S) f) Q t"
  by (rule calls_bind, rule calls_fresh) simp

lemma calls_bind_git:
  "(\<And>g. calls (f g) Q (t @ [InspectGit path g])) \<Longrightarrow> calls (uc_bind (run_git git path) f) Q t"
  by (rule calls_bind, rule calls_git) simp

lemma calls_bind_materializer:
  "(\<And>r. calls (f r) Q (t @ [Materialize (mz_kind mz) q plan r])) \<Longrightarrow> calls (uc_bind (run_materializer mz q plan) f) Q t"
  by (rule calls_bind, rule calls_materializer) simp

lemma calls_if:
  "\<lbrakk>b \<Longrightarrow> calls m Q t; \<not> b \<Longrightarrow> calls n Q t\<rbrakk> \<Longrightarrow> calls (if b then m else n) Q t"
  by simp

lemma calls_option:
  "\<lbrakk>v = None \<Longrightarrow> calls m Q t; \<And>x. v = Some x \<Longrightarrow> calls (g x) Q t\<rbrakk>
   \<Longrightarrow> calls (case v of None \<Rightarrow> m | Some x \<Rightarrow> g x) Q t"
  by (cases v) simp_all

lemma calls_sum:
  "\<lbrakk>\<And>e. v = Inl e \<Longrightarrow> calls (h e) Q t; \<And>x. v = Inr x \<Longrightarrow> calls (g x) Q t\<rbrakk>
   \<Longrightarrow> calls (case v of Inl e \<Rightarrow> h e | Inr x \<Rightarrow> g x) Q t"
  by (cases v) simp_all

text \<open>The metadata calls unfold to the recorded call; the sequence rules then apply to them.\<close>

lemmas md_calls = initialize_metadata_def inspect_metadata_def open_existing_store_def
  store_workspaces_def store_workspace_def store_tombstone_def store_final_def
  store_reserve_def store_complete_materialization_def store_record_failure_def
  store_begin_removal_def store_complete_deletion_def

lemmas calls_seq = calls_bind_observe calls_bind_perform calls_bind_md calls_bind_md_result
  calls_bind_lift calls_bind_fresh calls_bind_git calls_bind_materializer
  calls_return calls_fail calls_if calls_option calls_sum

text \<open>The calls of a step described on their own, whatever came before.\<close>

definition emits :: "('p, 'm, 'a) use_case \<Rightarrow> (use_case_error + 'a \<Rightarrow> trace \<Rightarrow> bool) \<Rightarrow> bool" where
  "emits m T \<longleftrightarrow> (\<forall>t. calls m (\<lambda>r t'. \<exists>ts. t' = t @ ts \<and> T r ts) t)"

lemma calls_emits:
  "\<lbrakk>emits m T; \<And>r ts. T r ts \<Longrightarrow> Q r (t @ ts)\<rbrakk> \<Longrightarrow> calls m Q t"
  unfolding emits_def by (blast intro: calls_weaken)

lemma calls_bind_emits:
  "\<lbrakk>emits m T; \<And>e ts. T (Inl e) ts \<Longrightarrow> Q (Inl e) (t @ ts); \<And>x ts. T (Inr x) ts \<Longrightarrow> calls (f x) Q (t @ ts)\<rbrakk>
   \<Longrightarrow> calls (uc_bind m f) Q t"
  by (rule calls_bind, erule calls_emits) (auto split: sum.splits)

subsection \<open>Use cases that change nothing\<close>

definition changes :: "trace \<Rightarrow> port_event list" where
  "changes t = filter mutating t"

lemma changes_simps [simp]:
  "changes [] = []" "changes (s @ t) = changes s @ changes t"
  "mutating e \<Longrightarrow> changes (e # t) = e # changes t" "\<not> mutating e \<Longrightarrow> changes (e # t) = changes t"
  by (simp_all add: changes_def)

definition reading :: "('p, 'm, 'a) use_case \<Rightarrow> bool" where
  "reading m \<longleftrightarrow> (\<forall>w. changes (w_trace (snd (m w))) = changes (w_trace w))"

named_theorems reading_rules \<open>steps that change nothing\<close>

lemma readingD: "reading m \<Longrightarrow> changes (w_trace (snd (m w))) = changes (w_trace w)"
  by (simp add: reading_def)

lemma reading_silent: "silent m \<Longrightarrow> reading m"
  by (simp add: reading_def silent_def)

lemma reading_basic [reading_rules]:
  "reading (uc_return x)" "reading (uc_fail e)" "reading (uc_lift r)" "reading (observe g call)"
  by (rule reading_silent, rule silent_rules)+

lemma reading_perform [reading_rules]:
  "(\<And>r. \<not> mutating (ev r)) \<Longrightarrow> reading (perform ev g call)"
  "(\<And>r. \<not> mutating (ev' r)) \<Longrightarrow> reading (md_perform ev' call')"
  by (auto simp: reading_def perform_def md_perform_def note_event_def split: prod.splits)

lemma reading_git [reading_rules]: "reading (run_git git path)" "reading (fresh_uuid S)"
  by (auto simp: reading_def run_git_def fresh_uuid_def note_event_def split: prod.splits)

lemma reading_bind [reading_rules]:
  "reading m \<Longrightarrow> (\<And>x. reading (f x)) \<Longrightarrow> reading (uc_bind m f)"
  by (auto simp: reading_def uc_bind_def split: prod.splits sum.splits) (metis snd_conv)+

lemma reading_or_fail [reading_rules]: "reading m \<Longrightarrow> reading (or_fail g m)"
  unfolding or_fail_def by (intro reading_rules)

lemma reading_cases [reading_rules]:
  "\<lbrakk>b \<Longrightarrow> reading m; \<not> b \<Longrightarrow> reading n\<rbrakk> \<Longrightarrow> reading (if b then m else n)"
  "\<lbrakk>reading m; \<And>x. reading (g x)\<rbrakk> \<Longrightarrow> reading (case v of None \<Rightarrow> m | Some x \<Rightarrow> g x)"
  "(\<And>x y. reading (h x y)) \<Longrightarrow> reading (case z of (x, y) \<Rightarrow> h x y)"
  by (auto split: option.splits prod.splits)

lemma reading_metadata [reading_rules]:
  "reading (inspect_metadata S layout expected)" "reading (open_existing_store S layout expected)"
  "reading (store_workspaces S)" "reading (store_workspace S i)" "reading (store_tombstone S store i)"
  "reading (store_final S i)"
  unfolding md_calls by (rule reading_rules, simp)+

end
