(* ===== verification/App_Init.thy ===== *)
theory App_Init
  imports App_Ports
begin

text \<open>
  The \<open>init\<close> and \<open>doctor\<close> use cases of \<open>thinws-application/src/lib.rs\<close>, the read-only
  inspection both share with the queries, and what every run of them guarantees.
\<close>

subsection \<open>The shared read-only steps\<close>

definition bad_marker :: use_case_error where
  "bad_marker = semantic_error ControlLayout ''control-root marker is missing, incomplete, or inconsistent''"

definition require_ready_marker ::
  "('p, 'm) service \<Rightarrow> installation_identity \<Rightarrow> ('p, 'm, unit) use_case" where
  "require_ready_marker S identity =
     uc_bind (observe (map_port Control) (read_root_marker (sv_platform S) (ii_data_root identity))) (\<lambda>marker.
       case marker of
         None \<Rightarrow> uc_fail bad_marker
       | Some marker \<Rightarrow>
           if rm_state marker = root_marker_state.Ready \<and> rm_identity marker = identity
           then uc_return () else uc_fail bad_marker)"

definition read_config_step :: "('p, 'm) service \<Rightarrow> ('p, 'm, installation_identity option) use_case" where
  "read_config_step S = perform ReadConfig (map_port Control) (read_config (sv_platform S))"

definition inspect_existing ::
  "('p, 'm) service \<Rightarrow> installation_identity \<Rightarrow> unix_millis \<Rightarrow> ('p, 'm, metadata_snapshot) use_case" where
  "inspect_existing S identity placeholder_time =
     uc_bind (observe (map_port Control) (validate_layout (sv_platform S) identity)) (\<lambda>layout.
     uc_bind (require_ready_marker S identity) (\<lambda>_.
     uc_bind (or_fail (map_port stage.Metadata)
                (inspect_metadata S layout
                   \<lparr>inst_identity = identity, inst_created_at = placeholder_time\<rparr>)) (\<lambda>snapshot.
     uc_bind (observe (map_port Control) (layout_revalidate (sv_platform S) layout)) (\<lambda>_.
     uc_bind (require_ready_marker S identity) (\<lambda>_.
       uc_return snapshot)))))"

text \<open>\<open>read_config()?.ok_or_else(..)\<close>.\<close>

definition require_config :: "('p, 'm) service \<Rightarrow> ('p, 'm, installation_identity) use_case" where
  "require_config S =
     uc_bind (read_config_step S) (\<lambda>config.
       uc_lift (ok_or config (semantic_error NotInitialized ''ThinWorkspace is not initialized'')))"

definition inspect_current :: "('p, 'm) service \<Rightarrow> ('p, 'm, metadata_snapshot) use_case" where
  "inspect_current S =
     uc_bind (require_config S) (\<lambda>identity. inspect_existing S identity (UnixMillis 0))"

subsection \<open>\<open>init\<close>\<close>

definition app_init :: "('p, 'm) service \<Rightarrow> init_request \<Rightarrow> ('p, 'm, init_outcome) use_case" where
  "app_init S request =
     (let P = sv_platform S in
      uc_bind (perform PrepareBootstrap (map_port Control) (prepare_bootstrap P)) (\<lambda>_.
      uc_bind (perform (AcquireLock Bootstrap) (map_port Control)
                 (acquire_bootstrap P (sv_lock_timeout S))) (\<lambda>lock.
      uc_bind (read_config_step S) (\<lambda>current.
      uc_bind (observe (map_port Control) (lock_revalidate P lock)) (\<lambda>_.
        case current of
          Some identity \<Rightarrow>
            if ii_data_root identity \<noteq> iq_data_root request
            then uc_fail (semantic_error ControlLayout
                            ''registered control root does not match the fixed location'')
            else
              uc_bind (inspect_existing S identity (iq_now request)) (\<lambda>snapshot.
                uc_return \<lparr>io_result = AlreadyInitialized, io_installation = ms_installation snapshot\<rparr>)
        | None \<Rightarrow>
            uc_bind (perform (PrepareDataRoot (iq_data_root request)) (map_port Control)
                       (prepare_data_root P (iq_data_root request))) (\<lambda>prepared.
            uc_bind (fresh_uuid S) (\<lambda>u.
            let identity = \<lparr>ii_instance_id = InstanceId u, ii_data_root = root_path P prepared,
                            ii_volume_id = root_volume_id P prepared\<rparr> in
            uc_bind (perform (CreateInitializing identity) (map_port Control)
                       (create_initializing P lock prepared identity)) (\<lambda>prf.
            uc_bind (perform InitializeLayout (map_port Control) (initialize_layout P lock prf)) (\<lambda>layout.
            uc_bind (or_fail (map_port stage.Metadata)
                       (initialize_metadata S layout
                          \<lparr>inst_identity = identity, inst_created_at = iq_now request\<rparr>)) (\<lambda>installation.
            uc_bind (observe (map_port Control) (layout_revalidate P layout)) (\<lambda>_.
            uc_bind (perform PublishReady (map_port Control) (publish_ready P lock prf)) (\<lambda>ready.
              if rm_state ready \<noteq> root_marker_state.Ready \<or> rm_identity ready \<noteq> inst_identity installation
              then uc_fail (semantic_error ControlLayout
                              ''published root marker does not match metadata'')
              else
                uc_bind (perform (PublishConfig (inst_identity installation)) (map_port Control)
                           (publish_config P lock (inst_identity installation))) (\<lambda>_.
                  uc_return \<lparr>io_result = Initialized, io_installation = installation\<rparr>)))))))))))))"

definition app_doctor :: "('p, 'm) service \<Rightarrow> ('p, 'm, doctor_outcome) use_case" where
  "app_doctor S =
     uc_bind (inspect_current S) (\<lambda>snapshot.
       uc_return
         \<lparr>do_installation = ms_installation snapshot,
          do_incomplete_workspaces =
            length (filter (\<lambda>w. workspace_state_is_incomplete (rec_state w)) (ms_workspaces snapshot))\<rparr>)"

subsection \<open>Their calls\<close>

lemma silent_require_ready_marker [silent_rules]: "silent (require_ready_marker S identity)"
  unfolding require_ready_marker_def by (intro silent_rules)

lemmas calls_bind_marker = calls_bind_silent[OF silent_require_ready_marker]

text \<open>An inspection records one call of the metadata factory.\<close>

lemma calls_inspect_existing:
  assumes "\<And>e. Q (Inl e) t"
    "\<And>e e'. Q (Inl e) (t @ [InspectStore \<lparr>inst_identity = identity, inst_created_at = now\<rparr> e'])"
    "\<And>s. Q (Inr s) (t @ [InspectStore \<lparr>inst_identity = identity, inst_created_at = now\<rparr> (Inr s)])"
  shows "calls (inspect_existing S identity now) Q t"
  unfolding inspect_existing_def md_calls
  by (intro calls_seq calls_bind_marker) (simp_all add: assms)

lemma calls_bind_inspect_existing:
  assumes "\<And>e. Q (Inl e) t"
    "\<And>e e'. Q (Inl e) (t @ [InspectStore \<lparr>inst_identity = identity, inst_created_at = now\<rparr> e'])"
    "\<And>s. calls (f s) Q (t @ [InspectStore \<lparr>inst_identity = identity, inst_created_at = now\<rparr> (Inr s)])"
  shows "calls (uc_bind (inspect_existing S identity now) f) Q t"
  by (rule calls_bind, rule calls_inspect_existing) (simp_all add: assms)

lemma calls_require_config:
  assumes "\<And>e. Q (Inl (map_port Control e)) (t @ [ReadConfig (Inl e)])"
    "Q (Inl (semantic_error NotInitialized ''ThinWorkspace is not initialized'')) (t @ [ReadConfig (Inr None)])"
    "\<And>i. Q (Inr i) (t @ [ReadConfig (Inr (Some i))])"
  shows "calls (require_config S) Q t"
  unfolding require_config_def read_config_step_def
proof (rule calls_bind_perform)
  fix x
  show "calls (uc_lift (ok_or x (semantic_error NotInitialized ''ThinWorkspace is not initialized''))) Q
          (t @ [ReadConfig (Inr x)])"
    by (cases x) (simp_all add: assms calls_lift)
qed (rule assms(1))

lemma calls_bind_require_config:
  assumes "\<And>e. Q (Inl (map_port Control e)) (t @ [ReadConfig (Inl e)])"
    "Q (Inl (semantic_error NotInitialized ''ThinWorkspace is not initialized'')) (t @ [ReadConfig (Inr None)])"
    "\<And>i. calls (f i) Q (t @ [ReadConfig (Inr (Some i))])"
  shows "calls (uc_bind (require_config S) f) Q t"
  by (rule calls_bind, rule calls_require_config) (simp_all add: assms)


lemma reading_inspection [reading_rules]:
  "reading (require_ready_marker S identity)" "reading (read_config_step S)" "reading (require_config S)"
  "reading (inspect_existing S identity now)" "reading (inspect_current S)" "reading (app_doctor S)"
  unfolding require_ready_marker_def read_config_step_def require_config_def inspect_existing_def
    inspect_current_def app_doctor_def
  by (intro reading_rules mutating.simps | simp)+

subsection \<open>The order of initialization\<close>

fun succeeded :: "port_event \<Rightarrow> bool" where
  "succeeded (PrepareBootstrap r) = is_ok r"
| "succeeded (AcquireLock s r) = is_ok r"
| "succeeded (ReadConfig r) = is_ok r"
| "succeeded (PrepareDataRoot p r) = is_ok r"
| "succeeded (CreateInitializing i r) = is_ok r"
| "succeeded (InitializeLayout r) = is_ok r"
| "succeeded (InitializeMetadata i r) = is_ok r"
| "succeeded (PublishReady r) = is_ok r"
| "succeeded (PublishConfig i r) = is_ok r"
| "succeeded (OpenStore i r) = is_ok r"
| "succeeded (InspectStore i r) = is_ok r"
| "succeeded (ReadWorkspaces r) = is_ok r"
| "succeeded (ReadWorkspace i r) = is_ok r"
| "succeeded (ReadTombstone i r) = is_ok r"
| "succeeded (ReadFinal i r) = is_ok r"
| "succeeded (StoreRequest q r) = is_ok r"
| "succeeded (ProbePaths q r) = is_ok r"
| "succeeded (PrepareWorkspace i p r) = is_ok r"
| "succeeded (Materialize k q pl r) = is_ok r"
| "succeeded (ClearIncomplete i r) = is_ok r"
| "succeeded (ValidateReady v r) = is_ok r"
| "succeeded (NewUuid u) = True"
| "succeeded (InspectGit p g) = True"
| "succeeded (ScanProcesses p r) = is_ok r"
| "succeeded (InspectContainer v r) = is_ok r"
| "succeeded (AppendLog l r) = is_ok r"
| "succeeded (RemoveContainer v r) = is_ok r"

text \<open>The place of a call in the documented order of initialization.\<close>

fun init_rank :: "port_event \<Rightarrow> nat" where
  "init_rank (PrepareBootstrap r) = 0"
| "init_rank (PrepareDataRoot p r) = 1"
| "init_rank (CreateInitializing i r) = 2"
| "init_rank (InitializeLayout r) = 3"
| "init_rank (InitializeMetadata i r) = 4"
| "init_rank (PublishReady r) = 5"
| "init_rank (PublishConfig i r) = 6"
| "init_rank _ = 7"

text \<open>What a run of \<open>init\<close> may leave behind.\<close>

definition init_ordered :: "trace \<Rightarrow> bool" where
  "init_ordered t \<longleftrightarrow>
     map init_rank (changes t) = [0..<length (changes t)] \<and> list_all succeeded (butlast (changes t))"

definition init_answer :: "init_request \<Rightarrow> use_case_error + init_outcome \<Rightarrow> trace \<Rightarrow> bool" where
  "init_answer request r t =
     (case r of
        Inl _ \<Rightarrow> list_all (\<lambda>e. case e of PublishConfig i x \<Rightarrow> \<not> is_ok x | _ \<Rightarrow> True) t
      | Inr out \<Rightarrow>
          (case io_result out of
             AlreadyInitialized \<Rightarrow> length (changes t) = 1
               \<and> list_ex (\<lambda>e. case e of ReadConfig (Inr (Some i)) \<Rightarrow> ii_data_root i = iq_data_root request
                                     | _ \<Rightarrow> False) t
           | Initialized \<Rightarrow> length (changes t) = 7 \<and> list_all succeeded t
               \<and> ReadConfig (Inr None) \<in> set t
               \<and> list_ex (\<lambda>e. case e of PublishReady (Inr m) \<Rightarrow>
                       m = \<lparr>rm_identity = inst_identity (io_installation out), rm_state = root_marker_state.Ready\<rparr>
                   | _ \<Rightarrow> False) t
               \<and> list_ex (\<lambda>e. case e of PublishConfig i (Inr x) \<Rightarrow> i = inst_identity (io_installation out)
                                     | _ \<Rightarrow> False) t))"

lemma init_calls:
  "calls (app_init S request) (\<lambda>r t. init_ordered t \<and> init_answer request r t) []"
  unfolding app_init_def Let_def read_config_step_def md_calls
  by (intro calls_seq calls_bind_marker calls_bind_inspect_existing)
    (simp_all add: init_ordered_def init_answer_def)

text \<open>
  C30.  The order of initialization.  Whatever the adapters answer, \<open>init\<close> makes its changes
  in the documented order (bootstrap directory, control root, Initializing marker, layout,
  metadata, Ready marker, config), each at most once, and goes on only after the one before
  succeeded.  The config is published last: a run that fails has not published it (unless that
  very call failed), a run that reports a new installation made all seven changes, under a
  Ready marker for exactly the installation it reports; and a run that finds a config reports
  the existing installation only for the same root, and has changed nothing but the bootstrap
  directory.
\<close>

theorem init_publishes_config_last:
  "case app_init S request (start p c) of
     (r, w) \<Rightarrow> init_ordered (w_trace w) \<and> init_answer request r (w_trace w)"
  by (rule calls_start[OF init_calls])

end
