(* ===== verification/App_Query.thy ===== *)
theory App_Query
  imports App_Init
begin

text \<open>
  The read-only queries of \<open>thinws-application/src/query.rs\<close>: the list of Workspaces, the
  path and the status of one, each checked against the layout and read again before it is
  reported.
\<close>

subsection \<open>Queries\<close>

record workspace_query =
  wq_record :: workspace_record
  wq_materialization :: "final_summary option"

record status_result =
  ws_workspace :: workspace_query
  ws_git :: "git_inspection option"
  ws_space :: "workspace_space option"

definition parse_name :: "string \<Rightarrow> use_case_error + workspace_name" where
  "parse_name s =
     map_err (\<lambda>_. semantic_error Usage ''invalid Workspace name'') (workspace_name_from_str s)"

definition query_from_snapshot ::
  "workspace_record \<Rightarrow> metadata_snapshot \<Rightarrow> use_case_error + workspace_query" where
  "query_from_snapshot r snapshot =
     (let materialization =
            snapshot_final_materialization snapshot (res_workspace_id (rec_reservation r))
      in if rec_state r = WsReady \<and> materialization = None
         then Err (semantic_error error_code.Metadata ''Ready Workspace has no final receipt'')
         else Ok \<lparr>wq_record = r, wq_materialization = materialization\<rparr>)"

definition find_workspace ::
  "metadata_snapshot \<Rightarrow> workspace_name \<Rightarrow> use_case_error + workspace_query" where
  "find_workspace snapshot name =
     and_then (ok_or (find (\<lambda>r. res_name (rec_reservation r) = name) (ms_workspaces snapshot))
                (semantic_error WorkspaceNotFound ''Workspace not found''))
       (\<lambda>r. query_from_snapshot r snapshot)"

text \<open>\<open>sort_by\<close> on the name and then the identifier.\<close>

definition query_key :: "workspace_record \<Rightarrow> workspace_name \<times> workspace_id" where
  "query_key r = (res_name (rec_reservation r), res_workspace_id (rec_reservation r))"

definition list_workspaces :: "('p, 'm) service \<Rightarrow> ('p, 'm, workspace_query list) use_case" where
  "list_workspaces S =
     uc_bind (inspect_current S) (\<lambda>snapshot.
       uc_lift (collect_results
         (map (\<lambda>r. query_from_snapshot r snapshot) (sort_key query_key (ms_workspaces snapshot)))))"

definition inspect_workspace ::
  "('p, 'm) service \<Rightarrow> workspace_name \<Rightarrow> ('p, 'm, workspace_query \<times> absolute_path option) use_case" where
  "inspect_workspace S name =
     (let P = sv_platform S in
      uc_bind (inspect_current S) (\<lambda>snapshot.
      uc_bind (uc_lift (find_workspace snapshot name)) (\<lambda>workspace.
        if rec_state (wq_record workspace) \<noteq> WsReady then uc_return (workspace, None)
        else
          uc_bind (require_config S) (\<lambda>identity.
          uc_bind (observe (map_port Control) (validate_layout P identity)) (\<lambda>layout.
          uc_bind (require_ready_marker S identity) (\<lambda>_.
          uc_bind (perform (ValidateReady (rec_reservation (wq_record workspace))) (map_port Layout)
                     (validate_ready_workspace P layout (rec_reservation (wq_record workspace)))) (\<lambda>path.
            if path \<noteq> res_target_path (rec_reservation (wq_record workspace))
            then uc_fail (semantic_error TargetLayout ''Ready Workspace path does not match metadata'')
            else
              uc_bind (observe (map_port Layout) (layout_revalidate P layout)) (\<lambda>_.
              uc_bind (inspect_current S) (\<lambda>snapshot'.
              uc_bind (uc_lift (find_workspace snapshot' name)) (\<lambda>current.
                if rec_state (wq_record current) \<noteq> WsReady then uc_return (current, None)
                else if current \<noteq> workspace
                then uc_fail (semantic_error TargetLayout
                                ''Ready Workspace changed during path verification'')
                else uc_return (current, Some path)))))))))))"

definition workspace_path :: "('p, 'm) service \<Rightarrow> string \<Rightarrow> ('p, 'm, absolute_path) use_case" where
  "workspace_path S name =
     uc_bind (uc_lift (parse_name name)) (\<lambda>name.
     uc_bind (inspect_workspace S name) (\<lambda>(workspace, path).
       uc_lift (ok_or path
         (with_workspace_id (sv_uuid S) (res_workspace_id (rec_reservation (wq_record workspace)))
            (semantic_error WorkspaceNotReady ''Workspace is not Ready'')))))"

definition measure_workspace_space ::
  "('p, 'm) service \<Rightarrow> workspace_reservation \<Rightarrow> ('p, 'm, workspace_space) use_case" where
  "measure_workspace_space S reservation =
     (let P = sv_platform S in
      uc_bind (require_config S) (\<lambda>identity.
      uc_bind (observe (map_port Control) (validate_layout P identity)) (\<lambda>layout.
      uc_bind (require_ready_marker S identity) (\<lambda>_.
        observe (map_port Layout) (measure_ready_workspace_space P layout reservation)))))"

definition not_ready_status :: "workspace_query \<Rightarrow> status_result" where
  "not_ready_status workspace = \<lparr>ws_workspace = workspace, ws_git = None, ws_space = None\<rparr>"

definition workspace_status ::
  "('p, 'm) service \<Rightarrow> 'p git_inspector \<Rightarrow> string \<Rightarrow> ('p, 'm, status_result) use_case" where
  "workspace_status S git name =
     uc_bind (uc_lift (parse_name name)) (\<lambda>name.
     uc_bind (inspect_workspace S name) (\<lambda>(workspace, path).
       case path of
         None \<Rightarrow> uc_return (not_ready_status workspace)
       | Some path \<Rightarrow>
           uc_bind (run_git git path) (\<lambda>inspection.
           uc_bind (inspect_workspace S name) (\<lambda>(current, current_path).
             case current_path of
               None \<Rightarrow> uc_return (not_ready_status current)
             | Some _ \<Rightarrow>
                 if current \<noteq> workspace
                 then uc_fail (semantic_error TargetLayout ''Ready Workspace changed during Git inspection'')
                 else
                   uc_bind (measure_workspace_space S (rec_reservation (wq_record current))) (\<lambda>space.
                   uc_bind (inspect_workspace S name) (\<lambda>(after_space, after_space_path).
                     case after_space_path of
                       None \<Rightarrow> uc_return (not_ready_status after_space)
                     | Some _ \<Rightarrow>
                         if after_space \<noteq> current
                         then uc_fail (semantic_error TargetLayout
                                         ''Ready Workspace changed during space scan'')
                         else uc_return \<lparr>ws_workspace = after_space, ws_git = Some inspection,
                                         ws_space = Some space\<rparr>))))))"

subsection \<open>Their calls\<close>

lemma reading_inspect_workspace [reading_rules]: "reading (inspect_workspace S name)"
  unfolding inspect_workspace_def Let_def by (intro reading_rules | simp)+

lemma reading_measure [reading_rules]: "reading (measure_workspace_space S reservation)"
  unfolding measure_workspace_space_def Let_def by (intro reading_rules)

lemma reading_queries [reading_rules]:
  "reading (list_workspaces S)" "reading (workspace_path S name)" "reading (workspace_status S git name)"
  unfolding list_workspaces_def workspace_path_def workspace_status_def by (intro reading_rules)+

text \<open>
  One verification of a Ready Workspace: read in a snapshot, its target validated by the
  platform, and found again, equal, in a second snapshot.
\<close>

definition verified :: "workspace_name \<Rightarrow> workspace_query \<Rightarrow> trace \<Rightarrow> bool" where
  "verified name wq ts \<longleftrightarrow>
     (\<exists>i1 i2 i3 e1 e2 s1 s2.
        ts = [ReadConfig (Ok (Some i1)), InspectStore e1 (Ok s1), ReadConfig (Ok (Some i2)),
              ValidateReady (rec_reservation (wq_record wq))
                (Ok (res_target_path (rec_reservation (wq_record wq)))),
              ReadConfig (Ok (Some i3)), InspectStore e2 (Ok s2)]
        \<and> find_workspace s1 name = Ok wq \<and> find_workspace s2 name = Ok wq
        \<and> rec_state (wq_record wq) = WsReady)"

definition inspected_as ::
  "workspace_name \<Rightarrow> use_case_error + workspace_query \<times> absolute_path option \<Rightarrow> trace \<Rightarrow> bool" where
  "inspected_as name r ts =
     (case r of
        Inl _ \<Rightarrow> True
      | Inr (wq, None) \<Rightarrow> rec_state (wq_record wq) \<noteq> WsReady
          \<and> (\<exists>e s. InspectStore e (Ok s) \<in> set ts \<and> find_workspace s name = Ok wq)
      | Inr (wq, Some path) \<Rightarrow>
          verified name wq ts \<and> path = res_target_path (rec_reservation (wq_record wq)))"

lemma calls_bind_inspect_current:
  assumes "\<And>e ts. Q (Inl e) (t @ ts)"
    "\<And>i e s. calls (f s) Q (t @ [ReadConfig (Inr (Some i)), InspectStore e (Inr s)])"
  shows "calls (uc_bind (inspect_current S) f) Q t"
proof (rule calls_bind)
  have err: "Q (Inl e) (t @ [a])" "Q (Inl e) (t @ [a, b])" for e a b by (rule assms(1))+
  show "calls (inspect_current S) (\<lambda>r t. case r of Inl e \<Rightarrow> Q (Inl e) t | Inr x \<Rightarrow> calls (f x) Q t) t"
    unfolding inspect_current_def
    by (intro calls_bind_require_config calls_inspect_existing) (simp_all add: err assms(2))
qed

lemma inspect_workspace_emits: "emits (inspect_workspace S name) (inspected_as name)"
  unfolding emits_def inspect_workspace_def Let_def
  by (intro allI calls_seq calls_bind_marker calls_bind_require_config calls_bind_inspect_current)
    (auto simp: inspected_as_def verified_def)

subsection \<open>What a query reports\<close>

definition path_evidence_of :: "string \<Rightarrow> use_case_error + absolute_path \<Rightarrow> trace \<Rightarrow> bool" where
  "path_evidence_of name r t =
     (case r of
        Inl _ \<Rightarrow> True
      | Inr path \<Rightarrow> (\<exists>n wq. parse_name name = Ok n \<and> verified n wq t
          \<and> path = res_target_path (rec_reservation (wq_record wq))))"

definition status_evidence :: "string \<Rightarrow> use_case_error + status_result \<Rightarrow> trace \<Rightarrow> bool" where
  "status_evidence name r t =
     (case r of
        Inl _ \<Rightarrow> True
      | Inr st \<Rightarrow>
          (case ws_git st of
             None \<Rightarrow> ws_space st = None \<and> rec_state (wq_record (ws_workspace st)) \<noteq> WsReady
           | Some g \<Rightarrow>
               ws_space st \<noteq> None
               \<and> (\<exists>n t1 t2 i t3. parse_name name = Ok n
                    \<and> t = t1 @ [InspectGit (res_target_path (rec_reservation (wq_record (ws_workspace st)))) g]
                            @ t2 @ [ReadConfig (Ok (Some i))] @ t3
                    \<and> list_all (verified n (ws_workspace st)) [t1, t2, t3])))"

definition list_evidence :: "use_case_error + workspace_query list \<Rightarrow> trace \<Rightarrow> bool" where
  "list_evidence r t =
     (case r of
        Inl _ \<Rightarrow> True
      | Inr qs \<Rightarrow>
          (\<exists>i e s. t = [ReadConfig (Ok (Some i)), InspectStore e (Ok s)]
             \<and> map wq_record qs = sort_key query_key (ms_workspaces s)
             \<and> list_all (\<lambda>q. wq_materialization q =
                   snapshot_final_materialization s (res_workspace_id (rec_reservation (wq_record q)))
                 \<and> (rec_state (wq_record q) = WsReady \<longrightarrow> wq_materialization q \<noteq> None)) qs))"

lemma calls_changes: "reading m \<Longrightarrow> calls m Q [] \<Longrightarrow>
  case m (start p c) of (r, w) \<Rightarrow> changes (w_trace w) = [] \<and> Q r (w_trace w)"
  using calls_start[of m Q p c] readingD[of m "start p c"] by (auto simp: start_def split: prod.splits)

lemma parse_name_bind:
  "\<lbrakk>\<And>e. Q (Inl e) t; \<And>n. parse_name s = Inr n \<Longrightarrow> calls (f n) Q t\<rbrakk> \<Longrightarrow> calls (uc_bind (uc_lift (parse_name s)) f) Q t"
  by (rule calls_bind_lift)

lemma workspace_path_calls: "calls (workspace_path S name) (path_evidence_of name) []"
  unfolding workspace_path_def
proof (rule parse_name_bind, simp add: path_evidence_of_def,
    rule calls_bind_emits[OF inspect_workspace_emits], simp add: path_evidence_of_def)
  fix n x ts
  assume n: "parse_name name = Inr n" and x: "inspected_as n (Inr x) ts"
  obtain wq path where [simp]: "x = (wq, path)" by fastforce
  show "calls (case x of (workspace, path) \<Rightarrow> uc_lift (ok_or path
         (with_workspace_id (sv_uuid S) (res_workspace_id (rec_reservation (wq_record workspace)))
            (semantic_error WorkspaceNotReady ''Workspace is not Ready''))))
     (path_evidence_of name) ([] @ ts)"
    using n x by (cases path) (auto intro!: calls_lift simp: path_evidence_of_def inspected_as_def)
qed

lemma measure_emits:
  "emits (measure_workspace_space S reservation)
     (\<lambda>r ts. case r of Inl _ \<Rightarrow> True | Inr _ \<Rightarrow> \<exists>i. ts = [ReadConfig (Ok (Some i))])"
  unfolding emits_def measure_workspace_space_def Let_def
  by (intro allI calls_seq calls_bind_marker calls_bind_require_config calls_observe) simp_all

lemma workspace_status_calls: "calls (workspace_status S git name) (status_evidence name) []"
  unfolding workspace_status_def
proof (rule parse_name_bind, simp add: status_evidence_def,
    rule calls_bind_emits[OF inspect_workspace_emits], simp add: status_evidence_def)
  fix n x t1
  assume n: "parse_name name = Inr n" and x: "inspected_as n (Inr x) t1"
  have err: "status_evidence name (Inl e) t" for e t by (simp add: status_evidence_def)
  have gone: "status_evidence name (Inr (not_ready_status wq)) t"
    if "inspected_as n (Inr (wq, None)) ts" for wq t ts
    using that by (simp add: status_evidence_def not_ready_status_def inspected_as_def)
  show "calls (case x of (workspace, path) \<Rightarrow> (case path of
         None \<Rightarrow> uc_return (not_ready_status workspace)
       | Some path \<Rightarrow>
           uc_bind (run_git git path) (\<lambda>inspection.
           uc_bind (inspect_workspace S n) (\<lambda>(current, current_path).
             case current_path of
               None \<Rightarrow> uc_return (not_ready_status current)
             | Some _ \<Rightarrow>
                 if current \<noteq> workspace
                 then uc_fail (semantic_error TargetLayout ''Ready Workspace changed during Git inspection'')
                 else
                   uc_bind (measure_workspace_space S (rec_reservation (wq_record current))) (\<lambda>space.
                   uc_bind (inspect_workspace S n) (\<lambda>(after_space, after_space_path).
                     case after_space_path of
                       None \<Rightarrow> uc_return (not_ready_status after_space)
                     | Some _ \<Rightarrow>
                         if after_space \<noteq> current
                         then uc_fail (semantic_error TargetLayout
                                         ''Ready Workspace changed during space scan'')
                         else uc_return \<lparr>ws_workspace = after_space, ws_git = Some inspection,
                                         ws_space = Some space\<rparr>))))))
     (status_evidence name) ([] @ t1)"
    using x
    apply (cases x)
    apply (simp only: prod.case)
    apply (intro calls_option calls_return calls_bind_git calls_bind_emits[OF inspect_workspace_emits] err)
     apply (simp add: gone)
    subgoal for wq path p g y t2
      apply (cases y)
      apply (simp only: prod.case)
      apply (intro calls_option calls_if calls_return calls_fail err
          calls_bind_emits[OF inspect_workspace_emits] calls_bind_emits[OF measure_emits])
       apply (simp add: gone)
      subgoal for current cp q space t3 z t4
        apply (cases z)
        apply (simp only: prod.case)
        apply (intro calls_option calls_if calls_return calls_fail err)
         apply (simp add: gone)
        apply (clarsimp simp: status_evidence_def inspected_as_def n)
        apply (rule exI[of _ t1], rule exI[of _ t2], rule exI, rule exI[of _ t4])
        apply auto
        done
      done
    done
qed

lemma list_workspaces_calls: "calls (list_workspaces S) list_evidence []"
  unfolding list_workspaces_def
proof (rule calls_bind_inspect_current, simp add: list_evidence_def)
  fix i e s
  let ?rs = "map (\<lambda>r. query_from_snapshot r s) (sort_key query_key (ms_workspaces s))"
  have each: "query_from_snapshot r s = Inr q \<Longrightarrow> wq_record q = r
      \<and> wq_materialization q = snapshot_final_materialization s (res_workspace_id (rec_reservation r))
      \<and> (rec_state r = WsReady \<longrightarrow> wq_materialization q \<noteq> None)" for r q
    by (auto simp: query_from_snapshot_def Let_def split: if_splits)
  have "map wq_record qs = rs \<and> list_all (\<lambda>q. wq_materialization q =
           snapshot_final_materialization s (res_workspace_id (rec_reservation (wq_record q)))
         \<and> (rec_state (wq_record q) = WsReady \<longrightarrow> wq_materialization q \<noteq> None)) qs"
    if "map (\<lambda>r. query_from_snapshot r s) rs = map Inr qs" for qs rs
    using that
  proof (induction rs arbitrary: qs)
    case (Cons r rs)
    then obtain q qs' where "qs = q # qs'" "query_from_snapshot r s = Inr q"
      "map (\<lambda>r. query_from_snapshot r s) rs = map Inr qs'" by (cases qs) auto
    then show ?case using Cons.IH[of qs'] each[of r q] by (auto; metis)
  qed simp
  then show "calls (uc_lift (collect_results ?rs)) list_evidence
      ([] @ [ReadConfig (Inr (Some i)), InspectStore e (Inr s)])"
    by (intro calls_lift) (auto simp: list_evidence_def result_simps split: sum.splits)
qed

text \<open>
  The path of a Workspace.  Asking for it changes nothing, and a path is only returned
  after the evidence for it: the name is valid, the record is Ready with a receipt in a first
  snapshot, the platform validated exactly the registered target of that record, and a second
  snapshot still holds the same record and receipt.
\<close>

theorem path_is_verified:
  "case workspace_path S name (start p c) of
     (r, w) \<Rightarrow> changes (w_trace w) = [] \<and> path_evidence_of name r (w_trace w)"
  by (rule calls_changes[OF reading_queries(2) workspace_path_calls])

text \<open>
  C31.  The status of a Workspace.  It changes nothing.  Git and space evidence are reported
  together or not at all, only for a Workspace verified Ready and unchanged three times: before
  the Git inspection, between it and the space scan, and after that scan; and the Git evidence
  is that of the registered target.  A status without them is that of a Workspace last seen
  not Ready.
\<close>

theorem status_is_verified:
  "case workspace_status S git name (start p c) of
     (r, w) \<Rightarrow> changes (w_trace w) = [] \<and> status_evidence name r (w_trace w)"
  by (rule calls_changes[OF reading_queries(3) workspace_status_calls])

text \<open>
  The list of Workspaces.  It changes nothing, makes one snapshot and reports its records,
  all of them, in the order of names and then identifiers, each with the receipt facts of the
  snapshot and none of them Ready without a receipt.
\<close>

theorem list_is_one_snapshot:
  "case list_workspaces S (start p c) of
     (r, w) \<Rightarrow> changes (w_trace w) = [] \<and> list_evidence r (w_trace w)"
  by (rule calls_changes[OF reading_queries(1) list_workspaces_calls])

end
