(* ===== verification/Metadata_Contract.thy ===== *)
theory Metadata_Contract
  imports App_Ports Store_Opening "HOL-Library.Multiset"
begin

text \<open>
  The contract between the use cases and their metadata port: what each recorded call says about
  the abstract store, the laws of a port that keeps the contract (a locale), and the SQLite
  adapter as one.
\<close>

subsection \<open>What a call says about the store\<close>

text \<open>
  \<open>observes U J a ev b\<close>: the call \<open>ev\<close>, made on the store \<open>a\<close>, may have got its answer and
  left the store \<open>b\<close>.  A request that succeeds has the effect of the abstract store; one that
  fails may or may not have had it.  Initialization, on a store that is there, only reads it.
\<close>

fun observes :: "uuid_api \<Rightarrow> json_api \<Rightarrow> store_spec \<Rightarrow> port_event \<Rightarrow> store_spec \<Rightarrow> bool" where
  "observes U J a (StoreRequest q r) b =
     (case r of
        Inr x \<Rightarrow> spec_request U J q a = (Inr x, b)
      | Inl e \<Rightarrow> b = a \<or> b = snd (spec_request U J q a))"
| "observes U J a (OpenStore expected r) b =
     (b = a \<and> (case r of
        Inr inst \<Rightarrow> inst = sp_installation a \<and> inst_identity inst = inst_identity expected
      | Inl _ \<Rightarrow> True))"
| "observes U J a (InspectStore expected r) b =
     (b = a \<and> (case r of
        Inr s \<Rightarrow> ms_installation s = sp_installation a
          \<and> inst_identity (sp_installation a) = inst_identity expected
          \<and> mset (ms_workspaces s) = mset (sp_workspaces a)
      | Inl _ \<Rightarrow> True))"
| "observes U J a (ReadWorkspaces r) b =
     (b = a \<and> (case r of Inr ws \<Rightarrow> mset ws = mset (sp_workspaces a) | Inl _ \<Rightarrow> True))"
| "observes U J a (ReadWorkspace i r) b =
     (b = a \<and> (case r of Inr w \<Rightarrow> w = lookup a i | Inl _ \<Rightarrow> True))"
| "observes U J a (ReadTombstone i r) b =
     (b = a \<and> (case r of
        Inr t \<Rightarrow> t = find (\<lambda>t. tomb_workspace_id t = i) (sp_tombstones a)
      | Inl _ \<Rightarrow> True))"
| "observes U J a (InitializeMetadata expected r) b =
     (b = a \<and> (case r of
        Inr inst \<Rightarrow> inst = sp_installation a \<and> inst_identity inst = inst_identity expected
      | Inl _ \<Rightarrow> True))"
| "observes U J a _ b = (b = a)"

fun follows :: "uuid_api \<Rightarrow> json_api \<Rightarrow> store_spec \<Rightarrow> trace \<Rightarrow> store_spec \<Rightarrow> bool" where
  "follows U J a [] b = (b = a)"
| "follows U J a (ev # evs) b = (\<exists>c. observes U J a ev c \<and> follows U J c evs b)"

lemma follows_append: "follows U J a (s @ t) b \<longleftrightarrow> (\<exists>c. follows U J a s c \<and> follows U J c t b)"
  by (induction s arbitrary: a) auto

fun event_valid :: "uuid_api \<Rightarrow> port_event \<Rightarrow> bool" where
  "event_valid U (StoreRequest q r) = request_valid U q"
| "event_valid U _ = True"

lemma observes_store:
  assumes "observes U J a ev b" "spec_ok U a" "event_valid U ev"
  shows "spec_ok U b \<and> kept a b"
  using assms spec_request_ok[of U a] spec_request_kept[of U a J]
  by (cases ev) (auto split: sum.splits, (metis snd_conv)+)

lemma kept_installation: "kept a b \<Longrightarrow> sp_installation b = sp_installation a"
  by (simp add: kept_def)

lemma follows_store:
  assumes "follows U J a ts b" "spec_ok U a" "list_all (event_valid U) ts"
  shows "spec_ok U b \<and> sp_installation b = sp_installation a"
  using assms
proof (induction ts arbitrary: a)
  case (Cons ev ts)
  then obtain c where c: "observes U J a ev c" "follows U J c ts b" by auto
  then have "spec_ok U c" "sp_installation c = sp_installation a"
    using observes_store[OF c(1)] Cons.prems by (auto dest: kept_installation)
  then show ?case using Cons.IH[OF c(2)] Cons.prems by simp
qed simp

text \<open>\<open>kept\<close> along a trace, on the tables.\<close>

lemma follows_kept:
  assumes "follows U J a ts b" "spec_ok U a" "list_all (event_valid U) ts" "env_uuid E = U"
  shows "db_kept (encode E a) (encode E b)"
  using assms
proof (induction ts arbitrary: a)
  case (Cons ev ts)
  then obtain c where c: "observes U J a ev c" "follows U J c ts b" by auto
  then have "spec_ok U c" "kept a c" using observes_store[OF c(1)] Cons.prems by auto
  then show ?case using Cons.IH[OF c(2)] Cons.prems by (auto intro: db_kept_trans[OF kept_encode])
qed (simp add: db_kept_refl)

subsection \<open>The contract\<close>

text \<open>\<open>view c a\<close>: the state \<open>c\<close> of the port stores \<open>a\<close>.\<close>

locale metadata_contract =
  fixes M :: "'m metadata_port" and U :: uuid_api and J :: json_api
    and view :: "'m \<Rightarrow> store_spec \<Rightarrow> bool"
  assumes initialize_law: "\<lbrakk>view c a; spec_ok U a; md_initialize M layout expected n c = (r, c')\<rbrakk>
      \<Longrightarrow> view c' a \<and> observes U J a (InitializeMetadata expected r) a"
    and open_law: "\<lbrakk>view c a; spec_ok U a; md_open_existing M layout expected n c = (r, c')\<rbrakk>
      \<Longrightarrow> view c' a \<and> observes U J a (OpenStore expected r) a"
    and inspect_law: "\<lbrakk>view c a; spec_ok U a; md_inspect M layout expected n c = (s, c')\<rbrakk>
      \<Longrightarrow> view c' a \<and> observes U J a (InspectStore expected s) a"
    and workspaces_law: "\<lbrakk>view c a; spec_ok U a; md_workspaces M c = (ws, c')\<rbrakk>
      \<Longrightarrow> view c' a \<and> observes U J a (ReadWorkspaces ws) a"
    and workspace_law: "\<lbrakk>view c a; spec_ok U a; md_workspace M i c = (w, c')\<rbrakk>
      \<Longrightarrow> view c' a \<and> observes U J a (ReadWorkspace i w) a"
    and tombstone_law: "\<lbrakk>view c a; spec_ok U a; md_deletion_tombstone M (sp_installation a) i c = (t, c')\<rbrakk>
      \<Longrightarrow> view c' a \<and> observes U J a (ReadTombstone i t) a"
    and final_law: "\<lbrakk>view c a; spec_ok U a; md_final_materialization M i c = (f, c')\<rbrakk> \<Longrightarrow> view c' a"
    and request_law: "\<lbrakk>view c a; spec_ok U a; request_valid U q;
        md_request M (sp_installation a) q c = (x, c')\<rbrakk>
      \<Longrightarrow> \<exists>b. observes U J a (StoreRequest q x) b \<and> view c' b"

subsection \<open>The SQLite adapter\<close>

definition sqlite_port :: "store_env \<Rightarrow> conn metadata_port" where
  "sqlite_port E =
     \<lparr>md_initialize = (\<lambda>layout. factory_initialize E),
      md_inspect = (\<lambda>layout expected n. factory_inspect E expected),
      md_open_existing = (\<lambda>layout. factory_open_existing E),
      md_reserve_workspace = reserve_workspace E,
      md_complete_materialization = (\<lambda>inst. complete_materialization E),
      md_record_failure = (\<lambda>inst. record_failure E),
      md_begin_removal = (\<lambda>inst. begin_removal E),
      md_complete_deletion = (\<lambda>inst. complete_deletion E),
      md_workspace = read_workspace E,
      md_deletion_tombstone = deletion_tombstone E,
      md_final_materialization = final_materialization E,
      md_workspaces = read_workspaces E\<rparr>"

definition sqlite_view :: "store_env \<Rightarrow> conn \<Rightarrow> store_spec \<Rightarrow> bool" where
  "sqlite_view E c a \<longleftrightarrow> uuid_ok (env_uuid E) \<and> c_db c = encode E a"

lemma sqlite_request: "md_request (sqlite_port E) inst q c = run_request E inst q c"
  by (cases q) (simp_all add: sqlite_port_def)

subsection \<open>Reading an encoded store\<close>

lemma collect_rows_Ok:
  "collect_rows E oper rows c = (Inr rs, d) \<Longrightarrow> rs = map (\<lambda>r. projr (into_record (env_uuid E) r)) rows"
proof (induction rows arbitrary: c rs)
  case (Cons r rows)
  then show ?case by (fastforce simp: st_Ok)
qed (simp add: st_Ok)

lemma decoded_rows:
  assumes U: "uuid_roundtrip (env_uuid E)" and ws: "workspaces_ok (env_uuid E) iid (sp_workspaces a)"
  shows "mset (map (\<lambda>r. projr (into_record (env_uuid E) r)) (sort_key k (db_workspaces (encode E a))))
    = mset (sp_workspaces a)"
proof -
  have "map (\<lambda>r. projr (into_record (env_uuid E) r)) (map (record_row (env_uuid E)) (sp_workspaces a))
      = sp_workspaces a"
    using into_record_row[OF U workspace_ok_at[OF ws]] by (intro nth_equalityI) simp_all
  then show ?thesis by (metis encode_sel(5) mset_map mset_sort)
qed

lemma read_workspaces_Ok:
  assumes "uuid_ok (env_uuid E)" "spec_ok (env_uuid E) a" "c_db c = encode E a"
  shows "read_workspaces E c = (Inr ws, d) \<Longrightarrow> mset ws = mset (sp_workspaces a)"
    "read_workspaces_by_workspace_id E c = (Inr ws, d) \<Longrightarrow> mset ws = mset (sp_workspaces a)"
proof -
  note rows = decoded_rows[OF uuid_okD(1)[OF assms(1)] spec_ok_workspaces[OF assms(2)]]
  show "read_workspaces E c = (Inr ws, d) \<Longrightarrow> mset ws = mset (sp_workspaces a)"
    using assms(3) by (auto simp: read_workspaces_def st_Ok rows simp del: encode_sel mset_map dest!: collect_rows_Ok)
  show "read_workspaces_by_workspace_id E c = (Inr ws, d) \<Longrightarrow> mset ws = mset (sp_workspaces a)"
    using assms(3) by (auto simp: read_workspaces_by_workspace_id_def st_Ok rows simp del: encode_sel mset_map
        dest!: collect_rows_Ok)
qed

lemma preserving_store_reads [preserving_rules]:
  "preserving (read_workspaces E)" "preserving (read_workspace E i)" "preserving (deletion_tombstone E inst i)"
  "preserving (final_materialization E i)"
  by (auto simp: read_workspaces_def read_workspace_def deletion_tombstone_def final_materialization_def
      intro!: preserving_rules)

lemma read_workspace_Ok:
  assumes "uuid_ok (env_uuid E)" "spec_ok (env_uuid E) a" "c_db c = encode E a"
    "read_workspace E i c = (Inr w, d)"
  shows "w = lookup a i"
  using read_workspace_faults[OF assms(1) spec_ok_workspaces[OF assms(2)] assms(3), of i] assms(4)
  by (auto split: option.splits)

lemma deletion_tombstone_Ok:
  assumes U: "uuid_ok (env_uuid E)" and a: "spec_ok (env_uuid E) a" "c_db c = encode E a"
    and run: "deletion_tombstone E (sp_installation a) i c = (Inr t, d)"
  shows "t = find (\<lambda>t. tomb_workspace_id t = i) (sp_tombstones a)"
proof -
  note inst = instance_id_codec[OF uuid_okD(1)[OF U], THEN text_codec.decode_encode]
  have row: "find (\<lambda>r. tr_workspace_id r = workspace_id_to_string (env_uuid E) i) (db_tombstones (encode E a))
      = map_option (stored_tombstone_row (env_uuid E)) (find (\<lambda>t. tomb_workspace_id t = i) (sp_tombstones a))"
    by (simp add: find_map comp_def id_text_inject[OF uuid_okD(1)[OF U]])
  show ?thesis
  proof (cases "find (\<lambda>t. tomb_workspace_id t = i) (sp_tombstones a)")
    case None
    then show ?thesis using run a(2) row by (auto simp: deletion_tombstone_def st_Ok)
  next
    case (Some u)
    then have u: "u \<in> set (sp_tombstones a)" "tomb_workspace_id u = i" by (auto dest: find_Some_mem)
    have "valid_instance_id (env_uuid E) (spec_instance a)"
      using a(1) by (simp add: spec_ok_def installation_valid_def)
    then have valid: "valid_instance_id (env_uuid E) (tomb_instance_id u)" "valid_millis (tomb_deleted_at u)"
      using a(1) u by (auto simp: spec_ok_def tombstones_ok_def)
    then show ?thesis using run a(2) row Some u
      by (auto simp: deletion_tombstone_def st_Ok stored_tombstone_row_def inst millis_codec.decode_encode
          split: if_splits)
  qed
qed

text \<open>An encoded store is not blank, and its installation row is the store's.\<close>

lemma encode_not_blank: "\<not> blank (encode E a)"
  by (simp add: blank_def APPLICATION_ID_def)

lemma stored_encode:
  assumes U: "uuid_ok (env_uuid E)" and a: "spec_ok (env_uuid E) a"
  shows "stored_installation E (encode E a) = Some (sp_installation a)"
proof -
  note ids = instance_id_codec[OF uuid_okD(1)[OF U], THEN text_codec.decode_encode]
    volume_id_codec[OF uuid_okD(1)[OF U], THEN text_codec.decode_encode]
  have "installation_valid (env_uuid E) (sp_installation a)" using a by (simp add: spec_ok_def)
  then show ?thesis
    by (simp add: stored_installation_def decode_installation_def installation_row_of_def
        installation_valid_def ids path_codec.decode_encode millis_codec.decode_encode)
qed

lemma reopened_encode:
  assumes "uuid_ok (env_uuid E)" "spec_ok (env_uuid E) a" "c_db c = encode E a" "reopened E expected c r d"
  shows "sqlite_view E d a \<and> (case r of
      Inr inst \<Rightarrow> inst = sp_installation a \<and> inst_identity inst = inst_identity expected | Inl _ \<Rightarrow> True)"
  using assms reopened_db[OF assms(4)] stored_encode[OF assms(1,2)]
  by (cases r) (simp_all add: reopened_def sqlite_view_def)

lemma inspect_existing_Ok:
  assumes U: "uuid_ok (env_uuid E)" and a: "spec_ok (env_uuid E) a" "c_db c = encode E a"
    and run: "factory_inspect E expected c = (Inr s, d)"
  shows "ms_installation s = sp_installation a \<and> inst_identity (sp_installation a) = inst_identity expected
    \<and> mset (ms_workspaces s) = mset (sp_workspaces a)"
proof -
  let ?body = "st_bind (validate_existing_database E expected) (\<lambda>_.
      st_bind (read_installation E) (\<lambda>inst.
      st_bind (read_workspaces_by_workspace_id E) (\<lambda>ws.
      st_bind (collect_receipts E ws) (\<lambda>fs. st_return (inst, ws, fs)))))"
  obtain c0 inst' ws' fs' d' where body: "?body c0 = (Inr (inst', ws', fs'), d')" "c_db c0 = c_db c"
    and s': "s = with_final_materializations fs' (metadata_snapshot_new inst' ws')"
    using run by (auto simp: factory_inspect_def st_Ok(1) db_query_Ok revalidate_Ok st_simple_Ok(1)
        dest!: in_transaction_Ok)
  obtain x c1 inst c2 ws c3 fs where c0: "c_db c0 = c_db c"
    and valid: "validate_existing_database E expected c0 = (Inr x, c1)"
    and inst: "read_installation E c1 = (Inr inst, c2)"
    and ws: "read_workspaces_by_workspace_id E c2 = (Inr ws, c3)"
    and s: "s = with_final_materializations fs (metadata_snapshot_new inst ws)"
    using body s' by (auto simp: st_Ok(1) st_simple_Ok(1))
  have db: "c_db c1 = encode E a" "c_db c2 = encode E a"
    using preservingD[OF preserving_validate, of E expected c0] preservingD[OF preserving_reads(1), of E c1]
      valid inst c0 a(2) by simp_all
  show ?thesis
    using read_installation_stored[OF inst] validate_Ok(2)[OF valid] stored_encode[OF U a(1)] c0 a(2) db(1)
      read_workspaces_Ok(2)[OF U a(1) db(2) ws]
    by (simp add: owned_def s with_final_materializations_def metadata_snapshot_new_def)
qed

subsection \<open>The adapter keeps the contract\<close>

lemma preserved_view: "preserving m \<Longrightarrow> sqlite_view E c a \<Longrightarrow> m c = (r, d) \<Longrightarrow> sqlite_view E d a"
  unfolding sqlite_view_def using preservingD[of m c] by simp

lemma sqlite_port_sel [simp]:
  "md_initialize (sqlite_port E) layout = factory_initialize E"
  "md_open_existing (sqlite_port E) layout = factory_open_existing E"
  "md_inspect (sqlite_port E) layout expected n = factory_inspect E expected"
  "md_workspaces (sqlite_port E) = read_workspaces E"
  "md_workspace (sqlite_port E) = read_workspace E"
  "md_deletion_tombstone (sqlite_port E) = deletion_tombstone E"
  "md_final_materialization (sqlite_port E) = final_materialization E"
  by (simp_all add: sqlite_port_def)

lemma sqlite_viewD: "sqlite_view E c a \<Longrightarrow> uuid_ok (env_uuid E)" "sqlite_view E c a \<Longrightarrow> c_db c = encode E a"
  by (simp_all add: sqlite_view_def)

interpretation sqlite_store: metadata_contract "sqlite_port E" "env_uuid E" "env_json E" "sqlite_view E" for E
proof
  fix c a layout expected n r c'
  assume a: "sqlite_view E c a" "spec_ok (env_uuid E) a"
    and run: "md_initialize (sqlite_port E) layout expected n c = (r, c')"
  then have "opened E expected c r c'" by (auto dest: initialize_cases)
  then have "reopened E expected c r c'"
    using sqlite_viewD(2)[OF a(1)] by (simp add: opened_def encode_not_blank)
  from reopened_encode[OF sqlite_viewD(1)[OF a(1)] a(2) sqlite_viewD(2)[OF a(1)] this]
  show "sqlite_view E c' a \<and> observes (env_uuid E) (env_json E) a (InitializeMetadata expected r) a"
    by simp
next
  fix c a layout expected n r c'
  assume a: "sqlite_view E c a" "spec_ok (env_uuid E) a"
    and run: "md_open_existing (sqlite_port E) layout expected n c = (r, c')"
  then have "reopened E expected c r c'" by (auto dest: open_existing_cases)
  from reopened_encode[OF sqlite_viewD(1)[OF a(1)] a(2) sqlite_viewD(2)[OF a(1)] this]
  show "sqlite_view E c' a \<and> observes (env_uuid E) (env_json E) a (OpenStore expected r) a"
    by simp
next
  fix c a layout expected n s c'
  assume a: "sqlite_view E c a" "spec_ok (env_uuid E) a"
    and run: "md_inspect (sqlite_port E) layout expected n c = (s, c')"
  then show "sqlite_view E c' a \<and> observes (env_uuid E) (env_json E) a (InspectStore expected s) a"
    using preserved_view[OF preserving_inspect a(1)] inspect_existing_Ok[OF sqlite_viewD(1)[OF a(1)] a(2)]
    by (auto simp: sqlite_view_def split: sum.splits)
next
  fix c a ws c'
  assume a: "sqlite_view E c a" "spec_ok (env_uuid E) a" and run: "md_workspaces (sqlite_port E) c = (ws, c')"
  then show "sqlite_view E c' a \<and> observes (env_uuid E) (env_json E) a (ReadWorkspaces ws) a"
    using preserved_view[OF preserving_store_reads(1) a(1)] read_workspaces_Ok(1)[OF sqlite_viewD(1)[OF a(1)] a(2)]
    by (auto simp: sqlite_view_def split: sum.splits)
next
  fix c a i w c'
  assume a: "sqlite_view E c a" "spec_ok (env_uuid E) a" and run: "md_workspace (sqlite_port E) i c = (w, c')"
  then show "sqlite_view E c' a \<and> observes (env_uuid E) (env_json E) a (ReadWorkspace i w) a"
    using preserved_view[OF preserving_store_reads(2) a(1)] read_workspace_Ok[OF sqlite_viewD(1)[OF a(1)] a(2)]
    by (auto simp: sqlite_view_def split: sum.splits)
next
  fix c a i t c'
  assume a: "sqlite_view E c a" "spec_ok (env_uuid E) a"
    and run: "md_deletion_tombstone (sqlite_port E) (sp_installation a) i c = (t, c')"
  then show "sqlite_view E c' a \<and> observes (env_uuid E) (env_json E) a (ReadTombstone i t) a"
    using preserved_view[OF preserving_store_reads(3) a(1)] deletion_tombstone_Ok[OF sqlite_viewD(1)[OF a(1)] a(2)]
    by (auto simp: sqlite_view_def split: sum.splits)
next
  fix c a i f c'
  assume a: "sqlite_view E c a" and run: "md_final_materialization (sqlite_port E) i c = (f, c')"
  then show "sqlite_view E c' a"
    using preserved_view[OF preserving_store_reads(4) a] by simp
next
  fix c a q x c'
  assume a: "sqlite_view E c a" "spec_ok (env_uuid E) a" and q: "request_valid (env_uuid E) q"
    and run: "md_request (sqlite_port E) (sp_installation a) q c = (x, c')"
  have "outcome_ok E a (x, c') (spec_request (env_uuid E) (env_json E) q a)"
    using request_refines[OF sqlite_viewD(1)[OF a(1)] a(2) _ refl q] a(1) run unfolding sqlite_request sqlite_view_def by metis
  then show "\<exists>b. observes (env_uuid E) (env_json E) a (StoreRequest q x) b \<and> sqlite_view E c' b"
    using sqlite_viewD(1)[OF a(1)] by (cases x) (auto simp: outcome_ok_def sqlite_view_def prod_eq_iff)
qed

end
