(* ===== verification/Create_Guards.thy ===== *)
theory Create_Guards
  imports App_Init Plans Store_Properties
begin

text \<open>
  The checks \<open>create\<close> makes before it changes anything (the free functions of
  \<open>thinws-application/src/create.rs\<close>): overlap of paths and of directory identities, the
  derived operation directories, the choice of the plan and the public code of its errors.
\<close>

subsection \<open>Overlap of paths\<close>

definition contains_path :: "bytes \<Rightarrow> bytes \<Rightarrow> bool" where
  "contains_path parent child =
     (parent = ''/'' \<or> child = parent
      \<or> prefix parent child \<and> length parent < length child \<and> child ! length parent = CHR ''/'')"

definition paths_overlap :: "absolute_path \<Rightarrow> absolute_path \<Rightarrow> bool" where
  "paths_overlap l r =
     (contains_path (path_bytes l) (path_bytes r) \<or> contains_path (path_bytes r) (path_bytes l))"

definition requested_paths_overlap :: "absolute_path \<Rightarrow> absolute_path \<Rightarrow> absolute_path \<Rightarrow> bool" where
  "requested_paths_overlap source target control =
     (paths_overlap source control \<or> paths_overlap target control \<or> paths_overlap source target)"

subsection \<open>Derived paths\<close>

text \<open>\<open>iter().rposition(p)\<close>.\<close>

definition rposition :: "('a \<Rightarrow> bool) \<Rightarrow> 'a list \<Rightarrow> nat option" where
  "rposition p xs = map_option (\<lambda>i. length xs - 1 - i) (position p (rev xs))"

text \<open>
  The \<open>expect\<close> on \<open>rposition\<close> never fails: a validated path has a separator
  (\<open>rposition_of_path\<close> below).
\<close>

definition target_parent :: "absolute_path \<Rightarrow> use_case_error + absolute_path" where
  "target_parent target =
     (let bs = path_bytes target in
      if bs = ''/''
      then Err (semantic_error TargetLayout ''filesystem root cannot be a Workspace target'')
      else
        (let last_slash = the (rposition (\<lambda>b. b = CHR ''/'') bs);
             parent = (if last_slash = 0 then ''/'' else take last_slash bs)
         in map_err (\<lambda>_. semantic_error TargetLayout ''invalid Workspace target parent'')
              (absolute_path_try_from_bytes parent)))"

fun push_components :: "bytes \<Rightarrow> bytes list \<Rightarrow> bytes" where
  "push_components bs [] = bs"
| "push_components bs (c # cs) = push_components ((if bs \<noteq> ''/'' then bs @ ''/'' else bs) @ c) cs"

definition derived_path :: "absolute_path \<Rightarrow> bytes list \<Rightarrow> use_case_error + absolute_path" where
  "derived_path root components =
     map_err (\<lambda>_. semantic_error TargetLayout ''invalid derived Workspace path'')
       (absolute_path_try_from_bytes (push_components (path_bytes root) components))"

definition provisional_materialization_paths ::
  "uuid_api \<Rightarrow> absolute_path \<Rightarrow> absolute_path \<Rightarrow> absolute_path \<Rightarrow> workspace_id
   \<Rightarrow> use_case_error + path_probe_request" where
  "provisional_materialization_paths U source target parent wid =
     and_then (derived_path parent [''.thinws-staging-'' @ workspace_id_to_string U wid]) (\<lambda>staging.
     and_then (derived_path parent [''.thinws-trash-'' @ workspace_id_to_string U wid]) (\<lambda>trash.
       Ok \<lparr>pp_source = source, pp_target_root = target, pp_staging = staging, pp_trash = trash\<rparr>))"

subsection \<open>Active Workspaces\<close>

definition active_workspace_protected_paths ::
  "uuid_api \<Rightarrow> workspace_record \<Rightarrow> use_case_error + absolute_path list" where
  "active_workspace_protected_paths U r =
     (let registered = rec_reservation r in
      and_then (target_parent (res_target_path registered)) (\<lambda>parent.
      and_then (provisional_materialization_paths U (res_source_path registered)
                  (res_target_path registered) parent (res_workspace_id registered)) (\<lambda>operation.
      and_then (derived_path parent
                  [''.thinws-remove-'' @ workspace_id_to_string U (res_workspace_id registered)]) (\<lambda>isolated.
        Ok [res_target_path registered, pp_staging operation, pp_trash operation, isolated]))))"

fun require_no_active_workspace_path_overlap ::
  "uuid_api \<Rightarrow> absolute_path \<Rightarrow> workspace_record list \<Rightarrow> use_case_error + unit" where
  "require_no_active_workspace_path_overlap U target [] = Ok ()"
| "require_no_active_workspace_path_overlap U target (r # active) =
     and_then (active_workspace_protected_paths U r) (\<lambda>paths.
       if list_ex (\<lambda>p. paths_overlap p target) paths
       then Err (semantic_error TargetConflict ''Workspace target overlaps an active Workspace path'')
       else require_no_active_workspace_path_overlap U target active)"

subsection \<open>Overlap of directory identities\<close>

text \<open>
  The \<open>expect\<close> on the last ancestor never fails: the constructor of the report refuses an
  empty ancestry.
\<close>

definition leaf_identity :: "path_capability_report \<Rightarrow> file_identity" where
  "leaf_identity r = di_identity (last (ancestry r))"

definition target_enters_existing_root ::
  "path_capability_report \<Rightarrow> path_capability_report \<Rightarrow> bool" where
  "target_enters_existing_root target existing =
     list_ex (\<lambda>e. di_identity e = leaf_identity existing) (ancestry target)"

definition paths_overlap_with_identity ::
  "path_capability_report \<Rightarrow> path_capability_report \<Rightarrow> bool" where
  "paths_overlap_with_identity source controlled =
     (if paths_overlap (requested_path source) (requested_path controlled) then True
      else list_ex (\<lambda>e. di_identity e = leaf_identity source) (ancestry controlled)
           \<or> list_ex (\<lambda>e. di_identity e = leaf_identity controlled) (ancestry source))"

definition materialization_overlaps_control ::
  "path_capability_report \<Rightarrow> path_capability_report \<Rightarrow> path_capability_report \<Rightarrow> bool" where
  "materialization_overlaps_control source target control =
     (paths_overlap_with_identity source control \<or> target_enters_existing_root target control)"

definition matches_reserved_volumes :: "volume_id \<Rightarrow> volume_id \<Rightarrow> workspace_reservation \<Rightarrow> bool" where
  "matches_reserved_volumes source target reservation =
     (source = res_source_volume_id reservation \<and> target = res_target_volume_id reservation)"

definition require_existing_source :: "path_capability_report \<Rightarrow> use_case_error + unit" where
  "require_existing_source source =
     (if resolution source \<noteq> ExistingDirectory
      then Err (semantic_error error_code.Filesystem ''source directory does not exist'')
      else
        (case readability source of
           Supported \<Rightarrow> Ok ()
         | Unsupported \<Rightarrow>
             Err (semantic_error error_code.Filesystem ''source directory is not readable and searchable'')
         | support_state.Unknown \<Rightarrow>
             Err (semantic_error error_code.CapabilityUnavailable
                    ''source directory access could not be determined'')))"

definition require_missing_target ::
  "path_capability_report \<Rightarrow> absolute_path \<Rightarrow> use_case_error + unit" where
  "require_missing_target target expected_parent =
     (if resolution target = ExistingDirectory
      then Err (semantic_error TargetExists ''Workspace target already exists'')
      else if resolution target \<noteq> MissingTarget
              \<or> nearest_existing_ancestor target \<noteq> expected_parent
              \<or> length (missing_components target) \<noteq> 1
      then Err (semantic_error TargetLayout ''Workspace target parent must exist'')
      else Ok ())"

text \<open>The loops over the active Workspaces and their protected paths.\<close>

fun check_protected_paths ::
  "('p, 'm) service \<Rightarrow> path_capability_report \<Rightarrow> absolute_path list \<Rightarrow> ('p, 'm, unit) use_case" where
  "check_protected_paths S target [] = uc_return ()"
| "check_protected_paths S target (path # paths) =
     uc_bind (observe (map_port Layout) (inspect_path (sv_platform S) path)) (\<lambda>existing.
       if resolution existing = ExistingDirectory \<and> target_enters_existing_root target existing
       then uc_fail (semantic_error TargetConflict ''Workspace target enters an active Workspace path'')
       else check_protected_paths S target paths)"

fun require_no_active_workspace_identity_overlap ::
  "('p, 'm) service \<Rightarrow> path_capability_report \<Rightarrow> volume_id \<Rightarrow> workspace_record list
   \<Rightarrow> ('p, 'm, unit) use_case" where
  "require_no_active_workspace_identity_overlap S target volume [] = uc_return ()"
| "require_no_active_workspace_identity_overlap S target volume (r # active) =
     (if res_target_volume_id (rec_reservation r) \<noteq> volume
      then require_no_active_workspace_identity_overlap S target volume active
      else
        uc_bind (uc_lift (active_workspace_protected_paths (sv_uuid S) r)) (\<lambda>paths.
        uc_bind (check_protected_paths S target paths) (\<lambda>_.
          require_no_active_workspace_identity_overlap S target volume active)))"

subsection \<open>Plans\<close>

definition cow_unavailable_message :: string where
  "cow_unavailable_message = ''CoW clone is unavailable and Full Copy was not authorized''"

fun map_plan_error :: "plan_error \<Rightarrow> use_case_error" where
  "map_plan_error CandidateUnsupported = semantic_error error_code.CowUnavailable cow_unavailable_message"
| "map_plan_error FullCopyUnavailable =
     semantic_error error_code.CapabilityUnavailable ''Full Copy is unavailable for this path combination''"
| "map_plan_error UnknownVolume =
     semantic_error error_code.CapabilityUnavailable ''materialization volume identity is unknown''"
| "map_plan_error WrongFilesystem =
     semantic_error TargetLayout ''materialization paths do not satisfy the selected filesystem layout''"
| "map_plan_error DifferentVolume =
     semantic_error TargetLayout ''materialization paths do not satisfy the selected filesystem layout''"
| "map_plan_error DifferentMount =
     semantic_error TargetLayout ''materialization paths do not satisfy the selected filesystem layout''"
| "map_plan_error UnknownMount =
     semantic_error error_code.CapabilityUnavailable ''materialization mount identity is unknown''"
| "map_plan_error _ =
     semantic_error error_code.Filesystem ''materialization plan cannot be completed''"

definition select_plan ::
  "materialization_path_report \<Rightarrow> bool \<Rightarrow> use_case_error + materialization_plan" where
  "select_plan report allow_full_copy =
     (let policy = (if allow_full_copy then AllowFullCopyOnCowUnsupported else Deny) in
      if cand_state (mpr_cow_clone report) = Unsupported \<and> allow_full_copy
      then map_err map_plan_error (for_full_copy_after_preflight report policy)
      else map_err map_plan_error (for_cow_clone report policy))"

definition map_materialization_error :: "port_error_kind \<Rightarrow> port_error \<Rightarrow> use_case_error" where
  "map_materialization_error kind e =
     (if kind = port_error_kind.CapabilityUnavailable
      then \<lparr>uce_diagnostic = core_error_new error_code.CowUnavailable cow_unavailable_message,
            uce_source = Some e, uce_partial_receipts = [], uce_git_inspection = None\<rparr>
      else map_port Layout e)"

subsection \<open>Overlap is nesting of components\<close>

abbreviation slashed :: "bytes list \<Rightarrow> bytes" where
  "slashed cs \<equiv> concat (map (\<lambda>c. CHR ''/'' # c) cs)"

lemma takeWhile_component:
  "CHR ''/'' \<notin> set c \<Longrightarrow> xs = [] \<or> hd xs = CHR ''/'' \<Longrightarrow> takeWhile (\<lambda>b. b \<noteq> CHR ''/'') (c @ xs) = c"
  by (cases xs) (auto simp: takeWhile_append takeWhile_eq_all_conv)

lemma component_cancel:
  assumes "c @ xs = d @ ys" "CHR ''/'' \<notin> set c" "CHR ''/'' \<notin> set d"
    "xs = [] \<or> hd xs = CHR ''/''" "ys = [] \<or> hd ys = CHR ''/''"
  shows "c = d \<and> xs = ys"
  using assms takeWhile_component[of c xs] takeWhile_component[of d ys] by simp

lemma slashed_start: "slashed cs = [] \<or> hd (slashed cs) = CHR ''/''"
  by (cases cs) auto

lemma slashed_prefix:
  assumes "slashed ds = slashed cs @ xs" "xs = [] \<or> hd xs = CHR ''/''"
    "\<forall>c \<in> set cs. normal_component c" "\<forall>d \<in> set ds. normal_component d"
  shows "prefix cs ds"
  using assms
proof (induction cs arbitrary: ds)
  case (Cons c cs)
  then obtain d es where ds: "ds = d # es" by (cases ds) auto
  have "slashed cs @ xs = [] \<or> hd (slashed cs @ xs) = CHR ''/''"
    using Cons.prems(2) slashed_start[of cs] by (cases cs) auto
  then have "d = c \<and> slashed es = slashed cs @ xs"
    using Cons.prems slashed_start[of es] by (intro component_cancel) (auto simp: ds normal_component_def)
  then show ?case using Cons.IH[of es] Cons.prems ds by simp
qed simp

lemma length_slashed: "cs \<noteq> [] \<Longrightarrow> \<forall>c \<in> set cs. normal_component c \<Longrightarrow> 2 \<le> length (slashed cs)"
  using normal_component_not_Nil by (cases cs) (auto simp: Suc_le_eq)

lemma contains_path_components:
  assumes cs: "\<forall>c \<in> set cs. normal_component c" and ds: "\<forall>d \<in> set ds. normal_component d"
  shows "contains_path (path_of_components cs) (path_of_components ds) \<longleftrightarrow> prefix cs ds"
proof (cases "cs = []")
  case True
  then show ?thesis by (simp add: contains_path_def path_of_components_def)
next
  case False
  then have P: "path_of_components cs = slashed cs" and len: "2 \<le> length (slashed cs)"
    using cs length_slashed by (simp_all add: path_of_components_def)
  show ?thesis
  proof (cases "ds = []")
    case True
    have "path_of_components cs \<noteq> ''/''" using P len by auto
    moreover from this have "''/'' \<noteq> path_of_components cs" by metis
    ultimately show ?thesis
      using True False P len by (auto simp: contains_path_def path_of_components_def)
  next
    case ds': False
    then have D: "path_of_components ds = slashed ds" by (simp add: path_of_components_def)
    show ?thesis
    proof
      assume "contains_path (path_of_components cs) (path_of_components ds)"
      moreover have "slashed cs \<noteq> ''/''" using len by auto
      ultimately obtain xs where xs: "slashed ds = slashed cs @ xs" "xs = [] \<or> hd xs = CHR ''/''"
        unfolding contains_path_def P D by (auto simp: prefix_def nth_append hd_conv_nth)
      show "prefix cs ds" by (rule slashed_prefix[OF xs cs ds])
    next
      assume "prefix cs ds"
      then obtain es where "ds = cs @ es" by (auto simp: prefix_def)
      then show "contains_path (path_of_components cs) (path_of_components ds)"
        unfolding contains_path_def P D by (cases es) (auto simp: nth_append)
    qed
  qed
qed

lemma paths_overlap_components:
  assumes "valid_path l" "valid_path r"
  shows "paths_overlap l r \<longleftrightarrow>
     prefix (path_components l) (path_components r) \<or> prefix (path_components r) (path_components l)"
proof -
  obtain cs where cs: "\<forall>c \<in> set cs. normal_component c" "path_bytes l = path_of_components cs"
    using assms(1) by (auto simp: valid_path_iff)
  obtain ds where ds: "\<forall>d \<in> set ds. normal_component d" "path_bytes r = path_of_components ds"
    using assms(2) by (auto simp: valid_path_iff)
  have "path_components l = cs" "path_components r = ds"
    using cs ds path_components_of by (metis absolute_path.collapse)+
  then show ?thesis using cs ds by (simp add: paths_overlap_def contains_path_components)
qed

text \<open>
  Overlap is component-aware.  For any two byte strings the program accepts as paths, they
  overlap exactly when the components of one are a prefix of those of the other: \<open>/a/b\<close> and
  \<open>/a/bc\<close> never do, whatever their bytes, and the root overlaps everything.
\<close>

theorem overlap_is_nesting:
  "case (absolute_path_try_from_bytes left, absolute_path_try_from_bytes right) of
     (Inr l, Inr r) \<Rightarrow>
       paths_overlap l r \<longleftrightarrow> prefix (path_components l) (path_components r)
                             \<or> prefix (path_components r) (path_components l)
   | _ \<Rightarrow> True"
  by (auto split: sum.splits simp: path_codec.decode_eq_Ok paths_overlap_components)

subsection \<open>The protected paths of a Workspace\<close>

lemma rposition_append: "\<not> list_ex p ys \<Longrightarrow> p y \<Longrightarrow> rposition p (xs @ y # ys) = Some (length xs)"
  by (simp add: rposition_def position_append_hit list_ex_iff)

lemma path_of_snoc:
  "path_of_components (cs @ [c]) = (if cs = [] then ''/'' @ c else path_of_components cs @ ''/'' @ c)"
  by (simp add: path_of_components_def)

lemma try_from_components:
  "\<forall>c \<in> set cs. normal_component c \<Longrightarrow>
   absolute_path_try_from_bytes (path_of_components cs) = Ok (AbsolutePath (path_of_components cs))"
  by (simp add: absolute_path_try_from_bytes_def validate_path_components)

lemma path_of_components_root: "\<forall>c \<in> set cs. normal_component c \<Longrightarrow> path_of_components cs = ''/'' \<longleftrightarrow> cs = []"
  using length_slashed[of cs] by (auto simp: path_of_components_def)

lemma target_parent_components:
  assumes "\<forall>c \<in> set (cs @ [c]). normal_component c"
  shows "target_parent (AbsolutePath (path_of_components (cs @ [c])))
    = Ok (AbsolutePath (path_of_components cs))"
proof -
  have c: "\<not> list_ex (\<lambda>b. b = CHR ''/'') c" using assms by (auto simp: normal_component_def list_ex_iff)
  have "rposition (\<lambda>b. b = CHR ''/'') (path_of_components (cs @ [c]))
      = Some (if cs = [] then 0 else length (path_of_components cs))"
    using rposition_append[OF c, of "CHR ''/''" "[]"] rposition_append[OF c, of "CHR ''/''" "path_of_components cs"]
    by (simp add: path_of_snoc)
  moreover have "path_of_components cs \<noteq> []" using path_of_components_hd by blast
  moreover have "path_of_components (cs @ [c]) \<noteq> ''/''" using path_of_components_root[OF assms] by simp
  moreover have "take (length (path_of_components cs)) (path_of_components (cs @ [c])) = path_of_components cs"
    if "cs \<noteq> []" using that by (simp add: path_of_snoc)
  moreover have "path_of_components [] = ''/''" by (simp add: path_of_components_def)
  ultimately show ?thesis
    using assms try_from_components[of cs] by (cases "cs = []") (simp_all add: target_parent_def Let_def)
qed

lemma derived_path_components:
  assumes "\<forall>c \<in> set (cs @ [c]). normal_component c"
  shows "derived_path (AbsolutePath (path_of_components cs)) [c]
    = Ok (AbsolutePath (path_of_components (cs @ [c])))"
proof -
  have "push_components (path_of_components cs) [c] = path_of_components (cs @ [c])"
    using assms path_of_components_root[of cs] by (auto simp: path_of_snoc path_of_components_def)
  then show ?thesis using try_from_components[OF assms] by (simp add: derived_path_def)
qed

lemma operation_name_normal:
  assumes "uuid_text_format U" "prefix ''.thinws-'' p" "CHR ''/'' \<notin> set p" "NUL \<notin> set p"
  shows "normal_component (p @ workspace_id_to_string U i)"
proof -
  have shape: "uuid_text_shape (uuid_hyphenated U u)" for u using assms(1) by (simp add: uuid_text_format_def)
  have "set (uuid_hyphenated U u) \<subseteq> insert (CHR ''-'') (set ''0123456789abcdef'')" for u
    using shape[of u] by (auto simp: uuid_text_shape_def in_set_conv_nth is_lower_hex_def split: if_splits)
  then have "CHR ''/'' \<notin> set (uuid_hyphenated U u)" "NUL \<notin> set (uuid_hyphenated U u)" for u
    by fastforce+
  then show ?thesis
    using assms by (auto simp: normal_component_def bad_component_def prefix_def workspace_id_to_string_def)
qed

lemma operation_names_normal:
  assumes "uuid_text_format U" "p \<in> {''.thinws-staging-'', ''.thinws-trash-'', ''.thinws-remove-''}"
  shows "normal_component (p @ workspace_id_to_string U i)"
  by (rule operation_name_normal[OF assms(1)]) (use assms(2) in auto)

lemma protected_paths_components:
  assumes U: "uuid_text_format U" and cs: "\<forall>c \<in> set (cs @ [c]). normal_component c"
    and target: "res_target_path (rec_reservation r) = AbsolutePath (path_of_components (cs @ [c]))"
  shows "active_workspace_protected_paths U r
    = Ok (map (\<lambda>n. AbsolutePath (path_of_components (cs @ [n])))
           [c, ''.thinws-staging-'' @ workspace_id_to_string U (rec_id r),
            ''.thinws-trash-'' @ workspace_id_to_string U (rec_id r),
            ''.thinws-remove-'' @ workspace_id_to_string U (rec_id r)])"
proof -
  have names: "normal_component (''.thinws-staging-'' @ workspace_id_to_string U (rec_id r))"
    "normal_component (''.thinws-trash-'' @ workspace_id_to_string U (rec_id r))"
    "normal_component (''.thinws-remove-'' @ workspace_id_to_string U (rec_id r))"
    by (rule operation_names_normal[OF U]; simp)+
  have child: "derived_path (AbsolutePath (path_of_components cs)) [n]
      = Ok (AbsolutePath (path_of_components (cs @ [n])))" if "normal_component n" for n
    using derived_path_components[of cs n] cs that by simp
  show ?thesis
    using target_parent_components[OF cs] child[OF names(1)] child[OF names(2)] child[OF names(3)] target
    by (simp add: active_workspace_protected_paths_def provisional_materialization_paths_def Let_def)
qed

lemma no_overlap_iff:
  assumes "\<forall>r \<in> set active. \<exists>ps. active_workspace_protected_paths U r = Ok ps"
  shows "require_no_active_workspace_path_overlap U target active = Ok () \<longleftrightarrow>
     (\<forall>r \<in> set active. case active_workspace_protected_paths U r of
        Inl _ \<Rightarrow> False | Inr ps \<Rightarrow> \<forall>p \<in> set ps. \<not> paths_overlap p target)"
  using assms
proof (induction active)
  case (Cons r active)
  then obtain ps where "active_workspace_protected_paths U r = Ok ps" by auto
  then show ?case using Cons by (auto simp: list_ex_iff)
qed simp

lemma prefix_snoc_cases: "prefix (cs @ [n]) ds \<Longrightarrow> prefix cs ds \<and> length cs < length ds"
  using prefix_length_le[of "cs @ [n]" ds] append_prefixD by force

text \<open>The names a Workspace's own creation or removal may use beside its target.\<close>

definition sibling_names :: "uuid_api \<Rightarrow> workspace_record \<Rightarrow> bytes list" where
  "sibling_names U r =
     map (\<lambda>p. p @ workspace_id_to_string U (rec_id r))
       [''.thinws-staging-'', ''.thinws-trash-'', ''.thinws-remove-'']"

definition nested :: "bytes list \<Rightarrow> bytes list \<Rightarrow> bool" where
  "nested cs ds = (prefix cs ds \<or> prefix ds cs)"

definition clear_of :: "uuid_api \<Rightarrow> absolute_path \<Rightarrow> workspace_record \<Rightarrow> bool" where
  "clear_of U target r =
     (let ds = path_components (res_target_path (rec_reservation r)) in
      list_all (\<lambda>n. \<not> nested (butlast ds @ [n]) (path_components target)) (last ds # sibling_names U r))"

definition placed :: "absolute_path \<Rightarrow> bool" where
  "placed p \<longleftrightarrow> valid_path p \<and> path_bytes p \<noteq> ''/''"

lemma protected_paths_placed:
  assumes U: "uuid_text_format U" and r: "placed (res_target_path (rec_reservation r))"
    and target_ok: "valid_path target"
  shows "\<exists>ps. active_workspace_protected_paths U r = Ok ps
    \<and> ((\<forall>p \<in> set ps. \<not> paths_overlap p target) \<longleftrightarrow> clear_of U target r)"
proof -
  let ?p = "res_target_path (rec_reservation r)"
  define ds where "ds = path_components ?p"
  have spelled: "path_bytes ?p = path_of_components ds" "\<forall>d \<in> set ds. normal_component d"
    using r valid_path_spelling[of ?p] by (simp_all add: placed_def ds_def)
  moreover have "ds \<noteq> []" using r spelled by (auto simp: placed_def path_of_components_def)
  then obtain cs c where ds: "ds = cs @ [c]" by (cases ds rule: rev_cases) auto
  ultimately have norm: "\<forall>d \<in> set (cs @ [c]). normal_component d"
    and target: "?p = AbsolutePath (path_of_components (cs @ [c]))"
    by (simp_all add: absolute_path.expand)
  have overlap: "paths_overlap (AbsolutePath (path_of_components (cs @ [n]))) target
      \<longleftrightarrow> nested (cs @ [n]) (path_components target)" if n: "normal_component n" for n
  proof -
    have all: "\<forall>c \<in> set (cs @ [n]). normal_component c" using n norm by simp
    then have "valid_path (AbsolutePath (path_of_components (cs @ [n])))"
      by (simp add: valid_path_def validate_path_components)
    then show ?thesis
      using path_components_of[OF all] paths_overlap_components target_ok
      by (simp add: nested_def)
  qed
  have "list_all normal_component (sibling_names U r)"
    unfolding sibling_names_def list.map list.pred_inject
    by (intro conjI TrueI operation_names_normal[OF U]; simp)
  then have names: "normal_component n" if "n \<in> set (c # sibling_names U r)" for n
    using that norm by (auto simp: list_all_iff)
  define ns where "ns = c # sibling_names U r"
  have names': "\<And>n. n \<in> set ns \<Longrightarrow> normal_component n" using names by (simp only: ns_def)
  have "active_workspace_protected_paths U r
      = Ok (map (\<lambda>n. AbsolutePath (path_of_components (cs @ [n]))) ns)"
    using protected_paths_components[OF U norm target] by (simp add: sibling_names_def ns_def)
  moreover have "(\<forall>p \<in> set (map (\<lambda>n. AbsolutePath (path_of_components (cs @ [n]))) ns). \<not> paths_overlap p target)
      \<longleftrightarrow> (\<forall>n \<in> set ns. \<not> nested (cs @ [n]) (path_components target))"
    using overlap names' by simp
  moreover have "clear_of U target r \<longleftrightarrow> (\<forall>n \<in> set ns. \<not> nested (cs @ [n]) (path_components target))"
    unfolding clear_of_def ds_def[symmetric] Let_def by (simp add: ds list_all_iff ns_def)
  ultimately show ?thesis by blast
qed

text \<open>
  C29.  The target guard of \<open>create\<close>.  Against active Workspaces with valid targets, a new
  target is accepted exactly when it neither contains nor lies in any of them, nor in or above
  the staging, trash and removal directories that their own creation or removal may use beside
  them.
\<close>

theorem target_guard:
  assumes "uuid_text_format U" "valid_path target"
    "list_all (\<lambda>r. placed (res_target_path (rec_reservation r))) active"
  shows "require_no_active_workspace_path_overlap U target active = Ok ()
    \<longleftrightarrow> list_all (clear_of U target) active"
proof -
  have "\<forall>r \<in> set active. \<exists>ps. active_workspace_protected_paths U r = Ok ps
      \<and> ((\<forall>p \<in> set ps. \<not> paths_overlap p target) \<longleftrightarrow> clear_of U target r)"
    using assms protected_paths_placed[OF assms(1) _ assms(2)] by (simp add: list_all_iff)
  then show ?thesis
    using no_overlap_iff[of active U target] by (fastforce simp: list_all_iff)
qed

lemma target_guard_witness:
  "require_no_active_workspace_path_overlap plain_uuid (AbsolutePath ''/x'') [new_record sample_reservation]
    = Ok ()"
proof -
  let ?r = "new_record sample_reservation"
  have t: "res_target_path (rec_reservation ?r) = AbsolutePath ''/t''"
    by (simp add: new_record_def sample_reservation_def)
  have valid: "valid_path (AbsolutePath ''/x'')" "valid_path (AbsolutePath ''/t'')" by code_simp+
  have comps: "path_components (AbsolutePath ''/x'') = [''x'']" "path_components (AbsolutePath ''/t'') = [''t'']"
    by code_simp+
  have "clear_of plain_uuid (AbsolutePath ''/x'') ?r"
    by (simp add: clear_of_def t comps nested_def sibling_names_def)
  then show ?thesis
    using target_guard[OF plain_uuid_text_format, of "AbsolutePath ''/x''" "[?r]"] valid
    by (simp add: placed_def t del: require_no_active_workspace_path_overlap.simps)
qed

end
