(* ===== verification/App_Create.thy ===== *)
theory App_Create
  imports Create_Guards
begin

text \<open>
  The \<open>create\<close> use case and its dry run (\<open>thinws-application/src/create.rs\<close>): the checks,
  the reservation, the materialization with its one permitted fallback, and the recording of
  a failure.
\<close>

subsection \<open>Requests and results\<close>

record create_request =
  cq_source :: absolute_path
  cq_target :: absolute_path
  cq_name :: workspace_name
  cq_allow_full_copy :: bool
  cq_now :: unix_millis

definition create_request_try_from_raw ::
  "bytes \<Rightarrow> bytes \<Rightarrow> string \<Rightarrow> bool \<Rightarrow> int \<Rightarrow> use_case_error + create_request" where
  "create_request_try_from_raw source target name allow_full_copy now_ms =
     and_then (map_err (\<lambda>_. semantic_error Usage ''source must be a canonical absolute path'')
                (absolute_path_try_from_bytes source)) (\<lambda>source.
     and_then (map_err (\<lambda>_. semantic_error Usage ''target must be a canonical absolute path'')
                (absolute_path_try_from_bytes target)) (\<lambda>target.
     and_then (map_err (\<lambda>_. semantic_error Usage ''invalid Workspace name'')
                (workspace_name_from_str name)) (\<lambda>name.
     and_then (map_err (\<lambda>_. semantic_error Usage ''system clock predates the Unix epoch'')
                (unix_millis_new now_ms)) (\<lambda>now.
       Ok \<lparr>cq_source = source, cq_target = target, cq_name = name,
           cq_allow_full_copy = allow_full_copy, cq_now = now\<rparr>))))"

record create_outcome =
  cro_record :: workspace_record
  cro_materialization :: final_summary
  cro_created :: bool

record create_preview =
  cp_target :: absolute_path
  cp_source_volume_id :: volume_id
  cp_target_volume_id :: volume_id
  cp_effective_mode :: materialization_mode
  cp_selected_adapter :: materializer_kind
  cp_fallback_reason :: "fallback_reason option"

subsection \<open>The checks shared by \<open>create\<close> and its dry run\<close>

definition probe_source :: "('p, 'm) service \<Rightarrow> create_request \<Rightarrow> ('p, 'm, path_capability_report) use_case" where
  "probe_source S request =
     uc_bind (observe (map_port stage.Source) (inspect_path (sv_platform S) (cq_source request))) (\<lambda>source.
     uc_bind (uc_lift (require_existing_source source)) (\<lambda>_. uc_return source))"

definition probe_paths ::
  "('p, 'm) service \<Rightarrow> path_probe_request \<Rightarrow> ('p, 'm, materialization_path_report) use_case" where
  "probe_paths S paths =
     perform (ProbePaths paths) (map_port Layout) (inspect_materialization_paths (sv_platform S) paths)"

text \<open>
  From the provisional paths of identifier \<open>wid\<close> to a report whose source exists and whose
  target is missing below an existing parent and outside every active Workspace.
\<close>

definition preliminary_report ::
  "('p, 'm) service \<Rightarrow> create_request \<Rightarrow> absolute_path \<Rightarrow> workspace_id \<Rightarrow> workspace_record list
   \<Rightarrow> ('p, 'm, materialization_path_report) use_case" where
  "preliminary_report S request parent wid active =
     uc_bind (uc_lift (provisional_materialization_paths (sv_uuid S) (cq_source request)
                         (cq_target request) parent wid)) (\<lambda>paths.
     uc_bind (probe_paths S paths) (\<lambda>report.
     uc_bind (uc_lift (require_existing_source (mpr_source report))) (\<lambda>_.
     uc_bind (case fs_volume_id (filesystem (mpr_target_root report)) of
                Known volume \<Rightarrow>
                  require_no_active_workspace_identity_overlap S (mpr_target_root report) volume active
              | evidence.Unknown _ _ \<Rightarrow> uc_return ()) (\<lambda>_.
     uc_bind (uc_lift (require_missing_target (mpr_target_root report) parent)) (\<lambda>_.
       uc_return report)))))"

subsection \<open>The dry run\<close>

definition overlap_error :: use_case_error where
  "overlap_error = semantic_error TargetLayout ''source, target, and control root must not overlap''"

definition preview_create :: "('p, 'm) service \<Rightarrow> create_request \<Rightarrow> ('p, 'm, create_preview) use_case" where
  "preview_create S request =
     (let P = sv_platform S in
      uc_bind (require_config S) (\<lambda>identity.
        if requested_paths_overlap (cq_source request) (cq_target request) (ii_data_root identity)
        then uc_fail overlap_error
        else
          uc_bind (observe (map_port Control) (validate_layout P identity)) (\<lambda>layout.
          uc_bind (require_ready_marker S identity) (\<lambda>_.
          uc_bind (or_fail (map_port stage.Metadata)
                     (inspect_metadata S layout
                        \<lparr>inst_identity = identity, inst_created_at = cq_now request\<rparr>)) (\<lambda>snapshot.
          uc_bind (uc_lift (require_no_active_workspace_path_overlap (sv_uuid S) (cq_target request)
                              (ms_workspaces snapshot))) (\<lambda>_.
          uc_bind (probe_source S request) (\<lambda>_.
          uc_bind (uc_lift (target_parent (cq_target request))) (\<lambda>parent.
          uc_bind (fresh_uuid S) (\<lambda>u.
          uc_bind (preliminary_report S request parent (WorkspaceId u) (ms_workspaces snapshot)) (\<lambda>report.
          uc_bind (observe (map_port Layout) (inspect_path P (ii_data_root identity))) (\<lambda>data_root_report.
            if materialization_overlaps_control (mpr_source report) (mpr_target_root report) data_root_report
            then uc_fail (semantic_error TargetLayout ''source or target overlaps the control root'')
            else
              uc_bind (uc_lift (select_plan report (cq_allow_full_copy request))) (\<lambda>plan.
              uc_bind (observe (map_port Layout) (layout_revalidate P layout)) (\<lambda>_.
              uc_bind (require_ready_marker S identity) (\<lambda>_.
                uc_return
                  \<lparr>cp_target = cq_target request, cp_source_volume_id = pl_source_volume_id plan,
                   cp_target_volume_id = pl_target_volume_id plan,
                   cp_effective_mode = pl_effective_mode plan,
                   cp_selected_adapter = pl_selected_adapter plan,
                   cp_fallback_reason = pl_fallback_reason plan\<rparr>))))))))))))))"

subsection \<open>Materialization of a reservation\<close>

definition require_prepared_target ::
  "('p, 'm) service \<Rightarrow> prepared_workspace \<Rightarrow> materialization_path_report \<Rightarrow> ('p, 'm, unit) use_case" where
  "require_prepared_target S prepared report =
     (let P = sv_platform S; target = mpr_target_root report in
      uc_bind (observe (map_port Layout) (prepared_revalidate P prepared)) (\<lambda>_.
        if resolution target = ExistingDirectory
           \<and> requested_path target = prepared_target_root P prepared
           \<and> ancestry target \<noteq> []
           \<and> di_path (last (ancestry target)) = prepared_target_root P prepared
           \<and> di_identity (last (ancestry target)) = prepared_target_identity P prepared
        then uc_return ()
        else uc_fail (semantic_error TargetLayout
                        ''materialization target differs from prepared Workspace root'')))"

definition no_copy_executor :: use_case_error where
  "no_copy_executor =
     semantic_error error_code.CapabilityUnavailable ''Full Copy executor is unavailable on this platform''"

definition cow_refused :: "port_error \<Rightarrow> use_case_error" where
  "cow_refused e =
     \<lparr>uce_diagnostic = core_error_new error_code.CowUnavailable cow_unavailable_message,
      uce_source = Some e, uce_partial_receipts = [], uce_git_inspection = None\<rparr>"

text \<open>The plan selected Full Copy at preflight.\<close>

definition copy_directly ::
  "'p materializer option \<Rightarrow> materialize_request \<Rightarrow> materialization_plan
   \<Rightarrow> ('p, 'm, materialization_plan \<times> materialization_receipt) use_case" where
  "copy_directly copy q plan =
     (case copy of
        None \<Rightarrow> uc_fail no_copy_executor
      | Some mz \<Rightarrow>
          uc_bind (run_materializer mz q plan) (\<lambda>result.
            case result of
              Inl failure \<Rightarrow>
                uc_fail (with_partial_receipt (mf_receipt failure) (map_port Layout (mf_error failure)))
            | Inr receipt \<Rightarrow> uc_return (plan, receipt)))"

text \<open>The clone failed because CoW is unavailable and Full Copy was authorized.\<close>

definition copy_after_clone ::
  "('p, 'm) service \<Rightarrow> 'p materializer option \<Rightarrow> prepared_workspace \<Rightarrow> materialize_request
   \<Rightarrow> materialization_plan \<Rightarrow> materialization_receipt
   \<Rightarrow> ('p, 'm, materialization_plan \<times> materialization_receipt) use_case" where
  "copy_after_clone S copy prepared q plan partial =
     uc_bind (uc_map_err (with_partial_receipt partial) (probe_paths S (probe_of_request q))) (\<lambda>fresh.
     uc_bind (uc_map_err (with_partial_receipt partial) (require_prepared_target S prepared fresh)) (\<lambda>_.
     uc_bind (uc_lift (map_err (\<lambda>e. with_partial_receipt partial (map_plan_error e))
                (for_full_copy_after_cow_unavailable fresh plan partial))) (\<lambda>copy_plan.
       case copy of
         None \<Rightarrow> uc_fail (with_partial_receipt partial no_copy_executor)
       | Some mz \<Rightarrow>
           uc_bind (run_materializer mz q copy_plan) (\<lambda>result.
             case result of
               Inl failure \<Rightarrow>
                 uc_fail (with_partial_receipt (mf_receipt failure)
                   (with_partial_receipt partial (map_port Layout (mf_error failure))))
             | Inr receipt \<Rightarrow> uc_return (copy_plan, receipt)))))"

definition execute_plan ::
  "('p, 'm) service \<Rightarrow> 'p materializer \<Rightarrow> 'p materializer option \<Rightarrow> bool \<Rightarrow> prepared_workspace
   \<Rightarrow> materialize_request \<Rightarrow> materialization_plan
   \<Rightarrow> ('p, 'm, materialization_plan \<times> materialization_receipt) use_case" where
  "execute_plan S clone copy allow_full_copy prepared q plan =
     (if pl_selected_adapter plan = materializer_kind.FullCopy then copy_directly copy q plan
      else
        uc_bind (run_materializer clone q plan) (\<lambda>result.
          case result of
            Inr receipt \<Rightarrow> uc_return (plan, receipt)
          | Inl failure \<Rightarrow>
              if rc_failure_kind (mf_receipt failure) \<noteq> Some materialization_failure_kind.CowUnavailable
              then uc_fail (with_partial_receipt (mf_receipt failure)
                     (map_materialization_error (pe_kind (mf_error failure)) (mf_error failure)))
              else if \<not> allow_full_copy
              then uc_fail (with_partial_receipt (mf_receipt failure) (cow_refused (mf_error failure)))
              else copy_after_clone S copy prepared q plan (mf_receipt failure)))"

definition final_summary_of_receipt :: "materialization_receipt \<Rightarrow> final_summary" where
  "final_summary_of_receipt rc =
     \<lparr>fs_requested_mode = rc_requested_mode rc, fs_effective_mode = rc_effective_mode rc,
      fs_actual_mode = rc_actual_mode rc, fs_adapter = rc_actual_adapter rc,
      fs_cow = rc_cow_evidence rc, fs_fallback_reason = rc_fallback_reason rc,
      fs_failed_attempt_count = length (rc_failed_attempts rc)\<rparr>"

text \<open>After a successful materialization: revalidate, clear the marker, complete the metadata.\<close>

definition complete_creation ::
  "('p, 'm) service \<Rightarrow> create_request \<Rightarrow> lock_guard \<Rightarrow> data_root_layout \<Rightarrow> installation_record
   \<Rightarrow> workspace_id \<Rightarrow> prepared_workspace \<Rightarrow> materialization_plan \<Rightarrow> materialization_receipt
   \<Rightarrow> ('p, 'm, create_outcome) use_case" where
  "complete_creation S request lock layout store wid prepared plan receipt =
     (let P = sv_platform S in
      uc_bind (observe (map_port Layout) (prepared_revalidate P prepared)) (\<lambda>_.
      uc_bind (observe (map_port Layout) (layout_revalidate P layout)) (\<lambda>_.
      uc_bind (observe (map_port Layout) (lock_revalidate P lock)) (\<lambda>_.
      uc_bind (perform (ClearIncomplete wid) (map_port Layout)
                 (clear_workspace_incomplete P lock layout prepared)) (\<lambda>_.
      uc_bind (or_fail (map_port stage.Metadata)
                 (store_complete_materialization S store wid plan receipt (cq_now request))) (\<lambda>record.
        uc_return \<lparr>cro_record = record, cro_materialization = final_summary_of_receipt receipt,
                   cro_created = True\<rparr>))))))"

definition create_reserved ::
  "('p, 'm) service \<Rightarrow> create_request \<Rightarrow> lock_guard \<Rightarrow> data_root_layout \<Rightarrow> absolute_path
   \<Rightarrow> installation_record \<Rightarrow> workspace_reservation \<Rightarrow> 'p materializer \<Rightarrow> 'p materializer option
   \<Rightarrow> ('p, 'm, create_outcome) use_case" where
  "create_reserved S request lock layout data_root store reservation clone copy =
     (let P = sv_platform S; wid = res_workspace_id reservation; target = res_target_path reservation in
      uc_bind (perform (PrepareWorkspace wid target) (map_port Layout)
                 (prepare_workspace P lock layout wid target)) (\<lambda>prepared.
        if prepared_target_root P prepared \<noteq> target
        then uc_fail (semantic_error TargetLayout ''prepared target differs from reserved target'')
        else
          (let q = \<lparr>req_source = cq_source request, req_target = target,
                    req_staging = prepared_staging_root P prepared,
                    req_trash = prepared_trash_root P prepared\<rparr> in
           uc_bind (probe_paths S (probe_of_request q)) (\<lambda>report.
           uc_bind (require_prepared_target S prepared report) (\<lambda>_.
           uc_bind (uc_lift (require_existing_source (mpr_source report))) (\<lambda>_.
           uc_bind (observe (map_port Layout) (inspect_path P data_root)) (\<lambda>data_root_report.
             if materialization_overlaps_control (mpr_source report) (mpr_target_root report) data_root_report
             then uc_fail (semantic_error TargetLayout ''source or target overlaps the control root'')
             else
               uc_bind (uc_lift (select_plan report (cq_allow_full_copy request))) (\<lambda>plan.
                 if \<not> matches_reserved_volumes (pl_source_volume_id plan) (pl_target_volume_id plan) reservation
                 then uc_fail (semantic_error TargetLayout
                                 ''materialization volume differs from reservation'')
                 else if pl_selected_adapter plan \<noteq> materializer_kind.FullCopy
                         \<and> pl_selected_adapter plan \<noteq> mz_kind clone
                 then uc_fail (semantic_error error_code.CapabilityUnavailable
                                 ''selected CoW backend does not match the injected materializer'')
                 else
                   uc_bind (execute_plan S clone copy (cq_allow_full_copy request) prepared q plan)
                     (\<lambda>(plan, receipt).
                       complete_creation S request lock layout store wid prepared plan receipt)))))))))"

subsection \<open>The use case\<close>

text \<open>Locking the control root, with the reclassification of a failure.\<close>

definition lock_data_root ::
  "('p, 'm) service \<Rightarrow> installation_identity \<Rightarrow> ('p, 'm, lock_guard) use_case" where
  "lock_data_root S identity =
     (let P = sv_platform S in
      uc_bind (uc_attempt (perform (AcquireLock DataRoot) (map_port Lock)
                 (acquire_data_root P (ii_data_root identity) (sv_lock_timeout S)))) (\<lambda>acquired.
        case acquired of
          Inr lock \<Rightarrow> uc_return lock
        | Inl failure \<Rightarrow>
            uc_bind (observe (map_port Control) (validate_layout P identity)) (\<lambda>_. uc_fail failure)))"

text \<open>The registered layout, the lock, and the store opened under it.\<close>

definition open_locked_store ::
  "('p, 'm) service \<Rightarrow> installation_identity \<Rightarrow> unix_millis
   \<Rightarrow> ('p, 'm, lock_guard \<times> data_root_layout \<times> installation_record) use_case" where
  "open_locked_store S identity now =
     (let P = sv_platform S in
      uc_bind (observe (map_port Control) (validate_layout P identity)) (\<lambda>_.
      uc_bind (lock_data_root S identity) (\<lambda>lock.
      uc_bind (observe (map_port Layout) (lock_revalidate P lock)) (\<lambda>_.
      uc_bind (observe (map_port Control) (validate_layout P identity)) (\<lambda>layout.
      uc_bind (require_ready_marker S identity) (\<lambda>_.
      uc_bind (or_fail (map_port stage.Metadata)
                 (open_existing_store S layout \<lparr>inst_identity = identity, inst_created_at = now\<rparr>)) (\<lambda>store.
        uc_return (lock, layout, store))))))))"

text \<open>A Workspace of that name exists: the same request is answered, any other refused.\<close>

definition reuse_existing ::
  "('p, 'm) service \<Rightarrow> create_request \<Rightarrow> lock_guard \<Rightarrow> data_root_layout \<Rightarrow> workspace_record
   \<Rightarrow> ('p, 'm, create_outcome) use_case" where
  "reuse_existing S request lock layout existing =
     (let P = sv_platform S; res = rec_reservation existing in
      if res_source_path res \<noteq> cq_source request \<or> res_target_path res \<noteq> cq_target request
         \<or> res_allow_full_copy res \<noteq> cq_allow_full_copy request
      then uc_fail (semantic_error NameConflict
                      ''Workspace name is already used with different creation inputs'')
      else if rec_state existing \<noteq> WsReady
      then uc_fail (semantic_error WorkspaceIncomplete ''Workspace creation is incomplete'')
      else
        uc_bind (observe (map_port Layout) (lock_revalidate P lock)) (\<lambda>_.
        uc_bind (perform (ValidateReady res) (map_port Layout)
                   (validate_ready_workspace P layout res)) (\<lambda>verified_path.
          if verified_path \<noteq> res_target_path res
          then uc_fail (semantic_error TargetLayout ''Ready Workspace path does not match metadata'')
          else
            uc_bind (or_fail (map_port stage.Metadata) (store_final S (res_workspace_id res))) (\<lambda>summary.
            uc_bind (uc_lift (ok_or summary
                       (semantic_error error_code.Metadata ''Ready Workspace has no final receipt''))) (\<lambda>summary.
              uc_return \<lparr>cro_record = existing, cro_materialization = summary, cro_created = False\<rparr>)))))"

text \<open>The failure of a reserved creation is recorded; when that fails too, its error wins.\<close>

definition record_creation_failure ::
  "('p, 'm) service \<Rightarrow> installation_record \<Rightarrow> workspace_id \<Rightarrow> unix_millis \<Rightarrow> use_case_error
   \<Rightarrow> ('p, 'm, create_outcome) use_case" where
  "record_creation_failure S store wid now e =
     uc_bind (store_record_failure S store wid Creating (uce_code e) now) (\<lambda>recorded.
       case recorded of
         Inr _ \<Rightarrow> uc_fail e
       | Inl record_error \<Rightarrow>
           uc_fail (fold with_partial_receipt (uce_partial_receipts e)
             (with_workspace_id (sv_uuid S) wid (map_port stage.Metadata record_error))))"

definition reservation_of ::
  "create_request \<Rightarrow> installation_identity \<Rightarrow> workspace_id \<Rightarrow> materialization_plan \<Rightarrow> workspace_reservation" where
  "reservation_of request identity wid plan =
     \<lparr>res_workspace_id = wid, res_instance_id = ii_instance_id identity,
      res_name = cq_name request, res_source_path = cq_source request,
      res_target_path = cq_target request,
      res_source_volume_id = pl_source_volume_id plan,
      res_target_volume_id = pl_target_volume_id plan,
      res_allow_full_copy = cq_allow_full_copy request, res_created_at = cq_now request\<rparr>"

definition reserve_and_create ::
  "('p, 'm) service \<Rightarrow> create_request \<Rightarrow> lock_guard \<Rightarrow> data_root_layout \<Rightarrow> installation_identity
   \<Rightarrow> installation_record \<Rightarrow> workspace_id \<Rightarrow> materialization_plan \<Rightarrow> 'p materializer
   \<Rightarrow> 'p materializer option \<Rightarrow> ('p, 'm, create_outcome) use_case" where
  "reserve_and_create S request lock layout identity store wid preliminary_plan clone copy =
     (let reservation = reservation_of request identity wid preliminary_plan in
      uc_bind (or_fail (map_port stage.Metadata) (store_reserve S store reservation)) (\<lambda>_.
      uc_bind (uc_attempt (uc_map_err (with_workspace_id (sv_uuid S) wid)
                 (create_reserved S request lock layout (ii_data_root identity) store reservation
                    clone copy))) (\<lambda>result.
        case result of
          Inr outcome \<Rightarrow> uc_return outcome
        | Inl e \<Rightarrow> record_creation_failure S store wid (cq_now request) e)))"

definition create_new ::
  "('p, 'm) service \<Rightarrow> create_request \<Rightarrow> lock_guard \<Rightarrow> data_root_layout \<Rightarrow> installation_identity
   \<Rightarrow> installation_record \<Rightarrow> workspace_record list \<Rightarrow> 'p materializer \<Rightarrow> 'p materializer option
   \<Rightarrow> ('p, 'm, create_outcome) use_case" where
  "create_new S request lock layout identity store active clone copy =
     uc_bind (uc_lift (require_no_active_workspace_path_overlap (sv_uuid S) (cq_target request) active)) (\<lambda>_.
     uc_bind (probe_source S request) (\<lambda>source.
     uc_bind (observe (map_port Layout) (inspect_path (sv_platform S) (ii_data_root identity))) (\<lambda>data_root_report.
       if paths_overlap_with_identity source data_root_report
       then uc_fail (semantic_error TargetLayout ''source and control root must not overlap'')
       else
         uc_bind (uc_lift (target_parent (cq_target request))) (\<lambda>parent.
         uc_bind (fresh_uuid S) (\<lambda>u.
         uc_bind (preliminary_report S request parent (WorkspaceId u) active) (\<lambda>preliminary.
           if target_enters_existing_root (mpr_target_root preliminary) data_root_report
           then uc_fail (semantic_error TargetLayout ''target overlaps the control root'')
           else
             uc_bind (uc_lift (select_plan preliminary (cq_allow_full_copy request))) (\<lambda>preliminary_plan.
               reserve_and_create S request lock layout identity store (WorkspaceId u)
                 preliminary_plan clone copy)))))))"

definition create_impl ::
  "('p, 'm) service \<Rightarrow> create_request \<Rightarrow> 'p materializer \<Rightarrow> 'p materializer option
   \<Rightarrow> ('p, 'm, create_outcome) use_case" where
  "create_impl S request clone copy =
     (if mz_kind clone \<notin> {ApfsFileClone, BtrfsReflink}
         \<or> (case copy of Some mz \<Rightarrow> mz_kind mz \<noteq> materializer_kind.FullCopy | None \<Rightarrow> False)
      then uc_fail (semantic_error error_code.CapabilityUnavailable
                      ''required materialization backend is unavailable'')
      else
        uc_bind (require_config S) (\<lambda>identity.
          if requested_paths_overlap (cq_source request) (cq_target request) (ii_data_root identity)
          then uc_fail overlap_error
          else
            uc_bind (open_locked_store S identity (cq_now request)) (\<lambda>(lock, layout, store).
            uc_bind (or_fail (map_port stage.Metadata) (store_workspaces S)) (\<lambda>active.
              case find (\<lambda>r. res_name (rec_reservation r) = cq_name request) active of
                Some existing \<Rightarrow> reuse_existing S request lock layout existing
              | None \<Rightarrow> create_new S request lock layout identity store active clone copy))))"

definition app_create ::
  "('p, 'm) service \<Rightarrow> create_request \<Rightarrow> 'p materializer \<Rightarrow> 'p materializer
   \<Rightarrow> ('p, 'm, create_outcome) use_case" where
  "app_create S request clone copy = create_impl S request clone (Some copy)"

definition create_cow_only ::
  "('p, 'm) service \<Rightarrow> create_request \<Rightarrow> 'p materializer \<Rightarrow> ('p, 'm, create_outcome) use_case" where
  "create_cow_only S request clone = create_impl S request clone None"

end
