(* ===== verification/App_Remove.thy ===== *)
theory App_Remove
  imports App_Create
begin

text \<open>
  The \<open>remove\<close> use case (\<open>thinws-application/src/remove.rs\<close>): selecting the Workspace,
  the checks before anything is destroyed, the removal between its two log events, and the
  repeated removal of a tombstoned identifier.
\<close>

subsection \<open>Requests and results\<close>

datatype remove_target =
  TargetName workspace_name | TargetId workspace_id | TargetAmbiguous workspace_name workspace_id

record remove_request =
  rq_target :: remove_target
  rq_mode :: removal_mode
  rq_now :: unix_millis

definition parse_remove_target :: "uuid_api \<Rightarrow> string \<Rightarrow> use_case_error + remove_target" where
  "parse_remove_target U s =
     (case strip_prefix ''name:'' s of
        Some v \<Rightarrow>
          and_then (map_err (\<lambda>_. semantic_error Usage ''invalid explicit Workspace name'')
                     (workspace_name_from_str v)) (\<lambda>n. Ok (TargetName n))
      | None \<Rightarrow>
          (case strip_prefix ''id:'' s of
             Some v \<Rightarrow>
               and_then (map_err (\<lambda>_. semantic_error Usage ''invalid explicit Workspace ID'')
                          (workspace_id_from_str U v)) (\<lambda>i. Ok (TargetId i))
           | None \<Rightarrow>
               (case (result_ok (workspace_name_from_str s), result_ok (workspace_id_from_str U s)) of
                  (Some n, Some i) \<Rightarrow> Ok (TargetAmbiguous n i)
                | (Some n, None) \<Rightarrow> Ok (TargetName n)
                | (None, Some i) \<Rightarrow> Ok (TargetId i)
                | (None, None) \<Rightarrow> Err (semantic_error Usage ''invalid Workspace name or full ID''))))"

definition remove_request_try_from_raw ::
  "uuid_api \<Rightarrow> string \<Rightarrow> bool \<Rightarrow> int \<Rightarrow> use_case_error + remove_request" where
  "remove_request_try_from_raw U target force now_ms =
     and_then (parse_remove_target U target) (\<lambda>target.
     and_then (map_err (\<lambda>_. semantic_error Usage ''system clock predates the Unix epoch'')
                (unix_millis_new now_ms)) (\<lambda>now.
       Ok \<lparr>rq_target = target, rq_mode = (if force then Force else Normal), rq_now = now\<rparr>))"

datatype remove_result = RemovedNow | AlreadyRemoved

fun remove_result_as_str :: "remove_result \<Rightarrow> string" where
  "remove_result_as_str RemovedNow = ''removed''"
| "remove_result_as_str AlreadyRemoved = ''already-removed''"

record remove_outcome =
  ro_workspace_id :: workspace_id
  ro_operation_id :: operation_id
  ro_forced :: bool
  ro_result :: remove_result
  ro_log_path :: absolute_path
  ro_warning :: "removal_warning option"

subsection \<open>Errors of a removal\<close>

definition missing_target :: "uuid_api \<Rightarrow> workspace_id \<Rightarrow> use_case_error" where
  "missing_target U i = with_workspace_id U i
     (semantic_error TargetMissing ''registered Workspace target is missing; association is retained'')"

definition missing_target_with_source :: "uuid_api \<Rightarrow> workspace_id \<Rightarrow> port_error \<Rightarrow> use_case_error" where
  "missing_target_with_source U i source = (missing_target U i)\<lparr>uce_source := Some source\<rparr>"

definition map_target_port :: "uuid_api \<Rightarrow> workspace_id \<Rightarrow> port_error \<Rightarrow> use_case_error" where
  "map_target_port U i e =
     (if pe_kind e \<in> {port_error_kind.NotFound, port_error_kind.Unavailable}
      then missing_target_with_source U i e
      else if pe_kind e \<in> {port_error_kind.InvalidLayout, port_error_kind.InvalidData, port_error_kind.Conflict}
      then (with_workspace_id U i
              (semantic_error TargetIdentity
                 ''registered Workspace target identity does not match; association is retained''))
             \<lparr>uce_source := Some e\<rparr>
      else with_workspace_id U i (map_port Layout e))"

definition with_process_scan_warning :: "process_use option \<Rightarrow> use_case_error \<Rightarrow> use_case_error" where
  "with_process_scan_warning pu e =
     (if pu = Some ScanIncomplete then with_public_context ''process_use'' ''scan-incomplete'' e else e)"

fun refusal_code :: "removal_refusal \<Rightarrow> error_code" where
  "refusal_code removal_refusal.ConfirmedInUse = WorkspaceBusy"
| "refusal_code removal_refusal.GitCheckIncomplete = error_code.GitCheckIncomplete"
| "refusal_code TrackedChanges = WorkspaceDirty"

fun refusal_message :: "removal_refusal \<Rightarrow> string" where
  "refusal_message removal_refusal.ConfirmedInUse = ''Workspace is occupied by another process''"
| "refusal_message removal_refusal.GitCheckIncomplete = ''tracked-change check is incomplete''"
| "refusal_message TrackedChanges = ''Workspace has tracked changes''"

fun refusal_remediation :: "removal_refusal \<Rightarrow> string" where
  "refusal_remediation removal_refusal.ConfirmedInUse =
     ''Stop processes using the Workspace and retry; --force does not bypass confirmed use.''"
| "refusal_remediation removal_refusal.GitCheckIncomplete =
     ''Resolve the Git check or use workspace remove <name-or-id> --force to discard the copy.''"
| "refusal_remediation TrackedChanges =
     ''Preserve and commit required work, or use workspace remove <name-or-id> --force to discard the copy.''"

subsection \<open>Selecting the Workspace\<close>

definition find_named :: "('p, 'm) service \<Rightarrow> workspace_name \<Rightarrow> ('p, 'm, workspace_record option) use_case" where
  "find_named S n =
     uc_bind (or_fail (map_port stage.Metadata) (store_workspaces S)) (\<lambda>ws.
       uc_return (find (\<lambda>w. res_name (rec_reservation w) = n) ws))"

definition find_identified :: "('p, 'm) service \<Rightarrow> workspace_id \<Rightarrow> ('p, 'm, workspace_record option) use_case" where
  "find_identified S i = or_fail (map_port stage.Metadata) (store_workspace S i)"

definition read_tombstone ::
  "('p, 'm) service \<Rightarrow> installation_record \<Rightarrow> workspace_id \<Rightarrow> ('p, 'm, deletion_tombstone option) use_case" where
  "read_tombstone S store i = or_fail (map_port stage.Metadata) (store_tombstone S store i)"

definition different_records :: use_case_error where
  "different_records = with_remediation
     ''Use name:<name> or id:<full-workspace-id> to select the intended Workspace explicitly.''
     (semantic_error Usage ''Workspace name and ID select different records'')"

definition select_active ::
  "('p, 'm) service \<Rightarrow> installation_record \<Rightarrow> remove_target \<Rightarrow> ('p, 'm, workspace_record option) use_case" where
  "select_active S store target =
     (case target of
        TargetName n \<Rightarrow> find_named S n
      | TargetId i \<Rightarrow> find_identified S i
      | TargetAmbiguous n i \<Rightarrow>
          uc_bind (find_named S n) (\<lambda>by_name.
          uc_bind (find_identified S i) (\<lambda>by_id.
          uc_bind (if by_id = None
                   then uc_bind (read_tombstone S store i) (\<lambda>tomb. uc_return (tomb \<noteq> None))
                   else uc_return False) (\<lambda>old_id.
            if (case by_name of
                  None \<Rightarrow> False
                | Some named \<Rightarrow>
                    old_id
                    \<or> (case by_id of
                         None \<Rightarrow> False
                       | Some identified \<Rightarrow>
                           res_workspace_id (rec_reservation named)
                             \<noteq> res_workspace_id (rec_reservation identified)))
            then uc_fail different_records
            else uc_return (case by_name of None \<Rightarrow> by_id | Some named \<Rightarrow> Some named)))))"

subsection \<open>The log\<close>

definition append_log ::
  "('p, 'm) service \<Rightarrow> lock_guard \<Rightarrow> data_root_layout \<Rightarrow> (port_error \<Rightarrow> use_case_error)
   \<Rightarrow> removal_log_record \<Rightarrow> ('p, 'm, absolute_path) use_case" where
  "append_log S lock layout on_error entry =
     perform (AppendLog entry) on_error (append_removal_log (sv_platform S) lock layout entry)"

text \<open>A log record without observations.\<close>

definition bare_log ::
  "remove_request \<Rightarrow> operation_id \<Rightarrow> workspace_id \<Rightarrow> removal_log_event \<Rightarrow> removal_log_record" where
  "bare_log request oper i event =
     \<lparr>log_occurred_at = rq_now request, log_operation_id = oper, log_workspace_id = i,
      log_event = event, log_mode = rq_mode request, log_git_state = git_state.Unknown,
      log_git_check_complete = False, log_repositories = [], log_process_use = None,
      log_protection = None, log_error_code = None, log_outcome = None\<rparr>"

definition layout_error :: "('p, 'm) service \<Rightarrow> workspace_id \<Rightarrow> port_error \<Rightarrow> use_case_error" where
  "layout_error S i e = with_workspace_id (sv_uuid S) i (map_port Layout e)"

subsection \<open>Repeated removal of a tombstoned identifier\<close>

definition remove_again ::
  "('p, 'm) service \<Rightarrow> remove_request \<Rightarrow> lock_guard \<Rightarrow> data_root_layout \<Rightarrow> installation_identity
   \<Rightarrow> installation_record \<Rightarrow> ('p, 'm, remove_outcome) use_case" where
  "remove_again S request lock layout identity store =
     (let not_found = semantic_error WorkspaceNotFound ''Workspace not found'' in
      uc_bind (case rq_target request of
                 TargetId i \<Rightarrow> uc_return i
               | TargetAmbiguous _ i \<Rightarrow> uc_return i
               | TargetName _ \<Rightarrow> uc_fail not_found) (\<lambda>i.
      uc_bind (read_tombstone S store i) (\<lambda>found.
      uc_bind (uc_lift (ok_or found not_found)) (\<lambda>tombstone.
        if tomb_instance_id tombstone \<noteq> ii_instance_id identity
        then uc_fail (semantic_error error_code.Metadata
                        ''deletion record belongs to another installation'')
        else
          uc_bind (fresh_uuid S) (\<lambda>u.
          uc_bind (append_log S lock layout (layout_error S i)
                     (bare_log request (OperationId u) i Started)) (\<lambda>_.
          uc_bind (append_log S lock layout (layout_error S i)
                     ((bare_log request (OperationId u) i Completed)\<lparr>log_outcome := Some AlreadyAbsent\<rparr>))
            (\<lambda>log_path.
            uc_return
              \<lparr>ro_workspace_id = i, ro_operation_id = OperationId u,
               ro_forced = (rq_mode request = Force), ro_result = AlreadyRemoved,
               ro_log_path = log_path, ro_warning = None\<rparr>)))))))"

subsection \<open>Preflight\<close>

definition find_container ::
  "('p, 'm) service \<Rightarrow> lock_guard \<Rightarrow> data_root_layout \<Rightarrow> workspace_reservation
   \<Rightarrow> ('p, 'm, absolute_path) use_case" where
  "find_container S lock layout v =
     (let i = res_workspace_id v in
      uc_bind (perform (InspectContainer v) (map_target_port (sv_uuid S) i)
                 (inspect_removal_container (sv_platform S) lock layout v)) (\<lambda>found.
        uc_lift (ok_or found (missing_target (sv_uuid S) i))))"

definition validate_target ::
  "('p, 'm) service \<Rightarrow> data_root_layout \<Rightarrow> workspace_reservation \<Rightarrow> ('p, 'm, absolute_path) use_case" where
  "validate_target S layout v =
     perform (ValidateReady v) (layout_error S (res_workspace_id v))
       (validate_ready_workspace (sv_platform S) layout v)"

definition removal_inspection ::
  "('p, 'm) service \<Rightarrow> 'p git_inspector \<Rightarrow> data_root_layout \<Rightarrow> workspace_record \<Rightarrow> removal_mode
   \<Rightarrow> ('p, 'm, git_inspection option) use_case" where
  "removal_inspection S git layout active mode =
     (let v = rec_reservation active in
      if rec_state active = WsReady \<and> mode = Normal
      then
        uc_bind (validate_target S layout v) (\<lambda>path.
          if path \<noteq> res_target_path v
          then uc_fail (with_workspace_id (sv_uuid S) (res_workspace_id v)
                 (semantic_error TargetLayout ''Ready Workspace path does not match metadata''))
          else
            uc_bind (run_git git path) (\<lambda>result.
            uc_bind (validate_target S layout v) (\<lambda>_. uc_return (Some result))))
      else uc_return None)"

definition removal_preflight ::
  "('p, 'm) service \<Rightarrow> 'p git_inspector \<Rightarrow> 'p process_probe \<Rightarrow> lock_guard \<Rightarrow> data_root_layout
   \<Rightarrow> workspace_record \<Rightarrow> removal_mode \<Rightarrow> ('p, 'm, git_inspection option \<times> process_use option) use_case" where
  "removal_preflight S git process lock layout active mode =
     (let v = rec_reservation active in
      uc_bind (find_container S lock layout v) (\<lambda>_.
      uc_bind (removal_inspection S git layout active mode) (\<lambda>inspection.
      uc_bind (find_container S lock layout v) (\<lambda>container.
      uc_bind (perform (ScanProcesses container) (layout_error S (res_workspace_id v)) (process container))
        (\<lambda>observation. uc_return (inspection, Some (use_state observation)))))))"

text \<open>A failed preflight is logged; when that fails too, its error wins and names the first code.\<close>

definition fail_preflight ::
  "('p, 'm) service \<Rightarrow> remove_request \<Rightarrow> lock_guard \<Rightarrow> data_root_layout \<Rightarrow> operation_id \<Rightarrow> workspace_id
   \<Rightarrow> use_case_error \<Rightarrow> ('p, 'm, 'a) use_case" where
  "fail_preflight S request lock layout oper i failure =
     uc_bind (append_log S lock layout
                (\<lambda>e. with_public_context ''preflight_error_code'' (error_code_as_str (uce_code failure))
                       (layout_error S i e))
                ((bare_log request oper i Failed)\<lparr>log_error_code := Some (uce_code failure)\<rparr>)) (\<lambda>_.
       uc_fail failure)"

subsection \<open>The removal\<close>

text \<open>The log record with the observations of the preflight.\<close>

definition observed_log ::
  "remove_request \<Rightarrow> operation_id \<Rightarrow> workspace_id \<Rightarrow> git_inspection option \<Rightarrow> process_use option
   \<Rightarrow> removal_log_event \<Rightarrow> removal_refusal option \<Rightarrow> error_code option \<Rightarrow> workspace_removal option
   \<Rightarrow> removal_log_record" where
  "observed_log request oper i inspection pu event protection err outcome =
     \<lparr>log_occurred_at = rq_now request, log_operation_id = oper, log_workspace_id = i,
      log_event = event, log_mode = rq_mode request,
      log_git_state = (case inspection of None \<Rightarrow> git_state.Unknown | Some g \<Rightarrow> gi_aggregate g),
      log_git_check_complete =
        (case inspection of
           None \<Rightarrow> False
         | Some g \<Rightarrow> gi_discovery g = Complete \<and> gi_aggregate g \<noteq> git_state.Unknown),
      log_repositories = (case inspection of None \<Rightarrow> [] | Some g \<Rightarrow> gi_repositories g),
      log_process_use = pu, log_protection = protection, log_error_code = err, log_outcome = outcome\<rparr>"

text \<open>The removal of the container, and the check that it is gone.\<close>

definition remove_container ::
  "('p, 'm) service \<Rightarrow> lock_guard \<Rightarrow> data_root_layout \<Rightarrow> workspace_reservation
   \<Rightarrow> ('p, 'm, workspace_removal) use_case" where
  "remove_container S lock layout v =
     (let P = sv_platform S; i = res_workspace_id v in
      uc_bind (perform (RemoveContainer v) (map_target_port (sv_uuid S) i)
                 (remove_workspace_container P lock layout v)) (\<lambda>outcome.
      uc_bind (perform (InspectContainer v) (layout_error S i)
                 (inspect_removal_container P lock layout v)) (\<lambda>found.
        case found of
          None \<Rightarrow> uc_return outcome
        | Some _ \<Rightarrow> uc_fail (with_workspace_id (sv_uuid S) i
                      (semantic_error TargetLayout
                         ''Workspace container reappeared before deletion completion'')))))"

text \<open>From the announced removal to its completion, with the handling of each failure.\<close>

definition destroy ::
  "('p, 'm) service \<Rightarrow> remove_request \<Rightarrow> lock_guard \<Rightarrow> data_root_layout \<Rightarrow> installation_identity
   \<Rightarrow> installation_record \<Rightarrow> workspace_record \<Rightarrow> operation_id
   \<Rightarrow> (removal_log_event \<Rightarrow> removal_refusal option \<Rightarrow> error_code option \<Rightarrow> workspace_removal option
        \<Rightarrow> removal_log_record)
   \<Rightarrow> removal_warning option \<Rightarrow> ('p, 'm, remove_outcome) use_case" where
  "destroy S request lock layout identity store active oper entry warning =
     (let v = rec_reservation active; i = res_workspace_id v;
          append = (\<lambda>event err outcome. append_log S lock layout (layout_error S i) (entry event None err outcome));
          failed = (\<lambda>failure. uc_bind (append Failed (Some (uce_code failure)) None) (\<lambda>_. uc_fail failure));
          metadata_error = (\<lambda>e. with_workspace_id (sv_uuid S) i (map_port stage.Metadata e)) in
      uc_bind (append Started None None) (\<lambda>log_path.
      uc_bind (store_begin_removal S store i (rec_state active) (rq_mode request) (rq_now request)) (\<lambda>begun.
        case begun of
          Inl e \<Rightarrow> failed (metadata_error e)
        | Inr _ \<Rightarrow>
            uc_bind (uc_attempt (remove_container S lock layout v)) (\<lambda>removal.
              case removal of
                Inl failure \<Rightarrow>
                  uc_bind (store_record_failure S store i Deleting (uce_code failure) (rq_now request)) (\<lambda>recorded.
                    failed (case recorded of Inr _ \<Rightarrow> failure | Inl e \<Rightarrow> metadata_error e))
              | Inr removed \<Rightarrow>
                  uc_bind (store_complete_deletion S store i (ii_instance_id identity) (rq_now request)) (\<lambda>deleted.
                    case deleted of
                      Inl e \<Rightarrow> failed (metadata_error e)
                    | Inr _ \<Rightarrow>
                        uc_bind (append Completed None (Some removed)) (\<lambda>_.
                          uc_return
                            \<lparr>ro_workspace_id = i, ro_operation_id = oper,
                             ro_forced = (rq_mode request = Force), ro_result = RemovedNow,
                             ro_log_path = log_path, ro_warning = warning\<rparr>))))))"

text \<open>The policy, on the observations of the preflight.\<close>

definition incomplete_cleanup :: use_case_error where
  "incomplete_cleanup = with_remediation
     ''Inspect the incomplete copy, then use workspace remove <name-or-id> --force only to discard it.''
     (semantic_error WorkspaceIncomplete ''Workspace cleanup is incomplete; explicit force is required'')"

definition decide_and_destroy ::
  "('p, 'm) service \<Rightarrow> remove_request \<Rightarrow> lock_guard \<Rightarrow> data_root_layout \<Rightarrow> installation_identity
   \<Rightarrow> installation_record \<Rightarrow> workspace_record \<Rightarrow> operation_id \<Rightarrow> git_inspection option
   \<Rightarrow> process_use option \<Rightarrow> ('p, 'm, remove_outcome) use_case" where
  "decide_and_destroy S request lock layout identity store active oper inspection pu =
     (let i = res_workspace_id (rec_reservation active);
          entry = observed_log request oper i inspection pu;
          git_state = (case inspection of None \<Rightarrow> git_state.Unknown | Some g \<Rightarrow> gi_aggregate g) in
      if rec_state active \<noteq> WsReady \<and> rq_mode request = Normal
      then
        uc_bind (append_log S lock layout (layout_error S i)
                   (entry Failed None (Some WorkspaceIncomplete) None)) (\<lambda>_.
          uc_fail (with_process_scan_warning pu (with_workspace_id (sv_uuid S) i incomplete_cleanup)))
      else
        (case decide_removal git_state (case pu of None \<Rightarrow> NoEvidence | Some x \<Rightarrow> x) (rq_mode request) of
           Refuse reason \<Rightarrow>
             uc_bind (append_log S lock layout (layout_error S i)
                        (entry Refused (Some reason) (Some (refusal_code reason)) None)) (\<lambda>_.
               uc_fail (with_process_scan_warning pu
                 (with_git_inspection inspection
                   (with_remediation (refusal_remediation reason)
                     (with_workspace_id (sv_uuid S) i
                       (semantic_error (refusal_code reason) (refusal_message reason)))))))
         | Proceed warning \<Rightarrow> destroy S request lock layout identity store active oper entry warning))"

definition remove_active ::
  "('p, 'm) service \<Rightarrow> remove_request \<Rightarrow> 'p git_inspector \<Rightarrow> 'p process_probe \<Rightarrow> lock_guard
   \<Rightarrow> data_root_layout \<Rightarrow> installation_identity \<Rightarrow> installation_record \<Rightarrow> workspace_record
   \<Rightarrow> ('p, 'm, remove_outcome) use_case" where
  "remove_active S request git process lock layout identity store active =
     uc_bind (fresh_uuid S) (\<lambda>u.
     uc_bind (uc_attempt (removal_preflight S git process lock layout active (rq_mode request))) (\<lambda>preflight.
       case preflight of
         Inl failure \<Rightarrow>
           fail_preflight S request lock layout (OperationId u)
             (res_workspace_id (rec_reservation active)) failure
       | Inr (inspection, pu) \<Rightarrow>
           decide_and_destroy S request lock layout identity store active (OperationId u) inspection pu))"

definition app_remove ::
  "('p, 'm) service \<Rightarrow> remove_request \<Rightarrow> 'p git_inspector \<Rightarrow> 'p process_probe
   \<Rightarrow> ('p, 'm, remove_outcome) use_case" where
  "app_remove S request git process =
     uc_bind (require_config S) (\<lambda>identity.
     uc_bind (open_locked_store S identity (rq_now request)) (\<lambda>(lock, layout, store).
     uc_bind (select_active S store (rq_target request)) (\<lambda>active.
       case active of
         None \<Rightarrow> remove_again S request lock layout identity store
       | Some active \<Rightarrow> remove_active S request git process lock layout identity store active)))"

end
