(* ===== verification/Create_Protocol.thy ===== *)
theory Create_Protocol
  imports App_Create
begin

text \<open>
  The protocol of \<open>create\<close> as an automaton on the port calls: which call may follow which,
  on what evidence, and that every run of the use case follows it to one of its ends.
\<close>

subsection \<open>The automaton\<close>

text \<open>
  Before the reservation the automaton remembers the configured identity, the store opened for
  it, the active Workspaces read from that store, the last identifier drawn and the last path
  report; after it, the reservation, the prepared container, the plan and the receipts.
\<close>

record create_facts =
  cf_identity :: "installation_identity option"
  cf_store :: "installation_record option"
  cf_active :: "workspace_record list option"
  cf_fresh :: "uuid option"
  cf_report :: "materialization_path_report option"

definition no_create_facts :: create_facts where
  "no_create_facts = \<lparr>cf_identity = None, cf_store = None, cf_active = None, cf_fresh = None, cf_report = None\<rparr>"

datatype create_phase =
    PhPlanning create_facts
  | PhReserved workspace_reservation
  | PhPrepared workspace_reservation prepared_workspace
  | PhProbed workspace_reservation prepared_workspace materialization_path_report
  | PhCloneFailed workspace_reservation prepared_workspace materialization_plan materialization_receipt
  | PhReprobed workspace_reservation prepared_workspace materialization_plan materialization_receipt
      materialization_path_report
  | PhMaterialized workspace_reservation materialization_plan materialization_receipt
  | PhCleared workspace_reservation materialization_plan materialization_receipt
  | PhFailing workspace_reservation
  | PhDone workspace_record materialization_receipt
  | PhRefused
  | PhRecorded error_code bool

fun reserved_as :: "create_phase \<Rightarrow> workspace_reservation option" where
  "reserved_as (PhReserved v) = Some v"
| "reserved_as (PhPrepared v prep) = Some v"
| "reserved_as (PhProbed v prep rep) = Some v"
| "reserved_as (PhCloneFailed v prep plan rc) = Some v"
| "reserved_as (PhReprobed v prep plan rc rep) = Some v"
| "reserved_as (PhMaterialized v plan rc) = Some v"
| "reserved_as (PhCleared v plan rc) = Some v"
| "reserved_as (PhFailing v) = Some v"
| "reserved_as _ = None"

definition operation_request ::
  "'p platform \<Rightarrow> workspace_reservation \<Rightarrow> prepared_workspace \<Rightarrow> materialize_request" where
  "operation_request P v prep =
     \<lparr>req_source = res_source_path v, req_target = res_target_path v,
      req_staging = prepared_staging_root P prep, req_trash = prepared_trash_root P prep\<rparr>"

text \<open>What justifies a reservation.\<close>

definition reservation_grounds ::
  "uuid_api \<Rightarrow> create_request \<Rightarrow> installation_identity \<Rightarrow> workspace_record list \<Rightarrow> uuid
   \<Rightarrow> materialization_path_report \<Rightarrow> workspace_reservation \<Rightarrow> bool" where
  "reservation_grounds U request identity active u report v \<longleftrightarrow>
     res_workspace_id v = WorkspaceId u \<and> res_instance_id v = ii_instance_id identity
     \<and> res_name v = cq_name request \<and> res_source_path v = cq_source request
     \<and> res_target_path v = cq_target request
     \<and> res_allow_full_copy v = cq_allow_full_copy request \<and> res_created_at v = cq_now request
     \<and> \<not> requested_paths_overlap (cq_source request) (cq_target request) (ii_data_root identity)
     \<and> list_all (\<lambda>r. res_name (rec_reservation r) \<noteq> cq_name request) active
     \<and> require_no_active_workspace_path_overlap U (cq_target request) active = Ok ()
     \<and> require_existing_source (mpr_source report) = Ok ()
     \<and> resolution (mpr_target_root report) = MissingTarget
     \<and> (case select_plan report (cq_allow_full_copy request) of
          Inl _ \<Rightarrow> False
        | Inr plan \<Rightarrow> matches_reserved_volumes (pl_source_volume_id plan) (pl_target_volume_id plan) v)"

text \<open>What justifies a first materialization.\<close>

definition attempt_grounds ::
  "'p platform \<Rightarrow> create_request \<Rightarrow> workspace_reservation \<Rightarrow> prepared_workspace
   \<Rightarrow> materialization_path_report \<Rightarrow> materializer_kind \<Rightarrow> materialize_request \<Rightarrow> materialization_plan \<Rightarrow> bool" where
  "attempt_grounds P request v prep report k q plan \<longleftrightarrow>
     q = operation_request P v prep \<and> prepared_target_root P prep = res_target_path v
     \<and> resolution (mpr_target_root report) = ExistingDirectory
     \<and> di_identity (last (ancestry (mpr_target_root report))) = prepared_target_identity P prep
     \<and> require_existing_source (mpr_source report) = Ok ()
     \<and> select_plan report (cq_allow_full_copy request) = Ok plan
     \<and> matches_reserved_volumes (pl_source_volume_id plan) (pl_target_volume_id plan) v
     \<and> k = pl_selected_adapter plan"

definition after_attempt ::
  "workspace_reservation \<Rightarrow> materialization_plan \<Rightarrow> create_phase
   \<Rightarrow> materialization_failure + materialization_receipt \<Rightarrow> create_phase" where
  "after_attempt v plan on_failure r =
     (case r of Inr rc \<Rightarrow> PhMaterialized v plan rc | Inl f \<Rightarrow> on_failure)"

text \<open>The steps between reservation and completion.\<close>

definition reserved_next ::
  "'p platform \<Rightarrow> create_request \<Rightarrow> create_phase \<Rightarrow> port_event \<Rightarrow> create_phase option" where
  "reserved_next P request ph ev =
     (case ph of
        PhReserved v \<Rightarrow>
          (case ev of
             PrepareWorkspace i p r \<Rightarrow>
               if i = res_workspace_id v \<and> p = res_target_path v
               then Some (case r of Inr prep \<Rightarrow> PhPrepared v prep | Inl _ \<Rightarrow> PhFailing v) else None
           | _ \<Rightarrow> None)
      | PhPrepared v prep \<Rightarrow>
          (case ev of
             ProbePaths q r \<Rightarrow>
               if q = probe_of_request (operation_request P v prep)
               then Some (case r of Inr rep \<Rightarrow> PhProbed v prep rep | Inl _ \<Rightarrow> PhFailing v) else None
           | _ \<Rightarrow> None)
      | PhProbed v prep rep \<Rightarrow>
          (case ev of
             Materialize k q plan r \<Rightarrow>
               if attempt_grounds P request v prep rep k q plan
               then Some (after_attempt v plan
                      (case r of
                         Inl f \<Rightarrow>
                           if k \<noteq> materializer_kind.FullCopy \<and> cq_allow_full_copy request
                              \<and> rc_failure_kind (mf_receipt f) = Some materialization_failure_kind.CowUnavailable
                           then PhCloneFailed v prep plan (mf_receipt f) else PhFailing v
                       | Inr _ \<Rightarrow> PhFailing v) r)
               else None
           | _ \<Rightarrow> None)
      | PhCloneFailed v prep plan rc \<Rightarrow>
          (case ev of
             ProbePaths q r \<Rightarrow>
               if q = probe_of_request (operation_request P v prep)
               then Some (case r of Inr rep \<Rightarrow> PhReprobed v prep plan rc rep | Inl _ \<Rightarrow> PhFailing v) else None
           | _ \<Rightarrow> None)
      | PhReprobed v prep plan rc fresh \<Rightarrow>
          (case ev of
             Materialize k q copy_plan r \<Rightarrow>
               if k = materializer_kind.FullCopy \<and> q = operation_request P v prep
                  \<and> for_full_copy_after_cow_unavailable fresh plan rc = Ok copy_plan
               then Some (after_attempt v copy_plan (PhFailing v) r) else None
           | _ \<Rightarrow> None)
      | PhMaterialized v plan rc \<Rightarrow>
          (case ev of
             ClearIncomplete i r \<Rightarrow>
               if i = res_workspace_id v
               then Some (case r of Inr _ \<Rightarrow> PhCleared v plan rc | Inl _ \<Rightarrow> PhFailing v) else None
           | _ \<Rightarrow> None)
      | PhCleared v plan rc \<Rightarrow>
          (case ev of
             StoreRequest q r \<Rightarrow>
               if q = CompleteMaterialization (res_workspace_id v) plan rc (cq_now request)
               then (case r of
                       Inr (WorkspaceReply w) \<Rightarrow> Some (PhDone w rc)
                     | Inr (TombstoneReply _) \<Rightarrow> None
                     | Inl _ \<Rightarrow> Some (PhFailing v))
               else None
           | _ \<Rightarrow> None)
      | _ \<Rightarrow> None)"

text \<open>Recording the failure of a reserved creation, possible in every phase of it.\<close>

definition record_next :: "create_request \<Rightarrow> create_phase \<Rightarrow> port_event \<Rightarrow> create_phase option" where
  "record_next request ph ev =
     (case (reserved_as ph, ev) of
        (Some v, StoreRequest (RecordFailure i expected e t) r) \<Rightarrow>
          if i = res_workspace_id v \<and> expected = Creating \<and> t = cq_now request
          then Some (PhRecorded e (is_ok r)) else None
      | _ \<Rightarrow> None)"

definition planning_next ::
  "uuid_api \<Rightarrow> create_request \<Rightarrow> create_facts \<Rightarrow> port_event \<Rightarrow> create_phase option" where
  "planning_next U request f ev =
     (case ev of
        ReadConfig r \<Rightarrow>
          Some (PhPlanning (f\<lparr>cf_identity := (case r of Inr i \<Rightarrow> i | Inl _ \<Rightarrow> None), cf_store := None\<rparr>))
      | OpenStore expected r \<Rightarrow>
          if cf_identity f = Some (inst_identity expected)
          then Some (PhPlanning (f\<lparr>cf_store := result_ok r, cf_active := None\<rparr>)) else None
      | ReadWorkspaces r \<Rightarrow> Some (PhPlanning (f\<lparr>cf_active := result_ok r\<rparr>))
      | NewUuid u \<Rightarrow> Some (PhPlanning (f\<lparr>cf_fresh := Some u\<rparr>))
      | ProbePaths q r \<Rightarrow> Some (PhPlanning (f\<lparr>cf_report := result_ok r\<rparr>))
      | StoreRequest (ReserveWorkspace v) r \<Rightarrow>
          (case (cf_identity f, cf_store f, cf_active f, cf_fresh f, cf_report f) of
             (Some identity, Some _, Some ws, Some u, Some rep) \<Rightarrow>
               if reservation_grounds U request identity ws u rep v
               then Some (if is_ok r then PhReserved v else PhRefused) else None
           | _ \<Rightarrow> None)
      | _ \<Rightarrow> if mutating ev then None else Some (PhPlanning f))"

definition create_next ::
  "uuid_api \<Rightarrow> 'p platform \<Rightarrow> create_request \<Rightarrow> create_phase \<Rightarrow> port_event \<Rightarrow> create_phase option" where
  "create_next U P request ph ev =
     (case ph of
        PhPlanning f \<Rightarrow> planning_next U request f ev
      | _ \<Rightarrow> (case record_next request ph ev of
                Some ph' \<Rightarrow> Some ph'
              | None \<Rightarrow> reserved_next P request ph ev))"

fun advance ::
  "uuid_api \<Rightarrow> 'p platform \<Rightarrow> create_request \<Rightarrow> create_phase \<Rightarrow> trace \<Rightarrow> create_phase option" where
  "advance U P request ph [] = Some ph"
| "advance U P request ph (ev # evs) =
     (case create_next U P request ph ev of
        None \<Rightarrow> None
      | Some ph' \<Rightarrow> advance U P request ph' evs)"

lemma advance_append:
  "advance U P request ph (s @ t) =
     (case advance U P request ph s of None \<Rightarrow> None | Some ph' \<Rightarrow> advance U P request ph' t)"
  by (induction s arbitrary: ph) (auto split: option.splits)

lemmas create_steps = create_next_def record_next_def reserved_next_def after_attempt_def

subsection \<open>Every run follows it\<close>

lemma silent_checks [silent_rules]:
  "silent (require_prepared_target S prepared report)" "silent (probe_source S request)"
  "silent (check_protected_paths S target paths)"
  "silent (require_no_active_workspace_identity_overlap S target volume active)"
proof -
  show checked: "silent (check_protected_paths S target paths)" for target paths
    by (induction paths) (auto intro!: silent_rules)
  show "silent (require_no_active_workspace_identity_overlap S target volume active)"
    by (induction active) (auto intro!: silent_rules checked)
qed (auto simp: require_prepared_target_def probe_source_def Let_def intro!: silent_rules)

lemma calls_bind_prepared:
  assumes "\<And>e. Q (Inl e) t"
    "\<And>x. \<lbrakk>resolution (mpr_target_root report) = ExistingDirectory;
        di_identity (last (ancestry (mpr_target_root report))) = prepared_target_identity (sv_platform S) prepared\<rbrakk>
      \<Longrightarrow> calls (f x) Q t"
  shows "calls (uc_bind (require_prepared_target S prepared report) f) Q t"
  by (rule calls_bind, unfold require_prepared_target_def Let_def, intro calls_seq) (auto simp: assms)

definition reserved_end ::
  "uuid_api \<Rightarrow> 'p platform \<Rightarrow> create_request \<Rightarrow> create_phase \<Rightarrow> workspace_reservation
   \<Rightarrow> use_case_error + create_outcome \<Rightarrow> trace \<Rightarrow> bool" where
  "reserved_end U P request ph v r ts =
     (case r of
        Inr out \<Rightarrow> \<exists>w rc. advance U P request ph ts = Some (PhDone w rc)
          \<and> out = \<lparr>cro_record = w, cro_materialization = final_summary_of_receipt rc, cro_created = True\<rparr>
      | Inl e \<Rightarrow> \<exists>ph'. advance U P request ph ts = Some ph' \<and> reserved_as ph' = Some v)"

definition executed ::
  "uuid_api \<Rightarrow> 'p platform \<Rightarrow> create_request \<Rightarrow> create_phase \<Rightarrow> workspace_reservation
   \<Rightarrow> use_case_error + materialization_plan \<times> materialization_receipt \<Rightarrow> trace \<Rightarrow> bool" where
  "executed U P request ph v r ts =
     (case r of
        Inr (plan, rc) \<Rightarrow> advance U P request ph ts = Some (PhMaterialized v plan rc)
      | Inl e \<Rightarrow> \<exists>ph'. advance U P request ph ts = Some ph' \<and> reserved_as ph' = Some v)"

definition copies :: "'p materializer option \<Rightarrow> bool" where
  "copies copy = (case copy of Some mz \<Rightarrow> mz_kind mz = materializer_kind.FullCopy | None \<Rightarrow> True)"

lemma calls_bind_map_perform:
  "\<lbrakk>\<And>e. Q (Inl (h (g e))) (t @ [ev (Inl e)]); \<And>x. calls (f x) Q (t @ [ev (Inr x)])\<rbrakk>
   \<Longrightarrow> calls (uc_bind (uc_map_err h (perform ev g call)) f) Q t"
  by (rule calls_bind, rule calls_map_err, rule calls_perform) simp_all

lemmas calls_bind_map_prepared = calls_bind_silent[OF silent_cases(3)[OF silent_checks(1)]]

lemma copy_after_clone_emits:
  assumes "copies copy" "q = operation_request (sv_platform S) v prep"
  shows "emits (copy_after_clone S copy prep q plan partial)
    (executed U (sv_platform S) request (PhCloneFailed v prep plan partial) v)"
  unfolding emits_def copy_after_clone_def probe_paths_def
  using assms
  by (intro allI calls_bind_map_perform calls_bind_map_prepared calls_seq)
    (auto simp: executed_def create_steps copies_def result_simps)

lemma copy_directly_emits:
  assumes "copies copy" "attempt_grounds (sv_platform S) request v prep rep materializer_kind.FullCopy q plan"
  shows "emits (copy_directly copy q plan)
    (executed U (sv_platform S) request (PhProbed v prep rep) v)"
  unfolding emits_def copy_directly_def
  using assms by (intro allI calls_seq) (auto simp: executed_def create_steps copies_def)

lemma execute_plan_emits:
  assumes copy: "copies copy"
    and grounds: "attempt_grounds (sv_platform S) request v prep rep (pl_selected_adapter plan) q plan"
    and clone: "pl_selected_adapter plan = materializer_kind.FullCopy \<or> pl_selected_adapter plan = mz_kind clone"
  shows "emits (execute_plan S clone copy (cq_allow_full_copy request) prep q plan)
    (executed U (sv_platform S) request (PhProbed v prep rep) v)"
proof (cases "pl_selected_adapter plan = materializer_kind.FullCopy")
  case True
  then show ?thesis using copy_directly_emits[OF copy, of S request v prep rep q plan U] grounds
    by (simp add: execute_plan_def)
next
  case False
  have q: "q = operation_request (sv_platform S) v prep" using grounds by (simp add: attempt_grounds_def)
  have kind: "mz_kind clone = pl_selected_adapter plan" using clone False by simp
  show ?thesis
    unfolding emits_def execute_plan_def using False grounds
    apply (intro allI calls_seq)
        apply (simp_all add: executed_def create_steps kind)
    apply (rule calls_emits[OF copy_after_clone_emits[OF copy q, where U = U and request = request]])
    apply (auto simp: executed_def create_steps kind split: sum.splits)
    done
qed

lemma complete_creation_emits:
  "emits (complete_creation S request lock layout store (res_workspace_id v) prep plan rc)
    (reserved_end U (sv_platform S) request (PhMaterialized v plan rc) v)"
  unfolding emits_def complete_creation_def Let_def md_calls
  by (intro allI calls_seq) (auto simp: reserved_end_def create_steps store_event_def)

lemma reserved_end_append:
  "advance U P request ph s = Some ph' \<Longrightarrow> reserved_end U P request ph' v r t \<Longrightarrow>
   reserved_end U P request ph v r (s @ t)"
  by (cases r) (simp_all add: reserved_end_def advance_append)

lemma run_and_complete_calls:
  assumes copy: "copies copy"
    and grounds: "attempt_grounds (sv_platform S) request v prep rep (pl_selected_adapter plan) q plan"
    and clone: "\<not> (pl_selected_adapter plan \<noteq> materializer_kind.FullCopy
        \<and> pl_selected_adapter plan \<noteq> mz_kind clone)"
    and before: "advance U (sv_platform S) request ph s = Some (PhProbed v prep rep)"
  shows "calls (uc_bind (execute_plan S clone copy (cq_allow_full_copy request) prep q plan) (\<lambda>(plan, rc).
      complete_creation S request lock layout store (res_workspace_id v) prep plan rc))
    (\<lambda>r t'. \<exists>ts. t' = t @ ts \<and> reserved_end U (sv_platform S) request ph v r ts) (t @ s)"
proof (rule calls_bind_emits[OF execute_plan_emits[OF copy grounds]])
  show "pl_selected_adapter plan = materializer_kind.FullCopy \<or> pl_selected_adapter plan = mz_kind clone"
    using clone by simp
next
  fix e ts
  assume "executed U (sv_platform S) request (PhProbed v prep rep) v (Inl e) ts"
  then show "\<exists>ts'. (t @ s) @ ts = t @ ts' \<and> reserved_end U (sv_platform S) request ph v (Inl e) ts'"
    using before by (auto simp: executed_def reserved_end_def advance_append)
next
  fix x ts
  assume run: "executed U (sv_platform S) request (PhProbed v prep rep) v (Inr x) ts"
  obtain plan' rc where x: "x = (plan', rc)" by fastforce
  have adv: "advance U (sv_platform S) request ph (s @ ts) = Some (PhMaterialized v plan' rc)"
    using run before by (simp add: x executed_def advance_append)
  show "calls (case x of (plan, rc) \<Rightarrow>
        complete_creation S request lock layout store (res_workspace_id v) prep plan rc)
      (\<lambda>r t'. \<exists>ts. t' = t @ ts \<and> reserved_end U (sv_platform S) request ph v r ts) ((t @ s) @ ts)"
    unfolding x prod.case
    by (rule calls_emits[OF complete_creation_emits]) (auto dest: reserved_end_append[OF adv])
qed

lemma run_and_complete_after_two:
  assumes "copies copy"
    "attempt_grounds (sv_platform S) request v prep rep (pl_selected_adapter plan) q plan"
    "\<not> (pl_selected_adapter plan \<noteq> materializer_kind.FullCopy \<and> pl_selected_adapter plan \<noteq> mz_kind clone)"
    "advance U (sv_platform S) request ph [a, b] = Some (PhProbed v prep rep)"
  shows "calls (uc_bind (execute_plan S clone copy (cq_allow_full_copy request) prep q plan) (\<lambda>(plan, rc).
      complete_creation S request lock layout store (res_workspace_id v) prep plan rc))
    (\<lambda>r t'. \<exists>ts. t' = t @ ts \<and> reserved_end U (sv_platform S) request ph v r ts) ((t @ [a]) @ [b])"
  using run_and_complete_calls[OF assms] by simp

lemma create_reserved_emits:
  assumes copy: "copies copy" and v: "res_source_path v = cq_source request"
  shows "emits (create_reserved S request lock layout data_root store v clone copy)
    (reserved_end U (sv_platform S) request (PhReserved v) v)"
  unfolding emits_def create_reserved_def Let_def probe_paths_def
  by (intro allI calls_bind_perform calls_bind_observe calls_bind_prepared calls_bind_lift calls_if
      calls_fail run_and_complete_after_two[OF copy])
    (simp_all add: reserved_end_def create_steps v[symmetric] operation_request_def attempt_grounds_def)

subsection \<open>The ends of a run\<close>

definition ended :: "use_case_error \<Rightarrow> create_phase \<Rightarrow> bool" where
  "ended e ph =
     (case ph of
        PhPlanning f \<Rightarrow> True
      | PhRefused \<Rightarrow> True
      | PhRecorded c recorded \<Rightarrow> recorded \<longrightarrow> uce_code e = c
      | _ \<Rightarrow> False)"

definition created_end ::
  "uuid_api \<Rightarrow> 'p platform \<Rightarrow> create_request \<Rightarrow> create_phase
   \<Rightarrow> use_case_error + create_outcome \<Rightarrow> trace \<Rightarrow> bool" where
  "created_end U P request ph r ts =
     (case r of
        Inr out \<Rightarrow> \<exists>w rc. advance U P request ph ts = Some (PhDone w rc)
          \<and> out = \<lparr>cro_record = w, cro_materialization = final_summary_of_receipt rc, cro_created = True\<rparr>
      | Inl e \<Rightarrow> \<exists>ph'. advance U P request ph ts = Some ph' \<and> ended e ph')"

lemma created_end_append:
  "advance U P request ph s = Some ph' \<Longrightarrow> created_end U P request ph' r t \<Longrightarrow>
   created_end U P request ph r (s @ t)"
  by (cases r) (simp_all add: created_end_def advance_append)

lemma reserved_as_record:
  assumes "reserved_as ph = Some v"
  shows "create_next U P request ph (StoreRequest (RecordFailure (res_workspace_id v) Creating e (cq_now request)) r)
    = Some (PhRecorded e (is_ok r))"
  using assms by (cases ph) (simp_all add: create_next_def record_next_def)

lemma record_creation_failure_emits:
  assumes "reserved_as ph = Some v"
  shows "emits (record_creation_failure S store (res_workspace_id v) (cq_now request) e)
    (created_end U (sv_platform S) request ph)"
  unfolding emits_def record_creation_failure_def md_calls
  by (intro allI calls_seq)
    (auto simp: created_end_def ended_def store_event_def reserved_as_record[OF assms])

lemma uce_code_fold: "uce_code (fold with_partial_receipt rcs e) = uce_code e"
  by (induction rcs arbitrary: e) simp_all

lemma reserve_and_create_emits:
  assumes copy: "copies copy"
    and facts: "cf_identity f = Some identity" "cf_store f = Some opened" "cf_active f = Some ws" "cf_fresh f = Some u" "cf_report f = Some rep"
    and grounds: "reservation_grounds U request identity ws u rep (reservation_of request identity wid plan)"
  shows "emits (reserve_and_create S request lock layout identity store wid plan clone copy)
    (created_end U (sv_platform S) request (PhPlanning f))"
proof -
  let ?P = "sv_platform S" and ?ph = "PhPlanning f" and ?v = "reservation_of request identity wid plan"
  have v: "res_source_path ?v = cq_source request" "res_workspace_id ?v = wid" by (simp_all add: reservation_of_def)
  have reserve: "create_next U ?P request ?ph (store_event (ReserveWorkspace ?v) WorkspaceReply r)
      = Some (if is_ok r then PhReserved ?v else PhRefused)" for r
    using grounds by (cases r) (simp_all add: create_next_def planning_next_def store_event_def facts)
  show ?thesis
    unfolding emits_def reserve_and_create_def Let_def store_reserve_def
  proof (intro allI calls_bind_md)
    fix t e
    show "\<exists>ts. t @ [store_event (ReserveWorkspace ?v) WorkspaceReply (Inl e)] = t @ ts
        \<and> created_end U ?P request ?ph (Inl (map_port stage.Metadata e)) ts"
      by (simp add: created_end_def ended_def reserve)
  next
    fix t x
    let ?s = "[store_event (ReserveWorkspace ?v) WorkspaceReply (Inr x)]"
    have s: "advance U ?P request ?ph ?s = Some (PhReserved ?v)" by (simp add: reserve)
    show "calls (uc_bind (uc_attempt (uc_map_err (with_workspace_id (sv_uuid S) wid)
             (create_reserved S request lock layout (ii_data_root identity) store ?v clone copy)))
             (\<lambda>result. case result of Inl e \<Rightarrow> record_creation_failure S store wid (cq_now request) e
                | Inr outcome \<Rightarrow> uc_return outcome))
        (\<lambda>r t'. \<exists>ts. t' = t @ ts \<and> created_end U ?P request ?ph r ts) (t @ ?s)"
    proof (rule calls_bind, rule calls_attempt, rule calls_map_err,
        rule calls_emits[OF create_reserved_emits[OF copy v(1), where U = U]])
      fix r ts
      assume "reserved_end U ?P request (PhReserved ?v) ?v r ts"
      note run = reserved_end_append[OF s this]
      show "case Inr (map_err (with_workspace_id (sv_uuid S) wid) r) of
            Inl e \<Rightarrow> \<exists>ts'. (t @ ?s) @ ts = t @ ts' \<and> created_end U ?P request ?ph (Inl e) ts'
          | Inr x \<Rightarrow> calls (case x of Inl e \<Rightarrow> record_creation_failure S store wid (cq_now request) e
                | Inr outcome \<Rightarrow> uc_return outcome)
              (\<lambda>r t'. \<exists>ts. t' = t @ ts \<and> created_end U ?P request ?ph r ts) ((t @ ?s) @ ts)"
      proof (cases r)
        case (Inl e)
        then obtain ph' where ph': "advance U ?P request ?ph (?s @ ts) = Some ph'" "reserved_as ph' = Some ?v"
          using run by (auto simp: reserved_end_def)
        have rec: "emits (record_creation_failure S store wid (cq_now request) e) (created_end U ?P request ph')"
          for e using record_creation_failure_emits[OF ph'(2), of S store request e U] v(2) by simp
        show ?thesis unfolding Inl map_err.simps sum.case
          by (rule calls_emits[OF rec]) (use created_end_append[OF ph'(1)] in auto)
      next
        case (Inr out)
        then show ?thesis using run
          by (auto simp: reserved_end_def created_end_def intro!: calls_return)
      qed
    qed
  qed
qed

subsection \<open>Planning\<close>

lemma require_missing_target_Ok: "require_missing_target target parent = Ok x \<Longrightarrow> resolution target = MissingTarget"
  by (auto simp: require_missing_target_def split: if_splits)

lemma silent_identity_guard [silent_rules]:
  "silent (case ev of Known volume \<Rightarrow> require_no_active_workspace_identity_overlap S target volume active
     | evidence.Unknown a b \<Rightarrow> uc_return ())"
  by (cases ev) (simp_all add: silent_rules)

lemma calls_bind_preliminary:
  assumes "\<And>e. Q (Inl e) t" "\<And>e q r. Q (Inl e) (t @ [ProbePaths q r])"
    "\<And>q rep. \<lbrakk>require_existing_source (mpr_source rep) = Ok (); resolution (mpr_target_root rep) = MissingTarget\<rbrakk>
       \<Longrightarrow> calls (f rep) Q (t @ [ProbePaths q (Inr rep)])"
  shows "calls (uc_bind (preliminary_report S request parent wid active) f) Q t"
  by (rule calls_bind, unfold preliminary_report_def probe_paths_def,
      intro calls_seq calls_bind_silent[OF silent_identity_guard])
    (simp_all add: assms require_missing_target_Ok)

lemma create_new_emits:
  assumes copy: "copies copy"
    and apart: "\<not> requested_paths_overlap (cq_source request) (cq_target request) (ii_data_root identity)"
    and name: "find (\<lambda>r. res_name (rec_reservation r) = cq_name request) active = None"
    and facts: "cf_identity f = Some identity" "cf_store f = Some opened" "cf_active f = Some active"
  shows "emits (create_new S request lock layout identity store active clone copy)
    (created_end (sv_uuid S) (sv_platform S) request (PhPlanning f))"
  unfolding emits_def
proof
  fix t
  let ?U = "sv_uuid S" and ?P = "sv_platform S" and ?ph = "PhPlanning f"
  let ?Q = "\<lambda>r t'. \<exists>ts. t' = t @ ts \<and> created_end ?U ?P request ?ph r ts"
  have err: "?Q (Inl e) t" "?Q (Inl e) (t @ [NewUuid u])" "?Q (Inl e) ((t @ [NewUuid u]) @ [ProbePaths q r])" for e u q r
    by (simp_all add: created_end_def ended_def create_next_def planning_next_def)
  have reserve: "calls (reserve_and_create S request lock layout identity store (WorkspaceId u) plan clone copy) ?Q
      ((t @ [NewUuid u]) @ [ProbePaths q (Inr rep)])"
    if "require_no_active_workspace_path_overlap ?U (cq_target request) active = Inr x"
      "require_existing_source (mpr_source rep) = Inr ()" "resolution (mpr_target_root rep) = MissingTarget"
      "select_plan rep (cq_allow_full_copy request) = Inr plan" for x rep plan u q
  proof -
    let ?f = "f\<lparr>cf_fresh := Some u, cf_report := Some rep\<rparr>"
    have grounds: "reservation_grounds ?U request identity active u rep (reservation_of request identity (WorkspaceId u) plan)"
      using that name apart by (simp add: reservation_grounds_def reservation_of_def matches_reserved_volumes_def
          find_None_iff list_all_iff)
    have s: "advance ?U ?P request ?ph [NewUuid u, ProbePaths q (Inr rep)] = Some (PhPlanning ?f)"
      by (simp add: create_next_def planning_next_def)
    have emit: "emits (reserve_and_create S request lock layout identity store (WorkspaceId u) plan clone copy)
        (created_end ?U ?P request (PhPlanning ?f))"
      by (rule reserve_and_create_emits[OF copy _ _ _ _ _ grounds]) (simp_all add: facts)
    show ?thesis
      by (rule calls_emits[OF emit]) (use created_end_append[OF s] in auto)
  qed
  show "calls (create_new S request lock layout identity store active clone copy) ?Q t"
    unfolding create_new_def
    by (intro calls_seq calls_bind_silent[OF silent_checks(2)] calls_bind_preliminary reserve; (rule err)?; assumption?)
qed

lemma calls_bind_lock:
  assumes "\<And>e r. Q (Inl e) (t @ [AcquireLock DataRoot r])"
    "\<And>lock. calls (f lock) Q (t @ [AcquireLock DataRoot (Inr lock)])"
  shows "calls (uc_bind (lock_data_root S identity) f) Q t"
  by (rule calls_bind, unfold lock_data_root_def Let_def, rule calls_bind, rule calls_attempt, rule calls_perform)
    (auto simp: assms intro!: calls_seq)

lemma calls_bind_open:
  assumes "\<And>e. Q (Inl e) t" "\<And>e r. Q (Inl e) (t @ [AcquireLock DataRoot r])"
    "\<And>e r x r'. inst_identity x = identity \<Longrightarrow> Q (Inl e) (t @ [AcquireLock DataRoot r, OpenStore x r'])"
    "\<And>lock layout store x. inst_identity x = identity \<Longrightarrow> calls (f (lock, layout, store)) Q
       (t @ [AcquireLock DataRoot (Inr lock), OpenStore x (Inr store)])"
  shows "calls (uc_bind (open_locked_store S identity now) f) Q t"
  by (rule calls_bind, unfold open_locked_store_def Let_def md_calls,
      intro calls_seq calls_bind_lock calls_bind_marker) (simp_all add: assms)

text \<open>The answer to a repeated request.\<close>

definition reused ::
  "create_request \<Rightarrow> workspace_record \<Rightarrow> create_outcome \<Rightarrow> trace \<Rightarrow> bool" where
  "reused request existing out ts \<longleftrightarrow>
     cro_record out = existing \<and> \<not> cro_created out \<and> rec_state existing = WsReady
     \<and> res_source_path (rec_reservation existing) = cq_source request
     \<and> res_target_path (rec_reservation existing) = cq_target request
     \<and> res_allow_full_copy (rec_reservation existing) = cq_allow_full_copy request
     \<and> ts = [ValidateReady (rec_reservation existing) (Ok (res_target_path (rec_reservation existing))),
             ReadFinal (rec_id existing) (Ok (Some (cro_materialization out)))]"

definition reuse_end ::
  "create_request \<Rightarrow> workspace_record \<Rightarrow> use_case_error + create_outcome \<Rightarrow> trace \<Rightarrow> bool" where
  "reuse_end request existing r ts =
     (case r of
        Inr out \<Rightarrow> reused request existing out ts
      | Inl e \<Rightarrow> (\<forall>ev \<in> set ts. case ev of ValidateReady _ _ \<Rightarrow> True | ReadFinal _ _ \<Rightarrow> True | _ \<Rightarrow> False))"

lemma reuse_existing_emits:
  "emits (reuse_existing S request lock layout existing) (reuse_end request existing)"
  unfolding emits_def reuse_existing_def Let_def md_calls
  by (intro allI calls_seq) (auto simp: reuse_end_def reused_def result_simps)

lemma advance_quiet:
  "\<forall>ev \<in> set ts. case ev of ValidateReady _ _ \<Rightarrow> True | ReadFinal _ _ \<Rightarrow> True | _ \<Rightarrow> False \<Longrightarrow>
   advance U P request (PhPlanning f) ts = Some (PhPlanning f)"
  by (induction ts) (auto simp: create_next_def planning_next_def split: port_event.splits)

text \<open>What a whole run guarantees.\<close>

definition create_end ::
  "('p, 'm) service \<Rightarrow> create_request \<Rightarrow> use_case_error + create_outcome \<Rightarrow> trace \<Rightarrow> bool" where
  "create_end S request r ts =
     (case r of
        Inl e \<Rightarrow> created_end (sv_uuid S) (sv_platform S) request (PhPlanning no_create_facts) r ts
      | Inr out \<Rightarrow>
          if cro_created out
          then created_end (sv_uuid S) (sv_platform S) request (PhPlanning no_create_facts) r ts
          else changes ts = []
            \<and> (\<exists>f. advance (sv_uuid S) (sv_platform S) request (PhPlanning no_create_facts) ts = Some (PhPlanning f))
            \<and> (\<exists>s t active. ts = s @ ReadWorkspaces (Ok active) # t
                  \<and> find (\<lambda>w. res_name (rec_reservation w) = cq_name request) active = Some (cro_record out)
                  \<and> reused request (cro_record out) out t))"

lemma created_end_True: "created_end U P request ph (Inr out) ts \<Longrightarrow> cro_created out"
  by (auto simp: created_end_def)

lemma create_end_prefix:
  assumes "advance (sv_uuid S) (sv_platform S) request (PhPlanning no_create_facts) s = Some ph'"
    "created_end (sv_uuid S) (sv_platform S) request ph' r t"
  shows "create_end S request r (s @ t)"
  using created_end_append[OF assms] by (auto simp: create_end_def dest: created_end_True split: sum.splits)

lemma create_calls: "calls (create_impl S request clone copy) (create_end S request) []"
proof -
  let ?U = "sv_uuid S" and ?P = "sv_platform S"
  have planning: "create_end S request (Inl e) t"
    if "advance ?U ?P request (PhPlanning no_create_facts) t = Some (PhPlanning f)" for e t f
    using that by (simp add: create_end_def created_end_def ended_def)
  have found: "calls (case find (\<lambda>r. res_name (rec_reservation r) = cq_name request) active of
        Some existing \<Rightarrow> reuse_existing S request lock layout existing
      | None \<Rightarrow> create_new S request lock layout identity store active clone copy)
      (create_end S request) ([ReadConfig (Inr (Some identity)), AcquireLock DataRoot (Inr lock),
        OpenStore x (Inr store)] @ [ReadWorkspaces (Inr active)])" (is "calls _ _ (?pre @ [?read])")
    if "copies copy" "\<not> requested_paths_overlap (cq_source request) (cq_target request) (ii_data_root identity)"
      "inst_identity x = identity"
    for active lock layout identity store x
  proof -
    let ?f = "no_create_facts\<lparr>cf_identity := Some identity, cf_store := Some store, cf_active := Some active\<rparr>"
    have s: "advance ?U ?P request (PhPlanning no_create_facts) (?pre @ [?read]) = Some (PhPlanning ?f)"
      by (simp add: create_next_def planning_next_def that)
    show ?thesis
    proof (rule calls_option)
      assume none: "find (\<lambda>r. res_name (rec_reservation r) = cq_name request) active = None"
      show "calls (create_new S request lock layout identity store active clone copy)
          (create_end S request) (?pre @ [?read])"
        by (rule calls_emits[OF create_new_emits[OF that(1,2) none, where f = ?f]], simp, simp, simp)
          (rule create_end_prefix[OF s])
    next
      fix existing
      assume some: "find (\<lambda>r. res_name (rec_reservation r) = cq_name request) active = Some existing"
      show "calls (reuse_existing S request lock layout existing) (create_end S request) (?pre @ [?read])"
      proof (rule calls_emits[OF reuse_existing_emits])
        fix r ts
        assume run: "reuse_end request existing r ts"
        show "create_end S request r ((?pre @ [?read]) @ ts)"
        proof (cases r)
          case (Inl e)
          then have "advance ?U ?P request (PhPlanning no_create_facts) ((?pre @ [?read]) @ ts)
              = Some (PhPlanning ?f)"
            using run advance_quiet[of ts]
            unfolding advance_append[where s = "?pre @ [?read]"] s by (simp add: reuse_end_def)
          then show ?thesis unfolding Inl by (rule planning)
        next
          case (Inr out)
          then have reused: "reused request existing out ts" using run by (simp add: reuse_end_def)
          then have quiet: "\<forall>ev \<in> set ts. case ev of ValidateReady _ _ \<Rightarrow> True | ReadFinal _ _ \<Rightarrow> True | _ \<Rightarrow> False"
            by (simp add: reused_def)
          have "advance ?U ?P request (PhPlanning no_create_facts) ((?pre @ [?read]) @ ts) = Some (PhPlanning ?f)"
            unfolding advance_append[where s = "?pre @ [?read]"] s using advance_quiet[OF quiet] by simp
          moreover have "changes ((?pre @ [?read]) @ ts) = []" using reused by (simp add: reused_def)
          moreover have "\<not> cro_created out" "cro_record out = existing" using reused by (simp_all add: reused_def)
          moreover have "\<exists>s t active. (?pre @ [?read]) @ ts = s @ ReadWorkspaces (Inr active) # t
              \<and> find (\<lambda>w. res_name (rec_reservation w) = cq_name request) active = Some (cro_record out)
              \<and> reused request (cro_record out) out t"
            using some reused by (intro exI[of _ ?pre] exI[of _ ts] exI[of _ active]) (simp add: reused_def)
          ultimately show ?thesis unfolding Inr create_end_def sum.case by metis
        qed
      qed
    qed
  qed
  show ?thesis
    unfolding create_impl_def md_calls
    apply (intro calls_seq calls_bind_require_config calls_bind_open)
    apply (simp_all add: planning create_next_def planning_next_def)
    apply (rule calls_bind_md, simp add: planning create_next_def planning_next_def)
    apply (rule found)
      apply (simp add: copies_def split: option.splits)
     apply assumption
    apply simp
    done
qed

text \<open>
  C16.  The protocol of \<open>create\<close>.  Whatever the adapters answer, the calls of a run follow the
  automaton: nothing is changed before the reservation; the reservation is only made with the
  active Workspaces read under the lock, none of that name, the target clear of all of them, an
  existing source, a missing target and a plan on exactly the reserved volumes; the first
  attempt executes the plan selected from a fresh report on the prepared container; Full Copy
  after a failed clone is only executed when it was authorized, the clone failed because CoW
  is unavailable and the fallback plan could be derived from a further report; the incomplete
  marker is cleared and the metadata completed only after a successful materialization.  A run
  that reports a new Workspace reached the end of the automaton and reports the record of the
  store and the facts of the receipt; a run that reports an existing one changed nothing and
  found it Ready with the same inputs, a validated path and a receipt; and a run that fails
  either never reserved, or was refused the reservation, or made the recording of its failure
  the last of its calls, under the code it reports.
\<close>

theorem create_follows_protocol:
  "case create_impl S request clone copy (start p c) of
     (r, w) \<Rightarrow> create_end S request r (w_trace w)"
  by (rule calls_start[OF create_calls])

lemma reading_preview [reading_rules]: "reading (preview_create S request)"
  unfolding preview_create_def Let_def preliminary_report_def probe_paths_def
  by (intro reading_rules reading_silent[OF silent_checks(1)] reading_silent[OF silent_checks(2)]
      reading_silent[OF silent_identity_guard]) simp_all

text \<open>
  The dry run of \<open>create\<close> changes nothing, reserves nothing and runs no materializer,
  whatever it answers.
\<close>

theorem preview_changes_nothing:
  "changes (w_trace (snd (preview_create S request (start p c)))) = []"
  using readingD[OF reading_preview, of S request "start p c"] by (simp add: start_def)

end
