(* ===== verification/Removal_Protocol.thy ===== *)
theory Removal_Protocol
  imports App_Remove Create_Protocol
begin

text \<open>
  The protocol of \<open>remove\<close> as an automaton on the port calls, and that every run of the use
  case follows it: what must have been observed and announced before a container is touched,
  and how each failure after that is recorded.
\<close>

subsection \<open>The automaton\<close>

text \<open>
  While planning, the automaton remembers whether the operation has begun (its identifier was
  drawn, or a container looked for), the records read, the last container found, and what
  Git and the processes said about it since: a Git inspection asks for the container to be
  found again, and finding it for the processes to be scanned again.
\<close>

record removal_facts =
  rf_begun :: bool
  rf_seen :: "workspace_record list"
  rf_container :: "(workspace_reservation \<times> absolute_path) option"
  rf_git :: "git_inspection option"
  rf_process :: "process_use option"
  rf_tombstone :: "workspace_id option"

definition no_facts :: removal_facts where
  "no_facts = \<lparr>rf_begun = False, rf_seen = [], rf_container = None, rf_git = None, rf_process = None, rf_tombstone = None\<rparr>"

datatype removal_phase =
    RmPlanning removal_facts
  | RmStarted "workspace_record list" workspace_reservation
  | RmDeleting workspace_reservation
  | RmRemoved workspace_reservation workspace_removal
  | RmAbsent workspace_reservation workspace_removal
  | RmTombstoned workspace_reservation workspace_removal
  | RmUnrecorded workspace_reservation
  | RmFailing workspace_reservation
  | RmAgain workspace_id
  | RmDone workspace_id remove_result
  | RmEnded "error_code option" bool

definition git_aggregate :: "git_inspection option \<Rightarrow> git_state" where
  "git_aggregate g = (case g of None \<Rightarrow> git_state.Unknown | Some g \<Rightarrow> gi_aggregate g)"

text \<open>What justifies announcing the destruction of a container.\<close>

definition removal_grounds ::
  "remove_request \<Rightarrow> removal_facts \<Rightarrow> workspace_reservation \<Rightarrow> removal_log_record \<Rightarrow> bool" where
  "removal_grounds request f v entry \<longleftrightarrow>
     entry = observed_log request (log_operation_id entry) (res_workspace_id v) (rf_git f) (rf_process f)
               Started None None None
     \<and> list_ex (\<lambda>w. rec_reservation w = v \<and> (rec_state w = WsReady \<or> rq_mode request = Force)) (rf_seen f)
     \<and> (case rf_process f of
          None \<Rightarrow> False
        | Some pu \<Rightarrow>
            (case decide_removal (git_aggregate (rf_git f)) pu (rq_mode request) of
               Proceed _ \<Rightarrow> True | Refuse _ \<Rightarrow> False))"

text \<open>
  What may be logged of an operation that stops before anything was announced: a preflight that
  failed, a Workspace that is not Ready while the removal is not forced, or the refusal of the
  policy on the facts in the record; each of a record that was read.
\<close>

definition stopping_record :: "remove_request \<Rightarrow> removal_facts \<Rightarrow> removal_log_record \<Rightarrow> bool" where
  "stopping_record request f entry \<longleftrightarrow>
     (let i = log_workspace_id entry; oper = log_operation_id entry;
          observed = observed_log request oper i (rf_git f) (rf_process f)
      in
        (\<exists>w \<in> set (rf_seen f). rec_id w = i
           \<and> (entry = (bare_log request oper i removal_log_event.Failed)\<lparr>log_error_code := log_error_code entry\<rparr>
                \<and> log_error_code entry \<noteq> None
              \<or> rf_process f \<noteq> None \<and> rec_state w \<noteq> WsReady \<and> rq_mode request = Normal
                \<and> entry = observed removal_log_event.Failed None (Some WorkspaceIncomplete) None
              \<or> (\<exists>pu reason. rf_process f = Some pu
                   \<and> decide_removal (git_aggregate (rf_git f)) pu (rq_mode request) = Refuse reason
                   \<and> entry = observed Refused (Some reason) (Some (refusal_code reason)) None))))"

definition removal_planning_next ::
  "remove_request \<Rightarrow> removal_facts \<Rightarrow> port_event \<Rightarrow> removal_phase option" where
  "removal_planning_next request f ev =
     (case ev of
        ReadWorkspaces r \<Rightarrow>
          Some (RmPlanning (f\<lparr>rf_seen := rf_seen f @ (case r of Inr ws \<Rightarrow> ws | Inl _ \<Rightarrow> [])\<rparr>))
      | ReadWorkspace i r \<Rightarrow>
          Some (RmPlanning (f\<lparr>rf_seen := rf_seen f @ (case r of Inr (Some w) \<Rightarrow> [w] | _ \<Rightarrow> [])\<rparr>))
      | ReadTombstone i r \<Rightarrow>
          Some (RmPlanning (f\<lparr>rf_tombstone := (case r of Inr (Some t) \<Rightarrow> Some i | _ \<Rightarrow> None)\<rparr>))
      | NewUuid u \<Rightarrow> Some (RmPlanning (f\<lparr>rf_begun := True\<rparr>))
      | InspectContainer v r \<Rightarrow>
          Some (RmPlanning (f\<lparr>rf_begun := True, rf_container := (case r of Inr (Some p) \<Rightarrow> Some (v, p) | _ \<Rightarrow> None),
                              rf_process := None\<rparr>))
      | InspectGit p g \<Rightarrow>
          (case rf_container f of
             Some (v, _) \<Rightarrow>
               if p = res_target_path v
               then Some (RmPlanning (f\<lparr>rf_git := Some g, rf_container := None, rf_process := None\<rparr>))
               else None
           | None \<Rightarrow> None)
      | ScanProcesses p r \<Rightarrow>
          (case rf_container f of
             Some (v, p') \<Rightarrow>
               if p = p' then Some (RmPlanning (f\<lparr>rf_process := map_option use_state (result_ok r)\<rparr>)) else None
           | None \<Rightarrow> None)
      | AppendLog entry r \<Rightarrow>
          if log_event entry \<in> {removal_log_event.Failed, Refused}
          then (if stopping_record request f entry
                then Some (RmEnded (log_error_code entry) (is_ok r)) else None)
          else
            (case (rf_container f, rf_tombstone f) of
               (Some (v, _), _) \<Rightarrow>
                 if removal_grounds request f v entry
                 then Some (if is_ok r then RmStarted (rf_seen f) v else RmEnded None False) else None
             | (None, Some i) \<Rightarrow>
                 if entry = bare_log request (log_operation_id entry) i Started
                 then Some (if is_ok r then RmAgain i else RmEnded None False) else None
             | (None, None) \<Rightarrow> None)
      | _ \<Rightarrow> if mutating ev then None else Some (RmPlanning f))"

definition removal_next ::
  "remove_request \<Rightarrow> removal_phase \<Rightarrow> port_event \<Rightarrow> removal_phase option" where
  "removal_next request ph ev =
     (case ph of
        RmPlanning f \<Rightarrow> removal_planning_next request f ev
      | RmStarted seen v \<Rightarrow>
          (case ev of
             StoreRequest (BeginRemovalOf i expected mode t) r \<Rightarrow>
               if i = res_workspace_id v \<and> mode = rq_mode request \<and> t = rq_now request
                  \<and> list_ex (\<lambda>w. rec_reservation w = v \<and> rec_state w = expected) seen
               then Some (if is_ok r then RmDeleting v else RmFailing v) else None
           | _ \<Rightarrow> None)
      | RmDeleting v \<Rightarrow>
          (case ev of
             RemoveContainer v' r \<Rightarrow>
               if v' = v then Some (case r of Inr out \<Rightarrow> RmRemoved v out | Inl _ \<Rightarrow> RmUnrecorded v) else None
           | _ \<Rightarrow> None)
      | RmRemoved v out \<Rightarrow>
          (case ev of
             InspectContainer v' r \<Rightarrow>
               if v' = v then Some (if r = Inr None then RmAbsent v out else RmUnrecorded v) else None
           | _ \<Rightarrow> None)
      | RmAbsent v out \<Rightarrow>
          (case ev of
             StoreRequest (CompleteDeletion i iid t) r \<Rightarrow>
               if i = res_workspace_id v \<and> t = rq_now request
               then Some (if is_ok r then RmTombstoned v out else RmFailing v) else None
           | _ \<Rightarrow> None)
      | RmTombstoned v out \<Rightarrow>
          (case ev of
             AppendLog entry r \<Rightarrow>
               if log_event entry = Completed \<and> log_outcome entry = Some out
                  \<and> log_workspace_id entry = res_workspace_id v
               then Some (if is_ok r then RmDone (res_workspace_id v) RemovedNow else RmEnded None False)
               else None
           | _ \<Rightarrow> None)
      | RmUnrecorded v \<Rightarrow>
          (case ev of
             StoreRequest (RecordFailure i expected e t) r \<Rightarrow>
               if i = res_workspace_id v \<and> expected = Deleting \<and> t = rq_now request
               then Some (RmFailing v) else None
           | _ \<Rightarrow> None)
      | RmFailing v \<Rightarrow>
          (case ev of
             AppendLog entry r \<Rightarrow>
               if log_event entry = removal_log_event.Failed \<and> log_workspace_id entry = res_workspace_id v
               then Some (RmEnded (log_error_code entry) (is_ok r)) else None
           | _ \<Rightarrow> None)
      | RmAgain i \<Rightarrow>
          (case ev of
             AppendLog entry r \<Rightarrow>
               if log_event entry = Completed \<and> log_outcome entry = Some AlreadyAbsent
                  \<and> log_workspace_id entry = i
               then Some (if is_ok r then RmDone i AlreadyRemoved else RmEnded None False) else None
           | _ \<Rightarrow> None)
      | _ \<Rightarrow> None)"

fun removal_run :: "remove_request \<Rightarrow> removal_phase \<Rightarrow> trace \<Rightarrow> removal_phase option" where
  "removal_run request ph [] = Some ph"
| "removal_run request ph (ev # evs) =
     (case removal_next request ph ev of
        None \<Rightarrow> None
      | Some ph' \<Rightarrow> removal_run request ph' evs)"

lemma removal_run_append:
  "removal_run request ph (s @ t) =
     (case removal_run request ph s of None \<Rightarrow> None | Some ph' \<Rightarrow> removal_run request ph' t)"
  by (induction s arbitrary: ph) (auto split: option.splits)

lemmas removal_steps = removal_next_def removal_planning_next_def

subsection \<open>The ends of a run\<close>

definition removal_ended :: "use_case_error \<Rightarrow> removal_phase \<Rightarrow> bool" where
  "removal_ended e ph =
     (case ph of
        RmPlanning f \<Rightarrow> \<not> rf_begun f
      | RmEnded c logged \<Rightarrow> logged \<longrightarrow> c = Some (uce_code e)
      | _ \<Rightarrow> False)"

definition removal_end ::
  "remove_request \<Rightarrow> removal_phase \<Rightarrow> use_case_error + remove_outcome \<Rightarrow> trace \<Rightarrow> bool" where
  "removal_end request ph r ts =
     (case r of
        Inr out \<Rightarrow> removal_run request ph ts = Some (RmDone (ro_workspace_id out) (ro_result out))
          \<and> ro_forced out = (rq_mode request = Force)
      | Inl e \<Rightarrow> \<exists>ph'. removal_run request ph ts = Some ph' \<and> removal_ended e ph')"

lemma removal_end_append:
  "removal_run request ph s = Some ph' \<Longrightarrow> removal_end request ph' r t \<Longrightarrow> removal_end request ph r (s @ t)"
  by (cases r) (simp_all add: removal_end_def removal_run_append)

subsection \<open>Every run follows it\<close>

lemma calls_bind_remove_container:
  assumes "\<And>e r. calls (f (Inl e)) Q (t @ [RemoveContainer v (Inl r)])"
    "\<And>e out r. r \<noteq> Inr None \<Longrightarrow> calls (f (Inl e)) Q (t @ [RemoveContainer v (Inr out), InspectContainer v r])"
    "\<And>out. calls (f (Inr out)) Q (t @ [RemoveContainer v (Inr out), InspectContainer v (Inr None)])"
  shows "calls (uc_bind (uc_attempt (remove_container S lock layout v)) f) Q t"
  by (rule calls_bind, rule calls_attempt, unfold remove_container_def Let_def, intro calls_seq)
    (simp_all add: assms)

lemma observed_log_sel [simp]:
  "log_event (observed_log request oper i g pu event prot err out) = event"
  "log_operation_id (observed_log request oper i g pu event prot err out) = oper"
  "log_workspace_id (observed_log request oper i g pu event prot err out) = i"
  "log_error_code (observed_log request oper i g pu event prot err out) = err"
  "log_outcome (observed_log request oper i g pu event prot err out) = out"
  by (simp_all add: observed_log_def)

lemma bare_log_sel [simp]:
  "log_event (bare_log request oper i event) = event"
  "log_operation_id (bare_log request oper i event) = oper"
  "log_workspace_id (bare_log request oper i event) = i"
  by (simp_all add: bare_log_def)

text \<open>The three records of an operation that stops.\<close>

lemma stopping_preflight:
  "active \<in> set (rf_seen f) \<Longrightarrow>
   stopping_record request f ((bare_log request oper (rec_id active) removal_log_event.Failed)\<lparr>log_error_code := Some c\<rparr>)"
  by (auto simp: stopping_record_def bare_log_def Let_def)

lemma stopping_incomplete:
  "\<lbrakk>active \<in> set (rf_seen f); rf_git f = g; rf_process f = Some pu; rec_state active \<noteq> WsReady; rq_mode request = Normal\<rbrakk> \<Longrightarrow>
   stopping_record request f (observed_log request oper (rec_id active) g (Some pu)
     removal_log_event.Failed None (Some WorkspaceIncomplete) None)"
  by (auto simp: stopping_record_def Let_def)

lemma stopping_refused:
  "\<lbrakk>active \<in> set (rf_seen f); rf_git f = g; rf_process f = Some pu;
    decide_removal (git_aggregate g) pu (rq_mode request) = Refuse reason\<rbrakk> \<Longrightarrow>
   stopping_record request f (observed_log request oper (rec_id active) g (Some pu)
     Refused (Some reason) (Some (refusal_code reason)) None)"
  by (auto simp: stopping_record_def Let_def)

lemmas stopping_records = stopping_preflight stopping_incomplete stopping_refused

lemma uce_code_warning [simp]: "uce_code (with_process_scan_warning pu e) = uce_code e"
  by (simp add: with_process_scan_warning_def)

lemma uce_code_incomplete [simp]: "uce_code incomplete_cleanup = WorkspaceIncomplete"
  by (simp add: incomplete_cleanup_def)

lemma destroy_emits:
  assumes f: "rf_container f = Some (rec_reservation active, p)" "rf_git f = g" "rf_process f = Some pu"
    and active: "active \<in> set (rf_seen f)" "rec_state active = WsReady \<or> rq_mode request = Force"
    and policy: "decide_removal (git_aggregate g) pu (rq_mode request) = Proceed warning"
  shows "emits (destroy S request lock layout identity store active oper
      (observed_log request oper (rec_id active) g (Some pu)) warning)
    (removal_end request (RmPlanning f))"
proof -
  have grounds: "removal_grounds request f (rec_reservation active)
      (observed_log request oper (rec_id active) g (Some pu) Started None None None)"
    using f active policy by (auto simp: removal_grounds_def list_ex_iff)
  have seen: "list_ex (\<lambda>w. rec_reservation w = rec_reservation active \<and> rec_state w = rec_state active) (rf_seen f)"
    using active by (auto simp: list_ex_iff)
  show ?thesis
    unfolding emits_def destroy_def Let_def append_log_def md_calls
    by (intro allI calls_seq calls_bind_remove_container)
      (auto simp: removal_end_def removal_ended_def removal_steps store_event_def f grounds seen)
qed

lemma decide_and_destroy_emits:
  assumes f: "rf_container f = Some (rec_reservation active, p)" "rf_git f = g" "rf_process f = Some pu"
    and active: "active \<in> set (rf_seen f)"
  shows "emits (decide_and_destroy S request lock layout identity store active oper g (Some pu))
    (removal_end request (RmPlanning f))"
proof (cases "rec_state active \<noteq> WsReady \<and> rq_mode request = Normal")
  case True
  then show ?thesis
    unfolding emits_def decide_and_destroy_def Let_def append_log_def
    by (auto intro!: calls_seq
        simp: removal_end_def removal_ended_def removal_steps stopping_incomplete[OF active f(2,3)])
next
  case False
  then have ready: "rec_state active = WsReady \<or> rq_mode request = Force"
    by (cases "rq_mode request") auto
  show ?thesis
  proof (cases "decide_removal (git_aggregate g) pu (rq_mode request)")
    case (Proceed w)
    then show ?thesis using destroy_emits[OF f active ready Proceed] False
      by (auto simp: decide_and_destroy_def Let_def git_aggregate_def)
  next
    case (Refuse reason)
    then show ?thesis using False
      unfolding emits_def decide_and_destroy_def Let_def append_log_def
      by (auto intro!: calls_seq simp: removal_end_def removal_ended_def removal_steps git_aggregate_def
          stopping_refused[OF active f(2,3), unfolded git_aggregate_def])
  qed
qed

definition preflighted ::
  "remove_request \<Rightarrow> removal_facts \<Rightarrow> workspace_reservation
   \<Rightarrow> use_case_error + git_inspection option \<times> process_use option \<Rightarrow> trace \<Rightarrow> bool" where
  "preflighted request f v r ts =
     (\<exists>f'. removal_run request (RmPlanning f) ts = Some (RmPlanning f')
        \<and> rf_seen f' = rf_seen f
        \<and> (case r of
             Inl _ \<Rightarrow> True
           | Inr (g, pu) \<Rightarrow> (\<exists>p. rf_container f' = Some (v, p)) \<and> rf_git f' = g
               \<and> rf_process f' = pu \<and> pu \<noteq> None))"

lemma calls_bind_container:
  assumes "\<And>e r. Q (Inl e) (t @ [InspectContainer v r])"
    "\<And>p. calls (f p) Q (t @ [InspectContainer v (Inr (Some p))])"
  shows "calls (uc_bind (find_container S lock layout v) f) Q t"
  by (rule calls_bind, unfold find_container_def Let_def, intro calls_seq calls_lift_cases)
    (auto simp: assms result_simps)

lemma calls_bind_inspection:
  assumes "\<And>e r. Q (Inl e) (t @ [ValidateReady (rec_reservation active) r])"
    "\<And>e r g r'. Q (Inl e) (t @ [ValidateReady (rec_reservation active) r,
        InspectGit (res_target_path (rec_reservation active)) g, ValidateReady (rec_reservation active) r'])"
    "\<And>g r r'. calls (f (Some g)) Q (t @ [ValidateReady (rec_reservation active) r,
        InspectGit (res_target_path (rec_reservation active)) g, ValidateReady (rec_reservation active) r'])"
    "calls (f None) Q t"
  shows "calls (uc_bind (removal_inspection S git layout active mode) f) Q t"
  by (rule calls_bind, unfold removal_inspection_def validate_target_def Let_def, intro calls_seq)
    (simp_all add: assms)

lemma preflight_emits:
  assumes "rf_git f = None"
  shows "emits (removal_preflight S git process lock layout active mode)
    (preflighted request f (rec_reservation active))"
  unfolding emits_def removal_preflight_def Let_def
  using assms
  by (intro allI calls_bind_container calls_bind_inspection calls_seq)
    (auto simp: preflighted_def removal_steps)

lemma find_named_calls:
  assumes "\<And>e r. Q (Inl e) (t @ [ReadWorkspaces r])"
    "\<And>ws. calls (f (find (\<lambda>w. res_name (rec_reservation w) = n) ws)) Q (t @ [ReadWorkspaces (Inr ws)])"
  shows "calls (uc_bind (find_named S n) f) Q t"
  by (rule calls_bind, unfold find_named_def md_calls, intro calls_seq) (simp_all add: assms)

lemma find_identified_calls:
  assumes "\<And>e r. Q (Inl e) (t @ [ReadWorkspace i r])"
    "\<And>w. calls (f w) Q (t @ [ReadWorkspace i (Inr w)])"
  shows "calls (uc_bind (find_identified S i) f) Q t"
  unfolding find_identified_def md_calls by (rule calls_bind_md) (simp_all add: assms)

definition selected ::
  "remove_request \<Rightarrow> removal_facts \<Rightarrow> use_case_error + workspace_record option \<Rightarrow> trace \<Rightarrow> bool" where
  "selected request f r ts =
     (\<exists>f'. removal_run request (RmPlanning f) ts = Some (RmPlanning f')
        \<and> rf_begun f' = rf_begun f \<and> rf_git f' = rf_git f \<and> rf_container f' = rf_container f
        \<and> (case r of Inr (Some active) \<Rightarrow> active \<in> set (rf_seen f') | _ \<Rightarrow> True))"

lemma find_Some_in: "find P xs = Some x \<Longrightarrow> x \<in> set xs"
  by (auto simp: find_Some_iff)

lemma calls_bind_old_id:
  assumes "\<And>e r. Q (Inl e) (t @ [ReadTombstone i r])" "\<And>x r. calls (f x) Q (t @ [ReadTombstone i r])"
    "calls (f False) Q t"
  shows "calls (uc_bind (if b then uc_bind (read_tombstone S store i) (\<lambda>tomb. uc_return (tomb \<noteq> None))
      else uc_return False) f) Q t"
  by (rule calls_bind, unfold read_tombstone_def md_calls, intro calls_seq) (simp_all add: assms)

lemma select_active_emits: "emits (select_active S store target) (selected request f)"
proof (cases target)
  case (TargetName n)
  then show ?thesis
    unfolding emits_def select_active_def find_named_def md_calls
    by (auto intro!: calls_seq simp: selected_def removal_steps dest: find_Some_in split: option.splits)
next
  case (TargetId i)
  have "selected request f r [ReadWorkspace i r']"
    if "r = map_err g r'" for r and r' :: "port_error + workspace_record option" and g
    using that by (cases r'; (rename_tac w, case_tac w)?) (simp_all add: selected_def removal_steps)
  then show ?thesis
    unfolding emits_def select_active_def find_identified_def md_calls TargetId remove_target.case
    by (intro allI calls_or_fail calls_md_perform) simp
next
  case (TargetAmbiguous n i)
  show ?thesis
    unfolding emits_def select_active_def TargetAmbiguous remove_target.case
    by (intro allI find_named_calls find_identified_calls calls_bind_old_id calls_seq)
      (auto simp: selected_def removal_steps dest: find_Some_in split: option.splits sum.splits)
qed

lemma append_log_calls:
  assumes "\<And>e. Q (Inl (g e)) (t @ [AppendLog entry (Inl e)])"
    "\<And>p. calls (f p) Q (t @ [AppendLog entry (Inr p)])"
  shows "calls (uc_bind (append_log S lock layout g entry) f) Q t"
  unfolding append_log_def by (rule calls_bind_perform) (simp_all add: assms)

lemma uc_bind_done [simp]: "uc_bind (uc_fail e) f = uc_fail e" "uc_bind (uc_return x) f = f x"
  by (auto simp: uc_bind_def uc_fail_def uc_return_def)

lemma read_tombstone_calls:
  assumes "\<And>e r. Q (Inl e) (t @ [ReadTombstone i r])"
    "\<And>w. calls (f w) Q (t @ [ReadTombstone i (Inr w)])"
  shows "calls (uc_bind (read_tombstone S store i) f) Q t"
  unfolding read_tombstone_def md_calls by (rule calls_bind_md) (simp_all add: assms)

lemma remove_again_emits:
  assumes "rf_container f = None" "\<not> rf_begun f"
  shows "emits (remove_again S request lock layout identity store) (removal_end request (RmPlanning f))"
  using assms unfolding emits_def remove_again_def Let_def
  by (cases "rq_target request")
    (auto intro!: read_tombstone_calls append_log_calls calls_seq
      simp: removal_end_def removal_ended_def removal_steps result_simps)

lemma remove_active_emits:
  assumes f: "rf_git f = None" and active: "active \<in> set (rf_seen f)"
  shows "emits (remove_active S request git process lock layout identity store active)
    (removal_end request (RmPlanning f))"
  unfolding emits_def remove_active_def
proof (intro allI calls_bind_fresh)
  fix t u
  let ?Q = "\<lambda>r t'. \<exists>ts. t' = t @ ts \<and> removal_end request (RmPlanning f) r ts"
  have begun: "rf_git (f\<lparr>rf_begun := True\<rparr>) = None" using f by simp
  show "calls (uc_bind (uc_attempt (removal_preflight S git process lock layout active (rq_mode request)))
      (\<lambda>preflight. case preflight of
         Inl failure \<Rightarrow> fail_preflight S request lock layout (OperationId u) (rec_id active) failure
       | Inr (inspection, pu) \<Rightarrow>
           decide_and_destroy S request lock layout identity store active (OperationId u) inspection pu)) ?Q (t @ [NewUuid u])"
  proof (rule calls_bind, rule calls_attempt, rule calls_emits[OF preflight_emits[OF begun, where request = request]])
    fix r ts
    assume "preflighted request (f\<lparr>rf_begun := True\<rparr>) (rec_reservation active) r ts"
    then obtain f' where run: "removal_run request (RmPlanning f) ([NewUuid u] @ ts) = Some (RmPlanning f')"
      "rf_seen f' = rf_seen f"
      and ok: "case r of Inl _ \<Rightarrow> True | Inr (g, pu) \<Rightarrow> (\<exists>p. rf_container f' = Some (rec_reservation active, p))
         \<and> rf_git f' = g \<and> rf_process f' = pu \<and> pu \<noteq> None"
      by (auto simp: preflighted_def removal_steps)
    have "calls (case r of Inl failure \<Rightarrow> fail_preflight S request lock layout (OperationId u) (rec_id active) failure
       | Inr (inspection, pu) \<Rightarrow>
           decide_and_destroy S request lock layout identity store active (OperationId u) inspection pu) ?Q ((t @ [NewUuid u]) @ ts)"
    proof (cases r)
      case (Inl e)
      have "emits (fail_preflight S request lock layout (OperationId u) (rec_id active) e)
          (removal_end request (RmPlanning f') :: use_case_error + remove_outcome \<Rightarrow> _)"
        unfolding emits_def fail_preflight_def
        by (intro allI append_log_calls calls_seq)
          (use active run(2) in \<open>auto simp: removal_end_def removal_ended_def removal_steps stopping_preflight\<close>)
      then show ?thesis unfolding Inl sum.case
        by (rule calls_emits) (use removal_end_append[OF run(1)] in auto)
    next
      case (Inr x)
      obtain g pu p where x: "x = (g, Some pu)" and f': "rf_container f' = Some (rec_reservation active, p)"
        "rf_git f' = g" "rf_process f' = Some pu"
        using ok Inr by (cases x) auto
      show ?thesis unfolding Inr x sum.case prod.case
        by (rule calls_emits[OF decide_and_destroy_emits[OF f']])
          (use active run removal_end_append[OF run(1)] in auto)
    qed
    then show "case Inr r of Inl e \<Rightarrow> ?Q (Inl e) ((t @ [NewUuid u]) @ ts)
        | Inr x \<Rightarrow> calls (case x of Inl failure \<Rightarrow> fail_preflight S request lock layout (OperationId u) (rec_id active) failure
             | Inr (inspection, pu) \<Rightarrow>
                 decide_and_destroy S request lock layout identity store active (OperationId u) inspection pu) ?Q ((t @ [NewUuid u]) @ ts)"
      by simp
  qed
qed

lemma remove_calls: "calls (app_remove S request git process) (removal_end request (RmPlanning no_facts)) []"
proof -
  have planning: "removal_end request (RmPlanning no_facts) (Inl e) t"
    if "removal_run request (RmPlanning no_facts) t = Some (RmPlanning f)" "\<not> rf_begun f" for e t f
    using that by (simp add: removal_end_def removal_ended_def)
  have none: "rf_git no_facts = None" "rf_container no_facts = None" "\<not> rf_begun no_facts" by (simp_all add: no_facts_def)
  have chosen: "calls (uc_bind (select_active S store (rq_target request)) (\<lambda>active.
       case active of
         None \<Rightarrow> remove_again S request lock layout identity store
       | Some active \<Rightarrow> remove_active S request git process lock layout identity store active))
     (removal_end request (RmPlanning no_facts)) s"
    if s: "removal_run request (RmPlanning no_facts) s = Some (RmPlanning no_facts)" for s lock layout identity store
  proof (rule calls_bind_emits[OF select_active_emits[where request = request and f = no_facts]])
    fix e ts
    assume "selected request no_facts (Inl e) ts"
    then show "removal_end request (RmPlanning no_facts) (Inl e) (s @ ts)"
      by (intro removal_end_append[OF s]) (use none in \<open>auto simp: selected_def removal_end_def removal_ended_def\<close>)
  next
    fix x ts
    assume "selected request no_facts (Inr x) ts"
    then obtain f where run: "removal_run request (RmPlanning no_facts) ts = Some (RmPlanning f)"
      and f: "rf_git f = None" "rf_container f = None" "\<not> rf_begun f"
      and x: "case x of None \<Rightarrow> True | Some active \<Rightarrow> active \<in> set (rf_seen f)"
      using none by (cases x) (auto simp: selected_def)
    have st: "removal_run request (RmPlanning no_facts) (s @ ts) = Some (RmPlanning f)"
      using run s by (simp add: removal_run_append)
    note whole = removal_end_append[OF st]
    show "calls (case x of None \<Rightarrow> remove_again S request lock layout identity store
         | Some active \<Rightarrow> remove_active S request git process lock layout identity store active)
       (removal_end request (RmPlanning no_facts)) (s @ ts)"
    proof (rule calls_option)
      show "calls (remove_again S request lock layout identity store)
         (removal_end request (RmPlanning no_facts)) (s @ ts)"
        by (rule calls_emits[OF remove_again_emits[OF f(2,3), where request = request]]) (rule whole)
    next
      fix active
      assume "x = Some active"
      then have "active \<in> set (rf_seen f)" using x by simp
      then show "calls (remove_active S request git process lock layout identity store active)
         (removal_end request (RmPlanning no_facts)) (s @ ts)"
        by (rule calls_emits[OF remove_active_emits[OF f(1)]]) (rule whole)
    qed
  qed
  show ?thesis
    unfolding app_remove_def
    by (intro calls_bind_require_config calls_bind_open)
      (auto intro!: chosen simp: planning[OF _ none(3)] removal_steps)
qed

text \<open>
  C9.  The protocol of \<open>remove\<close>.  Whatever the adapters answer, the calls of a run follow the
  automaton.  A container is only removed after its removal was announced in the log and begun
  in the metadata, and announced only for a record that was read, Ready unless the removal is
  forced, with its container found, the processes on that container scanned after that, and a
  policy decision to proceed on exactly the Git and process facts written to the log; the
  tombstone is only written after the container was seen to be gone; completion is logged last.
  A failed removal of the container is recorded in the metadata before it is logged.  A
  successful run reached the end of the automaton, for the identifier and result it reports.  A
  failed one ended before its operation began, or made a log record of the failure its last call,
  and when that could be written the record carries the code the run reports: of a preflight that
  failed, a Workspace that is not Ready, a refusal with the facts it was decided on, or a removal
  that failed after it was announced.
\<close>

theorem removal_follows_protocol:
  "case app_remove S request git process (start p c) of
     (r, w) \<Rightarrow> removal_end request (RmPlanning no_facts) r (w_trace w)"
  by (rule calls_start[OF remove_calls])

end
