(* ===== verification/Tracked_Runs.thy ===== *)
theory Tracked_Runs
  imports Metadata_Contract Removal_Protocol
begin

text \<open>
  Use cases on a port that keeps the metadata contract: the store changes of every run of
  \<open>create\<close> and \<open>remove\<close> are exactly the requests it records, in order.
\<close>

subsection \<open>Runs whose calls describe the store\<close>

text \<open>
  \<open>tracks U J view inst m R\<close>: on every port state that stores a well-formed \<open>a\<close> of the
  installation \<open>inst\<close>, the requests recorded by \<open>m\<close> are well typed, its calls lead from \<open>a\<close>
  to the store it leaves, and its result satisfies \<open>R\<close>.
\<close>

definition tracks ::
  "uuid_api \<Rightarrow> json_api \<Rightarrow> ('m \<Rightarrow> store_spec \<Rightarrow> bool) \<Rightarrow> installation_record \<Rightarrow> ('p, 'm, 'a) use_case
   \<Rightarrow> ('a \<Rightarrow> bool) \<Rightarrow> bool" where
  "tracks U J view inst m R \<longleftrightarrow>
     (\<forall>w a. view (w_metadata w) a \<and> spec_ok U a \<and> sp_installation a = inst \<longrightarrow>
        (\<exists>ts b. w_trace (snd (m w)) = w_trace w @ ts \<and> list_all (event_valid U) ts
           \<and> follows U J a ts b \<and> view (w_metadata (snd (m w))) b
           \<and> (\<forall>x. fst (m w) = Inr x \<longrightarrow> R x)))"

named_theorems tracks_rules \<open>steps whose calls describe the store\<close>

lemma tracksI:
  assumes "\<And>w a. \<lbrakk>view (w_metadata w) a; spec_ok U a; sp_installation a = inst\<rbrakk> \<Longrightarrow>
    \<exists>ts b. w_trace (snd (m w)) = w_trace w @ ts \<and> list_all (event_valid U) ts
      \<and> follows U J a ts b \<and> view (w_metadata (snd (m w))) b \<and> (\<forall>x. fst (m w) = Inr x \<longrightarrow> R x)"
  shows "tracks U J view inst m R"
  using assms unfolding tracks_def by blast

lemma tracksE:
  assumes "tracks U J view inst m R" "view (w_metadata w) a" "spec_ok U a" "sp_installation a = inst"
  obtains ts b where "w_trace (snd (m w)) = w_trace w @ ts" "list_all (event_valid U) ts"
    "follows U J a ts b" "view (w_metadata (snd (m w))) b" "\<And>x. fst (m w) = Inr x \<Longrightarrow> R x"
  using assms unfolding tracks_def by blast

lemma tracks_weaken: "tracks U J view inst m R \<Longrightarrow> (\<And>x. R x \<Longrightarrow> R' x) \<Longrightarrow> tracks U J view inst m R'"
  unfolding tracks_def by blast

lemma tracks_bind:
  fixes m :: "('p, 'm, 'a) use_case"
  assumes m: "tracks U J view inst m R" and f: "\<And>x. R x \<Longrightarrow> tracks U J view inst (f x) R'"
  shows "tracks U J view inst (uc_bind m f) R'"
proof (rule tracksI)
  fix w :: "('p, 'm) world" and a
  assume a: "view (w_metadata w) a" "spec_ok U a" "sp_installation a = inst"
  obtain r w' where run: "m w = (r, w')" by fastforce
  obtain ts b where ts: "w_trace w' = w_trace w @ ts" "list_all (event_valid U) ts"
    and b: "follows U J a ts b" "view (w_metadata w') b" and R: "\<And>x. r = Inr x \<Longrightarrow> R x"
    using m a by (rule tracksE) (auto simp: run)
  show "\<exists>us c. w_trace (snd (uc_bind m f w)) = w_trace w @ us \<and> list_all (event_valid U) us
      \<and> follows U J a us c \<and> view (w_metadata (snd (uc_bind m f w))) c
      \<and> (\<forall>y. fst (uc_bind m f w) = Inr y \<longrightarrow> R' y)"
  proof (cases r)
    case (Inl e)
    then have bind: "uc_bind m f w = (Inl e, w')" by (simp add: uc_bind_def run)
    show ?thesis unfolding bind snd_conv fst_conv using ts b by (intro exI[of _ ts] exI[of _ b]) simp
  next
    case (Inr x)
    then have bind: "uc_bind m f w = f x w'" by (simp add: uc_bind_def run)
    have ok: "spec_ok U b" "sp_installation b = inst" using follows_store[OF b(1) a(2) ts(2)] a(3) by simp_all
    obtain us c where "w_trace (snd (f x w')) = w_trace w' @ us" "list_all (event_valid U) us"
      "follows U J b us c" "view (w_metadata (snd (f x w'))) c" "\<And>y. fst (f x w') = Inr y \<Longrightarrow> R' y"
      using f[OF R[OF Inr]] b(2) ok by (rule tracksE) (use that in blast)
    then show ?thesis unfolding bind using ts b(1)
      by (intro exI[of _ "ts @ us"] exI[of _ c]) (auto simp: follows_append)
  qed
qed

abbreviation anything :: "'a \<Rightarrow> bool" where
  "anything \<equiv> \<lambda>_. True"

lemma tracks_then [tracks_rules]:
  "tracks U J view inst m anything \<Longrightarrow> (\<And>x. tracks U J view inst (f x) R) \<Longrightarrow> tracks U J view inst (uc_bind m f) R"
  by (rule tracks_bind)

lemma tracks_event:
  fixes m :: "('p, 'm, 'a) use_case"
  assumes "\<And>w. w_metadata (snd (m w)) = w_metadata w"
    "\<And>w. \<exists>ts. w_trace (snd (m w)) = w_trace w @ ts \<and> list_all (event_valid U) ts \<and> (\<forall>a. follows U J a ts a)"
    "\<And>w x. fst (m w) = Inr x \<Longrightarrow> R x"
  shows "tracks U J view inst m R"
proof (rule tracksI)
  fix w :: "('p, 'm) world" and a
  assume "view (w_metadata w) a"
  then show "\<exists>ts b. w_trace (snd (m w)) = w_trace w @ ts \<and> list_all (event_valid U) ts
      \<and> follows U J a ts b \<and> view (w_metadata (snd (m w))) b \<and> (\<forall>x. fst (m w) = Inr x \<longrightarrow> R x)"
    using assms(1)[of w] assms(2)[of w] assms(3) by metis
qed

lemma tracks_basic [tracks_rules]:
  "R x \<Longrightarrow> tracks U J view inst (uc_return x) R" "tracks U J view inst (uc_fail e) R"
  "(\<And>x. R x) \<Longrightarrow> tracks U J view inst (uc_lift r) R"
  "(\<And>x. R x) \<Longrightarrow> tracks U J view inst (observe g call) R"
  by (auto simp: uc_return_def uc_fail_def uc_lift_def observe_def split: prod.splits intro!: tracks_event)

lemma tracks_perform [tracks_rules]:
  "(\<And>r. event_valid U (ev r) \<and> (\<forall>a. observes U J a (ev r) a)) \<Longrightarrow> (\<And>x. R x) \<Longrightarrow>
   tracks U J view inst (perform ev g call) R"
  by (rule tracks_event) (auto simp: perform_def note_event_def split: prod.splits)

lemma tracks_adapters [tracks_rules]:
  "(\<And>x. R x) \<Longrightarrow> tracks U J view inst (run_git git path) R"
  "(\<And>x. R' x) \<Longrightarrow> tracks U J view inst (run_materializer mz q plan) R'"
  by (rule tracks_event, auto simp: run_git_def run_materializer_def note_event_def split: prod.splits)+

lemma tracks_attempt [tracks_rules]:
  fixes m :: "('p, 'm, 'a) use_case"
  assumes "tracks U J view inst m anything" "\<And>r. R r"
  shows "tracks U J view inst (uc_attempt m) R"
proof (rule tracksI)
  fix w :: "('p, 'm) world" and a
  assume a: "view (w_metadata w) a" "spec_ok U a" "sp_installation a = inst"
  obtain r w' where run: "m w = (r, w')" by fastforce
  show "\<exists>ts b. w_trace (snd (uc_attempt m w)) = w_trace w @ ts \<and> list_all (event_valid U) ts
      \<and> follows U J a ts b \<and> view (w_metadata (snd (uc_attempt m w))) b
      \<and> (\<forall>x. fst (uc_attempt m w) = Inr x \<longrightarrow> R x)"
    by (rule tracksE[OF assms(1) a]) (auto simp: uc_attempt_def run assms(2))
qed

lemma tracks_map_err [tracks_rules]:
  fixes m :: "('p, 'm, 'a) use_case"
  assumes "tracks U J view inst m R"
  shows "tracks U J view inst (uc_map_err f m) R"
proof (rule tracksI)
  fix w :: "('p, 'm) world" and a
  assume a: "view (w_metadata w) a" "spec_ok U a" "sp_installation a = inst"
  obtain r w' where run: "m w = (r, w')" by fastforce
  show "\<exists>ts b. w_trace (snd (uc_map_err f m w)) = w_trace w @ ts \<and> list_all (event_valid U) ts
      \<and> follows U J a ts b \<and> view (w_metadata (snd (uc_map_err f m w))) b
      \<and> (\<forall>x. fst (uc_map_err f m w) = Inr x \<longrightarrow> R x)"
    by (rule tracksE[OF assms a]) (simp add: uc_map_err_def run map_err_eq_Ok, metis)
qed

lemma tracks_or_fail [tracks_rules]:
  "tracks U J view inst m (\<lambda>r. \<forall>x. r = Inr x \<longrightarrow> R x) \<Longrightarrow> tracks U J view inst (or_fail g m) R"
  unfolding or_fail_def
  by (erule tracks_bind) (auto intro!: tracks_event simp: uc_lift_def map_err_eq_Ok)

lemma tracks_cases [tracks_rules]:
  "\<lbrakk>b \<Longrightarrow> tracks U J view inst m R; \<not> b \<Longrightarrow> tracks U J view inst n R\<rbrakk>
   \<Longrightarrow> tracks U J view inst (if b then m else n) R"
  "\<lbrakk>tracks U J view inst m R; \<And>x. tracks U J view inst (g x) R\<rbrakk>
   \<Longrightarrow> tracks U J view inst (case v of None \<Rightarrow> m | Some x \<Rightarrow> g x) R"
  "\<lbrakk>\<And>e. tracks U J view inst (h e) R; \<And>x. tracks U J view inst (k x) R\<rbrakk>
   \<Longrightarrow> tracks U J view inst (case s of Inl e \<Rightarrow> h e | Inr x \<Rightarrow> k x) R"
  "(\<And>x y. tracks U J view inst (l x y) R) \<Longrightarrow> tracks U J view inst (case z of (x, y) \<Rightarrow> l x y) R"
  by (auto split: option.splits sum.splits prod.splits)

text \<open>The result of a typed adapter.\<close>

definition identity_valid :: "uuid_api \<Rightarrow> installation_identity \<Rightarrow> bool" where
  "identity_valid U i \<longleftrightarrow> valid_instance_id U (ii_instance_id i) \<and> valid_path (ii_data_root i)"

definition typed_platform :: "uuid_api \<Rightarrow> 'p platform \<Rightarrow> bool" where
  "typed_platform U P \<longleftrightarrow>
     (\<forall>p. valid_workspace_id U (WorkspaceId (fst (new_uuid P p))))
     \<and> (\<forall>p. case fst (read_config P p) of Inr (Some i) \<Rightarrow> identity_valid U i | _ \<Rightarrow> True)"

lemma tracks_fresh:
  "typed_platform U (sv_platform S) \<Longrightarrow>
   tracks U J view inst (fresh_uuid S) (\<lambda>u. valid_workspace_id U (WorkspaceId u))"
  by (rule tracks_event)
    (auto simp: typed_platform_def fresh_uuid_def note_event_def split: prod.splits, metis fst_conv)

lemma tracks_config:
  assumes "typed_platform U (sv_platform S)"
  shows "tracks U J view inst (require_config S) (identity_valid U)"
proof -
  have "tracks U J view inst (read_config_step S) (\<lambda>c. \<forall>i. c = Some i \<longrightarrow> identity_valid U i)"
    using assms unfolding read_config_step_def typed_platform_def
    by (intro tracks_event) (auto simp: perform_def note_event_def split: prod.splits elim!: map_err.elims, metis fst_conv option.simps(5) sum.simps(6))
  then show ?thesis unfolding require_config_def
    by (rule tracks_bind) (auto intro!: tracks_event simp: uc_lift_def result_simps split: option.splits)
qed

subsection \<open>The calls of the metadata port\<close>

lemma tracks_md:
  fixes call :: "('m, 'a) port_call"
  assumes "\<And>c a r c'. \<lbrakk>view c a; spec_ok U a; sp_installation a = inst; call c = (r, c')\<rbrakk>
      \<Longrightarrow> \<exists>b. observes U J a (ev r) b \<and> view c' b \<and> R r"
    "\<And>r. event_valid U (ev r)"
  shows "tracks U J view inst (md_perform ev call) R"
proof (rule tracksI)
  fix w :: "('p, 'm) world" and a
  assume a: "view (w_metadata w) a" "spec_ok U a" "sp_installation a = inst"
  obtain r c where run: "call (w_metadata w) = (r, c)" by fastforce
  obtain b where b: "observes U J a (ev r) b" "view c b" "R r" using assms(1)[OF a run] by blast
  then show "\<exists>ts b. w_trace (snd (md_perform ev call w)) = w_trace w @ ts \<and> list_all (event_valid U) ts
      \<and> follows U J a ts b \<and> view (w_metadata (snd (md_perform ev call w))) b
      \<and> (\<forall>x. fst (md_perform ev call w) = Inr x \<longrightarrow> R x)"
    using assms(2) by (intro exI[of _ "[ev r]"] exI[of _ b]) (simp add: md_perform_def run note_event_def)
qed

lemma tracks_md_read:
  fixes call :: "('m, 'a) port_call"
  assumes "\<And>c a r c'. \<lbrakk>view c a; spec_ok U a; sp_installation a = inst; call c = (r, c')\<rbrakk>
      \<Longrightarrow> view c' a \<and> observes U J a (ev r) a"
    "\<And>r. event_valid U (ev r)" "\<And>r. R r"
  shows "tracks U J view inst (md_perform ev call) R"
  using assms by (intro tracks_md) blast+

context metadata_contract
begin

lemma tracks_open:
  assumes "sv_metadata S = M"
  shows "tracks U J view inst (open_existing_store S layout expected) (\<lambda>r. \<forall>x. r = Inr x \<longrightarrow> x = inst)"
  unfolding open_existing_store_def assms
proof (rule tracks_md)
  fix c a r c'
  assume "view c a" "spec_ok U a" "sp_installation a = inst"
    "md_open_existing M layout expected (sv_sqlite_timeout S) c = (r, c')"
  then show "\<exists>b. observes U J a (OpenStore expected r) b \<and> view c' b \<and> (\<forall>x. r = Inr x \<longrightarrow> x = inst)"
    using open_law[of c a layout expected "sv_sqlite_timeout S" r c'] by auto
qed simp

lemma tracks_reads [tracks_rules]:
  assumes "sv_metadata S = M" "\<And>x. R x" "\<And>x. R1 x" "\<And>x. R2 x" "\<And>x. R3 x"
  shows "tracks U J view inst (store_workspaces S) R" "tracks U J view inst (store_workspace S i) R1"
    "tracks U J view inst (store_tombstone S inst i) R2" "tracks U J view inst (store_final S i) R3"
proof -
  show "tracks U J view inst (store_workspaces S) R"
    unfolding store_workspaces_def assms(1) by (rule tracks_md_read[OF workspaces_law]) (simp_all add: assms(2))
  show "tracks U J view inst (store_workspace S i) R1"
    unfolding store_workspace_def assms(1) by (rule tracks_md_read[OF workspace_law]) (simp_all add: assms(3))
  show "tracks U J view inst (store_tombstone S inst i) R2"
    unfolding store_tombstone_def assms(1)
    by (rule tracks_md_read) (use tombstone_law in \<open>auto simp: assms(4)\<close>)
  show "tracks U J view inst (store_final S i) R3"
    unfolding store_final_def assms(1)
    by (rule tracks_md_read) (use final_law in \<open>auto simp: assms(5)\<close>)
qed

lemma tracks_request:
  assumes "\<And>c. md_request M inst q c = map_reply reply (call c)" "request_valid U q"
  shows "tracks U J view inst (md_perform (store_event q reply) call) anything"
proof (rule tracks_md)
  fix c a r c'
  assume a: "view c a" "spec_ok U a" "sp_installation a = inst" and run: "call c = (r, c')"
  have "md_request M (sp_installation a) q c = (map_sum id reply r, c')"
    by (simp add: a(3) assms(1) run map_reply_def)
  then show "\<exists>b. observes U J a (store_event q reply r) b \<and> view c' b \<and> True"
    using request_law[OF a(1,2) assms(2)] by (auto simp: store_event_def)
qed (simp add: store_event_def assms(2))

lemma tracks_requests:
  assumes S: "sv_metadata S = M" and R: "\<And>x. R x" "\<And>x. R' x"
  shows "reservation_valid U v \<Longrightarrow> tracks U J view inst (store_reserve S inst v) R"
    "valid_millis t \<Longrightarrow> tracks U J view inst (store_complete_materialization S inst i plan rc t) R"
    "valid_millis t \<Longrightarrow> tracks U J view inst (store_record_failure S inst i expected e t) R"
    "valid_millis t \<Longrightarrow> tracks U J view inst (store_begin_removal S inst i expected mode t) R"
    "valid_millis t \<Longrightarrow> tracks U J view inst (store_complete_deletion S inst i iid t) R'"
  unfolding store_reserve_def store_complete_materialization_def store_record_failure_def
    store_begin_removal_def store_complete_deletion_def S
  by (rule tracks_weaken[OF tracks_request]; simp add: R)+

end

subsection \<open>The use cases\<close>

lemma tracks_guards [tracks_rules]:
  "(\<And>x. R x) \<Longrightarrow> tracks U J view inst (require_ready_marker S identity) R"
  "(\<And>x. R x) \<Longrightarrow> tracks U J view inst (check_protected_paths S target paths) R"
  "(\<And>x. R x) \<Longrightarrow> tracks U J view inst (require_no_active_workspace_identity_overlap S target volume active) R"
  "(\<And>x. R x) \<Longrightarrow> tracks U J view inst (require_prepared_target S prepared report) R"
  "(\<And>x. R' x) \<Longrightarrow> tracks U J view inst (probe_source S request) R'"
  "(\<And>x. R'' x) \<Longrightarrow> tracks U J view inst (probe_paths S pq) R''"
proof -
  assume R: "\<And>x. R x"
  show "tracks U J view inst (require_ready_marker S identity) R"
    unfolding require_ready_marker_def by (intro tracks_rules R) simp_all
  show checked: "tracks U J view inst (check_protected_paths S target paths) R" for target paths
    by (induction paths) (auto intro!: tracks_rules simp: R)
  show "tracks U J view inst (require_no_active_workspace_identity_overlap S target volume active) R"
    by (induction active)
      (auto intro!: tracks_rules checked[THEN tracks_weaken] simp: R)
  show "tracks U J view inst (require_prepared_target S prepared report) R"
    unfolding require_prepared_target_def Let_def by (intro tracks_rules R) simp_all
next
  assume "\<And>x. R' x"
  then show "tracks U J view inst (probe_source S request) R'"
    unfolding probe_source_def by (intro tracks_rules) simp_all
next
  assume "\<And>x. R'' x"
  then show "tracks U J view inst (probe_paths S pq) R''"
    unfolding probe_paths_def by (intro tracks_rules) simp_all
qed

lemma tracks_preliminary [tracks_rules]:
  assumes "\<And>x. R x"
  shows "tracks U J view inst (preliminary_report S request parent wid active) R"
proof -
  have "tracks U J view inst (case v of Known volume \<Rightarrow>
        require_no_active_workspace_identity_overlap S target volume active
      | evidence.Unknown x y \<Rightarrow> uc_return ()) anything" for v target
    by (cases v) (simp_all add: tracks_guards(3) tracks_basic(1))
  then show ?thesis unfolding preliminary_report_def by (intro tracks_rules assms) simp_all
qed

lemma tracks_execute [tracks_rules]:
  "(\<And>x. R x) \<Longrightarrow> tracks U J view inst (execute_plan S clone copy allow prepared q plan) R"
  unfolding execute_plan_def copy_directly_def copy_after_clone_def by (intro tracks_rules) simp_all

definition create_request_valid :: "create_request \<Rightarrow> bool" where
  "create_request_valid q \<longleftrightarrow>
     valid_path (cq_source q) \<and> valid_path (cq_target q) \<and> valid_workspace_name (cq_name q)
     \<and> valid_millis (cq_now q)"

lemma create_request_typed: "create_request_try_from_raw s t n f now = Ok q \<Longrightarrow> create_request_valid q"
  by (auto simp: create_request_try_from_raw_def create_request_valid_def result_simps
      path_codec.decode_eq_Ok name_codec.decode_eq_Ok millis_codec.decode_eq_Ok)

lemma reservation_of_valid:
  "\<lbrakk>create_request_valid q; identity_valid U identity; valid_workspace_id U wid\<rbrakk>
   \<Longrightarrow> reservation_valid U (reservation_of q identity wid plan)"
  by (simp add: create_request_valid_def identity_valid_def reservation_valid_def reservation_of_def)

context metadata_contract
begin

lemma tracks_locked_store:
  assumes S: "sv_metadata S = M"
  shows "tracks U J view inst (open_locked_store S identity now) (\<lambda>(lock, layout, store). store = inst)"
proof -
  have lock: "tracks U J view inst (lock_data_root S identity) anything"
    unfolding lock_data_root_def Let_def by (intro tracks_rules) simp_all
  have opened: "tracks U J view inst (uc_bind (or_fail (map_port stage.Metadata) (open_existing_store S layout x))
      (\<lambda>store. uc_return (lock, layout, store))) (\<lambda>(lock, layout, store). store = inst)" for lock layout x
    by (rule tracks_bind[OF tracks_or_fail[OF tracks_open[OF S]]]) (auto intro: tracks_basic)
  show ?thesis unfolding open_locked_store_def Let_def by (intro opened lock tracks_rules) simp_all
qed

lemma tracks_create_reserved:
  assumes S: "sv_metadata S = M" and q: "create_request_valid request"
  shows "tracks U J view inst (create_reserved S request lock layout root inst v clone copy) anything"
proof -
  have t: "valid_millis (cq_now request)" using q by (simp add: create_request_valid_def)
  have "tracks U J view inst (complete_creation S request lock layout inst i prep plan rc) anything" for i prep plan rc
    unfolding complete_creation_def Let_def by (intro tracks_rules tracks_requests S t) simp_all
  then show ?thesis unfolding create_reserved_def Let_def by (intro tracks_rules) simp_all
qed

lemma tracks_reserve_and_create:
  assumes S: "sv_metadata S = M" and q: "create_request_valid request"
    and identity: "identity_valid U identity" and wid: "valid_workspace_id U wid"
  shows "tracks U J view inst (reserve_and_create S request lock layout identity inst wid plan clone copy) anything"
proof -
  have t: "valid_millis (cq_now request)" using q by (simp add: create_request_valid_def)
  have "tracks U J view inst (record_creation_failure S inst wid (cq_now request) e) anything" for e
    unfolding record_creation_failure_def by (intro tracks_rules tracks_requests S t) simp_all
  then show ?thesis unfolding reserve_and_create_def Let_def
    by (intro tracks_rules tracks_requests tracks_create_reserved S q reservation_of_valid identity wid) simp_all
qed

lemma tracks_create:
  assumes S: "sv_metadata S = M" and P: "typed_platform U (sv_platform S)" and q: "create_request_valid request"
  shows "tracks U J view inst (create_impl S request clone copy) anything"
proof -
  have new: "tracks U J view inst (create_new S request lock layout identity inst active clone copy) anything"
    if "identity_valid U identity" for lock layout identity active
  proof -
    have fresh: "tracks U J view inst (uc_bind (fresh_uuid S) (\<lambda>u.
        uc_bind (preliminary_report S request parent (WorkspaceId u) active) (\<lambda>preliminary.
           if target_enters_existing_root (mpr_target_root preliminary) control
           then uc_fail (semantic_error TargetLayout ''target overlaps the control root'')
           else
             uc_bind (uc_lift (select_plan preliminary (cq_allow_full_copy request))) (\<lambda>preliminary_plan.
               reserve_and_create S request lock layout identity inst (WorkspaceId u)
                 preliminary_plan clone copy)))) anything" for parent control
      by (rule tracks_bind[OF tracks_fresh[OF P]])
        (intro tracks_rules tracks_reserve_and_create S q that; simp)
    show ?thesis unfolding create_new_def by (intro fresh tracks_rules) simp_all
  qed
  have opened: "tracks U J view inst (uc_bind (open_locked_store S identity (cq_now request)) (\<lambda>(lock, layout, store).
      uc_bind (or_fail (map_port stage.Metadata) (store_workspaces S)) (\<lambda>active.
        case find (\<lambda>r. res_name (rec_reservation r) = cq_name request) active of
          Some existing \<Rightarrow> reuse_existing S request lock layout existing
        | None \<Rightarrow> create_new S request lock layout identity store active clone copy))) anything"
    if "identity_valid U identity" for identity
    by (rule tracks_bind[OF tracks_locked_store[OF S]], unfold reuse_existing_def Let_def)
      (auto intro!: tracks_rules tracks_reads new that S)
  show ?thesis
    unfolding create_impl_def
    by (rule tracks_cases, (intro tracks_rules)[1], rule tracks_bind[OF tracks_config[OF P]])
      (intro tracks_rules opened)
qed

end

definition remove_request_valid :: "remove_request \<Rightarrow> bool" where
  "remove_request_valid q \<longleftrightarrow> valid_millis (rq_now q)"

lemma remove_request_typed: "remove_request_try_from_raw U target force now = Ok q \<Longrightarrow> remove_request_valid q"
  by (auto simp: remove_request_try_from_raw_def remove_request_valid_def result_simps millis_codec.decode_eq_Ok)

lemma tracks_log [tracks_rules]:
  "(\<And>x. R x) \<Longrightarrow> tracks U J view inst (append_log S lock layout g entry) R"
  unfolding append_log_def by (intro tracks_rules) simp_all

lemma tracks_preflight [tracks_rules]:
  "tracks U J view inst (removal_preflight S git process lock layout active mode) anything"
  unfolding removal_preflight_def removal_inspection_def find_container_def validate_target_def Let_def
  by (intro tracks_rules) simp_all

lemma tracks_remove_container [tracks_rules]: "tracks U J view inst (remove_container S lock layout v) anything"
  unfolding remove_container_def Let_def by (intro tracks_rules) simp_all

lemma tracks_some_uuid: "tracks U J view inst (fresh_uuid S) anything"
  by (rule tracks_event) (auto simp: fresh_uuid_def note_event_def split: prod.splits)

context metadata_contract
begin

lemma tracks_destroy:
  assumes S: "sv_metadata S = M" and q: "remove_request_valid request"
  shows "tracks U J view inst (destroy S request lock layout identity inst active oper entry warning) anything"
proof -
  have t: "valid_millis (rq_now request)" using q by (simp add: remove_request_valid_def)
  show ?thesis unfolding destroy_def Let_def by (intro tracks_rules tracks_requests S t) simp_all
qed

lemma tracks_remove:
  assumes S: "sv_metadata S = M" and q: "remove_request_valid request"
  shows "tracks U J view inst (app_remove S request git process) anything"
proof -
  have again: "tracks U J view inst (remove_again S request lock layout identity inst) anything" for lock layout identity
    unfolding remove_again_def Let_def read_tombstone_def
    by (cases "rq_target request"; simp; intro tracks_some_uuid tracks_rules tracks_reads S; simp)
  have active: "tracks U J view inst (remove_active S request git process lock layout identity inst w) anything"
    for lock layout identity w
  proof -
    have "tracks U J view inst (decide_and_destroy S request lock layout identity inst w oper g pu) anything"
      for oper g pu
      unfolding decide_and_destroy_def Let_def
      by (cases "decide_removal (case g of None \<Rightarrow> git_state.Unknown | Some g \<Rightarrow> gi_aggregate g)
            (case pu of None \<Rightarrow> NoEvidence | Some x \<Rightarrow> x) (rq_mode request)")
        (auto intro!: tracks_rules tracks_destroy S q)
    then show ?thesis unfolding remove_active_def fail_preflight_def by (intro tracks_some_uuid tracks_rules) simp_all
  qed
  have select: "tracks U J view inst (select_active S inst target) anything" for target
    unfolding select_active_def find_named_def find_identified_def read_tombstone_def
    by (cases target; simp; intro tracks_rules tracks_reads S; simp)
  have opened: "tracks U J view inst (uc_bind (open_locked_store S identity (rq_now request)) (\<lambda>(lock, layout, store).
      uc_bind (select_active S store (rq_target request)) (\<lambda>active.
        case active of
          None \<Rightarrow> remove_again S request lock layout identity store
        | Some active \<Rightarrow> remove_active S request git process lock layout identity store active))) anything" for identity
    by (rule tracks_bind[OF tracks_locked_store[OF S]]) (auto intro!: select again active tracks_rules)
  show ?thesis
    unfolding app_remove_def require_config_def read_config_step_def by (intro opened tracks_rules) simp_all
qed

text \<open>A whole run, from any state that stores \<open>a\<close>.\<close>

lemma tracked_start:
  assumes "tracks U J view (sp_installation a) m R" "view c a" "spec_ok U a"
  obtains b where "list_all (event_valid U) (w_trace (snd (m (start p c))))"
    "follows U J a (w_trace (snd (m (start p c)))) b" "view (w_metadata (snd (m (start p c)))) b"
proof -
  have "view (w_metadata (start p c)) a" using assms(2) by (simp add: start_def)
  then show thesis
    by (rule tracksE[OF assms(1) _ assms(3) refl]) (rule that, simp_all add: start_def)
qed

end

end
