(* ===== verification/Store_Effects.thy ===== *)
theory Store_Effects
  imports Tracked_Runs
begin

text \<open>
  What a run of \<open>create\<close> or \<open>remove\<close> does to the stored Workspaces: the automata of the two
  use cases run in step with the abstract store, and what that gives for histories of runs.
\<close>

subsection \<open>The effect of a creation\<close>

text \<open>One Workspace more, at the end, with at most a receipt of its own.\<close>

definition grown :: "store_spec \<Rightarrow> workspace_record \<Rightarrow> store_spec \<Rightarrow> bool" where
  "grown a w b \<longleftrightarrow>
     sp_workspaces b = sp_workspaces a @ [w]
     \<and> sp_installation b = sp_installation a \<and> sp_tombstones b = sp_tombstones a
     \<and> (sp_receipts b = sp_receipts a
        \<or> (\<exists>d t. sp_receipts b = sp_receipts a @
              [\<lparr>sr_workspace_id = rec_id w, sr_document = d, sr_recorded_at = t\<rparr>]))"

text \<open>What \<open>create\<close> knows of a reservation when it makes it.\<close>

definition admissible :: "uuid_api \<Rightarrow> create_request \<Rightarrow> store_spec \<Rightarrow> workspace_reservation \<Rightarrow> bool" where
  "admissible U request a v \<longleftrightarrow>
     res_name v = cq_name request \<and> res_source_path v = cq_source request
     \<and> res_target_path v = cq_target request \<and> res_created_at v = cq_now request
     \<and> res_allow_full_copy v = cq_allow_full_copy request
     \<and> \<not> requested_paths_overlap (cq_source request) (cq_target request)
          (ii_data_root (inst_identity (sp_installation a)))
     \<and> list_all (\<lambda>w. res_name (rec_reservation w) \<noteq> cq_name request
          \<and> \<not> paths_overlap (res_target_path (rec_reservation w)) (cq_target request)) (sp_workspaces a)"

definition reserved_in :: "store_spec \<Rightarrow> workspace_reservation \<Rightarrow> store_spec" where
  "reserved_in a v = a\<lparr>sp_workspaces := sp_workspaces a @ [new_record v]\<rparr>"

lemma grown_reserved: "grown a (new_record v) (reserved_in a v)"
  by (simp add: grown_def reserved_in_def)

lemma new_record_sel [simp]:
  "rec_reservation (new_record v) = v" "rec_state (new_record v) = Creating"
  "rec_updated_at (new_record v) = res_created_at v"
  by (simp_all add: new_record_def)

lemma grown_lookup:
  assumes "grown a w b" "spec_ok U b"
  shows "lookup b (rec_id w) = Some w"
  using assms find_distinct_key[OF spec_ok_distinct[OF assms(2)], of "rec_id w" w]
  by (simp add: grown_def lookup_def)

lemma grown_move:
  assumes "grown a w b" "spec_ok U b"
  shows "grown a (moved st err t w) (move_workspace (rec_id w) st err t b)"
proof -
  have "rec_id w \<notin> rec_id ` set (sp_workspaces a)"
    using spec_ok_distinct[OF assms(2)] assms(1) by (simp add: grown_def)
  then have "map (\<lambda>v. if rec_id v = rec_id w then moved st err t v else v) (sp_workspaces a) = sp_workspaces a"
    by (intro map_idI) (force simp: image_iff)
  then show ?thesis using assms(1) by (simp add: grown_def)
qed

lemma grown_receipt:
  "\<lbrakk>grown a w b; sp_receipts b = sp_receipts a\<rbrakk> \<Longrightarrow> grown a w (add_receipt (rec_id w) d t b)"
  by (auto simp: grown_def)

subsection \<open>The automaton of \<open>create\<close> in step with the store\<close>

fun creation_at :: "uuid_api \<Rightarrow> create_request \<Rightarrow> store_spec \<Rightarrow> create_phase \<Rightarrow> store_spec \<Rightarrow> bool" where
  "creation_at U request a (PhPlanning f) b =
     (b = a
      \<and> (\<forall>st. cf_store f = Some st \<longrightarrow> cf_identity f = Some (inst_identity (sp_installation a)))
      \<and> (\<forall>ws. cf_active f = Some ws \<longrightarrow> mset ws = mset (sp_workspaces a)))"
| "creation_at U request a (PhDone w rc) b =
     (grown a w b \<and> admissible U request a (rec_reservation w) \<and> rec_state w = WsReady
      \<and> receipt_of b (rec_id w) \<noteq> None)"
| "creation_at U request a PhRefused b =
     (b = a \<or> (\<exists>v. b = reserved_in a v \<and> admissible U request a v))"
| "creation_at U request a (PhRecorded e recorded) b =
     (\<exists>w. grown a w b \<and> admissible U request a (rec_reservation w)
        \<and> (recorded \<longrightarrow> rec_state w = Error \<and> rec_last_error_code w = Some e))"
| "creation_at U request a (PhFailing v) b =
     (\<exists>w. grown a w b \<and> admissible U request a v \<and> rec_reservation w = v)"
| "creation_at U request a ph b =
     (case reserved_as ph of
        Some v \<Rightarrow> b = reserved_in a v \<and> admissible U request a v
      | None \<Rightarrow> False)"

lemma creation_at_grown:
  "\<lbrakk>creation_at U request a ph b; reserved_as ph = Some v\<rbrakk>
   \<Longrightarrow> \<exists>w. grown a w b \<and> rec_reservation w = v \<and> admissible U request a v"
  by (cases ph) (auto intro: grown_reserved exI[of _ "new_record v"])

lemma guard_active:
  "require_no_active_workspace_path_overlap U target ws = Ok x \<Longrightarrow>
   \<forall>w \<in> set ws. \<not> paths_overlap (res_target_path (rec_reservation w)) target"
proof (induction ws)
  case (Cons w ws)
  then show ?case
    by (auto simp: active_workspace_protected_paths_def Let_def result_simps split: if_splits)
qed simp

lemma grounds_admissible:
  assumes "reservation_grounds U request identity ws u rep v" "mset ws = mset (sp_workspaces a)"
    "identity = inst_identity (sp_installation a)"
  shows "admissible U request a v"
proof -
  have "set ws = set (sp_workspaces a)" using assms(2) by (rule mset_eq_setD)
  then show ?thesis
    using assms guard_active[of U "cq_target request" ws]
    by (auto simp: admissible_def reservation_grounds_def list_all_iff)
qed

lemma observes_pure:
  assumes "\<And>q r. ev \<noteq> StoreRequest q r"
  shows "observes U J a ev b \<Longrightarrow> b = a"
  using assms by (cases ev) auto

lemma reserve_Ok:
  "spec_request U J (ReserveWorkspace v) a = (Inr x, b) \<Longrightarrow> b = reserved_in a v"
  by (auto simp: spec_reserve_def reserved_in_def map_reply_def split: if_splits option.splits)

lemma reserve_any:
  "snd (spec_request U J (ReserveWorkspace v) a) \<in> {a, reserved_in a v}"
  by (auto simp: spec_reserve_def reserved_in_def split: option.splits)

lemma planning_step:
  assumes at: "creation_at U request a (PhPlanning f) b"
    and step: "planning_next U request f ev = Some ph'" and obs: "observes U J b ev c"
  shows "creation_at U request a ph' c"
proof (cases "\<exists>q r. ev = StoreRequest q r")
  case False
  then have c: "c = a" using observes_pure[OF _ obs] at by auto
  then show ?thesis using at step obs False
    by (cases ev) (auto simp: planning_next_def split: if_splits sum.splits)
next
  case True
  then obtain q r where ev: "ev = StoreRequest q r" by blast
  then obtain v identity st ws u rep where q: "q = ReserveWorkspace v"
    and f: "cf_identity f = Some identity" "cf_store f = Some st" "cf_active f = Some ws"
    and grounds: "reservation_grounds U request identity ws u rep v"
    and ph': "ph' = (if is_ok r then PhReserved v else PhRefused)"
    using step by (cases q) (auto simp: planning_next_def split: option.splits if_splits)
  have "admissible U request a v"
    using at f by (intro grounds_admissible[OF grounds]) auto
  then show ?thesis
    using obs at reserve_Ok[of U J v b _ c] reserve_any[of U J v b] unfolding ev q ph'
    by (cases r) auto
qed

lemma reserved_step:
  assumes at: "creation_at U request a ph b" and b: "spec_ok U b"
    and step: "reserved_next P request ph ev = Some ph'" and obs: "observes U J b ev c"
    and ph: "\<And>v plan rc. ph \<noteq> PhCleared v plan rc"
  shows "creation_at U request a ph' c"
proof -
  have "\<And>q r. ev \<noteq> StoreRequest q r"
    using step ph by (cases ph; auto simp: reserved_next_def split: port_event.splits)
  then have "c = b" using observes_pure[OF _ obs] by blast
  then show ?thesis using at step ph
    by (cases ph; cases ev)
      (auto simp: reserved_next_def after_attempt_def split: if_splits sum.splits
        intro!: exI[of _ "new_record _"] grown_reserved)
qed

lemma complete_effect:
  assumes b: "b = reserved_in a v" "spec_ok U b"
    and run: "spec_request U J (CompleteMaterialization (res_workspace_id v) plan rc t) b = (r, c)"
  shows "(c = b \<and> \<not> is_ok r)
    \<or> (\<exists>w. r = Inr (WorkspaceReply w) \<and> grown a w c \<and> rec_reservation w = v \<and> rec_state w = WsReady
         \<and> receipt_of c (rec_id w) \<noteq> None)"
proof -
  have grown: "grown a (new_record v) b" using b(1) grown_reserved by simp
  have look: "lookup b (res_workspace_id v) = Some (new_record v)" using grown_lookup[OF grown b(2)] by simp
  let ?w = "moved WsReady None t (new_record v)"
  have done': "grown a ?w (add_receipt (res_workspace_id v) d t (move_workspace (res_workspace_id v) WsReady None t b))"
    for d
    using grown_receipt[of a ?w _ d t] grown_move[OF grown b(2), of WsReady None t] b(1)
    by (simp add: reserved_in_def)
  have same: "(move_workspace i WsReady None t b)\<lparr>sp_receipts := sp_receipts b @ [\<lparr>sr_workspace_id = i,
      sr_document = d, sr_recorded_at = t\<rparr>]\<rparr> = add_receipt i d t (move_workspace i WsReady None t b)" for i d
    by (simp add: add_receipt_def)
  show ?thesis
  proof (cases "json_to_string J (final_receipt_json U rc)")
    case (Inl e)
    then show ?thesis using run by auto
  next
    case (Inr d)
    then show ?thesis using run look done'[of d]
      by (auto simp: spec_complete_def same split: if_splits)
  qed
qed

lemma record_effect:
  assumes b: "grown a w b" "spec_ok U b"
    and run: "spec_request U J (RecordFailure (rec_id w) Creating e t) b = (r, c)"
  shows "(c = b \<and> \<not> is_ok r)
    \<or> (is_ok r \<and> grown a (moved Error (Some e) t w) c)"
  using run grown_lookup[OF b] grown_move[OF b, of Error "Some e" t]
  by (auto simp: spec_record_failure_def spec_update_def split: if_splits sum.splits)

lemma record_step:
  assumes at: "creation_at U request a ph b" and b: "spec_ok U b"
    and step: "record_next request ph ev = Some ph'" and obs: "observes U J b ev c"
  shows "creation_at U request a ph' c"
proof -
  obtain v e r where v: "reserved_as ph = Some v" "ph' = PhRecorded e (is_ok r)"
    and ev: "ev = StoreRequest (RecordFailure (res_workspace_id v) Creating e (cq_now request)) r"
    using step by (cases ev) (auto simp: record_next_def split: option.splits store_request.splits if_splits)
  obtain w where w: "grown a w b" "rec_reservation w = v" "admissible U request a v"
    using creation_at_grown[OF at v(1)] by blast
  obtain r' c' where run: "spec_request U J (RecordFailure (rec_id w) Creating e (cq_now request)) b = (r', c')"
    by fastforce
  have "c = b \<and> \<not> is_ok r \<or> c = c' \<and> (is_ok r \<longrightarrow> is_ok r')"
    using obs run w(2) unfolding ev by (auto split: sum.splits)
  then have "(c = b \<and> \<not> is_ok r) \<or> grown a (moved Error (Some e) (cq_now request) w) c"
    using record_effect[OF w(1) b run] by auto
  then show ?thesis unfolding v(2)
  proof
    assume "c = b \<and> \<not> is_ok r"
    then show "creation_at U request a (PhRecorded e (is_ok r)) c"
      using w by auto
  next
    assume "grown a (moved Error (Some e) (cq_now request) w) c"
    then show "creation_at U request a (PhRecorded e (is_ok r)) c"
      using w by (auto intro!: exI[of _ "moved Error (Some e) (cq_now request) w"])
  qed
qed

lemma completion_step:
  assumes at: "creation_at U request a (PhCleared v plan rc) b" and b: "spec_ok U b"
    and step: "reserved_next P request (PhCleared v plan rc) ev = Some ph'" and obs: "observes U J b ev c"
  shows "creation_at U request a ph' c"
proof -
  have b': "b = reserved_in a v" "admissible U request a v" using at by simp_all
  obtain r where ev: "ev = StoreRequest (CompleteMaterialization (res_workspace_id v) plan rc (cq_now request)) r"
    and ph': "(\<exists>w. r = Inr (WorkspaceReply w) \<and> ph' = PhDone w rc) \<or> (\<not> is_ok r \<and> ph' = PhFailing v)"
    using step by (cases ev) (auto simp: reserved_next_def split: if_splits sum.splits store_reply.splits)
  obtain r' c' where run: "spec_request U J (CompleteMaterialization (res_workspace_id v) plan rc (cq_now request)) b = (r', c')"
    by fastforce
  note effect = complete_effect[OF b'(1) b run]
  have c: "c = b \<and> \<not> is_ok r \<or> c = c' \<and> (is_ok r \<longrightarrow> r' = r)"
    using obs run unfolding ev by (auto split: sum.splits)
  have still: "\<exists>w. grown a w b \<and> rec_reservation w = v"
    using b'(1) grown_reserved by (metis new_record_sel(1))
  from ph' show ?thesis
  proof
    assume "\<exists>w. r = Inr (WorkspaceReply w) \<and> ph' = PhDone w rc"
    then show ?thesis using c effect b'(2) by auto
  next
    assume "\<not> is_ok r \<and> ph' = PhFailing v"
    then show ?thesis using c effect b'(2) still by auto
  qed
qed

lemma create_step:
  assumes "creation_at U request a ph b" "spec_ok U b"
    "create_next U P request ph ev = Some ph'" "observes U J b ev c"
  shows "creation_at U request a ph' c"
proof (cases ph)
  case (PhPlanning f)
  then show ?thesis
    using planning_step[OF assms(1)[unfolded PhPlanning] _ assms(4)] assms(3) by (simp add: create_next_def)
next
  case (PhCleared v plan rc)
  then show ?thesis using assms record_step[OF assms(1,2) _ assms(4)] completion_step[of U request a v plan rc b P ev ph' J c]
    by (auto simp: create_next_def split: option.splits)
qed (use assms record_step[OF assms(1,2) _ assms(4)] reserved_step[OF assms(1,2) _ assms(4)] in
      \<open>auto simp: create_next_def split: option.splits\<close>)

lemma create_run:
  assumes "creation_at U request a ph b" "spec_ok U b" "list_all (event_valid U) ts"
    "advance U P request ph ts = Some ph'" "follows U J b ts c"
  shows "creation_at U request a ph' c"
  using assms
proof (induction ts arbitrary: ph b)
  case (Cons ev ts)
  then obtain ph1 where ph1: "create_next U P request ph ev = Some ph1" "advance U P request ph1 ts = Some ph'"
    by (auto split: option.splits)
  obtain b1 where b1: "observes U J b ev b1" "follows U J b1 ts c" using Cons.prems by auto
  have "spec_ok U b1" using observes_store[OF b1(1)] Cons.prems by simp
  then show ?case
    using Cons.IH[OF create_step[OF Cons.prems(1,2) ph1(1) b1(1)] _ _ ph1(2) b1(2)] Cons.prems by simp
qed simp

subsection \<open>The automaton of \<open>remove\<close> in step with the store\<close>

definition deleted_from :: "store_spec \<Rightarrow> workspace_id \<Rightarrow> store_spec \<Rightarrow> bool" where
  "deleted_from a i b \<longleftrightarrow> lookup a i \<noteq> None
     \<and> (\<exists>t. b = remove_workspace i (add_tombstone
        \<lparr>tomb_workspace_id = i, tomb_instance_id = spec_instance a, tomb_deleted_at = t\<rparr> a))"

definition condemned :: "store_spec \<Rightarrow> workspace_id \<Rightarrow> store_spec \<Rightarrow> bool" where
  "condemned a i b \<longleftrightarrow> b = a \<or> (\<exists>t. b = move_workspace i Deleting None t a)"

definition touched :: "store_spec \<Rightarrow> workspace_id \<Rightarrow> store_spec \<Rightarrow> bool" where
  "touched a i b \<longleftrightarrow>
     b = a \<or> (\<exists>st err t. (st = Deleting \<or> st = Error) \<and> b = move_workspace i st err t a)
     \<or> deleted_from a i b"

fun removal_at :: "store_spec \<Rightarrow> removal_phase \<Rightarrow> store_spec \<Rightarrow> bool" where
  "removal_at a (RmPlanning f) b =
     (b = a \<and> (\<forall>i. rf_tombstone f = Some i \<longrightarrow> tombstoned a i))"
| "removal_at a (RmStarted seen v) b = (b = a)"
| "removal_at a (RmDeleting v) b = condemned a (res_workspace_id v) b"
| "removal_at a (RmRemoved v out) b = condemned a (res_workspace_id v) b"
| "removal_at a (RmAbsent v out) b = condemned a (res_workspace_id v) b"
| "removal_at a (RmTombstoned v out) b = deleted_from a (res_workspace_id v) b"
| "removal_at a (RmUnrecorded v) b = condemned a (res_workspace_id v) b"
| "removal_at a (RmFailing v) b = touched a (res_workspace_id v) b"
| "removal_at a (RmAgain i) b = (b = a \<and> tombstoned a i)"
| "removal_at a (RmDone i result) b =
     (case result of RemovedNow \<Rightarrow> deleted_from a i b | AlreadyRemoved \<Rightarrow> b = a \<and> tombstoned a i)"
| "removal_at a (RmEnded c logged) b = (\<exists>i. touched a i b)"

lemma moved_moved [simp]: "moved st err t (moved st' err' t' w) = moved st err t w"
  by (simp add: moved_def)

lemma move_move [simp]: "move_workspace i st err t (move_workspace i st' err' t' a) = move_workspace i st err t a"
proof -
  have "(\<lambda>w. if rec_id w = i then moved st err t w else w) \<circ> (\<lambda>w. if rec_id w = i then moved st' err' t' w else w)
      = (\<lambda>w. if rec_id w = i then moved st err t w else w)" by (rule ext) simp
  then show ?thesis by (simp add: move_workspace_def)
qed

lemma remove_move [simp]:
  "remove_workspace i (add_tombstone x (move_workspace i st err t a)) = remove_workspace i (add_tombstone x a)"
proof -
  have "filter (\<lambda>w. rec_id w \<noteq> i) (map (\<lambda>w. if rec_id w = i then moved st err t w else w) ws)
      = filter (\<lambda>w. rec_id w \<noteq> i) ws" for ws
    by (induction ws) auto
  then show ?thesis by (simp add: remove_workspace_def move_workspace_def add_tombstone_def)
qed

lemma touched_intros [simp, intro]:
  "touched a i a" "touched a i (move_workspace i Deleting err t a)" "touched a i (move_workspace i Error err t a)"
  "deleted_from a i b \<Longrightarrow> touched a i b" "deleted_from a i b \<Longrightarrow> \<exists>i. touched a i b"
  by (auto simp: touched_def)

lemma touched_condemned: "condemned a i b \<Longrightarrow> touched a i b"
  by (auto simp: condemned_def)

lemma begin_effect:
  "spec_request U J (BeginRemovalOf i expected mode t) a = (r, c) \<Longrightarrow> condemned a i c"
  by (auto simp: spec_begin_removal_def spec_update_def condemned_def split: sum.splits option.splits if_splits)

lemma failure_effect:
  "\<lbrakk>condemned a i b; spec_request U J (RecordFailure i expected e t) b = (r, c)\<rbrakk> \<Longrightarrow> touched a i c"
  by (auto simp: spec_record_failure_def spec_update_def condemned_def
      split: sum.splits option.splits if_splits)

lemma deletion_effect:
  assumes "condemned a i b" "spec_request U J (CompleteDeletion i iid t) b = (r, c)"
  shows "(c = b \<and> \<not> is_ok r) \<or> deleted_from a i c"
proof -
  have inst: "spec_instance b = spec_instance a" "lookup b i \<noteq> None \<longleftrightarrow> lookup a i \<noteq> None"
    using assms(1) by (auto simp: condemned_def lookup_move_workspace)
  have "remove_workspace i (add_tombstone x b) = remove_workspace i (add_tombstone x a)" for x
    using assms(1) by (auto simp: condemned_def)
  moreover have "b\<lparr>sp_workspaces := filter (\<lambda>w. rec_id w \<noteq> i) (sp_workspaces b),
      sp_receipts := filter (\<lambda>r. sr_workspace_id r \<noteq> i) (sp_receipts b), sp_tombstones := sp_tombstones b @ [x]\<rparr>
      = remove_workspace i (add_tombstone x b)" for x
    by (simp add: remove_workspace_def add_tombstone_def)
  ultimately show ?thesis using assms(2) inst
    by (auto simp: spec_complete_deletion_def Let_def deleted_from_def split: option.splits if_splits)
qed

lemma removal_step:
  assumes at: "removal_at a ph b" and step: "removal_next request ph ev = Some ph'"
    and obs: "observes U J b ev c"
  shows "removal_at a ph' c"
proof (cases "\<exists>q r. ev = StoreRequest q r")
  case False
  then have c: "c = b" using observes_pure[OF _ obs] by blast
  have tomb: "tombstoned a i" if "find (\<lambda>t. tomb_workspace_id t = i) (sp_tombstones a) = Some t" for i t
    using find_Some_mem[OF that] by (auto simp: tombstoned_def list_ex_iff)
  show ?thesis using at step obs c False
    by (cases ph; cases ev)
      (auto simp: removal_steps tomb intro: touched_condemned
        split: if_splits sum.splits option.splits prod.splits)
next
  case True
  then obtain q r where ev: "ev = StoreRequest q r" by blast
  obtain r' c' where run: "spec_request U J q b = (r', c')" by fastforce
  have c: "c = b \<and> \<not> is_ok r \<or> c = c' \<and> (is_ok r \<longrightarrow> is_ok r')"
    using obs run unfolding ev by (auto split: sum.splits)
  show ?thesis
  proof (cases ph)
    case (RmStarted seen v)
    then obtain expected where q: "q = BeginRemovalOf (res_workspace_id v) expected (rq_mode request) (rq_now request)"
      and ph': "ph' = (if is_ok r then RmDeleting v else RmFailing v)"
      using step unfolding ev by (cases q) (auto simp: removal_next_def split: if_splits)
    have "condemned a (res_workspace_id v) c'" "condemned a (res_workspace_id v) b"
      using begin_effect[OF run[unfolded q]] at RmStarted by (simp_all add: condemned_def)
    then show ?thesis using c ph' touched_condemned by auto
  next
    case (RmAbsent v out)
    then obtain iid where q: "q = CompleteDeletion (res_workspace_id v) iid (rq_now request)"
      and ph': "ph' = (if is_ok r then RmTombstoned v out else RmFailing v)"
      using step unfolding ev by (cases q) (auto simp: removal_next_def split: if_splits)
    have b: "condemned a (res_workspace_id v) b" using at RmAbsent by simp
    have "(c' = b \<and> \<not> is_ok r') \<or> deleted_from a (res_workspace_id v) c'"
      by (rule deletion_effect[OF b run[unfolded q]])
    then show ?thesis using c ph' touched_condemned[OF b] by auto
  next
    case (RmUnrecorded v)
    then obtain expected e where q: "q = RecordFailure (res_workspace_id v) expected e (rq_now request)"
      and ph': "ph' = RmFailing v"
      using step unfolding ev by (cases q) (auto simp: removal_next_def split: if_splits)
    have b: "condemned a (res_workspace_id v) b" using at RmUnrecorded by simp
    have "touched a (res_workspace_id v) c'" by (rule failure_effect[OF b run[unfolded q]])
    then show ?thesis using c ph' touched_condemned[OF b] by auto
  qed (use step ev in \<open>auto simp: removal_steps split: if_splits\<close>)
qed

lemma removal_followed:
  assumes "removal_at a ph b" "removal_run request ph ts = Some ph'" "follows U J b ts c"
  shows "removal_at a ph' c"
  using assms
proof (induction ts arbitrary: ph b)
  case (Cons ev ts)
  then obtain ph1 b1 where "removal_next request ph ev = Some ph1" "removal_run request ph1 ts = Some ph'"
    "observes U J b ev b1" "follows U J b1 ts c"
    by (auto split: option.splits)
  then show ?case using Cons.IH[OF removal_step[OF Cons.prems(1)]] by blast
qed simp

end
