(* ===== verification/First_Run.thy ===== *)
theory First_Run
  imports Tracked_Runs App_Query
begin

text \<open>
  The runs that issue no request of an open store: the queries and the dry run, \<open>init\<close> on a store
  that is there, and every use case on a database file that is still empty.
\<close>

subsection \<open>Reading use cases\<close>

lemma tracks_read_config [tracks_rules]:
  "(\<And>x. R x) \<Longrightarrow> tracks U J view inst (read_config_step S) R"
  "(\<And>x. R' x) \<Longrightarrow> tracks U J view inst (require_config S) R'"
  unfolding require_config_def read_config_step_def by (intro tracks_rules; simp)+

text \<open>They touch the metadata only by inspecting it.\<close>

definition inspections_tracked ::
  "uuid_api \<Rightarrow> json_api \<Rightarrow> ('m \<Rightarrow> store_spec \<Rightarrow> bool) \<Rightarrow> installation_record \<Rightarrow> ('p, 'm) service \<Rightarrow> bool" where
  "inspections_tracked U J view inst S \<longleftrightarrow>
     (\<forall>layout expected. tracks U J view inst (inspect_metadata S layout expected) anything)"

lemma tracks_inspections [tracks_rules]:
  "\<lbrakk>inspections_tracked U J view inst S; \<And>x. R x\<rbrakk> \<Longrightarrow> tracks U J view inst (inspect_metadata S layout expected) R"
  unfolding inspections_tracked_def by (blast intro: tracks_weaken)

lemma tracks_inspect_existing:
  assumes "inspections_tracked U J view inst S"
  shows "tracks U J view inst (inspect_existing S identity now) anything"
  unfolding inspect_existing_def by (intro tracks_rules assms) simp_all

lemma tracks_reading:
  assumes S: "inspections_tracked U J view inst S"
  shows "tracks U J view inst (app_doctor S) anything" "tracks U J view inst (list_workspaces S) anything"
    "tracks U J view inst (workspace_path S name) anything"
    "tracks U J view inst (workspace_status S git name) anything"
    "tracks U J view inst (preview_create S request) anything"
proof -
  have current: "tracks U J view inst (inspect_current S) anything"
    unfolding inspect_current_def by (intro tracks_rules tracks_inspect_existing S) simp_all
  have workspace: "tracks U J view inst (inspect_workspace S name) anything" for name
    unfolding inspect_workspace_def Let_def by (intro current tracks_rules) simp_all
  have space: "tracks U J view inst (measure_workspace_space S v) anything" for v
    unfolding measure_workspace_space_def Let_def by (intro tracks_rules) simp_all
  show "tracks U J view inst (app_doctor S) anything" "tracks U J view inst (list_workspaces S) anything"
    unfolding app_doctor_def list_workspaces_def by (intro current tracks_rules; simp)+
  show "tracks U J view inst (workspace_path S name) anything"
    unfolding workspace_path_def by (intro workspace tracks_rules) simp_all
  show "tracks U J view inst (workspace_status S git name) anything"
    unfolding workspace_status_def by (intro workspace space tracks_rules) simp_all
  show "tracks U J view inst (preview_create S request) anything"
    unfolding preview_create_def Let_def by (intro S tracks_some_uuid tracks_rules) simp_all
qed

context metadata_contract
begin

lemma inspections: "sv_metadata S = M \<Longrightarrow> inspections_tracked U J view inst S"
  unfolding inspections_tracked_def inspect_metadata_def
  by (auto intro: tracks_md_read[OF inspect_law])

lemma tracks_initialize:
  assumes "sv_metadata S = M" "\<And>x. R x"
  shows "tracks U J view inst (initialize_metadata S layout expected) R"
  unfolding initialize_metadata_def assms(1)
  by (rule tracks_md_read[OF initialize_law]) (simp_all add: assms(2))

lemma tracks_init:
  assumes S: "sv_metadata S = M"
  shows "tracks U J view inst (app_init S request) anything"
  unfolding app_init_def Let_def
  by (intro tracks_initialize S tracks_inspect_existing inspections tracks_some_uuid tracks_rules) simp_all

end

text \<open>\<open>init\<close> issues no request of an open store, so it leaves a store that is there as it was.\<close>

fun store_asked :: "port_event \<Rightarrow> bool" where
  "store_asked (StoreRequest q r) = True"
| "store_asked _ = False"

lemma init_asks_nothing: "calls (app_init S request) (\<lambda>r t. \<not> list_ex store_asked t) []"
  unfolding app_init_def Let_def read_config_step_def md_calls
  by (intro calls_seq calls_bind_marker calls_bind_inspect_existing) simp_all

lemma follows_unasked: "\<lbrakk>follows U J a ts b; \<not> list_ex store_asked ts\<rbrakk> \<Longrightarrow> b = a"
proof (induction ts arbitrary: a)
  case (Cons ev ts)
  then obtain c where c: "observes U J a ev c" "follows U J c ts b" by auto
  have "c = a" using c(1) Cons.prems(2) by (cases ev) auto
  then show ?case using c(2) Cons by simp
qed simp

subsection \<open>An empty database file\<close>

text \<open>
  Opening and inspecting it fail, so no use case gets to a request, and it stays empty; only
  \<open>init\<close> makes it a store.
\<close>

definition blank_view :: "store_env \<Rightarrow> conn \<Rightarrow> store_spec \<Rightarrow> bool" where
  "blank_view E c a \<longleftrightarrow> c_db c = empty_database"

lemma empty_incompatible: "\<not> compatible E empty_database"
  by (simp add: compatible_def empty_database_def APPLICATION_ID_def)

lemma reopened_empty:
  "reopened E expected c r d \<Longrightarrow> c_db c = empty_database \<Longrightarrow> c_db d = empty_database \<and> \<not> is_ok r"
  using reopened_db[of E expected c r d] by (cases r) (auto simp: reopened_def empty_incompatible)

lemma inspect_empty:
  assumes "factory_inspect E expected c = (r, d)" "c_db c = empty_database"
  shows "c_db d = empty_database" "\<not> is_ok r"
proof -
  show "c_db d = empty_database" using preservingD[OF preserving_inspect, of E expected c] assms by simp
  show "\<not> is_ok r"
    using inspect_Ok(2)[of E expected c] assms empty_incompatible by (cases r) auto
qed

lemma empty_inspections: "sv_metadata S = sqlite_port E \<Longrightarrow> inspections_tracked U J (blank_view E) inst S"
  unfolding inspections_tracked_def inspect_metadata_def
proof (intro allI tracks_md)
  fix layout expected c a r c'
  assume "sv_metadata S = sqlite_port E" "blank_view E c a"
    "md_inspect (sv_metadata S) layout expected (sv_sqlite_timeout S) c = (r, c')"
  then show "\<exists>b. observes U J a (InspectStore expected r) b \<and> blank_view E c' b \<and> True"
    using inspect_empty[of E expected c r c'] by (cases r) (auto simp: blank_view_def)
qed simp

lemma tracks_empty_open:
  assumes "sv_metadata S = sqlite_port E"
  shows "tracks U J (blank_view E) inst (open_existing_store S layout expected) (\<lambda>r. \<not> is_ok r)"
  unfolding open_existing_store_def assms
proof (rule tracks_md)
  fix c a r c'
  assume "blank_view E c a"
    "md_open_existing (sqlite_port E) layout expected (sv_sqlite_timeout S) c = (r, c')"
  then show "\<exists>b. observes U J a (OpenStore expected r) b \<and> blank_view E c' b \<and> \<not> is_ok r"
    using reopened_empty[of E expected c r c']
    by (cases r) (auto simp: blank_view_def dest: open_existing_cases)
qed simp

lemma tracks_never:
  "tracks U J view inst m (\<lambda>_. False) \<Longrightarrow> tracks U J view inst (uc_bind m f) R"
  by (erule tracks_bind) simp

lemma tracks_empty_store:
  assumes S: "sv_metadata S = sqlite_port E"
  shows "tracks U J (blank_view E) inst (open_locked_store S identity now) (\<lambda>_. False)"
proof -
  have lock: "tracks U J (blank_view E) inst (lock_data_root S identity) anything"
    unfolding lock_data_root_def Let_def by (intro tracks_rules) simp_all
  have opened: "tracks U J (blank_view E) inst (or_fail g (open_existing_store S layout x)) (\<lambda>_. False)" for g layout x
    by (rule tracks_or_fail[OF tracks_weaken[OF tracks_empty_open[OF S]]]) auto
  show ?thesis unfolding open_locked_store_def Let_def
    by (intro lock tracks_never[OF opened] tracks_rules) simp_all
qed

lemma tracks_empty:
  assumes S: "sv_metadata S = sqlite_port E"
  shows "tracks U J (blank_view E) inst (create_impl S q clone copy) anything"
    "tracks U J (blank_view E) inst (app_remove S rq git process) anything"
    "tracks U J (blank_view E) inst (inspect_existing S identity now) anything"
proof -
  note never = tracks_never[OF tracks_empty_store[OF S]]
  show "tracks U J (blank_view E) inst (create_impl S q clone copy) anything"
    unfolding create_impl_def by (intro never tracks_rules) simp_all
  show "tracks U J (blank_view E) inst (app_remove S rq git process) anything"
    unfolding app_remove_def by (intro never tracks_rules) simp_all
  show "tracks U J (blank_view E) inst (inspect_existing S identity now) anything"
    by (rule tracks_inspect_existing[OF empty_inspections[OF S]])
qed

subsection \<open>The first initialization\<close>

text \<open>
  \<open>moves I m K R\<close>: from a metadata state of which \<open>I\<close> holds, \<open>m\<close> ends in one of which \<open>K\<close>
  holds, and its result satisfies \<open>R\<close>.
\<close>

definition moves :: "('m \<Rightarrow> bool) \<Rightarrow> ('p, 'm, 'a) use_case \<Rightarrow> ('m \<Rightarrow> bool) \<Rightarrow> ('a \<Rightarrow> bool) \<Rightarrow> bool" where
  "moves I m K R \<longleftrightarrow> (\<forall>w. I (w_metadata w) \<longrightarrow>
     K (w_metadata (snd (m w))) \<and> (\<forall>x. fst (m w) = Inr x \<longrightarrow> R x))"

lemma moves_bind:
  fixes m :: "('p, 'm, 'a) use_case"
  assumes m: "moves I m I' R" and f: "\<And>x. R x \<Longrightarrow> moves I' (f x) K R'" and sub: "\<And>c. I' c \<Longrightarrow> K c"
  shows "moves I (uc_bind m f) K R'"
  unfolding moves_def
proof (intro allI impI)
  fix w :: "('p, 'm) world" assume w: "I (w_metadata w)"
  obtain r w' where run: "m w = (r, w')" by fastforce
  have w': "I' (w_metadata w')" "r = Inr x \<Longrightarrow> R x" for x
    using m w run unfolding moves_def by (metis fst_conv snd_conv)+
  show "K (w_metadata (snd (uc_bind m f w))) \<and> (\<forall>x. fst (uc_bind m f w) = Inr x \<longrightarrow> R' x)"
  proof (cases r)
    case (Inl e)
    then show ?thesis using w'(1) sub by (simp add: uc_bind_def run)
  next
    case (Inr x)
    then show ?thesis using f[OF w'(2)[OF Inr]] w'(1) unfolding moves_def by (simp add: uc_bind_def run)
  qed
qed

lemma moves_still:
  "(\<And>w. w_metadata (snd (m w)) = w_metadata w) \<Longrightarrow> (\<And>w x. fst (m w) = Inr x \<Longrightarrow> R x) \<Longrightarrow> moves I m I R"
  by (simp add: moves_def)

lemma moves_steps:
  "moves I (uc_fail e) I anything" "moves I (uc_return x) I anything" "moves I (observe g call) I anything"
  "moves I (perform ev g call) I anything"
  by (auto simp: uc_fail_def uc_return_def observe_def perform_def note_event_def split: prod.splits
      intro!: moves_still)

lemma moves_uuid:
  "typed_platform U (sv_platform S) \<Longrightarrow> moves I (fresh_uuid S) I (\<lambda>u. valid_workspace_id U (WorkspaceId u))"
  by (rule moves_still)
    (auto simp: typed_platform_def fresh_uuid_def note_event_def split: prod.splits, metis fst_conv)

lemma moves_or_fail: "moves I m K anything \<Longrightarrow> moves I (or_fail g m) K anything"
  unfolding or_fail_def by (erule moves_bind) (auto intro!: moves_still simp: uc_lift_def)

definition fresh_store :: "store_env \<Rightarrow> conn \<Rightarrow> bool" where
  "fresh_store E c \<longleftrightarrow> c_db c = empty_database
     \<or> (\<exists>inst. installation_valid (env_uuid E) inst \<and> c_db c = encode E (empty_store inst))"

lemma moves_initialize:
  assumes S: "sv_metadata S = sqlite_port E" and expected: "installation_valid (env_uuid E) expected"
  shows "moves (\<lambda>c. c_db c = empty_database) (initialize_metadata S layout expected) (fresh_store E) anything"
  unfolding moves_def
proof (intro allI impI conjI)
  fix w :: "('a, conn) world" assume w: "c_db (w_metadata w) = empty_database"
  obtain r c where run: "factory_initialize E expected (sv_sqlite_timeout S) (w_metadata w) = (r, c)" by fastforce
  have "blank (c_db (w_metadata w))" by (simp add: w blank_def empty_database_def user_table_count_def)
  then have "c_db c \<in> {empty_database, encode E (empty_store expected)}"
    using initialize_cases[OF run] w by (simp add: opened_def made_fresh_def initialized_empty)
  then show "fresh_store E (w_metadata (snd (initialize_metadata S layout expected w)))"
    using expected by (auto simp: initialize_metadata_def md_perform_def S run note_event_def fresh_store_def)
qed simp

text \<open>What the types of \<open>init\<close>'s request and of the prepared root say.\<close>

definition init_typed :: "'p platform \<Rightarrow> init_request \<Rightarrow> bool" where
  "init_typed P q \<longleftrightarrow> valid_millis (iq_now q) \<and> (\<forall>r. valid_path (root_path P r))"

lemma init_request_typed: "init_request_try_from_raw root now = Ok q \<Longrightarrow> valid_millis (iq_now q)"
  by (auto simp: init_request_try_from_raw_def result_simps millis_codec.decode_eq_Ok)

lemma moves_fail: "(\<And>c. I c \<Longrightarrow> K c) \<Longrightarrow> moves I (uc_fail e) K R" "(\<And>c. I c \<Longrightarrow> K c) \<Longrightarrow> moves I (uc_return x) K anything"
  by (simp_all add: moves_def uc_fail_def uc_return_def)

lemma moves_marker: "moves I (require_ready_marker S identity) I anything"
  unfolding require_ready_marker_def
  by (rule moves_bind[OF moves_steps(3)]) (auto intro: moves_steps moves_fail split: option.split)

lemma moves_inspect_existing:
  assumes S: "sv_metadata S = sqlite_port E"
  shows "moves (\<lambda>c. c_db c = empty_database) (inspect_existing S identity now) (\<lambda>c. c_db c = empty_database) anything"
proof -
  let ?I = "\<lambda>c. c_db c = empty_database"
  have "moves ?I (inspect_metadata S layout expected) ?I anything" for layout expected
    unfolding moves_def inspect_metadata_def md_perform_def S
    using inspect_empty(1)[of E expected] by (auto simp: note_event_def split: prod.splits)
  note inspected = moves_or_fail[OF this]
  show ?thesis unfolding inspect_existing_def
    by (intro moves_bind[OF moves_steps(3)] moves_bind[OF moves_marker] moves_bind[OF inspected] moves_fail(2))
qed

lemma first_init:
  assumes S: "sv_metadata S = sqlite_port E" and P: "typed_platform (env_uuid E) (sv_platform S)"
    and q: "init_typed (sv_platform S) request"
  shows "moves (\<lambda>c. c_db c = empty_database) (app_init S request) (fresh_store E) anything"
proof -
  let ?I = "\<lambda>c. c_db c = empty_database"
  let ?P = "sv_platform S"
  have sub: "?I c \<Longrightarrow> fresh_store E c" for c by (simp add: fresh_store_def)
  have publish: "moves (fresh_store E) (uc_bind (observe (map_port Control) (layout_revalidate ?P layout)) (\<lambda>_.
      uc_bind (perform PublishReady (map_port Control) (publish_ready ?P lock token)) (\<lambda>ready.
        if rm_state ready \<noteq> root_marker_state.Ready \<or> rm_identity ready \<noteq> inst_identity installation
        then uc_fail (semantic_error ControlLayout ''published root marker does not match metadata'')
        else
          uc_bind (perform (PublishConfig (inst_identity installation)) (map_port Control)
                     (publish_config ?P lock (inst_identity installation))) (\<lambda>_.
            uc_return \<lparr>io_result = Initialized, io_installation = installation\<rparr>)))) (fresh_store E) anything"
    for lock token layout installation
    by (intro moves_bind[OF moves_steps(3)] moves_bind[OF moves_steps(4)])
      (auto intro: moves_fail moves_bind[OF moves_steps(4)])
  have valid: "installation_valid (env_uuid E)
      \<lparr>inst_identity = \<lparr>ii_instance_id = InstanceId u, ii_data_root = root_path ?P prepared,
         ii_volume_id = root_volume_id ?P prepared\<rparr>, inst_created_at = iq_now request\<rparr>"
    if "valid_workspace_id (env_uuid E) (WorkspaceId u)" for u prepared
    using that q
    by (simp add: installation_valid_def init_typed_def valid_workspace_id_def valid_instance_id_def)
  have metadata: "moves ?I (uc_bind (or_fail g (initialize_metadata S layout
        \<lparr>inst_identity = \<lparr>ii_instance_id = InstanceId u, ii_data_root = root_path ?P prepared,
           ii_volume_id = root_volume_id ?P prepared\<rparr>, inst_created_at = iq_now request\<rparr>)) f) (fresh_store E) anything"
    if "valid_workspace_id (env_uuid E) (WorkspaceId u)" "\<And>x. moves (fresh_store E) (f x) (fresh_store E) anything"
    for g layout u prepared and f :: "installation_record \<Rightarrow> ('a, conn, init_outcome) use_case"
    by (rule moves_bind[OF moves_or_fail[OF moves_initialize[OF S valid[OF that(1)]]] that(2)])
  note existing = moves_bind[OF moves_inspect_existing[OF S] _ sub]
  note steps = moves_bind[OF moves_steps(4) _ sub] moves_bind[OF moves_steps(3) _ sub] moves_bind[OF moves_uuid[OF P] _ sub]
  show ?thesis unfolding app_init_def Let_def read_config_step_def
  proof (rule steps(1), rule steps(1), rule steps(1), rule steps(2), goal_cases)
    case (1 bootstrap lock current unit)
    show ?case
    proof (cases current)
      case None
      show ?thesis unfolding None option.case
        by (rule steps(1), rule steps(3), rule steps(1), rule steps(1), rule metadata, assumption, rule publish)
    next
      case (Some identity)
      show ?thesis unfolding Some option.case
        by (cases "ii_data_root identity \<noteq> iq_data_root request")
          (simp_all add: moves_fail(1)[OF sub] existing moves_fail(2)[OF sub])
    qed
  qed
qed

end
