(* ===== verification/Composed_System.thy ===== *)
theory Composed_System
  imports Store_Effects First_Run
begin

text \<open>
  The use cases on the SQLite adapter: what one run of \<open>create\<close> or \<open>remove\<close> leaves in the
  database, and what holds of the database after any history of runs of all use cases, from the
  first \<open>init\<close> on an empty file, each run with its own platform, whatever the adapters answer and
  whatever calls of SQLite fail.
\<close>

subsection \<open>Failed requests in a trace\<close>

fun refused_request :: "port_event \<Rightarrow> bool" where
  "refused_request (StoreRequest q r) = (\<not> is_ok r)"
| "refused_request _ = False"

lemma unrecorded_refused:
  "\<lbrakk>advance U P request ph ts = Some ph'; ph' = PhRefused \<or> ph' = PhRecorded e False\<rbrakk> \<Longrightarrow>
   ph = ph' \<or> list_ex refused_request ts"
proof (induction ts arbitrary: ph)
  case (Cons ev ts)
  then obtain ph1 where ph1: "create_next U P request ph ev = Some ph1" "advance U P request ph1 ts = Some ph'"
    by (auto split: option.splits)
  have "refused_request ev" if "ph1 = PhRefused \<or> ph1 = PhRecorded e False"
    using ph1(1) that
    by (cases ph; cases ev)
      (auto simp: create_steps planning_next_def split: if_splits option.splits sum.splits store_request.splits
        store_reply.splits)
  then show ?case using Cons.IH[OF ph1(2) Cons.prems(2)] Cons.prems(2) by auto
qed simp

lemma follows_unchanged:
  "\<lbrakk>follows U J a ts b; changes ts = []\<rbrakk> \<Longrightarrow> b = a"
proof (induction ts arbitrary: a)
  case (Cons ev ts)
  then have "\<not> mutating ev" "changes ts = []" by (simp_all add: changes_def split: if_splits)
  then show ?case using Cons observes_pure[of ev U J a] by fastforce
qed simp

subsection \<open>The database after one run\<close>

text \<open>What \<open>create\<close> left, and what its answer says of it.\<close>

definition creation_outcome ::
  "uuid_api \<Rightarrow> create_request \<Rightarrow> store_spec \<Rightarrow> use_case_error + create_outcome \<Rightarrow> trace \<Rightarrow> store_spec \<Rightarrow> bool" where
  "creation_outcome U request a r ts b \<longleftrightarrow>
     (case r of
        Inr out \<Rightarrow>
          if cro_created out
          then grown a (cro_record out) b \<and> admissible U request a (rec_reservation (cro_record out))
            \<and> rec_state (cro_record out) = WsReady \<and> receipt_of b (rec_id (cro_record out)) \<noteq> None
          else b = a \<and> cro_record out \<in> set (sp_workspaces a) \<and> rec_state (cro_record out) = WsReady
      | Inl e \<Rightarrow>
          b = a
          \<or> (\<exists>w. grown a w b \<and> admissible U request a (rec_reservation w)
                \<and> (list_ex refused_request ts
                   \<or> rec_state w = Error \<and> rec_last_error_code w = Some (uce_code e))))"

lemma creation_outcomeI:
  assumes end': "create_end S request r ts" and U: "sv_uuid S = U" and a: "spec_ok U a"
    and ts: "list_all (event_valid U) ts" "follows U J a ts b"
  shows "creation_outcome U request a r ts b"
proof -
  let ?P = "sv_platform S"
  have start': "creation_at U request a (PhPlanning no_create_facts) a" by (simp add: no_create_facts_def)
  note at = create_run[OF start' a ts(1) _ ts(2), where P = ?P]
  show ?thesis
  proof (cases r)
    case (Inl e)
    then obtain ph where ph: "advance U ?P request (PhPlanning no_create_facts) ts = Some ph" "ended e ph"
      using end' U by (auto simp: create_end_def created_end_def)
    note b = at[OF ph(1)]
    show ?thesis
    proof (cases ph)
      case PhRefused
      then have "list_ex refused_request ts" using unrecorded_refused[OF ph(1), of undefined] by simp
      moreover have "b = a \<or> (\<exists>w. grown a w b \<and> admissible U request a (rec_reservation w))"
        using b PhRefused by (auto intro: grown_reserved)
      ultimately show ?thesis using Inl by (auto simp: creation_outcome_def)
    next
      case (PhRecorded c recorded)
      then have "recorded \<or> list_ex refused_request ts"
        using unrecorded_refused[OF ph(1), of c] by (cases recorded) auto
      then show ?thesis using b ph(2) PhRecorded Inl by (auto simp: creation_outcome_def ended_def)
    qed (use b ph(2) Inl in \<open>auto simp: creation_outcome_def ended_def\<close>)
  next
    case (Inr out)
    show ?thesis
    proof (cases "cro_created out")
      case True
      then obtain w rc where "advance U ?P request (PhPlanning no_create_facts) ts = Some (PhDone w rc)"
        "cro_record out = w" using end' U Inr by (auto simp: create_end_def created_end_def)
      then show ?thesis using at True Inr by (auto simp: creation_outcome_def)
    next
      case False
      then obtain f s t active where "advance U ?P request (PhPlanning no_create_facts) ts = Some (PhPlanning f)"
        and split: "ts = s @ ReadWorkspaces (Ok active) # t"
        and found: "find (\<lambda>w. res_name (rec_reservation w) = cq_name request) active = Some (cro_record out)"
        and ready: "rec_state (cro_record out) = WsReady" "changes ts = []"
        using end' U Inr by (auto simp: create_end_def reused_def)
      obtain c where c: "follows U J a s c" "observes U J c (ReadWorkspaces (Ok active)) c"
        using ts(2) unfolding split follows_append by auto
      have "c = a" by (rule follows_unchanged[OF c(1)]) (use ready(2) split in simp)
      then have "set active = set (sp_workspaces a)" using c(2) by (auto dest: mset_eq_setD)
      moreover have "b = a" by (rule follows_unchanged[OF ts(2) ready(2)])
      ultimately show ?thesis using Inr False ready(1) find_Some_mem[OF found] by (simp add: creation_outcome_def)
    qed
  qed
qed

text \<open>What \<open>remove\<close> left.\<close>

definition removal_outcome ::
  "store_spec \<Rightarrow> use_case_error + remove_outcome \<Rightarrow> store_spec \<Rightarrow> bool" where
  "removal_outcome a r b \<longleftrightarrow>
     (case r of
        Inr out \<Rightarrow>
          (case ro_result out of
             RemovedNow \<Rightarrow> deleted_from a (ro_workspace_id out) b
           | AlreadyRemoved \<Rightarrow> b = a \<and> tombstoned a (ro_workspace_id out))
      | Inl e \<Rightarrow> \<exists>i. touched a i b)"

lemma removal_outcomeI:
  assumes end': "removal_end request (RmPlanning no_facts) r ts" and ts: "follows U J a ts b"
  shows "removal_outcome a r b"
proof -
  have start': "removal_at a (RmPlanning no_facts) a" by (simp add: no_facts_def)
  note at = removal_followed[OF start' _ ts]
  show ?thesis
  proof (cases r)
    case (Inl e)
    then obtain ph where ph: "removal_run request (RmPlanning no_facts) ts = Some ph" "removal_ended e ph"
      using end' by (auto simp: removal_end_def)
    then show ?thesis using at[OF ph(1)] Inl
      by (cases ph) (auto simp: removal_outcome_def removal_ended_def)
  next
    case (Inr out)
    then have "removal_run request (RmPlanning no_facts) ts = Some (RmDone (ro_workspace_id out) (ro_result out))"
      using end' by (simp add: removal_end_def)
    from at[OF this] show ?thesis using Inr by (simp add: removal_outcome_def)
  qed
qed

text \<open>A whole run on the SQLite adapter.\<close>

lemma sqlite_run:
  assumes "tracks (env_uuid E) (env_json E) (sqlite_view E) (sp_installation a) m anything"
    "sqlite_view E c a" "spec_ok (env_uuid E) a" "m (start p c) = (r, w)"
  obtains b where "list_all (event_valid (env_uuid E)) (w_trace w)"
    "follows (env_uuid E) (env_json E) a (w_trace w) b"
    "sqlite_view E (w_metadata w) b" "spec_ok (env_uuid E) b" "sp_installation b = sp_installation a"
    "db_kept (c_db c) (c_db (w_metadata w))"
proof -
  obtain b where b: "list_all (event_valid (env_uuid E)) (w_trace w)"
      "follows (env_uuid E) (env_json E) a (w_trace w) b" "sqlite_view E (w_metadata w) b"
    using sqlite_store.tracked_start[OF assms(1-3), of p] assms(4) by auto
  then show thesis
    using that[OF b] follows_store[OF b(2) assms(3) b(1)] follows_kept[OF b(2) assms(3) b(1) refl] assms(2)
    by (simp add: sqlite_view_def)
qed

lemma create_run_outcome:
  assumes S: "sv_uuid S = env_uuid E" "sv_metadata S = sqlite_port E" "typed_platform (env_uuid E) (sv_platform S)"
    and q: "create_request_valid request" and a: "sqlite_view E c a" "spec_ok (env_uuid E) a"
    and run: "create_impl S request clone copy (start p c) = (r, w)"
  shows "\<exists>b. sqlite_view E (w_metadata w) b \<and> spec_ok (env_uuid E) b \<and> sp_installation b = sp_installation a
    \<and> db_kept (c_db c) (c_db (w_metadata w)) \<and> creation_outcome (env_uuid E) request a r (w_trace w) b"
proof -
  have end': "create_end S request r (w_trace w)"
    using calls_start[OF create_calls, of S request clone copy p c] run by simp
  show ?thesis
    by (rule sqlite_run[OF sqlite_store.tracks_create[OF S(2,3) q] a run])
      (use creation_outcomeI[OF end' S(1) a(2)] in blast)
qed

lemma remove_run_outcome:
  assumes S: "sv_metadata S = sqlite_port E" and q: "remove_request_valid request"
    and a: "sqlite_view E c a" "spec_ok (env_uuid E) a"
    and run: "app_remove S request git process (start p c) = (r, w)"
  shows "\<exists>b. sqlite_view E (w_metadata w) b \<and> spec_ok (env_uuid E) b \<and> sp_installation b = sp_installation a
    \<and> db_kept (c_db c) (c_db (w_metadata w)) \<and> removal_outcome a r b"
proof -
  have end': "removal_end request (RmPlanning no_facts) r (w_trace w)"
    using calls_start[OF remove_calls[where S = S and request = request and git = git and process = process], of p c] run
    by simp
  show ?thesis
    by (rule sqlite_run[OF sqlite_store.tracks_remove[OF S q] a run]) (use removal_outcomeI[OF end'] in blast)
qed

text \<open>
  C2. What \<open>create\<close> leaves in the database.  On the tables of any well-formed store, whatever the
  platform and the materializers answer and whatever SQLite calls fail, a run leaves a
  well-formed store.  If it reports a new Workspace, the store has exactly one Workspace more:
  the reported one, Ready, with a receipt, of the requested name and target, which none of the
  Workspaces before it has, contains or lies in.  If it reports an existing one, the store is as
  before and has it.  If it fails, the store is as before or has one more Workspace, marked as
  failed with the code the run reports, unless a metadata request of the run was refused.
\<close>

theorem create_leaves:
  assumes "uuid_ok (env_uuid E)" "spec_ok (env_uuid E) a" "c_db c = encode E a"
    "sv_uuid S = env_uuid E" "sv_metadata S = sqlite_port E" "typed_platform (env_uuid E) (sv_platform S)"
    "create_request_valid request"
  shows "case create_impl S request clone copy (start p c) of
     (r, w) \<Rightarrow> \<exists>b. c_db (w_metadata w) = encode E b \<and> spec_ok (env_uuid E) b
       \<and> creation_outcome (env_uuid E) request a r (w_trace w) b"
proof -
  obtain r w where run: "create_impl S request clone copy (start p c) = (r, w)" by fastforce
  have "sqlite_view E c a" using assms(1,3) by (simp add: sqlite_view_def)
  from create_run_outcome[OF assms(4-7) this assms(2) run] show ?thesis
    by (auto simp: run sqlite_view_def)
qed

text \<open>
  C3. What \<open>remove\<close> leaves in the database.  On the tables of any well-formed store, whatever
  the adapters answer and whatever SQLite calls fail, a run leaves a well-formed store.  If it
  reports a removal, that Workspace was active and is now gone with its receipt, a tombstone of
  this installation stands for it, and nothing else changed.  If it reports an identifier removed
  before, the store is as before and has its tombstone.  If it fails, at most one Workspace is
  affected, and that is marked Deleting or Error or, when only the report of its removal failed,
  removed.
\<close>

theorem remove_leaves:
  assumes "uuid_ok (env_uuid E)" "spec_ok (env_uuid E) a" "c_db c = encode E a"
    "sv_metadata S = sqlite_port E" "remove_request_valid request"
  shows "case app_remove S request git process (start p c) of
     (r, w) \<Rightarrow> \<exists>b. c_db (w_metadata w) = encode E b \<and> spec_ok (env_uuid E) b \<and> removal_outcome a r b"
proof -
  obtain r w where run: "app_remove S request git process (start p c) = (r, w)" by fastforce
  have "sqlite_view E c a" using assms(1,3) by (simp add: sqlite_view_def)
  from remove_run_outcome[OF assms(4,5) this assms(2) run] show ?thesis
    by (auto simp: run sqlite_view_def)
qed

subsection \<open>Runs that issue no request\<close>

lemma start_trace: "changes (w_trace (start p c)) = []"
  by (simp add: start_def)

text \<open>A run of a reading use case leaves the stored Workspaces as they are.\<close>

lemma reading_run:
  assumes "tracks (env_uuid E) (env_json E) (sqlite_view E) (sp_installation a) m anything" "reading m"
    "sqlite_view E c a" "spec_ok (env_uuid E) a"
  shows "sqlite_view E (w_metadata (snd (m (start p c)))) a"
proof -
  obtain r w where run: "m (start p c) = (r, w)" by fastforce
  have quiet: "changes (w_trace w) = []"
    using readingD[OF assms(2), of "start p c"] by (simp add: run start_trace)
  obtain b where b: "follows (env_uuid E) (env_json E) a (w_trace w) b" "sqlite_view E (w_metadata w) b"
    using sqlite_run[OF assms(1,3,4) run] by blast
  show ?thesis using b(2) follows_unchanged[OF b(1) quiet] by (simp add: run)
qed

text \<open>Nor does \<open>init\<close> on a store that is there.\<close>

lemma init_run:
  assumes S: "sv_metadata S = sqlite_port E" and a: "sqlite_view E c a" "spec_ok (env_uuid E) a"
  shows "sqlite_view E (w_metadata (snd (app_init S q (start p c)))) a"
proof -
  obtain r w where run: "app_init S q (start p c) = (r, w)" by fastforce
  have unasked: "\<not> list_ex store_asked (w_trace w)"
    using calls_start[OF init_asks_nothing, of S q p c] by (simp add: run)
  obtain b where b: "follows (env_uuid E) (env_json E) a (w_trace w) b" "sqlite_view E (w_metadata w) b"
    using sqlite_run[OF sqlite_store.tracks_init[OF S] a run] by blast
  show ?thesis using b(2) follows_unasked[OF b(1) unasked] by (simp add: run)
qed

text \<open>On an empty file every use case but \<open>init\<close> leaves it empty.\<close>

lemma empty_run:
  assumes "\<And>inst. tracks U (env_json E) (blank_view E) inst m anything" "installation_valid U inst"
    "c_db c = empty_database"
  shows "c_db (w_metadata (snd (m (start p c)))) = empty_database"
proof -
  let ?a = "empty_store inst"
  have "blank_view E (w_metadata (start p c)) ?a" "spec_ok U ?a" "sp_installation ?a = inst"
    using assms(2,3) empty_store_ok by (simp_all add: blank_view_def start_def empty_store_def)
  then show ?thesis by (rule tracksE[OF assms(1)]) (simp add: blank_view_def)
qed

subsection \<open>Isolation\<close>

text \<open>No target contains another; no source or target overlaps the control root, and no source its target.\<close>

abbreviation rec_target :: "workspace_record \<Rightarrow> absolute_path" where
  "rec_target w \<equiv> res_target_path (rec_reservation w)"

definition isolated :: "store_spec \<Rightarrow> bool" where
  "isolated a \<longleftrightarrow>
     sorted_wrt (\<lambda>v w. \<not> paths_overlap (rec_target v) (rec_target w)) (sp_workspaces a)
     \<and> list_all (\<lambda>w. \<not> requested_paths_overlap (res_source_path (rec_reservation w)) (rec_target w)
          (ii_data_root (inst_identity (sp_installation a)))) (sp_workspaces a)"

lemma isolated_grown:
  assumes "isolated a" "grown a w b" "admissible U request a (rec_reservation w)"
  shows "isolated b"
proof -
  have "sp_workspaces b = sp_workspaces a @ [w]" "sp_installation b = sp_installation a"
    using assms(2) by (simp_all add: grown_def)
  moreover have "\<forall>v \<in> set (sp_workspaces a). \<not> paths_overlap (rec_target v) (rec_target w)"
    "\<not> requested_paths_overlap (res_source_path (rec_reservation w)) (rec_target w)
      (ii_data_root (inst_identity (sp_installation a)))"
    using assms(3) by (simp_all add: admissible_def list_all_iff)
  ultimately show ?thesis using assms(1)
    by (simp add: isolated_def sorted_wrt_append)
qed

lemma isolated_move: "isolated a \<Longrightarrow> isolated (move_workspace i st err t a)"
proof -
  have eq: "rec_reservation (if rec_id w = i then moved st err t w else w) = rec_reservation w" for w by simp
  show "isolated a \<Longrightarrow> isolated (move_workspace i st err t a)"
    by (simp only: isolated_def move_workspace_sel sorted_wrt_map eq list_all_map comp_def)
qed

lemma isolated_deleted:
  assumes "isolated a" "deleted_from a i b"
  shows "isolated b"
proof -
  have "sp_workspaces b = filter (\<lambda>w. rec_id w \<noteq> i) (sp_workspaces a)" "sp_installation b = sp_installation a"
    using assms(2) by (auto simp: deleted_from_def remove_workspace_def add_tombstone_def)
  then show ?thesis using assms(1)
    by (simp add: isolated_def sorted_wrt_filter list_all_iff)
qed

lemma isolated_touched: "isolated a \<Longrightarrow> touched a i b \<Longrightarrow> isolated b"
  using isolated_move isolated_deleted by (auto simp only: touched_def)

lemma isolated_created:
  assumes "isolated a" "creation_outcome U request a r ts b"
  shows "isolated b"
proof -
  have "b = a \<or> (\<exists>w. grown a w b \<and> admissible U request a (rec_reservation w))"
    using assms(2) unfolding creation_outcome_def by (cases r) (auto split: if_splits)
  then show ?thesis using assms(1) isolated_grown by blast
qed

lemma isolated_removed:
  assumes "isolated a" "removal_outcome a r b"
  shows "isolated b"
proof -
  have "b = a \<or> (\<exists>i. touched a i b)"
    using assms(2) unfolding removal_outcome_def by (cases r) (auto split: remove_result.splits)
  then show ?thesis using assms(1) isolated_touched by blast
qed

subsection \<open>Histories of runs\<close>

datatype 'p command =
    InitCommand init_request
  | CreateCommand create_request "'p materializer" "'p materializer option"
  | RemoveCommand remove_request "'p git_inspector" "'p process_probe"
  | PreviewCommand create_request
  | DoctorCommand
  | ListCommand
  | PathCommand string
  | StatusCommand string "'p git_inspector"

text \<open>A run has its own platform, in its own state, and its own timeouts.\<close>

record 'p invocation =
  iv_platform :: "'p platform"
  iv_state :: 'p
  iv_timeouts :: "nat \<times> nat"
  iv_command :: "'p command"

definition service_of :: "store_env \<Rightarrow> 'p invocation \<Rightarrow> ('p, conn) service" where
  "service_of E v =
     \<lparr>sv_uuid = env_uuid E, sv_platform = iv_platform v, sv_metadata = sqlite_port E,
      sv_lock_timeout = fst (iv_timeouts v), sv_sqlite_timeout = snd (iv_timeouts v)\<rparr>"

definition invoke :: "store_env \<Rightarrow> conn \<Rightarrow> 'p invocation \<Rightarrow> conn" where
  "invoke E c v =
     (let S = service_of E v; w = start (iv_state v) c in
      case iv_command v of
        InitCommand q \<Rightarrow> w_metadata (snd (app_init S q w))
      | CreateCommand q clone copy \<Rightarrow> w_metadata (snd (create_impl S q clone copy w))
      | RemoveCommand q git process \<Rightarrow> w_metadata (snd (app_remove S q git process w))
      | PreviewCommand q \<Rightarrow> w_metadata (snd (preview_create S q w))
      | DoctorCommand \<Rightarrow> w_metadata (snd (app_doctor S w))
      | ListCommand \<Rightarrow> w_metadata (snd (list_workspaces S w))
      | PathCommand name \<Rightarrow> w_metadata (snd (workspace_path S name w))
      | StatusCommand name git \<Rightarrow> w_metadata (snd (workspace_status S git name w)))"

definition invocation_typed :: "uuid_api \<Rightarrow> 'p invocation \<Rightarrow> bool" where
  "invocation_typed U v \<longleftrightarrow> typed_platform U (iv_platform v)
     \<and> (case iv_command v of
          InitCommand q \<Rightarrow> init_typed (iv_platform v) q
        | CreateCommand q clone copy \<Rightarrow> create_request_valid q
        | RemoveCommand q git process \<Rightarrow> remove_request_valid q
        | _ \<Rightarrow> True)"

text \<open>A file that is still empty, or one that stores Workspaces that do not meet.\<close>

definition stores_isolated :: "store_env \<Rightarrow> conn \<Rightarrow> bool" where
  "stores_isolated E c \<longleftrightarrow> (\<exists>a. sqlite_view E c a \<and> spec_ok (env_uuid E) a \<and> isolated a)"

definition system_inv :: "store_env \<Rightarrow> conn \<Rightarrow> bool" where
  "system_inv E c \<longleftrightarrow> uuid_ok (env_uuid E) \<and> (c_db c = empty_database \<or> stores_isolated E c)"

text \<open>Once there is an installation, nothing is lost.\<close>

definition installed_kept :: "database \<Rightarrow> database \<Rightarrow> bool" where
  "installed_kept d e \<longleftrightarrow> db_installation d = [] \<or> db_kept d e"

lemma installed_kept_refl: "installed_kept d d"
  by (simp add: installed_kept_def db_kept_refl)

lemma installed_kept_trans: "installed_kept c d \<Longrightarrow> installed_kept d e \<Longrightarrow> installed_kept c e"
  unfolding installed_kept_def by (metis db_kept_def db_kept_trans)

lemma service_of_sel [simp]:
  "sv_uuid (service_of E v) = env_uuid E" "sv_platform (service_of E v) = iv_platform v"
  "sv_metadata (service_of E v) = sqlite_port E"
  by (simp_all add: service_of_def)

lemma invoke_stored:
  assumes inv: "stores_isolated E c" and v: "invocation_typed (env_uuid E) v"
  shows "stores_isolated E (invoke E c v) \<and> db_kept (c_db c) (c_db (invoke E c v))"
proof -
  obtain a where a: "sqlite_view E c a" "spec_ok (env_uuid E) a" "isolated a"
    using inv by (auto simp: stores_isolated_def)
  let ?S = "service_of E v"
  note S = sqlite_store.inspections[OF service_of_sel(3)[of E v]]
  note reading = reading_run[OF tracks_reading(1)[OF S] reading_inspection(6) a(1,2)]
    reading_run[OF tracks_reading(2)[OF S] reading_queries(1) a(1,2)]
    reading_run[OF tracks_reading(3)[OF S] reading_queries(2) a(1,2)]
    reading_run[OF tracks_reading(4)[OF S] reading_queries(3) a(1,2)]
    reading_run[OF tracks_reading(5)[OF S] reading_preview a(1,2)] init_run[OF service_of_sel(3) a(1,2)]
  have unchanged: ?thesis if "sqlite_view E (invoke E c v) a"
    using that a by (auto simp: stores_isolated_def sqlite_view_def db_kept_refl)
  show ?thesis
  proof (cases "iv_command v")
    case (CreateCommand q clone copy)
    obtain r w where run: "create_impl ?S q clone copy (start (iv_state v) c) = (r, w)" by fastforce
    have "create_request_valid q" "typed_platform (env_uuid E) (sv_platform ?S)"
      using v CreateCommand by (simp_all add: invocation_typed_def)
    from create_run_outcome[OF service_of_sel(1,3) this(2,1) a(1,2) run]
    show ?thesis using a isolated_created[OF a(3)]
      by (auto simp: invoke_def CreateCommand run stores_isolated_def)
  next
    case (RemoveCommand q git process)
    obtain r w where run: "app_remove ?S q git process (start (iv_state v) c) = (r, w)" by fastforce
    have "remove_request_valid q" using v RemoveCommand by (simp add: invocation_typed_def)
    from remove_run_outcome[OF service_of_sel(3) this a(1,2) run]
    show ?thesis using a isolated_removed[OF a(3)]
      by (auto simp: invoke_def RemoveCommand run stores_isolated_def)
  qed (rule unchanged, simp add: invoke_def reading)+
qed

lemma isolated_empty: "isolated (empty_store inst)"
  by (simp add: isolated_def empty_store_def)

lemma fresh_stores_isolated:
  "\<lbrakk>uuid_ok (env_uuid E); fresh_store E c\<rbrakk> \<Longrightarrow> system_inv E c"
  unfolding fresh_store_def system_inv_def stores_isolated_def sqlite_view_def
  using empty_store_ok isolated_empty by blast

text \<open>A typed platform shows that an installation can be written down at all.\<close>

lemma some_installation: "typed_platform U P \<Longrightarrow> \<exists>inst. installation_valid U inst"
proof
  fix p assume "typed_platform U P"
  moreover have "valid_path (AbsolutePath ''/'')" by code_simp
  ultimately show "installation_valid U
      \<lparr>inst_identity = \<lparr>ii_instance_id = InstanceId (fst (new_uuid P p)), ii_data_root = AbsolutePath ''/'',
         ii_volume_id = VolumeId 0\<rparr>, inst_created_at = UnixMillis 0\<rparr>"
    by (simp add: typed_platform_def installation_valid_def valid_workspace_id_def valid_instance_id_def valid_millis_def)
qed

lemma invoke_empty:
  assumes U: "uuid_ok (env_uuid E)" and c: "c_db c = empty_database" and v: "invocation_typed (env_uuid E) v"
  shows "system_inv E (invoke E c v)"
proof -
  let ?S = "service_of E v"
  obtain inst where inst: "installation_valid (env_uuid E) inst"
    using some_installation v by (auto simp: invocation_typed_def)
  note S = service_of_sel(3)[of E v]
  note run = empty_run[OF _ inst c]
  note runs = run[OF tracks_reading(1)[OF empty_inspections[OF S]]] run[OF tracks_reading(2)[OF empty_inspections[OF S]]]
    run[OF tracks_reading(3)[OF empty_inspections[OF S]]] run[OF tracks_reading(4)[OF empty_inspections[OF S]]]
    run[OF tracks_reading(5)[OF empty_inspections[OF S]]] run[OF tracks_empty(1)[OF S]] run[OF tracks_empty(2)[OF S]]
  have still: ?thesis if "c_db (invoke E c v) = empty_database" using that U by (simp add: system_inv_def)
  show ?thesis
  proof (cases "iv_command v")
    case (InitCommand q)
    have "fresh_store E (w_metadata (snd (app_init ?S q (start (iv_state v) c))))"
      using first_init[OF S, of q] v InitCommand c by (simp add: invocation_typed_def moves_def start_def)
    then show ?thesis using fresh_stores_isolated[OF U] by (simp add: invoke_def InitCommand)
  qed (rule still, use runs in \<open>simp add: invoke_def\<close>)+
qed

lemma invoke_step:
  assumes "system_inv E c" "invocation_typed (env_uuid E) v"
  shows "system_inv E (invoke E c v)" "installed_kept (c_db c) (c_db (invoke E c v))"
proof -
  show "system_inv E (invoke E c v)"
    using assms invoke_empty[of E c v] invoke_stored[of E c v] by (auto simp: system_inv_def)
  show "installed_kept (c_db c) (c_db (invoke E c v))"
    using assms invoke_stored[of E c v] by (auto simp: system_inv_def installed_kept_def empty_database_def)
qed

interpretation application: guarded_machine "invoke E" "system_inv E"
  "\<lambda>c d. installed_kept (c_db c) (c_db d)" "invocation_typed (env_uuid E)" for E
  by unfold_locales (erule (1) invoke_step, rule installed_kept_refl, erule (1) installed_kept_trans,
      erule (1) invoke_step)

text \<open>The same on the tables.\<close>

definition row_target :: "workspace_row \<Rightarrow> absolute_path" where
  "row_target r = AbsolutePath (wr_target_path r)"

definition targets_isolated :: "database \<Rightarrow> bool" where
  "targets_isolated db =
     (sorted_wrt (\<lambda>r s. \<not> paths_overlap (row_target r) (row_target s)) (db_workspaces db)
      \<and> list_all (\<lambda>r. list_all (\<lambda>i. \<not> requested_paths_overlap (AbsolutePath (wr_source_path r)) (row_target r)
           (AbsolutePath (ir_control_root i))) (db_installation db)) (db_workspaces db))"

lemma isolated_encode: "isolated a \<Longrightarrow> targets_isolated (encode E a)"
  by (simp add: isolated_def targets_isolated_def row_target_def sorted_wrt_map comp_def installation_row_of_def)

lemma system_inv_tables:
  assumes "system_inv E c"
  shows "ready_rows_receipted (c_db c)" "identities_unique (c_db c)" "targets_isolated (c_db c)"
    "db_installation (c_db c) = [] \<Longrightarrow> c_db c = empty_database"
proof -
  consider "c_db c = empty_database" | a where "c_db c = encode E a" "spec_ok (env_uuid E) a" "isolated a" "uuid_ok (env_uuid E)"
    using assms by (auto simp: system_inv_def stores_isolated_def sqlite_view_def)
  then have "ready_rows_receipted (c_db c) \<and> identities_unique (c_db c) \<and> targets_isolated (c_db c)
      \<and> (db_installation (c_db c) = [] \<longrightarrow> c_db c = empty_database)"
  proof cases
    case 1
    then show ?thesis
      by (simp add: empty_database_def ready_rows_receipted_def identities_unique_def targets_isolated_def)
  next
    case 2
    then show ?thesis using encode_consistent[OF 2(4,2)] by (simp add: isolated_encode)
  qed
  then show "ready_rows_receipted (c_db c)" "identities_unique (c_db c)" "targets_isolated (c_db c)"
    "db_installation (c_db c) = [] \<Longrightarrow> c_db c = empty_database" by simp_all
qed

text \<open>
  C1. The database after any history of runs.  Start from an empty file or from the store of a
  fresh installation and run any sequence of init, create, remove, preview, doctor, list, path
  and status, each with its own platform, materializers and probes answering what they like and
  any SQLite calls failing.  Then a Ready Workspace has its receipt, identifiers, names and
  targets are unique across active and removed Workspaces, no target contains or lies in another
  target, and no source or target touches the control root.  From any moment of the history to
  any later one, unless the file was still empty, the installation is the same and nothing that
  was stored is gone without a tombstone.
\<close>

theorem histories_stay_isolated:
  assumes "uuid_ok (env_uuid E)" "installation_valid (env_uuid E) inst"
    "c_db c \<in> {empty_database, encode E (empty_store inst)}"
    "list_all (invocation_typed (env_uuid E)) (vs @ us)"
  shows "let db = c_db (run_accepted (invoke E) c vs); later = c_db (run_accepted (invoke E) c (vs @ us))
    in ready_rows_receipted later \<and> identities_unique later \<and> targets_isolated later
       \<and> (db = empty_database \<or> db_kept db later)"
proof -
  have "system_inv E c"
    by (rule fresh_stores_isolated[OF assms(1)]) (use assms(2,3) in \<open>auto simp: fresh_store_def\<close>)
  note inv = application.run_inv[OF this] and later = application.run_before_later[OF this assms(4)]
  have now: "system_inv E (run_accepted (invoke E) c vs)" by (rule inv) (use assms(4) in simp)
  show ?thesis
    using later system_inv_tables(1-3)[OF inv[OF assms(4)]] system_inv_tables(4)[OF now]
    by (auto simp: Let_def installed_kept_def)
qed

subsection \<open>A concrete system\<close>

text \<open>
  A platform that grants locks, knows the installation and reports a source \<open>/s\<close> and a control
  root \<open>/d\<close> on one volume, but declines every change of the file system.
\<close>

definition idle_path_report :: "absolute_path \<Rightarrow> path_capability_report" where
  "idle_path_report p =
     (let root = \<lparr>di_path = AbsolutePath ''/'', di_identity = \<lparr>device = 1, inode = 1\<rparr>\<rparr>;
          found = p \<in> {AbsolutePath ''/s'', AbsolutePath ''/d''} in
      (sample_path_report (path_bytes p))
        \<lparr>resolution := if found then ExistingDirectory else MissingTarget,
         nearest_existing_ancestor := if found then p else AbsolutePath ''/'',
         missing_components := if found then [] else [drop 1 (path_bytes p)],
         ancestry := root # (if found then [\<lparr>di_path = p,
            di_identity = \<lparr>device = 1, inode = of_nat (of_char (path_bytes p ! 1))\<rparr>\<rparr>] else [])\<rparr>)"

definition idle_report :: "path_probe_request \<Rightarrow> materialization_path_report" where
  "idle_report q =
     (sample_report Supported [])
       \<lparr>mpr_source := idle_path_report (pp_source q), mpr_target_root := idle_path_report (pp_target_root q),
        mpr_staging := idle_path_report (pp_staging q), mpr_trash := idle_path_report (pp_trash q)\<rparr>"

definition declined :: "string \<Rightarrow> (unit, 'a) port_call" where
  "declined oper p = (Err (port_error_new port_error_kind.Unavailable oper), p)"

definition granted :: "'a \<Rightarrow> (unit, 'a) port_call" where
  "granted x p = (Ok x, p)"

definition idle_platform :: "unit platform" where
  "idle_platform =
     \<lparr>acquire_bootstrap = (\<lambda>n. granted (LockGuard Bootstrap 0)),
      acquire_data_root = (\<lambda>root n. granted (LockGuard DataRoot 0)),
      lock_revalidate = (\<lambda>g. granted ()),
      root_path = (\<lambda>r. ii_data_root (inst_identity sample_installation)),
      root_volume_id = (\<lambda>r. VolumeId 5),
      layout_revalidate = (\<lambda>l. granted ()),
      prepared_target_root = (\<lambda>w. AbsolutePath ''/t''),
      prepared_staging_root = (\<lambda>w. AbsolutePath ''/.s''),
      prepared_trash_root = (\<lambda>w. AbsolutePath ''/.t''),
      prepared_target_identity = (\<lambda>w. \<lparr>device = 1, inode = 2\<rparr>),
      prepared_revalidate = (\<lambda>w. granted ()),
      prepare_bootstrap = declined ''prepare'',
      prepare_data_root = (\<lambda>p. declined ''prepare''),
      read_config = granted (Some (inst_identity sample_installation)),
      read_root_marker = (\<lambda>p. granted None),
      create_initializing = (\<lambda>g r i. declined ''initialize''),
      initialize_layout = (\<lambda>g i. declined ''initialize''),
      validate_layout = (\<lambda>i. granted (DataRootLayout 0)),
      prepare_workspace = (\<lambda>g l i p. declined ''prepare''),
      clear_workspace_incomplete = (\<lambda>g l w. declined ''clear''),
      validate_ready_workspace = (\<lambda>l v. declined ''validate''),
      measure_ready_workspace_space = (\<lambda>l v. declined ''measure''),
      inspect_removal_container = (\<lambda>g l v. declined ''inspect''),
      append_removal_log = (\<lambda>g l r. declined ''append''),
      remove_workspace_container = (\<lambda>g l v. declined ''remove''),
      publish_ready = (\<lambda>g i. declined ''publish''),
      publish_config = (\<lambda>g i. declined ''publish''),
      inspect_path = (\<lambda>p. granted (idle_path_report p)),
      inspect_materialization_paths = (\<lambda>q. granted (idle_report q)),
      new_uuid = (\<lambda>p. (sample_uuid, p))\<rparr>"

definition idle_materializer :: "unit materializer" where
  "idle_materializer =
     \<lparr>mz_kind = ApfsFileClone,
      mz_materialize = (\<lambda>q plan p. (Err \<lparr>mf_error = port_error_new port_error_kind.Unavailable ''copy'',
         mf_receipt = sample_receipt\<rparr>, p))\<rparr>"

definition sample_create :: create_request where
  "sample_create =
     \<lparr>cq_source = AbsolutePath ''/s'', cq_target = AbsolutePath ''/t'', cq_name = WorkspaceName ''demo'',
      cq_allow_full_copy = True, cq_now = UnixMillis 7\<rparr>"

definition create_invocation :: "unit invocation" where
  "create_invocation =
     \<lparr>iv_platform = idle_platform, iv_state = (), iv_timeouts = (5000, 5000),
      iv_command = CreateCommand sample_create idle_materializer None\<rparr>"

lemma idle_platform_typed: "typed_platform plain_uuid idle_platform"
  using sample_installation_valid
  by (simp add: typed_platform_def idle_platform_def granted_def valid_workspace_id_def sample_uuid_valid
      identity_valid_def installation_valid_def)

lemma sample_create_valid: "create_request_valid sample_create"
proof -
  have "valid_path (AbsolutePath ''/s'')" "valid_path (AbsolutePath ''/t'')"
    "valid_workspace_name (WorkspaceName ''demo'')" by code_simp+
  then show ?thesis by (simp add: create_request_valid_def sample_create_def valid_millis_def)
qed

lemma create_invocation_typed: "invocation_typed plain_uuid create_invocation"
  by (simp add: invocation_typed_def create_invocation_def idle_platform_typed sample_create_valid)

abbreviation sample_store :: store_spec where
  "sample_store \<equiv> empty_store sample_installation"

lemma sample_store_ok: "spec_ok plain_uuid sample_store" "c_db (sample_conn f) = encode (sample_env f) sample_store"
  by (simp_all add: empty_store_ok sample_installation_valid sample_conn_def)

lemma create_leaves_witness:
  "case create_impl (service_of (sample_env sample_faults) create_invocation) sample_create idle_materializer None
      (start () (sample_conn sample_faults)) of
     (r, w) \<Rightarrow> \<exists>b. c_db (w_metadata w) = encode (sample_env sample_faults) b \<and> spec_ok plain_uuid b
       \<and> creation_outcome plain_uuid sample_create sample_store r (w_trace w) b"
  using create_leaves[of "sample_env sample_faults" sample_store "sample_conn sample_faults"
      "service_of (sample_env sample_faults) create_invocation" sample_create idle_materializer None "()"]
  by (simp add: plain_uuid_ok sample_store_ok sample_create_valid create_invocation_def idle_platform_typed)

definition sample_remove :: remove_request where
  "sample_remove = \<lparr>rq_target = TargetName (WorkspaceName ''demo''), rq_mode = Force, rq_now = UnixMillis 9\<rparr>"

lemma remove_leaves_witness:
  "case app_remove (service_of (sample_env sample_faults) create_invocation) sample_remove
      (\<lambda>p. Pair (git_inspection_new Incomplete [] [])) (\<lambda>p. declined ''scan'')
      (start () \<lparr>c_db = encode (sample_env sample_faults) sample_deleting, c_journal = ''delete'', c_tick = 0\<rparr>) of
     (r, w) \<Rightarrow> \<exists>b. c_db (w_metadata w) = encode (sample_env sample_faults) b \<and> spec_ok plain_uuid b
       \<and> removal_outcome sample_deleting r b"
  using remove_leaves[of "sample_env sample_faults" sample_deleting
      "\<lparr>c_db = encode (sample_env sample_faults) sample_deleting, c_journal = ''delete'', c_tick = 0\<rparr>"
      "service_of (sample_env sample_faults) create_invocation" sample_remove
      "\<lambda>p. Pair (git_inspection_new Incomplete [] [])" "\<lambda>p. declined ''scan''" "()"]
  by (simp add: plain_uuid_ok sample_deleting_ok remove_request_valid_def sample_remove_def valid_millis_def)

definition init_invocation :: "unit invocation" where
  "init_invocation =
     \<lparr>iv_platform = idle_platform, iv_state = (), iv_timeouts = (5000, 5000),
      iv_command = InitCommand \<lparr>iq_data_root = AbsolutePath ''/d'', iq_now = UnixMillis 1\<rparr>\<rparr>"

lemma init_invocation_typed: "invocation_typed plain_uuid init_invocation"
  using sample_installation_valid idle_platform_typed
  by (simp add: invocation_typed_def init_invocation_def init_typed_def valid_millis_def idle_platform_def
      installation_valid_def)

lemma histories_stay_isolated_witness:
  "let E = sample_env sample_faults; c = \<lparr>c_db = empty_database, c_journal = ''delete'', c_tick = 0\<rparr>;
       d = run_accepted (invoke E) c [init_invocation];
       e = run_accepted (invoke E) c ([init_invocation] @ [create_invocation])
   in ready_rows_receipted (c_db e) \<and> identities_unique (c_db e) \<and> targets_isolated (c_db e)
      \<and> (c_db d = empty_database \<or> db_kept (c_db d) (c_db e))"
  using histories_stay_isolated[of "sample_env sample_faults" sample_installation
      "\<lparr>c_db = empty_database, c_journal = ''delete'', c_tick = 0\<rparr>" "[init_invocation]" "[create_invocation]"]
  by (simp add: plain_uuid_ok sample_installation_valid create_invocation_typed init_invocation_typed Let_def)

end
