(* ===== verification/Rust_Path.thy ===== *)
theory Rust_Path
  imports Prelude
begin

text \<open>
  What the adapters use of \<open>std::path\<close> on Unix.  A path is its \<open>components()\<close>: equality, order,
  \<open>starts_with\<close>, \<open>strip_prefix\<close>, \<open>parent\<close>, \<open>pop\<close> and \<open>file_name\<close> of the library are all
  defined on them, and the kernel resolves two spellings of the same components alike.
\<close>

subsection \<open>Components\<close>

datatype component = RootDir | CurDir | ParentDir | Normal bytes

type_synonym path = "component list"

text \<open>The derived order of the library: the kinds in this order, names as bytes.\<close>

fun component_rank :: "component \<Rightarrow> nat" where
  "component_rank RootDir = 0"
| "component_rank CurDir = 1"
| "component_rank ParentDir = 2"
| "component_rank (Normal n) = 3"

fun component_name :: "component \<Rightarrow> bytes" where
  "component_name RootDir = ''/''"
| "component_name CurDir = ''.''"
| "component_name ParentDir = ''..''"
| "component_name (Normal n) = n"

instantiation component :: linorder
begin

definition less_eq_component :: "component \<Rightarrow> component \<Rightarrow> bool" where
  "less_eq_component a b =
     (component_rank a < component_rank b
      \<or> component_rank a = component_rank b \<and> component_name a \<le> component_name b)"

definition less_component :: "component \<Rightarrow> component \<Rightarrow> bool" where
  "less_component a b =
     (component_rank a < component_rank b
      \<or> component_rank a = component_rank b \<and> component_name a < component_name b)"

lemma component_eqI:
  "\<lbrakk>component_rank a = component_rank b; component_name a = component_name b\<rbrakk> \<Longrightarrow> a = b"
  by (cases a; cases b) auto

instance
  by standard
    (auto simp: less_eq_component_def less_component_def intro: component_eqI)

end

definition piece_component :: "bytes \<Rightarrow> component" where
  "piece_component p = (if p = ''..'' then ParentDir else Normal p)"

text \<open>Repeated separators and \<open>.\<close> vanish, but for a leading \<open>.\<close> of a relative path.\<close>

definition pieces :: "bytes \<Rightarrow> path" where
  "pieces bs = map piece_component (filter (\<lambda>p. p \<noteq> [] \<and> p \<noteq> ''.'') (split_on (CHR ''/'') bs))"

definition path_of_bytes :: "bytes \<Rightarrow> path" where
  "path_of_bytes bs =
     (if bs \<noteq> [] \<and> hd bs = CHR ''/'' then RootDir # pieces bs
      else if hd (split_on (CHR ''/'') bs) = ''.'' then CurDir # pieces bs
      else pieces bs)"

subsection \<open>Operations\<close>

definition is_absolute :: "path \<Rightarrow> bool" where
  "is_absolute p = (p \<noteq> [] \<and> hd p = RootDir)"

text \<open>\<open>join\<close>: an absolute argument replaces the path; a leading \<open>.\<close> is only kept in front.\<close>

definition path_join :: "path \<Rightarrow> path \<Rightarrow> path" where
  "path_join p q =
     (if is_absolute q then q
      else if p = [] then q
      else p @ (if q \<noteq> [] \<and> hd q = CurDir then tl q else q))"

fun path_parent :: "path \<Rightarrow> path option" where
  "path_parent p = (if p = [] \<or> last p = RootDir then None else Some (butlast p))"

fun path_file_name :: "path \<Rightarrow> bytes option" where
  "path_file_name p = (if p = [] then None else case last p of Normal n \<Rightarrow> Some n | _ \<Rightarrow> None)"

definition path_starts_with :: "path \<Rightarrow> path \<Rightarrow> bool" where
  "path_starts_with p q = prefix q p"

fun is_normal :: "component \<Rightarrow> bool" where
  "is_normal (Normal n) = True"
| "is_normal _ = False"

lemma is_normal_iff: "is_normal c \<longleftrightarrow> (\<exists>n. c = Normal n)"
  by (cases c) auto

text \<open>How a path is spelled in a report or an argument.\<close>

definition path_spelling :: "path \<Rightarrow> bytes" where
  "path_spelling p =
     (case p of
        RootDir # cs \<Rightarrow> CHR ''/'' # join_with (CHR ''/'') (map component_name cs)
      | _ \<Rightarrow> join_with (CHR ''/'') (map component_name p))"

subsection \<open>Facts\<close>

lemma path_join_normal [simp]:
  "list_all is_normal q \<Longrightarrow> path_join p q = p @ q"
  by (cases q) (auto simp: path_join_def is_absolute_def is_normal_iff)

text \<open>A relative path of plain names.\<close>

definition plain_name :: "bytes \<Rightarrow> bool" where
  "plain_name n \<longleftrightarrow> n \<noteq> [] \<and> n \<noteq> ''.'' \<and> n \<noteq> ''..'' \<and> CHR ''/'' \<notin> set n"

lemma pieces_components:
  "c \<in> set (pieces bs) \<Longrightarrow> c = ParentDir \<or> (\<exists>n. c = Normal n \<and> plain_name n)"
  using split_on_pieces by (fastforce simp: pieces_def piece_component_def plain_name_def)

lemma path_of_spelling:
  assumes "list_all plain_name ns" "ns \<noteq> []"
  shows "path_of_bytes (path_spelling (map Normal ns)) = map Normal ns"
proof -
  obtain n ms where ns: "ns = n # ms" using assms(2) by (cases ns) auto
  have plain: "\<forall>p \<in> set ns. CHR ''/'' \<notin> set p \<and> p \<noteq> [] \<and> p \<noteq> ''.'' \<and> p \<noteq> ''..''"
    using assms(1) by (auto simp: list_all_iff plain_name_def)
  have spell: "path_spelling (map Normal ns) = join_with (CHR ''/'') ns"
    by (simp add: path_spelling_def ns comp_def)
  have split: "split_on (CHR ''/'') (join_with (CHR ''/'') ns) = ns"
    using plain assms(2) by (intro split_join_with) auto
  have "filter (\<lambda>p. p \<noteq> [] \<and> p \<noteq> ''.'') ns = ns" using plain by (simp add: filter_id_conv)
  moreover have "map piece_component ns = map Normal ns" using plain by (simp add: piece_component_def)
  moreover have "hd ns \<noteq> ''.''" "join_with (CHR ''/'') ns \<noteq> [] \<longrightarrow> hd (join_with (CHR ''/'') ns) \<noteq> CHR ''/''"
    using plain ns by (cases n; cases ms; auto)+
  ultimately show ?thesis by (auto simp: path_of_bytes_def spell split pieces_def)
qed

end
