(* ===== verification/Git_Text.thy ===== *)
theory Git_Text
  imports Git_Report Rust_Path
begin

text \<open>
  The pure part of the repository inspector
  (\<open>thinws-adapter-git-cli/src/git_query/inspect.rs\<close>): the texts of Git and of the repository
  it reads, and the decisions taken on them.
\<close>

subsection \<open>ASCII case\<close>

definition to_ascii_lowercase :: "char \<Rightarrow> char" where
  "to_ascii_lowercase c =
     (if CHR ''A'' \<le> c \<and> c \<le> CHR ''Z'' then char_of ((of_char c :: nat) + 32) else c)"

definition eq_ignore_ascii_case :: "bytes \<Rightarrow> bytes \<Rightarrow> bool" where
  "eq_ignore_ascii_case a b = (map to_ascii_lowercase a = map to_ascii_lowercase b)"

definition is_false :: "bytes \<Rightarrow> bool" where
  "is_false v =
     (eq_ignore_ascii_case v ''false'' \<or> eq_ignore_ascii_case v ''no'' \<or> v = ''0''
      \<or> eq_ignore_ascii_case v ''off'')"

definition is_true_word :: "bytes \<Rightarrow> bool" where
  "is_true_word v =
     (eq_ignore_ascii_case v ''true'' \<or> eq_ignore_ascii_case v ''yes'' \<or> eq_ignore_ascii_case v ''on''
      \<or> v = ''1'')"

definition environment_disables :: "bytes option \<Rightarrow> git_inspection_issue + bool" where
  "environment_disables value =
     (case value of
        None \<Rightarrow> Ok False
      | Some v \<Rightarrow>
          if v = [] \<or> is_false v then Ok False
          else if is_true_word v then Ok True
          else Err EnvironmentUnsupported)"

subsection \<open>Listed configuration\<close>

record config_entry =
  ce_key :: bytes
  ce_value :: bytes

definition rposition :: "('a \<Rightarrow> bool) \<Rightarrow> 'a list \<Rightarrow> nat option" where
  "rposition p xs = map_option (\<lambda>i. length xs - Suc i) (position p (rev xs))"

text \<open>The section and the variable of a key are case-insensitive, a subsection between them is not.\<close>

definition normalize_config_key :: "bytes \<Rightarrow> bytes" where
  "normalize_config_key key =
     (case (position (\<lambda>c. c = CHR ''.'') key, rposition (\<lambda>c. c = CHR ''.'') key) of
        (Some i, Some j) \<Rightarrow>
          if i \<noteq> j
          then map to_ascii_lowercase (take i key) @ drop i (take (Suc j) key)
            @ map to_ascii_lowercase (drop (Suc j) key)
          else map to_ascii_lowercase key
      | _ \<Rightarrow> map to_ascii_lowercase key)"

definition parse_config_record :: "bytes \<Rightarrow> git_inspection_issue + config_entry" where
  "parse_config_record r =
     (if r = [] then Err InvalidGitOutput
      else case position (\<lambda>c. c = CHR 0x0A) r of
        None \<Rightarrow> Err InvalidGitOutput
      | Some separator \<Rightarrow>
          if separator = 0 then Err InvalidGitOutput
          else Ok \<lparr>ce_key = normalize_config_key (take separator r), ce_value = drop (Suc separator) r\<rparr>)"

definition parse_config_output :: "bytes \<Rightarrow> git_inspection_issue + config_entry list" where
  "parse_config_output output =
     (if output = [] then Ok []
      else if last output \<noteq> NUL then Err InvalidGitOutput
      else collect_results (map parse_config_record (split_on NUL (butlast output))))"

definition strip_suffix :: "'a list \<Rightarrow> 'a list \<Rightarrow> 'a list option" where
  "strip_suffix s xs = (if suffix s xs then Some (take (length xs - length s) xs) else None)"

text \<open>The driver named by a \<open>filter.<driver>.<field>\<close> key; other filter keys are refused.\<close>

fun first_field :: "bytes list \<Rightarrow> bytes \<Rightarrow> bytes option" where
  "first_field [] k = None"
| "first_field (f # fs) k = (case strip_suffix f k of Some d \<Rightarrow> Some d | None \<Rightarrow> first_field fs k)"

definition filter_driver :: "bytes \<Rightarrow> git_inspection_issue + bytes option" where
  "filter_driver key =
     (case strip_prefix ''filter.'' key of
        None \<Rightarrow> Ok None
      | Some filter_key \<Rightarrow>
          (case first_field [''.clean'', ''.smudge'', ''.process'', ''.required''] filter_key of
             Some driver \<Rightarrow> if driver = [] then Err UnsupportedConfiguration else Ok (Some driver)
           | None \<Rightarrow> Err UnsupportedConfiguration))"

definition filter_drivers :: "config_entry list \<Rightarrow> git_inspection_issue + bytes list" where
  "filter_drivers entries =
     and_then (collect_results (map (\<lambda>e. filter_driver (ce_key e)) entries)) (\<lambda>ds.
       Ok (sorted_list_of_set (set (concat (map (\<lambda>d. case d of Some x \<Rightarrow> [x] | None \<Rightarrow> []) ds)))))"

definition known_core_key :: "bytes \<Rightarrow> bool" where
  "known_core_key key =
     (key \<in> {''core.attributesfile'', ''core.autocrlf'', ''core.bare'', ''core.checkstat'', ''core.eol'',
        ''core.excludesfile'', ''core.filemode'', ''core.fsmonitor'', ''core.hookspath'',
        ''core.ignorecase'', ''core.longpaths'', ''core.logallrefupdates'', ''core.precomposeunicode'',
        ''core.protecthfs'', ''core.protectntfs'', ''core.quotepath'', ''core.repositoryformatversion'',
        ''core.safecrlf'', ''core.sharedrepository'', ''core.sparsecheckout'',
        ''core.sparsecheckoutcone'', ''core.splitindex'', ''core.symlinks'', ''core.trustctime'',
        ''core.untrackedcache'', ''core.worktree''})"

definition redirecting_entry :: "config_entry \<Rightarrow> bool" where
  "redirecting_entry e =
     (let key = ce_key e; value = ce_value e in
      key = ''include.path'' \<or> prefix ''includeif.'' key \<or> key = ''core.hookspath''
      \<or> key = ''core.fsmonitor'' \<and> \<not> is_false value
      \<or> key = ''core.sparsecheckout'' \<and> \<not> is_false value
      \<or> key = ''core.sparsecheckoutcone'' \<and> \<not> is_false value
      \<or> suffix ''.promisor'' key \<and> \<not> is_false value
      \<or> suffix ''.partialclonefilter'' key \<and> value \<noteq> []
      \<or> key = ''core.bare'' \<and> \<not> is_false value
      \<or> prefix ''sparse.'' key)"

definition unknown_entry :: "config_entry \<Rightarrow> bool" where
  "unknown_entry e =
     (let key = ce_key e in
      prefix ''core.'' key \<and> \<not> known_core_key key
      \<or> prefix ''extensions.'' key \<and> key \<noteq> ''extensions.worktreeconfig''
      \<or> prefix ''index.'' key \<and> key \<noteq> ''index.version''
      \<or> prefix ''status.'' key \<and> key \<noteq> ''status.showuntrackedfiles'')"

fun validate_config_entries :: "config_entry list \<Rightarrow> git_inspection_issue + unit" where
  "validate_config_entries [] = Ok ()"
| "validate_config_entries (e # es) =
     and_then (filter_driver (ce_key e)) (\<lambda>d.
       if d \<noteq> None then validate_config_entries es
       else if redirecting_entry e then Err UnsupportedConfiguration
       else if unknown_entry e then Err UnsupportedConfiguration
       else validate_config_entries es)"

definition validate_gitmodules_config_entries :: "config_entry list \<Rightarrow> git_inspection_issue + unit" where
  "validate_gitmodules_config_entries entries =
     (if list_ex (\<lambda>e. prefix ''filter.'' (ce_key e)) entries then Err UnsupportedConfiguration
      else validate_config_entries entries)"

definition effective_config_bool :: "config_entry list \<Rightarrow> bytes \<Rightarrow> git_inspection_issue + bool" where
  "effective_config_bool entries key =
     (case find (\<lambda>e. ce_key e = key) (rev entries) of
        None \<Rightarrow> Ok False
      | Some e \<Rightarrow>
          if ce_value e = [] \<or> is_true_word (ce_value e) then Ok True
          else if is_false (ce_value e) then Ok False
          else Err UnsupportedConfiguration)"

subsection \<open>Attributes\<close>

text \<open>\<open>u8::is_ascii_whitespace\<close>: space, tab, line feed, form feed, carriage return.\<close>

definition is_ascii_whitespace :: "char \<Rightarrow> bool" where
  "is_ascii_whitespace c = (c \<in> {CHR '' '', CHR 0x09, CHR 0x0A, CHR 0x0C, CHR 0x0D})"

definition trim_ascii :: "bytes \<Rightarrow> bytes" where
  "trim_ascii v = rev (dropWhile is_ascii_whitespace (rev (dropWhile is_ascii_whitespace v)))"

text \<open>\<open>split(is_ascii_whitespace).filter(non-empty)\<close>.\<close>

fun split_by :: "('a \<Rightarrow> bool) \<Rightarrow> 'a list \<Rightarrow> 'a list list" where
  "split_by p [] = [[]]"
| "split_by p (x # xs) =
     (if p x then [] # split_by p xs
      else case split_by p xs of [] \<Rightarrow> [[x]] | q # qs \<Rightarrow> (x # q) # qs)"

definition attribute_name :: "bytes \<Rightarrow> bytes" where
  "attribute_name attribute =
     hd (split_on (CHR ''='')
       (case strip_prefix ''-'' attribute of
          Some rest \<Rightarrow> rest
        | None \<Rightarrow> (case strip_prefix ''!'' attribute of Some rest \<Rightarrow> rest | None \<Rightarrow> attribute)))"

definition line_sets_filter :: "bytes \<Rightarrow> bool" where
  "line_sets_filter raw =
     (let line = trim_ascii raw in
      line \<noteq> [] \<and> hd line \<noteq> CHR ''#''
      \<and> list_ex (\<lambda>a. attribute_name a = ''filter'')
          (drop 1 (filter (\<lambda>f. f \<noteq> []) (split_by is_ascii_whitespace line))))"

definition validate_attributes :: "bytes \<Rightarrow> git_inspection_issue + unit" where
  "validate_attributes contents =
     ensure (\<not> list_ex line_sets_filter (split_on (CHR 0x0A) contents)) UnsafeAttributes"

subsection \<open>Index flags\<close>

definition validate_index_record :: "bytes \<Rightarrow> git_inspection_issue + unit" where
  "validate_index_record r =
     (if r = [] then Err InvalidGitOutput
      else if length r < 3 \<or> r ! 1 \<noteq> CHR '' '' then Err InvalidGitOutput
      else if is_ascii_lowercase (r ! 0) \<or> r ! 0 = CHR ''S'' then Err HiddenIndexFlags
      else Ok ())"

fun validate_all :: "('a \<Rightarrow> 'e + unit) \<Rightarrow> 'a list \<Rightarrow> 'e + unit" where
  "validate_all f [] = Ok ()"
| "validate_all f (x # xs) = and_then (f x) (\<lambda>_. validate_all f xs)"

definition validate_index_flags_output :: "bytes \<Rightarrow> git_inspection_issue + unit" where
  "validate_index_flags_output output =
     (if output = [] then Ok ()
      else case strip_suffix [NUL] output of
        None \<Rightarrow> Err InvalidGitOutput
      | Some records \<Rightarrow> validate_all validate_index_record (split_on NUL records))"

subsection \<open>References inside the copy root\<close>

definition parse_single_reference :: "bytes \<Rightarrow> bytes \<Rightarrow> git_inspection_issue + bytes" where
  "parse_single_reference contents pre =
     (let line = (case strip_suffix [CHR 0x0A] contents of Some l \<Rightarrow> l | None \<Rightarrow> contents) in
      and_then (ok_or (strip_prefix pre line) UnsafeRepositoryMetadata) (\<lambda>value.
        if value = [] \<or> NUL \<in> set value \<or> CHR 0x0A \<in> set value \<or> CHR 0x0D \<in> set value
        then Err UnsafeRepositoryMetadata
        else Ok value))"

text \<open>\<open>strip_prefix\<close> of an absolute reference by the root, else the base followed by the reference.\<close>

definition reference_components :: "path \<Rightarrow> path \<Rightarrow> path \<Rightarrow> git_inspection_issue + path" where
  "reference_components copy_root base reference =
     (if is_absolute reference
      then ok_or (strip_prefix copy_root reference) ExternalRepositoryMetadata
      else Ok (base @ reference))"

text \<open>Lexical resolution: \<open>PathBuf\<close> grows by names only, so \<open>pop\<close> fails exactly when it is empty.\<close>

fun resolve_components :: "path \<Rightarrow> path \<Rightarrow> git_inspection_issue + path" where
  "resolve_components acc [] = Ok acc"
| "resolve_components acc (Normal n # cs) = resolve_components (acc @ [Normal n]) cs"
| "resolve_components acc (CurDir # cs) = resolve_components acc cs"
| "resolve_components acc (ParentDir # cs) =
     (if acc = [] then Err ExternalRepositoryMetadata else resolve_components (butlast acc) cs)"
| "resolve_components acc (RootDir # cs) = Err ExternalRepositoryMetadata"

definition normalize_internal_reference :: "path \<Rightarrow> path \<Rightarrow> bytes \<Rightarrow> git_inspection_issue + path" where
  "normalize_internal_reference copy_root base reference =
     and_then (reference_components copy_root base (path_of_bytes reference)) (resolve_components [])"

definition validate_symbolic_ref :: "bytes \<Rightarrow> git_inspection_issue + path" where
  "validate_symbolic_ref reference =
     (let p = path_of_bytes reference in
      if \<not> path_starts_with p [Normal ''refs''] \<or> \<not> list_all is_normal p
      then Err UnsafeRepositoryMetadata
      else Ok p)"

definition is_submodule_path :: "config_entry \<Rightarrow> bool" where
  "is_submodule_path e = (prefix ''submodule.'' (ce_key e) \<and> suffix ''.path'' (ce_key e))"

definition validate_submodule_path :: "path \<Rightarrow> path \<Rightarrow> config_entry \<Rightarrow> git_inspection_issue + unit" where
  "validate_submodule_path copy_root worktree e =
     (if is_submodule_path e
      then
        let p = path_of_bytes (ce_value e) in
        if is_absolute p \<or> \<not> list_all is_normal p then Err ExternalRepositoryMetadata
        else and_then (normalize_internal_reference copy_root worktree (ce_value e)) (\<lambda>_. Ok ())
      else Ok ())"

definition validate_gitmodules :: "path \<Rightarrow> path \<Rightarrow> config_entry list \<Rightarrow> git_inspection_issue + unit" where
  "validate_gitmodules copy_root worktree entries =
     validate_all (validate_submodule_path copy_root worktree) entries"

definition is_bounded_metadata_text :: "path \<Rightarrow> path \<Rightarrow> bool" where
  "is_bounded_metadata_text p metadata_root =
     ((case path_file_name p of
         Some n \<Rightarrow> n \<in> {''HEAD'', ''FETCH_HEAD'', ''ORIG_HEAD'', ''MERGE_HEAD'', ''CHERRY_PICK_HEAD'',
            ''REVERT_HEAD'', ''packed-refs'', ''commondir'', ''gitdir'', ''config'', ''config.worktree''}
       | None \<Rightarrow> False)
      \<or> (case strip_prefix metadata_root p of
           Some (c # cs) \<Rightarrow> component_name c = ''refs''
         | _ \<Rightarrow> False))"

definition is_strict_descendant :: "path \<Rightarrow> path \<Rightarrow> bool" where
  "is_strict_descendant candidate parent = (candidate \<noteq> parent \<and> path_starts_with candidate parent)"

text \<open>\<open>libexec/git-core\<close> on macOS, \<open>lib/git-core\<close> on Linux; the caller opens the directory.\<close>

definition runtime_exec_path :: "bool \<Rightarrow> bytes \<Rightarrow> git_inspection_issue + path" where
  "runtime_exec_path linux stdout =
     (let bs = (case strip_suffix [CHR 0x0A] stdout of Some l \<Rightarrow> l | None \<Rightarrow> stdout) in
      if bs = [] \<or> CHR 0x0A \<in> set bs \<or> NUL \<in> set bs then Err InvalidExecPath
      else
        let p = path_of_bytes bs; expected = (if linux then ''lib'' else ''libexec'') in
        if \<not> is_absolute p \<or> path_file_name p \<noteq> Some ''git-core''
           \<or> Option.bind (path_parent p) path_file_name \<noteq> Some expected
        then Err InvalidExecPath
        else Ok p)"

definition runtime_prefix_of :: "path \<Rightarrow> git_inspection_issue + path" where
  "runtime_prefix_of exec_path =
     ok_or (Option.bind (path_parent exec_path) path_parent) InvalidExecPath"

fun push_unique :: "git_inspection_issue list \<Rightarrow> git_inspection_issue \<Rightarrow> git_inspection_issue list" where
  "push_unique issues i = (if i \<in> set issues then issues else issues @ [i])"

subsection \<open>Terminated records\<close>

definition terminated :: "'a \<Rightarrow> 'a list list \<Rightarrow> 'a list" where
  "terminated t rs = concat (map (\<lambda>r. r @ [t]) rs)"

lemma terminated_join: "rs \<noteq> [] \<Longrightarrow> terminated t rs = join_with t rs @ [t]"
proof (induction rs)
  case (Cons r rs)
  then show ?case by (cases rs) (simp_all add: terminated_def)
qed simp

lemma split_on_terminated:
  assumes "out \<noteq> []" "last out = t"
  shows "split_on t (butlast out) = rs \<longleftrightarrow> rs \<noteq> [] \<and> out = terminated t rs \<and> (\<forall>r \<in> set rs. t \<notin> set r)"
proof
  assume rs: "split_on t (butlast out) = rs"
  then have ne: "rs \<noteq> []" using split_on_not_Nil by metis
  have "join_with t rs = butlast out" using join_split_on[of t "butlast out"] rs by simp
  then have "out = terminated t rs"
    using append_butlast_last_id[OF assms(1)] assms(2) by (simp add: terminated_join[OF ne])
  moreover have "\<forall>r \<in> set rs. t \<notin> set r" using split_on_pieces[of _ t "butlast out"] rs by blast
  ultimately show "rs \<noteq> [] \<and> out = terminated t rs \<and> (\<forall>r \<in> set rs. t \<notin> set r)" using ne by blast
next
  assume r: "rs \<noteq> [] \<and> out = terminated t rs \<and> (\<forall>r \<in> set rs. t \<notin> set r)"
  then have "butlast out = join_with t rs" by (simp add: terminated_join)
  then show "split_on t (butlast out) = rs" using r split_join_with[of rs t] by simp
qed

lemma last_terminated: "rs \<noteq> [] \<Longrightarrow> last (terminated t rs) = t \<and> terminated t rs \<noteq> []"
  by (simp add: terminated_join)

lemma strip_suffix_single:
  "strip_suffix [t] out = Some xs \<longleftrightarrow> out \<noteq> [] \<and> last out = t \<and> xs = butlast out"
proof -
  have "suffix [t] out \<longleftrightarrow> out \<noteq> [] \<and> last out = t"
    by (metis append_butlast_last_id last_snoc snoc_eq_iff_butlast suffix_def)
  then show ?thesis by (auto simp: strip_suffix_def butlast_conv_take)
qed

lemma validate_all_Ok: "validate_all f xs = Ok () \<longleftrightarrow> (\<forall>x \<in> set xs. f x = Ok ())"
  by (induction xs) (auto simp: result_simps)

subsection \<open>The index listing\<close>

text \<open>A listed entry: a flag that is neither lower case nor \<open>S\<close>, a blank, and a name.\<close>

definition plain_index_record :: "bytes \<Rightarrow> bool" where
  "plain_index_record r \<longleftrightarrow> (\<exists>flag name. r = flag # CHR '' '' # name \<and> name \<noteq> []
     \<and> \<not> is_ascii_lowercase flag \<and> flag \<noteq> CHR ''S'')"

lemma validate_index_record_Ok: "validate_index_record r = Ok () \<longleftrightarrow> plain_index_record r"
proof (cases "length r < 3")
  case True
  then show ?thesis
    by (auto simp: validate_index_record_def plain_index_record_def length_Suc_conv)
next
  case False
  then obtain a b c cs where r: "r = a # b # c # cs"
    by (metis Suc_le_length_iff not_less numeral_3_eq_3)
  show ?thesis unfolding r by (auto simp: validate_index_record_def plain_index_record_def)
qed

lemma validate_index_flags_output_Ok:
  "validate_index_flags_output output = Ok () \<longleftrightarrow>
     (\<exists>rs. output = terminated NUL rs \<and> (\<forall>r \<in> set rs. plain_index_record r \<and> NUL \<notin> set r))"
proof (cases "output = []")
  case True
  then have "output = terminated NUL []" by (simp add: terminated_def)
  then show ?thesis using True by (auto simp: validate_index_flags_output_def intro!: exI[of _ "[]"])
next
  case False
  show ?thesis
  proof
    assume ok: "validate_index_flags_output output = Ok ()"
    then have "strip_suffix [NUL] output \<noteq> None" using False by (cases "strip_suffix [NUL] output") (auto simp: validate_index_flags_output_def)
    then have last: "last output = NUL" by (auto simp: strip_suffix_single)
    define rs where "rs = split_on NUL (butlast output)"
    have "split_on NUL (butlast output) = rs" by (simp add: rs_def)
    then have "output = terminated NUL rs \<and> (\<forall>r \<in> set rs. NUL \<notin> set r)"
      using split_on_terminated[OF False last] by blast
    moreover have strip: "strip_suffix [NUL] output = Some (butlast output)"
      by (simp only: strip_suffix_single) (simp add: False last)
    then have "validate_all validate_index_record rs = Ok ()"
      using ok False unfolding validate_index_flags_output_def rs_def by simp
    then have "\<forall>r \<in> set rs. plain_index_record r"
      by (simp add: validate_all_Ok validate_index_record_Ok)
    ultimately show "\<exists>rs. output = terminated NUL rs \<and> (\<forall>r \<in> set rs. plain_index_record r \<and> NUL \<notin> set r)"
      by blast
  next
    assume "\<exists>rs. output = terminated NUL rs \<and> (\<forall>r \<in> set rs. plain_index_record r \<and> NUL \<notin> set r)"
    then obtain rs where rs: "output = terminated NUL rs" "\<forall>r \<in> set rs. plain_index_record r \<and> NUL \<notin> set r"
      by blast
    then have ne: "rs \<noteq> []" using False by (auto simp: terminated_def)
    then have last: "last output = NUL" using last_terminated[OF ne, of NUL] rs(1) by simp
    have "split_on NUL (butlast output) = rs" using split_on_terminated[OF False last] ne rs by blast
    moreover have "strip_suffix [NUL] output = Some (butlast output)"
      by (simp only: strip_suffix_single) (simp add: False last)
    ultimately show "validate_index_flags_output output = Ok ()"
      using False rs(2) by (simp add: validate_index_flags_output_def validate_all_Ok validate_index_record_Ok)
  qed
qed

text \<open>
  Index flags.  The listing of the index is accepted exactly when it is a sequence of
  NUL-terminated records, each a flag, a blank and a non-empty name, and no flag marks an entry as
  assume-unchanged (lower case) or skip-worktree (\<open>S\<close>); any other listing is refused, so a status
  query never runs on an index that hides changes.
\<close>

theorem index_listing_accepted:
  "validate_index_flags_output output = Ok () \<longleftrightarrow>
     (\<exists>rs. output = terminated NUL rs \<and> list_all (\<lambda>r. plain_index_record r \<and> NUL \<notin> set r) rs)"
  by (simp add: validate_index_flags_output_Ok list_all_iff)

subsection \<open>Listed configuration\<close>

text \<open>How \<open>git config --null --list\<close> prints entries: the key, a line feed, the value, NUL.\<close>

definition config_record :: "bytes \<times> bytes \<Rightarrow> bytes" where
  "config_record kv = fst kv @ CHR 0x0A # snd kv"

definition printable_entry :: "bytes \<times> bytes \<Rightarrow> bool" where
  "printable_entry kv \<longleftrightarrow> fst kv \<noteq> [] \<and> CHR 0x0A \<notin> set (fst kv) \<and> NUL \<notin> set (fst kv) \<and> NUL \<notin> set (snd kv)"

definition normalized_entry :: "bytes \<times> bytes \<Rightarrow> config_entry" where
  "normalized_entry kv = \<lparr>ce_key = normalize_config_key (fst kv), ce_value = snd kv\<rparr>"

lemma parse_config_record_Ok:
  assumes "NUL \<notin> set r"
  shows "parse_config_record r = Ok e \<longleftrightarrow> (\<exists>kv. printable_entry kv \<and> r = config_record kv \<and> e = normalized_entry kv)"
proof
  assume "parse_config_record r = Ok e"
  then obtain n where n: "position (\<lambda>c. c = CHR 0x0A) r = Some n" "n \<noteq> 0"
    and e: "e = normalized_entry (take n r, drop (Suc n) r)"
    by (auto simp: parse_config_record_def normalized_entry_def split: if_splits option.splits)
  have i: "n < length r" "r ! n = CHR 0x0A" "\<forall>j < n. r ! j \<noteq> CHR 0x0A"
    using n(1) by (simp_all add: position_Some_iff)
  then have "r = config_record (take n r, drop (Suc n) r)"
    using id_take_nth_drop[OF i(1)] by (simp add: config_record_def)
  moreover have "printable_entry (take n r, drop (Suc n) r)"
    using i n(2) assms by (auto simp: printable_entry_def in_set_conv_nth dest: in_set_takeD in_set_dropD)
  ultimately show "\<exists>kv. printable_entry kv \<and> r = config_record kv \<and> e = normalized_entry kv" using e by blast
next
  assume "\<exists>kv. printable_entry kv \<and> r = config_record kv \<and> e = normalized_entry kv"
  then obtain k v where kv: "printable_entry (k, v)" "r = k @ CHR 0x0A # v" "e = normalized_entry (k, v)"
    by (auto simp: config_record_def)
  then have "position (\<lambda>c. c = CHR 0x0A) r = Some (length k)"
    by (auto simp: printable_entry_def intro: position_append_hit)
  then show "parse_config_record r = Ok e" using kv
    by (simp add: parse_config_record_def printable_entry_def normalized_entry_def)
qed

text \<open>
  Listed configuration.  The listing of a configuration file is parsed to entries exactly when
  it is what Git prints for some list of keys and values, and the entries are those keys with
  section and variable in lower case and those values, in order; every other output is refused.
\<close>

theorem config_listing_roundtrip:
  "parse_config_output output = Ok es \<longleftrightarrow>
     (\<exists>kvs. list_all printable_entry kvs \<and> output = terminated NUL (map config_record kvs)
        \<and> es = map normalized_entry kvs)"
proof (cases "output = []")
  case True
  have "terminated NUL (map config_record kvs) = [] \<longleftrightarrow> kvs = []" for kvs
    by (cases kvs) (auto simp: terminated_def)
  then have "(\<exists>kvs. list_all printable_entry kvs \<and> [] = terminated NUL (map config_record kvs)
      \<and> es = map normalized_entry kvs) \<longleftrightarrow> es = []"
    by (metis list.map(1) list.pred_inject(1))
  then show ?thesis using True by (auto simp: parse_config_output_def)
next
  case False
  define rs where "rs = split_on NUL (butlast output)"
  have no: "\<forall>r \<in> set rs. NUL \<notin> set r" unfolding rs_def using split_on_pieces by fast
  have step: "collect_results (map parse_config_record rs) = Ok es \<longleftrightarrow>
      (\<exists>kvs. list_all printable_entry kvs \<and> rs = map config_record kvs \<and> es = map normalized_entry kvs)"
    using no
  proof (induction rs arbitrary: es)
    case (Cons r rs)
    note head = parse_config_record_Ok[of r]
    note rest = Cons.IH
    show ?case
    proof
      assume "collect_results (map parse_config_record (r # rs)) = Ok es"
      then obtain e es' where e: "parse_config_record r = Ok e" "es = e # es'"
        and es': "collect_results (map parse_config_record rs) = Ok es'"
        by (auto simp: and_then_eq_Ok simp del: collect_results_eq_Ok)
      obtain kv where kv: "printable_entry kv" "r = config_record kv" "e = normalized_entry kv"
        using head[of e] e(1) Cons.prems by auto
      obtain kvs where kvs: "list_all printable_entry kvs" "rs = map config_record kvs" "es' = map normalized_entry kvs"
        using rest[of es'] es' Cons.prems by auto
      show "\<exists>kvs. list_all printable_entry kvs \<and> r # rs = map config_record kvs \<and> es = map normalized_entry kvs"
        by (rule exI[of _ "kv # kvs"]) (simp add: kv kvs e(2))
    next
      assume "\<exists>kvs. list_all printable_entry kvs \<and> r # rs = map config_record kvs \<and> es = map normalized_entry kvs"
      then obtain kv kvs where kv: "printable_entry kv" "r = config_record kv" and kvs: "list_all printable_entry kvs"
        "rs = map config_record kvs" and es: "es = normalized_entry kv # map normalized_entry kvs"
        by (auto simp: Cons_eq_map_conv)
      have "parse_config_record r = Ok (normalized_entry kv)" using head[of "normalized_entry kv"] kv(1,2) Cons.prems by (metis list.set_intros(1))
      moreover have "collect_results (map parse_config_record rs) = Ok (map normalized_entry kvs)"
        using rest[of "map normalized_entry kvs"] kvs Cons.prems by auto
      ultimately show "collect_results (map parse_config_record (r # rs)) = Ok es" by (simp add: es del: map_map)
    qed
  qed auto
  show ?thesis
  proof
    assume ok: "parse_config_output output = Ok es"
    then have last: "last output = NUL" and "collect_results (map parse_config_record rs) = Ok es"
      using False by (auto simp: parse_config_output_def rs_def split: if_splits)
    then show "\<exists>kvs. list_all printable_entry kvs \<and> output = terminated NUL (map config_record kvs)
        \<and> es = map normalized_entry kvs"
      using step split_on_terminated[OF False last, of rs] rs_def by auto
  next
    assume "\<exists>kvs. list_all printable_entry kvs \<and> output = terminated NUL (map config_record kvs)
        \<and> es = map normalized_entry kvs"
    then obtain kvs where kvs: "list_all printable_entry kvs" "output = terminated NUL (map config_record kvs)"
      "es = map normalized_entry kvs" by blast
    then have ne: "map config_record kvs \<noteq> []" using False by (auto simp: terminated_def)
    have last: "last output = NUL" using kvs(2) last_terminated[OF ne] by simp
    have "\<forall>r \<in> set (map config_record kvs). NUL \<notin> set r"
      using kvs(1) by (auto simp: list_all_iff printable_entry_def config_record_def)
    then have "rs = map config_record kvs"
      using split_on_terminated[OF False last] ne kvs(2) rs_def by blast
    then have "collect_results (map parse_config_record rs) = Ok es" using step kvs by blast
    then show "parse_config_output output = Ok es" using False last by (simp add: parse_config_output_def rs_def)
  qed
qed

subsection \<open>Containment of references\<close>

text \<open>How far below the root a component sequence ends, names counting up and \<open>..\<close> down.\<close>

fun climb :: "component \<Rightarrow> int" where
  "climb (Normal n) = 1"
| "climb ParentDir = - 1"
| "climb _ = 0"

definition height :: "path \<Rightarrow> int" where
  "height cs = sum_list (map climb cs)"

definition stays_inside :: "path \<Rightarrow> bool" where
  "stays_inside cs \<longleftrightarrow> RootDir \<notin> set cs \<and> (\<forall>k \<le> length cs. 0 \<le> height (take k cs))"

lemma resolve_components_Ok:
  assumes "list_all is_normal acc"
  shows "(\<exists>p. resolve_components acc cs = Ok p) \<longleftrightarrow>
      RootDir \<notin> set cs \<and> (\<forall>k \<le> length cs. 0 \<le> int (length acc) + height (take k cs))"
    and "resolve_components acc cs = Ok p \<Longrightarrow>
      list_all is_normal p \<and> int (length p) = int (length acc) + height cs"
proof -
  have step: "(\<forall>k \<le> length (c # cs). 0 \<le> int (length xs) + height (take k (c # cs))) \<longleftrightarrow>
      (\<forall>k \<le> length cs. 0 \<le> (int (length xs) + climb c) + height (take k cs))" for xs :: path and c cs
  proof -
    have "(\<forall>k \<le> length (c # cs). P k) \<longleftrightarrow> P 0 \<and> (\<forall>k \<le> length cs. P (Suc k))" for P
      by (metis Suc_le_mono length_Cons not0_implies_Suc zero_le)
    then show ?thesis by (simp add: height_def add.assoc)
  qed
  show "(\<exists>p. resolve_components acc cs = Ok p) \<longleftrightarrow>
      RootDir \<notin> set cs \<and> (\<forall>k \<le> length cs. 0 \<le> int (length acc) + height (take k cs))"
    using assms
  proof (induction acc cs rule: resolve_components.induct)
    case (4 acc cs)
    show ?case
    proof (cases "acc = []")
      case True
      have "\<not> (0 \<le> int (length acc) + height (take 1 (ParentDir # cs)))" using True by (simp add: height_def)
      then show ?thesis using True by (auto intro!: exI[of _ 1])
    next
      case False
      then have "int (length (butlast acc)) = int (length acc) + climb ParentDir" by (cases acc) auto
      moreover have "list_all is_normal (butlast acc)"
        using 4(2) by (auto simp: list_all_iff dest: in_set_butlastD)
      ultimately show ?thesis using 4(1)[OF False] False by (simp only: step) simp
    qed
  qed (simp_all only: step, auto simp: height_def algebra_simps)
  show "resolve_components acc cs = Ok p \<Longrightarrow>
      list_all is_normal p \<and> int (length p) = int (length acc) + height cs"
    using assms
  proof (induction acc cs rule: resolve_components.induct)
    case (4 acc cs)
    then have ne: "acc \<noteq> []" by auto
    then have "int (length (butlast acc)) = int (length acc) - 1" by (cases acc) auto
    moreover have "list_all is_normal (butlast acc)"
      using 4(3) by (auto simp: list_all_iff dest: in_set_butlastD)
    ultimately show ?case using 4(1)[OF ne] 4(2) ne by (simp add: height_def)
  qed (auto simp: height_def)
qed

lemma resolve_components_normal:
  "list_all is_normal cs \<Longrightarrow> resolve_components acc cs = Ok (acc @ cs)"
  by (induction cs arbitrary: acc) (auto simp: is_normal_iff)

text \<open>
  C38. A repository cannot point outside the inspected copy.  A reference found in a repository
  (a \<open>.git\<close> file, \<open>commondir\<close>, \<open>core.worktree\<close>, a submodule path) resolves exactly when
  it is relative, or absolute below the copy root, and no prefix of its components climbs above the
  root; it then resolves to names only, as many as its components end below the root, and to
  exactly its components when it has no \<open>.\<close> or \<open>..\<close> at all.
\<close>

theorem references_stay_inside:
  "((\<exists>p. normalize_internal_reference root base reference = Ok p) \<longleftrightarrow>
      (\<exists>cs. reference_components root base (path_of_bytes reference) = Ok cs \<and> stays_inside cs))
   \<and> (\<forall>p cs. normalize_internal_reference root base reference = Ok p
        \<and> reference_components root base (path_of_bytes reference) = Ok cs \<longrightarrow>
          list_all is_normal p \<and> int (length p) = height cs \<and> (list_all is_normal cs \<longrightarrow> p = cs))"
proof (cases "reference_components root base (path_of_bytes reference)")
  case (Inl e)
  then show ?thesis by (simp add: normalize_internal_reference_def)
next
  case (Inr cs)
  then have eq: "normalize_internal_reference root base reference = resolve_components [] cs"
    by (simp add: normalize_internal_reference_def)
  have "(\<exists>p. resolve_components [] cs = Ok p) \<longleftrightarrow> stays_inside cs"
    using resolve_components_Ok(1)[of "[]" cs] by (simp add: stays_inside_def)
  moreover have "list_all is_normal p \<and> int (length p) = height cs" if "resolve_components [] cs = Ok p" for p
    using resolve_components_Ok(2)[of "[]" cs p] that by simp
  ultimately show ?thesis using resolve_components_normal[of cs "[]"] by (auto simp: eq Inr)
qed

lemma references_stay_inside_witness:
  "normalize_internal_reference [RootDir, Normal ''copy''] [Normal ''repo''] ''../store/.git/modules/x''
     = Ok [Normal ''store'', Normal ''.git'', Normal ''modules'', Normal ''x'']
   \<and> (\<forall>p. normalize_internal_reference [RootDir, Normal ''copy''] [Normal ''repo''] ''../../store'' \<noteq> Ok p)"
proof -
  have "normalize_internal_reference [RootDir, Normal ''copy''] [Normal ''repo''] ''../store/.git/modules/x''
      = Ok [Normal ''store'', Normal ''.git'', Normal ''modules'', Normal ''x'']" by code_simp
  moreover have "reference_components [RootDir, Normal ''copy''] [Normal ''repo''] (path_of_bytes ''../../store'')
      = Ok [Normal ''repo'', ParentDir, ParentDir, Normal ''store'']" by code_simp
  moreover have "\<not> stays_inside [Normal ''repo'', ParentDir, ParentDir, Normal ''store'']"
    by (auto simp: stays_inside_def height_def intro!: exI[of _ 3])
  ultimately show ?thesis
    using references_stay_inside[of "[RootDir, Normal ''copy'']" "[Normal ''repo'']" "''../../store''"] by auto
qed

end
