(* ===== verification/Git_Host.thy ===== *)
theory Git_Host
  imports Git_Text
begin

text \<open>
  What the inspector asks of the operating system and of the \<open>git\<close> executable, as a record of
  functions on the state of the host: the clock, no-follow file-system calls on descriptors, child
  processes and pipes.  Nothing is assumed of the answers; what a theorem needs of the clock is a
  hypothesis of its own.  A directory is listed by one call that answers a finite list.
\<close>

subsection \<open>Values\<close>

datatype errno = NOENT | INVAL | FBIG | STALE | IO | INTR | AGAIN | OtherErrno int

text \<open>The fields of \<open>stat\<close> that are read.\<close>

record file_stat =
  st_dev :: nat
  st_ino :: u64
  st_mode :: "32 word"
  st_uid :: nat
  st_size :: int
  st_mtime :: int
  st_mtime_nsec :: int

datatype file_type = DirectoryType | RegularType | SymlinkType | CharDeviceType | OtherType

text \<open>\<open>FileType::from_raw_mode\<close>.\<close>

definition file_type_of :: "32 word \<Rightarrow> file_type" where
  "file_type_of mode =
     (let kind = and mode 0xF000 in
      if kind = 0x4000 then DirectoryType
      else if kind = 0x8000 then RegularType
      else if kind = 0xA000 then SymlinkType
      else if kind = 0x2000 then CharDeviceType
      else OtherType)"

text \<open>\<open>Identity\<close>: what makes two observations the same object, unchanged.\<close>

record identity =
  id_device :: nat
  id_inode :: u64
  id_mode :: "32 word"
  id_size :: int
  id_modified_seconds :: int
  id_modified_nanoseconds :: int

definition identity_from_stat :: "file_stat \<Rightarrow> identity" where
  "identity_from_stat st =
     \<lparr>id_device = st_dev st, id_inode = st_ino st, id_mode = st_mode st, id_size = st_size st,
      id_modified_seconds = st_mtime st, id_modified_nanoseconds = st_mtime_nsec st\<rparr>"

definition identity_type :: "identity \<Rightarrow> file_type" where
  "identity_type i = file_type_of (id_mode i)"

type_synonym fd = nat
type_synonym child = nat

record io_error =
  ioe_kind :: io_error_kind
  ioe_raw :: "int option"

record git_command =
  cmd_cwd :: path
  cmd_env :: "(bytes \<times> bytes) list"
  cmd_args :: "bytes list"

type_synonym ('h, 'e, 'a) host_call = "'h \<Rightarrow> ('e + 'a) \<times> 'h"

record 'h git_host =
  h_linux :: bool
  h_env :: "bytes \<Rightarrow> bytes option"
  h_now :: "'h \<Rightarrow> nat \<times> 'h"
  h_sleep :: "nat \<Rightarrow> 'h \<Rightarrow> 'h"
  h_open_root :: "('h, errno, fd) host_call"
  h_open_dir :: "fd \<Rightarrow> bytes \<Rightarrow> ('h, errno, fd) host_call"
  h_open_file :: "fd \<Rightarrow> bytes \<Rightarrow> ('h, errno, fd) host_call"
  h_dup :: "fd \<Rightarrow> ('h, errno, fd) host_call"
  h_fstat :: "fd \<Rightarrow> ('h, errno, file_stat) host_call"
  h_statat :: "fd \<Rightarrow> bytes \<Rightarrow> ('h, errno, file_stat) host_call"
  h_list_dir :: "fd \<Rightarrow> ('h, errno, (errno + bytes) list) host_call"
  h_read :: "fd \<Rightarrow> nat \<Rightarrow> ('h, errno, bytes) host_call"
  h_lstat :: "path \<Rightarrow> ('h, errno, file_stat) host_call"
  h_read_link :: "path \<Rightarrow> ('h, errno, bytes) host_call"
  h_spawn :: "git_command \<Rightarrow> ('h, io_error, child) host_call"
  h_nonblocking :: "child \<Rightarrow> output_stream \<Rightarrow> ('h, io_error, unit) host_call"
  h_read_pipe :: "child \<Rightarrow> output_stream \<Rightarrow> nat \<Rightarrow> ('h, errno, bytes) host_call"
  h_pipe_error :: "errno \<Rightarrow> io_error"
  h_try_wait :: "child \<Rightarrow> ('h, io_error, git_exit option) host_call"
  h_kill :: "child \<Rightarrow> ('h, io_error, unit) host_call"

subsection \<open>Queries\<close>

datatype git_query = ExecPath | Config path | TrackedStatus "bytes list" | IndexFlags

record git_query_output =
  qo_exit :: git_exit
  qo_stdout :: bytes
  qo_stderr :: bytes

record git_query_failure =
  qf_kind :: git_query_failure_kind
  qf_stdout :: bytes
  qf_stderr :: bytes
  qf_child_exit :: direct_child_exit
  qf_cleanup_io :: "cleanup_io_failure option"

type_synonym query_result = "git_query_failure + git_query_output"

record preserved_environment =
  env_home :: "bytes option"
  env_xdg_config_home :: "bytes option"
  env_config_nosystem :: "bytes option"
  env_config_system :: "bytes option"
  env_config_global :: "bytes option"
  env_attr_nosystem :: "bytes option"

datatype query_environment = Isolated | Preserved preserved_environment

subsection \<open>Runs\<close>

text \<open>
  A run may not return (\<^const>\<open>None\<close>): the collector polls a child until a deadline of the host's
  clock.  Its state has the counter of scanned entries of \<open>CooperativeBudget\<close>, and the list of the
  queries made and of the revalidations decided on, each with its answer; no operation reads
  that list.
\<close>

datatype git_event =
  QueryRan path "path option" git_query query_result
| Revalidated path "git_inspection_issue + unit"

record 'h git_run =
  rn_host :: 'h
  rn_scanned :: nat
  rn_trace :: "git_event list"

type_synonym ('h, 'e, 'a) io = "'h git_run \<Rightarrow> (('e + 'a) \<times> 'h git_run) option"

definition io_return :: "'a \<Rightarrow> ('h, 'e, 'a) io" where
  "io_return x s = Some (Ok x, s)"

definition io_fail :: "'e \<Rightarrow> ('h, 'e, 'a) io" where
  "io_fail e s = Some (Err e, s)"

definition io_bind :: "('h, 'e, 'a) io \<Rightarrow> ('a \<Rightarrow> ('h, 'e, 'b) io) \<Rightarrow> ('h, 'e, 'b) io" where
  "io_bind m f s =
     (case m s of
        None \<Rightarrow> None
      | Some (Inl e, s') \<Rightarrow> Some (Inl e, s')
      | Some (Inr x, s') \<Rightarrow> f x s')"

definition io_lift :: "'e + 'a \<Rightarrow> ('h, 'e, 'a) io" where
  "io_lift r s = Some (r, s)"

definition io_call :: "('h, 'e, 'a) host_call \<Rightarrow> ('h, 'e, 'a) io" where
  "io_call c s = (case c (rn_host s) of (r, h) \<Rightarrow> Some (r, s\<lparr>rn_host := h\<rparr>))"

definition io_map_err :: "('d \<Rightarrow> 'e) \<Rightarrow> ('h, 'd, 'a) io \<Rightarrow> ('h, 'e, 'a) io" where
  "io_map_err g m s = map_option (\<lambda>(r, s'). (map_err g r, s')) (m s)"

text \<open>The result of a step as a value.\<close>

definition io_attempt :: "('h, 'd, 'a) io \<Rightarrow> ('h, 'e, 'd + 'a) io" where
  "io_attempt m s = map_option (\<lambda>(r, s'). (Ok r, s')) (m s)"

definition io_note :: "git_event \<Rightarrow> ('h, 'e, unit) io" where
  "io_note ev s = Some (Ok (), s\<lparr>rn_trace := rn_trace s @ [ev]\<rparr>)"

definition io_now :: "'h git_host \<Rightarrow> ('h, 'e, nat) io" where
  "io_now H s = (case h_now H (rn_host s) of (t, h) \<Rightarrow> Some (Ok t, s\<lparr>rn_host := h\<rparr>))"

fun io_each :: "('a \<Rightarrow> ('h, 'e, unit) io) \<Rightarrow> 'a list \<Rightarrow> ('h, 'e, unit) io" where
  "io_each f [] = io_return ()"
| "io_each f (x # xs) = io_bind (f x) (\<lambda>_. io_each f xs)"

text \<open>A call whose error only matters as one issue.\<close>

definition io_or :: "'e \<Rightarrow> ('h, 'd, 'a) host_call \<Rightarrow> ('h, 'e, 'a) io" where
  "io_or e c = io_map_err (\<lambda>_. e) (io_call c)"

end
