(* ===== verification/Git_Collector.thy ===== *)
theory Git_Collector
  imports Git_Host
begin

text \<open>
  Running one fixed Git query (\<open>thinws-adapter-git-cli/src/git_query.rs\<close>): the command line and
  its environment, the bounded collection of both pipes until the child has exited, and the
  cleanup of a child that is given up.
\<close>

subsection \<open>Budgets\<close>

text \<open>Durations and instants are nanoseconds.\<close>

record collect_budget =
  cb_run_timeout :: nat
  cb_cleanup_timeout :: nat
  cb_poll_interval :: nat
  cb_stdout_limit :: nat
  cb_stderr_limit :: nat

definition millis_of :: "nat \<Rightarrow> nat" where
  "millis_of n = n * 1000000"

definition PRODUCTION_BUDGET :: collect_budget where
  "PRODUCTION_BUDGET =
     \<lparr>cb_run_timeout = millis_of 5000, cb_cleanup_timeout = millis_of 500, cb_poll_interval = millis_of 5,
      cb_stdout_limit = 8 * 1024 * 1024, cb_stderr_limit = 256 * 1024\<rparr>"

definition MAX_DRAIN_READS :: nat where "MAX_DRAIN_READS = 16"

subsection \<open>The command\<close>

definition decimal_digit :: "nat \<Rightarrow> char" where
  "decimal_digit n = ''0123456789'' ! n"

fun decimal :: "nat \<Rightarrow> bytes" where
  "decimal n = (if n < 10 then [decimal_digit n] else decimal (n div 10) @ [decimal_digit (n mod 10)])"

declare decimal.simps [simp del]

definition BASE_CONFIG_COUNT :: nat where "BASE_CONFIG_COUNT = 4"

definition config_key_name :: "nat \<Rightarrow> bytes" where
  "config_key_name i = ''GIT_CONFIG_KEY_'' @ decimal i"

definition config_value_name :: "nat \<Rightarrow> bytes" where
  "config_value_name i = ''GIT_CONFIG_VALUE_'' @ decimal i"

definition base_environment :: "(bytes \<times> bytes) list" where
  "base_environment =
     [(''LC_ALL'', ''C''), (''LANG'', ''C''), (''GIT_OPTIONAL_LOCKS'', ''0''),
      (''GIT_TERMINAL_PROMPT'', ''0''), (''GCM_INTERACTIVE'', ''never''),
      (''GIT_ASKPASS'', ''/usr/bin/false''), (''SSH_ASKPASS'', ''/usr/bin/false''),
      (''GIT_EDITOR'', ''/usr/bin/false''), (''GIT_SEQUENCE_EDITOR'', ''/usr/bin/false''),
      (''GIT_PAGER'', ''cat''), (''PAGER'', ''cat''), (''PATH'', ''/usr/bin:/bin''),
      (''GIT_EXTERNAL_DIFF'', ''/usr/bin/false''),
      (''GIT_CONFIG_KEY_0'', ''core.fsmonitor''), (''GIT_CONFIG_VALUE_0'', ''false''),
      (''GIT_CONFIG_KEY_1'', ''core.hooksPath''), (''GIT_CONFIG_VALUE_1'', ''/dev/null''),
      (''GIT_CONFIG_KEY_2'', ''core.pager''), (''GIT_CONFIG_VALUE_2'', ''cat''),
      (''GIT_CONFIG_KEY_3'', ''color.ui''), (''GIT_CONFIG_VALUE_3'', ''false'')]"

text \<open>Three overrides per filter driver, numbered after the fixed ones.\<close>

definition filter_fields :: "(bytes \<times> bytes) list" where
  "filter_fields = [(''clean'', []), (''process'', []), (''required'', ''true'')]"

definition filter_environment :: "bytes list \<Rightarrow> (bytes \<times> bytes) list" where
  "filter_environment drivers =
     concat (map (\<lambda>(driver_index, driver).
       concat (map (\<lambda>(field_index, field, value).
         let index = BASE_CONFIG_COUNT + driver_index * 3 + field_index in
         [(config_key_name index, ''filter.'' @ driver @ ''.'' @ field), (config_value_name index, value)])
         (enumerate 0 filter_fields)))
       (enumerate 0 drivers))"

definition optional_env :: "bytes \<Rightarrow> bytes option \<Rightarrow> (bytes \<times> bytes) list" where
  "optional_env key value = (case value of Some v \<Rightarrow> [(key, v)] | None \<Rightarrow> [])"

fun environment_of :: "query_environment \<Rightarrow> (bytes \<times> bytes) list" where
  "environment_of Isolated =
     [(''GIT_CONFIG_NOSYSTEM'', ''1''), (''GIT_CONFIG_GLOBAL'', ''/dev/null''), (''GIT_ATTR_NOSYSTEM'', ''1'')]"
| "environment_of (Preserved e) =
     optional_env ''HOME'' (env_home e) @ optional_env ''XDG_CONFIG_HOME'' (env_xdg_config_home e)
     @ optional_env ''GIT_CONFIG_NOSYSTEM'' (env_config_nosystem e)
     @ optional_env ''GIT_CONFIG_SYSTEM'' (env_config_system e)
     @ optional_env ''GIT_CONFIG_GLOBAL'' (env_config_global e)
     @ optional_env ''GIT_ATTR_NOSYSTEM'' (env_attr_nosystem e)"

definition git_dir_argument :: "path \<Rightarrow> path option \<Rightarrow> bytes" where
  "git_dir_argument cwd prevalidated =
     ''--git-dir='' @ path_spelling (case prevalidated of Some d \<Rightarrow> d | None \<Rightarrow> path_join cwd [Normal ''.git''])"

fun query_arguments :: "path \<Rightarrow> path option \<Rightarrow> git_query \<Rightarrow> bytes list" where
  "query_arguments cwd prevalidated ExecPath = [''--exec-path'']"
| "query_arguments cwd prevalidated (Config file) =
     [''--git-dir=/dev/null'', ''config'', ''--file'', path_spelling file, ''--no-includes'', ''--null'', ''--list'']"
| "query_arguments cwd prevalidated (TrackedStatus drivers) =
     [git_dir_argument cwd prevalidated, ''-c'', ''core.filemode=true'', ''--no-optional-locks'', ''status'',
      ''--porcelain=v2'', ''-z'', ''--untracked-files=no'', ''--ignore-submodules=untracked'']"
| "query_arguments cwd prevalidated IndexFlags =
     [git_dir_argument cwd prevalidated, ''--no-optional-locks'', ''ls-files'', ''-v'', ''-z'']"

fun query_drivers :: "git_query \<Rightarrow> bytes list" where
  "query_drivers (TrackedStatus drivers) = drivers"
| "query_drivers _ = []"

definition git_command_for ::
  "path \<Rightarrow> git_query \<Rightarrow> query_environment \<Rightarrow> path option \<Rightarrow> git_command" where
  "git_command_for cwd query environment prevalidated =
     \<lparr>cmd_cwd = cwd,
      cmd_env = base_environment
        @ (''GIT_CONFIG_COUNT'', decimal (BASE_CONFIG_COUNT + length (query_drivers query) * 3))
        # filter_environment (query_drivers query) @ environment_of environment,
      cmd_args = query_arguments cwd prevalidated query\<rparr>"

subsection \<open>Reading a pipe\<close>

datatype drain_result = Open | Closed | LimitExceeded

text \<open>
  At most \<open>MAX_DRAIN_READS\<close> reads of the pipe: whether it is still there, and what was kept of
  its output.  The answer carries both, as the source changes them in place.
\<close>

fun drain_reads ::
  "'h git_host \<Rightarrow> child \<Rightarrow> output_stream \<Rightarrow> nat \<Rightarrow> nat \<Rightarrow> bool \<times> bytes \<Rightarrow> 'h
   \<Rightarrow> (errno + drain_result) \<times> (bool \<times> bytes) \<times> 'h" where
  "drain_reads H ch stream limit 0 (here, out) h = (Ok Open, (here, out), h)"
| "drain_reads H ch stream limit (Suc n) (here, out) h =
     (let remaining = limit - length out; read_length = min (remaining + 1) 8192 in
      if \<not> here then (Ok Closed, (here, out), h)
      else case h_read_pipe H ch stream read_length h of
        (Inr bs, h') \<Rightarrow>
          if bs = [] then (Ok Closed, (False, out), h')
          else
            let out' = out @ take remaining bs in
            if length bs > remaining then (Ok LimitExceeded, (here, out'), h')
            else drain_reads H ch stream limit n (here, out') h'
      | (Inl INTR, h') \<Rightarrow> drain_reads H ch stream limit n (here, out) h'
      | (Inl AGAIN, h') \<Rightarrow> (Ok Open, (here, out), h')
      | (Inl e, h') \<Rightarrow> (Err e, (here, out), h'))"

definition drain_pipe ::
  "'h git_host \<Rightarrow> child \<Rightarrow> output_stream \<Rightarrow> nat \<Rightarrow> bool \<times> bytes \<Rightarrow> 'h
   \<Rightarrow> (errno + drain_result) \<times> (bool \<times> bytes) \<times> 'h" where
  "drain_pipe H ch stream limit = drain_reads H ch stream limit MAX_DRAIN_READS"

subsection \<open>Giving a child up\<close>

definition retain_cleanup_io_error ::
  "cleanup_io_failure option \<Rightarrow> cleanup_operation \<Rightarrow> io_error \<Rightarrow> cleanup_io_failure option" where
  "retain_cleanup_io_error retained oper e =
     (case retained of
        None \<Rightarrow> Some \<lparr>operation = oper, error_kind = ioe_kind e, raw_os_error = ioe_raw e\<rparr>
      | Some f \<Rightarrow> Some f)"

definition classify_direct_child_exit :: "git_exit option \<Rightarrow> direct_child_exit" where
  "classify_direct_child_exit status =
     (case status of None \<Rightarrow> Unconfirmed | Some e \<Rightarrow> Confirmed e)"

type_synonym cleanup_evidence = "direct_child_exit \<times> cleanup_io_failure option"

text \<open>One poll after the kill: the evidence, or how long to sleep before the next.\<close>

definition confirm_poll ::
  "'h git_host \<Rightarrow> collect_budget \<Rightarrow> child \<Rightarrow> nat \<Rightarrow> cleanup_io_failure option \<Rightarrow> 'h
   \<Rightarrow> (cleanup_evidence + nat \<times> cleanup_io_failure option) \<times> 'h" where
  "confirm_poll H B ch deadline failed h =
     (case h_try_wait H ch h of
        (Inr (Some e), h1) \<Rightarrow> (Inl (Confirmed e, failed), h1)
      | (r, h1) \<Rightarrow>
          let failed' = (case r of Inl e \<Rightarrow> retain_cleanup_io_error failed ConfirmPoll e | Inr _ \<Rightarrow> failed) in
          (case h_now H h1 of
             (now, h2) \<Rightarrow>
               if deadline \<le> now then (Inl (classify_direct_child_exit None, failed'), h2)
               else (Inr (min (cb_poll_interval B) (deadline - now), failed'), h2)))"

partial_function (option) confirm_loop ::
  "'h git_host \<Rightarrow> collect_budget \<Rightarrow> child \<Rightarrow> nat \<Rightarrow> cleanup_io_failure option \<Rightarrow> 'h
   \<Rightarrow> (cleanup_evidence \<times> 'h) option" where
  "confirm_loop H B ch deadline failed h =
     (case confirm_poll H B ch deadline failed h of
        (Inl evidence, h1) \<Rightarrow> Some (evidence, h1)
      | (Inr (pause, failed'), h1) \<Rightarrow> confirm_loop H B ch deadline failed' (h_sleep H pause h1))"

definition kill_and_confirm ::
  "'h git_host \<Rightarrow> collect_budget \<Rightarrow> child \<Rightarrow> cleanup_io_failure option \<Rightarrow> 'h
   \<Rightarrow> (cleanup_evidence \<times> 'h) option" where
  "kill_and_confirm H B ch failed h =
     (case h_kill H ch h of
        (k, h1) \<Rightarrow>
          let failed' = (case k of Inl e \<Rightarrow> retain_cleanup_io_error failed Kill e | Inr _ \<Rightarrow> failed) in
          (case h_now H h1 of (now, h2) \<Rightarrow> confirm_loop H B ch (now + cb_cleanup_timeout B) failed' h2))"

definition cleanup_direct_child ::
  "'h git_host \<Rightarrow> collect_budget \<Rightarrow> child \<Rightarrow> git_exit option \<Rightarrow> 'h \<Rightarrow> (cleanup_evidence \<times> 'h) option" where
  "cleanup_direct_child H B ch status h =
     (case status of
        Some e \<Rightarrow> Some ((Confirmed e, None), h)
      | None \<Rightarrow>
          (case h_try_wait H ch h of
             (Inr (Some e), h1) \<Rightarrow> Some ((Confirmed e, None), h1)
           | (Inr None, h1) \<Rightarrow> kill_and_confirm H B ch None h1
           | (Inl e, h1) \<Rightarrow> kill_and_confirm H B ch (retain_cleanup_io_error None InitialPoll e) h1))"

text \<open>What was read so far, with the failure and the cleanup evidence.\<close>

definition fail_after_child ::
  "'h git_host \<Rightarrow> collect_budget \<Rightarrow> child \<Rightarrow> git_exit option \<Rightarrow> git_query_failure_kind
   \<Rightarrow> bytes \<Rightarrow> bytes \<Rightarrow> 'h \<Rightarrow> (query_result \<times> 'h) option" where
  "fail_after_child H B ch status kind out err h =
     map_option (\<lambda>((child_exit, cleanup), h').
       (Err \<lparr>qf_kind = kind, qf_stdout = out, qf_stderr = err, qf_child_exit = child_exit,
             qf_cleanup_io = cleanup\<rparr>, h'))
       (cleanup_direct_child H B ch status h)"

definition io_failure :: "io_operation \<Rightarrow> io_error \<Rightarrow> git_query_failure_kind" where
  "io_failure oper e = Io oper (ioe_kind e) (ioe_raw e)"

subsection \<open>Collection\<close>

text \<open>What the loop carries: the pipes still open, their output, the exit status seen.\<close>

record collection =
  co_stdout :: "bool \<times> bytes"
  co_stderr :: "bool \<times> bytes"
  co_status :: "git_exit option"

datatype poll_step =
  Collected git_query_output
| Abandon git_query_failure_kind
| PollAgain nat

definition limit_kind :: "output_stream \<Rightarrow> nat \<Rightarrow> git_query_failure_kind" where
  "limit_kind stream limit = OutputLimitExceeded stream limit"

definition poll_exit ::
  "'h git_host \<Rightarrow> child \<Rightarrow> git_exit option \<Rightarrow> 'h \<Rightarrow> (io_error + git_exit option) \<times> 'h" where
  "poll_exit H ch status h = (if status = None then h_try_wait H ch h else (Ok status, h))"

text \<open>The end of an iteration: the deadline, the result, or a pause.\<close>

definition poll_deadline ::
  "'h git_host \<Rightarrow> collect_budget \<Rightarrow> nat \<Rightarrow> collection \<Rightarrow> 'h \<Rightarrow> poll_step \<times> 'h" where
  "poll_deadline H B deadline c h =
     (case h_now H h of
        (now, h') \<Rightarrow>
          (if deadline \<le> now then (Abandon TimedOut, h')
           else case co_status c of
             Some e \<Rightarrow>
               if \<not> fst (co_stdout c) \<and> \<not> fst (co_stderr c)
               then (Collected \<lparr>qo_exit = e, qo_stdout = snd (co_stdout c), qo_stderr = snd (co_stderr c)\<rparr>, h')
               else (PollAgain (min (cb_poll_interval B) (deadline - now)), h')
           | None \<Rightarrow> (PollAgain (min (cb_poll_interval B) (deadline - now)), h')))"

definition poll_once ::
  "'h git_host \<Rightarrow> collect_budget \<Rightarrow> child \<Rightarrow> nat \<Rightarrow> collection \<Rightarrow> 'h
   \<Rightarrow> poll_step \<times> collection \<times> 'h" where
  "poll_once H B ch deadline c h =
     (case drain_pipe H ch Stdout (cb_stdout_limit B) (co_stdout c) h of
        (Inl e, out, h1) \<Rightarrow> (Abandon (io_failure ReadStdout (h_pipe_error H e)), c\<lparr>co_stdout := out\<rparr>, h1)
      | (Inr LimitExceeded, out, h1) \<Rightarrow>
          (Abandon (limit_kind Stdout (cb_stdout_limit B)), c\<lparr>co_stdout := out\<rparr>, h1)
      | (Inr _, out, h1) \<Rightarrow>
          let c1 = c\<lparr>co_stdout := out\<rparr> in
          (case drain_pipe H ch Stderr (cb_stderr_limit B) (co_stderr c1) h1 of
             (Inl e, err, h2) \<Rightarrow> (Abandon (io_failure ReadStderr (h_pipe_error H e)), c1\<lparr>co_stderr := err\<rparr>, h2)
           | (Inr LimitExceeded, err, h2) \<Rightarrow>
               (Abandon (limit_kind Stderr (cb_stderr_limit B)), c1\<lparr>co_stderr := err\<rparr>, h2)
           | (Inr _, err, h2) \<Rightarrow>
               let c2 = c1\<lparr>co_stderr := err\<rparr> in
               (case poll_exit H ch (co_status c2) h2 of
                  (Inl e, h3) \<Rightarrow> (Abandon (io_failure PollExit e), c2\<lparr>co_status := None\<rparr>, h3)
                | (Inr status, h3) \<Rightarrow>
                    let c3 = c2\<lparr>co_status := status\<rparr> in
                    (case poll_deadline H B deadline c3 h3 of (step, h4) \<Rightarrow> (step, c3, h4)))))"

partial_function (option) collect_loop ::
  "'h git_host \<Rightarrow> collect_budget \<Rightarrow> child \<Rightarrow> nat \<Rightarrow> collection \<Rightarrow> 'h \<Rightarrow> (query_result \<times> 'h) option" where
  "collect_loop H B ch deadline c h =
     (case poll_once H B ch deadline c h of
        (Collected output, c', h') \<Rightarrow> Some (Ok output, h')
      | (Abandon kind, c', h') \<Rightarrow>
          fail_after_child H B ch (co_status c') kind (snd (co_stdout c')) (snd (co_stderr c')) h'
      | (PollAgain pause, c', h') \<Rightarrow> collect_loop H B ch deadline c' (h_sleep H pause h'))"

definition no_output :: collection where
  "no_output = \<lparr>co_stdout = (True, []), co_stderr = (True, []), co_status = None\<rparr>"

definition unstarted :: "git_query_failure_kind \<Rightarrow> git_query_failure" where
  "unstarted kind =
     \<lparr>qf_kind = kind, qf_stdout = [], qf_stderr = [], qf_child_exit = NotStarted, qf_cleanup_io = None\<rparr>"

definition start_failure :: "io_error \<Rightarrow> git_query_failure" where
  "start_failure e = unstarted (Start (ioe_kind e) (ioe_raw e))"

definition input_failure :: "input_field \<Rightarrow> git_query_failure" where
  "input_failure field = unstarted (InvalidInput field)"

definition collect_command ::
  "'h git_host \<Rightarrow> git_command \<Rightarrow> collect_budget \<Rightarrow> 'h \<Rightarrow> (query_result \<times> 'h) option" where
  "collect_command H command B h =
     (case h_now H h of
        (started, h0) \<Rightarrow>
          (case h_spawn H command h0 of
             (Inl e, h1) \<Rightarrow> Some (Err (start_failure e), h1)
           | (Inr ch, h1) \<Rightarrow>
               (case h_nonblocking H ch Stdout h1 of
                  (Inl e, h2) \<Rightarrow> fail_after_child H B ch None (io_failure ConfigureStdout e) [] [] h2
                | (Inr _, h2) \<Rightarrow>
                    (case h_nonblocking H ch Stderr h2 of
                       (Inl e, h3) \<Rightarrow> fail_after_child H B ch None (io_failure ConfigureStderr e) [] [] h3
                     | (Inr _, h3) \<Rightarrow> collect_loop H B ch (started + cb_run_timeout B) no_output h3))))"

subsection \<open>The entries\<close>

definition validate_inputs ::
  "'h git_host \<Rightarrow> path \<Rightarrow> git_query \<Rightarrow> 'h \<Rightarrow> (git_query_failure + unit) \<times> 'h" where
  "validate_inputs H cwd query h =
     (if \<not> is_absolute cwd then (Err (input_failure Cwd), h)
      else case query of
        Config file \<Rightarrow>
          if \<not> is_absolute file then (Err (input_failure ConfigFile), h)
          else (case h_lstat H [RootDir, Normal ''dev'', Normal ''null''] h of
                  (Inl e, h') \<Rightarrow> (Err (input_failure ConfigIsolationDevice), h')
                | (Inr st, h') \<Rightarrow>
                    (if file_type_of (st_mode st) = CharDeviceType then (Ok (), h')
                     else (Err (input_failure ConfigIsolationDevice), h')))
      | _ \<Rightarrow> (Ok (), h))"

definition run_query ::
  "'h git_host \<Rightarrow> path \<Rightarrow> path option \<Rightarrow> git_query \<Rightarrow> query_environment \<Rightarrow> nat
   \<Rightarrow> 'h \<Rightarrow> (query_result \<times> 'h) option" where
  "run_query H cwd prevalidated query environment run_timeout h =
     (case validate_inputs H cwd query h of
        (Inl failure, h') \<Rightarrow> Some (Err failure, h')
      | (Inr _, h') \<Rightarrow>
          collect_command H (git_command_for cwd query environment prevalidated)
            (PRODUCTION_BUDGET\<lparr>cb_run_timeout := run_timeout\<rparr>) h')"

definition run_bootstrap ::
  "'h git_host \<Rightarrow> path \<Rightarrow> git_query \<Rightarrow> nat \<Rightarrow> 'h \<Rightarrow> (query_result \<times> 'h) option" where
  "run_bootstrap H cwd query = run_query H cwd None query Isolated"

definition run_prevalidated_repository ::
  "'h git_host \<Rightarrow> path \<Rightarrow> path \<Rightarrow> git_query \<Rightarrow> preserved_environment \<Rightarrow> nat
   \<Rightarrow> 'h \<Rightarrow> (query_result \<times> 'h) option" where
  "run_prevalidated_repository H cwd git_dir query environment =
     run_query H cwd (Some git_dir) query (Preserved environment)"

end
