(* ===== verification/Git_Files.thy ===== *)
theory Git_Files
  imports Git_Collector
begin

text \<open>
  The cooperative budget and the no-follow file access of the inspector
  (\<open>git_query/inspect.rs\<close>): directories are opened component by component, a file is read with
  its identity before and after, and evidence is revalidated by reading again.
\<close>

subsection \<open>The budget\<close>

record inspection_limits =
  il_total_timeout :: nat
  il_max_scan_entries :: nat
  il_max_repositories :: nat
  il_max_depth :: nat
  il_max_text_bytes :: nat

definition QUERY_TIMEOUT :: nat where "QUERY_TIMEOUT = millis_of 5000"
definition MAX_TEXT_BYTES :: nat where "MAX_TEXT_BYTES = 1024 * 1024"

definition production_limits :: inspection_limits where
  "production_limits =
     \<lparr>il_total_timeout = millis_of 60000, il_max_scan_entries = 100000, il_max_repositories = 256,
      il_max_depth = 128, il_max_text_bytes = MAX_TEXT_BYTES\<rparr>"

text \<open>The deadline is fixed when the inspection starts; the scanned entries are state of the run.\<close>

record inspection_budget =
  ib_deadline :: nat
  ib_limits :: inspection_limits

definition budget_new :: "'h git_host \<Rightarrow> inspection_limits \<Rightarrow> ('h, git_inspection_issue, inspection_budget) io" where
  "budget_new H limits =
     io_bind (io_now H) (\<lambda>now. io_return \<lparr>ib_deadline = now + il_total_timeout limits, ib_limits = limits\<rparr>)"

definition query_timeout :: "'h git_host \<Rightarrow> inspection_budget \<Rightarrow> ('h, 'e, nat option) io" where
  "query_timeout H B =
     io_bind (io_now H) (\<lambda>now.
       io_return
         (if ib_deadline B < now then None
          else
            let remaining = min (ib_deadline B - now) QUERY_TIMEOUT in
            if remaining = 0 then None else Some remaining))"

definition expired :: "'h git_host \<Rightarrow> inspection_budget \<Rightarrow> ('h, 'e, bool) io" where
  "expired H B = io_bind (io_now H) (\<lambda>now. io_return (ib_deadline B \<le> now))"

definition ensure_remaining :: "'h git_host \<Rightarrow> inspection_budget \<Rightarrow> ('h, git_inspection_issue, unit) io" where
  "ensure_remaining H B = io_bind (expired H B) (\<lambda>late. if late then io_fail BudgetExpired else io_return ())"

definition consume_scan_entry :: "inspection_budget \<Rightarrow> ('h, git_inspection_issue, unit) io" where
  "consume_scan_entry B s =
     (let s' = s\<lparr>rn_scanned := Suc (rn_scanned s)\<rparr> in
      if il_max_scan_entries (ib_limits B) < rn_scanned s' then Some (Err ScanLimitReached, s')
      else Some (Ok (), s'))"

subsection \<open>Directories\<close>

fun open_components :: "'h git_host \<Rightarrow> fd \<Rightarrow> path \<Rightarrow> ('h, errno, fd) io" where
  "open_components H d [] = io_return d"
| "open_components H d (Normal n # cs) = io_bind (io_call (h_open_dir H d n)) (\<lambda>d'. open_components H d' cs)"
| "open_components H d (c # cs) = io_fail INVAL"

definition open_absolute_directory :: "'h git_host \<Rightarrow> path \<Rightarrow> ('h, errno, fd) io" where
  "open_absolute_directory H p =
     (if \<not> is_absolute p then io_fail INVAL
      else io_bind (io_call (h_open_root H)) (\<lambda>d. open_components H d (tl p)))"

definition open_relative_directory :: "'h git_host \<Rightarrow> fd \<Rightarrow> path \<Rightarrow> ('h, errno, fd) io" where
  "open_relative_directory H root relative =
     io_bind (io_call (h_dup H root)) (\<lambda>d. open_components H d relative)"

definition identity_of :: "'h git_host \<Rightarrow> fd \<Rightarrow> ('h, errno, identity) io" where
  "identity_of H d = io_bind (io_call (h_fstat H d)) (\<lambda>st. io_return (identity_from_stat st))"

subsection \<open>Files\<close>

record file_evidence =
  fe_path :: path
  fe_identity :: identity

record read_evidence =
  re_evidence :: file_evidence
  re_contents :: bytes

definition split_relative_file_raw :: "path \<Rightarrow> errno + path \<times> bytes" where
  "split_relative_file_raw relative =
     (if is_absolute relative \<or> \<not> list_all is_normal relative then Err INVAL
      else and_then (ok_or (path_file_name relative) INVAL) (\<lambda>name.
        Ok ((case path_parent relative of Some p \<Rightarrow> p | None \<Rightarrow> []), name)))"

definition is_normal_absolute :: "path \<Rightarrow> bool" where
  "is_normal_absolute p = (is_absolute p \<and> list_all is_normal (tl p))"

definition split_absolute_file :: "path \<Rightarrow> git_inspection_issue + path \<times> bytes" where
  "split_absolute_file p =
     (if \<not> is_normal_absolute p then Err EnvironmentUnsupported
      else and_then (ok_or (path_file_name p) EnvironmentUnsupported) (\<lambda>name.
        and_then (ok_or (path_parent p) EnvironmentUnsupported) (\<lambda>parent. Ok (parent, name))))"

text \<open>The file must be regular, small enough, and the same before and after it was read.\<close>

definition read_open_file :: "'h git_host \<Rightarrow> fd \<Rightarrow> path \<Rightarrow> nat \<Rightarrow> ('h, errno, read_evidence) io" where
  "read_open_file H d p limit =
     io_bind (identity_of H d) (\<lambda>before.
       if identity_type before \<noteq> RegularType then io_fail FBIG
       else if id_size before < 0 then io_fail FBIG
       else if int limit < id_size before then io_fail FBIG
       else
         io_bind (io_call (h_read H d (limit + 1))) (\<lambda>contents.
           if limit < length contents then io_fail FBIG
           else
             io_bind (identity_of H d) (\<lambda>after.
               if before \<noteq> after then io_fail STALE
               else io_return
                 \<lparr>re_evidence = \<lparr>fe_path = p, fe_identity = before\<rparr>, re_contents = contents\<rparr>)))"

text \<open>An optional file that is missing is \<open>None\<close>; every other error is one issue.\<close>

definition optional_found ::
  "bool \<Rightarrow> git_inspection_issue \<Rightarrow> errno + 'a \<Rightarrow> ('a \<Rightarrow> ('h, git_inspection_issue, 'b option) io)
   \<Rightarrow> ('h, git_inspection_issue, 'b option) io" where
  "optional_found required issue r f =
     (case r of
        Inr x \<Rightarrow> f x
      | Inl e \<Rightarrow> if e = NOENT \<and> \<not> required then io_return None else io_fail issue)"

definition read_root_file ::
  "'h git_host \<Rightarrow> path \<Rightarrow> fd \<Rightarrow> path \<Rightarrow> nat \<Rightarrow> bool
   \<Rightarrow> ('h, git_inspection_issue, read_evidence option) io" where
  "read_root_file H copy_root root relative limit required =
     io_bind (io_lift (map_err (\<lambda>_. UnsafeRepositoryMetadata) (split_relative_file_raw relative))) (\<lambda>(parent, name).
     io_bind (io_attempt (open_relative_directory H root parent)) (\<lambda>r.
       optional_found required UnsafeRepositoryMetadata r (\<lambda>parent_fd.
       io_bind (io_attempt (io_call (h_open_file H parent_fd name))) (\<lambda>q.
         optional_found required UnsafeRepositoryMetadata q (\<lambda>d.
         io_bind (io_map_err (\<lambda>_. UnsafeRepositoryMetadata)
                    (read_open_file H d (path_join copy_root relative) limit)) (\<lambda>read.
           io_return (Some read)))))))"

definition read_absolute_file ::
  "'h git_host \<Rightarrow> path \<Rightarrow> nat \<Rightarrow> bool \<Rightarrow> ('h, git_inspection_issue, read_evidence option) io" where
  "read_absolute_file H p limit required =
     io_bind (io_lift (split_absolute_file p)) (\<lambda>(parent, name).
     io_bind (io_attempt (open_absolute_directory H parent)) (\<lambda>r.
       optional_found required EnvironmentUnsupported r (\<lambda>parent_fd.
       io_bind (io_attempt (io_call (h_open_file H parent_fd name))) (\<lambda>q.
         optional_found required EnvironmentUnsupported q (\<lambda>d.
         io_bind (io_map_err (\<lambda>_. EnvironmentUnsupported) (read_open_file H d p limit)) (\<lambda>read.
           io_return (Some read)))))))"

definition stat_relative :: "'h git_host \<Rightarrow> fd \<Rightarrow> path \<Rightarrow> ('h, errno, identity option) io" where
  "stat_relative H root relative =
     io_bind (io_lift (split_relative_file_raw relative)) (\<lambda>(parent, name).
     io_bind (io_attempt (open_relative_directory H root parent)) (\<lambda>r.
       case r of
         Inl e \<Rightarrow> if e = NOENT then io_return None else io_fail e
       | Inr parent_fd \<Rightarrow>
           io_bind (io_attempt (io_call (h_statat H parent_fd name))) (\<lambda>q.
             case q of
               Inr st \<Rightarrow> io_return (Some (identity_from_stat st))
             | Inl e \<Rightarrow> if e = NOENT then io_return None else io_fail e)))"

definition stat_absolute_nofollow ::
  "'h git_host \<Rightarrow> path \<Rightarrow> ('h, git_inspection_issue, identity option) io" where
  "stat_absolute_nofollow H p =
     io_bind (io_lift (split_absolute_file p)) (\<lambda>(parent, name).
     io_bind (io_attempt (open_absolute_directory H parent)) (\<lambda>r.
       optional_found False UnsafeRepositoryMetadata r (\<lambda>parent_fd.
       io_bind (io_attempt (io_call (h_statat H parent_fd name))) (\<lambda>q.
         optional_found False UnsafeRepositoryMetadata q (\<lambda>st.
           io_return (Some (identity_from_stat st)))))))"

subsection \<open>Revalidation\<close>

definition revalidate_evidence :: "'h git_host \<Rightarrow> file_evidence \<Rightarrow> ('h, 'e, bool) io" where
  "revalidate_evidence H item =
     io_bind (io_attempt (read_absolute_file H (fe_path item) MAX_TEXT_BYTES True)) (\<lambda>r.
       io_return (case r of
          Inr (Some read) \<Rightarrow> fe_identity (re_evidence read) = fe_identity item
        | _ \<Rightarrow> False))"

definition revalidate_identity :: "'h git_host \<Rightarrow> path \<Rightarrow> identity \<Rightarrow> ('h, 'e, bool) io" where
  "revalidate_identity H p expected =
     io_bind (io_attempt (io_bind (open_absolute_directory H p) (identity_of H))) (\<lambda>r.
       io_return (case r of Inr i \<Rightarrow> i = expected | Inl _ \<Rightarrow> False))"

definition revalidate_file_evidence ::
  "'h git_host \<Rightarrow> inspection_budget \<Rightarrow> file_evidence list \<Rightarrow> ('h, git_inspection_issue, unit) io" where
  "revalidate_file_evidence H B evidence =
     io_bind (ensure_remaining H B) (\<lambda>_.
     io_bind (io_each (\<lambda>item.
        io_bind (ensure_remaining H B) (\<lambda>_.
        io_bind (revalidate_evidence H item) (\<lambda>same.
          if same then io_return () else io_fail EvidenceChanged))) evidence) (\<lambda>_.
       ensure_remaining H B))"

end
