(* ===== verification/Git_Discovery.thy ===== *)
theory Git_Discovery
  imports Git_Files
begin

text \<open>
  Bounded, no-follow discovery of the repositories of a copy (\<open>discover\<close> in
  \<open>git_query/inspect.rs\<close>): a walk over directories that stops at a time, entry, repository or depth
  limit and says so.
\<close>

subsection \<open>The walk\<close>

record pending_directory =
  pd_relative :: path
  pd_fd :: fd
  pd_depth :: nat

text \<open>The stack of the walk, its top first, and what was found.\<close>

record walk =
  wk_pending :: "pending_directory list"
  wk_candidates :: "path list"
  wk_attributes :: "path list"
  wk_completeness :: discovery_completeness
  wk_issues :: "git_inspection_issue list"

definition walk_flag :: "git_inspection_issue \<Rightarrow> walk \<Rightarrow> walk" where
  "walk_flag i w = w\<lparr>wk_completeness := Incomplete, wk_issues := push_unique (wk_issues w) i\<rparr>"

text \<open>Giving the walk up: nothing is pending any more.\<close>

definition walk_stop :: "git_inspection_issue \<Rightarrow> walk \<Rightarrow> walk" where
  "walk_stop i w = (walk_flag i w)\<lparr>wk_pending := []\<rparr>"

definition note_candidate :: "inspection_budget \<Rightarrow> path \<Rightarrow> file_type \<Rightarrow> walk \<Rightarrow> walk" where
  "note_candidate B relative kind w =
     (if kind = DirectoryType \<or> kind = RegularType
      then
        if length (wk_candidates w) = il_max_repositories (ib_limits B) then walk_flag RepositoryLimitReached w
        else w\<lparr>wk_candidates := wk_candidates w @ [relative]\<rparr>
      else walk_flag UnsafeRepositoryMetadata w)"

definition enter_directory ::
  "'h git_host \<Rightarrow> inspection_budget \<Rightarrow> pending_directory \<Rightarrow> bytes \<Rightarrow> path \<Rightarrow> walk
   \<Rightarrow> ('h, 'e, walk) io" where
  "enter_directory H B d name relative w =
     (if pd_depth d = il_max_depth (ib_limits B) then io_return (walk_flag DepthLimitReached w)
      else
        io_bind (io_attempt (io_call (h_open_dir H (pd_fd d) name))) (\<lambda>r.
          io_return (case r of
             Inr sub \<Rightarrow>
               w\<lparr>wk_pending := \<lparr>pd_relative = relative, pd_fd = sub, pd_depth = pd_depth d + 1\<rparr> # wk_pending w\<rparr>
           | Inl _ \<Rightarrow> walk_flag ScanFailed w)))"

text \<open>An entry whose status is known.\<close>

definition visit_entry ::
  "'h git_host \<Rightarrow> inspection_budget \<Rightarrow> pending_directory \<Rightarrow> bytes \<Rightarrow> file_type \<Rightarrow> walk
   \<Rightarrow> ('h, 'e, walk) io" where
  "visit_entry H B d name kind w =
     (let relative = path_join (pd_relative d) [Normal name] in
      if name = ''.git'' then io_return (note_candidate B (pd_relative d) kind w)
      else
        let w' = (if name = ''.gitattributes'' \<and> kind = RegularType
                  then w\<lparr>wk_attributes := wk_attributes w @ [relative]\<rparr> else w) in
        if kind = DirectoryType then enter_directory H B d name relative w' else io_return w')"

fun scan_entries ::
  "'h git_host \<Rightarrow> inspection_budget \<Rightarrow> pending_directory \<Rightarrow> (errno + bytes) list \<Rightarrow> walk
   \<Rightarrow> ('h, git_inspection_issue, walk) io" where
  "scan_entries H B d [] w = io_return w"
| "scan_entries H B d (entry # entries) w =
     io_bind (expired H B) (\<lambda>late.
       if late then io_return (walk_stop BudgetExpired w)
       else case entry of
         Inl _ \<Rightarrow> scan_entries H B d entries (walk_flag ScanFailed w)
       | Inr name \<Rightarrow>
           if name = ''.'' \<or> name = ''..'' then scan_entries H B d entries w
           else
             io_bind (io_attempt (consume_scan_entry B)) (\<lambda>counted.
               case counted of
                 Inl _ \<Rightarrow> io_return (walk_stop ScanLimitReached w)
               | Inr _ \<Rightarrow>
                   io_bind (io_attempt (io_call (h_statat H (pd_fd d) name))) (\<lambda>r.
                     case r of
                       Inl _ \<Rightarrow> scan_entries H B d entries (walk_flag ScanFailed w)
                     | Inr st \<Rightarrow>
                         io_bind (visit_entry H B d name (file_type_of (st_mode st)) w) (\<lambda>w'.
                           scan_entries H B d entries w'))))"

definition scan_directory ::
  "'h git_host \<Rightarrow> inspection_budget \<Rightarrow> pending_directory \<Rightarrow> walk \<Rightarrow> ('h, git_inspection_issue, walk) io" where
  "scan_directory H B d w =
     io_bind (expired H B) (\<lambda>late.
       if late then io_return (walk_stop BudgetExpired w)
       else
         io_bind (io_attempt (io_call (h_list_dir H (pd_fd d)))) (\<lambda>r.
           case r of
             Inl _ \<Rightarrow> io_return (walk_flag ScanFailed w)
           | Inr entries \<Rightarrow> scan_entries H B d entries w))"

partial_function (option) walk_loop ::
  "'h git_host \<Rightarrow> inspection_budget \<Rightarrow> walk \<Rightarrow> ('h, git_inspection_issue, walk) io" where
  "walk_loop H B w s =
     (case wk_pending w of
        [] \<Rightarrow> Some (Ok w, s)
      | d # rest \<Rightarrow>
          (case scan_directory H B d (w\<lparr>wk_pending := rest\<rparr>) s of
             None \<Rightarrow> None
           | Some (Inl e, s') \<Rightarrow> Some (Inl e, s')
           | Some (Inr w', s') \<Rightarrow> walk_loop H B w' s'))"

subsection \<open>Discovery\<close>

record discovery =
  dc_root_fd :: fd
  dc_root_identity :: identity
  dc_candidates :: "path list"
  dc_attribute_files :: "path list"
  dc_completeness :: discovery_completeness
  dc_issues :: "git_inspection_issue list"

definition discover ::
  "'h git_host \<Rightarrow> inspection_budget \<Rightarrow> path \<Rightarrow> ('h, git_inspection_issue, discovery) io" where
  "discover H B copy_root =
     io_bind (io_map_err (\<lambda>_. InvalidCopyRoot) (open_absolute_directory H copy_root)) (\<lambda>root.
     io_bind (io_map_err (\<lambda>_. InvalidCopyRoot) (identity_of H root)) (\<lambda>root_identity.
       if identity_type root_identity \<noteq> DirectoryType then io_fail InvalidCopyRoot
       else
         io_bind (io_or ScanFailed (h_dup H root)) (\<lambda>d.
         io_bind (walk_loop H B
             \<lparr>wk_pending = [\<lparr>pd_relative = [], pd_fd = d, pd_depth = 0\<rparr>], wk_candidates = [],
              wk_attributes = [], wk_completeness = Complete, wk_issues = []\<rparr>) (\<lambda>w.
           io_return
             \<lparr>dc_root_fd = root, dc_root_identity = root_identity,
              dc_candidates = sorted_list_of_set (set (wk_candidates w)),
              dc_attribute_files = wk_attributes w, dc_completeness = wk_completeness w,
              dc_issues = wk_issues w\<rparr>))))"

end
