(* ===== verification/Git_Preflight.thy ===== *)
theory Git_Preflight
  imports Git_Discovery
begin

text \<open>
  What must be known before any Git query depends on a repository (\<open>preflight_sources\<close> and
  \<open>preflight_repository\<close> in \<open>git_query/inspect.rs\<close>): the configuration and attribute sources of the
  user and the system, and of one repository its metadata, references, configuration, worktree
  correspondence, submodules and attributes, with the identities they are revalidated by.
\<close>

subsection \<open>Queries\<close>

definition io_query ::
  "'h git_host \<Rightarrow> path \<Rightarrow> path option \<Rightarrow> git_query \<Rightarrow> query_environment \<Rightarrow> nat
   \<Rightarrow> ('h, 'e, query_result) io" where
  "io_query H cwd prevalidated query environment timeout s =
     map_option (\<lambda>(r, h). (Ok r, s\<lparr>rn_host := h,
         rn_trace := rn_trace s @ [QueryRan cwd prevalidated query r]\<rparr>))
       (run_query H cwd prevalidated query environment timeout (rn_host s))"

definition map_query_result :: "query_result \<Rightarrow> git_inspection_issue + git_query_output" where
  "map_query_result r =
     (case r of
        Inr out \<Rightarrow> if git_exit_success (qo_exit out) then Ok out else Err (QueryNonZeroExit (qo_exit out))
      | Inl f \<Rightarrow> Err (QueryFailed (qf_kind f) (qf_child_exit f) (qf_cleanup_io f)))"

definition run_mapped ::
  "'h git_host \<Rightarrow> path \<Rightarrow> path option \<Rightarrow> git_query \<Rightarrow> query_environment \<Rightarrow> nat
   \<Rightarrow> ('h, git_inspection_issue, git_query_output) io" where
  "run_mapped H cwd prevalidated query environment timeout =
     io_bind (io_query H cwd prevalidated query environment timeout) (\<lambda>r. io_lift (map_query_result r))"

definition required_timeout :: "'h git_host \<Rightarrow> inspection_budget \<Rightarrow> ('h, git_inspection_issue, nat) io" where
  "required_timeout H B = io_bind (query_timeout H B) (\<lambda>t. io_lift (ok_or t BudgetExpired))"

definition parse_config_file ::
  "'h git_host \<Rightarrow> inspection_budget \<Rightarrow> path \<Rightarrow> path \<Rightarrow> ('h, git_inspection_issue, config_entry list) io" where
  "parse_config_file H B cwd file =
     io_bind (required_timeout H B) (\<lambda>timeout.
     io_bind (run_mapped H cwd None (Config file) Isolated timeout) (\<lambda>out.
       if il_max_text_bytes (ib_limits B) < length (qo_stdout out) then io_fail InvalidGitOutput
       else io_lift (parse_config_output (qo_stdout out))))"

subsection \<open>The environment of the user\<close>

record source_environment =
  se_preserved :: preserved_environment
  se_unsupported :: bool

definition UNSUPPORTED_VARIABLES :: "bytes list" where
  "UNSUPPORTED_VARIABLES =
     [''GIT_DIR'', ''GIT_WORK_TREE'', ''GIT_COMMON_DIR'', ''GIT_INDEX_FILE'', ''GIT_OBJECT_DIRECTORY'',
      ''GIT_ALTERNATE_OBJECT_DIRECTORIES'', ''GIT_ATTR_SOURCE'', ''GIT_EXEC_PATH'', ''GIT_CONFIG_COUNT'',
      ''GIT_CONFIG_PARAMETERS'', ''GIT_CONFIG_KEY_0'', ''GIT_CONFIG_VALUE_0'',
      ''GIT_CEILING_DIRECTORIES'', ''GIT_NAMESPACE'', ''GIT_REPLACE_REF_BASE'', ''GIT_GRAFT_FILE'',
      ''GIT_SHALLOW_FILE'', ''GIT_QUARANTINE_PATH'']"

definition source_environment_from_lookup :: "(bytes \<Rightarrow> bytes option) \<Rightarrow> source_environment" where
  "source_environment_from_lookup lookup =
     \<lparr>se_preserved =
        \<lparr>env_home = lookup ''HOME'', env_xdg_config_home = lookup ''XDG_CONFIG_HOME'',
         env_config_nosystem = lookup ''GIT_CONFIG_NOSYSTEM'', env_config_system = lookup ''GIT_CONFIG_SYSTEM'',
         env_config_global = lookup ''GIT_CONFIG_GLOBAL'', env_attr_nosystem = lookup ''GIT_ATTR_NOSYSTEM''\<rparr>,
      se_unsupported = list_ex (\<lambda>n. lookup n \<noteq> None) UNSUPPORTED_VARIABLES\<rparr>"

definition validate_environment_directory ::
  "'h git_host \<Rightarrow> bytes option \<Rightarrow> ('h, git_inspection_issue, unit) io" where
  "validate_environment_directory H value =
     (case value of
        None \<Rightarrow> io_return ()
      | Some bs \<Rightarrow>
          let p = path_of_bytes bs in
          if \<not> is_absolute p then io_fail EnvironmentUnsupported
          else io_bind (io_attempt (open_absolute_directory H p)) (\<lambda>r.
            case r of
              Inr _ \<Rightarrow> io_return ()
            | Inl e \<Rightarrow> if e = NOENT then io_return () else io_fail EnvironmentUnsupported))"

definition DEV_NULL :: path where "DEV_NULL = [RootDir, Normal ''dev'', Normal ''null'']"

definition validate_null_device :: "'h git_host \<Rightarrow> path \<Rightarrow> ('h, git_inspection_issue, unit) io" where
  "validate_null_device H p =
     io_bind (io_or EnvironmentUnsupported (h_lstat H p)) (\<lambda>st.
       io_lift (ensure (file_type_of (st_mode st) = CharDeviceType) EnvironmentUnsupported))"

definition validate_selected_source :: "'h git_host \<Rightarrow> bytes \<Rightarrow> ('h, git_inspection_issue, path) io" where
  "validate_selected_source H bs =
     (let p = path_of_bytes bs in
      if \<not> is_absolute p then io_fail EnvironmentUnsupported
      else if p = DEV_NULL then io_bind (validate_null_device H p) (\<lambda>_. io_return p)
      else io_return p)"

definition validate_selected ::
  "'h git_host \<Rightarrow> bytes option \<Rightarrow> ('h, git_inspection_issue, path option) io" where
  "validate_selected H value =
     (case value of
        None \<Rightarrow> io_return None
      | Some bs \<Rightarrow> io_bind (validate_selected_source H bs) (\<lambda>p. io_return (Some p)))"

definition parse_runtime_prefix :: "'h git_host \<Rightarrow> bytes \<Rightarrow> ('h, git_inspection_issue, path) io" where
  "parse_runtime_prefix H stdout =
     io_bind (io_lift (runtime_exec_path (h_linux H) stdout)) (\<lambda>exec_path.
     io_bind (io_lift (runtime_prefix_of exec_path)) (\<lambda>root.
     io_bind (io_map_err (\<lambda>_. InvalidExecPath) (open_absolute_directory H exec_path)) (\<lambda>_.
       io_return root)))"

definition validate_system_directory_metadata :: "32 word \<Rightarrow> nat \<Rightarrow> git_inspection_issue + unit" where
  "validate_system_directory_metadata mode uid =
     (if file_type_of mode \<noteq> DirectoryType then Err EnvironmentUnsupported
      else if uid \<noteq> 0 then Err EnvironmentUnsupported
      else if and mode 0x12 \<noteq> 0 then Err EnvironmentUnsupported
      else Ok ())"

text \<open>\<open>/etc\<close> may be a link of root's; it is then resolved once, to a directory of root's.\<close>

definition resolve_system_path :: "'h git_host \<Rightarrow> path \<Rightarrow> ('h, git_inspection_issue, path) io" where
  "resolve_system_path H p =
     (let etc = [RootDir, Normal ''etc''] in
      io_bind (io_lift (ok_or (strip_prefix etc p) EnvironmentUnsupported)) (\<lambda>rest.
      io_bind (io_or EnvironmentUnsupported (h_lstat H etc)) (\<lambda>st.
        if file_type_of (st_mode st) \<noteq> SymlinkType then io_return p
        else if st_uid st \<noteq> 0 then io_fail EnvironmentUnsupported
        else
          io_bind (io_or EnvironmentUnsupported (h_read_link H etc)) (\<lambda>link.
            let target = path_join [RootDir] (path_of_bytes link) in
            io_bind (io_map_err (\<lambda>_. EnvironmentUnsupported) (open_absolute_directory H target)) (\<lambda>d.
            io_bind (io_or EnvironmentUnsupported (h_fstat H d)) (\<lambda>dst.
            io_bind (io_lift (validate_system_directory_metadata (st_mode dst) (st_uid dst))) (\<lambda>_.
              io_return (path_join target rest))))))))"

definition resolve_attributes_source ::
  "source_environment \<Rightarrow> bytes \<Rightarrow> git_inspection_issue + path" where
  "resolve_attributes_source E value =
     (if value \<noteq> [] \<and> hd value = CHR ''~''
      then
        if length value < 2 \<or> value ! 1 \<noteq> CHR ''/'' then Err UnsafeAttributes
        else and_then (ok_or (env_home (se_preserved E)) UnsafeAttributes) (\<lambda>home.
          Ok (path_join (path_of_bytes home) (path_of_bytes (drop 2 value))))
      else
        let p = path_of_bytes value in
        if \<not> is_absolute p then Err UnsafeAttributes else Ok p)"

definition default_user_attributes :: "source_environment \<Rightarrow> path option" where
  "default_user_attributes E =
     map_option (\<lambda>xdg. path_join xdg [Normal ''git'', Normal ''attributes''])
       (case env_xdg_config_home (se_preserved E) of
          Some x \<Rightarrow> Some (path_of_bytes x)
        | None \<Rightarrow> map_option (\<lambda>home. path_join (path_of_bytes home) [Normal ''.config''])
                    (env_home (se_preserved E)))"

subsection \<open>Global sources\<close>

record global_context =
  gc_entries :: "config_entry list"
  gc_evidence :: "file_evidence list"

definition system_sources ::
  "'h git_host \<Rightarrow> source_environment \<Rightarrow> path \<Rightarrow> path option \<Rightarrow> ('h, git_inspection_issue, path list) io" where
  "system_sources H E runtime_prefix selected =
     io_bind (io_lift (environment_disables (env_config_nosystem (se_preserved E)))) (\<lambda>disabled.
       if disabled then io_return []
       else
         io_bind (case selected of
             Some p \<Rightarrow> io_return p
           | None \<Rightarrow> resolve_system_path H [RootDir, Normal ''etc'', Normal ''gitconfig'']) (\<lambda>p.
           io_return [path_join runtime_prefix [Normal ''share'', Normal ''git-core'', Normal ''gitconfig''], p]))"

definition user_sources :: "source_environment \<Rightarrow> path option \<Rightarrow> path list" where
  "user_sources E selected =
     (case selected of
        Some p \<Rightarrow> [p]
      | None \<Rightarrow>
          (case env_xdg_config_home (se_preserved E) of
             Some xdg \<Rightarrow> [path_join (path_of_bytes xdg) [Normal ''git'', Normal ''config'']]
           | None \<Rightarrow>
               (case env_home (se_preserved E) of
                  Some home \<Rightarrow> [path_join (path_of_bytes home) [Normal ''.config'', Normal ''git'', Normal ''config'']]
                | None \<Rightarrow> []))
          @ (case env_home (se_preserved E) of
               Some home \<Rightarrow> [path_join (path_of_bytes home) [Normal ''.gitconfig'']]
             | None \<Rightarrow> []))"

fun read_sources ::
  "'h git_host \<Rightarrow> inspection_budget \<Rightarrow> path \<Rightarrow> path list \<Rightarrow> global_context
   \<Rightarrow> ('h, git_inspection_issue, global_context) io" where
  "read_sources H B copy_root [] g = io_return g"
| "read_sources H B copy_root (source # sources) g =
     io_bind (ensure_remaining H B) (\<lambda>_.
       if source = DEV_NULL then read_sources H B copy_root sources g
       else
         io_bind (read_absolute_file H source (il_max_text_bytes (ib_limits B)) False) (\<lambda>r.
           case r of
             None \<Rightarrow> read_sources H B copy_root sources g
           | Some read \<Rightarrow>
               io_bind (parse_config_file H B copy_root source) (\<lambda>parsed.
                 read_sources H B copy_root sources
                   \<lparr>gc_entries = gc_entries g @ parsed, gc_evidence = gc_evidence g @ [re_evidence read]\<rparr>)))"

fun read_system_attributes ::
  "'h git_host \<Rightarrow> inspection_budget \<Rightarrow> path list \<Rightarrow> global_context
   \<Rightarrow> ('h, git_inspection_issue, global_context) io" where
  "read_system_attributes H B [] g = io_return g"
| "read_system_attributes H B (source # sources) g =
     io_bind (ensure_remaining H B) (\<lambda>_.
     io_bind (read_absolute_file H source (il_max_text_bytes (ib_limits B)) False) (\<lambda>r.
       case r of
         None \<Rightarrow> read_system_attributes H B sources g
       | Some read \<Rightarrow>
           io_bind (io_lift (validate_attributes (re_contents read))) (\<lambda>_.
             read_system_attributes H B sources (g\<lparr>gc_evidence := gc_evidence g @ [re_evidence read]\<rparr>))))"

definition system_attributes ::
  "'h git_host \<Rightarrow> inspection_budget \<Rightarrow> source_environment \<Rightarrow> path \<Rightarrow> global_context
   \<Rightarrow> ('h, git_inspection_issue, global_context) io" where
  "system_attributes H B E runtime_prefix g =
     io_bind (io_lift (environment_disables (env_attr_nosystem (se_preserved E)))) (\<lambda>disabled.
       if disabled then io_return g
       else
         io_bind (resolve_system_path H [RootDir, Normal ''etc'', Normal ''gitattributes'']) (\<lambda>p.
           read_system_attributes H B
             [path_join runtime_prefix [Normal ''share'', Normal ''git-core'', Normal ''gitattributes''], p] g))"

definition preflight_sources ::
  "'h git_host \<Rightarrow> inspection_budget \<Rightarrow> path \<Rightarrow> source_environment
   \<Rightarrow> ('h, git_inspection_issue, global_context) io" where
  "preflight_sources H B copy_root E =
     (if se_unsupported E then io_fail EnvironmentUnsupported
      else
        io_bind (validate_environment_directory H (env_home (se_preserved E))) (\<lambda>_.
        io_bind (validate_environment_directory H (env_xdg_config_home (se_preserved E))) (\<lambda>_.
        io_bind (validate_selected H (env_config_system (se_preserved E))) (\<lambda>selected_system.
        io_bind (validate_selected H (env_config_global (se_preserved E))) (\<lambda>selected_global.
        io_bind (required_timeout H B) (\<lambda>timeout.
        io_bind (run_mapped H copy_root None ExecPath Isolated timeout) (\<lambda>exec_path.
        io_bind (parse_runtime_prefix H (qo_stdout exec_path)) (\<lambda>runtime_prefix.
        io_bind (system_sources H E runtime_prefix selected_system) (\<lambda>system.
        io_bind (read_sources H B copy_root (system @ user_sources E selected_global)
                   \<lparr>gc_entries = [], gc_evidence = []\<rparr>) (\<lambda>g.
        io_bind (system_attributes H B E runtime_prefix g) (\<lambda>g'.
        io_bind (ensure_remaining H B) (\<lambda>_.
        io_bind (io_lift (validate_config_entries (gc_entries g'))) (\<lambda>_.
          io_return g')))))))))))))"

end
