(* ===== verification/Git_Repository.thy ===== *)
theory Git_Repository
  imports Git_Preflight
begin

text \<open>
  The preflight of one repository (\<open>preflight_repository\<close> and its helpers in
  \<open>git_query/inspect.rs\<close>), in the order of the source.
\<close>

subsection \<open>References and metadata\<close>

text \<open>Every component of a reference but its last is opened, so no link is followed on the way.\<close>

fun descend ::
  "'h git_host \<Rightarrow> fd list \<Rightarrow> path \<Rightarrow> ('h, git_inspection_issue, fd list) io" where
  "descend H ds [] = io_return ds"
| "descend H ds (Normal n # cs) =
     io_bind (io_or UnsafeRepositoryMetadata (h_open_dir H (hd ds) n)) (\<lambda>d. descend H (d # ds) cs)"
| "descend H ds (c # cs) = io_fail UnsafeRepositoryMetadata"

text \<open>\<open>ds\<close> is the stack of open directories, its top first; \<open>position\<close> the names walked.\<close>

fun traverse_reference ::
  "'h git_host \<Rightarrow> fd list \<Rightarrow> path \<Rightarrow> path \<Rightarrow> ('h, git_inspection_issue, unit) io" where
  "traverse_reference H ds at [] = io_return ()"
| "traverse_reference H ds at (Normal n # cs) =
     (if cs = [] then io_return ()
      else io_bind (io_or ExternalRepositoryMetadata (h_open_dir H (hd ds) n)) (\<lambda>d.
        traverse_reference H (d # ds) (at @ [Normal n]) cs))"
| "traverse_reference H ds at (CurDir # cs) = traverse_reference H ds at cs"
| "traverse_reference H ds at (ParentDir # cs) =
     (if at = [] then io_fail ExternalRepositoryMetadata else traverse_reference H (tl ds) (butlast at) cs)"
| "traverse_reference H ds at (RootDir # cs) = io_fail ExternalRepositoryMetadata"

definition validate_reference_traversal ::
  "'h git_host \<Rightarrow> path \<Rightarrow> path \<Rightarrow> bytes \<Rightarrow> ('h, git_inspection_issue, unit) io" where
  "validate_reference_traversal H copy_root base reference =
     (let p = path_of_bytes reference in
      io_bind (io_map_err (\<lambda>_. UnsafeRepositoryMetadata) (open_absolute_directory H copy_root)) (\<lambda>root.
        if is_absolute p
        then
          io_bind (io_lift (ok_or (strip_prefix copy_root p) ExternalRepositoryMetadata)) (\<lambda>cs.
            traverse_reference H [root] [] cs)
        else
          io_bind (descend H [root] base) (\<lambda>ds. traverse_reference H ds base p)))"

definition resolve_internal_reference ::
  "'h git_host \<Rightarrow> path \<Rightarrow> path \<Rightarrow> bytes \<Rightarrow> ('h, git_inspection_issue, path) io" where
  "resolve_internal_reference H copy_root base reference =
     io_bind (validate_reference_traversal H copy_root base reference) (\<lambda>_.
       io_lift (normalize_internal_reference copy_root base reference))"

text \<open>The scan of a metadata directory stops at the first thing it does not accept.\<close>

definition metadata_entry ::
  "'h git_host \<Rightarrow> inspection_budget \<Rightarrow> path \<Rightarrow> pending_directory \<Rightarrow> bytes \<Rightarrow> pending_directory list
   \<Rightarrow> ('h, git_inspection_issue, pending_directory list) io" where
  "metadata_entry H B metadata_root d name pending =
     io_bind (consume_scan_entry B) (\<lambda>_.
     io_bind (io_or UnsafeRepositoryMetadata (h_statat H (pd_fd d) name)) (\<lambda>st.
       let i = identity_from_stat st; relative = path_join (pd_relative d) [Normal name] in
       if identity_type i = SymlinkType then io_fail ExternalRepositoryMetadata
       else if identity_type i = DirectoryType
       then
         if pd_depth d = il_max_depth (ib_limits B) then io_fail DepthLimitReached
         else
           io_bind (io_or UnsafeRepositoryMetadata (h_open_dir H (pd_fd d) name)) (\<lambda>sub.
             io_return (\<lparr>pd_relative = relative, pd_fd = sub, pd_depth = pd_depth d + 1\<rparr> # pending))
       else if identity_type i \<noteq> RegularType
               \<or> is_bounded_metadata_text relative metadata_root
                 \<and> (id_size i < 0 \<or> int (il_max_text_bytes (ib_limits B)) < id_size i)
       then io_fail UnsafeRepositoryMetadata
       else io_return pending))"

fun metadata_entries ::
  "'h git_host \<Rightarrow> inspection_budget \<Rightarrow> path \<Rightarrow> pending_directory \<Rightarrow> (errno + bytes) list
   \<Rightarrow> pending_directory list \<Rightarrow> ('h, git_inspection_issue, pending_directory list) io" where
  "metadata_entries H B metadata_root d [] pending = io_return pending"
| "metadata_entries H B metadata_root d (entry # entries) pending =
     io_bind (ensure_remaining H B) (\<lambda>_.
       case entry of
         Inl _ \<Rightarrow> io_fail UnsafeRepositoryMetadata
       | Inr name \<Rightarrow>
           if name = ''.'' \<or> name = ''..'' then metadata_entries H B metadata_root d entries pending
           else io_bind (metadata_entry H B metadata_root d name pending) (\<lambda>pending'.
             metadata_entries H B metadata_root d entries pending'))"

definition metadata_directory ::
  "'h git_host \<Rightarrow> inspection_budget \<Rightarrow> path \<Rightarrow> pending_directory \<Rightarrow> pending_directory list
   \<Rightarrow> ('h, git_inspection_issue, pending_directory list) io" where
  "metadata_directory H B metadata_root d pending =
     io_bind (ensure_remaining H B) (\<lambda>_.
     io_bind (io_or UnsafeRepositoryMetadata (h_list_dir H (pd_fd d))) (\<lambda>entries.
       metadata_entries H B metadata_root d entries pending))"

partial_function (option) metadata_loop ::
  "'h git_host \<Rightarrow> inspection_budget \<Rightarrow> path \<Rightarrow> pending_directory list \<Rightarrow> ('h, git_inspection_issue, unit) io" where
  "metadata_loop H B metadata_root pending s =
     (case pending of
        [] \<Rightarrow> Some (Ok (), s)
      | d # rest \<Rightarrow>
          (case metadata_directory H B metadata_root d rest s of
             None \<Rightarrow> None
           | Some (Inl e, s') \<Rightarrow> Some (Inl e, s')
           | Some (Inr pending', s') \<Rightarrow> metadata_loop H B metadata_root pending' s'))"

definition scan_metadata_nofollow ::
  "'h git_host \<Rightarrow> inspection_budget \<Rightarrow> fd \<Rightarrow> path \<Rightarrow> ('h, git_inspection_issue, unit) io" where
  "scan_metadata_nofollow H B root metadata_root =
     (if il_max_depth (ib_limits B) < length metadata_root then io_fail DepthLimitReached
      else
        io_bind (io_map_err (\<lambda>_. UnsafeRepositoryMetadata) (open_relative_directory H root metadata_root)) (\<lambda>d.
          metadata_loop H B metadata_root
            [\<lparr>pd_relative = metadata_root, pd_fd = d, pd_depth = length metadata_root\<rparr>]))"

definition reject_link ::
  "'h git_host \<Rightarrow> fd \<Rightarrow> path \<Rightarrow> ('h, git_inspection_issue, unit) io" where
  "reject_link H root relative =
     io_bind (io_attempt (stat_relative H root relative)) (\<lambda>r.
       case r of
         Inr (Some i) \<Rightarrow>
           if identity_type i = SymlinkType then io_fail ExternalRepositoryMetadata else io_return ()
       | Inr None \<Rightarrow> io_return ()
       | Inl _ \<Rightarrow> io_fail UnsafeRepositoryMetadata)"

definition reject_present ::
  "'h git_host \<Rightarrow> fd \<Rightarrow> git_inspection_issue \<Rightarrow> path \<Rightarrow> ('h, git_inspection_issue, unit) io" where
  "reject_present H root issue relative =
     io_bind (io_map_err (\<lambda>_. UnsafeRepositoryMetadata) (stat_relative H root relative)) (\<lambda>i.
       io_lift (ensure (i = None) issue))"

definition reject_metadata_links ::
  "'h git_host \<Rightarrow> fd \<Rightarrow> path \<Rightarrow> path \<Rightarrow> ('h, git_inspection_issue, unit) io" where
  "reject_metadata_links H root git_dir common_dir =
     io_bind (io_each (reject_link H root)
        [common_dir @ [Normal ''objects''], common_dir @ [Normal ''refs''], git_dir @ [Normal ''index'']]) (\<lambda>_.
     io_bind (reject_present H root UnsupportedConfiguration
        (common_dir @ [Normal ''objects'', Normal ''info'', Normal ''alternates''])) (\<lambda>_.
     io_each (reject_present H root SparseCheckout)
        [common_dir @ [Normal ''info'', Normal ''sparse-checkout''],
         git_dir @ [Normal ''info'', Normal ''sparse-checkout'']]))"

subsection \<open>Reference evidence\<close>

definition object_name :: "bytes \<Rightarrow> bool" where
  "object_name v = ((length v = 40 \<or> length v = 64) \<and> list_all is_ascii_hexdigit v)"

text \<open>Symbolic references from \<open>HEAD\<close> on; \<open>n\<close> links may still be followed.\<close>

fun follow_references ::
  "'h git_host \<Rightarrow> inspection_budget \<Rightarrow> path \<Rightarrow> fd \<Rightarrow> path \<Rightarrow> bool \<Rightarrow> nat \<Rightarrow> path \<Rightarrow> file_evidence list
   \<Rightarrow> ('h, git_inspection_issue, file_evidence list) io" where
  "follow_references H B copy_root root common_dir required n at evidence =
     io_bind (read_root_file H copy_root root at (il_max_text_bytes (ib_limits B)) required) (\<lambda>r.
       case r of
         None \<Rightarrow> io_return evidence
       | Some read \<Rightarrow>
           io_bind (io_lift (parse_single_reference (re_contents read) [])) (\<lambda>v.
             let evidence' = evidence @ [re_evidence read] in
             case strip_prefix ''ref: '' v of
               Some symbolic \<Rightarrow>
                 io_bind (io_lift (validate_symbolic_ref symbolic)) (\<lambda>target.
                   case n of
                     0 \<Rightarrow> io_fail DepthLimitReached
                   | Suc k \<Rightarrow>
                       follow_references H B copy_root root common_dir False k (common_dir @ target) evidence')
             | None \<Rightarrow>
                 if object_name v then io_return evidence' else io_fail UnsafeRepositoryMetadata))"

definition optional_evidence ::
  "'h git_host \<Rightarrow> inspection_budget \<Rightarrow> path \<Rightarrow> fd \<Rightarrow> path \<Rightarrow> file_evidence list
   \<Rightarrow> ('h, git_inspection_issue, file_evidence list) io" where
  "optional_evidence H B copy_root root relative evidence =
     io_bind (read_root_file H copy_root root relative (il_max_text_bytes (ib_limits B)) False) (\<lambda>r.
       io_return (case r of Some read \<Rightarrow> evidence @ [re_evidence read] | None \<Rightarrow> evidence))"

definition collect_reference_evidence ::
  "'h git_host \<Rightarrow> inspection_budget \<Rightarrow> path \<Rightarrow> fd \<Rightarrow> path \<Rightarrow> path \<Rightarrow> file_evidence list
   \<Rightarrow> ('h, git_inspection_issue, file_evidence list) io" where
  "collect_reference_evidence H B copy_root root git_dir common_dir evidence =
     io_bind (follow_references H B copy_root root common_dir True (il_max_depth (ib_limits B))
        (git_dir @ [Normal ''HEAD'']) evidence) (\<lambda>evidence1.
     io_bind (optional_evidence H B copy_root root (common_dir @ [Normal ''packed-refs'']) evidence1) (\<lambda>evidence2.
       optional_evidence H B copy_root root (common_dir @ [Normal ''shallow'']) evidence2))"

subsection \<open>One repository\<close>

record prepared_repository =
  pr_relative_path :: path
  pr_filter_drivers :: "bytes list"
  pr_worktree_identity :: identity
  pr_git_dir :: path
  pr_git_dir_identity :: identity
  pr_common_dir :: path
  pr_common_dir_identity :: identity
  pr_index_identity :: "identity option"
  pr_evidence :: "file_evidence list"
  pr_issues :: "git_inspection_issue list"

text \<open>A file that must be there.\<close>

definition required_file ::
  "'h git_host \<Rightarrow> inspection_budget \<Rightarrow> path \<Rightarrow> fd \<Rightarrow> git_inspection_issue \<Rightarrow> path
   \<Rightarrow> ('h, git_inspection_issue, read_evidence) io" where
  "required_file H B copy_root root missing relative =
     io_bind (read_root_file H copy_root root relative (il_max_text_bytes (ib_limits B)) True) (\<lambda>r.
       io_lift (ok_or r missing))"

definition optional_file ::
  "'h git_host \<Rightarrow> inspection_budget \<Rightarrow> path \<Rightarrow> fd \<Rightarrow> path \<Rightarrow> ('h, git_inspection_issue, read_evidence option) io" where
  "optional_file H B copy_root root relative =
     read_root_file H copy_root root relative (il_max_text_bytes (ib_limits B)) False"

text \<open>
  \<open>.git\<close>, a directory or a file that names one: the git directory, and with a file its
  identity and evidence.
\<close>

definition locate_git_dir ::
  "'h git_host \<Rightarrow> inspection_budget \<Rightarrow> path \<Rightarrow> fd \<Rightarrow> fd \<Rightarrow> path \<Rightarrow> file_evidence list
   \<Rightarrow> ('h, git_inspection_issue, path \<times> identity option \<times> file_evidence list) io" where
  "locate_git_dir H B copy_root root worktree relative evidence =
     io_bind (io_or UnsafeRepositoryMetadata (h_statat H worktree ''.git'')) (\<lambda>st.
       let marker = relative @ [Normal ''.git''] in
       if file_type_of (st_mode st) = DirectoryType then io_return (marker, None, evidence)
       else if file_type_of (st_mode st) = RegularType
       then
         io_bind (required_file H B copy_root root UnsafeRepositoryMetadata marker) (\<lambda>read.
         io_bind (io_lift (parse_single_reference (re_contents read) ''gitdir: '')) (\<lambda>reference.
         io_bind (resolve_internal_reference H copy_root relative reference) (\<lambda>git_dir.
           io_return (git_dir, Some (fe_identity (re_evidence read)), evidence @ [re_evidence read]))))
       else io_fail UnsafeRepositoryMetadata)"

definition metadata_identity ::
  "'h git_host \<Rightarrow> fd \<Rightarrow> path \<Rightarrow> ('h, git_inspection_issue, identity) io" where
  "metadata_identity H root relative =
     io_map_err (\<lambda>_. UnsafeRepositoryMetadata)
       (io_bind (open_relative_directory H root relative) (identity_of H))"

definition locate_common_dir ::
  "'h git_host \<Rightarrow> inspection_budget \<Rightarrow> path \<Rightarrow> fd \<Rightarrow> path \<Rightarrow> file_evidence list
   \<Rightarrow> ('h, git_inspection_issue, path \<times> file_evidence list) io" where
  "locate_common_dir H B copy_root root git_dir evidence =
     io_bind (optional_file H B copy_root root (git_dir @ [Normal ''commondir''])) (\<lambda>r.
       case r of
         None \<Rightarrow> io_return (git_dir, evidence)
       | Some read \<Rightarrow>
           io_bind (io_lift (parse_single_reference (re_contents read) [])) (\<lambda>reference.
           io_bind (resolve_internal_reference H copy_root git_dir reference) (\<lambda>common_dir.
             io_return (common_dir, evidence @ [re_evidence read]))))"

text \<open>The configuration of the repository and of its worktree, after the global one.\<close>

definition repository_config ::
  "'h git_host \<Rightarrow> inspection_budget \<Rightarrow> path \<Rightarrow> fd \<Rightarrow> path \<Rightarrow> path
   \<Rightarrow> config_entry list \<times> file_evidence list
   \<Rightarrow> ('h, git_inspection_issue, config_entry list \<times> file_evidence list) io" where
  "repository_config H B copy_root root git_dir common_dir start =
     (case start of (entries, evidence) \<Rightarrow>
      io_bind (optional_file H B copy_root root (common_dir @ [Normal ''config''])) (\<lambda>r.
        case r of
          None \<Rightarrow> io_return (entries, evidence)
        | Some read \<Rightarrow>
            io_bind (parse_config_file H B copy_root (fe_path (re_evidence read))) (\<lambda>common_entries.
            io_bind (io_lift (effective_config_bool common_entries ''extensions.worktreeconfig'')) (\<lambda>worktree_config.
              let entries' = entries @ common_entries; evidence' = evidence @ [re_evidence read] in
              if \<not> worktree_config then io_return (entries', evidence')
              else
                io_bind (optional_file H B copy_root root (git_dir @ [Normal ''config.worktree''])) (\<lambda>q.
                  case q of
                    None \<Rightarrow> io_return (entries', evidence')
                  | Some read' \<Rightarrow>
                      io_bind (parse_config_file H B copy_root (fe_path (re_evidence read'))) (\<lambda>more.
                        io_return (entries' @ more, evidence' @ [re_evidence read'])))))))"

definition validate_effective_user_attributes ::
  "'h git_host \<Rightarrow> inspection_budget \<Rightarrow> source_environment \<Rightarrow> config_entry list \<Rightarrow> file_evidence list
   \<Rightarrow> ('h, git_inspection_issue, file_evidence list) io" where
  "validate_effective_user_attributes H B E entries evidence =
     io_bind (ensure_remaining H B) (\<lambda>_.
       case find (\<lambda>e. ce_key e = ''core.attributesfile'') (rev entries) of
         Some entry \<Rightarrow>
           io_bind (io_lift (resolve_attributes_source E (ce_value entry))) (\<lambda>p.
           io_bind (read_absolute_file H p (il_max_text_bytes (ib_limits B)) True) (\<lambda>r.
           io_bind (io_lift (ok_or r UnsafeAttributes)) (\<lambda>read.
           io_bind (io_lift (validate_attributes (re_contents read))) (\<lambda>_.
             io_return (evidence @ [re_evidence read])))))
       | None \<Rightarrow>
           (case default_user_attributes E of
              None \<Rightarrow> io_return evidence
            | Some p \<Rightarrow>
                io_bind (read_absolute_file H p (il_max_text_bytes (ib_limits B)) False) (\<lambda>r.
                  case r of
                    None \<Rightarrow> io_return evidence
                  | Some read \<Rightarrow>
                      io_bind (io_lift (validate_attributes (re_contents read))) (\<lambda>_.
                        io_return (evidence @ [re_evidence read])))))"

text \<open>Every \<open>core.worktree\<close> must be the inspected worktree; whether there was one.\<close>

fun check_worktrees ::
  "'h git_host \<Rightarrow> path \<Rightarrow> fd \<Rightarrow> path \<Rightarrow> identity \<Rightarrow> config_entry list \<Rightarrow> bool
   \<Rightarrow> ('h, git_inspection_issue, bool) io" where
  "check_worktrees H copy_root root git_dir worktree [] corresponds = io_return corresponds"
| "check_worktrees H copy_root root git_dir worktree (entry # entries) corresponds =
     (if ce_key entry \<noteq> ''core.worktree''
      then check_worktrees H copy_root root git_dir worktree entries corresponds
      else
        io_bind (resolve_internal_reference H copy_root git_dir (ce_value entry)) (\<lambda>resolved.
        io_bind (io_map_err (\<lambda>_. UnsafeRepositoryMetadata) (open_relative_directory H root resolved)) (\<lambda>d.
        io_bind (io_attempt (identity_of H d)) (\<lambda>i.
          if result_ok i \<noteq> Some worktree then io_fail ExternalRepositoryMetadata
          else check_worktrees H copy_root root git_dir worktree entries True))))"

text \<open>A linked worktree's git directory must point back to the very marker file.\<close>

definition check_back_reference ::
  "'h git_host \<Rightarrow> inspection_budget \<Rightarrow> path \<Rightarrow> fd \<Rightarrow> path \<Rightarrow> path \<Rightarrow> identity option
   \<Rightarrow> bool \<times> file_evidence list \<Rightarrow> ('h, git_inspection_issue, bool \<times> file_evidence list) io" where
  "check_back_reference H B copy_root root git_dir marker marker_identity start =
     (case (marker_identity, start) of
        (None, _) \<Rightarrow> io_return start
      | (Some mi, (corresponds, evidence)) \<Rightarrow>
          io_bind (optional_file H B copy_root root (git_dir @ [Normal ''gitdir''])) (\<lambda>r.
            case r of
              None \<Rightarrow> io_return (corresponds, evidence)
            | Some read \<Rightarrow>
                io_bind (io_lift (parse_single_reference (re_contents read) [])) (\<lambda>reference.
                io_bind (resolve_internal_reference H copy_root git_dir reference) (\<lambda>back.
                  if back \<noteq> marker then io_fail ExternalRepositoryMetadata
                  else
                    io_bind (required_file H B copy_root root UnsafeRepositoryMetadata back) (\<lambda>file.
                      if fe_identity (re_evidence file) \<noteq> mi then io_fail EvidenceChanged
                      else io_return (True, evidence @ [re_evidence read, re_evidence file]))))))"

definition check_submodules ::
  "'h git_host \<Rightarrow> inspection_budget \<Rightarrow> path \<Rightarrow> fd \<Rightarrow> path \<Rightarrow> file_evidence list
   \<Rightarrow> ('h, git_inspection_issue, file_evidence list) io" where
  "check_submodules H B copy_root root relative evidence =
     io_bind (optional_file H B copy_root root (relative @ [Normal ''.gitmodules''])) (\<lambda>r.
       case r of
         None \<Rightarrow> io_return evidence
       | Some read \<Rightarrow>
           io_bind (parse_config_file H B copy_root (fe_path (re_evidence read))) (\<lambda>entries.
           io_bind (io_lift (validate_gitmodules_config_entries entries)) (\<lambda>_.
           io_bind (io_lift (validate_gitmodules copy_root relative entries)) (\<lambda>_.
             io_return (evidence @ [re_evidence read])))))"

definition belongs_to_repository :: "path list \<Rightarrow> path \<Rightarrow> path \<Rightarrow> bool" where
  "belongs_to_repository candidates relative attributes =
     (path_starts_with attributes relative
      \<and> \<not> list_ex (\<lambda>c. is_strict_descendant c relative \<and> path_starts_with attributes c) candidates)"

fun check_attribute_files ::
  "'h git_host \<Rightarrow> inspection_budget \<Rightarrow> path \<Rightarrow> discovery \<Rightarrow> path \<Rightarrow> path list \<Rightarrow> file_evidence list
   \<Rightarrow> ('h, git_inspection_issue, file_evidence list) io" where
  "check_attribute_files H B copy_root D relative [] evidence = io_return evidence"
| "check_attribute_files H B copy_root D relative (attributes # rest) evidence =
     io_bind (ensure_remaining H B) (\<lambda>_.
       if \<not> belongs_to_repository (dc_candidates D) relative attributes
       then check_attribute_files H B copy_root D relative rest evidence
       else
         io_bind (required_file H B copy_root (dc_root_fd D) UnsafeAttributes attributes) (\<lambda>read.
         io_bind (io_lift (validate_attributes (re_contents read))) (\<lambda>_.
           check_attribute_files H B copy_root D relative rest (evidence @ [re_evidence read]))))"

fun check_info_attributes ::
  "'h git_host \<Rightarrow> inspection_budget \<Rightarrow> path \<Rightarrow> fd \<Rightarrow> path list \<Rightarrow> file_evidence list
   \<Rightarrow> ('h, git_inspection_issue, file_evidence list) io" where
  "check_info_attributes H B copy_root root [] evidence = io_return evidence"
| "check_info_attributes H B copy_root root (info # rest) evidence =
     io_bind (ensure_remaining H B) (\<lambda>_.
     io_bind (optional_file H B copy_root root info) (\<lambda>r.
       case r of
         None \<Rightarrow> check_info_attributes H B copy_root root rest evidence
       | Some read \<Rightarrow>
           io_bind (io_lift (validate_attributes (re_contents read))) (\<lambda>_.
             check_info_attributes H B copy_root root rest (evidence @ [re_evidence read]))))"

text \<open>The metadata of a repository whose directories are known.\<close>

definition check_metadata ::
  "'h git_host \<Rightarrow> inspection_budget \<Rightarrow> path \<Rightarrow> fd \<Rightarrow> path \<Rightarrow> identity \<Rightarrow> path \<Rightarrow> identity
   \<Rightarrow> file_evidence list \<Rightarrow> ('h, git_inspection_issue, identity option \<times> file_evidence list) io" where
  "check_metadata H B copy_root root git_dir git_identity common_dir common_identity evidence =
     io_bind (scan_metadata_nofollow H B root common_dir) (\<lambda>_.
     io_bind (if common_identity \<noteq> git_identity then scan_metadata_nofollow H B root git_dir else io_return ()) (\<lambda>_.
     io_bind (reject_metadata_links H root git_dir common_dir) (\<lambda>_.
     io_bind (io_map_err (\<lambda>_. UnsafeRepositoryMetadata)
                (stat_relative H root (git_dir @ [Normal ''index'']))) (\<lambda>index.
     io_bind (collect_reference_evidence H B copy_root root git_dir common_dir evidence) (\<lambda>evidence'.
       io_return (index, evidence'))))))"

definition preflight_repository ::
  "'h git_host \<Rightarrow> inspection_budget \<Rightarrow> path \<Rightarrow> discovery \<Rightarrow> path \<Rightarrow> global_context \<Rightarrow> source_environment
   \<Rightarrow> ('h, git_inspection_issue, prepared_repository) io" where
  "preflight_repository H B copy_root D relative g E =
     (let root = dc_root_fd D in
      io_bind (io_map_err (\<lambda>_. UnsafeRepositoryMetadata) (open_relative_directory H root relative)) (\<lambda>worktree.
      io_bind (io_map_err (\<lambda>_. UnsafeRepositoryMetadata) (identity_of H worktree)) (\<lambda>worktree_identity.
      io_bind (locate_git_dir H B copy_root root worktree relative (gc_evidence g)) (\<lambda>(git_dir, marker_identity, ev1).
      io_bind (metadata_identity H root git_dir) (\<lambda>git_identity.
      io_bind (locate_common_dir H B copy_root root git_dir ev1) (\<lambda>(common_dir, ev2).
      io_bind (metadata_identity H root common_dir) (\<lambda>common_identity.
      io_bind (check_metadata H B copy_root root git_dir git_identity common_dir common_identity ev2) (\<lambda>(index, ev3).
      io_bind (repository_config H B copy_root root git_dir common_dir (gc_entries g, ev3)) (\<lambda>(entries, ev4).
      io_bind (io_lift (validate_config_entries entries)) (\<lambda>_.
      io_bind (io_lift (filter_drivers entries)) (\<lambda>drivers.
      io_bind (validate_effective_user_attributes H B E entries ev4) (\<lambda>ev5.
      io_bind (check_worktrees H copy_root root git_dir worktree_identity entries (marker_identity = None)) (\<lambda>corresponds.
      io_bind (check_back_reference H B copy_root root git_dir (relative @ [Normal ''.git'']) marker_identity
                 (corresponds, ev5)) (\<lambda>(corresponds', ev6).
        if \<not> corresponds' then io_fail UnsafeRepositoryMetadata
        else
          io_bind (check_submodules H B copy_root root relative ev6) (\<lambda>ev7.
          io_bind (check_attribute_files H B copy_root D relative (dc_attribute_files D) ev7) (\<lambda>ev8.
          io_bind (check_info_attributes H B copy_root root
                     [common_dir @ [Normal ''info'', Normal ''attributes''],
                      git_dir @ [Normal ''info'', Normal ''attributes'']] ev8) (\<lambda>ev9.
          io_bind (revalidate_file_evidence H B ev9) (\<lambda>_.
            io_return
              \<lparr>pr_relative_path = relative, pr_filter_drivers = drivers,
               pr_worktree_identity = worktree_identity, pr_git_dir = path_join copy_root git_dir,
               pr_git_dir_identity = git_identity, pr_common_dir = path_join copy_root common_dir,
               pr_common_dir_identity = common_identity, pr_index_identity = index,
               pr_evidence = ev9, pr_issues = []\<rparr>))))))))))))))))))"

end
