(* ===== verification/Git_Inspector.thy ===== *)
theory Git_Inspector
  imports Git_Repository
begin

text \<open>
  The inspection of a copy (\<open>inspect\<close> in \<open>git_query/inspect.rs\<close> and the adapter of
  \<open>thinws-adapter-git-cli/src/lib.rs\<close>): discovery, preflight of every source and repository, the
  index flags, then the status of the repositories, deepest first, and a last revalidation.
\<close>

subsection \<open>Revalidation of a repository\<close>

definition same_index :: "'h git_host \<Rightarrow> path \<Rightarrow> identity option \<Rightarrow> ('h, 'e, bool) io" where
  "same_index H git_dir expected =
     io_bind (io_attempt (stat_absolute_nofollow H (path_join git_dir [Normal ''index'']))) (\<lambda>r.
       io_return (result_ok r = Some expected))"

text \<open>The comparisons stop at the first difference.\<close>

fun all_of :: "('h, 'e, bool) io list \<Rightarrow> ('h, 'e, bool) io" where
  "all_of [] = io_return True"
| "all_of (c # cs) = io_bind c (\<lambda>b. if b then all_of cs else io_return False)"

definition repository_unchanged ::
  "'h git_host \<Rightarrow> inspection_budget \<Rightarrow> path \<Rightarrow> prepared_repository \<Rightarrow> ('h, git_inspection_issue, unit) io" where
  "repository_unchanged H B copy_root r =
     io_bind (ensure_remaining H B) (\<lambda>_.
     io_bind (all_of
        [revalidate_identity H (path_join copy_root (pr_relative_path r)) (pr_worktree_identity r),
         revalidate_identity H (pr_git_dir r) (pr_git_dir_identity r),
         revalidate_identity H (pr_common_dir r) (pr_common_dir_identity r),
         same_index H (pr_git_dir r) (pr_index_identity r)]) (\<lambda>same.
       if \<not> same then io_fail EvidenceChanged
       else revalidate_file_evidence H B (pr_evidence r)))"

text \<open>The verdict on one repository is noted.\<close>

definition revalidate_repository ::
  "'h git_host \<Rightarrow> inspection_budget \<Rightarrow> path \<Rightarrow> prepared_repository \<Rightarrow> ('h, git_inspection_issue, unit) io" where
  "revalidate_repository H B copy_root r =
     io_bind (io_attempt (repository_unchanged H B copy_root r)) (\<lambda>x.
     io_bind (io_note (Revalidated (pr_relative_path r) x)) (\<lambda>_. io_lift x))"

definition revalidate_repositories ::
  "'h git_host \<Rightarrow> inspection_budget \<Rightarrow> path \<Rightarrow> prepared_repository list \<Rightarrow> ('h, git_inspection_issue, unit) io" where
  "revalidate_repositories H B copy_root rs = io_each (revalidate_repository H B copy_root) rs"

subsection \<open>Index flags and status\<close>

definition inspect_index_flags ::
  "'h git_host \<Rightarrow> inspection_budget \<Rightarrow> path \<Rightarrow> source_environment \<Rightarrow> prepared_repository
   \<Rightarrow> ('h, git_inspection_issue, unit) io" where
  "inspect_index_flags H B copy_root E r =
     io_bind (revalidate_repository H B copy_root r) (\<lambda>_.
     io_bind (required_timeout H B) (\<lambda>timeout.
     io_bind (run_mapped H (path_join copy_root (pr_relative_path r)) (Some (pr_git_dir r)) IndexFlags
                (Preserved (se_preserved E)) timeout) (\<lambda>out.
     io_bind (io_lift (validate_index_flags_output (qo_stdout out))) (\<lambda>_.
       revalidate_repository H B copy_root r))))"

text \<open>What was found of a repository, by its path.\<close>

record verdict =
  vd_path :: path
  vd_state :: repository_state
  vd_issues :: "git_inspection_issue list"

definition unknown_verdict :: "path \<Rightarrow> git_inspection_issue list \<Rightarrow> verdict" where
  "unknown_verdict p issues = \<lparr>vd_path = p, vd_state = repository_state.Unknown, vd_issues = issues\<rparr>"

definition status_text_verdict :: "path \<Rightarrow> git_inspection_issue list \<Rightarrow> bytes \<Rightarrow> verdict" where
  "status_text_verdict p issues stdout =
     (let r = status_verdict (path_spelling p) issues stdout in
      \<lparr>vd_path = p, vd_state = ri_state r, vd_issues = ri_issues r\<rparr>)"

definition status_output ::
  "'h git_host \<Rightarrow> inspection_budget \<Rightarrow> path \<Rightarrow> source_environment \<Rightarrow> prepared_repository list \<Rightarrow> bytes list
   \<Rightarrow> prepared_repository \<Rightarrow> ('h, git_inspection_issue, bytes) io" where
  "status_output H B copy_root E participants drivers r =
     io_bind (revalidate_repositories H B copy_root participants) (\<lambda>_.
     io_bind (required_timeout H B) (\<lambda>timeout.
     io_bind (run_mapped H (path_join copy_root (pr_relative_path r)) (Some (pr_git_dir r)) (TrackedStatus drivers)
                (Preserved (se_preserved E)) timeout) (\<lambda>out.
     io_bind (revalidate_repositories H B copy_root participants) (\<lambda>_.
       io_return (qo_stdout out)))))"

definition inspect_status ::
  "'h git_host \<Rightarrow> inspection_budget \<Rightarrow> path \<Rightarrow> source_environment \<Rightarrow> prepared_repository list \<Rightarrow> bytes list
   \<Rightarrow> prepared_repository \<Rightarrow> ('h, 'e, verdict) io" where
  "inspect_status H B copy_root E participants drivers r =
     io_bind (io_attempt (status_output H B copy_root E participants drivers r)) (\<lambda>x.
       io_return (case x of
          Inr stdout \<Rightarrow> status_text_verdict (pr_relative_path r) (pr_issues r) stdout
        | Inl issue \<Rightarrow> unknown_verdict (pr_relative_path r) (pr_issues r @ [issue])))"

subsection \<open>All repositories\<close>

record inspection_state =
  is_completeness :: discovery_completeness
  is_issues :: "git_inspection_issue list"
  is_repositories :: "verdict list"

definition add_verdict :: "verdict \<Rightarrow> inspection_state \<Rightarrow> inspection_state" where
  "add_verdict v st = st\<lparr>is_repositories := is_repositories st @ [v]\<rparr>"

definition add_unknown :: "path \<Rightarrow> git_inspection_issue \<Rightarrow> inspection_state \<Rightarrow> inspection_state" where
  "add_unknown p issue = add_verdict (unknown_verdict p [issue])"

fun preflight_all ::
  "'h git_host \<Rightarrow> inspection_budget \<Rightarrow> path \<Rightarrow> discovery \<Rightarrow> global_context \<Rightarrow> source_environment
   \<Rightarrow> path list \<Rightarrow> inspection_state \<times> prepared_repository list
   \<Rightarrow> ('h, 'e, inspection_state \<times> prepared_repository list) io" where
  "preflight_all H B copy_root D g E [] acc = io_return acc"
| "preflight_all H B copy_root D g E (p # ps) (st, prepared) =
     io_bind (expired H B) (\<lambda>late.
       if late
       then
         preflight_all H B copy_root D g E ps
           (add_unknown p BudgetExpired
              (st\<lparr>is_completeness := Incomplete, is_issues := is_issues st @ [BudgetExpired]\<rparr>), prepared)
       else
         io_bind (io_attempt (preflight_repository H B copy_root D p g E)) (\<lambda>x.
           case x of
             Inr r \<Rightarrow> preflight_all H B copy_root D g E ps (st, prepared @ [r])
           | Inl issue \<Rightarrow> preflight_all H B copy_root D g E ps (add_unknown p issue st, prepared)))"

fun index_all ::
  "'h git_host \<Rightarrow> inspection_budget \<Rightarrow> path \<Rightarrow> source_environment \<Rightarrow> prepared_repository list
   \<Rightarrow> inspection_state \<times> prepared_repository list \<Rightarrow> ('h, 'e, inspection_state \<times> prepared_repository list) io" where
  "index_all H B copy_root E [] acc = io_return acc"
| "index_all H B copy_root E (r # rs) (st, indexed) =
     io_bind (io_attempt (inspect_index_flags H B copy_root E r)) (\<lambda>x.
       case x of
         Inr _ \<Rightarrow> index_all H B copy_root E rs (st, indexed @ [r])
       | Inl issue \<Rightarrow> index_all H B copy_root E rs (add_unknown (pr_relative_path r) issue st, indexed))"

text \<open>Repositories at or below \<open>p\<close>.\<close>

definition participants_of :: "prepared_repository list \<Rightarrow> path \<Rightarrow> prepared_repository list" where
  "participants_of indexed p =
     filter (\<lambda>c. pr_relative_path c = p \<or> is_strict_descendant (pr_relative_path c) p) indexed"

definition filter_driver_union :: "prepared_repository list \<Rightarrow> bytes list" where
  "filter_driver_union rs = sorted_list_of_set (set (concat (map pr_filter_drivers rs)))"

definition unsafe_descendant :: "verdict list \<Rightarrow> path \<Rightarrow> bool" where
  "unsafe_descendant vs p =
     list_ex (\<lambda>v. vd_state v = repository_state.Unknown \<and> is_strict_descendant (vd_path v) p) vs"

fun status_all ::
  "'h git_host \<Rightarrow> inspection_budget \<Rightarrow> path \<Rightarrow> source_environment \<Rightarrow> prepared_repository list
   \<Rightarrow> prepared_repository list \<Rightarrow> inspection_state \<Rightarrow> ('h, 'e, inspection_state) io" where
  "status_all H B copy_root E indexed [] st = io_return st"
| "status_all H B copy_root E indexed (r # rs) st =
     (if unsafe_descendant (is_repositories st) (pr_relative_path r)
      then status_all H B copy_root E indexed rs (add_unknown (pr_relative_path r) UnsafeDescendant st)
      else
        let participants = participants_of indexed (pr_relative_path r) in
        io_bind (inspect_status H B copy_root E participants (filter_driver_union participants) r) (\<lambda>v.
          status_all H B copy_root E indexed rs (add_verdict v st)))"

text \<open>Deepest first; \<open>sort_by_key\<close> is stable, as \<^const>\<open>sort_key\<close> is.\<close>

definition deepest_first :: "prepared_repository list \<Rightarrow> prepared_repository list" where
  "deepest_first rs = sort_key (\<lambda>r. - int (length (pr_relative_path r))) rs"

definition mark_incomplete :: "git_inspection_issue \<Rightarrow> inspection_state \<Rightarrow> inspection_state" where
  "mark_incomplete issue st =
     st\<lparr>is_completeness := Incomplete, is_issues := push_unique (is_issues st) issue\<rparr>"

definition revalidate_root ::
  "'h git_host \<Rightarrow> inspection_budget \<Rightarrow> path \<Rightarrow> discovery \<Rightarrow> inspection_state \<Rightarrow> ('h, 'e, inspection_state) io" where
  "revalidate_root H B copy_root D st =
     io_bind (io_attempt (ensure_remaining H B)) (\<lambda>x.
       case x of
         Inl issue \<Rightarrow> io_return (mark_incomplete issue st)
       | Inr _ \<Rightarrow>
           io_bind (revalidate_identity H copy_root (dc_root_identity D)) (\<lambda>same.
             io_return (if same then st else mark_incomplete EvidenceChanged st)))"

definition revalidate_global ::
  "'h git_host \<Rightarrow> inspection_budget \<Rightarrow> global_context \<Rightarrow> inspection_state \<Rightarrow> ('h, 'e, inspection_state) io" where
  "revalidate_global H B g st =
     io_bind (io_attempt (revalidate_file_evidence H B (gc_evidence g))) (\<lambda>x.
       io_return (case x of Inl issue \<Rightarrow> mark_incomplete issue st | Inr _ \<Rightarrow> st))"

definition verdict_report :: "verdict \<Rightarrow> repository_inspection" where
  "verdict_report v =
     \<lparr>ri_relative_path = path_spelling (vd_path v), ri_state = vd_state v, ri_issues = vd_issues v\<rparr>"

definition finish_inspection :: "inspection_state \<Rightarrow> git_inspection" where
  "finish_inspection st =
     git_inspection_new (is_completeness st) (map verdict_report (is_repositories st)) (is_issues st)"

definition failed_inspection :: "git_inspection_issue \<Rightarrow> git_inspection" where
  "failed_inspection issue = git_inspection_new Incomplete [] [issue]"

text \<open>Every candidate unknown, for one reason.\<close>

definition all_unknown :: "discovery \<Rightarrow> git_inspection_issue \<Rightarrow> git_inspection_issue list \<Rightarrow> git_inspection" where
  "all_unknown D issue issues =
     finish_inspection
       \<lparr>is_completeness = dc_completeness D, is_issues = issues,
        is_repositories = map (\<lambda>p. unknown_verdict p [issue]) (dc_candidates D)\<rparr>"

definition inspect_discovered ::
  "'h git_host \<Rightarrow> inspection_budget \<Rightarrow> path \<Rightarrow> source_environment \<Rightarrow> discovery \<Rightarrow> global_context
   \<Rightarrow> ('h, git_inspection_issue, git_inspection) io" where
  "inspect_discovered H B copy_root E D g =
     io_bind (preflight_all H B copy_root D g E (dc_candidates D)
        (\<lparr>is_completeness = dc_completeness D, is_issues = dc_issues D, is_repositories = []\<rparr>, [])) (\<lambda>acc.
     io_bind (index_all H B copy_root E (snd acc) (fst acc, [])) (\<lambda>(st, indexed).
     io_bind (status_all H B copy_root E (deepest_first indexed) (deepest_first indexed) st) (\<lambda>st1.
     io_bind (revalidate_root H B copy_root D st1) (\<lambda>st2.
     io_bind (revalidate_global H B g st2) (\<lambda>st3.
       io_return (finish_inspection (st3\<lparr>is_repositories := sort_key vd_path (is_repositories st3)\<rparr>)))))))"

definition inspect_with_options ::
  "'h git_host \<Rightarrow> path \<Rightarrow> source_environment \<Rightarrow> inspection_limits \<Rightarrow> ('h, git_inspection_issue, git_inspection) io" where
  "inspect_with_options H copy_root E limits =
     io_bind (budget_new H limits) (\<lambda>B.
     io_bind (io_attempt (discover H B copy_root)) (\<lambda>x.
       case x of
         Inl issue \<Rightarrow> io_return (failed_inspection issue)
       | Inr D \<Rightarrow>
           if dc_completeness D = Incomplete
           then io_return (all_unknown D (case dc_issues D of i # _ \<Rightarrow> i | [] \<Rightarrow> ScanFailed) (dc_issues D))
           else if dc_candidates D = []
           then io_return (finish_inspection
             \<lparr>is_completeness = dc_completeness D, is_issues = dc_issues D, is_repositories = []\<rparr>)
           else
             io_bind (io_attempt (preflight_sources H B copy_root E)) (\<lambda>y.
               case y of
                 Inl issue \<Rightarrow> io_return (all_unknown D issue (dc_issues D @ [issue]))
               | Inr g \<Rightarrow> inspect_discovered H B copy_root E D g)))"

definition inspect :: "'h git_host \<Rightarrow> path \<Rightarrow> ('h, git_inspection_issue, git_inspection) io" where
  "inspect H copy_root =
     inspect_with_options H copy_root (source_environment_from_lookup (h_env H)) production_limits"

text \<open>The adapter, on a fresh run.\<close>

definition fresh_run :: "'h \<Rightarrow> 'h git_run" where
  "fresh_run h = \<lparr>rn_host = h, rn_scanned = 0, rn_trace = []\<rparr>"

definition system_git_inspector :: "'h git_host \<Rightarrow> bytes \<Rightarrow> ('h, git_inspection_issue, git_inspection) io" where
  "system_git_inspector H copy_root = inspect H (path_of_bytes copy_root)"

end
