(* ===== verification/Git_Collector_Facts.thy ===== *)
theory Git_Collector_Facts
  imports Git_Collector
begin

text \<open>
  What one Git query keeps to: it comes back on every host whose clock runs, with no more output
  than its limits, and its command always carries the same overrides of the configuration.
\<close>

subsection \<open>A running clock\<close>

text \<open>
  The monotonic clock of the host (\<open>Instant\<close>) never goes back across the calls of the collector,
  and \<open>thread::sleep\<close> lasts at least as long as asked.
\<close>

definition clock_runs :: "'h git_host \<Rightarrow> ('h \<Rightarrow> nat) \<Rightarrow> bool" where
  "clock_runs H clock \<longleftrightarrow>
     (\<forall>h. fst (h_now H h) = clock (snd (h_now H h)) \<and> clock h \<le> clock (snd (h_now H h)))
     \<and> (\<forall>n h. clock h + n \<le> clock (h_sleep H n h))
     \<and> (\<forall>ch stream n h. clock h \<le> clock (snd (h_read_pipe H ch stream n h)))
     \<and> (\<forall>ch h. clock h \<le> clock (snd (h_try_wait H ch h)))"

lemma clock_runsD:
  assumes "clock_runs H clock"
  shows "h_now H h = (t, h') \<Longrightarrow> t = clock h' \<and> clock h \<le> clock h'"
    "clock h + n \<le> clock (h_sleep H n h)"
    "h_read_pipe H ch stream n h = (r, h') \<Longrightarrow> clock h \<le> clock h'"
    "h_try_wait H ch h = (w, h') \<Longrightarrow> clock h \<le> clock h'"
  using assms unfolding clock_runs_def by (metis fst_conv snd_conv)+

subsection \<open>Draining\<close>

lemma drain_bounds:
  "\<lbrakk>drain_reads H ch stream limit n (here, out) h = (r, p', h'); length out \<le> limit\<rbrakk> \<Longrightarrow> length (snd p') \<le> limit"
proof (induction n arbitrary: here out h)
  case (Suc n)
  let ?remaining = "limit - length out"
  obtain a h1 where a: "h_read_pipe H ch stream (Suc (min ?remaining 8191)) h = (a, h1)" by fastforce
  show ?case using Suc.prems
    by (cases a; cases "projl a") (auto simp: Let_def a split: if_splits dest!: Suc.IH)
qed auto

lemma drain_clock:
  "\<lbrakk>clock_runs H clock; drain_reads H ch stream limit n (here, out) h = (r, p', h')\<rbrakk> \<Longrightarrow> clock h \<le> clock h'"
proof (induction n arbitrary: here out h)
  case (Suc n)
  let ?remaining = "limit - length out"
  obtain a h1 where a: "h_read_pipe H ch stream (Suc (min ?remaining 8191)) h = (a, h1)" by fastforce
  have h1: "clock h \<le> clock h1" by (rule clock_runsD(3)[OF Suc.prems(1) a])
  note later = order_trans[OF h1 Suc.IH[OF Suc.prems(1)]]
  show ?case using Suc.prems h1 later
    by (cases a; cases "projl a") (auto simp: Let_def a split: if_splits)
qed simp

subsection \<open>Polling\<close>

definition within :: "collect_budget \<Rightarrow> collection \<Rightarrow> bool" where
  "within B c \<longleftrightarrow> length (snd (co_stdout c)) \<le> cb_stdout_limit B \<and> length (snd (co_stderr c)) \<le> cb_stderr_limit B"

text \<open>What one iteration gives.\<close>

lemma poll_once_bounds:
  assumes "poll_once H B ch deadline c h = (step, c', h')" "within B c"
  shows "within B c'
    \<and> (\<forall>out. step = Collected out \<longrightarrow> co_status c' = Some (qo_exit out) \<and> \<not> fst (co_stdout c') \<and> \<not> fst (co_stderr c')
          \<and> qo_stdout out = snd (co_stdout c') \<and> qo_stderr out = snd (co_stderr c'))
    \<and> (\<forall>kind. step = Abandon kind \<longrightarrow> (\<forall>e r. kind \<noteq> Start e r) \<and> (\<forall>i. kind \<noteq> InvalidInput i))"
proof -
  obtain r out h1 where out: "drain_pipe H ch Stdout (cb_stdout_limit B) (co_stdout c) h = (r, out, h1)" by (metis surj_pair)
  obtain r2 err h2 where err: "drain_pipe H ch Stderr (cb_stderr_limit B) (co_stderr c) h1 = (r2, err, h2)" by (metis surj_pair)
  obtain w h3 where w: "poll_exit H ch (co_status c) h2 = (w, h3)" by fastforce
  have "length (snd out) \<le> cb_stdout_limit B" "length (snd err) \<le> cb_stderr_limit B"
    using drain_bounds[of H ch Stdout "cb_stdout_limit B" MAX_DRAIN_READS "fst (co_stdout c)" "snd (co_stdout c)" h]
      drain_bounds[of H ch Stderr "cb_stderr_limit B" MAX_DRAIN_READS "fst (co_stderr c)" "snd (co_stderr c)" h1]
      out err assms(2) by (simp_all add: drain_pipe_def within_def)
  then show ?thesis
    using assms out err w
    by (cases r; cases "projr r"; cases r2; cases "projr r2"; cases w)
      (auto simp: poll_once_def Let_def within_def poll_deadline_def io_failure_def limit_kind_def
        split: prod.splits if_splits option.splits)
qed

lemma poll_once_clock:
  assumes H: "clock_runs H clock" and p: "poll_once H B ch deadline c h = (step, c', h')"
  shows "clock h \<le> clock h' \<and> (\<forall>pause. step = PollAgain pause \<longrightarrow>
    clock h' < deadline \<and> pause = min (cb_poll_interval B) (deadline - clock h'))"
proof -
  obtain r out h1 where out: "drain_pipe H ch Stdout (cb_stdout_limit B) (co_stdout c) h = (r, out, h1)" by (metis surj_pair)
  obtain r2 err h2 where err: "drain_pipe H ch Stderr (cb_stderr_limit B) (co_stderr c) h1 = (r2, err, h2)" by (metis surj_pair)
  obtain w h3 where w: "poll_exit H ch (co_status c) h2 = (w, h3)" by fastforce
  obtain t h4 where t: "h_now H h3 = (t, h4)" by fastforce
  have le: "clock h \<le> clock h1" "clock h1 \<le> clock h2"
    using drain_clock[OF H, of ch Stdout "cb_stdout_limit B" MAX_DRAIN_READS "fst (co_stdout c)" "snd (co_stdout c)" h]
      drain_clock[OF H, of ch Stderr "cb_stderr_limit B" MAX_DRAIN_READS "fst (co_stderr c)" "snd (co_stderr c)" h1]
      out err by (simp_all add: drain_pipe_def)
  have "clock h2 \<le> clock h3"
    using w clock_runsD(4)[OF H, of ch h2] by (auto simp: poll_exit_def split: if_splits)
  moreover have "t = clock h4" "clock h3 \<le> clock h4" using clock_runsD(1)[OF H t] by simp_all
  ultimately show ?thesis
    using p out err w t le
    by (cases r; cases "projr r"; cases r2; cases "projr r2"; cases w)
      (auto simp: poll_once_def Let_def poll_deadline_def split: if_splits option.splits)
qed

subsection \<open>Coming back\<close>

lemma confirm_poll_clock:
  assumes H: "clock_runs H clock" and p: "confirm_poll H B ch deadline failed h = (x, h')"
  shows "clock h \<le> clock h' \<and> (\<forall>pause failed'. x = Inr (pause, failed') \<longrightarrow>
    clock h' < deadline \<and> pause = min (cb_poll_interval B) (deadline - clock h'))"
proof -
  obtain w h1 where w: "h_try_wait H ch h = (w, h1)" by fastforce
  obtain t h2 where t: "h_now H h1 = (t, h2)" by fastforce
  have "clock h \<le> clock h1" "t = clock h2" "clock h1 \<le> clock h2"
    using clock_runsD(4)[OF H w] clock_runsD(1)[OF H t] by simp_all
  then show ?thesis using p w t
    by (cases w; cases "projr w") (auto simp: confirm_poll_def Let_def split: if_splits)
qed

text \<open>Both loops sleep for a positive time until the deadline.\<close>

lemma pause_progress:
  "\<lbrakk>a \<le> b; b < d; 0 < pause; b + pause \<le> c\<rbrakk> \<Longrightarrow> d - c < d - (a :: nat)"
  by arith

lemma confirm_loop_returns:
  assumes H: "clock_runs H clock" and B: "0 < cb_poll_interval B"
  shows "\<exists>x i h'. confirm_loop H B ch deadline failed h = Some ((x, i), h') \<and> x \<noteq> NotStarted"
proof (induction "deadline - clock h" arbitrary: failed h rule: less_induct)
  case less
  obtain x h' where x: "confirm_poll H B ch deadline failed h = (x, h')" by fastforce
  note clock = confirm_poll_clock[OF H x]
  show ?case
  proof (cases x)
    case (Inl evidence)
    then have "fst evidence \<noteq> NotStarted"
      using x by (auto simp: confirm_poll_def Let_def classify_direct_child_exit_def
          split: prod.splits sum.splits option.splits if_splits)
    then show ?thesis by (cases evidence) (simp add: confirm_loop.simps[of H B ch deadline failed h] x Inl)
  next
    case (Inr y)
    obtain pause failed' where y: "y = (pause, failed')" by fastforce
    have "0 < pause" "clock h \<le> clock h'" "clock h' < deadline" using clock Inr y B by auto
    then have "deadline - clock (h_sleep H pause h') < deadline - clock h"
      using clock_runsD(2)[OF H] pause_progress by blast
    from less[OF this, of failed'] show ?thesis
      by (simp add: confirm_loop.simps[of H B ch deadline failed h] x Inr y)
  qed
qed

lemma cleanup_returns:
  assumes H: "clock_runs H clock" and B: "0 < cb_poll_interval B"
  shows "\<exists>x i h'. cleanup_direct_child H B ch status h = Some ((x, i), h') \<and> x \<noteq> NotStarted"
proof (cases status)
  case None
  obtain w h1 where w: "h_try_wait H ch h = (w, h1)" by fastforce
  have kill: "\<exists>x i h'. kill_and_confirm H B ch failed h1 = Some ((x, i), h') \<and> x \<noteq> NotStarted" for failed
  proof -
    obtain k h2 where k: "h_kill H ch h1 = (k, h2)" by fastforce
    obtain t h3 where t: "h_now H h2 = (t, h3)" by fastforce
    show ?thesis using confirm_loop_returns[OF H B] by (simp add: kill_and_confirm_def k t Let_def)
  qed
  show ?thesis using kill None w
    by (cases w; cases "projr w") (simp_all add: cleanup_direct_child_def)
qed (simp add: cleanup_direct_child_def)

lemma fail_after_child_returns:
  assumes "clock_runs H clock" "0 < cb_poll_interval B"
  shows "\<exists>f h'. fail_after_child H B ch status kind out err h = Some (Err f, h')
    \<and> qf_kind f = kind \<and> qf_stdout f = out \<and> qf_stderr f = err \<and> qf_child_exit f \<noteq> NotStarted"
  using cleanup_returns[OF assms, of ch status h] by (auto simp: fail_after_child_def)

text \<open>What a query answers: its output within the limits, and a child that never started only if none did.\<close>

definition answer_bounded :: "collect_budget \<Rightarrow> query_result \<Rightarrow> bool" where
  "answer_bounded B r \<longleftrightarrow>
     (case r of
        Inr out \<Rightarrow> length (qo_stdout out) \<le> cb_stdout_limit B \<and> length (qo_stderr out) \<le> cb_stderr_limit B
      | Inl f \<Rightarrow>
          length (qf_stdout f) \<le> cb_stdout_limit B \<and> length (qf_stderr f) \<le> cb_stderr_limit B
          \<and> (qf_child_exit f = NotStarted \<longleftrightarrow>
               (\<exists>e r. qf_kind f = Start e r) \<or> (\<exists>i. qf_kind f = InvalidInput i)))"

lemma collect_loop_returns:
  assumes H: "clock_runs H clock" and B: "0 < cb_poll_interval B" and c: "within B c"
  shows "\<exists>r h'. collect_loop H B ch deadline c h = Some (r, h') \<and> answer_bounded B r"
  using c
proof (induction "deadline - clock h" arbitrary: c h rule: less_induct)
  case less
  obtain step c' h' where p: "poll_once H B ch deadline c h = (step, c', h')" by (metis surj_pair)
  note bounds = poll_once_bounds[OF p less(2)] and clock = poll_once_clock[OF H p]
  show ?case
  proof (cases step)
    case (Collected got)
    then show ?thesis using bounds
      by (simp add: collect_loop.simps[of H B ch deadline c h] p answer_bounded_def within_def)
  next
    case (Abandon kind)
    obtain f h2 where f: "fail_after_child H B ch (co_status c') kind (snd (co_stdout c')) (snd (co_stderr c')) h'
        = Some (Err f, h2)" "qf_kind f = kind" "qf_stdout f = snd (co_stdout c')" "qf_stderr f = snd (co_stderr c')"
        "qf_child_exit f \<noteq> NotStarted"
      using fail_after_child_returns[OF H B] by blast
    then show ?thesis using bounds Abandon
      by (simp add: collect_loop.simps[of H B ch deadline c h] p answer_bounded_def within_def)
  next
    case (PollAgain pause)
    have "0 < pause" "clock h \<le> clock h'" "clock h' < deadline" using clock PollAgain B by auto
    then have "deadline - clock (h_sleep H pause h') < deadline - clock h"
      using clock_runsD(2)[OF H] pause_progress by blast
    from less(1)[OF this, of c'] bounds show ?thesis
      by (simp add: collect_loop.simps[of H B ch deadline c h] p PollAgain)
  qed
qed

lemma collect_command_returns:
  assumes H: "clock_runs H clock" and B: "0 < cb_poll_interval B"
  shows "\<exists>r h'. collect_command H command B h = Some (r, h') \<and> answer_bounded B r"
proof -
  obtain t h0 where t: "h_now H h = (t, h0)" by fastforce
  obtain sp h1 where sp: "h_spawn H command h0 = (sp, h1)" by fastforce
  have failing: "\<exists>r h'. fail_after_child H B ch None (io_failure oper e) [] [] h2 = Some (r, h') \<and> answer_bounded B r"
    for ch oper e h2
    using fail_after_child_returns[OF H B, of ch None "io_failure oper e" "[]" "[]" h2]
    by (auto simp: answer_bounded_def io_failure_def)
  show ?thesis
  proof (cases sp)
    case (Inl e)
    then show ?thesis by (simp add: collect_command_def t sp answer_bounded_def start_failure_def unstarted_def)
  next
    case (Inr ch)
    obtain a h2 where a: "h_nonblocking H ch Stdout h1 = (a, h2)" by fastforce
    obtain b h3 where b: "h_nonblocking H ch Stderr h2 = (b, h3)" by fastforce
    have "within B no_output" by (simp add: within_def no_output_def)
    from collect_loop_returns[OF H B this] show ?thesis using failing
      by (cases a; cases b) (simp_all add: collect_command_def t sp Inr a b)
  qed
qed

lemma run_query_returns:
  assumes "clock_runs H clock"
  shows "\<exists>r h'. run_query H cwd prevalidated query environment run_timeout h = Some (r, h')
    \<and> answer_bounded PRODUCTION_BUDGET r"
proof -
  let ?B = "PRODUCTION_BUDGET\<lparr>cb_run_timeout := run_timeout\<rparr>"
  obtain v h1 where v: "validate_inputs H cwd query h = (v, h1)" by fastforce
  have "0 < cb_poll_interval ?B" by (simp add: PRODUCTION_BUDGET_def millis_of_def)
  from collect_command_returns[OF assms this]
  obtain r h' where r: "collect_command H (git_command_for cwd query environment prevalidated) ?B h1 = Some (r, h')"
    "answer_bounded ?B r" by blast
  have same: "answer_bounded ?B x = answer_bounded PRODUCTION_BUDGET x" for x
    by (cases x) (simp_all add: answer_bounded_def PRODUCTION_BUDGET_def)
  have "answer_bounded PRODUCTION_BUDGET (Err f)" if "v = Inl f" for f
    using v that by (auto simp: validate_inputs_def input_failure_def unstarted_def answer_bounded_def
        split: if_splits git_query.splits prod.splits sum.splits)
  then show ?thesis using r same by (cases v) (auto simp: run_query_def v)
qed

text \<open>
  C20. A Git query comes back with bounded output.  On every host whose monotonic clock never goes
  back and whose sleeps last at least as long as asked, whatever the child and its pipes do, a
  query returns: with the exit status and the complete output of both pipes, or with a failure;
  either way with at most 8 MiB of stdout and 256 KiB of stderr, and it reports a child that was
  not started exactly when its input was refused or the child could not be spawned.
\<close>

theorem queries_return_bounded:
  assumes "clock_runs H clock"
  shows "\<exists>r h'. run_query H cwd prevalidated query environment run_timeout h = Some (r, h')
    \<and> answer_bounded PRODUCTION_BUDGET r"
  by (rule run_query_returns[OF assms])

text \<open>A host that answers nothing: its clock is its state, every pipe stays empty.\<close>

definition silent_host :: "nat git_host" where
  "silent_host =
     \<lparr>h_linux = True, h_env = (\<lambda>n. None), h_now = (\<lambda>h. (h, h)), h_sleep = (\<lambda>n h. h + n),
      h_open_root = Pair (Ok 0), h_open_dir = (\<lambda>d n. Pair (Err NOENT)), h_open_file = (\<lambda>d n. Pair (Err NOENT)),
      h_dup = (\<lambda>d. Pair (Ok d)), h_fstat = (\<lambda>d. Pair (Err IO)), h_statat = (\<lambda>d n. Pair (Err NOENT)),
      h_list_dir = (\<lambda>d. Pair (Ok [])), h_read = (\<lambda>d n. Pair (Ok [])), h_lstat = (\<lambda>p. Pair (Err NOENT)),
      h_read_link = (\<lambda>p. Pair (Err INVAL)), h_spawn = (\<lambda>c. Pair (Ok 1)),
      h_nonblocking = (\<lambda>c s. Pair (Ok ())), h_read_pipe = (\<lambda>c s n. Pair (Err AGAIN)),
      h_pipe_error = (\<lambda>e. \<lparr>ioe_kind = 0, ioe_raw = None\<rparr>), h_try_wait = (\<lambda>c. Pair (Ok None)),
      h_kill = (\<lambda>c. Pair (Ok ()))\<rparr>"

lemma silent_host_clock: "clock_runs silent_host (\<lambda>h. h)"
  by (simp add: clock_runs_def silent_host_def)

lemma queries_return_bounded_witness:
  "\<exists>r h'. run_query silent_host [RootDir, Normal ''copy''] None ExecPath Isolated (millis_of 5000) 0 = Some (r, h')
    \<and> answer_bounded PRODUCTION_BUDGET r"
  using queries_return_bounded[OF silent_host_clock] by blast

subsection \<open>The overrides of the configuration\<close>

definition fixed_overrides :: "(bytes \<times> bytes) list" where
  "fixed_overrides =
     [(''core.fsmonitor'', ''false''), (''core.hooksPath'', ''/dev/null''), (''core.pager'', ''cat''),
      (''color.ui'', ''false'')]"

definition driver_overrides :: "bytes \<Rightarrow> (bytes \<times> bytes) list" where
  "driver_overrides d =
     [(''filter.'' @ d @ ''.clean'', []), (''filter.'' @ d @ ''.process'', []), (''filter.'' @ d @ ''.required'', ''true'')]"

text \<open>Keys and values numbered from \<open>k\<close>.\<close>

fun numbered :: "nat \<Rightarrow> (bytes \<times> bytes) list \<Rightarrow> (bytes \<times> bytes) list" where
  "numbered k [] = []"
| "numbered k ((key, value) # kvs) =
     (config_key_name k, key) # (config_value_name k, value) # numbered (Suc k) kvs"

lemma numbered_append: "numbered k (xs @ ys) = numbered k xs @ numbered (k + length xs) ys"
  by (induction k xs rule: numbered.induct) simp_all

lemma filter_environment_numbered:
  "filter_environment ds = numbered BASE_CONFIG_COUNT (concat (map driver_overrides ds))"
proof -
  have "concat (map (\<lambda>(di, d). concat (map (\<lambda>(fi, field, value).
      let index = BASE_CONFIG_COUNT + di * 3 + fi in
      [(config_key_name index, ''filter.'' @ d @ ''.'' @ field), (config_value_name index, value)])
      (enumerate 0 filter_fields))) (enumerate n ds))
    = numbered (BASE_CONFIG_COUNT + n * 3) (concat (map driver_overrides ds))" for n
    by (induction ds arbitrary: n)
      (simp_all add: Let_def filter_fields_def driver_overrides_def numbered_append numeral_3_eq_3)
  from this[of 0] show ?thesis by (simp add: filter_environment_def)
qed

definition plain_environment :: "(bytes \<times> bytes) list" where
  "plain_environment = take 13 base_environment"

lemma base_environment_numbered: "base_environment = plain_environment @ numbered 0 fixed_overrides"
  by code_simp

lemma decimal_inject: "decimal m = decimal n \<longleftrightarrow> m = n"
proof -
  have digit: "decimal_digit a = decimal_digit b \<longleftrightarrow> a = b" if "a < 10" "b < 10" for a b
  proof -
    have "distinct ''0123456789''" "length ''0123456789'' = 10" by code_simp+
    then show ?thesis using that nth_eq_iff_index_eq[of "''0123456789''" a b] by (simp add: decimal_digit_def)
  qed
  have ne: "decimal k \<noteq> []" for k by (subst decimal.simps) simp
  have "decimal m = decimal n \<Longrightarrow> m = n"
  proof (induction m arbitrary: n rule: less_induct)
    case (less m)
    show ?case
    proof (cases "m < 10")
      case True
      show ?thesis
      proof (cases "n < 10")
        case True
        then show ?thesis using \<open>m < 10\<close> less(2) digit
          by (subst (asm) decimal.simps, subst (asm) decimal.simps) simp
      next
        case False
        then have "decimal n = decimal (n div 10) @ [decimal_digit (n mod 10)]" by (subst decimal.simps) simp
        moreover have "decimal m = [decimal_digit m]" using \<open>m < 10\<close> by (subst decimal.simps) simp
        ultimately show ?thesis using less(2) ne[of "n div 10"] by simp
      qed
    next
      case False
      then have m: "decimal m = decimal (m div 10) @ [decimal_digit (m mod 10)]" by (subst decimal.simps) simp
      show ?thesis
      proof (cases "n < 10")
        case True
        then have "decimal n = [decimal_digit n]" by (subst decimal.simps) simp
        then show ?thesis using less(2) m ne[of "m div 10"] by simp
      next
        case n: False
        then have "decimal n = decimal (n div 10) @ [decimal_digit (n mod 10)]" by (subst decimal.simps) simp
        then have "decimal (m div 10) = decimal (n div 10)" "m mod 10 = n mod 10"
          using less(2) m digit by simp_all
        then show ?thesis using less(1)[of "m div 10" "n div 10"] False by (metis div_mult_mod_eq div_less_dividend not_less
              numeral_less_iff one_less_numeral_iff semiring_norm(76) zero_less_numeral not_gr_zero)
      qed
    qed
  qed
  then show ?thesis by auto
qed

lemma config_names:
  "config_key_name i = config_key_name j \<longleftrightarrow> i = j" "config_value_name i = config_value_name j \<longleftrightarrow> i = j"
  "config_key_name i \<noteq> config_value_name j" "config_value_name j \<noteq> config_key_name i"
  by (simp_all add: config_key_name_def config_value_name_def decimal_inject)

lemma numbered_keys:
  "fst ` set (numbered k kvs) = config_key_name ` {k..<k + length kvs} \<union> config_value_name ` {k..<k + length kvs}"
proof (induction k kvs rule: numbered.induct)
  case (2 k key v kvs)
  have "{k..<k + length ((key, v) # kvs)} = insert k {Suc k..<Suc k + length kvs}" by auto
  then show ?case using 2 by auto
qed simp

lemma distinct_numbered: "distinct (map fst (numbered k kvs))"
proof (induction k kvs rule: numbered.induct)
  case (2 k key v kvs)
  have "config_key_name k \<notin> fst ` set (numbered (Suc k) kvs)" "config_value_name k \<notin> fst ` set (numbered (Suc k) kvs)"
    by (auto simp: numbered_keys config_names)
  then show ?case using 2 by (simp add: config_names)
qed simp

lemma numbered_lookup:
  "i < length kvs \<Longrightarrow> map_of (numbered k kvs) (config_key_name (k + i)) = Some (fst (kvs ! i))
    \<and> map_of (numbered k kvs) (config_value_name (k + i)) = Some (snd (kvs ! i))"
proof (induction k kvs arbitrary: i rule: numbered.induct)
  case (2 k key v kvs)
  then show ?case using 2(1)[of "i - 1"] by (cases i) (simp_all add: config_names)
qed simp

text \<open>None of the other variables is one of the numbered ones.\<close>

definition numbered_name :: "bytes \<Rightarrow> bool" where
  "numbered_name n = (prefix ''GIT_CONFIG_KEY_'' n \<or> prefix ''GIT_CONFIG_VALUE_'' n)"

lemma numbered_name_iff:
  "numbered_name (config_key_name i)" "numbered_name (config_value_name i)"
  by (simp_all add: numbered_name_def config_key_name_def config_value_name_def)

lemma plain_variables:
  "\<forall>n \<in> fst ` set plain_environment. \<not> numbered_name n \<and> n \<noteq> ''GIT_CONFIG_COUNT''"
  "distinct (map fst plain_environment)"
  "\<forall>n \<in> fst ` set (environment_of e). \<not> numbered_name n \<and> n \<noteq> ''GIT_CONFIG_COUNT'' \<and> n \<notin> fst ` set plain_environment"
  "distinct (map fst (environment_of e))" "\<not> numbered_name ''GIT_CONFIG_COUNT''"
proof -
  have plain: "plain_environment =
     [(''LC_ALL'', ''C''), (''LANG'', ''C''), (''GIT_OPTIONAL_LOCKS'', ''0''),
      (''GIT_TERMINAL_PROMPT'', ''0''), (''GCM_INTERACTIVE'', ''never''),
      (''GIT_ASKPASS'', ''/usr/bin/false''), (''SSH_ASKPASS'', ''/usr/bin/false''),
      (''GIT_EDITOR'', ''/usr/bin/false''), (''GIT_SEQUENCE_EDITOR'', ''/usr/bin/false''),
      (''GIT_PAGER'', ''cat''), (''PAGER'', ''cat''), (''PATH'', ''/usr/bin:/bin''),
      (''GIT_EXTERNAL_DIFF'', ''/usr/bin/false'')]"
    by (simp add: plain_environment_def base_environment_def)
  show "\<forall>n \<in> fst ` set plain_environment. \<not> numbered_name n \<and> n \<noteq> ''GIT_CONFIG_COUNT''"
    by (simp add: plain numbered_name_def)
  show "distinct (map fst plain_environment)" by (simp add: plain)
  show "\<forall>n \<in> fst ` set (environment_of e). \<not> numbered_name n \<and> n \<noteq> ''GIT_CONFIG_COUNT'' \<and> n \<notin> fst ` set plain_environment"
    by (cases e) (auto simp: plain optional_env_def numbered_name_def split: option.splits)
  show "distinct (map fst (environment_of e))"
    by (cases e) (auto simp: optional_env_def split: option.splits)
  show "\<not> numbered_name ''GIT_CONFIG_COUNT''" by (simp add: numbered_name_def)
qed

lemma map_of_skip: "x \<notin> fst ` set xs \<Longrightarrow> map_of (xs @ ys) x = map_of ys x"
  by (simp add: map_of_eq_None_iff[symmetric] map_add_def split: option.splits)

lemma command_environment:
  "cmd_env (git_command_for cwd q e d) =
     plain_environment @ numbered 0 fixed_overrides
     @ (''GIT_CONFIG_COUNT'', decimal (BASE_CONFIG_COUNT + length (query_drivers q) * 3))
     # numbered BASE_CONFIG_COUNT (concat (map driver_overrides (query_drivers q))) @ environment_of e"
  by (simp add: git_command_for_def base_environment_numbered filter_environment_numbered)

lemma length_overrides [simp]:
  "length fixed_overrides = BASE_CONFIG_COUNT" "length (concat (map driver_overrides ds)) = length ds * 3"
proof -
  show "length fixed_overrides = BASE_CONFIG_COUNT" by (simp add: fixed_overrides_def BASE_CONFIG_COUNT_def)
  show "length (concat (map driver_overrides ds)) = length ds * 3"
    by (induction ds) (simp_all add: driver_overrides_def)
qed

lemma numbered_names_only: "n \<in> fst ` set (numbered k kvs) \<Longrightarrow> numbered_name n"
  by (auto simp: numbered_keys numbered_name_iff)

lemma environment_distinct: "distinct (map fst (cmd_env (git_command_for cwd q e d)))"
proof -
  define a where "a = numbered 0 fixed_overrides"
  define b where "b = numbered BASE_CONFIG_COUNT (concat (map driver_overrides (query_drivers q)))"
  define w where "w = environment_of e"
  define v where "v = plain_environment"
  have names: "numbered_name n" if "n \<in> fst ` set a \<union> fst ` set b" for n
    using that unfolding a_def b_def by (elim UnE) (rule numbered_names_only, assumption)+
  have apart: "fst ` set a \<inter> fst ` set b = {}" by (auto simp: a_def b_def numbered_keys config_names)
  have all: "distinct (map fst a)" "distinct (map fst b)" "distinct (map fst w)" "distinct (map fst v)"
    by (simp_all only: a_def b_def w_def v_def distinct_numbered plain_variables)
  have other: "\<forall>n \<in> fst ` set v. \<not> numbered_name n \<and> n \<noteq> ''GIT_CONFIG_COUNT''"
    "\<forall>n \<in> fst ` set w. \<not> numbered_name n \<and> n \<noteq> ''GIT_CONFIG_COUNT'' \<and> n \<notin> fst ` set v"
    "\<not> numbered_name ''GIT_CONFIG_COUNT''"
    unfolding v_def w_def by (rule plain_variables)+
  have disjoint: "V \<inter> A = {} \<and> V \<inter> B = {} \<and> V \<inter> W = {} \<and> A \<inter> W = {} \<and> B \<inter> W = {}
      \<and> count \<notin> V \<and> count \<notin> W \<and> count \<notin> A \<and> count \<notin> B"
    if "\<And>n. n \<in> A \<union> B \<Longrightarrow> numbered_name n" "\<forall>n \<in> V. \<not> numbered_name n \<and> n \<noteq> count"
      "\<forall>n \<in> W. \<not> numbered_name n \<and> n \<noteq> count \<and> n \<notin> V" "\<not> numbered_name count" for V A B W and count :: bytes
    using that by blast
  note disjoint[of "fst ` set a" "fst ` set b" "fst ` set v" "''GIT_CONFIG_COUNT''" "fst ` set w", OF names other]
  then have "distinct (map fst v @ map fst a @ ''GIT_CONFIG_COUNT'' # map fst b @ map fst w)"
    using all apart by (simp add: Int_Un_distrib)
  then show ?thesis by (simp add: command_environment a_def b_def v_def w_def)
qed

lemma override_lookup:
  assumes "i < BASE_CONFIG_COUNT + length (query_drivers q) * 3"
  shows "map_of (cmd_env (git_command_for cwd q e d)) (config_key_name i)
      = Some (fst ((fixed_overrides @ concat (map driver_overrides (query_drivers q))) ! i))"
    "map_of (cmd_env (git_command_for cwd q e d)) (config_value_name i)
      = Some (snd ((fixed_overrides @ concat (map driver_overrides (query_drivers q))) ! i))"
proof -
  let ?drv = "concat (map driver_overrides (query_drivers q))"
  let ?rest = "numbered 0 fixed_overrides
      @ (''GIT_CONFIG_COUNT'', decimal (BASE_CONFIG_COUNT + length (query_drivers q) * 3))
      # numbered BASE_CONFIG_COUNT ?drv @ environment_of e"
  have skip: "map_of (cmd_env (git_command_for cwd q e d)) n = map_of ?rest n" if "numbered_name n" for n
    unfolding command_environment using that plain_variables(1) by (intro map_of_skip) blast
  have found: "map_of ?rest (config_key_name i) = Some (fst ((fixed_overrides @ ?drv) ! i))
      \<and> map_of ?rest (config_value_name i) = Some (snd ((fixed_overrides @ ?drv) ! i))"
  proof (cases "i < BASE_CONFIG_COUNT")
    case True
    then show ?thesis using numbered_lookup[of i fixed_overrides 0]
      by (simp add: nth_append map_add_Some_iff)
  next
    case False
    then obtain j where j: "i = BASE_CONFIG_COUNT + j" by (metis le_add_diff_inverse not_less)
    have ne: "config_key_name i \<noteq> ''GIT_CONFIG_COUNT''" "config_value_name i \<noteq> ''GIT_CONFIG_COUNT''"
      by (simp_all add: config_key_name_def config_value_name_def)
    have "config_key_name i \<notin> fst ` set (numbered 0 fixed_overrides)"
      "config_value_name i \<notin> fst ` set (numbered 0 fixed_overrides)"
      using False by (auto simp: numbered_keys config_names)
    then have "map_of ?rest (config_key_name i) = map_of (numbered BASE_CONFIG_COUNT ?drv @ environment_of e) (config_key_name i)"
      "map_of ?rest (config_value_name i) = map_of (numbered BASE_CONFIG_COUNT ?drv @ environment_of e) (config_value_name i)"
      using ne by (simp_all add: map_of_skip del: map_of_append)
    then show ?thesis using numbered_lookup[of j ?drv BASE_CONFIG_COUNT] assms j
      by (simp add: nth_append map_add_Some_iff)
  qed
  show "map_of (cmd_env (git_command_for cwd q e d)) (config_key_name i) = Some (fst ((fixed_overrides @ ?drv) ! i))"
    "map_of (cmd_env (git_command_for cwd q e d)) (config_value_name i) = Some (snd ((fixed_overrides @ ?drv) ! i))"
    using found by (simp_all add: skip numbered_name_iff)
qed

text \<open>
  No query runs code a repository configures.  In the environment of every Git command no
  variable is set twice, and the numbered configuration overrides Git reads from it are, in number
  and order, exactly: no fsmonitor, no hooks path, no pager, no color, and then for each filter
  driver of a status query an empty \<open>clean\<close>, an empty \<open>process\<close> and \<open>required\<close>.
\<close>

theorem overrides_always_apply:
  "let env = cmd_env (git_command_for cwd q e d);
       overrides = fixed_overrides @ concat (map driver_overrides (query_drivers q)) in
     distinct (map fst env)
     \<and> map_of env ''GIT_CONFIG_COUNT'' = Some (decimal (length overrides))
     \<and> map (\<lambda>i. (map_of env (config_key_name i), map_of env (config_value_name i))) [0..<length overrides]
       = map (\<lambda>(key, v). (Some key, Some v)) overrides"
proof -
  let ?env = "cmd_env (git_command_for cwd q e d)"
  let ?overrides = "fixed_overrides @ concat (map driver_overrides (query_drivers q))"
  have "map_of ?env ''GIT_CONFIG_COUNT'' = Some (decimal (length ?overrides))"
  proof (rule map_of_is_SomeI[OF environment_distinct])
    show "(''GIT_CONFIG_COUNT'', decimal (length ?overrides)) \<in> set ?env" by (simp add: command_environment)
  qed
  moreover have "map (\<lambda>i. (map_of ?env (config_key_name i), map_of ?env (config_value_name i))) [0..<length ?overrides]
       = map (\<lambda>(key, v). (Some key, Some v)) ?overrides"
    by (rule nth_equalityI) (simp_all add: override_lookup split_beta del: map_append)
  ultimately show ?thesis using environment_distinct[of cwd q e d] by (simp add: Let_def)
qed

end
