(* ===== verification/Git_Runs.thy ===== *)
theory Git_Runs
  imports Git_Inspector Git_Collector_Facts
begin

text \<open>
  Total correctness of the inspector's steps: \<open>wp m Q s\<close> says that \<open>m\<close> comes back from \<open>s\<close>, and
  that its answer and state satisfy \<open>Q\<close>.  A relation on runs that no host call breaks is a frame;
  every step that only asks the host keeps every frame.  The frames are interpreted on what the
  inspector's runs are about: the counter of scanned entries and the trace.
\<close>

subsection \<open>Weakest preconditions\<close>

definition wp :: "('h, 'e, 'a) io \<Rightarrow> ('e + 'a \<Rightarrow> 'h git_run \<Rightarrow> bool) \<Rightarrow> 'h git_run \<Rightarrow> bool" where
  "wp m Q s \<longleftrightarrow> (case m s of None \<Rightarrow> False | Some (r, s') \<Rightarrow> Q r s')"

named_theorems wp_simps \<open>weakest preconditions of the combinators\<close>

lemma wp_bind [wp_simps]:
  "wp (io_bind m f) Q s = wp m (\<lambda>r s1. case r of Inl e \<Rightarrow> Q (Inl e) s1 | Inr x \<Rightarrow> wp (f x) Q s1) s"
  by (auto simp: wp_def io_bind_def split: option.splits prod.splits sum.splits)

lemma wp_return [wp_simps]: "wp (io_return x) Q s = Q (Inr x) s"
  by (simp add: wp_def io_return_def)

lemma wp_fail [wp_simps]: "wp (io_fail e) Q s = Q (Inl e) s"
  by (simp add: wp_def io_fail_def)

lemma wp_lift [wp_simps]: "wp (io_lift r) Q s = Q r s"
  by (simp add: wp_def io_lift_def)

lemma wp_note [wp_simps]: "wp (io_note ev) Q s = Q (Inr ()) (s\<lparr>rn_trace := rn_trace s @ [ev]\<rparr>)"
  by (simp add: wp_def io_note_def)

lemma wp_attempt [wp_simps]: "wp (io_attempt m) Q s = wp m (\<lambda>r s'. Q (Inr r) s') s"
  by (auto simp: wp_def io_attempt_def split: option.splits prod.splits)

lemma wp_map_err [wp_simps]: "wp (io_map_err g m) Q s = wp m (\<lambda>r s'. Q (map_err g r) s') s"
  by (auto simp: wp_def io_map_err_def split: option.splits prod.splits)

lemma wp_mono: "\<lbrakk>wp m P s; \<And>r s'. P r s' \<Longrightarrow> Q r s'\<rbrakk> \<Longrightarrow> wp m Q s"
  by (auto simp: wp_def split: option.splits)

lemma wp_conj: "wp m (\<lambda>r s'. P r s' \<and> Q r s') s \<longleftrightarrow> wp m P s \<and> wp m Q s"
  by (auto simp: wp_def split: option.splits)

lemma wp_Some: "wp m Q s \<Longrightarrow> \<exists>r s'. m s = Some (r, s') \<and> Q r s'"
  by (auto simp: wp_def split: option.splits)

lemma wp_use: "\<lbrakk>wp m Q s; m s = Some (r, s')\<rbrakk> \<Longrightarrow> Q r s'"
  by (simp add: wp_def)

subsection \<open>Frames\<close>

definition keeps :: "('h git_run \<Rightarrow> 'h git_run \<Rightarrow> bool) \<Rightarrow> ('h, 'e, 'a) io \<Rightarrow> bool" where
  "keeps R m \<longleftrightarrow> (\<forall>s. wp m (\<lambda>r s'. R s s') s)"

lemma keepsD: "keeps R m \<Longrightarrow> wp m (\<lambda>r s'. R s s') s"
  by (simp add: keeps_def)

text \<open>A step that keeps \<open>R\<close> satisfies what holds of every answer and every state related by \<open>R\<close>.\<close>

lemma keeps_wp: "\<lbrakk>keeps R m; \<And>r s'. R s s' \<Longrightarrow> Q r s'\<rbrakk> \<Longrightarrow> wp m Q s"
  by (blast intro: wp_mono keepsD)

text \<open>Such a step in front of another; with \<open>map_err\<close> its errors are one issue.\<close>

lemma keeps_then:
  "\<lbrakk>keeps R m; \<And>e s1. R s s1 \<Longrightarrow> Q (Inl e) s1; \<And>x s1. R s s1 \<Longrightarrow> wp (f x) Q s1\<rbrakk> \<Longrightarrow> wp (io_bind m f) Q s"
  unfolding wp_bind by (erule keeps_wp) (auto split: sum.split)

lemma keeps_then_or:
  "\<lbrakk>keeps R m; \<And>s1. R s s1 \<Longrightarrow> Q (Inl i) s1; \<And>x s1. R s s1 \<Longrightarrow> wp (f x) Q s1\<rbrakk>
   \<Longrightarrow> wp (io_bind (io_map_err (\<lambda>e. i) m) f) Q s"
  unfolding wp_bind wp_map_err by (erule keeps_wp) (auto split: sum.split simp: result_simps)

named_theorems keeps_cases \<open>case distinctions\<close>

lemma keeps_if [keeps_cases]: "\<lbrakk>b \<Longrightarrow> keeps R m; \<not> b \<Longrightarrow> keeps R n\<rbrakk> \<Longrightarrow> keeps R (if b then m else n)"
  by simp

lemma keeps_sum [keeps_cases]:
  "\<lbrakk>\<And>e. x = Inl e \<Longrightarrow> keeps R (f e); \<And>y. x = Inr y \<Longrightarrow> keeps R (g y)\<rbrakk> \<Longrightarrow> keeps R (case x of Inl e \<Rightarrow> f e | Inr y \<Rightarrow> g y)"
  by (cases x) simp_all

lemma keeps_option [keeps_cases]:
  "\<lbrakk>v = None \<Longrightarrow> keeps R m; \<And>y. v = Some y \<Longrightarrow> keeps R (h y)\<rbrakk> \<Longrightarrow> keeps R (case v of None \<Rightarrow> m | Some y \<Rightarrow> h y)"
  by (cases v) simp_all

lemma keeps_prod [keeps_cases]: "(\<And>a b. p = (a, b) \<Longrightarrow> keeps R (k a b)) \<Longrightarrow> keeps R (case p of (a, b) \<Rightarrow> k a b)"
  by (cases p) simp

lemma keeps_nat [keeps_cases]:
  "\<lbrakk>n = 0 \<Longrightarrow> keeps R m; \<And>k. n = Suc k \<Longrightarrow> keeps R (h k)\<rbrakk> \<Longrightarrow> keeps R (case n of 0 \<Rightarrow> m | Suc k \<Rightarrow> h k)"
  by (cases n) simp_all

locale frame =
  fixes R :: "'h git_run \<Rightarrow> 'h git_run \<Rightarrow> bool"
  assumes frame_refl: "R s s"
    and frame_trans: "\<lbrakk>R s s1; R s1 s2\<rbrakk> \<Longrightarrow> R s s2"
    and frame_host: "R s (s\<lparr>rn_host := h\<rparr>)"
begin

lemma keeps_pure: "keeps R (io_return x)" "keeps R (io_fail e)" "keeps R (io_lift r)"
  by (simp_all add: keeps_def wp_simps frame_refl)

lemma keeps_call: "keeps R (io_call c)" "keeps R (io_now H)"
  by (simp_all add: keeps_def wp_def io_call_def io_now_def frame_host split: prod.splits)

lemma keeps_bind:
  assumes m: "keeps R m" and f: "\<And>x. keeps R (f x)"
  shows "keeps R (io_bind m f)"
proof -
  have "wp (f x) (\<lambda>r s'. R s s') s1" if "R s s1" for x s s1
    by (rule keeps_wp[OF f]) (rule frame_trans[OF that])
  then have "wp m (\<lambda>r s1. case r of Inl e \<Rightarrow> R s s1 | Inr x \<Rightarrow> wp (f x) (\<lambda>r s'. R s s') s1) s" for s
    by (intro keeps_wp[OF m]) (simp split: sum.split)
  then show ?thesis by (simp add: keeps_def wp_bind)
qed

lemma keeps_wrap: "keeps R m \<Longrightarrow> keeps R (io_attempt m)" "keeps R m \<Longrightarrow> keeps R (io_map_err g m)"
  by (simp_all add: keeps_def wp_simps)

lemma keeps_or: "keeps R (io_or e c)"
  unfolding io_or_def by (intro keeps_wrap keeps_call)

lemmas keeps_rules = keeps_pure keeps_call keeps_bind keeps_wrap keeps_or keeps_cases

lemma keeps_each: "(\<And>x. keeps R (f x)) \<Longrightarrow> keeps R (io_each f xs)"
  by (induction xs) (simp_all add: keeps_rules)

text \<open>The budget.\<close>

lemma keeps_budget:
  "keeps R (budget_new H limits)" "keeps R (query_timeout H B)" "keeps R (expired H B)"
  "keeps R (ensure_remaining H B)" "keeps R (required_timeout H B)"
  unfolding budget_new_def query_timeout_def ensure_remaining_def expired_def required_timeout_def
  by (intro keeps_rules)+

text \<open>File access.\<close>

lemma keeps_open_components: "keeps R (open_components H d p)"
  by (induction H d p rule: open_components.induct) (simp_all add: keeps_rules)

lemma keeps_open: "keeps R (open_absolute_directory H p)" "keeps R (open_relative_directory H root p)"
  "keeps R (identity_of H d)"
  unfolding open_absolute_directory_def open_relative_directory_def identity_of_def
  by (intro keeps_rules keeps_open_components)+

lemma keeps_read_open_file: "keeps R (read_open_file H d p limit)"
  unfolding read_open_file_def by (intro keeps_rules keeps_open)

lemma keeps_optional_found:
  "(\<And>x. keeps R (f x)) \<Longrightarrow> keeps R (optional_found required issue r f)"
  unfolding optional_found_def by (intro keeps_rules)

lemma keeps_reads: "keeps R (read_root_file H copy_root root p limit required)"
  "keeps R (read_absolute_file H p limit required)" "keeps R (stat_relative H root p)"
  "keeps R (stat_absolute_nofollow H p)"
  unfolding read_root_file_def read_absolute_file_def stat_relative_def stat_absolute_nofollow_def
  by (intro keeps_rules keeps_optional_found keeps_open keeps_read_open_file)+

lemma keeps_revalidate: "keeps R (revalidate_evidence H item)" "keeps R (revalidate_identity H p i)"
  "keeps R (revalidate_file_evidence H B evidence)"
  unfolding revalidate_evidence_def revalidate_identity_def revalidate_file_evidence_def
  by (intro keeps_rules keeps_reads keeps_open keeps_budget keeps_each)+

lemmas keeps_files = keeps_budget keeps_open keeps_optional_found keeps_reads keeps_revalidate keeps_each

end

subsection \<open>Frames of the inspector\<close>

text \<open>Nothing but the host has changed.\<close>

definition same_progress :: "'h git_run \<Rightarrow> 'h git_run \<Rightarrow> bool" where
  "same_progress s s' \<longleftrightarrow> rn_scanned s' = rn_scanned s \<and> rn_trace s' = rn_trace s"

interpretation quiet: frame same_progress
  by unfold_locales (simp_all add: same_progress_def)

text \<open>Entries may have been counted as well.\<close>

locale counting_frame = frame +
  assumes frame_scanned: "R s (s\<lparr>rn_scanned := n\<rparr>)"
begin

lemma keeps_consume: "keeps R (consume_scan_entry B)"
  by (auto simp: keeps_def wp_def consume_scan_entry_def Let_def frame_scanned)

text \<open>The walk.\<close>

lemma keeps_visit_entry: "keeps R (visit_entry H B d name kind w)"
  unfolding visit_entry_def enter_directory_def Let_def by (intro keeps_rules)

lemma keeps_scan_entries: "keeps R (scan_entries H B d es w)"
  by (induction es arbitrary: w) (simp_all add: keeps_rules keeps_budget keeps_consume keeps_visit_entry split: if_split)

lemma keeps_scan_directory: "keeps R (scan_directory H B d w)"
  unfolding scan_directory_def by (intro keeps_rules keeps_budget keeps_scan_entries)

lemma keeps_metadata_entries: "keeps R (metadata_entries H B metadata_root d es pending)"
proof -
  have "keeps R (metadata_entry H B metadata_root d name pending)" for name pending
    unfolding metadata_entry_def Let_def by (intro keeps_rules keeps_consume)
  then show ?thesis
    by (induction es arbitrary: pending) (simp_all add: keeps_rules keeps_budget)
qed

lemma keeps_metadata_directory: "keeps R (metadata_directory H B metadata_root d pending)"
  unfolding metadata_directory_def by (intro keeps_rules keeps_budget keeps_metadata_entries)

end

definition same_trace :: "'h git_run \<Rightarrow> 'h git_run \<Rightarrow> bool" where
  "same_trace s s' \<longleftrightarrow> rn_trace s' = rn_trace s"

interpretation untraced: counting_frame same_trace
  by unfold_locales (simp_all add: same_trace_def)

text \<open>The trace has grown by events that satisfy \<open>P\<close>.\<close>

definition adds :: "(git_event \<Rightarrow> bool) \<Rightarrow> 'h git_run \<Rightarrow> 'h git_run \<Rightarrow> bool" where
  "adds P s s' \<longleftrightarrow> (\<exists>evs. rn_trace s' = rn_trace s @ evs \<and> list_all P evs)"

lemma adds_trans: "\<lbrakk>adds P s s1; adds P s1 s2\<rbrakk> \<Longrightarrow> adds P s s2"
  unfolding adds_def by (metis append.assoc list_all_append)

interpretation adding: counting_frame "adds P"
  by unfold_locales (auto intro: adds_trans, auto simp: adds_def)

end
