(* ===== verification/Git_Walks.thy ===== *)
theory Git_Walks
  imports Git_Runs
begin

text \<open>
  The two walks of the inspector, over the directories of the copy and over those of a repository's
  metadata, come back with any limits and on any host: a directory leaves no more directories
  pending than it counted entries, and the entries are limited.  The walk of the copy also keeps to
  its depth and its number of repositories.
\<close>

subsection \<open>What a directory may leave pending\<close>

definition paid :: "inspection_budget \<Rightarrow> nat \<Rightarrow> nat \<Rightarrow> nat \<Rightarrow> nat \<Rightarrow> bool" where
  "paid B before pending_before after pending_after \<longleftrightarrow>
     before \<le> after \<and> pending_after \<le> pending_before + (after - before)
     \<and> (after = before \<or> after \<le> il_max_scan_entries (ib_limits B))"

lemma paid_refl [simp]: "paid B n p n p"
  by (simp add: paid_def)

lemma paid_trans: "\<lbrakk>paid B n p m q; paid B m q k r\<rbrakk> \<Longrightarrow> paid B n p k r"
  by (auto simp: paid_def)

text \<open>The measure of both walks.\<close>

definition effort :: "inspection_budget \<Rightarrow> nat \<Rightarrow> nat \<Rightarrow> nat" where
  "effort B scanned pending = 2 * (il_max_scan_entries (ib_limits B) - scanned) + pending"

lemma paid_effort: "paid B n p m q \<Longrightarrow> effort B m q < effort B n (Suc p)"
  by (auto simp: paid_def effort_def)

lemma wp_consume:
  "wp (consume_scan_entry B) Q s =
     (if il_max_scan_entries (ib_limits B) < Suc (rn_scanned s)
      then Q (Inl ScanLimitReached) (s\<lparr>rn_scanned := Suc (rn_scanned s)\<rparr>)
      else Q (Inr ()) (s\<lparr>rn_scanned := Suc (rn_scanned s)\<rparr>))"
  by (simp add: wp_def consume_scan_entry_def Let_def)

lemma wp_call:
  "(\<And>r s'. rn_scanned s' = rn_scanned s \<Longrightarrow> Q r s') \<Longrightarrow> wp (io_call c) Q s"
  by (rule keeps_wp[OF quiet.keeps_call(1)]) (simp add: same_progress_def)

lemma wp_or: "(\<And>r s'. rn_scanned s' = rn_scanned s \<Longrightarrow> Q r s') \<Longrightarrow> wp (io_or e c) Q s"
  unfolding io_or_def wp_simps by (rule wp_call)

lemma wp_expired:
  "(\<And>late s'. rn_scanned s' = rn_scanned s \<Longrightarrow> Q (Inr late) s') \<Longrightarrow> wp (expired H B) Q s"
  by (auto simp: expired_def wp_def io_bind_def io_now_def io_return_def split: prod.splits)

lemma wp_ensure_remaining:
  "(\<And>r s'. rn_scanned s' = rn_scanned s \<Longrightarrow> Q r s') \<Longrightarrow> wp (ensure_remaining H B) Q s"
  by (rule keeps_wp[OF quiet.keeps_budget(4)]) (simp add: same_progress_def)

subsection \<open>The bounds of the walk of the copy\<close>

definition directory_ok :: "inspection_limits \<Rightarrow> pending_directory \<Rightarrow> bool" where
  "directory_ok L d \<longleftrightarrow> pd_depth d \<le> il_max_depth L \<and> length (pd_relative d) = pd_depth d
     \<and> list_all is_normal (pd_relative d)"

definition walk_ok :: "inspection_limits \<Rightarrow> walk \<Rightarrow> bool" where
  "walk_ok L w \<longleftrightarrow>
     list_all (directory_ok L) (wk_pending w)
     \<and> length (wk_candidates w) \<le> il_max_repositories L
     \<and> list_all (\<lambda>p. length p \<le> il_max_depth L \<and> list_all is_normal p) (wk_candidates w)
     \<and> (wk_completeness w = Complete \<longleftrightarrow> wk_issues w = [])"

lemma walk_ok_flag [simp]: "walk_ok L w \<Longrightarrow> walk_ok L (walk_flag i w)" "walk_ok L w \<Longrightarrow> walk_ok L (walk_stop i w)"
  by (auto simp: walk_ok_def walk_flag_def walk_stop_def)

lemma walk_pending [simp]: "wk_pending (walk_flag i w) = wk_pending w" "wk_pending (walk_stop i w) = []"
  by (simp_all add: walk_flag_def walk_stop_def)

lemma note_candidate_ok:
  assumes "walk_ok (ib_limits B) w" "directory_ok (ib_limits B) d"
  shows "walk_ok (ib_limits B) (note_candidate B (pd_relative d) kind w)"
    "wk_pending (note_candidate B (pd_relative d) kind w) = wk_pending w"
proof -
  have "length (wk_candidates w) \<le> il_max_repositories (ib_limits B)" using assms(1) by (simp add: walk_ok_def)
  then show "walk_ok (ib_limits B) (note_candidate B (pd_relative d) kind w)"
    using assms by (simp add: note_candidate_def) (simp add: walk_ok_def directory_ok_def)
  show "wk_pending (note_candidate B (pd_relative d) kind w) = wk_pending w" by (simp add: note_candidate_def)
qed

lemma walk_push:
  "\<lbrakk>walk_ok L w; directory_ok L e\<rbrakk> \<Longrightarrow> walk_ok L (w\<lparr>wk_pending := e # wk_pending w\<rparr>)"
  by (simp add: walk_ok_def)

lemma walk_attribute [simp]: "walk_ok L (w\<lparr>wk_attributes := a\<rparr>) = walk_ok L w"
  by (simp add: walk_ok_def)

lemma child_ok:
  "\<lbrakk>directory_ok L d; pd_depth d \<noteq> il_max_depth L\<rbrakk>
   \<Longrightarrow> directory_ok L \<lparr>pd_relative = path_join (pd_relative d) [Normal name], pd_fd = n, pd_depth = Suc (pd_depth d)\<rparr>"
  by (simp add: directory_ok_def)

lemma enter_directory_wp:
  assumes "walk_ok (ib_limits B) w" "directory_ok (ib_limits B) d"
  shows "wp (enter_directory H B d name (path_join (pd_relative d) [Normal name]) w)
    (\<lambda>r s'. \<exists>w'. r = Inr w' \<and> walk_ok (ib_limits B) w' \<and> length (wk_pending w') \<le> Suc (length (wk_pending w))
       \<and> rn_scanned s' = rn_scanned s) s"
proof (cases "pd_depth d = il_max_depth (ib_limits B)")
  case True
  then show ?thesis using assms by (simp add: enter_directory_def wp_simps)
next
  case False
  show ?thesis
    unfolding enter_directory_def if_not_P[OF False] wp_simps sum.case
    by (rule wp_call)
      (auto simp: assms(1) simp del: path_join_normal split: sum.split
        intro!: walk_push[OF assms(1)] child_ok[OF assms(2) False, unfolded path_join_normal])
qed

lemma visit_entry_wp:
  assumes "walk_ok (ib_limits B) w" "directory_ok (ib_limits B) d"
  shows "wp (visit_entry H B d name kind w)
    (\<lambda>r s'. \<exists>w'. r = Inr w' \<and> walk_ok (ib_limits B) w' \<and> length (wk_pending w') \<le> Suc (length (wk_pending w))
       \<and> rn_scanned s' = rn_scanned s) s"
proof -
  define v where "v = (if name = ''.gitattributes'' \<and> kind = RegularType
    then w\<lparr>wk_attributes := wk_attributes w @ [path_join (pd_relative d) [Normal name]]\<rparr> else w)"
  have v: "walk_ok (ib_limits B) v" "wk_pending v = wk_pending w" using assms(1) by (simp_all add: v_def)
  show ?thesis
  proof (cases "name \<noteq> ''.git'' \<and> kind = DirectoryType")
    case True
    then have e: "visit_entry H B d name kind w = enter_directory H B d name (path_join (pd_relative d) [Normal name]) v"
      by (simp add: visit_entry_def Let_def v_def del: path_join_normal)
    show ?thesis unfolding e v(2)[symmetric] by (rule enter_directory_wp[OF v(1) assms(2)])
  next
    case False
    then show ?thesis using v note_candidate_ok[OF assms]
      by (auto simp: visit_entry_def Let_def wp_simps v_def[symmetric] simp del: path_join_normal)
  qed
qed

text \<open>What the rest of a directory leaves: a walk within its bounds, paid for.\<close>

definition walked :: "inspection_budget \<Rightarrow> walk \<Rightarrow> 'h git_run \<Rightarrow> git_inspection_issue + walk \<Rightarrow> 'h git_run \<Rightarrow> bool" where
  "walked B w s r s' \<longleftrightarrow>
     (\<exists>w'. r = Inr w' \<and> walk_ok (ib_limits B) w'
        \<and> rn_scanned s \<le> rn_scanned s' \<and> rn_scanned s' \<le> max (Suc (rn_scanned s)) (Suc (il_max_scan_entries (ib_limits B)))
        \<and> (wk_pending w' = []
           \<or> paid B (rn_scanned s) (length (wk_pending w)) (rn_scanned s') (length (wk_pending w'))))"

lemma walked_stop:
  "\<lbrakk>walk_ok (ib_limits B) w; rn_scanned s' = rn_scanned s \<or> rn_scanned s' = Suc (rn_scanned s)\<rbrakk>
   \<Longrightarrow> walked B v s (Inr (walk_stop i w)) s'"
  by (auto simp: walked_def)

lemma walked_here: "\<lbrakk>walk_ok (ib_limits B) w; wk_pending w = wk_pending v; rn_scanned s' = rn_scanned s\<rbrakk> \<Longrightarrow> walked B v s (Inr w) s'"
  by (simp add: walked_def)

lemma walked_from:
  "\<lbrakk>walked B w1 s1 r s'; length (wk_pending w1) = length (wk_pending w); rn_scanned s1 = rn_scanned s\<rbrakk> \<Longrightarrow> walked B w s r s'"
  by (simp add: walked_def)

lemma walked_counted:
  assumes "walked B w1 s1 r s'" "length (wk_pending w1) \<le> Suc (length (wk_pending w))"
    "rn_scanned s1 = Suc (rn_scanned s)" "Suc (rn_scanned s) \<le> il_max_scan_entries (ib_limits B)"
  shows "walked B w s r s'"
proof -
  have "paid B (rn_scanned s) (length (wk_pending w)) (rn_scanned s1) (length (wk_pending w1))"
    using assms(2-4) by (simp add: paid_def)
  then have "wk_pending w' = [] \<or> paid B (rn_scanned s1) (length (wk_pending w1)) m (length (wk_pending w'))
    \<Longrightarrow> wk_pending w' = [] \<or> paid B (rn_scanned s) (length (wk_pending w)) m (length (wk_pending w'))" for w' :: walk and m
    using paid_trans by blast
  moreover obtain w' where "r = Inr w'" "walk_ok (ib_limits B) w'" "rn_scanned s1 \<le> rn_scanned s'"
    "rn_scanned s' \<le> max (Suc (rn_scanned s1)) (Suc (il_max_scan_entries (ib_limits B)))"
    "wk_pending w' = [] \<or> paid B (rn_scanned s1) (length (wk_pending w1)) (rn_scanned s') (length (wk_pending w'))"
    using assms(1) unfolding walked_def by blast
  ultimately show ?thesis using assms(3,4) unfolding walked_def by (intro exI[of _ w']) simp
qed

lemma scan_entries_wp:
  "\<lbrakk>walk_ok (ib_limits B) w; directory_ok (ib_limits B) d\<rbrakk> \<Longrightarrow> wp (scan_entries H B d es w) (walked B w s) s"
proof (induction es arbitrary: w s)
  case Nil
  then show ?case by (simp add: wp_simps walked_here)
next
  case (Cons entry es)
  note d = Cons.prems(2)
  have skip: "wp (scan_entries H B d es v) (walked B w s) s1"
    if "walk_ok (ib_limits B) v" "wk_pending v = wk_pending w" "rn_scanned s1 = rn_scanned s" for v s1
    by (rule wp_mono[OF Cons.IH[OF that(1) d]]) (erule walked_from, simp_all add: that)
  have count: "wp (scan_entries H B d es v) (walked B w s) s1"
    if "walk_ok (ib_limits B) v" "length (wk_pending v) \<le> Suc (length (wk_pending w))"
      "rn_scanned s1 = Suc (rn_scanned s)" "Suc (rn_scanned s) \<le> il_max_scan_entries (ib_limits B)" for v s1
    by (rule wp_mono[OF Cons.IH[OF that(1) d]]) (erule walked_counted, simp_all add: that)
  have visit: "wp (io_bind (visit_entry H B d name kind w) (\<lambda>w'. scan_entries H B d es w')) (walked B w s) s1"
    if "rn_scanned s1 = Suc (rn_scanned s)" "Suc (rn_scanned s) \<le> il_max_scan_entries (ib_limits B)" for name kind s1
    unfolding wp_bind
    by (rule wp_mono[OF visit_entry_wp[OF Cons.prems]]) (use that count in \<open>auto split: sum.split\<close>)
  show ?case
  proof (cases entry)
    case (Inl e)
    show ?thesis unfolding scan_entries.simps Inl
      by (simp only: wp_simps, rule wp_expired) (auto simp: wp_simps Cons.prems(1) intro!: walked_stop skip)
  next
    case (Inr name)
    have entry: "wp (io_bind (io_attempt (io_call (h_statat H (pd_fd d) name))) (\<lambda>r.
        case r of
          Inl _ \<Rightarrow> scan_entries H B d es (walk_flag ScanFailed w)
        | Inr st \<Rightarrow> io_bind (visit_entry H B d name (file_type_of (st_mode st)) w) (\<lambda>w'.
            scan_entries H B d es w'))) (walked B w s) s1"
      if "rn_scanned s1 = Suc (rn_scanned s)" "Suc (rn_scanned s) \<le> il_max_scan_entries (ib_limits B)" for s1
      unfolding wp_bind[of "io_attempt m" for m] wp_attempt sum.case
      by (rule wp_call) (auto split: sum.split intro!: visit count simp: that Cons.prems(1))
    show ?thesis unfolding scan_entries.simps Inr wp_bind[of "expired H B"]
      by (rule wp_expired)
        (auto simp: wp_simps(2) Cons.prems(1) wp_bind[of "io_attempt (consume_scan_entry B)"] wp_attempt wp_consume
          not_less intro!: walked_stop skip entry)
  qed
qed

lemma scan_directory_wp:
  assumes "walk_ok (ib_limits B) w" "directory_ok (ib_limits B) d"
  shows "wp (scan_directory H B d w) (walked B w s) s"
proof -
  have entries: "wp (scan_entries H B d es w) (walked B w s) s1" if "rn_scanned s1 = rn_scanned s" for es s1
    by (rule wp_mono[OF scan_entries_wp[OF assms]]) (erule walked_from, simp_all add: that)
  have listed: "wp (io_bind (io_attempt (io_call (h_list_dir H (pd_fd d)))) (\<lambda>r.
      case r of Inl _ \<Rightarrow> io_return (walk_flag ScanFailed w) | Inr es \<Rightarrow> scan_entries H B d es w)) (walked B w s) s1"
    if "rn_scanned s1 = rn_scanned s" for s1
    unfolding wp_bind wp_attempt sum.case
    by (rule wp_call) (auto split: sum.split intro!: entries walked_here simp: that assms(1) wp_simps(2))
  show ?thesis unfolding scan_directory_def wp_bind[of "expired H B"]
    by (rule wp_expired) (auto simp: wp_simps(2) assms(1) intro!: walked_stop listed)
qed

text \<open>The walk: it comes back, within its bounds, and with nothing pending.\<close>

definition walk_done :: "inspection_budget \<Rightarrow> 'h git_run \<Rightarrow> git_inspection_issue + walk \<Rightarrow> 'h git_run \<Rightarrow> bool" where
  "walk_done B s r s' \<longleftrightarrow>
     (\<exists>w'. r = Inr w' \<and> walk_ok (ib_limits B) w')
     \<and> rn_trace s' = rn_trace s
     \<and> rn_scanned s' \<le> max (Suc (rn_scanned s)) (Suc (il_max_scan_entries (ib_limits B)))"

lemma walk_loop_wp:
  "walk_ok (ib_limits B) w \<Longrightarrow> wp (walk_loop H B w) (walk_done B s) s"
proof (induction "effort B (rn_scanned s) (length (wk_pending w))" arbitrary: w s rule: less_induct)
  case less
  show ?case
  proof (cases "wk_pending w")
    case Nil
    then show ?thesis using less.prems by (simp add: wp_def walk_loop.simps[of H B w] walk_done_def)
  next
    case (Cons d rest)
    define v where "v = w\<lparr>wk_pending := rest\<rparr>"
    have d: "directory_ok (ib_limits B) d" and v: "walk_ok (ib_limits B) v"
      using less.prems Cons by (simp_all add: v_def walk_ok_def)
    obtain r s1 where r: "scan_directory H B d v s = Some (r, s1)" "walked B v s r s1"
      using wp_Some[OF scan_directory_wp[OF v d, of H s]] by blast
    have trace: "rn_trace s1 = rn_trace s"
      using wp_use[OF keepsD[OF untraced.keeps_scan_directory] r(1)] by (simp add: same_trace_def)
    obtain w' where w': "r = Inr w'" "walk_ok (ib_limits B) w'" "rn_scanned s \<le> rn_scanned s1"
      "rn_scanned s1 \<le> max (Suc (rn_scanned s)) (Suc (il_max_scan_entries (ib_limits B)))"
      "wk_pending w' = [] \<or> paid B (rn_scanned s) (length (wk_pending v)) (rn_scanned s1) (length (wk_pending w'))"
      using r(2) unfolding walked_def by blast
    have unfold: "wp (walk_loop H B w) Q s = wp (walk_loop H B w') Q s1" for Q
      by (simp add: wp_def walk_loop.simps[of H B w s] Cons v_def[symmetric] r(1) w'(1))
    show ?thesis
    proof (cases "wk_pending w' = []")
      case True
      then show ?thesis unfolding unfold using w' trace
        by (simp add: wp_def walk_loop.simps[of H B w'] walk_done_def)
    next
      case False
      then have p: "paid B (rn_scanned s) (length rest) (rn_scanned s1) (length (wk_pending w'))"
        using w'(5) by (simp add: v_def)
      then have "effort B (rn_scanned s1) (length (wk_pending w')) < effort B (rn_scanned s) (length (wk_pending w))"
        using paid_effort[OF p] by (simp add: Cons)
      from less.hyps[OF this w'(2)] have "wp (walk_loop H B w') (walk_done B s1) s1" .
      moreover have "walk_done B s x s2" if "walk_done B s1 x s2" for x s2
        using that trace p unfolding walk_done_def paid_def by auto
      ultimately show ?thesis unfolding unfold by (rule wp_mono)
    qed
  qed
qed

subsection \<open>Discovery\<close>

lemma start_ok:
  "walk_ok L \<lparr>wk_pending = [\<lparr>pd_relative = [], pd_fd = d, pd_depth = 0\<rparr>], wk_candidates = [], wk_attributes = [],
     wk_completeness = Complete, wk_issues = []\<rparr>"
  by (simp add: walk_ok_def directory_ok_def)

text \<open>What discovery may answer.\<close>

definition discovery_ok :: "inspection_limits \<Rightarrow> git_inspection_issue + discovery \<Rightarrow> bool" where
  "discovery_ok L r =
     (case r of
        Inl i \<Rightarrow> i = InvalidCopyRoot \<or> i = ScanFailed
      | Inr D \<Rightarrow>
          length (dc_candidates D) \<le> il_max_repositories L
          \<and> sorted_wrt (<) (dc_candidates D)
          \<and> list_all (\<lambda>p. length p \<le> il_max_depth L \<and> list_all is_normal p) (dc_candidates D)
          \<and> (dc_completeness D = Complete) = (dc_issues D = []))"

lemma found_ok:
  assumes "walk_ok L w"
  shows "discovery_ok L (Inr \<lparr>dc_root_fd = root, dc_root_identity = i, dc_candidates = sorted_list_of_set (set (wk_candidates w)),
      dc_attribute_files = wk_attributes w, dc_completeness = wk_completeness w, dc_issues = wk_issues w\<rparr>)"
proof -
  have "length (sorted_list_of_set (set (wk_candidates w))) \<le> length (wk_candidates w)" by (simp add: card_length)
  then show ?thesis using assms by (auto simp: discovery_ok_def walk_ok_def list_all_iff)
qed

definition discovered :: "inspection_budget \<Rightarrow> 'h git_run \<Rightarrow> git_inspection_issue + discovery \<Rightarrow> 'h git_run \<Rightarrow> bool" where
  "discovered B s r s' \<longleftrightarrow> discovery_ok (ib_limits B) r \<and> rn_trace s' = rn_trace s
     \<and> rn_scanned s' \<le> max (Suc (rn_scanned s)) (Suc (il_max_scan_entries (ib_limits B)))"

lemma discovered_fail:
  "same_progress s s' \<Longrightarrow> discovered B s (Inl InvalidCopyRoot) s'" "same_progress s s' \<Longrightarrow> discovered B s (Inl ScanFailed) s'"
  by (simp_all add: discovered_def discovery_ok_def same_progress_def)

lemma walk_discovered:
  assumes "same_progress s s1"
  shows "wp (io_bind (walk_loop H B
        \<lparr>wk_pending = [\<lparr>pd_relative = [], pd_fd = d, pd_depth = 0\<rparr>], wk_candidates = [], wk_attributes = [],
         wk_completeness = Complete, wk_issues = []\<rparr>) (\<lambda>w.
      io_return \<lparr>dc_root_fd = root, dc_root_identity = i, dc_candidates = sorted_list_of_set (set (wk_candidates w)),
        dc_attribute_files = wk_attributes w, dc_completeness = wk_completeness w, dc_issues = wk_issues w\<rparr>))
    (discovered B s) s1"
  unfolding wp_bind
  by (rule wp_mono[OF walk_loop_wp[OF start_ok]])
    (use assms found_ok in \<open>auto simp: walk_done_def same_progress_def wp_return discovered_def\<close>)

lemma discover_wp: "wp (discover H B copy_root) (discovered B s) s"
proof -
  note same = discovered_fail quiet.frame_trans
  show ?thesis
    unfolding discover_def io_or_def
    by (rule keeps_then_or[OF quiet.keeps_open(1)], erule discovered_fail,
        rule keeps_then_or[OF quiet.keeps_open(3)], blast intro: same)
      (auto simp: wp_fail intro!: keeps_then_or[OF quiet.keeps_call(1)] walk_discovered intro: same)
qed

text \<open>
  C19. Discovery comes back on every host and with any limits, without a Git query: it answers at
  most the allowed number of repositories, each once and in the order of their paths, none deeper
  than the limit and none with a component that leaves the copy, and it is complete exactly when it
  has no issue to report; it counts at most one entry more than allowed.
\<close>

theorem discovery_returns_bounded:
  "\<exists>r s'. discover H B copy_root (fresh_run h) = Some (r, s')
     \<and> discovery_ok (ib_limits B) r \<and> rn_trace s' = [] \<and> rn_scanned s' \<le> Suc (il_max_scan_entries (ib_limits B))"
  using wp_Some[OF discover_wp, of H B copy_root "fresh_run h"] by (auto simp: fresh_run_def discovered_def)

subsection \<open>Metadata\<close>

text \<open>What a step that may add to the pending directories owes: nothing, or entries it counted.\<close>

definition charged :: "inspection_budget \<Rightarrow> nat \<Rightarrow> nat \<Rightarrow> 'e + pending_directory list \<Rightarrow> 'h git_run \<Rightarrow> bool" where
  "charged B scanned pending r s' \<longleftrightarrow>
     (case r of Inl e \<Rightarrow> True | Inr pending' \<Rightarrow> paid B scanned pending (rn_scanned s') (length pending'))"

lemma charged_simps [simp]: "charged B n p (Inl e) s'" "charged B n p (Inr ds) s' = paid B n p (rn_scanned s') (length ds)"
  by (simp_all add: charged_def)

lemma charged_trans: "\<lbrakk>charged B m q r s'; paid B n p m q\<rbrakk> \<Longrightarrow> charged B n p r s'"
  by (auto simp: charged_def split: sum.splits intro: paid_trans)

lemma metadata_entry_wp: "wp (metadata_entry H B metadata_root d name pending) (charged B (rn_scanned s) (length pending)) s"
  by (auto simp: metadata_entry_def wp_bind wp_consume Let_def wp_fail wp_return not_less paid_def simp del: path_join_normal
      intro!: wp_or split: sum.split)

lemma metadata_entries_wp:
  "wp (metadata_entries H B metadata_root d es pending) (charged B (rn_scanned s) (length pending)) s"
proof (induction es arbitrary: pending s)
  case Nil
  then show ?case by (simp add: wp_simps)
next
  case (Cons entry es)
  have later: "wp (metadata_entries H B metadata_root d es pending') (charged B (rn_scanned s) (length pending)) s1"
    if "paid B (rn_scanned s) (length pending) (rn_scanned s1) (length pending')" for pending' s1
    by (rule wp_mono[OF Cons.IH]) (erule charged_trans[OF _ that])
  have entry: "wp (io_bind (metadata_entry H B metadata_root d name pending) (\<lambda>pending'.
        metadata_entries H B metadata_root d es pending')) (charged B (rn_scanned s) (length pending)) s1"
    if "rn_scanned s1 = rn_scanned s" for name s1
    unfolding wp_bind
    by (rule wp_mono[OF metadata_entry_wp]) (use that in \<open>auto simp: charged_def split: sum.splits intro: later\<close>)
  show ?case
    unfolding metadata_entries.simps wp_bind[of "ensure_remaining H B"]
    by (rule wp_ensure_remaining) (auto split: sum.split intro!: later entry simp: wp_fail)
qed

lemma metadata_directory_wp:
  "wp (metadata_directory H B metadata_root d pending) (charged B (rn_scanned s) (length pending)) s"
proof -
  have "wp (metadata_entries H B metadata_root d es pending) (charged B (rn_scanned s) (length pending)) s1"
    if "rn_scanned s1 = rn_scanned s" for es s1
    using metadata_entries_wp[of H B metadata_root d es pending s1] by (simp only: that)
  then show ?thesis
    unfolding metadata_directory_def wp_bind
    by (intro wp_ensure_remaining) (auto split: sum.split intro!: wp_or)
qed

context counting_frame
begin

lemma keeps_metadata_loop: "keeps R (metadata_loop H B metadata_root pending)"
proof -
  have "wp (metadata_loop H B metadata_root pending) (\<lambda>r s'. R s s') s" for s
  proof (induction "effort B (rn_scanned s) (length pending)" arbitrary: pending s rule: less_induct)
    case less
    show ?case
    proof (cases pending)
      case Nil
      then show ?thesis by (simp add: wp_def metadata_loop.simps[of H B metadata_root "[]"] frame_refl)
    next
      case (Cons d rest)
      obtain r s1 where r: "metadata_directory H B metadata_root d rest s = Some (r, s1)"
        "charged B (rn_scanned s) (length rest) r s1"
        using wp_Some[OF metadata_directory_wp[of H B metadata_root d rest s]] by blast
      have R: "R s s1" by (rule wp_use[OF keepsD[OF keeps_metadata_directory] r(1)])
      show ?thesis
      proof (cases r)
        case (Inl e)
        then show ?thesis using r(1) R by (simp add: wp_def Cons metadata_loop.simps[of H B metadata_root "d # rest"])
      next
        case (Inr pending')
        have p: "paid B (rn_scanned s) (length rest) (rn_scanned s1) (length pending')" using r(2) Inr by simp
        have "wp (metadata_loop H B metadata_root pending') (\<lambda>r s'. R s1 s') s1"
          using less.hyps paid_effort[OF p] by (simp add: Cons)
        then have "wp (metadata_loop H B metadata_root pending') (\<lambda>r s'. R s s') s1"
          by (rule wp_mono) (rule frame_trans[OF R])
        then show ?thesis
          by (simp add: wp_def Cons metadata_loop.simps[of H B metadata_root "d # rest"] r(1) Inr)
      qed
    qed
  qed
  then show ?thesis by (simp add: keeps_def)
qed

lemma keeps_scan_metadata: "keeps R (scan_metadata_nofollow H B root metadata_root)"
  unfolding scan_metadata_nofollow_def by (intro keeps_rules keeps_files keeps_metadata_loop)

end

end
