(* ===== verification/Git_Evidence.thy ===== *)
theory Git_Evidence
  imports Git_Walks "HOL-Library.Multiset"
begin

text \<open>
  What an inspection rests on: it comes back on every host whose clock runs; the queries it makes
  come in phases, and none depends on a repository before its phase; and a state it reports of a
  repository comes from a status query that the required revalidations and an accepted listing of
  the index frame.
\<close>

subsection \<open>Preflight\<close>

definition queries_return :: "'h git_host \<Rightarrow> bool" where
  "queries_return H \<longleftrightarrow> (\<forall>cwd prevalidated query environment timeout h.
     run_query H cwd prevalidated query environment timeout h \<noteq> None)"

lemma queries_return: "clock_runs H clock \<Longrightarrow> queries_return H"
  unfolding queries_return_def using run_query_returns by (metis option.discI)

text \<open>A query that depends on no repository.\<close>

fun preflight_event :: "git_event \<Rightarrow> bool" where
  "preflight_event (QueryRan cwd None ExecPath r) = True"
| "preflight_event (QueryRan cwd None (Config file) r) = True"
| "preflight_event _ = False"

lemma preflight_event_iff:
  "preflight_event ev \<longleftrightarrow> (\<exists>cwd q r. ev = QueryRan cwd None q r \<and> (q = ExecPath \<or> (\<exists>file. q = Config file)))"
  by (cases ev rule: preflight_event.cases) auto

locale preflight_frame = counting_frame +
  assumes frame_event: "preflight_event ev \<Longrightarrow> R s (s\<lparr>rn_host := h, rn_trace := rn_trace s @ [ev]\<rparr>)"
begin

lemma keeps_query:
  assumes "queries_return H" "\<And>r. preflight_event (QueryRan cwd p q r)"
  shows "keeps R (run_mapped H cwd p q env timeout)"
proof -
  have "keeps R (io_query H cwd p q env timeout)"
    using assms frame_event unfolding keeps_def wp_def io_query_def queries_return_def
    by (auto split: option.splits prod.splits)
  then show ?thesis unfolding run_mapped_def by (intro keeps_rules)
qed

lemma keeps_parse_config: "queries_return H \<Longrightarrow> keeps R (parse_config_file H B cwd file)"
  unfolding parse_config_file_def by (intro keeps_rules keeps_files keeps_query) simp_all

lemma keeps_null_device: "keeps R (validate_null_device H p)"
  unfolding validate_null_device_def by (intro keeps_rules)

lemma keeps_environment: "keeps R (validate_environment_directory H v)" "keeps R (validate_selected H v)"
  "keeps R (parse_runtime_prefix H out)" "keeps R (resolve_system_path H p)"
  unfolding validate_environment_directory_def validate_selected_def validate_selected_source_def
    parse_runtime_prefix_def resolve_system_path_def Let_def
  by (intro keeps_rules keeps_files keeps_null_device)+

lemma keeps_read_sources: "queries_return H \<Longrightarrow> keeps R (read_sources H B copy_root sources g)"
  by (induction sources arbitrary: g) (simp_all add: keeps_rules keeps_files keeps_parse_config)

lemma keeps_read_system_attributes: "keeps R (read_system_attributes H B sources g)"
  by (induction sources arbitrary: g) (simp_all add: keeps_rules keeps_files)

lemma keeps_preflight_sources:
  assumes "queries_return H"
  shows "keeps R (preflight_sources H B copy_root E)"
  unfolding preflight_sources_def system_sources_def system_attributes_def
  by (intro keeps_rules keeps_files keeps_environment keeps_query[OF assms] keeps_read_sources[OF assms]
      keeps_read_system_attributes) simp_all

text \<open>One repository.\<close>

lemma keeps_traverse: "keeps R (descend H ds p)" "keeps R (traverse_reference H ds at p)"
proof -
  show "keeps R (descend H ds p)" by (induction H ds p rule: descend.induct) (simp_all add: keeps_rules)
  show "keeps R (traverse_reference H ds at p)"
    by (induction H ds at p rule: traverse_reference.induct) (simp_all add: keeps_rules)
qed

lemma keeps_resolve: "keeps R (resolve_internal_reference H copy_root base reference)"
  unfolding resolve_internal_reference_def validate_reference_traversal_def Let_def
  by (intro keeps_rules keeps_files keeps_traverse)

lemma keeps_reject: "keeps R (reject_metadata_links H root git_dir common_dir)"
  unfolding reject_metadata_links_def reject_link_def reject_present_def
  by (intro keeps_rules keeps_files)

lemma keeps_follow: "keeps R (follow_references H B copy_root root common_dir required n at evidence)"
proof (induction n arbitrary: required at evidence)
  case 0
  show ?case unfolding follow_references.simps[where n = 0] Let_def nat.case by (intro keeps_rules keeps_files)
next
  case (Suc n)
  show ?case unfolding follow_references.simps[where n = "Suc n"] Let_def nat.case by (intro keeps_rules keeps_files Suc)
qed

lemma keeps_reference_evidence: "keeps R (collect_reference_evidence H B copy_root root git_dir common_dir evidence)"
  unfolding collect_reference_evidence_def optional_evidence_def by (intro keeps_rules keeps_files keeps_follow)

lemma keeps_named_file: "keeps R (required_file H B copy_root root missing p)" "keeps R (optional_file H B copy_root root p)"
  unfolding required_file_def optional_file_def by (intro keeps_rules keeps_files)+

lemma keeps_locate: "keeps R (locate_git_dir H B copy_root root worktree relative evidence)"
  "keeps R (metadata_identity H root p)" "keeps R (locate_common_dir H B copy_root root git_dir evidence)"
  unfolding locate_git_dir_def metadata_identity_def locate_common_dir_def Let_def
  by (intro keeps_rules keeps_files keeps_named_file keeps_resolve)+

lemma keeps_repository_config:
  "queries_return H \<Longrightarrow> keeps R (repository_config H B copy_root root git_dir common_dir start)"
  unfolding repository_config_def Let_def by (intro keeps_rules keeps_named_file keeps_parse_config)

lemma keeps_user_attributes: "keeps R (validate_effective_user_attributes H B E entries evidence)"
  unfolding validate_effective_user_attributes_def by (intro keeps_rules keeps_files)

lemma keeps_worktrees: "keeps R (check_worktrees H copy_root root git_dir worktree entries corresponds)"
  by (induction entries arbitrary: corresponds) (simp_all add: keeps_rules keeps_files keeps_resolve)

lemma keeps_back_reference: "keeps R (check_back_reference H B copy_root root git_dir marker mi start)"
  unfolding check_back_reference_def by (intro keeps_rules keeps_named_file keeps_resolve)

lemma keeps_submodules: "queries_return H \<Longrightarrow> keeps R (check_submodules H B copy_root root relative evidence)"
  unfolding check_submodules_def by (intro keeps_rules keeps_named_file keeps_parse_config)

lemma keeps_attribute_files: "keeps R (check_attribute_files H B copy_root D relative files evidence)"
  by (induction files arbitrary: evidence) (simp_all add: keeps_rules keeps_files keeps_named_file)

lemma keeps_info_attributes: "keeps R (check_info_attributes H B copy_root root files evidence)"
  by (induction files arbitrary: evidence) (simp_all add: keeps_rules keeps_files keeps_named_file)

lemma keeps_metadata: "keeps R (check_metadata H B copy_root root git_dir gi common_dir ci evidence)"
  unfolding check_metadata_def
  by (intro keeps_rules keeps_files keeps_scan_metadata keeps_reject keeps_reference_evidence)

lemma keeps_preflight_repository:
  assumes "queries_return H"
  shows "keeps R (preflight_repository H B copy_root D relative g E)"
  unfolding preflight_repository_def Let_def
  by (intro keeps_rules keeps_files keeps_locate keeps_metadata keeps_repository_config[OF assms]
      keeps_user_attributes keeps_worktrees keeps_back_reference keeps_submodules[OF assms]
      keeps_attribute_files keeps_info_attributes)

end

interpretation preflight: preflight_frame "adds preflight_event"
  by unfold_locales (simp add: adds_def)

subsection \<open>Index flags and status\<close>

text \<open>The events of the later phases.\<close>

fun index_event :: "git_event \<Rightarrow> bool" where
  "index_event (Revalidated p x) = True"
| "index_event (QueryRan cwd (Some d) IndexFlags r) = True"
| "index_event _ = False"

fun status_event :: "git_event \<Rightarrow> bool" where
  "status_event (Revalidated p x) = True"
| "status_event (QueryRan cwd (Some d) (TrackedStatus drivers) r) = True"
| "status_event _ = False"

text \<open>What the trace of a listing of the index, and of a status query, is when it succeeds.\<close>

definition confirmed :: "path \<Rightarrow> git_event" where
  "confirmed p = Revalidated p (Ok ())"

definition index_block :: "path \<Rightarrow> path \<Rightarrow> path \<Rightarrow> git_query_output \<Rightarrow> git_event list" where
  "index_block copy_root p git_dir flags =
     [confirmed p, QueryRan (path_join copy_root p) (Some git_dir) IndexFlags (Ok flags), confirmed p]"

definition status_block :: "path \<Rightarrow> path \<Rightarrow> path \<Rightarrow> path list \<Rightarrow> bytes list \<Rightarrow> git_query_output \<Rightarrow> git_event list" where
  "status_block copy_root p git_dir participants drivers status =
     map confirmed participants
     @ QueryRan (path_join copy_root p) (Some git_dir) (TrackedStatus drivers) (Ok status)
     # map confirmed participants"

definition index_accepted :: "git_query_output \<Rightarrow> bool" where
  "index_accepted flags \<longleftrightarrow> git_exit_success (qo_exit flags) \<and> validate_index_flags_output (qo_stdout flags) = Ok ()"

lemma wp_quiet: "\<lbrakk>keeps same_progress m; \<And>r s'. rn_trace s' = rn_trace s \<Longrightarrow> Q r s'\<rbrakk> \<Longrightarrow> wp m Q s"
  by (erule keeps_wp) (simp add: same_progress_def)

lemma wp_query:
  assumes "queries_return H"
    and "\<And>res s'. rn_trace s' = rn_trace s @ [QueryRan cwd p q res] \<Longrightarrow> Q (map_query_result res) s'"
  shows "wp (run_mapped H cwd p q env timeout) Q s"
proof -
  have "run_query H cwd p q env timeout (rn_host s) \<noteq> None" using assms(1) by (simp add: queries_return_def)
  then show ?thesis unfolding run_mapped_def wp_bind
    by (auto simp: wp_lift wp_def[of "io_query H cwd p q env timeout"] io_query_def intro!: assms(2))
qed

lemma query_Ok: "map_query_result res = Inr out \<longleftrightarrow> res = Inr out \<and> git_exit_success (qo_exit out)"
  by (auto simp: map_query_result_def split: sum.splits if_splits)

lemma wp_revalidate:
  assumes "\<And>x s'. rn_trace s' = rn_trace s @ [Revalidated (pr_relative_path r) x] \<Longrightarrow> Q x s'"
  shows "wp (revalidate_repository H B copy_root r) Q s"
proof -
  have all: "keeps same_progress (all_of cs)" if "list_all (keeps same_progress) cs"
    for cs :: "('a, git_inspection_issue, bool) io list"
    using that by (induction cs) (simp_all add: quiet.keeps_rules)
  have "keeps same_progress (same_index H d e)" for d e
    unfolding same_index_def by (intro quiet.keeps_rules quiet.keeps_files)
  then have "keeps same_progress (repository_unchanged H B copy_root r)"
    unfolding repository_unchanged_def by (intro quiet.keeps_rules quiet.keeps_files all) (simp add: quiet.keeps_files)
  then show ?thesis unfolding revalidate_repository_def wp_bind wp_attempt
    by (rule wp_quiet) (auto simp: wp_note wp_lift intro: assms)
qed

definition revalidated :: "path list \<Rightarrow> git_event list \<Rightarrow> 'e + unit \<Rightarrow> git_event list \<Rightarrow> bool" where
  "revalidated ps tr x tr' \<longleftrightarrow>
     (\<exists>evs. tr' = tr @ evs \<and> list_all status_event evs \<and> (x = Inr () \<longrightarrow> evs = map confirmed ps))"

lemma revalidated_stop: "revalidated (p # ps) tr (Inl e) (tr @ [Revalidated p x])"
  by (simp add: revalidated_def)

lemma revalidated_step: "revalidated ps (tr @ [confirmed p]) x tr' \<Longrightarrow> revalidated (p # ps) tr x tr'"
  by (auto simp: revalidated_def confirmed_def)

lemma wp_revalidate_all:
  "wp (revalidate_repositories H B copy_root rs)
     (\<lambda>x s'. revalidated (map pr_relative_path rs) (rn_trace s) x (rn_trace s')) s"
proof (induction rs arbitrary: s)
  case Nil
  then show ?case by (simp add: revalidate_repositories_def wp_return revalidated_def)
next
  case (Cons r rs)
  have rest: "wp (io_each (revalidate_repository H B copy_root) rs)
      (\<lambda>x s'. revalidated (map pr_relative_path (r # rs)) (rn_trace s) x (rn_trace s')) s1"
    if t: "rn_trace s1 = rn_trace s @ [confirmed (pr_relative_path r)]" for s1
    by (rule wp_mono[OF Cons.IH[unfolded revalidate_repositories_def]]) (simp add: t revalidated_step)
  show ?case unfolding revalidate_repositories_def io_each.simps wp_bind
    by (rule wp_revalidate, split sum.split, intro conjI allI impI, simp add: revalidated_stop, rule rest)
      (simp add: confirmed_def)
qed

text \<open>What the two phases record of a repository.\<close>

definition index_run :: "path \<Rightarrow> prepared_repository \<Rightarrow> git_event list \<Rightarrow> 'e + unit \<Rightarrow> git_event list \<Rightarrow> bool" where
  "index_run copy_root r tr x tr' \<longleftrightarrow>
     (\<exists>evs. tr' = tr @ evs \<and> list_all index_event evs
        \<and> (x = Inr () \<longrightarrow> (\<exists>flags. evs = index_block copy_root (pr_relative_path r) (pr_git_dir r) flags \<and> index_accepted flags)))"

lemma wp_index_flags:
  assumes "queries_return H"
  shows "wp (inspect_index_flags H B copy_root E r) (\<lambda>x s'. index_run copy_root r (rn_trace s) x (rn_trace s')) s"
proof -
  let ?p = "pr_relative_path r"
  have failed: "index_run copy_root r (rn_trace s) (Inl e) (rn_trace s')"
    if "rn_trace s' = rn_trace s @ evs" "list_all index_event evs" for e evs s'
    using that by (auto simp: index_run_def)
  show ?thesis
    unfolding inspect_index_flags_def wp_bind wp_lift
    by (rule wp_revalidate, split sum.split, intro conjI allI impI, erule failed, simp,
        rule wp_quiet[OF quiet.keeps_budget(5)], split sum.split, intro conjI allI impI, rule failed, simp, simp,
        rule wp_query[OF assms], split sum.split, intro conjI allI impI, rule failed, simp, simp,
        split sum.split, intro conjI allI impI, rule failed, simp, simp, rule wp_revalidate)
      (auto simp: index_run_def index_block_def index_accepted_def confirmed_def query_Ok)
qed

definition status_run ::
  "path \<Rightarrow> prepared_repository list \<Rightarrow> bytes list \<Rightarrow> prepared_repository \<Rightarrow> git_event list
   \<Rightarrow> 'e + bytes \<Rightarrow> git_event list \<Rightarrow> bool" where
  "status_run copy_root participants drivers r tr x tr' \<longleftrightarrow>
     (\<exists>evs. tr' = tr @ evs \<and> list_all status_event evs
        \<and> (\<forall>out. x = Inr out \<longrightarrow> (\<exists>status. out = qo_stdout status \<and> git_exit_success (qo_exit status)
            \<and> evs = status_block copy_root (pr_relative_path r) (pr_git_dir r) (map pr_relative_path participants)
                drivers status)))"

lemma wp_status_output:
  assumes "queries_return H"
  shows "wp (status_output H B copy_root E participants drivers r)
    (\<lambda>x s'. status_run copy_root participants drivers r (rn_trace s) x (rn_trace s')) s"
    (is "wp _ ?Q s")
proof -
  let ?ps = "map pr_relative_path participants"
  let ?query = "QueryRan (path_join copy_root (pr_relative_path r)) (Some (pr_git_dir r)) (TrackedStatus drivers)"
  have failed: "status_run copy_root participants drivers r (rn_trace s) (Inl e) (rn_trace s @ evs)"
    if "list_all status_event evs" for e evs
    using that by (auto simp: status_run_def)
  have last: "wp (io_bind (revalidate_repositories H B copy_root participants) (\<lambda>_. io_return (qo_stdout out))) ?Q s1"
    if t: "rn_trace s1 = rn_trace s @ map confirmed ?ps @ [?query (Inr out)]" and ok: "git_exit_success (qo_exit out)"
    for out s1
    unfolding wp_bind wp_return
    by (rule wp_mono[OF wp_revalidate_all])
      (use t ok in \<open>auto simp: revalidated_def status_run_def status_block_def confirmed_def list_all_iff split: sum.split\<close>)
  have queried: "wp (io_bind (run_mapped H (path_join copy_root (pr_relative_path r)) (Some (pr_git_dir r))
        (TrackedStatus drivers) (Preserved (se_preserved E)) timeout) (\<lambda>out.
      io_bind (revalidate_repositories H B copy_root participants) (\<lambda>_. io_return (qo_stdout out)))) ?Q s1"
    if t: "rn_trace s1 = rn_trace s @ map confirmed ?ps" for timeout s1
    unfolding wp_bind[of "run_mapped H cwd p q env t" for cwd p q env t]
    by (rule wp_query[OF assms], split sum.split)
      (auto simp: query_Ok t confirmed_def list_all_iff intro!: last failed)
  show ?thesis
    unfolding status_output_def wp_bind[of "revalidate_repositories H B copy_root participants"]
      wp_bind[of "required_timeout H B"]
    by (rule wp_mono[OF wp_revalidate_all], split sum.split)
      (auto simp: revalidated_def intro!: failed queried wp_quiet[OF quiet.keeps_budget(5)] split: sum.split)
qed

text \<open>A verdict is unknown, or what the status query printed.\<close>

definition verdict_run ::
  "path \<Rightarrow> prepared_repository list \<Rightarrow> prepared_repository \<Rightarrow> git_event list \<Rightarrow> verdict \<Rightarrow> git_event list \<Rightarrow> bool" where
  "verdict_run copy_root participants r tr v tr' \<longleftrightarrow>
     vd_path v = pr_relative_path r
     \<and> (\<exists>evs. tr' = tr @ evs \<and> list_all status_event evs
        \<and> (vd_state v = repository_state.Unknown
           \<or> (\<exists>drivers status count.
                evs = status_block copy_root (pr_relative_path r) (pr_git_dir r) (map pr_relative_path participants)
                  drivers status
                \<and> git_exit_success (qo_exit status) \<and> parse_tracked_change_count (qo_stdout status) = Ok count
                \<and> vd_state v = from_tracked_change_count count)))"

lemma status_text_verdict_known:
  "vd_path (status_text_verdict p issues out) = p"
  "vd_state (status_text_verdict p issues out) =
     (case parse_tracked_change_count out of Inr n \<Rightarrow> from_tracked_change_count n | Inl e \<Rightarrow> repository_state.Unknown)"
  by (simp_all add: status_text_verdict_def status_verdict_def Let_def split: sum.split)

lemma wp_status:
  assumes "queries_return H"
  shows "wp (inspect_status H B copy_root E participants drivers r)
    (\<lambda>x s'. \<exists>v. x = Inr v \<and> verdict_run copy_root participants r (rn_trace s) v (rn_trace s')) s"
  unfolding inspect_status_def wp_bind wp_attempt sum.case wp_return
  by (rule wp_mono[OF wp_status_output[OF assms]])
    (fastforce simp: status_run_def verdict_run_def unknown_verdict_def status_text_verdict_known split: sum.splits)

subsection \<open>All repositories\<close>

definition indexed_in :: "path \<Rightarrow> git_event list \<Rightarrow> prepared_repository \<Rightarrow> bool" where
  "indexed_in copy_root tr r \<longleftrightarrow>
     (\<exists>pre flags post. tr = pre @ index_block copy_root (pr_relative_path r) (pr_git_dir r) flags @ post
        \<and> index_accepted flags)"

text \<open>
  A state that is backed by the trace: an accepted listing of the index, later a successful status
  query on the same repository whose text gives the state, each right after the revalidations it
  needs and right before them again; the repository is one of those revalidated for its status.
\<close>

definition backed :: "path \<Rightarrow> git_event list \<Rightarrow> path \<Rightarrow> repository_state \<Rightarrow> bool" where
  "backed copy_root tr p state \<longleftrightarrow>
     (\<exists>git_dir flags participants drivers status count pre mid post.
        tr = pre @ index_block copy_root p git_dir flags
             @ mid @ status_block copy_root p git_dir participants drivers status @ post
        \<and> p \<in> set participants \<and> index_accepted flags
        \<and> git_exit_success (qo_exit status) \<and> parse_tracked_change_count (qo_stdout status) = Ok count
        \<and> state = from_tracked_change_count count)"

definition verdict_backed :: "path \<Rightarrow> git_event list \<Rightarrow> verdict \<Rightarrow> bool" where
  "verdict_backed copy_root tr v \<longleftrightarrow> vd_state v = repository_state.Unknown \<or> backed copy_root tr (vd_path v) (vd_state v)"

lemma indexed_in_more: "indexed_in copy_root tr r \<Longrightarrow> indexed_in copy_root (tr @ evs) r"
  unfolding indexed_in_def by (metis append.assoc)

lemma verdict_backed_more: "verdict_backed copy_root tr v \<Longrightarrow> verdict_backed copy_root (tr @ evs) v"
  unfolding verdict_backed_def backed_def by (metis append.assoc)

lemma adds_more:
  assumes "adds P s s'"
  shows "list_all (indexed_in c (rn_trace s)) rs \<Longrightarrow> list_all (indexed_in c (rn_trace s')) rs"
    "list_all (verdict_backed c (rn_trace s)) vs \<Longrightarrow> list_all (verdict_backed c (rn_trace s')) vs"
proof -
  obtain evs where evs: "rn_trace s' = rn_trace s @ evs" using assms by (auto simp: adds_def)
  show "list_all (indexed_in c (rn_trace s)) rs \<Longrightarrow> list_all (indexed_in c (rn_trace s')) rs"
    "list_all (verdict_backed c (rn_trace s)) vs \<Longrightarrow> list_all (verdict_backed c (rn_trace s')) vs"
    unfolding evs by (auto elim!: list.pred_mono_strong intro: indexed_in_more verdict_backed_more)
qed

lemma index_run_adds:
  assumes "index_run c r (rn_trace s) x (rn_trace s')"
  shows "adds index_event s s'" "x = Inr () \<Longrightarrow> indexed_in c (rn_trace s') r"
proof -
  obtain evs where evs: "rn_trace s' = rn_trace s @ evs" "list_all index_event evs"
    "x = Inr () \<longrightarrow> (\<exists>flags. evs = index_block c (pr_relative_path r) (pr_git_dir r) flags \<and> index_accepted flags)"
    using assms unfolding index_run_def by blast
  show "adds index_event s s'" using evs(1,2) by (auto simp: adds_def)
  show "x = Inr () \<Longrightarrow> indexed_in c (rn_trace s') r"
    using evs(1,3) unfolding indexed_in_def by (metis append_Nil2)
qed

lemma verdict_run_backed:
  assumes run: "verdict_run c participants r (rn_trace s) v (rn_trace s')"
    and indexed: "indexed_in c (rn_trace s) r" and "r \<in> set participants"
  shows "adds status_event s s' \<and> vd_path v = pr_relative_path r \<and> verdict_backed c (rn_trace s') v"
proof -
  obtain pre flags post where tr: "rn_trace s = pre @ index_block c (pr_relative_path r) (pr_git_dir r) flags @ post"
    "index_accepted flags" using indexed unfolding indexed_in_def by blast
  obtain evs where evs: "rn_trace s' = rn_trace s @ evs" "list_all status_event evs" "vd_path v = pr_relative_path r"
    and state: "vd_state v = repository_state.Unknown
      \<or> (\<exists>drivers status count.
           evs = status_block c (pr_relative_path r) (pr_git_dir r) (map pr_relative_path participants) drivers status
           \<and> git_exit_success (qo_exit status) \<and> parse_tracked_change_count (qo_stdout status) = Ok count
           \<and> vd_state v = from_tracked_change_count count)"
    using run unfolding verdict_run_def by blast
  from state have "verdict_backed c (rn_trace s') v"
  proof
    assume "\<exists>drivers status count.
           evs = status_block c (pr_relative_path r) (pr_git_dir r) (map pr_relative_path participants) drivers status
           \<and> git_exit_success (qo_exit status) \<and> parse_tracked_change_count (qo_stdout status) = Ok count
           \<and> vd_state v = from_tracked_change_count count"
    then obtain drivers status count where q:
      "evs = status_block c (pr_relative_path r) (pr_git_dir r) (map pr_relative_path participants) drivers status"
      "git_exit_success (qo_exit status)" "parse_tracked_change_count (qo_stdout status) = Ok count"
      "vd_state v = from_tracked_change_count count" by blast
    have "rn_trace s' = pre @ index_block c (pr_relative_path r) (pr_git_dir r) flags
       @ post @ status_block c (pr_relative_path r) (pr_git_dir r) (map pr_relative_path participants) drivers status @ []"
      by (simp add: evs(1) tr(1) q(1))
    moreover have "pr_relative_path r \<in> set (map pr_relative_path participants)" using assms(3) by simp
    ultimately show ?thesis using tr(2) q(2-4) evs(3) unfolding verdict_backed_def backed_def by metis
  qed (simp add: verdict_backed_def)
  then show ?thesis using evs by (auto simp: adds_def)
qed

text \<open>The preflight of a repository is about that repository.\<close>

definition answers :: "('a \<Rightarrow> bool) \<Rightarrow> ('h, 'e, 'a) io \<Rightarrow> bool" where
  "answers P m \<longleftrightarrow> (\<forall>s x s'. m s = Some (Inr x, s') \<longrightarrow> P x)"

lemma answers_return: "P x \<Longrightarrow> answers P (io_return x)"
  by (simp add: answers_def io_return_def)

lemma answers_fail: "answers P (io_fail e)"
  by (simp add: answers_def io_fail_def)

lemma answers_bind: "(\<And>x. answers P (f x)) \<Longrightarrow> answers P (io_bind m f)"
  by (auto simp: answers_def io_bind_def split: option.splits prod.splits sum.splits)

lemma answers_if: "\<lbrakk>answers P m; answers P n\<rbrakk> \<Longrightarrow> answers P (if b then m else n)"
  by simp

lemma answers_prod: "(\<And>a b. answers P (k a b)) \<Longrightarrow> answers P (case p of (a, b) \<Rightarrow> k a b)"
  by (cases p) simp

lemma preflight_path: "answers (\<lambda>r. pr_relative_path r = p) (preflight_repository H B copy_root D p g E)"
  unfolding preflight_repository_def Let_def by (intro answers_bind answers_prod answers_if answers_return answers_fail) simp

lemma wp_preflight_repository:
  assumes "queries_return H"
  shows "wp (preflight_repository H B copy_root D p g E)
    (\<lambda>x s'. adds preflight_event s s' \<and> (\<forall>r. x = Inr r \<longrightarrow> pr_relative_path r = p)) s"
proof -
  have "wp (preflight_repository H B copy_root D p g E) (\<lambda>x s'. adds preflight_event s s') s"
    by (rule keepsD[OF preflight.keeps_preflight_repository[OF assms]])
  moreover have "pr_relative_path r = p" if "preflight_repository H B copy_root D p g E s = Some (Inr r, s')" for r s'
    using preflight_path that unfolding answers_def by blast
  ultimately show ?thesis by (auto simp: wp_def split: option.splits)
qed

lemma wp_expired_trace:
  "(\<And>late s'. rn_trace s' = rn_trace s \<Longrightarrow> Q (Inr late) s') \<Longrightarrow> wp (expired H B) Q s"
  by (auto simp: expired_def wp_def io_bind_def io_now_def io_return_def split: prod.splits)

lemma same_trace_adds: "rn_trace s' = rn_trace s \<Longrightarrow> adds P s s'"
  by (simp add: adds_def)

definition all_unknown_verdicts :: "verdict list \<Rightarrow> bool" where
  "all_unknown_verdicts vs \<longleftrightarrow> list_all (\<lambda>v. vd_state v = repository_state.Unknown) vs"

lemma verdict_simps [simp]:
  "vd_path (unknown_verdict p issues) = p" "vd_state (unknown_verdict p issues) = repository_state.Unknown"
  "is_repositories (add_unknown p i st) = is_repositories st @ [unknown_verdict p [i]]"
  "is_repositories (add_verdict v st) = is_repositories st @ [v]"
  "all_unknown_verdicts (vs @ ws) \<longleftrightarrow> all_unknown_verdicts vs \<and> all_unknown_verdicts ws"
  "all_unknown_verdicts [unknown_verdict p issues]"
  by (simp_all add: unknown_verdict_def add_unknown_def add_verdict_def all_unknown_verdicts_def)

text \<open>The paths with a verdict or still in work.\<close>

definition accounted :: "inspection_state \<Rightarrow> prepared_repository list \<Rightarrow> path multiset" where
  "accounted st rs = mset (map vd_path (is_repositories st)) + mset (map pr_relative_path rs)"

lemma wp_preflight_all:
  assumes H: "queries_return H"
  shows "all_unknown_verdicts (is_repositories st) \<Longrightarrow>
    wp (preflight_all H B copy_root D g E ps (st, prepared))
      (\<lambda>(x :: 'e + inspection_state \<times> prepared_repository list) s'. adds preflight_event s s' \<and>
         (\<exists>st' prepared'. x = Inr (st', prepared') \<and> all_unknown_verdicts (is_repositories st')
            \<and> accounted st' prepared' = accounted st prepared + mset ps)) s"
proof (induction ps arbitrary: st prepared s)
  case Nil
  then show ?case by (simp add: wp_return adding.frame_refl)
next
  case (Cons p ps)
  define done_by where "done_by st' prepared' \<longleftrightarrow> all_unknown_verdicts (is_repositories st')
      \<and> accounted st' prepared' = accounted st prepared + mset (p # ps)"
    for st' :: inspection_state and prepared' :: "prepared_repository list"
  have rest: "wp (preflight_all H B copy_root D g E ps (st1, prepared1))
      (\<lambda>(x :: 'e + inspection_state \<times> prepared_repository list) s'. adds preflight_event s s' \<and> (\<exists>st' prepared'. x = Inr (st', prepared') \<and> done_by st' prepared')) s1"
    if "adds preflight_event s s1" "all_unknown_verdicts (is_repositories st1)"
      "accounted st1 prepared1 = accounted st prepared + {#p#}" for st1 prepared1 s1
    by (rule wp_mono[OF Cons.IH[OF that(2)]]) (use that in \<open>auto simp: done_by_def intro: adding.frame_trans\<close>)
  have attempt: "wp (io_bind (io_attempt (preflight_repository H B copy_root D p g E)) (\<lambda>x.
        case x of
          Inr r \<Rightarrow> preflight_all H B copy_root D g E ps (st, prepared @ [r])
        | Inl issue \<Rightarrow> preflight_all H B copy_root D g E ps (add_unknown p issue st, prepared)))
      (\<lambda>(x :: 'e + inspection_state \<times> prepared_repository list) s'. adds preflight_event s s' \<and> (\<exists>st' prepared'. x = Inr (st', prepared') \<and> done_by st' prepared')) s1"
    if s1: "rn_trace s1 = rn_trace s" for s1
    unfolding wp_bind wp_attempt sum.case
  proof (rule wp_mono[OF wp_preflight_repository[OF H]], goal_cases)
    case (1 r s')
    then have s': "adds preflight_event s s'" using s1 by (simp add: adds_def)
    show ?case
    proof (cases r)
      case (Inl i)
      show ?thesis unfolding Inl sum.case
        by (rule rest[OF s']) (use Cons.prems in \<open>simp_all add: accounted_def\<close>)
    next
      case (Inr q)
      then have "pr_relative_path q = p" using 1 by simp
      then show ?thesis unfolding Inr sum.case
        by (intro rest[OF s'] Cons.prems) (simp add: accounted_def)
    qed
  qed
  show ?case
    unfolding preflight_all.simps wp_bind[of "expired H B"] done_by_def[symmetric]
    by (rule wp_expired_trace, simp only: sum.case, split if_split, intro conjI impI, rule rest)
      (use Cons.prems in \<open>auto simp: accounted_def intro: same_trace_adds attempt\<close>)
qed

lemma wp_index_all:
  assumes H: "queries_return H"
  shows "\<lbrakk>all_unknown_verdicts (is_repositories st); list_all (indexed_in copy_root (rn_trace s)) indexed\<rbrakk> \<Longrightarrow>
    wp (index_all H B copy_root E rs (st, indexed))
      (\<lambda>(x :: 'e + inspection_state \<times> prepared_repository list) s'. adds index_event s s' \<and>
         (\<exists>st' indexed'. x = Inr (st', indexed') \<and> all_unknown_verdicts (is_repositories st')
            \<and> list_all (indexed_in copy_root (rn_trace s')) indexed'
            \<and> accounted st' indexed' = accounted st indexed + mset (map pr_relative_path rs))) s"
proof (induction rs arbitrary: st indexed s)
  case Nil
  then show ?case by (simp add: wp_return adding.frame_refl)
next
  case (Cons r rs)
  define done_by where "done_by s' st' indexed' \<longleftrightarrow> all_unknown_verdicts (is_repositories st')
      \<and> list_all (indexed_in copy_root (rn_trace s')) indexed'
      \<and> accounted st' indexed' = accounted st indexed + mset (map pr_relative_path (r # rs))"
    for s' :: "'a git_run" and st' :: inspection_state and indexed' :: "prepared_repository list"
  have rest: "wp (index_all H B copy_root E rs (st1, indexed1))
      (\<lambda>(x :: 'e + inspection_state \<times> prepared_repository list) s'.
         adds index_event s s' \<and> (\<exists>st' indexed'. x = Inr (st', indexed') \<and> done_by s' st' indexed')) s1"
    if "adds index_event s s1" "all_unknown_verdicts (is_repositories st1)"
      "list_all (indexed_in copy_root (rn_trace s1)) indexed1"
      "accounted st1 indexed1 = accounted st indexed + {#pr_relative_path r#}" for st1 indexed1 s1
    by (rule wp_mono[OF Cons.IH[OF that(2,3)]]) (use that in \<open>auto simp: done_by_def intro: adding.frame_trans\<close>)
  show ?case
    unfolding index_all.simps wp_bind wp_attempt done_by_def[symmetric]
  proof (rule wp_mono[OF wp_index_flags[OF H]], goal_cases)
    case (1 x s')
    note s' = index_run_adds[OF 1]
    note old = adds_more(1)[OF s'(1) Cons.prems(2)]
    show ?case
    proof (cases x)
      case (Inl i)
      show ?thesis unfolding Inl sum.case
        by (rule rest[OF s'(1)]) (use Cons.prems old in \<open>simp_all add: accounted_def\<close>)
    next
      case (Inr u)
      then have "indexed_in copy_root (rn_trace s') r" using s'(2) by simp
      then show ?thesis unfolding Inr sum.case
        by (intro rest[OF s'(1)] Cons.prems) (use old in \<open>simp_all add: accounted_def\<close>)
    qed
  qed
qed

lemma participant: "r \<in> set indexed \<Longrightarrow> r \<in> set (participants_of indexed (pr_relative_path r))"
  by (simp add: participants_of_def)

lemma wp_status_all:
  assumes H: "queries_return H"
  shows "\<lbrakk>list_all (verdict_backed copy_root (rn_trace s)) (is_repositories st);
      list_all (indexed_in copy_root (rn_trace s)) rs; set rs \<subseteq> set indexed\<rbrakk> \<Longrightarrow>
    wp (status_all H B copy_root E indexed rs st)
      (\<lambda>(x :: 'e + inspection_state) s'. adds status_event s s' \<and>
         (\<exists>st'. x = Inr st' \<and> list_all (verdict_backed copy_root (rn_trace s')) (is_repositories st')
            \<and> accounted st' [] = accounted st rs)) s"
proof (induction rs arbitrary: st s)
  case Nil
  then show ?case by (simp add: wp_return adding.frame_refl)
next
  case (Cons r rs)
  define done_by where "done_by s' st' \<longleftrightarrow> list_all (verdict_backed copy_root (rn_trace s')) (is_repositories st')
      \<and> accounted st' [] = accounted st (r # rs)" for s' :: "'a git_run" and st' :: inspection_state
  have rest: "wp (status_all H B copy_root E indexed rs (add_verdict v st))
      (\<lambda>(x :: 'e + inspection_state) s'. adds status_event s s' \<and> (\<exists>st'. x = Inr st' \<and> done_by s' st')) s1"
    if s1: "adds status_event s s1" and v: "verdict_backed copy_root (rn_trace s1) v" "vd_path v = pr_relative_path r" for v s1
    by (rule wp_mono[OF Cons.IH])
      (use Cons.prems v adds_more[OF s1] s1 in
        \<open>auto simp: done_by_def accounted_def intro: adding.frame_trans\<close>)
  show ?case
  proof (cases "unsafe_descendant (is_repositories st) (pr_relative_path r)")
    case True
    show ?thesis unfolding status_all.simps if_P[OF True] add_unknown_def done_by_def[symmetric]
      by (rule rest) (simp_all add: adding.frame_refl verdict_backed_def)
  next
    case False
    let ?participants = "participants_of indexed (pr_relative_path r)"
    have step: "wp (io_bind (inspect_status H B copy_root E ?participants (filter_driver_union ?participants) r)
        (\<lambda>v. status_all H B copy_root E indexed rs (add_verdict v st)))
      (\<lambda>(x :: 'e + inspection_state) s'. adds status_event s s' \<and> (\<exists>st'. x = Inr st' \<and> done_by s' st')) s"
      unfolding wp_bind
    proof (rule wp_mono[OF wp_status[OF H]], goal_cases)
      case (1 x s')
      then obtain v where v: "x = Inr v" "verdict_run copy_root ?participants r (rn_trace s) v (rn_trace s')" by blast
      have "indexed_in copy_root (rn_trace s) r" "r \<in> set ?participants"
        using Cons.prems participant[of r indexed] by simp_all
      from verdict_run_backed[OF v(2) this] show ?case unfolding v(1) sum.case by (intro rest) simp_all
    qed
    then show ?thesis unfolding status_all.simps if_not_P[OF False] Let_def done_by_def[symmetric] .
  qed
qed

subsection \<open>An inspection\<close>

lemma wp_identity:
  assumes "\<And>same s'. rn_trace s' = rn_trace s \<Longrightarrow> Q (Inr same) s'"
  shows "wp (revalidate_identity H p i) Q s"
  unfolding revalidate_identity_def wp_bind[of "io_attempt m" for m] wp_attempt sum.case wp_return
  by (rule wp_quiet) (auto intro: quiet.keeps_rules quiet.keeps_files assms)

text \<open>The last revalidations only mark the report incomplete.\<close>

lemma wp_last:
  "wp (revalidate_root H B copy_root D st)
     (\<lambda>x s'. rn_trace s' = rn_trace s \<and> (\<exists>st'. x = Inr st' \<and> is_repositories st' = is_repositories st)) s"
  "wp (revalidate_global H B g st)
     (\<lambda>x s'. rn_trace s' = rn_trace s \<and> (\<exists>st'. x = Inr st' \<and> is_repositories st' = is_repositories st)) s"
proof -
  show "wp (revalidate_root H B copy_root D st)
     (\<lambda>x s'. rn_trace s' = rn_trace s \<and> (\<exists>st'. x = Inr st' \<and> is_repositories st' = is_repositories st)) s"
    unfolding revalidate_root_def wp_bind[of "io_attempt m" for m] wp_attempt sum.case
  proof (rule wp_quiet[OF quiet.keeps_budget(4)], goal_cases)
    case (1 r s1)
    then show ?case
      by (cases r) (auto simp: wp_return wp_bind mark_incomplete_def intro!: wp_identity)
  qed
  show "wp (revalidate_global H B g st)
     (\<lambda>x s'. rn_trace s' = rn_trace s \<and> (\<exists>st'. x = Inr st' \<and> is_repositories st' = is_repositories st)) s"
    unfolding revalidate_global_def wp_bind wp_attempt sum.case wp_return
    by (rule wp_quiet[OF quiet.keeps_revalidate(3)]) (auto simp: mark_incomplete_def split: sum.split)
qed

text \<open>The report of a list of paths, in their order.\<close>

definition reported :: "path \<Rightarrow> git_event list \<Rightarrow> path list \<Rightarrow> git_inspection \<Rightarrow> bool" where
  "reported copy_root tr ps rep \<longleftrightarrow>
     (\<exists>vs. gi_repositories rep = map verdict_report vs \<and> map vd_path vs = ps \<and> list_all (verdict_backed copy_root tr) vs)"

lemma finish_reported:
  assumes "list_all (verdict_backed c tr) (is_repositories st)" "mset (map vd_path (is_repositories st)) = mset ps"
    "sorted_wrt (<) ps"
  shows "reported c tr ps (finish_inspection (st\<lparr>is_repositories := sort_key vd_path (is_repositories st)\<rparr>))"
proof -
  let ?vs = "sort_key vd_path (is_repositories st)"
  have "sorted ps" using assms(3) by (simp add: strict_sorted_iff)
  then have "sort ps = ps" by (rule sorted_sort_id)
  moreover have "sort ps = map vd_path ?vs" using assms(2) by (intro properties_for_sort) simp_all
  ultimately have "map vd_path ?vs = ps" by simp
  then show ?thesis
    using assms(1) by (auto simp: reported_def finish_inspection_def git_inspection_new_def list_all_iff)
qed

text \<open>What an inspection adds to the trace, in its order.\<close>

definition phased :: "git_event list \<Rightarrow> git_event list \<Rightarrow> bool" where
  "phased tr tr' \<longleftrightarrow>
     (\<exists>pre idx sts. tr' = tr @ pre @ idx @ sts \<and> list_all preflight_event pre \<and> list_all index_event idx
        \<and> list_all status_event sts)"

lemma phased_adds:
  assumes "adds preflight_event s s1" "adds index_event s1 s2" "adds status_event s2 s3"
  shows "phased (rn_trace s) (rn_trace s3)"
proof -
  obtain pre idx sts where "rn_trace s1 = rn_trace s @ pre" "list_all preflight_event pre"
    "rn_trace s2 = rn_trace s1 @ idx" "list_all index_event idx" "rn_trace s3 = rn_trace s2 @ sts" "list_all status_event sts"
    using assms by (auto simp: adds_def)
  then show ?thesis unfolding phased_def by (intro exI[of _ pre] exI[of _ idx] exI[of _ sts]) simp
qed

lemma phased_none: "rn_trace s' = rn_trace s \<Longrightarrow> phased (rn_trace s) (rn_trace s')"
  by (auto simp: phased_def intro: exI[of _ "[]"])

lemma phased_preflight: "adds preflight_event s s' \<Longrightarrow> phased (rn_trace s) (rn_trace s')"
  by (rule phased_adds[OF _ adding.frame_refl adding.frame_refl])

definition inspected :: "path \<Rightarrow> 'h git_run \<Rightarrow> path list \<Rightarrow> 'e + git_inspection \<Rightarrow> 'h git_run \<Rightarrow> bool" where
  "inspected copy_root s ps x s' \<longleftrightarrow>
     phased (rn_trace s) (rn_trace s') \<and> (\<exists>rep. x = Inr rep \<and> reported copy_root (rn_trace s') ps rep)"

lemma all_unknown_backed: "all_unknown_verdicts vs \<Longrightarrow> list_all (verdict_backed c tr) vs"
  by (auto simp: all_unknown_verdicts_def list_all_iff verdict_backed_def)

lemma wp_inspect_discovered:
  assumes H: "queries_return H" and sorted: "sorted_wrt (<) (dc_candidates D)"
  shows "wp (inspect_discovered H B copy_root E D g) (inspected copy_root s (dc_candidates D)) s"
proof -
  have finish: "wp (io_bind (revalidate_root H B copy_root D st1) (\<lambda>st2.
      io_bind (revalidate_global H B g st2) (\<lambda>st3.
        io_return (finish_inspection (st3\<lparr>is_repositories := sort_key vd_path (is_repositories st3)\<rparr>)))))
      (inspected copy_root s (dc_candidates D)) s3"
    if tr: "phased (rn_trace s) (rn_trace s3)"
      and st1: "list_all (verdict_backed copy_root (rn_trace s3)) (is_repositories st1)"
        "accounted st1 [] = mset (dc_candidates D)" for st1 s3
  proof -
    have paths: "mset (map vd_path (is_repositories st1)) = mset (dc_candidates D)"
      using st1(2) by (simp add: accounted_def)
    have "inspected copy_root s (dc_candidates D)
        (Inr (finish_inspection (st3\<lparr>is_repositories := sort_key vd_path (is_repositories st3)\<rparr>))) s5"
      if "rn_trace s5 = rn_trace s3" "is_repositories st3 = is_repositories st1" for st3 s5
      using finish_reported[OF _ _ sorted, of copy_root "rn_trace s3" st3] that tr st1(1) paths
      by (simp add: inspected_def)
    then show ?thesis
      unfolding wp_bind wp_return
      by (intro wp_mono[OF wp_last(1)]) (auto intro!: wp_mono[OF wp_last(2)])
  qed
  show ?thesis
    unfolding inspect_discovered_def wp_bind[of "preflight_all H B c D g E ps a" for c ps a]
  proof (rule wp_mono[OF wp_preflight_all[OF H]], goal_cases)
    case 1
    then show ?case by (simp add: all_unknown_verdicts_def)
  next
    case (2 x s1)
    then obtain st prepared where x: "x = Inr (st, prepared)" "all_unknown_verdicts (is_repositories st)"
        "accounted st prepared = mset (dc_candidates D)" and s1: "adds preflight_event s s1"
      by (auto simp: accounted_def)
    show ?case
      unfolding x(1) sum.case fst_conv snd_conv wp_bind[of "index_all H B c E rs a" for c rs a]
    proof (rule wp_mono[OF wp_index_all[OF H x(2)]], goal_cases)
      case 1
      then show ?case by simp
    next
      case (2 y s2)
      then obtain st' indexed where y: "y = Inr (st', indexed)" "all_unknown_verdicts (is_repositories st')"
          "list_all (indexed_in copy_root (rn_trace s2)) indexed" "accounted st' indexed = mset (dc_candidates D)"
        and s2: "adds index_event s1 s2"
        using x(3) by (auto simp: accounted_def)
      have deepest: "set (deepest_first indexed) = set indexed" "mset (deepest_first indexed) = mset indexed"
        by (simp_all add: deepest_first_def)
      show ?case
        unfolding y(1) sum.case prod.case wp_bind[of "status_all H B c E i rs a" for c i rs a]
      proof (rule wp_mono[OF wp_status_all[OF H all_unknown_backed[OF y(2)]]], goal_cases)
        case 1
        then show ?case using y(3) deepest by (simp add: list_all_iff)
      next
        case 2
        then show ?case by simp
      next
        case (3 z s3)
        then obtain st1 where z: "z = Inr st1" "list_all (verdict_backed copy_root (rn_trace s3)) (is_repositories st1)"
            "accounted st1 [] = accounted st' (deepest_first indexed)" and s3: "adds status_event s2 s3" by blast
        have "accounted st1 [] = mset (dc_candidates D)" using z(3) y(4) deepest(2) by (simp add: accounted_def mset_map)
        with finish[OF phased_adds[OF s1 s2 s3] z(2)] show ?case unfolding z(1) sum.case .
      qed
    qed
  qed
qed

definition found_paths :: "git_inspection_issue + discovery \<Rightarrow> path list" where
  "found_paths d = (case d of Inl _ \<Rightarrow> [] | Inr D \<Rightarrow> dc_candidates D)"

lemma reported_unknown:
  "reported c tr (dc_candidates D) (all_unknown D issue issues)" "reported c tr [] (failed_inspection issue)"
  "dc_candidates D = [] \<Longrightarrow> reported c tr (dc_candidates D)
     (finish_inspection \<lparr>is_completeness = dc_completeness D, is_issues = dc_issues D, is_repositories = []\<rparr>)"
proof -
  have "map vd_path (map (\<lambda>p. unknown_verdict p [issue]) (dc_candidates D)) = dc_candidates D"
    by (simp add: o_def)
  then show "reported c tr (dc_candidates D) (all_unknown D issue issues)"
    unfolding reported_def all_unknown_def finish_inspection_def git_inspection_new_def
    by (intro exI[of _ "map (\<lambda>p. unknown_verdict p [issue]) (dc_candidates D)"])
      (simp add: verdict_backed_def list_all_iff)
  show "reported c tr [] (failed_inspection issue)"
    "dc_candidates D = [] \<Longrightarrow> reported c tr (dc_candidates D)
     (finish_inspection \<lparr>is_completeness = dc_completeness D, is_issues = dc_issues D, is_repositories = []\<rparr>)"
    by (simp_all add: reported_def failed_inspection_def finish_inspection_def git_inspection_new_def)
qed

lemma wp_sources:
  assumes H: "queries_return H" and tr: "rn_trace s1 = rn_trace s" and sorted: "sorted_wrt (<) (dc_candidates D)"
  shows "wp (io_bind (io_attempt (preflight_sources H B copy_root E)) (\<lambda>y.
      case y of
        Inl issue \<Rightarrow> io_return (all_unknown D issue (dc_issues D @ [issue]))
      | Inr g \<Rightarrow> inspect_discovered H B copy_root E D g)) (inspected copy_root s (dc_candidates D)) s1"
  unfolding wp_bind wp_attempt sum.case
proof (rule keeps_wp[OF preflight.keeps_preflight_sources[OF H]], goal_cases)
  case (1 r s2)
  then have s2: "adds preflight_event s s2" using tr by (simp add: adds_def)
  show ?case
  proof (cases r)
    case (Inl i)
    then show ?thesis using reported_unknown(1) phased_preflight[OF s2] by (simp add: wp_return inspected_def)
  next
    case (Inr g)
    have phased_after: "phased (rn_trace s) t" if p: "phased (rn_trace s2) t" for t
    proof -
      obtain evs where "rn_trace s2 = rn_trace s @ evs" "list_all preflight_event evs" using s2 by (auto simp: adds_def)
      moreover obtain pre idx sts where "t = rn_trace s2 @ pre @ idx @ sts" "list_all preflight_event pre"
        "list_all index_event idx" "list_all status_event sts" using p unfolding phased_def by blast
      ultimately show ?thesis unfolding phased_def
        by (intro exI[of _ "evs @ pre"] exI[of _ idx] exI[of _ sts]) simp
    qed
    show ?thesis unfolding Inr sum.case
      by (rule wp_mono[OF wp_inspect_discovered[OF H sorted]]) (auto simp: inspected_def phased_after)
  qed
qed

lemma wp_inspect_with_options:
  assumes H: "queries_return H"
  shows "wp (inspect_with_options H copy_root E limits)
    (\<lambda>x s'. \<exists>B s0 d s1. budget_new H limits s = Some (Inr B, s0) \<and> discover H B copy_root s0 = Some (d, s1)
       \<and> discovery_ok limits d \<and> inspected copy_root s (found_paths d) x s') s"
proof -
  obtain t h where t: "h_now H (rn_host s) = (t, h)" by fastforce
  define B where "B = \<lparr>ib_deadline = t + il_total_timeout limits, ib_limits = limits\<rparr>"
  define s0 where "s0 = s\<lparr>rn_host := h\<rparr>"
  have start: "budget_new H limits s = Some (Inr B, s0)"
    by (simp add: budget_new_def io_bind_def io_now_def io_return_def t B_def s0_def)
  have B: "ib_limits B = limits" "rn_trace s0 = rn_trace s" by (simp_all add: B_def s0_def)
  obtain d s1 where d: "discover H B copy_root s0 = Some (d, s1)" "discovered B s0 d s1"
    using wp_Some[OF discover_wp] by blast
  have tr: "rn_trace s1 = rn_trace s" and ok: "discovery_ok limits d" using d(2) B by (simp_all add: discovered_def)
  have sorted: "sorted_wrt (<) (dc_candidates D)" if "d = Inr D" for D
    using ok that by (simp add: discovery_ok_def)
  note unknown = reported_unknown phased_none[OF tr]
  have "wp (case d of
         Inl issue \<Rightarrow> io_return (failed_inspection issue)
       | Inr D \<Rightarrow>
           if dc_completeness D = Incomplete
           then io_return (all_unknown D (case dc_issues D of i # _ \<Rightarrow> i | [] \<Rightarrow> ScanFailed) (dc_issues D))
           else if dc_candidates D = []
           then io_return (finish_inspection
             \<lparr>is_completeness = dc_completeness D, is_issues = dc_issues D, is_repositories = []\<rparr>)
           else
             io_bind (io_attempt (preflight_sources H B copy_root E)) (\<lambda>y.
               case y of
                 Inl issue \<Rightarrow> io_return (all_unknown D issue (dc_issues D @ [issue]))
               | Inr g \<Rightarrow> inspect_discovered H B copy_root E D g)) (inspected copy_root s (found_paths d)) s1"
  proof (cases d)
    case (Inl i)
    then show ?thesis using unknown by (simp add: wp_return inspected_def found_paths_def)
  next
    case (Inr D)
    show ?thesis unfolding Inr found_paths_def sum.case
      using unknown wp_sources[OF H tr sorted[OF Inr]] by (auto simp: wp_return inspected_def)
  qed
  then have "wp (inspect_with_options H copy_root E limits) (inspected copy_root s (found_paths d)) s"
    by (simp add: inspect_with_options_def wp_bind wp_attempt wp_def[of "budget_new H limits"] wp_def[of "discover H B c" for c]
        start d(1))
  then show ?thesis by (rule wp_mono) (use start d ok in blast)
qed

subsection \<open>What an inspection promises\<close>

lemma inspector_run:
  assumes "clock_runs H clock"
  obtains B s0 d s1 rep s' where
    "budget_new H production_limits (fresh_run h) = Some (Inr B, s0)"
    "discover H B (path_of_bytes copy_root) s0 = Some (d, s1)" "discovery_ok production_limits d"
    "system_git_inspector H copy_root (fresh_run h) = Some (Inr rep, s')"
    "phased [] (rn_trace s')" "reported (path_of_bytes copy_root) (rn_trace s') (found_paths d) rep"
  using wp_Some[OF wp_inspect_with_options[OF queries_return[OF assms], of "path_of_bytes copy_root"
      "source_environment_from_lookup (h_env H)" production_limits "fresh_run h"]]
  by (auto simp: inspected_def system_git_inspector_def inspect_def fresh_run_def)

lemma reported_paths: "reported c tr ps rep \<Longrightarrow> map ri_relative_path (gi_repositories rep) = map path_spelling ps"
  by (auto simp: reported_def verdict_report_def)

text \<open>
  C6. An inspection comes back.  On every host whose monotonic clock never goes back and whose
  sleeps last at least as long as asked, whatever its files and its child processes do, the
  inspector answers a report, with at most 256 repositories; it never fails and never hangs.
\<close>

theorem inspection_returns:
  assumes "clock_runs H clock"
  shows "\<exists>rep s'. system_git_inspector H copy_root (fresh_run h) = Some (Ok rep, s')
    \<and> length (gi_repositories rep) \<le> 256"
proof -
  obtain d rep s' where run: "system_git_inspector H copy_root (fresh_run h) = Some (Inr rep, s')"
    and ok: "discovery_ok production_limits d" "reported (path_of_bytes copy_root) (rn_trace s') (found_paths d) rep"
    by (rule inspector_run[OF assms])
  have "length (found_paths d) \<le> 256"
    using ok(1) by (cases d) (simp_all add: found_paths_def discovery_ok_def production_limits_def)
  then show ?thesis using run reported_paths[OF ok(2)] by (metis length_map)
qed

lemma inspection_returns_witness:
  "\<exists>rep s'. system_git_inspector silent_host ''/copy'' (fresh_run 0) = Some (Ok rep, s')
    \<and> length (gi_repositories rep) \<le> 256"
  by (rule inspection_returns[OF silent_host_clock])

text \<open>
  C21. The queries of an inspection come in three phases.  First only \<open>git --exec-path\<close> and
  \<open>git config\<close> on one file run, neither with a repository; only then, and only with a git
  directory that the preflight found, the listings of the index; and only after all of these the
  status queries.  No other query is made.
\<close>

theorem queries_in_phases:
  assumes "clock_runs H clock"
  shows "\<exists>r s' pre idx sts. system_git_inspector H copy_root (fresh_run h) = Some (r, s')
    \<and> rn_trace s' = pre @ idx @ sts
    \<and> list_all preflight_event pre \<and> list_all index_event idx \<and> list_all status_event sts"
proof -
  obtain rep s' where "system_git_inspector H copy_root (fresh_run h) = Some (Inr rep, s')" "phased [] (rn_trace s')"
    by (rule inspector_run[OF assms])
  then show ?thesis unfolding phased_def by (metis append_Nil)
qed

lemma queries_in_phases_witness:
  "\<exists>r s' pre idx sts. system_git_inspector silent_host ''/copy'' (fresh_run 0) = Some (r, s')
    \<and> rn_trace s' = pre @ idx @ sts
    \<and> list_all preflight_event pre \<and> list_all index_event idx \<and> list_all status_event sts"
  by (rule queries_in_phases[OF silent_host_clock])

text \<open>
  C5. A state that is reported is backed by evidence.  In every report, each repository is either
  unknown, or the inspection did in this order: it confirmed the repository's identities and files,
  listed its index successfully and found every entry's flag acceptable, and confirmed it again;
  and later it confirmed the repository and those below it, ran a status query on the same git
  directory successfully, and confirmed them all again; and the state is clean or dirty by the
  number of changes that query printed.
\<close>

theorem known_states_are_backed:
  assumes "clock_runs H clock"
  shows "\<exists>rep s'. system_git_inspector H copy_root (fresh_run h) = Some (Ok rep, s')
    \<and> list_all (\<lambda>ri. ri_state ri = repository_state.Unknown
         \<or> (\<exists>p. path_spelling p = ri_relative_path ri
              \<and> backed (path_of_bytes copy_root) (rn_trace s') p (ri_state ri))) (gi_repositories rep)"
proof -
  obtain d rep s' where run: "system_git_inspector H copy_root (fresh_run h) = Some (Inr rep, s')"
    and ok: "reported (path_of_bytes copy_root) (rn_trace s') (found_paths d) rep"
    by (rule inspector_run[OF assms])
  obtain vs where "gi_repositories rep = map verdict_report vs"
    "list_all (verdict_backed (path_of_bytes copy_root) (rn_trace s')) vs" using ok unfolding reported_def by blast
  then show ?thesis using run
    by (auto simp: list_all_iff verdict_backed_def verdict_report_def intro!: exI[of _ rep] exI[of _ s'])
qed

lemma known_states_are_backed_witness:
  "\<exists>rep s'. system_git_inspector silent_host ''/copy'' (fresh_run 0) = Some (Ok rep, s')
    \<and> list_all (\<lambda>ri. ri_state ri = repository_state.Unknown
         \<or> (\<exists>p. path_spelling p = ri_relative_path ri
              \<and> backed (path_of_bytes ''/copy'') (rn_trace s') p (ri_state ri))) (gi_repositories rep)"
  by (rule known_states_are_backed[OF silent_host_clock])

text \<open>
  C18. No repository is dropped.  The report lists exactly the repositories that discovery found,
  each once and in the order of their paths, whatever went wrong with any of them; it lists none
  only when discovery failed or found none.
\<close>

theorem every_repository_reported:
  assumes "clock_runs H clock"
  shows "\<exists>B s0 d s1 rep s'.
    budget_new H production_limits (fresh_run h) = Some (Ok B, s0)
    \<and> discover H B (path_of_bytes copy_root) s0 = Some (d, s1)
    \<and> system_git_inspector H copy_root (fresh_run h) = Some (Ok rep, s')
    \<and> map ri_relative_path (gi_repositories rep)
      = (case d of Inl _ \<Rightarrow> [] | Inr D \<Rightarrow> map path_spelling (dc_candidates D))"
proof -
  obtain B s0 d s1 rep s' where run: "budget_new H production_limits (fresh_run h) = Some (Inr B, s0)"
    "discover H B (path_of_bytes copy_root) s0 = Some (d, s1)"
    "system_git_inspector H copy_root (fresh_run h) = Some (Inr rep, s')"
    and ok: "reported (path_of_bytes copy_root) (rn_trace s') (found_paths d) rep"
    by (rule inspector_run[OF assms])
  have "map ri_relative_path (gi_repositories rep)
      = (case d of Inl _ \<Rightarrow> [] | Inr D \<Rightarrow> map path_spelling (dc_candidates D))"
    using reported_paths[OF ok] by (simp add: found_paths_def split: sum.split)
  with run show ?thesis by blast
qed

lemma every_repository_reported_witness:
  "\<exists>B s0 d s1 rep s'.
    budget_new silent_host production_limits (fresh_run 0) = Some (Ok B, s0)
    \<and> discover silent_host B (path_of_bytes ''/copy'') s0 = Some (d, s1)
    \<and> system_git_inspector silent_host ''/copy'' (fresh_run 0) = Some (Ok rep, s')
    \<and> map ri_relative_path (gi_repositories rep)
      = (case d of Inl _ \<Rightarrow> [] | Inr D \<Rightarrow> map path_spelling (dc_candidates D))"
  by (rule every_repository_reported[OF silent_host_clock])

end
