(* ===== verification/Rust_Text.thy ===== *)
theory Rust_Text
  imports Prelude
begin

text \<open>
  What the command line uses of \<open>std::str\<close> and \<open>std::collections\<close>: UTF-8 validation and the
  lossy decoding of \<open>String::from_utf8_lossy\<close>, \<open>char::is_control\<close>, and the iteration of an
  ordered map.
\<close>

subsection \<open>UTF-8\<close>

text \<open>The ranges of the bytes that may follow a lead byte; no range list for a byte that leads nothing.\<close>

definition utf8_tail :: "nat \<Rightarrow> (nat \<times> nat) list option" where
  "utf8_tail b =
     (let c = (128, 191) in
      if b < 128 then Some []
      else if 194 \<le> b \<and> b \<le> 223 then Some [c]
      else if b = 224 then Some [(160, 191), c]
      else if b = 237 then Some [(128, 159), c]
      else if 225 \<le> b \<and> b \<le> 239 then Some [c, c]
      else if b = 240 then Some [(144, 191), c, c]
      else if 241 \<le> b \<and> b \<le> 243 then Some [c, c, c]
      else if b = 244 then Some [(128, 143), c, c]
      else None)"

text \<open>How many of the expected bytes follow.\<close>

fun tail_matched :: "(nat \<times> nat) list \<Rightarrow> bytes \<Rightarrow> nat" where
  "tail_matched ((lo, hi) # rs) (b # bs) =
     (if lo \<le> of_char b \<and> of_char b \<le> hi then Suc (tail_matched rs bs) else 0)"
| "tail_matched _ _ = 0"

text \<open>
  One chunk at the head of the text: whether it is a scalar value, and the number of bytes after
  the first.  A broken chunk is the longest beginning of a scalar value, at least one byte.
\<close>

definition utf8_chunk :: "char \<Rightarrow> bytes \<Rightarrow> bool \<times> nat" where
  "utf8_chunk b bs =
     (case utf8_tail (of_char b) of
        None \<Rightarrow> (False, 0)
      | Some rs \<Rightarrow> (let n = tail_matched rs bs in (n = length rs, n)))"

fun utf8_valid :: "bytes \<Rightarrow> bool" where
  "utf8_valid [] = True"
| "utf8_valid (b # bs) =
     (case utf8_chunk b bs of (good, n) \<Rightarrow> good \<and> utf8_valid (drop n bs))"

text \<open>U+FFFD.\<close>

definition replacement_character :: bytes where
  "replacement_character = map char_of [239 :: nat, 191, 189]"

fun from_utf8_lossy :: "bytes \<Rightarrow> bytes" where
  "from_utf8_lossy [] = []"
| "from_utf8_lossy (b # bs) =
     (case utf8_chunk b bs of (good, n) \<Rightarrow>
        (if good then b # take n bs else replacement_character) @ from_utf8_lossy (drop n bs))"

text \<open>The scalar values of a valid text.\<close>

definition scalar_value :: "char \<Rightarrow> bytes \<Rightarrow> nat" where
  "scalar_value b rest =
     foldl (\<lambda>v c. v * 64 + of_char c mod 64)
       (case length rest of 0 \<Rightarrow> of_char b | Suc 0 \<Rightarrow> of_char b - 192
        | Suc (Suc 0) \<Rightarrow> of_char b - 224 | _ \<Rightarrow> of_char b - 240) rest"

fun utf8_scalars :: "bytes \<Rightarrow> nat list" where
  "utf8_scalars [] = []"
| "utf8_scalars (b # bs) =
     (case utf8_chunk b bs of (good, n) \<Rightarrow> scalar_value b (take n bs) # utf8_scalars (drop n bs))"

text \<open>\<open>char::is_control\<close>: the general category Cc.\<close>

definition is_control :: "nat \<Rightarrow> bool" where
  "is_control v = (v < 32 \<or> 127 \<le> v \<and> v < 160)"

declare utf8_valid.simps(2) [simp del] from_utf8_lossy.simps(2) [simp del] utf8_scalars.simps(2) [simp del]

lemma tail_matched_append:
  "tail_matched rs bs = length rs \<Longrightarrow> tail_matched rs (take (length rs) bs @ cs) = length rs"
  by (induction rs bs rule: tail_matched.induct) (auto split: if_splits)

lemma utf8_chunk_append:
  assumes "utf8_chunk b bs = (True, n)"
  shows "utf8_chunk b (take n bs @ cs) = (True, n)" "n \<le> length bs"
proof -
  obtain rs where rs: "utf8_tail (of_char b) = Some rs" "tail_matched rs bs = length rs" "n = length rs"
    using assms by (auto simp: utf8_chunk_def Let_def split: option.splits)
  then show "utf8_chunk b (take n bs @ cs) = (True, n)"
    by (simp add: utf8_chunk_def tail_matched_append)
  have "tail_matched rs bs \<le> length bs" by (induction rs bs rule: tail_matched.induct) auto
  then show "n \<le> length bs" using rs by simp
qed

lemma utf8_valid_step:
  assumes "utf8_chunk b bs = (True, n)"
  shows "utf8_valid (b # take n bs @ cs) = utf8_valid cs"
  using utf8_chunk_append[OF assms] by (simp add: utf8_valid.simps(2))

lemma lossy_of_valid: "utf8_valid bs \<Longrightarrow> from_utf8_lossy bs = bs"
  by (induction bs rule: from_utf8_lossy.induct)
    (auto simp: utf8_valid.simps(2) from_utf8_lossy.simps(2) split: prod.splits)

lemma lossy_is_valid: "utf8_valid (from_utf8_lossy bs)"
proof (induction bs rule: from_utf8_lossy.induct)
  case (2 b bs)
  obtain good n where chunk: "utf8_chunk b bs = (good, n)" by (cases "utf8_chunk b bs")
  then have rest: "utf8_valid (from_utf8_lossy (drop n bs))" using 2 by simp
  show ?case
  proof (cases good)
    case True
    then show ?thesis using chunk rest utf8_valid_step[of b bs n] by (simp add: from_utf8_lossy.simps(2))
  next
    case False
    have "utf8_valid (replacement_character @ cs) = utf8_valid cs" for cs
      by (simp add: replacement_character_def utf8_valid.simps(2) utf8_chunk_def utf8_tail_def Let_def)
    then show ?thesis using chunk rest False by (simp add: from_utf8_lossy.simps(2))
  qed
qed simp

lemma lossy_eq_iff: "from_utf8_lossy bs = bs \<longleftrightarrow> utf8_valid bs"
  by (metis lossy_is_valid lossy_of_valid)

subsection \<open>Ordered maps\<close>

text \<open>The iteration of a \<open>BTreeMap\<close>: its entries in the order of the keys.\<close>

definition map_entries :: "('k :: linorder \<rightharpoonup> 'v) \<Rightarrow> ('k \<times> 'v) list" where
  "map_entries m = map (\<lambda>k. (k, the (m k))) (sorted_list_of_set (dom m))"

lemma map_entries_empty [simp]: "map_entries Map.empty = []"
  by (simp add: map_entries_def)

lemma map_of_map_entries:
  assumes "finite (dom m)"
  shows "map_of (map_entries m) = m"
proof
  fix k
  show "map_of (map_entries m) k = m k"
    using assms by (cases "k \<in> dom m") (auto simp: map_entries_def map_of_map_keys restrict_map_def o_def)
qed

end
