(* ===== verification/Cli_Views.thy ===== *)
theory Cli_Views
  imports Rust_Text App_Query App_Create App_Remove App_Init Receipt_Json
begin

text \<open>
  What the command line shows: the renderer-facing views of \<open>thinws-cli/src/lib.rs\<close>, the stable
  names of their fields and the conversions from the results and failures of the use cases.
  A view holds texts, byte paths and counts only; a path keeps its bytes.
\<close>

subsection \<open>Views\<close>

record InitView =
  iv_result :: string
  iv_instance_id :: string
  iv_control_root :: bytes

record DoctorView =
  dv_instance_id :: string
  dv_control_root :: bytes
  dv_incomplete_workspaces :: nat

record CreateReadyView =
  crv_workspace_id :: string
  crv_name :: string
  crv_source :: bytes
  crv_path :: bytes
  crv_created :: bool
  crv_requested_mode :: string
  crv_effective_mode :: string
  crv_actual_mode :: string
  crv_adapter :: string
  crv_cow :: string
  crv_fallback_reason :: "string option"
  crv_failed_attempt_count :: nat

record CreatePreviewView =
  cpv_name :: string
  cpv_source :: bytes
  cpv_target :: bytes
  cpv_source_volume_id :: string
  cpv_target_volume_id :: string
  cpv_effective_mode :: string
  cpv_selected_adapter :: string
  cpv_fallback_reason :: "string option"

datatype CreateView = ReadyView CreateReadyView | PreviewView CreatePreviewView

record MaterializationView =
  mv_requested_mode :: string
  mv_effective_mode :: string
  mv_actual_mode :: string
  mv_adapter :: string
  mv_cow :: string
  mv_fallback_reason :: "string option"
  mv_failed_attempt_count :: nat

record WorkspaceView =
  wv_workspace_id :: string
  wv_name :: string
  wv_state :: string
  wv_source :: bytes
  wv_path :: bytes
  wv_last_error_code :: "string option"
  wv_materialization :: "MaterializationView option"

record RepositoryView =
  rv_relative_path :: bytes
  rv_state :: string
  rv_tracked_changes :: "nat option"
  rv_issues :: "string list"

record GitView =
  gv_scan_complete :: bool
  gv_state :: string
  gv_issues :: "string list"
  gv_repositories :: "RepositoryView list"

record SpaceView =
  spv_state :: string
  spv_logical_bytes :: "u64 option"
  spv_allocated_bytes_estimate :: "u64 option"

record StatusView =
  stv_workspace :: WorkspaceView
  stv_git :: "GitView option"
  stv_space :: "SpaceView option"

record RemoveView =
  rmv_workspace_id :: string
  rmv_operation_id :: string
  rmv_forced :: bool
  rmv_result :: string
  rmv_log_path :: bytes
  rmv_warning :: "string option"

record ErrorView =
  ev_code :: string
  ev_message :: string
  ev_context :: "string \<rightharpoonup> json"
  ev_remediation :: "string option"

subsection \<open>Names\<close>

fun mode_name :: "materialization_mode \<Rightarrow> string" where
  "mode_name CowClone = ''cow-clone''"
| "mode_name FullCopy = ''full-copy''"

fun adapter_name :: "materializer_kind \<Rightarrow> string" where
  "adapter_name ApfsFileClone = ''apfs-file-clone''"
| "adapter_name BtrfsReflink = ''btrfs-reflink''"
| "adapter_name materializer_kind.FullCopy = ''full-copy''"

fun cow_name :: "cow_evidence \<Rightarrow> string" where
  "cow_name cow_evidence.Confirmed = ''confirmed''"
| "cow_name NotUsed = ''not-used''"
| "cow_name cow_evidence.Unknown = ''unknown''"

fun fallback_name :: "fallback_reason \<Rightarrow> string" where
  "fallback_name CloneUnsupportedAtPreflight = ''clone-unsupported-at-preflight''"
| "fallback_name CloneUnavailableAtRuntime = ''clone-unavailable-at-runtime''"

fun git_state_name :: "git_state \<Rightarrow> string" where
  "git_state_name NotApplicable = ''not-applicable''"
| "git_state_name git_state.Clean = ''clean''"
| "git_state_name git_state.Dirty = ''dirty''"
| "git_state_name git_state.Unknown = ''unknown''"

fun repository_state_name :: "repository_state \<Rightarrow> string" where
  "repository_state_name repository_state.Clean = ''clean''"
| "repository_state_name (repository_state.Dirty n) = ''dirty''"
| "repository_state_name repository_state.Unknown = ''unknown''"

fun query_failure_name :: "git_query_failure_kind \<Rightarrow> string" where
  "query_failure_name (InvalidInput f) = ''query-invalid-input''"
| "query_failure_name (git_query_failure_kind.Start k n) = ''query-start-failed''"
| "query_failure_name (git_query_failure_kind.Io q k n) = ''query-io-failed''"
| "query_failure_name TimedOut = ''query-timed-out''"
| "query_failure_name (OutputLimitExceeded s n) = ''query-output-limit''"

fun git_issue_name :: "git_inspection_issue \<Rightarrow> string" where
  "git_issue_name InvalidCopyRoot = ''invalid-copy-root''"
| "git_issue_name EnvironmentUnsupported = ''environment-unsupported''"
| "git_issue_name InvalidExecPath = ''invalid-exec-path''"
| "git_issue_name ScanFailed = ''scan-failed''"
| "git_issue_name ScanLimitReached = ''scan-limit-reached''"
| "git_issue_name DepthLimitReached = ''depth-limit-reached''"
| "git_issue_name RepositoryLimitReached = ''repository-limit-reached''"
| "git_issue_name UnsafeRepositoryMetadata = ''unsafe-repository-metadata''"
| "git_issue_name ExternalRepositoryMetadata = ''external-repository-metadata''"
| "git_issue_name UnsupportedConfiguration = ''unsupported-configuration''"
| "git_issue_name UnsafeAttributes = ''unsafe-attributes''"
| "git_issue_name HiddenIndexFlags = ''hidden-index-flags''"
| "git_issue_name SparseCheckout = ''sparse-checkout''"
| "git_issue_name (QueryFailed kind child cleanup) = query_failure_name kind"
| "git_issue_name (QueryNonZeroExit x) = ''query-nonzero-exit''"
| "git_issue_name InvalidGitOutput = ''invalid-git-output''"
| "git_issue_name EvidenceChanged = ''evidence-changed''"
| "git_issue_name UnsafeDescendant = ''unsafe-descendant''"
| "git_issue_name BudgetExpired = ''budget-expired''"

subsection \<open>Views of results\<close>

definition materialization_view :: "final_summary \<Rightarrow> MaterializationView" where
  "materialization_view facts =
     \<lparr>mv_requested_mode = mode_name (fs_requested_mode facts),
      mv_effective_mode = mode_name (fs_effective_mode facts),
      mv_actual_mode = mode_name (fs_actual_mode facts),
      mv_adapter = adapter_name (fs_adapter facts),
      mv_cow = cow_name (fs_cow facts),
      mv_fallback_reason = map_option fallback_name (fs_fallback_reason facts),
      mv_failed_attempt_count = fs_failed_attempt_count facts\<rparr>"

definition workspace_view :: "uuid_api \<Rightarrow> workspace_query \<Rightarrow> WorkspaceView" where
  "workspace_view U query =
     (let record = wq_record query; reservation = rec_reservation record in
      \<lparr>wv_workspace_id = workspace_id_to_string U (res_workspace_id reservation),
       wv_name = name_str (res_name reservation),
       wv_state = workspace_state_as_str (rec_state record),
       wv_source = path_bytes (res_source_path reservation),
       wv_path = path_bytes (res_target_path reservation),
       wv_last_error_code = map_option error_code_as_str (rec_last_error_code record),
       wv_materialization = map_option materialization_view (wq_materialization query)\<rparr>)"

definition space_view :: "workspace_space \<Rightarrow> SpaceView" where
  "space_view s =
     (case s of
        CompleteSpace logical allocated \<Rightarrow>
          \<lparr>spv_state = ''complete'', spv_logical_bytes = Some logical,
           spv_allocated_bytes_estimate = Some allocated\<rparr>
      | UnknownSpace \<Rightarrow>
          \<lparr>spv_state = ''unknown'', spv_logical_bytes = None, spv_allocated_bytes_estimate = None\<rparr>)"

text \<open>The root repository is shown as \<open>.\<close>.\<close>

definition shown_path :: "bytes \<Rightarrow> bytes" where
  "shown_path p = (if p = [] then ''.'' else p)"

definition repository_view :: "repository_inspection \<Rightarrow> RepositoryView" where
  "repository_view r =
     \<lparr>rv_relative_path = shown_path (ri_relative_path r),
      rv_state = repository_state_name (ri_state r),
      rv_tracked_changes = tracked_change_count (ri_state r),
      rv_issues = map git_issue_name (ri_issues r)\<rparr>"

definition git_view :: "git_inspection \<Rightarrow> GitView" where
  "git_view g =
     \<lparr>gv_scan_complete = (gi_discovery g = Complete),
      gv_state = git_state_name (gi_aggregate g),
      gv_issues = map git_issue_name (gi_issues g),
      gv_repositories = map repository_view (gi_repositories g)\<rparr>"

definition status_view :: "uuid_api \<Rightarrow> status_result \<Rightarrow> StatusView" where
  "status_view U s =
     \<lparr>stv_workspace = workspace_view U (ws_workspace s),
      stv_git = map_option git_view (ws_git s),
      stv_space = map_option space_view (ws_space s)\<rparr>"

definition init_view :: "uuid_api \<Rightarrow> init_outcome \<Rightarrow> InitView" where
  "init_view U out =
     (let identity = inst_identity (io_installation out) in
      \<lparr>iv_result = init_result_as_str (io_result out),
       iv_instance_id = instance_id_to_string U (ii_instance_id identity),
       iv_control_root = path_bytes (ii_data_root identity)\<rparr>)"

definition doctor_view :: "uuid_api \<Rightarrow> doctor_outcome \<Rightarrow> DoctorView" where
  "doctor_view U out =
     (let identity = inst_identity (do_installation out) in
      \<lparr>dv_instance_id = instance_id_to_string U (ii_instance_id identity),
       dv_control_root = path_bytes (ii_data_root identity),
       dv_incomplete_workspaces = do_incomplete_workspaces out\<rparr>)"

definition create_preview_view :: "uuid_api \<Rightarrow> create_request \<Rightarrow> create_preview \<Rightarrow> CreatePreviewView" where
  "create_preview_view U request preview =
     \<lparr>cpv_name = name_str (cq_name request),
      cpv_source = path_bytes (cq_source request),
      cpv_target = path_bytes (cq_target request),
      cpv_source_volume_id = volume_id_to_string U (cp_source_volume_id preview),
      cpv_target_volume_id = volume_id_to_string U (cp_target_volume_id preview),
      cpv_effective_mode = mode_name (cp_effective_mode preview),
      cpv_selected_adapter = adapter_name (cp_selected_adapter preview),
      cpv_fallback_reason = map_option fallback_name (cp_fallback_reason preview)\<rparr>"

definition create_ready_view :: "uuid_api \<Rightarrow> create_outcome \<Rightarrow> CreateReadyView" where
  "create_ready_view U out =
     (let reservation = rec_reservation (cro_record out); facts = cro_materialization out in
      \<lparr>crv_workspace_id = workspace_id_to_string U (res_workspace_id reservation),
       crv_name = name_str (res_name reservation),
       crv_source = path_bytes (res_source_path reservation),
       crv_path = path_bytes (res_target_path reservation),
       crv_created = cro_created out,
       crv_requested_mode = mode_name (fs_requested_mode facts),
       crv_effective_mode = mode_name (fs_effective_mode facts),
       crv_actual_mode = mode_name (fs_actual_mode facts),
       crv_adapter = adapter_name (fs_adapter facts),
       crv_cow = cow_name (fs_cow facts),
       crv_fallback_reason = map_option fallback_name (fs_fallback_reason facts),
       crv_failed_attempt_count = fs_failed_attempt_count facts\<rparr>)"

definition remove_view :: "uuid_api \<Rightarrow> remove_outcome \<Rightarrow> RemoveView" where
  "remove_view U out =
     \<lparr>rmv_workspace_id = workspace_id_to_string U (ro_workspace_id out),
      rmv_operation_id = operation_id_to_string U (ro_operation_id out),
      rmv_forced = ro_forced out,
      rmv_result = remove_result_as_str (ro_result out),
      rmv_log_path = path_bytes (ro_log_path out),
      rmv_warning = map_option (\<lambda>_. ''process-scan-incomplete'') (ro_warning out)\<rparr>"

subsection \<open>Views of failures\<close>

text \<open>\<open>write!(\&mut encoded, "{byte:02x}")\<close> for every byte.\<close>

definition byte_hex :: "char \<Rightarrow> string" where
  "byte_hex b = [hex_digits ! (of_char b div 16), hex_digits ! (of_char b mod 16)]"

definition cli_hex :: "bytes \<Rightarrow> string" where
  "cli_hex bs = concat (map byte_hex bs)"

text \<open>A path that is no printable text is shown in hexadecimal.\<close>

definition error_path_display :: "bytes \<Rightarrow> string" where
  "error_path_display bs =
     (if utf8_valid bs \<and> \<not> list_ex is_control (utf8_scalars bs) then bs else ''hex:'' @ cli_hex bs)"

definition json_usize :: "nat \<Rightarrow> json" where
  "json_usize n = JNumber (int n)"

definition json_strings :: "string list \<Rightarrow> json" where
  "json_strings xs = JArray (map JString xs)"

definition error_repository_json :: "repository_inspection \<Rightarrow> json" where
  "error_repository_json r =
     (let bs = shown_path (ri_relative_path r) in
      JObject
        [(''relative_path'', JString (error_path_display bs)),
         (''relative_path_hex'', JString (cli_hex bs)),
         (''state'', JString (repository_state_name (ri_state r))),
         (''tracked_changes'', json_opt json_usize (tracked_change_count (ri_state r))),
         (''issues'', json_strings (map git_issue_name (ri_issues r)))])"

definition use_case_error_view :: "use_case_error \<Rightarrow> ErrorView" where
  "use_case_error_view e =
     (let diagnostic = uce_diagnostic e;
          context = (\<lambda>k. map_option (\<lambda>v. JString (user_value v)) (ce_context diagnostic k)) in
      \<lparr>ev_code = error_code_as_str (ce_code diagnostic),
       ev_message = ce_message diagnostic,
       ev_context =
         (case uce_git_inspection e of
            None \<Rightarrow> context
          | Some g \<Rightarrow> context
              (''issues'' \<mapsto> json_strings (map git_issue_name (gi_issues g)),
               ''repositories'' \<mapsto> JArray (map error_repository_json (gi_repositories g)))),
       ev_remediation = ce_remediation diagnostic\<rparr>)"

definition plain_error :: "string \<Rightarrow> string \<Rightarrow> ErrorView" where
  "plain_error c message =
     \<lparr>ev_code = c, ev_message = message, ev_context = Map.empty, ev_remediation = None\<rparr>"

definition usage_error :: "string \<Rightarrow> ErrorView" where
  "usage_error message = plain_error ''E_USAGE'' message"

subsection \<open>Facts\<close>

lemma cli_hex_eq: "cli_hex bs = hex bs"
  by (induction bs) (simp_all add: cli_hex_def byte_hex_def)

lemma ev_code_view [simp]: "ev_code (use_case_error_view e) = error_code_as_str (uce_code e)"
  by (simp add: use_case_error_view_def Let_def)

lemma plain_error_sel [simp]:
  "ev_code (plain_error c m) = c" "ev_message (plain_error c m) = m"
  "ev_context (plain_error c m) = Map.empty" "ev_remediation (plain_error c m) = None"
  by (simp_all add: plain_error_def)

lemma finite_ev_context:
  "finite (dom (ce_context (uce_diagnostic e))) \<Longrightarrow> finite (dom (ev_context (use_case_error_view e)))"
  by (auto simp: use_case_error_view_def Let_def dom_map_option split: option.splits)

text \<open>What is shown of a repository path in an error gives the path back.\<close>

lemma shown_path_hex: "unhex (cli_hex (shown_path p)) = Some (shown_path p)"
  by (simp add: cli_hex_eq unhex_hex)

lemma workspace_view_sel [simp]:
  "wv_state (workspace_view U q) = workspace_state_as_str (rec_state (wq_record q))"
  "wv_path (workspace_view U q) = path_bytes (res_target_path (rec_reservation (wq_record q)))"
  "wv_source (workspace_view U q) = path_bytes (res_source_path (rec_reservation (wq_record q)))"
  "wv_name (workspace_view U q) = name_str (res_name (rec_reservation (wq_record q)))"
  by (simp_all add: workspace_view_def Let_def)

end
