(* ===== verification/Cli_Render.thy ===== *)
theory Cli_Render
  imports Cli_Views
begin

text \<open>
  The renderers of \<open>thinws-cli/src/lib.rs\<close>: the human text and the JSON document of a success
  or a failure, the exit status of an error code, and the writing of both.

  A writer is a sink with the bytes it took so far.  Any write may fail, after any beginning of
  its bytes: \<open>sk_faults\<close> gives for the number of a write how many bytes it takes before it fails.
  An object of \<open>serde_json\<close> is the list of its entries; \<open>to_writer\<close> writes the text of
  \<open>json_to_string\<close>.  The build's \<open>OS\<close> and \<open>ARCH\<close> are a parameter.
\<close>

subsection \<open>Writers\<close>

record sink =
  sk_written :: bytes
  sk_writes :: nat
  sk_faults :: "nat \<Rightarrow> nat option"

definition write_all :: "bytes \<Rightarrow> sink \<Rightarrow> bool \<times> sink" where
  "write_all bs s =
     (case sk_faults s (sk_writes s) of
        None \<Rightarrow> (True, s\<lparr>sk_written := sk_written s @ bs, sk_writes := Suc (sk_writes s)\<rparr>)
      | Some n \<Rightarrow> (False, s\<lparr>sk_written := sk_written s @ take n bs, sk_writes := Suc (sk_writes s)\<rparr>))"

text \<open>Writes in sequence; the first failure ends them (\<open>?\<close> and \<open>and_then\<close>).\<close>

fun put_all :: "bytes list \<Rightarrow> sink \<Rightarrow> bool \<times> sink" where
  "put_all [] s = (True, s)"
| "put_all (bs # rest) s =
     (case write_all bs s of (True, s') \<Rightarrow> put_all rest s' | (False, s') \<Rightarrow> (False, s'))"

definition newline :: bytes where
  "newline = [CHR 0x0A]"

definition writeln :: "bytes \<Rightarrow> bytes" where
  "writeln bs = bs @ newline"

subsection \<open>Human text\<close>

record build_host =
  bh_platform :: string
  bh_arch :: string

datatype success =
  Init InitView | Doctor DoctorView | Create CreateView | List "WorkspaceView list"
| Path bytes | Status StatusView | Remove RemoveView

definition or_none :: "string option \<Rightarrow> string" where
  "or_none r = (case r of None \<Rightarrow> ''none'' | Some x \<Rightarrow> x)"

definition count_text :: "nat option \<Rightarrow> string" where
  "count_text n = (case n of None \<Rightarrow> ''unknown'' | Some k \<Rightarrow> decimal k)"

definition create_human :: "CreateView \<Rightarrow> bytes list" where
  "create_human c =
     (case c of
        ReadyView v \<Rightarrow>
          [writeln ''Workspace ready'',
           writeln (''Result:          '' @ (if crv_created v then ''created'' else ''already-ready'')),
           writeln (''Name:            '' @ crv_name v),
           writeln (''Workspace ID:    '' @ crv_workspace_id v),
           ''Source:          '', crv_source v, newline @ ''Path:            '', crv_path v, newline,
           writeln (''Actual mode:     '' @ crv_actual_mode v),
           writeln (''CoW:             '' @ crv_cow v),
           writeln (''Fallback:        '' @ or_none (crv_fallback_reason v)),
           writeln ''Git setup:       not performed'']
      | PreviewView v \<Rightarrow>
          [writeln ''Workspace creation preview'',
           writeln (''Name:            '' @ cpv_name v),
           ''Source:          '', cpv_source v, newline @ ''Target:          '', cpv_target v, newline,
           writeln (''Source volume:   '' @ cpv_source_volume_id v),
           writeln (''Target volume:   '' @ cpv_target_volume_id v),
           writeln (''Planned mode:    '' @ cpv_effective_mode v),
           writeln (''Adapter:         '' @ cpv_selected_adapter v),
           writeln (''Fallback:        '' @ or_none (cpv_fallback_reason v)),
           writeln ''Workspace ID:    not allocated''])"

definition list_human :: "WorkspaceView \<Rightarrow> bytes list" where
  "list_human w =
     [wv_name w @ ''  '' @ wv_workspace_id w @ ''  '' @ wv_state w @ ''  '',
      wv_source w,
      writeln (''  '' @ (case wv_materialization w of None \<Rightarrow> ''not-ready'' | Some m \<Rightarrow> mv_actual_mode m))]"

definition repository_human :: "RepositoryView \<Rightarrow> bytes list" where
  "repository_human r =
     [''Repository:    '', rv_relative_path r,
      writeln (''  '' @ rv_state r @ ''  '' @ count_text (rv_tracked_changes r))]
     @ map (\<lambda>i. writeln (''Repo issue:    '' @ i)) (rv_issues r)"

definition git_human :: "GitView option \<Rightarrow> bytes list" where
  "git_human g =
     (case g of
        None \<Rightarrow> [writeln ''Git:           not run (Workspace not Ready)'']
      | Some git \<Rightarrow>
          writeln (''Git:           '' @ gv_state git)
          # map (\<lambda>i. writeln (''Git issue:     '' @ i)) (gv_issues git)
          @ concat (map repository_human (gv_repositories git)))"

definition space_human :: "SpaceView option \<Rightarrow> bytes list" where
  "space_human s =
     (case s of
        None \<Rightarrow> [writeln ''Space:         not measured (Workspace not Ready)'']
      | Some space \<Rightarrow>
          [writeln (''Logical bytes: '' @ count_text (map_option unat (spv_logical_bytes space))),
           writeln (''Allocated bytes (estimate): ''
                    @ count_text (map_option unat (spv_allocated_bytes_estimate space)))])"

definition status_human :: "StatusView \<Rightarrow> bytes list" where
  "status_human s =
     (let w = stv_workspace s in
      [writeln ''Workspace status'',
       writeln (''Name:          '' @ wv_name w),
       writeln (''Workspace ID:  '' @ wv_workspace_id w),
       writeln (''State:         '' @ wv_state w),
       ''Source:        '', wv_source w, newline]
      @ (if wv_state w = ''ready'' then [''Path:          '', wv_path w, newline] else [])
      @ git_human (stv_git s) @ space_human (stv_space s))"

definition remove_human :: "RemoveView \<Rightarrow> bytes list" where
  "remove_human v =
     [writeln ''Workspace removed'',
      writeln (''Result: '' @ rmv_result v),
      writeln (''Workspace ID: '' @ rmv_workspace_id v),
      writeln (''Forced: '' @ (if rmv_forced v then ''yes'' else ''no'')),
      writeln (''Operation ID: '' @ rmv_operation_id v),
      ''Log: '', rmv_log_path v, newline]
     @ (case rmv_warning v of None \<Rightarrow> [] | Some warning \<Rightarrow> [writeln (''Warning: '' @ warning)])
     @ [writeln ''Delivery verification: not performed'']"

definition human_writes :: "build_host \<Rightarrow> success \<Rightarrow> bytes list" where
  "human_writes H s =
     (case s of
        Init v \<Rightarrow>
          [writeln ''ThinWorkspace initialized'',
           writeln (''Result:      '' @ iv_result v),
           ''Control root: '', iv_control_root v, newline]
      | Doctor v \<Rightarrow>
          [writeln ''ThinWorkspace doctor'',
           writeln ''Status:              ready'',
           writeln (''Host:                '' @ bh_platform H @ ''/'' @ bh_arch H),
           ''Control root:        '', dv_control_root v, newline,
           writeln (''Incomplete workspaces: '' @ decimal (dv_incomplete_workspaces v)),
           writeln ''Git check:           available'']
      | Create v \<Rightarrow> create_human v
      | List ws \<Rightarrow> writeln ''Workspaces'' # concat (map list_human ws)
      | Path p \<Rightarrow> [p, newline]
      | Status v \<Rightarrow> status_human v
      | Remove v \<Rightarrow> remove_human v)"

definition render_success_human :: "build_host \<Rightarrow> success \<Rightarrow> sink \<Rightarrow> bool \<times> sink" where
  "render_success_human H s out = put_all (human_writes H s) out"

subsection \<open>JSON documents\<close>

text \<open>\<open>Map::insert\<close> and \<open>Map::remove\<close>.\<close>

definition object_insert :: "string \<Rightarrow> json \<Rightarrow> (string \<times> json) list \<Rightarrow> (string \<times> json) list" where
  "object_insert k v kvs = filter (\<lambda>(k', _). k' \<noteq> k) kvs @ [(k, v)]"

definition object_remove :: "string \<Rightarrow> (string \<times> json) list \<Rightarrow> (string \<times> json) list" where
  "object_remove k kvs = filter (\<lambda>(k', _). k' \<noteq> k) kvs"

definition json_lossy :: "bytes \<Rightarrow> json" where
  "json_lossy bs = JString (from_utf8_lossy bs)"

definition json_hex :: "bytes \<Rightarrow> json" where
  "json_hex bs = JString (cli_hex bs)"

definition json_text_opt :: "string option \<Rightarrow> json" where
  "json_text_opt s = json_opt JString s"

definition fallback_json :: "string option \<Rightarrow> json" where
  "fallback_json r = JObject [(''used'', JBool (r \<noteq> None)), (''reason'', json_text_opt r)]"

definition create_json :: "CreateView \<Rightarrow> (string \<times> json) list" where
  "create_json c =
     (case c of
        ReadyView v \<Rightarrow>
          [(''command'', JString ''workspace create''),
           (''dry_run'', JBool False),
           (''result'', JString (if crv_created v then ''created'' else ''already-ready'')),
           (''workspace_id'', JString (crv_workspace_id v)),
           (''name'', JString (crv_name v)),
           (''state'', JString ''ready''),
           (''source'', json_lossy (crv_source v)),
           (''source_hex'', json_hex (crv_source v)),
           (''path'', json_lossy (crv_path v)),
           (''path_hex'', json_hex (crv_path v)),
           (''materialization'', JObject
             [(''requested_mode'', JString (crv_requested_mode v)),
              (''effective_planned_mode'', JString (crv_effective_mode v)),
              (''actual_mode'', JString (crv_actual_mode v)),
              (''adapter'', JString (crv_adapter v)),
              (''outcome'', JString ''succeeded''),
              (''cow'', JString (crv_cow v)),
              (''fallback'', fallback_json (crv_fallback_reason v)),
              (''failed_attempt_count'', json_usize (crv_failed_attempt_count v))])]
      | PreviewView v \<Rightarrow>
          [(''command'', JString ''workspace create''),
           (''dry_run'', JBool True),
           (''workspace_id'', JNull),
           (''name'', JString (cpv_name v)),
           (''source'', json_lossy (cpv_source v)),
           (''source_hex'', json_hex (cpv_source v)),
           (''target'', json_lossy (cpv_target v)),
           (''target_hex'', json_hex (cpv_target v)),
           (''source_volume_id'', JString (cpv_source_volume_id v)),
           (''target_volume_id'', JString (cpv_target_volume_id v)),
           (''same_volume'', JBool (cpv_source_volume_id v = cpv_target_volume_id v)),
           (''materialization'', JObject
             [(''requested_mode'', JString ''cow-clone''),
              (''effective_planned_mode'', JString (cpv_effective_mode v)),
              (''adapter'', JString (cpv_selected_adapter v)),
              (''fallback'', fallback_json (cpv_fallback_reason v))])])"

definition facts_json :: "MaterializationView \<Rightarrow> json" where
  "facts_json m = JObject
     [(''requested_mode'', JString (mv_requested_mode m)),
      (''effective_planned_mode'', JString (mv_effective_mode m)),
      (''actual_mode'', JString (mv_actual_mode m)),
      (''adapter'', JString (mv_adapter m)),
      (''outcome'', JString ''succeeded''),
      (''cow'', JString (mv_cow m)),
      (''fallback'', fallback_json (mv_fallback_reason m)),
      (''failed_attempt_count'', json_usize (mv_failed_attempt_count m))]"

text \<open>The entries of \<open>workspace_json\<close>; a path is published for a Ready Workspace only.\<close>

definition workspace_json :: "WorkspaceView \<Rightarrow> (string \<times> json) list" where
  "workspace_json w =
     (let ready = (\<lambda>v. if wv_state w = ''ready'' then v else JNull) in
      [(''workspace_id'', JString (wv_workspace_id w)),
       (''name'', JString (wv_name w)),
       (''state'', JString (wv_state w)),
       (''source'', json_lossy (wv_source w)),
       (''source_hex'', json_hex (wv_source w)),
       (''target'', json_lossy (wv_path w)),
       (''target_hex'', json_hex (wv_path w)),
       (''path'', ready (json_lossy (wv_path w))),
       (''path_hex'', ready (json_hex (wv_path w))),
       (''last_error_code'', json_text_opt (wv_last_error_code w)),
       (''materialization'', json_opt facts_json (wv_materialization w))])"

definition list_workspace_json :: "WorkspaceView \<Rightarrow> (string \<times> json) list" where
  "list_workspace_json w = object_remove ''path_hex'' (object_remove ''path'' (workspace_json w))"

definition repository_json :: "RepositoryView \<Rightarrow> json" where
  "repository_json r = JObject
     [(''relative_path'', json_lossy (rv_relative_path r)),
      (''relative_path_hex'', json_hex (rv_relative_path r)),
      (''state'', JString (rv_state r)),
      (''tracked_changes'', json_opt json_usize (rv_tracked_changes r)),
      (''issues'', json_strings (rv_issues r))]"

definition git_json :: "GitView option \<Rightarrow> json" where
  "git_json g =
     (case g of
        Some git \<Rightarrow> JObject
          [(''scan_complete'', JBool (gv_scan_complete git)),
           (''state'', JString (gv_state git)),
           (''issues'', json_strings (gv_issues git)),
           (''repositories'', JArray (map repository_json (gv_repositories git)))]
      | None \<Rightarrow> JObject
          [(''scan_complete'', JBool False),
           (''state'', JString ''unknown''),
           (''issues'', JArray [JString ''workspace-not-ready'']),
           (''repositories'', JArray [])])"

definition space_json :: "SpaceView option \<Rightarrow> json" where
  "space_json s =
     (case s of
        None \<Rightarrow> JObject
          [(''state'', JString ''unknown''), (''logical_bytes'', JNull),
           (''allocated_bytes_estimate'', JNull)]
      | Some space \<Rightarrow> JObject
          [(''state'', JString (spv_state space)),
           (''logical_bytes'', json_opt json_u64 (spv_logical_bytes space)),
           (''allocated_bytes_estimate'', json_opt json_u64 (spv_allocated_bytes_estimate space))])"

definition status_json :: "StatusView \<Rightarrow> (string \<times> json) list" where
  "status_json s =
     object_insert ''space'' (space_json (stv_space s))
       (object_insert ''git'' (git_json (stv_git s))
         (object_insert ''command'' (JString ''workspace status'') (workspace_json (stv_workspace s))))"

definition remove_json :: "RemoveView \<Rightarrow> (string \<times> json) list" where
  "remove_json v =
     [(''command'', JString ''workspace remove''),
      (''workspace_id'', JString (rmv_workspace_id v)),
      (''operation_id'', JString (rmv_operation_id v)),
      (''forced'', JBool (rmv_forced v)),
      (''result'', JString (rmv_result v)),
      (''log'', json_lossy (rmv_log_path v)),
      (''log_hex'', json_hex (rmv_log_path v)),
      (''warning'', json_text_opt (rmv_warning v)),
      (''delivery_verification'', JString ''not-performed'')]"

text \<open>The \<open>data\<close> of a success; the path command has none.\<close>

definition success_json :: "build_host \<Rightarrow> success \<Rightarrow> (string \<times> json) list option" where
  "success_json H s =
     (case s of
        Init v \<Rightarrow> Some
          [(''command'', JString ''init''),
           (''result'', JString (iv_result v)),
           (''instance_id'', JString (iv_instance_id v)),
           (''control_root'', json_lossy (iv_control_root v)),
           (''control_root_hex'', json_hex (iv_control_root v))]
      | Doctor v \<Rightarrow> Some
          [(''command'', JString ''doctor''),
           (''status'', JString ''ready''),
           (''host'', JObject
             [(''platform'', JString (bh_platform H)), (''architecture'', JString (bh_arch H))]),
           (''instance_id'', JString (dv_instance_id v)),
           (''control_root'', json_lossy (dv_control_root v)),
           (''control_root_hex'', json_hex (dv_control_root v)),
           (''incomplete_workspaces'', json_usize (dv_incomplete_workspaces v)),
           (''git_check'', JObject [(''available'', JBool True), (''reason'', JNull)])]
      | Create v \<Rightarrow> Some (create_json v)
      | List ws \<Rightarrow> Some
          [(''command'', JString ''workspace list''),
           (''workspaces'', JArray (map (\<lambda>w. JObject (list_workspace_json w)) ws))]
      | Path p \<Rightarrow> None
      | Status v \<Rightarrow> Some (status_json v)
      | Remove v \<Rightarrow> Some (remove_json v))"

definition success_document :: "(string \<times> json) list \<Rightarrow> json" where
  "success_document data = JObject
     [(''schema_version'', JNumber 1), (''ok'', JBool True), (''data'', JObject data)]"

text \<open>A document and its final newline.\<close>

definition write_document :: "json_api \<Rightarrow> json \<Rightarrow> sink \<Rightarrow> bool \<times> sink" where
  "write_document J doc out =
     (case json_to_string J doc of
        Inl e \<Rightarrow> (False, out)
      | Inr text \<Rightarrow> put_all [text, newline] out)"

definition render_success_json :: "build_host \<Rightarrow> json_api \<Rightarrow> success \<Rightarrow> sink \<Rightarrow> bool \<times> sink" where
  "render_success_json H J s out =
     (case success_json H s of
        None \<Rightarrow> (False, out)
      | Some data \<Rightarrow> write_document J (success_document data) out)"

subsection \<open>Failures\<close>

definition exit_statuses :: "(string \<times> int) list" where
  "exit_statuses =
     [(''E_USAGE'', 2), (''E_NOT_INITIALIZED'', 10), (''E_CAPABILITY_UNAVAILABLE'', 11),
      (''E_COW_UNAVAILABLE'', 12), (''E_NAME_CONFLICT'', 15), (''E_WORKSPACE_NOT_FOUND'', 20),
      (''E_WORKSPACE_NOT_READY'', 21), (''E_WORKSPACE_DIRTY'', 22), (''E_WORKSPACE_BUSY'', 23),
      (''E_GIT_CHECK_INCOMPLETE'', 25), (''E_GIT'', 30), (''E_FILESYSTEM'', 31),
      (''E_CONTROL_UNAVAILABLE'', 32), (''E_CONTROL_LAYOUT'', 39), (''E_CONTROL_NOT_EMPTY'', 36),
      (''E_TARGET_LAYOUT'', 33), (''E_TARGET_CONFLICT'', 42), (''E_TARGET_EXISTS'', 43),
      (''E_METADATA'', 35), (''E_TARGET_MISSING'', 37), (''E_TARGET_IDENTITY'', 38),
      (''E_WORKSPACE_INCOMPLETE'', 40), (''E_LOCK_TIMEOUT'', 41)]"

definition exit_status :: "string \<Rightarrow> int" where
  "exit_status c = (case map_of exit_statuses c of None \<Rightarrow> 31 | Some n \<Rightarrow> n)"

definition error_document :: "ErrorView \<Rightarrow> json" where
  "error_document e = JObject
     [(''schema_version'', JNumber 1), (''ok'', JBool False),
      (''error'', JObject
        [(''code'', JString (ev_code e)), (''message'', JString (ev_message e)),
         (''context'', JObject (map_entries (ev_context e))),
         (''remediation'', json_text_opt (ev_remediation e))])]"

text \<open>\<open>Value::as_u64\<close>.\<close>

fun json_as_u64 :: "json \<Rightarrow> nat option" where
  "json_as_u64 (JNumber n) = (if 0 \<le> n \<and> n < 2 ^ 64 then Some (nat n) else None)"
| "json_as_u64 _ = None"

text \<open>One line for every text of an array.\<close>

definition text_lines :: "string \<Rightarrow> json option \<Rightarrow> bytes list" where
  "text_lines label v =
     (case Option.bind v json_as_array of
        None \<Rightarrow> []
      | Some xs \<Rightarrow> map (\<lambda>t. writeln (label @ t)) (List.map_filter json_as_str xs))"

definition error_repository_lines :: "json \<Rightarrow> bytes list" where
  "error_repository_lines r =
     (case Option.bind (json_get r ''relative_path'') json_as_str of
        None \<Rightarrow> [] | Some p \<Rightarrow> [writeln (''Repository: '' @ p)])
     @ (case Option.bind (json_get r ''tracked_changes'') json_as_u64 of
          None \<Rightarrow> [] | Some n \<Rightarrow> [writeln (''Tracked changes: '' @ decimal n)])
     @ text_lines ''Repo issue: '' (json_get r ''issues'')"

definition untouched_codes :: "string list" where
  "untouched_codes =
     [''E_WORKSPACE_DIRTY'', ''E_GIT_CHECK_INCOMPLETE'', ''E_WORKSPACE_BUSY'', ''E_WORKSPACE_INCOMPLETE'']"

definition no_files_removed :: bytes where
  "no_files_removed = writeln ''No files were removed.''"

definition error_writes :: "ErrorView \<Rightarrow> bytes list" where
  "error_writes e =
     [writeln (''Error: '' @ ev_message e), writeln (''Code: '' @ ev_code e)]
     @ (case Option.bind (ev_context e ''workspace_id'') json_as_str of
          None \<Rightarrow> [] | Some i \<Rightarrow> [writeln (''Workspace ID: '' @ i)])
     @ text_lines ''Git issue: '' (ev_context e ''issues'')
     @ (case Option.bind (ev_context e ''repositories'') json_as_array of
          None \<Rightarrow> [] | Some rs \<Rightarrow> concat (map error_repository_lines rs))
     @ (if Option.bind (ev_context e ''process_use'') json_as_str = Some ''scan-incomplete''
        then [writeln ''Warning: process scan incomplete''] else [])
     @ (case ev_remediation e of None \<Rightarrow> [] | Some r \<Rightarrow> [writeln r])
     @ (if ev_code e \<in> set untouched_codes then [no_files_removed] else [])"

definition render_error :: "json_api \<Rightarrow> ErrorView \<Rightarrow> bool \<Rightarrow> sink \<Rightarrow> sink \<Rightarrow> int \<times> sink \<times> sink" where
  "render_error J e json_mode out err =
     (if json_mode
      then case write_document J (error_document e) out of
             (rendered, out') \<Rightarrow> (if rendered then exit_status (ev_code e) else 31, out', err)
      else case put_all (error_writes e) err of
             (rendered, err') \<Rightarrow> (if rendered then exit_status (ev_code e) else 31, out, err'))"

end
