(* ===== verification/Cli_Run.thy ===== *)
theory Cli_Run
  imports Cli_Render
begin

text \<open>
  The run of the command line: \<open>run\<close>, \<open>prescan\<close>, the \<open>Commands\<close> seam and its implementation
  \<open>LocalCommands\<close> of \<open>thinws-cli/src/lib.rs\<close>, and the clock of \<open>main.rs\<close>.

  The parser that \<open>clap\<close> derives from the declarations is the parameter \<open>parse\<close>: from the
  arguments to the parsed command, or to an error with its kind and text.  An argument is its
  bytes.  The native adapter is a parameter too: what \<open>NativeHostAdapter::new\<close> answers for the
  control root, with the materializers of the platform.
\<close>

subsection \<open>The command line\<close>

datatype workspace_command =
  Create (wc_source: bytes) (wc_target: bytes) (wc_name: string) (wc_allow_copy: bool) (wc_dry_run: bool)
| List
| Path (wc_name: string)
| Status (wc_name: string)
| Remove (wc_remove_target: string) (wc_force: bool)

datatype command = Init | Doctor | Workspace workspace_command

record cli =
  cli_json :: bool
  cli_command :: command

datatype clap_kind = DisplayHelp | DisplayVersion | OtherError

record clap_error =
  ck_kind :: clap_kind
  ck_text :: bytes

type_synonym clap_parser = "bytes list \<Rightarrow> clap_error + cli"

record prescan =
  ps_json :: bool
  ps_help_or_version :: bool

definition prescan_of :: "bytes list \<Rightarrow> prescan" where
  "prescan_of args =
     (let seen = takeWhile (\<lambda>a. a \<noteq> ''--'') (drop 1 args) in
      \<lparr>ps_json = (''--json'' \<in> set seen),
       ps_help_or_version =
         list_ex (\<lambda>a. a \<in> {''--help'', ''-h'', ''--version'', ''-V''}) seen\<rparr>)"

subsection \<open>The seam\<close>

type_synonym ('w, 'v) command_run = "'w \<Rightarrow> (ErrorView + 'v) \<times> 'w"

record 'w commands =
  cmd_init :: "int \<Rightarrow> ('w, InitView) command_run"
  cmd_doctor :: "('w, DoctorView) command_run"
  cmd_create ::
    "bytes \<Rightarrow> bytes \<Rightarrow> string \<Rightarrow> bool \<Rightarrow> bool \<Rightarrow> int \<Rightarrow> ('w, CreateView) command_run"
  cmd_list :: "('w, WorkspaceView list) command_run"
  cmd_path :: "string \<Rightarrow> ('w, bytes) command_run"
  cmd_status :: "string \<Rightarrow> ('w, StatusView) command_run"
  cmd_remove :: "string \<Rightarrow> bool \<Rightarrow> int \<Rightarrow> ('w, RemoveView) command_run"

text \<open>\<open>map\<close> on the result of a command.\<close>

definition cmd_map :: "('a \<Rightarrow> 'b) \<Rightarrow> ('w, 'a) command_run \<Rightarrow> ('w, 'b) command_run" where
  "cmd_map f m w = (case m w of (r, w') \<Rightarrow> (and_then r (\<lambda>x. Ok (f x)), w'))"

definition dispatch :: "'w commands \<Rightarrow> int \<Rightarrow> command \<Rightarrow> ('w, success) command_run" where
  "dispatch C now_ms c =
     (case c of
        command.Init \<Rightarrow> cmd_map success.Init (cmd_init C now_ms)
      | command.Doctor \<Rightarrow> cmd_map success.Doctor (cmd_doctor C)
      | Workspace (workspace_command.Create source target name allow_copy dry_run) \<Rightarrow>
          cmd_map success.Create (cmd_create C source target name allow_copy dry_run now_ms)
      | Workspace workspace_command.List \<Rightarrow> cmd_map success.List (cmd_list C)
      | Workspace (workspace_command.Path name) \<Rightarrow> cmd_map success.Path (cmd_path C name)
      | Workspace (workspace_command.Status name) \<Rightarrow> cmd_map success.Status (cmd_status C name)
      | Workspace (workspace_command.Remove target force) \<Rightarrow>
          cmd_map success.Remove (cmd_remove C target force now_ms))"

subsection \<open>The run\<close>

record 'w console =
  cn_world :: 'w
  cn_stdout :: sink
  cn_stderr :: sink

definition report_error :: "json_api \<Rightarrow> ErrorView \<Rightarrow> bool \<Rightarrow> 'w console \<Rightarrow> int \<times> 'w console" where
  "report_error J e json_mode k =
     (case render_error J e json_mode (cn_stdout k) (cn_stderr k) of
        (status, out, err) \<Rightarrow> (status, k\<lparr>cn_stdout := out, cn_stderr := err\<rparr>))"

definition report_success ::
  "build_host \<Rightarrow> json_api \<Rightarrow> success \<Rightarrow> bool \<Rightarrow> 'w console \<Rightarrow> int \<times> 'w console" where
  "report_success H J s json_mode k =
     (case (if json_mode then render_success_json H J s (cn_stdout k)
            else render_success_human H s (cn_stdout k)) of
        (rendered, out) \<Rightarrow> (if rendered then 0 else 31, k\<lparr>cn_stdout := out\<rparr>))"

definition display :: "bytes \<Rightarrow> 'w console \<Rightarrow> int \<times> 'w console" where
  "display text k =
     (case write_all text (cn_stdout k) of
        (written, out) \<Rightarrow> (if written then 0 else 31, k\<lparr>cn_stdout := out\<rparr>))"

definition rejects_json :: "cli \<Rightarrow> bool" where
  "rejects_json c \<longleftrightarrow>
     cli_json c \<and> (case cli_command c of Workspace (workspace_command.Path name) \<Rightarrow> True | _ \<Rightarrow> False)"

definition run ::
  "build_host \<Rightarrow> json_api \<Rightarrow> clap_parser \<Rightarrow> bytes list \<Rightarrow> 'w commands \<Rightarrow> int \<Rightarrow> 'w console
   \<Rightarrow> int \<times> 'w console" where
  "run H J parse args C now_ms k =
     (let scan = prescan_of args in
      if ps_json scan \<and> ps_help_or_version scan
      then report_error J (usage_error ''--json cannot be combined with --help or --version'') True k
      else
        (case parse args of
           Inl error \<Rightarrow>
             if ps_json scan then report_error J (usage_error ''invalid command or arguments'') True k
             else if ck_kind error \<in> {DisplayHelp, DisplayVersion} then display (ck_text error) k
             else report_error J (usage_error ''invalid command or arguments'') False k
         | Inr cli \<Rightarrow>
             if rejects_json cli
             then report_error J (usage_error ''workspace path does not support --json'') True k
             else
               (case dispatch C now_ms (cli_command cli) (cn_world k) of
                  (Inr s, w) \<Rightarrow> report_success H J s (cli_json cli) (k\<lparr>cn_world := w\<rparr>)
                | (Inl e, w) \<Rightarrow> report_error J e (cli_json cli) (k\<lparr>cn_world := w\<rparr>))))"

text \<open>\<open>main.rs\<close>: the wall clock, in nanoseconds since the epoch, as an \<open>i64\<close> of milliseconds.\<close>

definition unix_millis_or_invalid :: "int \<Rightarrow> int" where
  "unix_millis_or_invalid now =
     (if now < 0 then -1
      else (let ms = now div 1000000 in if ms < 2 ^ 63 then ms else -1))"

subsection \<open>The local commands\<close>

record 'p host_adapter =
  ha_platform :: "'p platform"
  ha_process :: "'p process_probe"
  ha_clone :: "'p materializer"
  ha_copy :: "'p materializer"

record ('p, 'm) LocalCommands =
  lc_bootstrap_dir :: "bytes option"
  lc_lock_timeout :: nat
  lc_sqlite_timeout :: nat
  lc_new_adapter :: "bytes \<Rightarrow> port_error + 'p host_adapter"
  lc_uuid :: uuid_api
  lc_metadata :: "'m metadata_port"
  lc_git :: "'p git_inspector"

definition no_home :: ErrorView where
  "no_home = plain_error ''E_CONTROL_UNAVAILABLE'' ''the current user home directory is unavailable''"

definition local_adapter :: "('p, 'm) LocalCommands \<Rightarrow> ErrorView + 'p host_adapter" where
  "local_adapter L =
     and_then (ok_or (lc_bootstrap_dir L) no_home) (\<lambda>path.
       map_err (\<lambda>_. plain_error ''E_CONTROL_LAYOUT'' ''the ThinWorkspace control path is invalid'')
         (lc_new_adapter L path))"

definition local_service :: "('p, 'm) LocalCommands \<Rightarrow> 'p host_adapter \<Rightarrow> ('p, 'm) service" where
  "local_service L A =
     \<lparr>sv_uuid = lc_uuid L, sv_platform = ha_platform A, sv_metadata = lc_metadata L,
      sv_lock_timeout = lc_lock_timeout L, sv_sqlite_timeout = lc_sqlite_timeout L\<rparr>"

text \<open>\<open>map\<close> and \<open>map_err(use_case_error_view)\<close> on a use case; \<open>?\<close> on a value.\<close>

definition answer :: "('a \<Rightarrow> 'v) \<Rightarrow> ('p, 'm, 'a) use_case \<Rightarrow> (('p, 'm) world, 'v) command_run" where
  "answer view m w =
     (case m w of (r, w') \<Rightarrow> (map_err use_case_error_view (and_then r (\<lambda>x. Ok (view x))), w'))"

definition require :: "ErrorView + 'a \<Rightarrow> ('a \<Rightarrow> ('w, 'v) command_run) \<Rightarrow> ('w, 'v) command_run" where
  "require r f w = (case r of Inl e \<Rightarrow> (Inl e, w) | Inr x \<Rightarrow> f x w)"

definition local_init :: "('p, 'm) LocalCommands \<Rightarrow> int \<Rightarrow> (('p, 'm) world, InitView) command_run" where
  "local_init L now_ms =
     require (ok_or (lc_bootstrap_dir L) no_home) (\<lambda>control_root.
     require (map_err use_case_error_view (init_request_try_from_raw control_root now_ms)) (\<lambda>request.
     require (local_adapter L) (\<lambda>A.
       answer (init_view (lc_uuid L)) (app_init (local_service L A) request))))"

definition local_doctor :: "('p, 'm) LocalCommands \<Rightarrow> (('p, 'm) world, DoctorView) command_run" where
  "local_doctor L =
     require (local_adapter L) (\<lambda>A.
       answer (doctor_view (lc_uuid L)) (app_doctor (local_service L A)))"

definition local_create ::
  "('p, 'm) LocalCommands \<Rightarrow> bytes \<Rightarrow> bytes \<Rightarrow> string \<Rightarrow> bool \<Rightarrow> bool \<Rightarrow> int
   \<Rightarrow> (('p, 'm) world, CreateView) command_run" where
  "local_create L source target name allow_copy dry_run now_ms =
     require (map_err use_case_error_view
                (create_request_try_from_raw source target name allow_copy now_ms)) (\<lambda>request.
     require (local_adapter L) (\<lambda>A.
       if dry_run
       then answer (\<lambda>p. PreviewView (create_preview_view (lc_uuid L) request p))
              (preview_create (local_service L A) request)
       else answer (\<lambda>out. ReadyView (create_ready_view (lc_uuid L) out))
              (app_create (local_service L A) request (ha_clone A) (ha_copy A))))"

definition local_list :: "('p, 'm) LocalCommands \<Rightarrow> (('p, 'm) world, WorkspaceView list) command_run" where
  "local_list L =
     require (local_adapter L) (\<lambda>A.
       answer (map (workspace_view (lc_uuid L))) (list_workspaces (local_service L A)))"

definition local_path :: "('p, 'm) LocalCommands \<Rightarrow> string \<Rightarrow> (('p, 'm) world, bytes) command_run" where
  "local_path L name =
     require (local_adapter L) (\<lambda>A.
       answer path_bytes (workspace_path (local_service L A) name))"

definition local_status :: "('p, 'm) LocalCommands \<Rightarrow> string \<Rightarrow> (('p, 'm) world, StatusView) command_run" where
  "local_status L name =
     require (local_adapter L) (\<lambda>A.
       answer (status_view (lc_uuid L)) (workspace_status (local_service L A) (lc_git L) name))"

definition local_remove ::
  "('p, 'm) LocalCommands \<Rightarrow> string \<Rightarrow> bool \<Rightarrow> int \<Rightarrow> (('p, 'm) world, RemoveView) command_run" where
  "local_remove L target force now_ms =
     require (map_err use_case_error_view (remove_request_try_from_raw (lc_uuid L) target force now_ms)) (\<lambda>request.
     require (local_adapter L) (\<lambda>A.
       answer (remove_view (lc_uuid L))
         (app_remove (local_service L A) request (lc_git L) (ha_process A))))"

definition local_commands :: "('p, 'm) LocalCommands \<Rightarrow> ('p, 'm) world commands" where
  "local_commands L =
     \<lparr>cmd_init = local_init L, cmd_doctor = local_doctor L, cmd_create = local_create L,
      cmd_list = local_list L, cmd_path = local_path L, cmd_status = local_status L,
      cmd_remove = local_remove L\<rparr>"

end
