(* ===== verification/Cli_Contract.thy ===== *)
theory Cli_Contract
  imports Cli_Run
begin

text \<open>
  What a run of the command line promises to its caller: what is on the two writers when it
  ends, what the exit status says, and that the bytes of every path can be read back from the
  JSON document.
\<close>

subsection \<open>Writers\<close>

lemma write_all_written:
  "\<lbrakk>write_all bs s = (b, s')\<rbrakk> \<Longrightarrow> \<exists>p. prefix p bs \<and> (b \<longrightarrow> p = bs) \<and> sk_written s' = sk_written s @ p"
  by (auto simp: write_all_def take_is_prefix split: option.splits)

lemma put_all_written:
  "put_all bss s = (b, s') \<Longrightarrow> \<exists>p. prefix p (concat bss) \<and> (b \<longrightarrow> p = concat bss) \<and> sk_written s' = sk_written s @ p"
proof (induction bss arbitrary: s)
  case (Cons bs bss)
  obtain b1 s1 where w: "write_all bs s = (b1, s1)" by fastforce
  then obtain p where p: "prefix p bs" "b1 \<Longrightarrow> p = bs" "sk_written s1 = sk_written s @ p"
    using write_all_written by blast
  show ?case
  proof (cases b1)
    case True
    then obtain q where "prefix q (concat bss)" "b \<Longrightarrow> q = concat bss" "sk_written s' = sk_written s1 @ q"
      using Cons w by force
    then show ?thesis using p True by (intro exI[of _ "bs @ q"]) auto
  next
    case False
    then show ?thesis using Cons.prems w p by (auto intro: prefix_prefix)
  qed
qed simp

subsection \<open>What is shown\<close>

definition success_text :: "build_host \<Rightarrow> json_api \<Rightarrow> bool \<Rightarrow> success \<Rightarrow> bytes option" where
  "success_text H J json_mode s =
     (if json_mode
      then (case success_json H s of
              None \<Rightarrow> None
            | Some data \<Rightarrow> map_option (\<lambda>t. t @ newline) (result_ok (json_to_string J (success_document data))))
      else Some (concat (human_writes H s)))"

definition error_text :: "json_api \<Rightarrow> bool \<Rightarrow> ErrorView \<Rightarrow> bytes option" where
  "error_text J json_mode e =
     (if json_mode then map_option (\<lambda>t. t @ newline) (result_ok (json_to_string J (error_document e)))
      else Some (concat (error_writes e)))"

lemma write_document_written:
  "write_document J doc s = (b, s') \<Longrightarrow>
   \<exists>p. sk_written s' = sk_written s @ p
     \<and> (b \<longrightarrow> (\<exists>t. json_to_string J doc = Inr t \<and> p = t @ newline))
     \<and> (\<not> b \<longrightarrow> p = [] \<or> (\<exists>t. json_to_string J doc = Inr t \<and> prefix p (t @ newline)))"
  using put_all_written[of "[t, newline]" s b s' for t]
  by (simp add: write_document_def split: sum.splits) fastforce+

lemma report_success_shows:
  assumes "report_success H J s json_mode k = (st, k')"
  shows "cn_world k' = cn_world k \<and> cn_stderr k' = cn_stderr k \<and> st \<in> {0, 31}
    \<and> (st = 0 \<longrightarrow> (\<exists>text. success_text H J json_mode s = Some text
                     \<and> sk_written (cn_stdout k') = sk_written (cn_stdout k) @ text))"
proof (cases json_mode)
  case True
  obtain b out where r: "render_success_json H J s (cn_stdout k) = (b, out)" by fastforce
  then have "st = (if b then 0 else 31)" "k' = k\<lparr>cn_stdout := out\<rparr>"
    using assms True by (auto simp: report_success_def)
  moreover have "\<exists>text. success_text H J True s = Some text \<and> sk_written out = sk_written (cn_stdout k) @ text" if b
    using r that by (auto simp: render_success_json_def success_text_def split: option.splits
        dest!: write_document_written)
  ultimately show ?thesis using True by auto
next
  case False
  then show ?thesis using assms
    by (auto simp: report_success_def render_success_human_def success_text_def split: prod.splits
        if_splits dest!: put_all_written)
qed

lemma report_error_shows:
  assumes "report_error J e json_mode k = (st, k')"
  shows "cn_world k' = cn_world k \<and> st \<in> {exit_status (ev_code e), 31}
    \<and> (if json_mode then cn_stderr k' = cn_stderr k else cn_stdout k' = cn_stdout k)
    \<and> (st \<noteq> 31 \<longrightarrow> (\<exists>text. error_text J json_mode e = Some text
         \<and> sk_written (if json_mode then cn_stdout k' else cn_stderr k')
           = sk_written (if json_mode then cn_stdout k else cn_stderr k) @ text))"
proof (cases json_mode)
  case True
  obtain b out where r: "write_document J (error_document e) (cn_stdout k) = (b, out)" by fastforce
  then have "st = (if b then exit_status (ev_code e) else 31)" "k' = k\<lparr>cn_stdout := out, cn_stderr := cn_stderr k\<rparr>"
    using assms True by (auto simp: report_error_def render_error_def)
  moreover have "\<exists>text. error_text J True e = Some text \<and> sk_written out = sk_written (cn_stdout k) @ text" if b
    using write_document_written[OF r] that by (auto simp: error_text_def)
  ultimately show ?thesis using True by auto
next
  case False
  then show ?thesis using assms
    by (auto simp: report_error_def render_error_def error_text_def split: prod.splits dest!: put_all_written)
qed

subsection \<open>Exit statuses\<close>

lemma exit_status_codes:
  "map (\<lambda>c. exit_status (error_code_as_str c)) error_code_ALL =
     [2, 10, 11, 12, 15, 20, 21, 22, 23, 25, 30, 31, 32, 39, 36, 33, 42, 43, 35, 37, 38, 40, 41]"
  by (simp add: error_code_ALL_def exit_status_def exit_statuses_def)

lemma exit_status_keys: "map fst exit_statuses = map error_code_as_str error_code_ALL"
  by (simp add: exit_statuses_def error_code_ALL_def)

lemma exit_status_not_zero: "exit_status c \<noteq> 0"
proof -
  have "n \<noteq> 0" if "(c, n) \<in> set exit_statuses" for n using that by (auto simp: exit_statuses_def)
  then show ?thesis by (auto simp: exit_status_def dest: map_of_SomeD split: option.splits)
qed

text \<open>
  The exit status names the failure: every public error code has an exit status of its own,
  between 2 and 43 and so never 0; only a text that is no public code shares one, that of
  E_FILESYSTEM.
\<close>

theorem exit_status_names_code:
  "(exit_status (error_code_as_str c) = exit_status (error_code_as_str d) \<longleftrightarrow> c = d)
   \<and> 2 \<le> exit_status (error_code_as_str c) \<and> exit_status (error_code_as_str c) \<le> 43
   \<and> ((\<exists>e. error_code_from_str s = Err e) \<longrightarrow> exit_status s = exit_status (error_code_as_str error_code.Filesystem))"
proof -
  let ?f = "\<lambda>c. exit_status (error_code_as_str c)"
  have "distinct (map ?f error_code_ALL)" unfolding exit_status_codes by simp
  then have "inj_on ?f (set error_code_ALL)" by (simp add: distinct_map)
  moreover have all: "set error_code_ALL = UNIV" using error_code_ALL_complete by blast
  ultimately have "inj ?f" by simp
  moreover have "?f c \<in> set (map ?f error_code_ALL)" using error_code_ALL_complete by auto
  then have "2 \<le> ?f c \<and> ?f c \<le> 43" unfolding exit_status_codes by auto
  moreover have "exit_status s = 31" if "\<exists>e. error_code_from_str s = Err e"
  proof -
    have "s \<notin> set (map error_code_as_str error_code_ALL)"
      using that error_code_codec.decode_fails all by auto
    then have "map_of exit_statuses s = None"
      unfolding exit_status_keys[symmetric] by (simp add: map_of_eq_None_iff)
    then show ?thesis by (simp add: exit_status_def)
  qed
  moreover have "?f error_code.Filesystem = 31" by (simp add: exit_status_def exit_statuses_def)
  ultimately show ?thesis using injD[of ?f c d] by auto
qed

lemma exit_status_names_code_witness:
  "exit_status ''E_UNHEARD_OF'' = exit_status (error_code_as_str error_code.Filesystem)"
proof -
  have "error_code_from_str ''E_UNHEARD_OF'' = Err ErrorCodeParseError"
    by (simp add: error_code_from_str_def error_code_ALL_def)
  then show ?thesis using exit_status_names_code[where s = "''E_UNHEARD_OF''"] by blast
qed

subsection \<open>Ends of a run\<close>

text \<open>The arguments the parser did not see, or refused, end the run before any command.\<close>

definition refused_early :: "clap_parser \<Rightarrow> bytes list \<Rightarrow> bool" where
  "refused_early parse args \<longleftrightarrow>
     ps_json (prescan_of args) \<and> ps_help_or_version (prescan_of args)
     \<or> (case parse args of
          Inl e \<Rightarrow> ps_json (prescan_of args) \<or> ck_kind e = OtherError
        | Inr cli \<Rightarrow> rejects_json cli)"

lemma run_cases:
  obtains (refused) message where "refused_early parse args"
      "run H J parse args C now k =
         report_error J (usage_error message)
           (ps_json (prescan_of args) \<or> (case parse args of Inr cli \<Rightarrow> rejects_json cli | _ \<Rightarrow> False)) k"
  | (displayed) e where "\<not> refused_early parse args" "parse args = Err e" "run H J parse args C now k = display (ck_text e) k"
  | (succeeded) cli s w where "\<not> refused_early parse args" "parse args = Ok cli"
      "dispatch C now (cli_command cli) (cn_world k) = (Ok s, w)"
      "run H J parse args C now k = report_success H J s (cli_json cli) (k\<lparr>cn_world := w\<rparr>)"
  | (failed) cli e w where "\<not> refused_early parse args" "parse args = Ok cli"
      "dispatch C now (cli_command cli) (cn_world k) = (Err e, w)"
      "run H J parse args C now k = report_error J e (cli_json cli) (k\<lparr>cn_world := w\<rparr>)"
proof (cases "ps_json (prescan_of args) \<and> ps_help_or_version (prescan_of args)")
  case True
  then show ?thesis using refused by (simp add: refused_early_def run_def Let_def)
next
  case early: False
  show ?thesis
  proof (cases "parse args")
    case (Inl e)
    show ?thesis
    proof (cases "ps_json (prescan_of args)")
      case True
      then show ?thesis using refused[of "''invalid command or arguments''"] early Inl
        by (auto simp: refused_early_def run_def Let_def)
    next
      case False
      then show ?thesis using displayed[of e] refused[of "''invalid command or arguments''"] early Inl
        by (cases "ck_kind e") (auto simp: refused_early_def run_def Let_def)
    qed
  next
    case (Inr cli)
    show ?thesis
    proof (cases "rejects_json cli")
      case True
      then show ?thesis using refused[of "''workspace path does not support --json''"] early Inr
        by (auto simp: refused_early_def run_def Let_def)
    next
      case False
      obtain r w where d: "dispatch C now (cli_command cli) (cn_world k) = (r, w)" by fastforce
      show ?thesis
      proof (cases r)
        case (Inl e)
        then show ?thesis using failed[of cli e w] early False d \<open>parse args = Inr cli\<close>
          by (auto simp: refused_early_def run_def Let_def)
      next
        case (Inr s)
        then show ?thesis using succeeded[of cli s w] early False d \<open>parse args = Inr cli\<close>
          by (auto simp: refused_early_def run_def Let_def)
      qed
    qed
  qed
qed

lemma report_error_not_zero: "report_error J e json_mode k = (st, k') \<Longrightarrow> st \<noteq> 0"
  using exit_status_not_zero report_error_shows[of J e json_mode k st k'] by auto

text \<open>
  C23.  Status 0 means delivered.  When the run ends with 0, nothing was written to the error
  writer and the whole answer is on the output writer: the help text, with no command run, or
  the complete text of a command that succeeded, which with \<open>--json\<close> is one document and a
  newline; the world is the one that command left.
\<close>

theorem exit_zero_means_delivered:
  assumes "run H J parse args C now k = (0, k')"
  shows "cn_stderr k' = cn_stderr k
    \<and> ((\<exists>e. parse args = Err e \<and> ck_kind e \<in> {DisplayHelp, DisplayVersion} \<and> cn_world k' = cn_world k
          \<and> sk_written (cn_stdout k') = sk_written (cn_stdout k) @ ck_text e)
       \<or> (\<exists>cli s t. parse args = Ok cli
          \<and> dispatch C now (cli_command cli) (cn_world k) = (Ok s, cn_world k')
          \<and> success_text H J (cli_json cli) s = Some t
          \<and> sk_written (cn_stdout k') = sk_written (cn_stdout k) @ t))"
proof (cases rule: run_cases[where parse = parse and args = args and H = H and J = J and C = C and now = now and k = k])
  case (refused message)
  then show ?thesis using assms report_error_not_zero by metis
next
  case (displayed e)
  then have "display (ck_text e) k = (0, k')" using assms by simp
  then have "cn_stderr k' = cn_stderr k" "cn_world k' = cn_world k"
    "sk_written (cn_stdout k') = sk_written (cn_stdout k) @ ck_text e"
    by (auto simp: display_def split: prod.splits if_splits dest!: write_all_written)
  moreover have "ck_kind e \<in> {DisplayHelp, DisplayVersion}"
    using displayed(1,2) by (cases "ck_kind e") (auto simp: refused_early_def)
  ultimately show ?thesis using displayed by blast
next
  case (succeeded cli s w)
  then have "report_success H J s (cli_json cli) (k\<lparr>cn_world := w\<rparr>) = (0, k')" using assms by simp
  from report_success_shows[OF this] show ?thesis using succeeded by auto
next
  case (failed cli e w)
  then show ?thesis using assms report_error_not_zero by metis
qed

text \<open>
  C24.  A failed command is reported once, in one place.  The status is that of its code, or 31
  when the report could not be written, and never 0.  With \<open>--json\<close> the error writer is left
  alone and the report is one document on the output writer; without it the output writer is
  left alone and the report is the lines on the error writer.
\<close>

theorem failure_is_reported_once:
  assumes "parse args = Ok cli" "\<not> refused_early parse args"
    "dispatch C now (cli_command cli) (cn_world k) = (Err e, w)"
    "run H J parse args C now k = (st, k')"
  shows "cn_world k' = w \<and> st \<in> {exit_status (ev_code e), 31} \<and> st \<noteq> 0
    \<and> (if cli_json cli then cn_stderr k' = cn_stderr k else cn_stdout k' = cn_stdout k)
    \<and> (st \<noteq> 31 \<longrightarrow> (\<exists>t. error_text J (cli_json cli) e = Some t
         \<and> sk_written (if cli_json cli then cn_stdout k' else cn_stderr k')
           = sk_written (if cli_json cli then cn_stdout k else cn_stderr k) @ t))"
proof (cases rule: run_cases[where parse = parse and args = args and H = H and J = J and C = C and now = now and k = k])
  case (failed cli' e' w')
  then have r: "report_error J e (cli_json cli) (k\<lparr>cn_world := w\<rparr>) = (st, k')" using assms by simp
  then have "st \<noteq> 0" by (rule report_error_not_zero)
  with report_error_shows[OF r] show ?thesis by (cases "cli_json cli") simp_all
qed (use assms in auto)

text \<open>
  A run that is refused for its arguments, or that only shows help, runs no command: the
  world is as it was.  A refusal ends with status 2, or 31 when it could not be written.
\<close>

theorem refused_run_does_nothing:
  assumes "run H J parse args C now k = (st, k')"
    "refused_early parse args \<or> (\<exists>e. parse args = Err e)"
  shows "cn_world k' = cn_world k \<and> (refused_early parse args \<longrightarrow> st \<in> {2, 31})"
proof (cases rule: run_cases[where parse = parse and args = args and H = H and J = J and C = C and now = now and k = k])
  case (refused message)
  have "exit_status ''E_USAGE'' = 2" by (simp add: exit_status_def exit_statuses_def)
  then have "ev_code (usage_error message) = ''E_USAGE''" "exit_status ''E_USAGE'' = 2"
    by (simp_all add: usage_error_def)
  then show ?thesis using report_error_shows[of J "usage_error message" _ k st k'] refused(2) assms(1) by simp
next
  case (displayed e)
  then show ?thesis using assms(1) by (auto simp: display_def split: prod.splits)
qed (use assms in auto)

subsection \<open>Paths in the documents\<close>

text \<open>The bytes a reader of the document gets back from a \<open>*_hex\<close> field.\<close>

definition hex_field :: "(string \<times> json) list \<Rightarrow> string \<Rightarrow> bytes option" where
  "hex_field data k = Option.bind (Option.bind (map_of data k) json_as_str) unhex"

lemma hex_field_simps [simp]:
  "map_of data k = Some (json_hex bs) \<Longrightarrow> hex_field data k = Some bs"
  "map_of data k = None \<Longrightarrow> hex_field data k = None"
  "map_of data k = Some JNull \<Longrightarrow> hex_field data k = None"
  by (simp_all add: hex_field_def json_hex_def cli_hex_eq unhex_hex)

lemma map_of_object_remove [simp]: "map_of (object_remove k kvs) = (map_of kvs)(k := None)"
  by (induction kvs) (auto simp: object_remove_def fun_eq_iff)

lemma map_of_object_insert [simp]: "map_of (object_insert k v kvs) = (map_of kvs)(k \<mapsto> v)"
proof -
  have "map_of (filter (\<lambda>(k', _). k' \<noteq> k) kvs) = (map_of kvs)(k := None)"
    using map_of_object_remove[of k kvs] by (simp add: object_remove_def)
  then show ?thesis by (auto simp: object_insert_def map_of_append map_add_def fun_eq_iff split: option.splits)
qed

lemma workspace_json_paths:
  "map_of (workspace_json w) ''source_hex'' = Some (json_hex (wv_source w))"
  "map_of (workspace_json w) ''target_hex'' = Some (json_hex (wv_path w))"
  "map_of (workspace_json w) ''path_hex'' = Some (if wv_state w = ''ready'' then json_hex (wv_path w) else JNull)"
  "map_of (workspace_json w) ''path'' = Some (if wv_state w = ''ready'' then json_lossy (wv_path w) else JNull)"
  by (simp_all add: workspace_json_def Let_def)

lemma workspace_json_texts:
  "map_of (workspace_json w) ''source'' = Some (json_lossy (wv_source w))"
  "map_of (workspace_json w) ''target'' = Some (json_lossy (wv_path w))"
  by (simp_all add: workspace_json_def Let_def)

text \<open>
  A path in an object: its bytes in the field \<open>*_hex\<close>, and beside it a text that is valid UTF-8
  and is the path itself exactly when the path is.
\<close>

definition path_fields :: "(string \<times> json) list \<Rightarrow> string \<Rightarrow> bytes \<Rightarrow> bool" where
  "path_fields data key bs \<longleftrightarrow>
     hex_field data (key @ ''_hex'') = Some bs
     \<and> (case Option.bind (map_of data key) json_as_str of
          None \<Rightarrow> False
        | Some t \<Rightarrow> utf8_valid t \<and> (t = bs \<longleftrightarrow> utf8_valid bs))"

lemma path_fieldsI:
  "\<lbrakk>map_of data (key @ ''_hex'') = Some (json_hex bs); map_of data key = Some (json_lossy bs)\<rbrakk>
   \<Longrightarrow> path_fields data key bs"
  using lossy_is_valid lossy_eq_iff by (simp add: path_fields_def json_lossy_def)

text \<open>The objects in an array, and those of the repositories of a status.\<close>

definition object_items :: "json option \<Rightarrow> (string \<times> json) list list" where
  "object_items v =
     (case v of
        Some (JArray items) \<Rightarrow> map (\<lambda>j. case j of JObject kvs \<Rightarrow> kvs | _ \<Rightarrow> []) items
      | _ \<Rightarrow> [])"

definition repository_items :: "(string \<times> json) list \<Rightarrow> (string \<times> json) list list" where
  "repository_items data =
     (case map_of data ''git'' of Some (JObject git) \<Rightarrow> object_items (map_of git ''repositories'') | _ \<Rightarrow> [])"

text \<open>
  The paths of a success, with the fields that name them: those at the top of the document, and
  the lists of Workspaces and of repositories that have paths of their own.
\<close>

definition named_paths :: "success \<Rightarrow> (string \<times> bytes) list" where
  "named_paths s =
     (case s of
        success.Init v \<Rightarrow> [(''control_root'', iv_control_root v)]
      | success.Doctor v \<Rightarrow> [(''control_root'', dv_control_root v)]
      | success.Create (ReadyView v) \<Rightarrow> [(''source'', crv_source v), (''path'', crv_path v)]
      | success.Create (PreviewView v) \<Rightarrow> [(''source'', cpv_source v), (''target'', cpv_target v)]
      | success.Status v \<Rightarrow>
          [(''source'', wv_source (stv_workspace v)), (''target'', wv_path (stv_workspace v))]
          @ (if wv_state (stv_workspace v) = ''ready'' then [(''path'', wv_path (stv_workspace v))] else [])
      | success.Remove v \<Rightarrow> [(''log'', rmv_log_path v)]
      | _ \<Rightarrow> [])"

definition listed_views :: "success \<Rightarrow> WorkspaceView list" where
  "listed_views s = (case s of success.List ws \<Rightarrow> ws | _ \<Rightarrow> [])"

definition repository_views :: "success \<Rightarrow> RepositoryView list" where
  "repository_views s =
     (case s of
        success.Status v \<Rightarrow> (case stv_git v of Some git \<Rightarrow> gv_repositories git | None \<Rightarrow> [])
      | _ \<Rightarrow> [])"

lemma repository_items_status:
  "map_of data ''git'' = Some (git_json g) \<Longrightarrow>
   list_all2 (\<lambda>item r. path_fields item ''relative_path'' (rv_relative_path r)) (repository_items data)
     (case g of Some git \<Rightarrow> gv_repositories git | None \<Rightarrow> [])"
  by (auto simp: repository_items_def git_json_def object_items_def repository_json_def list_all2_conv_all_nth
      intro!: path_fieldsI split: option.splits)

lemma listed_items:
  "list_all2 (\<lambda>item w. path_fields item ''source'' (wv_source w) \<and> path_fields item ''target'' (wv_path w))
     (object_items (Some (JArray (map (\<lambda>w. JObject (list_workspace_json w)) ws)))) ws"
  by (auto simp: object_items_def list_workspace_json_def workspace_json_texts workspace_json_paths
      list_all2_conv_all_nth intro!: path_fieldsI)

lemma no_items:
  "object_items None = []"
  "map_of data ''git'' = None \<Longrightarrow> repository_items data = []"
  by (simp_all add: object_items_def repository_items_def)


text \<open>
  What is published as a usable path.  The list of Workspaces never publishes one, whatever
  the states; the status publishes the registered target, and only for a Workspace whose record
  is Ready.
\<close>

theorem published_paths:
  "map_of (list_workspace_json w) ''path'' = None \<and> map_of (list_workspace_json w) ''path_hex'' = None
   \<and> hex_field (status_json (status_view U st)) ''path_hex'' =
       (if rec_state (wq_record (ws_workspace st)) = WsReady
        then Some (path_bytes (res_target_path (rec_reservation (wq_record (ws_workspace st))))) else None)"
proof -
  have "workspace_state_as_str x = ''ready'' \<longleftrightarrow> x = WsReady" for x by (cases x) simp_all
  then show ?thesis
    by (simp add: list_workspace_json_def status_json_def status_view_def workspace_json_paths)
qed

end
