(* ===== verification/Removal_Honesty.thy ===== *)
theory Removal_Honesty
  imports Removal_Protocol
begin

text \<open>
  What a refusal of the removal policy is worth: a use case that fails with one of the four codes
  for which the command line says that no files were removed has not asked for a removal, neither
  of the container nor in the metadata.
\<close>

subsection \<open>Calls of one kind\<close>

fun destructive :: "port_event \<Rightarrow> bool" where
  "destructive (RemoveContainer v r) = True"
| "destructive (StoreRequest (BeginRemovalOf i expected mode t) r) = True"
| "destructive (StoreRequest (CompleteDeletion i iid t) r) = True"
| "destructive _ = False"

lemma destructive_mutating: "destructive ev \<Longrightarrow> mutating ev"
  by (cases ev rule: destructive.cases) simp_all

definition removals :: "trace \<Rightarrow> port_event list" where
  "removals t = filter destructive t"

lemma removals_simps [simp]:
  "removals [] = []" "removals (s @ t) = removals s @ removals t"
  "\<not> destructive e \<Longrightarrow> removals (e # t) = removals t"
  by (simp_all add: removals_def)

lemma removals_changes: "removals (changes t) = removals t"
  using destructive_mutating by (induction t) (auto simp: removals_def changes_def)

text \<open>A step that asks for no removal.\<close>

definition sparing :: "('p, 'm, 'a) use_case \<Rightarrow> bool" where
  "sparing m \<longleftrightarrow> (\<forall>w. removals (w_trace (snd (m w))) = removals (w_trace w))"

named_theorems sparing_rules \<open>steps that ask for no removal\<close>

lemma sparing_reading: "reading m \<Longrightarrow> sparing m"
  unfolding reading_def sparing_def by (metis removals_changes)

lemma sparing_basic [sparing_rules]:
  "sparing (uc_return x)" "sparing (uc_fail e)" "sparing (uc_lift r)" "sparing (observe g call)"
  "sparing (run_git git path)" "sparing (fresh_uuid S)"
  by (rule sparing_reading, rule reading_rules)+

lemma sparing_perform [sparing_rules]:
  "(\<And>r. \<not> destructive (ev r)) \<Longrightarrow> sparing (perform ev g call)"
  "(\<And>r. \<not> destructive (ev' r)) \<Longrightarrow> sparing (md_perform ev' call')"
  by (auto simp: sparing_def perform_def md_perform_def note_event_def split: prod.splits)

lemma sparing_materializer [sparing_rules]: "sparing (run_materializer mz q plan)"
  by (auto simp: sparing_def run_materializer_def note_event_def split: prod.splits)

lemma sparing_bind [sparing_rules]:
  "sparing m \<Longrightarrow> (\<And>x. sparing (f x)) \<Longrightarrow> sparing (uc_bind m f)"
  by (auto simp: sparing_def uc_bind_def split: prod.splits sum.splits) (metis snd_conv)+

lemma sparing_or_fail [sparing_rules]: "sparing m \<Longrightarrow> sparing (or_fail g m)"
  unfolding or_fail_def by (intro sparing_rules)

lemma sparing_attempt [sparing_rules]:
  "sparing m \<Longrightarrow> sparing (uc_attempt m)" "sparing m \<Longrightarrow> sparing (uc_map_err h m)"
  by (auto simp: sparing_def uc_attempt_def uc_map_err_def split: prod.splits) (metis snd_conv)+

lemma sparing_cases [sparing_rules]:
  "\<lbrakk>b \<Longrightarrow> sparing m; \<not> b \<Longrightarrow> sparing n\<rbrakk> \<Longrightarrow> sparing (if b then m else n)"
  "\<lbrakk>sparing m; \<And>x. sparing (g x)\<rbrakk> \<Longrightarrow> sparing (case v of None \<Rightarrow> m | Some x \<Rightarrow> g x)"
  "\<lbrakk>\<And>e. sparing (h e); \<And>x. sparing (k x)\<rbrakk> \<Longrightarrow> sparing (case z of Inl e \<Rightarrow> h e | Inr x \<Rightarrow> k x)"
  "(\<And>x y. sparing (p x y)) \<Longrightarrow> sparing (case q of (x, y) \<Rightarrow> p x y)"
  by (auto split: option.splits prod.splits sum.splits)

lemma sparing_metadata [sparing_rules]:
  "sparing (inspect_metadata S layout expected)" "sparing (open_existing_store S layout expected)"
  "sparing (store_workspaces S)" "sparing (store_workspace S i)" "sparing (store_tombstone S store i)"
  "sparing (store_final S i)" "sparing (initialize_metadata S layout expected)"
  "sparing (store_reserve S store v)" "sparing (store_complete_materialization S store i plan rc t)"
  "sparing (store_record_failure S store i st e t)"
  unfolding md_calls by (rule sparing_rules, simp add: store_event_def)+

lemma sparing_inspection [sparing_rules]:
  "sparing (require_ready_marker S identity)" "sparing (read_config_step S)" "sparing (require_config S)"
  "sparing (inspect_existing S identity now)"
  by (rule sparing_reading, rule reading_rules)+

subsection \<open>Initialization and creation\<close>

lemma sparing_init: "sparing (app_init S request)"
  unfolding app_init_def Let_def by (intro sparing_rules) simp_all

lemma sparing_checks [sparing_rules]:
  "sparing (require_prepared_target S prepared report)" "sparing (probe_source S request)"
  "sparing (require_no_active_workspace_identity_overlap S target volume active)"
  by (rule sparing_reading, rule reading_silent, rule silent_checks)+

lemma sparing_planning [sparing_rules]:
  "sparing (probe_paths S paths)" "sparing (preliminary_report S request parent wid active)"
proof -
  show probe: "sparing (probe_paths S paths)" for paths
    unfolding probe_paths_def by (intro sparing_rules) simp
  have "sparing (case ev of Known volume \<Rightarrow> require_no_active_workspace_identity_overlap S target volume active
       | evidence.Unknown a b \<Rightarrow> uc_return ())" for target ev
    by (cases ev) (simp_all add: sparing_rules)
  then show "sparing (preliminary_report S request parent wid active)"
    unfolding preliminary_report_def by (intro sparing_rules probe)
qed

lemma sparing_execute [sparing_rules]: "sparing (execute_plan S clone copy allow prepared q plan)"
  unfolding execute_plan_def copy_directly_def copy_after_clone_def by (intro sparing_rules)

lemma sparing_reserved [sparing_rules]:
  "sparing (create_reserved S request lock layout data_root store reservation clone copy)"
  unfolding create_reserved_def complete_creation_def Let_def by (intro sparing_rules) simp_all

lemma sparing_open [sparing_rules]:
  "sparing (open_locked_store S identity now)"
  unfolding open_locked_store_def lock_data_root_def Let_def by (intro sparing_rules) simp_all

lemma sparing_create: "sparing (app_create S request clone copy)"
  unfolding app_create_def create_impl_def create_new_def reserve_and_create_def reuse_existing_def
    record_creation_failure_def Let_def
  by (intro sparing_rules) simp_all

subsection \<open>Removal\<close>

text \<open>The codes of a refusal, and the errors of the adapters, which have none of them.\<close>

definition refusal_codes :: "error_code list" where
  "refusal_codes = [WorkspaceDirty, error_code.GitCheckIncomplete, WorkspaceBusy, WorkspaceIncomplete]"

definition refused_with :: "use_case_error \<Rightarrow> bool" where
  "refused_with e \<longleftrightarrow> uce_code e \<in> set refusal_codes"

lemma port_errors_no_refusal [simp]:
  "\<not> refused_with (map_port st e)" "\<not> refused_with (layout_error S i e)"
  "\<not> refused_with (map_target_port U i e)" "\<not> refused_with (with_workspace_id U i (map_port st e))"
proof -
  have code: "stage_code st e \<notin> set refusal_codes" for st
    by (simp add: stage_code_def refusal_codes_def Let_def)
  then show m: "\<not> refused_with (map_port st e)" for st by (simp add: refused_with_def map_port_def)
  then show l: "\<not> refused_with (with_workspace_id U i (map_port st e))" for st by (simp add: refused_with_def)
  then show "\<not> refused_with (layout_error S i e)" by (simp add: layout_error_def refused_with_def)
  show "\<not> refused_with (map_target_port U i e)"
    using l by (auto simp: map_target_port_def refused_with_def missing_target_with_source_def
        missing_target_def refusal_codes_def)
qed

lemma refused_with_semantic [simp]:
  "refused_with (semantic_error c m) = (c \<in> set refusal_codes)"
  "refused_with (with_workspace_id U i e) = refused_with e"
  by (simp_all add: refused_with_def)

lemma layout_no_refusal [simp]: "TargetLayout \<notin> set refusal_codes"
  by (simp add: refusal_codes_def)

text \<open>A step that does not fail with a refusal, and one that asks for no removal when it does.\<close>

definition firm :: "('p, 'm, 'a) use_case \<Rightarrow> bool" where
  "firm m \<longleftrightarrow> (\<forall>w e. fst (m w) = Inl e \<longrightarrow> \<not> refused_with e)"

definition candid :: "('p, 'm, 'a) use_case \<Rightarrow> bool" where
  "candid m \<longleftrightarrow> (\<forall>w e. fst (m w) = Inl e \<longrightarrow> refused_with e \<longrightarrow>
     removals (w_trace (snd (m w))) = removals (w_trace w))"

named_theorems firm_rules \<open>steps that do not fail with a refusal\<close>

lemma firm_basic [firm_rules]:
  "firm (uc_return x)" "\<not> refused_with e \<Longrightarrow> firm (uc_fail e)"
  "(\<And>e. \<not> refused_with (g e)) \<Longrightarrow> firm (perform ev g call)"
  "firm (md_perform ev' call')"
  by (auto simp: firm_def uc_return_def uc_fail_def perform_def md_perform_def split: prod.splits
      elim: map_err.elims)

lemma firm_bind [firm_rules]: "firm m \<Longrightarrow> (\<And>x. firm (f x)) \<Longrightarrow> firm (uc_bind m f)"
  by (auto simp: firm_def uc_bind_def split: prod.splits sum.splits) (metis fst_conv)+

lemma firm_attempt:
  assumes "firm m" "\<And>e. \<not> refused_with e \<Longrightarrow> firm (f (Inl e))" "\<And>x. firm (f (Inr x))"
  shows "firm (uc_bind (uc_attempt m) f)"
  unfolding firm_def
proof (intro allI impI)
  fix w e
  assume fails: "fst (uc_bind (uc_attempt m) f w) = Inl e"
  obtain r w' where m: "m w = (r, w')" by fastforce
  then have "fst (f r w') = Inl e" using fails by (simp add: uc_bind_def uc_attempt_def)
  moreover have "firm (f r)"
  proof (cases r)
    case (Inl a)
    then have "\<not> refused_with a" using assms(1) m unfolding firm_def by (metis fst_conv)
    then show ?thesis using assms(2) Inl by simp
  qed (use assms(3) in simp)
  ultimately show "\<not> refused_with e" by (simp add: firm_def)
qed

lemma firm_cases [firm_rules]:
  "\<lbrakk>\<And>e. z = Inl e \<Longrightarrow> firm (h e); \<And>x. z = Inr x \<Longrightarrow> firm (k x)\<rbrakk> \<Longrightarrow> firm (case z of Inl e \<Rightarrow> h e | Inr x \<Rightarrow> k x)"
  "\<lbrakk>v = None \<Longrightarrow> firm m; \<And>x. firm (g x)\<rbrakk> \<Longrightarrow> firm (case v of None \<Rightarrow> m | Some x \<Rightarrow> g x)"
  by (auto split: sum.splits option.splits)

lemma candid_firm: "firm m \<Longrightarrow> candid m"
  by (auto simp: firm_def candid_def)

lemma candid_sparing: "sparing m \<Longrightarrow> candid m"
  by (auto simp: sparing_def candid_def)

lemma candid_bind:
  assumes m: "sparing m" and f: "\<And>x. candid (f x)"
  shows "candid (uc_bind m f)"
  unfolding candid_def
proof (intro allI impI)
  fix w e
  assume e: "fst (uc_bind m f w) = Inl e" "refused_with e"
  obtain r w' where r: "m w = (r, w')" by fastforce
  then have w': "removals (w_trace w') = removals (w_trace w)" using m by (metis sparing_def snd_conv)
  show "removals (w_trace (snd (uc_bind m f w))) = removals (w_trace w)"
    using e f r w' by (cases r) (simp_all add: uc_bind_def candid_def)
qed

lemma firm_remove_container: "firm (remove_container S lock layout v)"
  unfolding remove_container_def Let_def
  by (intro firm_rules) simp_all

lemma firm_destroy:
  "firm (destroy S request lock layout identity store active oper entry warning)"
  unfolding destroy_def Let_def append_log_def md_calls
  by (rule firm_attempt firm_remove_container firm_rules | simp split: sum.splits)+

lemma sparing_log [sparing_rules]:
  "sparing (append_log S lock layout g entry)" "sparing (fail_preflight S request lock layout oper i failure)"
  unfolding append_log_def fail_preflight_def by (intro sparing_rules, simp)+

lemma sparing_preflight [sparing_rules]:
  "sparing (removal_preflight S git process lock layout active mode)"
  unfolding removal_preflight_def find_container_def removal_inspection_def validate_target_def Let_def
  by (intro sparing_rules) simp_all

lemma sparing_selection [sparing_rules]: "sparing (select_active S store target)"
  unfolding select_active_def find_named_def find_identified_def read_tombstone_def
  by (cases target) (auto intro!: sparing_rules)

lemma sparing_again: "sparing (remove_again S request lock layout identity store)"
  unfolding remove_again_def read_tombstone_def Let_def
  by (cases "rq_target request") (auto intro!: sparing_rules)

lemma candid_decision: "candid (decide_and_destroy S request lock layout identity store active oper inspection pu)"
  unfolding decide_and_destroy_def Let_def
  by (auto intro!: candid_firm[OF firm_destroy] candid_sparing sparing_rules split: removal_decision.splits)

lemma candid_remove: "candid (app_remove S request git process)"
  unfolding app_remove_def remove_active_def
  by (auto intro!: candid_bind candid_decision candid_sparing[OF sparing_again] sparing_rules
      candid_sparing[OF sparing_log(2)] split: option.splits sum.splits)

lemma remove_refusal_spares:
  "app_remove S request git process w = (Inl e, w') \<Longrightarrow> refused_with e \<Longrightarrow> removals (w_trace w') = removals (w_trace w)"
  using candid_remove[of S request git process] unfolding candid_def by (metis fst_conv snd_conv)

end
