(* ===== verification/Cli_Local.thy ===== *)
theory Cli_Local
  imports Cli_Contract Removal_Honesty
begin

text \<open>
  The command line on the use cases: what a run of \<open>thinws\<close> with \<open>LocalCommands\<close> does to the
  platform and the metadata, read off its arguments and its exit status.
\<close>

subsection \<open>Commands as use cases\<close>

lemma answer_Ok: "answer view m w = (Ok v, w') \<longleftrightarrow> (\<exists>x. m w = (Ok x, w') \<and> v = view x)"
proof (cases "m w")
  case (Pair r w0)
  then show ?thesis by (cases r) (auto simp: answer_def)
qed

lemma answer_Err: "answer view m w = (Err e, w') \<longleftrightarrow> (\<exists>x. m w = (Err x, w') \<and> e = use_case_error_view x)"
proof (cases "m w")
  case (Pair r w0)
  then show ?thesis by (cases r) (auto simp: answer_def)
qed

lemma require_Ok: "require r f w = (Ok v, w') \<longleftrightarrow> (\<exists>x. r = Ok x \<and> f x w = (Ok v, w'))"
  by (cases r) (auto simp: require_def)

lemma cmd_map_Ok: "cmd_map f m w = (Ok v, w') \<longleftrightarrow> (\<exists>x. m w = (Ok x, w') \<and> v = f x)"
proof (cases "m w")
  case (Pair r w0)
  then show ?thesis by (cases r) (auto simp: cmd_map_def)
qed

lemma cmd_map_Err: "cmd_map f m w = (Err e, w') \<longleftrightarrow> m w = (Err e, w')"
proof (cases "m w")
  case (Pair r w0)
  then show ?thesis by (cases r) (auto simp: cmd_map_def)
qed

text \<open>An effect that the calls of a command may have on the trace.\<close>

definition leaves :: "(trace \<Rightarrow> 'b) \<Rightarrow> (('p, 'm) world, 'v) command_run \<Rightarrow> bool" where
  "leaves f m \<longleftrightarrow> (\<forall>w. f (w_trace (snd (m w))) = f (w_trace w))"

lemma leaves_map: "leaves f m \<Longrightarrow> leaves f (cmd_map g m)"
  by (auto simp: leaves_def cmd_map_def split: prod.splits) (metis snd_conv)

lemma leaves_require: "(\<And>x. leaves f (g x)) \<Longrightarrow> leaves f (require r g)"
  by (cases r) (simp_all add: leaves_def require_def)

lemma leaves_answer:
  "reading m \<Longrightarrow> leaves changes (answer view m)" "sparing m \<Longrightarrow> leaves removals (answer view m)"
  by (auto simp: leaves_def answer_def reading_def sparing_def split: prod.splits) (metis snd_conv)+

lemma leaves_if: "\<lbrakk>leaves f m; leaves f n\<rbrakk> \<Longrightarrow> leaves f (if b then m else n)"
  by simp

lemma local_commands_sel [simp]:
  "cmd_init (local_commands L) = local_init L" "cmd_doctor (local_commands L) = local_doctor L"
  "cmd_create (local_commands L) = local_create L" "cmd_list (local_commands L) = local_list L"
  "cmd_path (local_commands L) = local_path L" "cmd_status (local_commands L) = local_status L"
  "cmd_remove (local_commands L) = local_remove L"
  by (simp_all add: local_commands_def)

text \<open>The world a run leaves is the one it found or the one the command left.\<close>

lemma run_world:
  assumes "run H J parse args C now k = (st, k')"
  shows "cn_world k' = cn_world k
    \<or> (\<exists>cli. parse args = Ok cli \<and> cn_world k' = snd (dispatch C now (cli_command cli) (cn_world k)))"
proof (cases rule: run_cases[where parse = parse and args = args and H = H and J = J and C = C and now = now and k = k])
  case (refused message)
  then show ?thesis using report_error_shows assms by metis
next
  case (displayed e)
  then show ?thesis using assms by (auto simp: display_def split: prod.splits)
next
  case (succeeded cli s w)
  then show ?thesis using report_success_shows[of H J s "cli_json cli" "k\<lparr>cn_world := w\<rparr>" st k'] assms by auto
next
  case (failed cli e w)
  then show ?thesis using report_error_shows[of J e "cli_json cli" "k\<lparr>cn_world := w\<rparr>" st k'] assms by auto
qed

subsection \<open>Commands that only look\<close>

definition read_only :: "command \<Rightarrow> bool" where
  "read_only c =
     (case c of
        command.Init \<Rightarrow> False
      | command.Doctor \<Rightarrow> True
      | Workspace w \<Rightarrow>
          (case w of
             workspace_command.Create source target name allow_copy dry_run \<Rightarrow> dry_run
           | workspace_command.Remove target force \<Rightarrow> False
           | _ \<Rightarrow> True))"

lemma read_only_leaves:
  assumes "read_only c"
  shows "leaves changes (dispatch (local_commands L) now c)"
proof -
  note rules = leaves_map leaves_require leaves_if leaves_answer(1) reading_rules
  have "leaves changes (local_doctor L)" "leaves changes (local_list L)"
    "leaves changes (local_path L n)" "leaves changes (local_status L n)"
    "leaves changes (local_create L source target name allow True now)" for n source target name allow
    unfolding local_doctor_def local_list_def local_path_def local_status_def local_create_def if_True
    by (intro rules reading_queries reading_inspection reading_preview)+
  then show ?thesis using assms
    by (auto simp: dispatch_def read_only_def intro: leaves_map split: command.splits workspace_command.splits)
qed

text \<open>
  C25.  Looking changes nothing.  Whatever the adapters answer and whether it succeeds or not, a
  run of \<open>doctor\<close>, \<open>workspace list\<close>, \<open>path\<close>, \<open>status\<close> or \<open>create --dry-run\<close> asks no port for a
  change of the control root, the target or the metadata.
\<close>

theorem looking_changes_nothing:
  assumes "run H J parse args (local_commands L) now k = (st, k')"
    "parse args = Ok cli" "read_only (cli_command cli)"
  shows "changes (w_trace (cn_world k')) = changes (w_trace (cn_world k))"
  using run_world[OF assms(1)] read_only_leaves[OF assms(3), of L now] assms(2)
  by (auto simp: leaves_def)

subsection \<open>The path command\<close>

lemma path_command:
  assumes "dispatch (local_commands L) now (Workspace (workspace_command.Path name)) (start p c) = (Ok s, w)"
  shows "\<exists>n wq. parse_name name = Ok n \<and> verified n wq (w_trace w)
    \<and> s = success.Path (path_bytes (res_target_path (rec_reservation (wq_record wq))))"
proof -
  obtain A path where "workspace_path (local_service L A) name (start p c) = (Ok path, w)"
    "s = success.Path (path_bytes path)"
    using assms by (auto simp: dispatch_def cmd_map_Ok local_path_def require_Ok answer_Ok)
  moreover have "case workspace_path (local_service L A) name (start p c) of
      (r, w) \<Rightarrow> path_evidence_of name r (w_trace w)"
    by (rule calls_start[OF workspace_path_calls])
  ultimately show ?thesis by (auto simp: path_evidence_of_def)
qed

text \<open>
  C22.  The printed path can be used.  When \<open>thinws workspace path NAME\<close> ends with 0, the output is
  exactly one path and a newline, and that path is the registered target of a Ready record of
  that name, validated by the platform in this run between two snapshots that hold the same
  record and receipt.
\<close>

theorem printed_path_is_verified:
  assumes "run H J parse args (local_commands L) now k = (0, k')"
    "parse args = Ok cli" "cli_command cli = Workspace (workspace_command.Path name)"
    "cn_world k = start p c"
  shows "\<exists>n wq. parse_name name = Ok n \<and> verified n wq (w_trace (cn_world k'))
    \<and> sk_written (cn_stdout k') =
        sk_written (cn_stdout k) @ path_bytes (res_target_path (rec_reservation (wq_record wq))) @ newline"
proof (cases rule: run_cases[where parse = parse and args = args and H = H and J = J
      and C = "local_commands L" and now = now and k = k])
  case (succeeded cli' s w)
  then have report: "report_success H J s (cli_json cli) (k\<lparr>cn_world := w\<rparr>) = (0, k')" and cli: "cli' = cli"
    using assms by simp_all
  obtain n wq where wq: "parse_name name = Ok n" "verified n wq (w_trace w)"
    "s = success.Path (path_bytes (res_target_path (rec_reservation (wq_record wq))))"
    using path_command succeeded(3) assms(3,4) cli by fastforce
  have "\<not> cli_json cli"
    using succeeded(1,2) assms(3) cli by (auto simp: refused_early_def rejects_json_def)
  then show ?thesis using report_success_shows[OF report] wq
    by (auto simp: success_text_def human_writes_def)
next
  case (refused message)
  then show ?thesis using assms report_error_not_zero by metis
next
  case (failed cli e w)
  then show ?thesis using assms report_error_not_zero by metis
qed (use assms in simp)

subsection \<open>No files were removed\<close>

lemma require_Err: "require r f w = (Err e, w') \<longleftrightarrow> r = Err e \<and> w' = w \<or> (\<exists>x. r = Ok x \<and> f x w = (Err e, w'))"
  by (cases r) (auto simp: require_def)

lemma untouched_codes_eq: "untouched_codes = map error_code_as_str refusal_codes"
  by (simp add: untouched_codes_def refusal_codes_def)

lemma refused_view: "error_code_as_str (uce_code e) \<in> set untouched_codes \<longleftrightarrow> refused_with e"
  by (auto simp: untouched_codes_eq refused_with_def)

lemma untouched_status:
  "exit_status t \<in> {22, 23, 25, 40} \<longleftrightarrow> t \<in> set untouched_codes"
proof
  assume st: "exit_status t \<in> {22, 23, 25, 40}"
  then obtain n where "(t, n) \<in> set exit_statuses" "n \<in> {22, 23, 25, 40}"
    by (auto simp: exit_status_def dest: map_of_SomeD split: option.splits)
  moreover have "list_all (\<lambda>(t, n). n \<in> {22, 23, 25, 40} \<longrightarrow> t \<in> set untouched_codes) exit_statuses"
    by (simp add: exit_statuses_def untouched_codes_def)
  ultimately show "t \<in> set untouched_codes" unfolding list_all_iff by blast
next
  have "map exit_status untouched_codes = [22, 25, 23, 40]"
    by (simp add: untouched_codes_def exit_status_def exit_statuses_def)
  then have "exit_status ` set untouched_codes = {22, 25, 23, 40}" by (metis image_set list.simps(15) set_empty)
  moreover assume "t \<in> set untouched_codes"
  ultimately show "exit_status t \<in> {22, 23, 25, 40}" by blast
qed

lemma refused_command_spares:
  assumes "dispatch (local_commands L) now c w = (Err e, w')" "ev_code e \<in> set untouched_codes"
  shows "removals (w_trace w') = removals (w_trace w)"
proof -
  have sparing': "leaves removals (dispatch (local_commands L) now c)"
    if "\<And>target force. c \<noteq> Workspace (workspace_command.Remove target force)"
  proof -
    have init: "leaves removals (local_init L now)"
      unfolding local_init_def by (intro leaves_require leaves_answer(2) sparing_init)
    have create: "leaves removals (local_create L source target name allow False now)" for source target name allow
      unfolding local_create_def if_False by (intro leaves_require leaves_answer(2) sparing_create)
    show ?thesis
    proof (cases "read_only c")
      case True
      then have "leaves changes (dispatch (local_commands L) now c)" by (rule read_only_leaves)
      then show ?thesis unfolding leaves_def by (metis removals_changes)
    next
      case False
      then show ?thesis using that init create
        by (auto simp: dispatch_def read_only_def intro!: leaves_map split: command.splits workspace_command.splits)
    qed
  qed
  show ?thesis
  proof (cases "\<exists>target force. c = Workspace (workspace_command.Remove target force)")
    case False
    then show ?thesis using sparing' assms(1) unfolding leaves_def by (metis snd_conv)
  next
    case True
    then obtain target force where c: "c = Workspace (workspace_command.Remove target force)" by blast
    have remove: "local_remove L target force now w = (Err e, w')"
      using assms(1) c by (simp add: dispatch_def cmd_map_Err)
    show ?thesis
    proof (cases "w' = w")
      case False
      then obtain request A x where failed: "app_remove (local_service L A) request (lc_git L) (ha_process A) w = (Err x, w')"
        and e: "e = use_case_error_view x"
        using remove by (auto simp: local_remove_def require_Err answer_Err)
      have "refused_with x" using assms(2) e by (simp add: refused_view)
      with failed show ?thesis by (rule remove_refusal_spares)
    qed simp
  qed
qed

text \<open>
  C7.  "No files were removed" is true.  When a run ends with the exit status of a refusal (dirty,
  busy, Git check incomplete or Workspace incomplete), the ones for which it says so, no port was
  asked to remove a container, and the metadata was asked neither to begin nor to complete a
  removal.
\<close>

theorem refusal_removed_nothing:
  assumes "run H J parse args (local_commands L) now k = (st, k')" "st \<in> {22, 23, 25, 40}"
  shows "removals (w_trace (cn_world k')) = removals (w_trace (cn_world k))"
proof (cases rule: run_cases[where parse = parse and args = args and H = H and J = J
      and C = "local_commands L" and now = now and k = k])
  case (failed cli e w)
  then have "report_error J e (cli_json cli) (k\<lparr>cn_world := w\<rparr>) = (st, k')" using assms(1) by simp
  from report_error_shows[OF this] have "st \<in> {exit_status (ev_code e), 31}" "cn_world k' = w" by simp_all
  moreover have "st \<noteq> 31" using assms(2) by auto
  ultimately have "exit_status (ev_code e) \<in> {22, 23, 25, 40}" using assms(2) by blast
  then have "ev_code e \<in> set untouched_codes" using untouched_status by blast
  then show ?thesis using refused_command_spares[OF failed(3)] \<open>cn_world k' = w\<close> by simp
next
  case (refused message)
  then have "cn_world k' = cn_world k" using report_error_shows assms(1) by metis
  then show ?thesis by simp
next
  case (displayed e)
  then show ?thesis using assms by (auto simp: display_def split: prod.splits)
next
  case (succeeded cli s w)
  then show ?thesis using report_success_shows[of H J s "cli_json cli" "k\<lparr>cn_world := w\<rparr>" st k'] assms by auto
qed

end
