(* ===== verification/Cli_System.thy ===== *)
theory Cli_System
  imports Cli_Local Composed_System
begin

text \<open>
  A concrete installation under the command line: one Ready Workspace \<open>demo\<close> at \<open>/t\<close>, adapters
  that grant every check, and the runs of \<open>thinws\<close> on it that show the properties of the command
  line at work.
\<close>

definition shelf_record :: workspace_record where
  "shelf_record =
     \<lparr>rec_reservation = sample_reservation, rec_state = WsReady, rec_last_error_code = None,
      rec_updated_at = UnixMillis 8\<rparr>"

definition shelf_summary :: final_summary where
  "shelf_summary =
     \<lparr>fs_requested_mode = CowClone, fs_effective_mode = CowClone, fs_actual_mode = CowClone,
      fs_adapter = BtrfsReflink, fs_cow = cow_evidence.Confirmed, fs_fallback_reason = None,
      fs_failed_attempt_count = 0\<rparr>"

definition shelf_snapshot :: metadata_snapshot where
  "shelf_snapshot =
     \<lparr>ms_installation = sample_installation, ms_workspaces = [shelf_record],
      ms_final_materializations = [(WorkspaceId sample_uuid, shelf_summary)]\<rparr>"

definition shelf_metadata :: "unit metadata_port" where
  "shelf_metadata =
     \<lparr>md_initialize = (\<lambda>l i n. declined ''initialize''),
      md_inspect = (\<lambda>l i n. granted shelf_snapshot),
      md_open_existing = (\<lambda>l i n. granted sample_installation),
      md_reserve_workspace = (\<lambda>i v. declined ''reserve''),
      md_complete_materialization = (\<lambda>i w p r t. declined ''complete''),
      md_record_failure = (\<lambda>i w s e t. declined ''record''),
      md_begin_removal = (\<lambda>i w s m t. declined ''begin''),
      md_complete_deletion = (\<lambda>i w d t. declined ''delete''),
      md_workspace = (\<lambda>w. granted (Some shelf_record)),
      md_deletion_tombstone = (\<lambda>i w. granted None),
      md_final_materialization = (\<lambda>w. granted (Some shelf_summary)),
      md_workspaces = granted [shelf_record]\<rparr>"

definition shelf_platform :: "unit platform" where
  "shelf_platform = idle_platform
     \<lparr>read_root_marker := (\<lambda>p. granted (Some
        \<lparr>rm_identity = inst_identity sample_installation, rm_state = root_marker_state.Ready\<rparr>)),
      validate_ready_workspace := (\<lambda>l v. granted (res_target_path v)),
      inspect_removal_container := (\<lambda>g l v. granted (Some (res_target_path v))),
      append_removal_log := (\<lambda>g l r. granted (AbsolutePath ''/d/removal.log''))\<rparr>"

definition shelf_adapter :: "unit host_adapter" where
  "shelf_adapter =
     \<lparr>ha_platform = shelf_platform,
      ha_process = (\<lambda>p. granted \<lparr>observed_at = UnixMillis 9, use_state = NoEvidence\<rparr>),
      ha_clone = idle_materializer, ha_copy = idle_materializer\<rparr>"

definition shelf_commands :: "bytes option \<Rightarrow> (unit, unit) LocalCommands" where
  "shelf_commands home =
     \<lparr>lc_bootstrap_dir = home, lc_lock_timeout = 5000, lc_sqlite_timeout = 5000,
      lc_new_adapter = (\<lambda>_. Ok shelf_adapter), lc_uuid = plain_uuid, lc_metadata = shelf_metadata,
      lc_git = (\<lambda>p. Pair (git_inspection_new Incomplete [] []))\<rparr>"

definition blank_sink :: sink where
  "blank_sink = \<lparr>sk_written = [], sk_writes = 0, sk_faults = (\<lambda>_. None)\<rparr>"

definition shelf_console :: "(unit, unit) world console" where
  "shelf_console = \<lparr>cn_world = start () (), cn_stdout = blank_sink, cn_stderr = blank_sink\<rparr>"

definition some_host :: build_host where
  "some_host = \<lparr>bh_platform = ''linux'', bh_arch = ''x86_64''\<rparr>"

definition asks :: "Cli_Run.command \<Rightarrow> clap_parser" where
  "asks c args = Ok \<lparr>cli_json = False, cli_command = c\<rparr>"

definition shelf_run :: "bytes option \<Rightarrow> bytes list \<Rightarrow> Cli_Run.command \<Rightarrow> int \<times> (unit, unit) world console" where
  "shelf_run home args c =
     run some_host (sample_json JNull) (asks c) args (local_commands (shelf_commands home)) 9 shelf_console"

lemmas shelf_defs = shelf_run_def shelf_commands_def shelf_adapter_def shelf_platform_def shelf_metadata_def
  shelf_snapshot_def shelf_record_def shelf_console_def idle_platform_def asks_def

lemmas use_case_steps = uc_bind_def uc_return_def uc_fail_def uc_lift_def observe_def perform_def
  md_perform_def note_event_def or_fail_def uc_attempt_def run_git_def fresh_uuid_def granted_def start_def
  md_calls

lemma shelf_path:
  "fst (shelf_run (Some ''/d'') [''thinws'', ''workspace'', ''path'', ''demo''] (Workspace (workspace_command.Path ''demo''))) = 0"
proof -
  have name: "parse_name ''demo'' = Ok (WorkspaceName ''demo'')"
  proof -
    have "validate_workspace_name ''demo'' = Ok ()" by code_simp
    then show ?thesis by (simp add: parse_name_def workspace_name_from_str_def)
  qed
  show ?thesis
    by (simp add: shelf_defs use_case_steps run_def prescan_of_def rejects_json_def dispatch_def cmd_map_def local_path_def
        require_def local_adapter_def answer_def workspace_path_def local_service_def name inspect_workspace_def
        inspect_current_def require_config_def read_config_step_def inspect_existing_def require_ready_marker_def
        find_workspace_def query_from_snapshot_def snapshot_final_materialization_def sample_reservation_def
        report_success_def render_success_human_def human_writes_def write_all_def blank_sink_def Let_def)
qed

lemma report_on_blank:
  "cn_stderr k = blank_sink \<Longrightarrow> fst (report_error J e False k) = exit_status (ev_code e)"
proof -
  assume k: "cn_stderr k = blank_sink"
  have "fst (put_all bss s)" if "sk_faults s = (\<lambda>_. None)" for bss s
    using that by (induction bss arbitrary: s) (simp_all add: write_all_def)
  then have "fst (put_all (error_writes e) blank_sink)" by (simp add: blank_sink_def)
  then show ?thesis using k by (auto simp: report_error_def render_error_def split: prod.splits)
qed

lemma shelf_remove:
  "fst (shelf_run (Some ''/d'') [''thinws'', ''workspace'', ''remove'', ''name:demo'']
          (Workspace (workspace_command.Remove ''name:demo'' False))) = 25"
proof -
  have name: "workspace_name_from_str ''demo'' = Ok (WorkspaceName ''demo'')"
  proof -
    have "validate_workspace_name ''demo'' = Ok ()" by code_simp
    then show ?thesis by (simp add: workspace_name_from_str_def)
  qed
  have request: "remove_request_try_from_raw U ''name:demo'' False 9 =
      Ok \<lparr>rq_target = TargetName (WorkspaceName ''demo''), rq_mode = Normal, rq_now = UnixMillis 9\<rparr>" for U
    by (simp add: remove_request_try_from_raw_def parse_remove_target_def strip_prefix_def name unix_millis_new_def)
  have status: "exit_status ''E_GIT_CHECK_INCOMPLETE'' = 25" by (simp add: exit_status_def exit_statuses_def)
  have unknown: "gi_aggregate (git_inspection_new Incomplete [] []) = git_state.Unknown"
    by (simp add: git_inspection_new_def aggregate_git_state_def)
  show ?thesis
    by (simp add: shelf_defs use_case_steps run_def prescan_of_def rejects_json_def dispatch_def cmd_map_def local_remove_def
        require_def local_adapter_def answer_def request app_remove_def local_service_def
        require_config_def read_config_step_def require_ready_marker_def open_locked_store_def lock_data_root_def
        select_active_def find_named_def sample_reservation_def remove_active_def removal_preflight_def
        find_container_def removal_inspection_def validate_target_def decide_and_destroy_def decide_removal_def
        append_log_def unknown report_on_blank status with_process_scan_warning_def Let_def)
qed

subsection \<open>The properties on these runs\<close>

abbreviation path_line :: "bytes list" where
  "path_line \<equiv> [''thinws'', ''workspace'', ''path'', ''demo'']"

abbreviation path_demo :: Cli_Run.command where
  "path_demo \<equiv> Workspace (workspace_command.Path ''demo'')"

abbreviation remove_line :: "bytes list" where
  "remove_line \<equiv> [''thinws'', ''workspace'', ''remove'', ''name:demo'']"

abbreviation remove_demo :: Cli_Run.command where
  "remove_demo \<equiv> Workspace (workspace_command.Remove ''name:demo'' False)"

lemma shelf_path_run:
  obtains k' where "shelf_run (Some ''/d'') path_line path_demo = (0, k')"
  using shelf_path by (metis prod.collapse)

lemma shelf_remove_run:
  obtains k' where "shelf_run (Some ''/d'') remove_line remove_demo = (25, k')"
  using shelf_remove by (metis prod.collapse)

lemma exit_zero_means_delivered_witness:
  "\<exists>k' s t. shelf_run (Some ''/d'') path_line path_demo = (0, k')
     \<and> dispatch (local_commands (shelf_commands (Some ''/d''))) 9 path_demo (cn_world shelf_console) = (Ok s, cn_world k')
     \<and> success_text some_host (sample_json JNull) False s = Some t \<and> sk_written (cn_stdout k') = t"
proof -
  obtain k' where run: "shelf_run (Some ''/d'') path_line path_demo = (0, k')" by (rule shelf_path_run)
  show ?thesis
    using exit_zero_means_delivered[OF run[unfolded shelf_run_def]] run
    by (auto simp: asks_def shelf_console_def blank_sink_def)
qed

lemma failure_is_reported_once_witness:
  "case shelf_run None [''thinws'', ''doctor''] command.Doctor of (st, k') \<Rightarrow>
     st = 32 \<and> cn_stdout k' = blank_sink
     \<and> sk_written (cn_stderr k') = concat (error_writes no_home)"
proof -
  obtain st k' where run: "shelf_run None [''thinws'', ''doctor''] command.Doctor = (st, k')" by fastforce
  have early: "\<not> refused_early (asks command.Doctor) [''thinws'', ''doctor'']"
    by (simp add: refused_early_def asks_def prescan_of_def rejects_json_def)
  have fails: "dispatch (local_commands (shelf_commands None)) 9 command.Doctor (cn_world shelf_console)
      = (Err no_home, cn_world shelf_console)"
    by (simp add: dispatch_def cmd_map_def local_doctor_def require_def local_adapter_def shelf_commands_def)
  have "exit_status ''E_CONTROL_UNAVAILABLE'' = 32" by (simp add: exit_status_def exit_statuses_def)
  then have "fst (shelf_run None [''thinws'', ''doctor''] command.Doctor) = 32"
    using fails by (simp add: shelf_run_def run_def asks_def prescan_of_def rejects_json_def Let_def
        report_on_blank shelf_console_def no_home_def)
  then have st: "st = 32" by (simp add: run)
  have parse: "asks command.Doctor [''thinws'', ''doctor''] = Ok \<lparr>cli_json = False, cli_command = command.Doctor\<rparr>"
    by (simp add: asks_def)
  show ?thesis
    using failure_is_reported_once[OF parse early _ run[unfolded shelf_run_def], of no_home] fails st
    by (simp add: run shelf_console_def blank_sink_def error_text_def)
qed

lemma refused_run_does_nothing_witness:
  "case run some_host (sample_json JNull) (\<lambda>_. Err \<lparr>ck_kind = OtherError, ck_text = []\<rparr>) [''thinws'', ''remove'']
      (local_commands (shelf_commands (Some ''/d''))) 9 shelf_console of
     (st, k') \<Rightarrow> cn_world k' = start () () \<and> st \<in> {2, 31}"
proof -
  obtain st k' where run: "run some_host (sample_json JNull) (\<lambda>_. Err \<lparr>ck_kind = OtherError, ck_text = []\<rparr>)
      [''thinws'', ''remove''] (local_commands (shelf_commands (Some ''/d''))) 9 shelf_console = (st, k')" by fastforce
  have "cn_world k' = cn_world shelf_console \<and> st \<in> {2, 31}"
    using refused_run_does_nothing[OF run] by (simp add: refused_early_def)
  then show ?thesis unfolding run by (simp add: shelf_console_def)
qed

lemma looking_changes_nothing_witness:
  "case shelf_run (Some ''/d'') path_line path_demo of (st, k') \<Rightarrow> changes (w_trace (cn_world k')) = []"
proof -
  obtain st k' where run: "shelf_run (Some ''/d'') path_line path_demo = (st, k')" by fastforce
  show ?thesis using looking_changes_nothing[OF run[unfolded shelf_run_def]]
    by (simp add: run asks_def read_only_def shelf_console_def start_def)
qed

lemma printed_path_is_verified_witness:
  "\<exists>k' n wq. shelf_run (Some ''/d'') path_line path_demo = (0, k') \<and> verified n wq (w_trace (cn_world k'))
     \<and> sk_written (cn_stdout k') = path_bytes (res_target_path (rec_reservation (wq_record wq))) @ newline"
proof -
  obtain k' where run: "shelf_run (Some ''/d'') path_line path_demo = (0, k')" by (rule shelf_path_run)
  have "cn_world shelf_console = start () ()" "sk_written (cn_stdout shelf_console) = []"
    by (simp_all add: shelf_console_def blank_sink_def)
  then show ?thesis
    using printed_path_is_verified[OF run[unfolded shelf_run_def], of _ "''demo''" "()" "()"] run
    by (auto simp: asks_def)
qed

lemma refusal_removed_nothing_witness:
  "case shelf_run (Some ''/d'') remove_line remove_demo of
     (st, k') \<Rightarrow> st = 25 \<and> removals (w_trace (cn_world k')) = []"
proof -
  obtain k' where run: "shelf_run (Some ''/d'') remove_line remove_demo = (25, k')" by (rule shelf_remove_run)
  show ?thesis using refusal_removed_nothing[OF run[unfolded shelf_run_def]]
    by (simp add: run shelf_console_def start_def)
qed

end
