(* ===== verification/Linux_Log.thy ===== *)
theory Linux_Log
  imports Rust_Path Rust_Text Removal_Protocol Receipt_Json
begin

text \<open>
  The removal log of the Linux adapter: \<open>thinws-adapter-linux/src/operation_log.rs\<close>.

  A record is checked, serialized to one line and appended to \<open>operations.jsonl\<close>.  The file and
  the operating system under it are \<open>log_file\<close>: the content, and what each step answers, counted
  from the first.  A write that fails may leave any beginning of its bytes behind.  The checks of
  the private directory and of the file (\<open>lock.rs\<close>, \<open>publication.rs\<close>) are steps that may refuse.
\<close>

subsection \<open>The line of a record\<close>

definition log_event_valid :: "removal_log_record \<Rightarrow> bool" where
  "log_event_valid r =
     (case log_event r of
        Refused \<Rightarrow> log_protection r \<noteq> None \<and> log_error_code r \<noteq> None \<and> log_outcome r = None
      | Started \<Rightarrow> log_protection r = None \<and> log_error_code r = None \<and> log_outcome r = None
      | Completed \<Rightarrow> log_protection r = None \<and> log_error_code r = None \<and> log_outcome r \<noteq> None
      | removal_log_event.Failed \<Rightarrow> log_error_code r \<noteq> None \<and> log_outcome r = None)"

definition log_fields_consistent :: "removal_log_record \<Rightarrow> bool" where
  "log_fields_consistent r \<longleftrightarrow>
     \<not> (\<not> log_event_valid r \<or> log_git_check_complete r \<and> log_git_state r = git_state.Unknown)"

definition leaves_root :: "bytes \<Rightarrow> bool" where
  "leaves_root p =
     (is_absolute (path_of_bytes p) \<or> list_ex (\<lambda>c. c = ParentDir \<or> c = RootDir) (path_of_bytes p))"

definition hex_bytes :: "bytes \<Rightarrow> string" where
  "hex_bytes bs = concat (map (\<lambda>b. [hex_digits ! (of_char b div 16), hex_digits ! (of_char b mod 16)]) bs)"

definition log_repository_json :: "repository_inspection \<Rightarrow> port_error + json" where
  "log_repository_json r =
     (let bs = ri_relative_path r in
      if leaves_root bs
      then Err (port_error_new port_error_kind.InvalidData ''cleanup log repository path is not relative'')
      else Ok (JObject
        [(''relative_path'',
            json_opt JString (if bs = [] then Some ''.'' else if utf8_valid bs then Some bs else None)),
         (''relative_path_hex'', JString (hex_bytes bs)),
         (''tracked_changes'', json_opt (\<lambda>n. JNumber (int n)) (tracked_change_count (ri_state r)))]))"

fun event_name :: "removal_log_event \<Rightarrow> string" where
  "event_name Refused = ''refused''"
| "event_name Started = ''started''"
| "event_name Completed = ''completed''"
| "event_name removal_log_event.Failed = ''failed''"

fun log_git_state_name :: "git_state \<Rightarrow> string" where
  "log_git_state_name NotApplicable = ''not-applicable''"
| "log_git_state_name git_state.Clean = ''clean''"
| "log_git_state_name git_state.Dirty = ''dirty''"
| "log_git_state_name git_state.Unknown = ''unknown''"

fun process_use_name :: "process_use \<Rightarrow> string" where
  "process_use_name NoEvidence = ''no-evidence''"
| "process_use_name ScanIncomplete = ''scan-incomplete''"
| "process_use_name process_use.ConfirmedInUse = ''confirmed-in-use''"

fun refusal_name :: "removal_refusal \<Rightarrow> string" where
  "refusal_name removal_refusal.ConfirmedInUse = ''confirmed-in-use''"
| "refusal_name GitCheckIncomplete = ''git-check-incomplete''"
| "refusal_name TrackedChanges = ''tracked-changes''"

definition log_outcome_fields :: "workspace_removal option \<Rightarrow> string option \<times> nat option" where
  "log_outcome_fields r =
     (case r of
        Some AlreadyAbsent \<Rightarrow> (Some ''already-absent'', None)
      | Some (Removed n) \<Rightarrow> (Some ''removed'', Some n)
      | None \<Rightarrow> (None, None))"

definition log_record_json :: "uuid_api \<Rightarrow> removal_log_record \<Rightarrow> json list \<Rightarrow> json" where
  "log_record_json U r repositories =
     (case log_outcome_fields (log_outcome r) of (result, entries) \<Rightarrow>
      JObject
       [(''timestamp_utc_unix_ms'', JNumber (millis (log_occurred_at r))),
        (''operation_id'', JString (operation_id_to_string U (log_operation_id r))),
        (''workspace_id'', JString (workspace_id_to_string U (log_workspace_id r))),
        (''event'', JString (event_name (log_event r))),
        (''force'', JBool (log_mode r = Force)),
        (''git_state'', JString (log_git_state_name (log_git_state r))),
        (''git_check_complete'', JBool (log_git_check_complete r)),
        (''repositories'', JArray repositories),
        (''process_use'', json_opt (\<lambda>p. JString (process_use_name p)) (log_process_use r)),
        (''protection_reason'', json_opt (\<lambda>p. JString (refusal_name p)) (log_protection r)),
        (''error_code'', json_opt (\<lambda>c. JString (error_code_as_str c)) (log_error_code r)),
        (''result'', json_opt JString result),
        (''removed_root_entries'', json_opt (\<lambda>n. JNumber (int n)) entries)])"

text \<open>The line without its newline, or why there is none.\<close>

definition log_line :: "uuid_api \<Rightarrow> json_api \<Rightarrow> removal_log_record \<Rightarrow> port_error + bytes" where
  "log_line U J r =
     (if \<not> log_fields_consistent r
      then Err (port_error_new port_error_kind.InvalidData ''cleanup log event fields are inconsistent'')
      else
        and_then (collect_results (map log_repository_json (log_repositories r))) (\<lambda>repositories.
          map_err (\<lambda>e. port_error_with_source
                     (port_error_new port_error_kind.InvalidData ''serialize cleanup log event'') e)
            (json_to_string J (log_record_json U r repositories))))"

subsection \<open>The file\<close>

record log_file =
  lf_content :: "bytes option"
  lf_steps :: nat
  lf_io :: "nat \<Rightarrow> foreign_error option"
  lf_written :: "nat \<Rightarrow> nat"
  lf_check :: "nat \<Rightarrow> port_error option"
  lf_directory :: path

definition log_io_error :: "string \<Rightarrow> foreign_error \<Rightarrow> port_error" where
  "log_io_error oper e = port_error_with_source (port_error_new port_error_kind.Io oper) e"

definition log_tick :: "log_file \<Rightarrow> log_file" where
  "log_tick f = f\<lparr>lf_steps := Suc (lf_steps f)\<rparr>"

text \<open>A call of the system that changes nothing, a check of another component, and the write.\<close>

definition log_call :: "string \<Rightarrow> log_file \<Rightarrow> (port_error + unit) \<times> log_file" where
  "log_call oper f =
     (case lf_io f (lf_steps f) of
        None \<Rightarrow> (Ok (), log_tick f)
      | Some e \<Rightarrow> (Err (log_io_error oper e), log_tick f))"

definition log_check :: "log_file \<Rightarrow> (port_error + unit) \<times> log_file" where
  "log_check f =
     (case lf_check f (lf_steps f) of None \<Rightarrow> (Ok (), log_tick f) | Some e \<Rightarrow> (Err e, log_tick f))"

definition log_write :: "bytes \<Rightarrow> log_file \<Rightarrow> (port_error + unit) \<times> log_file" where
  "log_write bs f =
     (let old = (case lf_content f of None \<Rightarrow> [] | Some c \<Rightarrow> c) in
      case lf_io f (lf_steps f) of
        None \<Rightarrow> (Ok (), log_tick (f\<lparr>lf_content := Some (old @ bs)\<rparr>))
      | Some e \<Rightarrow>
          (Err (log_io_error ''append cleanup log event'' e),
           log_tick (f\<lparr>lf_content := Some (old @ take (lf_written f (lf_steps f)) bs)\<rparr>)))"

definition log_then ::
  "(log_file \<Rightarrow> (port_error + 'a) \<times> log_file) \<Rightarrow> ('a \<Rightarrow> log_file \<Rightarrow> (port_error + 'b) \<times> log_file)
   \<Rightarrow> log_file \<Rightarrow> (port_error + 'b) \<times> log_file" where
  "log_then m k f = (case m f of (Inl e, f') \<Rightarrow> (Inl e, f') | (Inr x, f') \<Rightarrow> k x f')"

definition open_or_create_log :: "log_file \<Rightarrow> (port_error + unit) \<times> log_file" where
  "open_or_create_log =
     log_then
       (\<lambda>f. case lf_content f of
              Some c \<Rightarrow> log_call ''open cleanup log file'' f
            | None \<Rightarrow>
                log_then (log_call ''create cleanup log file'') (\<lambda>_ f. (Ok (), f\<lparr>lf_content := Some []\<rparr>)) f)
       (\<lambda>_. log_call ''inspect cleanup log file'')"

text \<open>
  The bytes to append: a newline first when the file does not end with one.  The tail is only
  read when there is something to read.
\<close>

definition log_separator :: "bytes \<Rightarrow> bytes" where
  "log_separator content = (if content \<noteq> [] \<and> last content \<noteq> CHR 0x0A then [CHR 0x0A] else [])"

definition log_read_tail :: "bytes \<Rightarrow> log_file \<Rightarrow> (port_error + bytes) \<times> log_file" where
  "log_read_tail bs f =
     (let content = (case lf_content f of None \<Rightarrow> [] | Some c \<Rightarrow> c) in
      if content = [] then (Ok bs, f)
      else
        log_then (log_call ''inspect cleanup log tail'') (\<lambda>_.
        log_then (log_call ''read cleanup log tail'') (\<lambda>_ f.
          (Ok (log_separator content @ bs), f))) f)"

fun path_error_source :: "absolute_path_error \<Rightarrow> foreign_error" where
  "path_error_source NotAbsolute = ForeignError ''path must be absolute''"
| "path_error_source ContainsNul = ForeignError ''path must not contain NUL''"
| "path_error_source NonCanonicalComponent = ForeignError ''path must contain only canonical normal components''"

definition log_path :: "log_file \<Rightarrow> port_error + absolute_path" where
  "log_path f =
     map_err (\<lambda>e. port_error_with_source
                (port_error_new port_error_kind.InvalidLayout ''derive cleanup log path'') (path_error_source e))
       (absolute_path_try_from_bytes (path_spelling (path_join (lf_directory f) [component.Normal ''operations.jsonl''])))"

definition append_removal_record ::
  "uuid_api \<Rightarrow> json_api \<Rightarrow> removal_log_record \<Rightarrow> log_file \<Rightarrow> (port_error + absolute_path) \<times> log_file" where
  "append_removal_record U J r f =
     (case log_line U J r of
        Inl e \<Rightarrow> (Err e, f)
      | Inr line \<Rightarrow>
          log_then log_check (\<lambda>_.
          log_then open_or_create_log (\<lambda>_.
          log_then log_check (\<lambda>_.
          log_then (log_call ''inspect cleanup log length'') (\<lambda>_.
          log_then (log_read_tail (line @ [CHR 0x0A])) (\<lambda>bs.
          log_then (log_write bs) (\<lambda>_.
          log_then (log_call ''sync cleanup log event'') (\<lambda>_.
          log_then log_check (\<lambda>_.
          log_then log_check (\<lambda>_.
          log_then log_check (\<lambda>_ f. (log_path f, f))))))))))) f)"

subsection \<open>Complete lines\<close>

definition log_content :: "log_file \<Rightarrow> bytes" where
  "log_content f = (case lf_content f of None \<Rightarrow> [] | Some c \<Rightarrow> c)"

definition complete_lines :: "bytes \<Rightarrow> bytes list" where
  "complete_lines c = butlast (split_on (CHR 0x0A) c)"

lemma split_on_append:
  "split_on sep (xs @ ys) =
     butlast (split_on sep xs) @ (last (split_on sep xs) @ hd (split_on sep ys)) # tl (split_on sep ys)"
proof (induction xs)
  case Nil
  then show ?case using split_on_not_Nil[of sep ys] by (cases "split_on sep ys") auto
next
  case (Cons x xs)
  show ?case
  proof (cases "x = sep")
    case True
    then show ?thesis using Cons split_on_not_Nil[of sep xs] by simp
  next
    case False
    show ?thesis
    proof (cases "split_on sep xs")
      case (Cons p ps)
      then show ?thesis using Cons.IH False by (cases ps) auto
    qed simp
  qed
qed

lemma complete_lines_grow: "prefix (complete_lines c) (complete_lines (c @ p))"
  using split_on_not_Nil[of "CHR 0x0A" p]
  by (cases "split_on (CHR 0x0A) p") (auto simp: complete_lines_def split_on_append butlast_append)

lemma complete_lines_newline: "complete_lines (c @ [CHR 0x0A]) = split_on (CHR 0x0A) c"
proof -
  obtain xs x where "split_on (CHR 0x0A) c = xs @ [x]"
    using split_on_not_Nil[of "CHR 0x0A" c] by (metis append_butlast_last_id)
  then show ?thesis by (simp add: complete_lines_def split_on_append butlast_append)
qed

lemma complete_lines_append_line:
  assumes "CHR 0x0A \<notin> set line"
  shows "\<exists>xs. complete_lines (c @ log_separator c @ line @ [CHR 0x0A]) = complete_lines c @ xs @ [line]"
proof (cases "c = [] \<or> last c = CHR 0x0A")
  case True
  then have sep: "log_separator c = []" by (auto simp: log_separator_def)
  have "split_on (CHR 0x0A) c = complete_lines c @ [[]]"
  proof (cases "c = []")
    case False
    then obtain d where "c = d @ [CHR 0x0A]" using True by (metis append_butlast_last_id)
    then show ?thesis using complete_lines_newline[of d]
      append_butlast_last_id[OF split_on_not_Nil[of "CHR 0x0A" d]] by (simp add: split_on_append)
  qed (simp add: complete_lines_def)
  then have "complete_lines (c @ line @ [CHR 0x0A]) = complete_lines c @ [line]"
    using assms complete_lines_newline[of "c @ line"] by (simp add: split_on_append split_on_no_sep)
  then show ?thesis using sep by (metis append_Nil)
next
  case False
  then have "log_separator c = [CHR 0x0A]" by (simp add: log_separator_def)
  moreover have "complete_lines (c @ CHR 0x0A # line @ [CHR 0x0A]) = split_on (CHR 0x0A) c @ [line]"
    using assms complete_lines_newline[of "c @ CHR 0x0A # line"] append_butlast_last_id[OF split_on_not_Nil[of "CHR 0x0A" c]]
    by (simp add: split_on_append split_on_no_sep)
  moreover have "split_on (CHR 0x0A) c = complete_lines c @ [last (split_on (CHR 0x0A) c)]"
    by (simp add: complete_lines_def)
  ultimately show ?thesis by (metis append_Cons append_Nil append_assoc)
qed

text \<open>What one append does to the content: nothing, a beginning of its bytes, or all of them.\<close>

lemma log_calls_content [simp]:
  "log_content (log_tick f) = log_content f"
  "log_content (snd (log_call oper f)) = log_content f" "log_content (snd (log_check f)) = log_content f"
  by (simp_all add: log_content_def log_tick_def log_call_def log_check_def split: option.splits)

definition log_step :: "(log_file \<Rightarrow> (port_error + 'a) \<times> log_file) \<Rightarrow> (log_file \<Rightarrow> 'a \<Rightarrow> bool) \<Rightarrow> bool" where
  "log_step m P \<longleftrightarrow>
     (\<forall>f. log_content (snd (m f)) = log_content f \<and> (\<forall>x. fst (m f) = Inr x \<longrightarrow> P f x))"

lemma log_step_calls: "log_step (log_call oper) (\<lambda>_ _. True)" "log_step log_check (\<lambda>_ _. True)"
  by (simp_all add: log_step_def)

lemma log_step_open: "log_step open_or_create_log (\<lambda>_ _. True)"
  by (auto simp: log_step_def open_or_create_log_def log_then_def log_content_def log_call_def log_tick_def
      split: option.splits prod.splits sum.splits)

lemma log_step_tail: "log_step (log_read_tail bs) (\<lambda>f x. x = log_separator (log_content f) @ bs)"
  by (auto simp: log_step_def log_read_tail_def log_then_def log_content_def log_call_def log_tick_def
      log_separator_def Let_def split: option.splits prod.splits sum.splits)

definition appends :: "bytes \<Rightarrow> log_file \<Rightarrow> (port_error + 'a) \<times> log_file \<Rightarrow> bool" where
  "appends line f res \<longleftrightarrow>
     (\<exists>p. log_content (snd res) = log_content f @ p
        \<and> ((\<exists>x. fst res = Inr x) \<longrightarrow> p = log_separator (log_content f) @ line @ [CHR 0x0A]))"

lemma appends_then:
  assumes "log_step m P" "\<And>x f'. \<lbrakk>log_content f' = log_content f; P f x\<rbrakk> \<Longrightarrow> appends line f' (k x f')"
  shows "appends line f (log_then m k f)"
proof -
  obtain r f' where m: "m f = (r, f')" by fastforce
  have "log_content (snd (m f)) = log_content f \<and> (\<forall>x. fst (m f) = Inr x \<longrightarrow> P f x)"
    using assms(1) by (simp add: log_step_def)
  then have c: "log_content f' = log_content f" "\<And>x. r = Inr x \<Longrightarrow> P f x" using m by simp_all
  show ?thesis
  proof (cases r)
    case (Inl e)
    then show ?thesis using m c by (simp add: log_then_def appends_def)
  next
    case (Inr x)
    then have "appends line f' (k x f')" using assms(2) c by simp
    then show ?thesis using m Inr c by (simp add: log_then_def appends_def)
  qed
qed

lemma appended_then:
  assumes "log_step m (\<lambda>_ _. True)" "\<And>x f'. log_content f' = c \<Longrightarrow> log_content (snd (k x f')) = c"
    "log_content f = c"
  shows "log_content (snd (log_then m k f)) = c"
  using assms by (auto simp: log_then_def log_step_def split: prod.splits sum.splits) (metis snd_conv)+

lemma log_write_content:
  "log_write bs f = (r, f') \<Longrightarrow> \<exists>p. log_content f' = log_content f @ p \<and> (\<forall>x. r = Inr x \<longrightarrow> p = bs)"
  by (auto simp: log_write_def log_content_def log_tick_def Let_def split: option.splits)

lemma append_record_appends:
  assumes "log_line U J r = Inr line"
  shows "appends line f (append_removal_record U J r f)"
proof -
  define rest where "rest =
    log_then (log_call ''sync cleanup log event'') (\<lambda>_.
          log_then log_check (\<lambda>_.
          log_then log_check (\<lambda>_.
          log_then log_check (\<lambda>_ f. (log_path f, f)))))"
  have kept: "log_content (snd (rest f)) = log_content f" for f
    unfolding rest_def by (intro appended_then log_step_calls) simp_all
  have written: "appends line f (log_then (log_write bs) (\<lambda>_. rest) f)"
    if "bs = log_separator (log_content f) @ line @ [CHR 0x0A]" for f bs
  proof -
    obtain r f1 where w: "log_write bs f = (r, f1)" by fastforce
    then obtain p where p: "log_content f1 = log_content f @ p" "\<And>x. r = Inr x \<Longrightarrow> p = bs"
      using log_write_content by blast
    show ?thesis
    proof (cases r)
      case (Inl e)
      then show ?thesis using w p by (simp add: log_then_def appends_def)
    next
      case (Inr x)
      then show ?thesis using w p that kept[of f1] by (simp add: log_then_def appends_def)
    qed
  qed
  show ?thesis
    unfolding append_removal_record_def assms sum.case rest_def[symmetric]
    by (intro appends_then[OF log_step_calls(2)] appends_then[OF log_step_open]
        appends_then[OF log_step_calls(1)] appends_then[OF log_step_tail] written) simp
qed

subsection \<open>Histories of the log\<close>

text \<open>The appends of a history, one after the other; and the lines of those that succeeded.\<close>

fun append_all ::
  "uuid_api \<Rightarrow> json_api \<Rightarrow> removal_log_record list \<Rightarrow> log_file \<Rightarrow> bytes list \<times> log_file" where
  "append_all U J [] f = ([], f)"
| "append_all U J (r # rs) f =
     (case append_removal_record U J r f of
        (answer, f') \<Rightarrow>
          (case append_all U J rs f' of
             (lines, f'') \<Rightarrow>
               (case (answer, log_line U J r) of (Inr _, Inr line) \<Rightarrow> line # lines | _ \<Rightarrow> lines, f'')))"

text \<open>\<open>serde_json\<close> writes a document without line breaks.\<close>

definition one_line_json :: "json_api \<Rightarrow> bool" where
  "one_line_json J \<longleftrightarrow> (\<forall>v t. json_to_string J v = Ok t \<longrightarrow> CHR 0x0A \<notin> set t)"

lemma log_line_no_newline:
  "one_line_json J \<Longrightarrow> log_line U J r = Inr line \<Longrightarrow> CHR 0x0A \<notin> set line"
  by (auto simp: log_line_def one_line_json_def result_simps split: if_splits)

lemma append_all_lines:
  assumes "one_line_json J" "append_all U J rs f = (lines, f')"
  shows "\<exists>more. complete_lines (log_content f') = complete_lines (log_content f) @ more \<and> subseq lines more"
  using assms(2)
proof (induction rs arbitrary: f lines)
  case Nil
  then show ?case by simp
next
  case (Cons r rs)
  obtain answer f1 where first: "append_removal_record U J r f = (answer, f1)" by fastforce
  obtain lines1 where rest: "append_all U J rs f1 = (lines1, f')"
    using Cons.prems first by (auto split: prod.splits)
  obtain more where more: "complete_lines (log_content f') = complete_lines (log_content f1) @ more" "subseq lines1 more"
    using Cons.IH[OF rest] by blast
  show ?case
  proof (cases "log_line U J r")
    case (Inl e)
    then have "lines = lines1" "f1 = f"
      using Cons.prems first rest by (auto simp: append_removal_record_def split: sum.splits)
    then show ?thesis using Cons.IH[OF rest] by simp
  next
    case (Inr line)
    have "appends line f (answer, f1)" using append_record_appends[OF Inr, of f] first by simp
    then obtain p where p: "log_content f1 = log_content f @ p"
      "\<And>x. answer = Inr x \<Longrightarrow> p = log_separator (log_content f) @ line @ [CHR 0x0A]"
      by (auto simp: appends_def)
    show ?thesis
    proof (cases answer)
      case err: (Inl e)
      then have "lines = lines1" using Cons.prems first rest by simp
      moreover obtain ys where "complete_lines (log_content f1) = complete_lines (log_content f) @ ys"
        using complete_lines_grow[of "log_content f" p] p by (auto elim: prefixE)
      ultimately show ?thesis using more by (auto intro: list_emb_append2)
    next
      case ok: (Inr x)
      then have lines: "lines = line # lines1" using Cons.prems first rest Inr by simp
      obtain ys where "complete_lines (log_content f1) = complete_lines (log_content f) @ ys @ [line]"
        using complete_lines_append_line[OF log_line_no_newline[OF assms(1) Inr], of "log_content f"] p ok by auto
      then have "complete_lines (log_content f') = complete_lines (log_content f) @ (ys @ [line] @ more)"
        using more by simp
      moreover have "subseq lines (ys @ [line] @ more)" using lines more(2) by (auto intro: list_emb_append2)
      ultimately show ?thesis by blast
    qed
  qed
qed

text \<open>
  C14.  The log keeps what it acknowledged.  Through any history of appends, with calls failing
  and writes torn anywhere, the complete lines of the file only grow, and every record whose
  append was acknowledged is a complete line of its own, in the order of the appends: a torn
  line is closed before the next record and never swallows it.
\<close>

theorem acknowledged_records_are_lines:
  assumes "one_line_json J" "append_all U J rs f = (lines, f')"
  shows "\<exists>more. complete_lines (log_content f') = complete_lines (log_content f) @ more \<and> subseq lines more"
  using append_all_lines[OF assms] by blast

text \<open>A file that ends in a torn line, and a started removal announced twice.\<close>

definition torn_file :: log_file where
  "torn_file =
     \<lparr>lf_content = Some ''{to'', lf_steps = 0, lf_io = (\<lambda>_. None), lf_written = (\<lambda>_. 0),
      lf_check = (\<lambda>_. None), lf_directory = [RootDir, component.Normal ''d'']\<rparr>"

definition short_json :: json_api where
  "short_json = \<lparr>json_to_string = (\<lambda>v. Ok ''{}''), json_from_str = (\<lambda>t. Ok JNull), json_valid = (\<lambda>t. True)\<rparr>"

definition started_record :: removal_log_record where
  "started_record =
     bare_log \<lparr>rq_target = TargetName (WorkspaceName ''demo''), rq_mode = Force, rq_now = UnixMillis 9\<rparr>
       (OperationId 0) (WorkspaceId 0) Started"

lemma acknowledged_records_are_lines_witness:
  "subseq [''{}'', ''{}'']
     (complete_lines (log_content (snd (append_all plain_uuid short_json [started_record, started_record] torn_file))))"
proof -
  obtain lines f' where run: "append_all plain_uuid short_json [started_record, started_record] torn_file = (lines, f')"
    by fastforce
  have line: "log_line plain_uuid short_json started_record = Ok ''{}''"
    by (simp add: log_line_def log_fields_consistent_def log_event_valid_def started_record_def bare_log_def
        short_json_def)
  have path: "absolute_path_try_from_bytes ''/d/operations.jsonl'' = Ok (AbsolutePath ''/d/operations.jsonl'')"
    by code_simp
  have both: "lines = [''{}'', ''{}'']"
    using run line path
    by (auto simp: append_removal_record_def log_then_def log_check_def log_call_def log_tick_def torn_file_def
        open_or_create_log_def log_read_tail_def log_separator_def log_write_def log_path_def path_join_def
        is_absolute_def path_spelling_def Let_def)
  have json: "one_line_json short_json" by (simp add: one_line_json_def short_json_def)
  have start':  "complete_lines (log_content torn_file) = []"
    by (simp add: complete_lines_def log_content_def torn_file_def)
  obtain more where "complete_lines (log_content f') = complete_lines (log_content torn_file) @ more" "subseq lines more"
    using acknowledged_records_are_lines[OF json run] by blast
  then show ?thesis using both start' run by simp
qed

subsection \<open>The records of \<open>remove\<close>\<close>

fun log_accepted :: "port_event \<Rightarrow> bool" where
  "log_accepted (AppendLog entry r) = log_fields_consistent entry"
| "log_accepted _ = True"

text \<open>A step whose log records are all accepted.\<close>

definition sound_log :: "('p, 'm, 'a) use_case \<Rightarrow> bool" where
  "sound_log m \<longleftrightarrow>
     (\<forall>w. list_all log_accepted (w_trace w) \<longrightarrow> list_all log_accepted (w_trace (snd (m w))))"

named_theorems sound_log_rules \<open>steps whose log records are accepted\<close>

lemma sound_log_basic [sound_log_rules]:
  "sound_log (uc_return x)" "sound_log (uc_fail e)" "sound_log (uc_lift r)" "sound_log (observe g call)"
  "sound_log (run_git git path)" "sound_log (fresh_uuid S)"
  by (auto simp: sound_log_def uc_return_def uc_fail_def uc_lift_def observe_def run_git_def fresh_uuid_def
      note_event_def split: prod.splits)

lemma sound_log_perform [sound_log_rules]:
  "(\<And>r. log_accepted (ev r)) \<Longrightarrow> sound_log (perform ev g call)"
  "(\<And>r. log_accepted (ev' r)) \<Longrightarrow> sound_log (md_perform ev' call')"
  by (auto simp: sound_log_def perform_def md_perform_def note_event_def split: prod.splits)

lemma sound_log_bind [sound_log_rules]:
  assumes m: "sound_log m" and f: "\<And>x. sound_log (f x)"
  shows "sound_log (uc_bind m f)"
  unfolding sound_log_def
proof (intro allI impI)
  fix w :: "('a, 'b) world"
  assume w: "list_all log_accepted (w_trace w)"
  obtain r w' where r: "m w = (r, w')" by fastforce
  then have w': "list_all log_accepted (w_trace w')" using m w by (metis sound_log_def snd_conv)
  then show "list_all log_accepted (w_trace (snd (uc_bind m f w)))"
    using r f by (cases r) (simp_all add: uc_bind_def sound_log_def)
qed

lemma sound_log_or_fail [sound_log_rules]: "sound_log m \<Longrightarrow> sound_log (or_fail g m)"
  unfolding or_fail_def by (intro sound_log_rules)

lemma sound_log_attempt [sound_log_rules]: "sound_log m \<Longrightarrow> sound_log (uc_attempt m)"
  by (auto simp: sound_log_def uc_attempt_def split: prod.splits)

lemma sound_log_cases [sound_log_rules]:
  "\<lbrakk>b \<Longrightarrow> sound_log m; \<not> b \<Longrightarrow> sound_log n\<rbrakk> \<Longrightarrow> sound_log (if b then m else n)"
  "\<lbrakk>sound_log m; \<And>x. sound_log (g x)\<rbrakk> \<Longrightarrow> sound_log (case v of None \<Rightarrow> m | Some x \<Rightarrow> g x)"
  "\<lbrakk>\<And>e. sound_log (h e); \<And>x. sound_log (k x)\<rbrakk> \<Longrightarrow> sound_log (case z of Inl e \<Rightarrow> h e | Inr x \<Rightarrow> k x)"
  "(\<And>x y. sound_log (p x y)) \<Longrightarrow> sound_log (case q of (x, y) \<Rightarrow> p x y)"
  "\<lbrakk>\<And>x. sound_log (s x); \<And>x. sound_log (t x)\<rbrakk> \<Longrightarrow> sound_log (case d of Proceed x \<Rightarrow> s x | Refuse x \<Rightarrow> t x)"
  by (auto split: option.splits prod.splits sum.splits removal_decision.splits)

lemma sound_log_metadata [sound_log_rules]:
  "sound_log (open_existing_store S layout expected)" "sound_log (store_workspaces S)"
  "sound_log (store_workspace S i)" "sound_log (store_tombstone S store i)"
  "sound_log (store_record_failure S store i st e t)" "sound_log (store_begin_removal S store i st mode t)"
  "sound_log (store_complete_deletion S store i iid t)"
  unfolding md_calls by (rule sound_log_rules, simp add: store_event_def)+

lemma sound_log_append [sound_log_rules]:
  "log_fields_consistent entry \<Longrightarrow> sound_log (append_log S lock layout g entry)"
  unfolding append_log_def by (intro sound_log_rules) simp

text \<open>The records the use case writes.\<close>

lemma observed_log_consistent [simp]:
  "log_fields_consistent (observed_log request oper i g pu Started None None None)"
  "log_fields_consistent (observed_log request oper i g pu Refused (Some why) (Some e) None)"
  "log_fields_consistent (observed_log request oper i g pu removal_log_event.Failed None (Some e) None)"
  "log_fields_consistent (observed_log request oper i g pu Completed None None (Some out))"
  by (auto simp: log_fields_consistent_def log_event_valid_def observed_log_def split: option.splits)

lemma bare_log_consistent [simp]:
  "log_fields_consistent (bare_log request oper i Started)"
  "log_fields_consistent ((bare_log request oper i Completed)\<lparr>log_outcome := Some out\<rparr>)"
  "log_fields_consistent ((bare_log request oper i removal_log_event.Failed)\<lparr>log_error_code := Some e\<rparr>)"
  by (simp_all add: log_fields_consistent_def log_event_valid_def bare_log_def)

lemma sound_log_remove_container [sound_log_rules]: "sound_log (remove_container S lock layout v)"
  unfolding remove_container_def Let_def by (intro sound_log_rules) simp_all

lemma sound_log_destroy:
  "sound_log (destroy S request lock layout identity store active oper
      (observed_log request oper i g pu) warning)"
  unfolding destroy_def Let_def by (intro sound_log_rules) simp_all

lemma sound_log_decision:
  "sound_log (decide_and_destroy S request lock layout identity store active oper inspection pu)"
  unfolding decide_and_destroy_def Let_def by (intro sound_log_rules sound_log_destroy) simp_all

lemma sound_log_active:
  "sound_log (remove_active S request git process lock layout identity store active)"
  unfolding remove_active_def removal_preflight_def find_container_def removal_inspection_def
    validate_target_def fail_preflight_def Let_def
  by (intro sound_log_rules sound_log_decision) simp_all

lemma sound_log_select: "sound_log (select_active S store target)"
  unfolding select_active_def find_named_def find_identified_def read_tombstone_def
  by (cases target) (auto intro!: sound_log_rules)

lemma sound_log_again: "sound_log (remove_again S request lock layout identity store)"
  unfolding remove_again_def read_tombstone_def Let_def
  by (cases "rq_target request") (auto intro!: sound_log_rules)

lemma sound_log_remove: "sound_log (app_remove S request git process)"
  unfolding app_remove_def require_config_def read_config_step_def open_locked_store_def lock_data_root_def
    require_ready_marker_def Let_def
  by (intro sound_log_rules sound_log_select sound_log_again sound_log_active) simp_all

text \<open>
  C15.  The adapter never refuses a record of \<open>remove\<close> as inconsistent.  Whatever the adapters
  answer, every record the use case appends to the removal log has the fields its event needs and
  no others, and claims a complete Git check only with a known Git state, which is what the
  adapter demands before it writes.
\<close>

theorem removal_log_accepted:
  "list_all log_accepted (w_trace (snd (app_remove S request git process (start p c))))"
  using sound_log_remove[of S request git process] by (simp add: sound_log_def start_def)

end
