(* ===== verification/Linux_Document.thy ===== *)
theory Linux_Document
  imports Rust_Text Create_Guards Receipt_Json
begin

text \<open>
  The control documents of the Linux adapter: \<open>thinws-adapter-linux/src/document.rs\<close>.  The
  configuration and the root marker name the installation; the ownership document says which
  directories a Workspace made, by inode and time of birth, before any of them may be destroyed.

  The \<open>toml\<close> crate with the \<open>serde\<close> forms of the three documents is a parameter: a \<open>toml_form\<close>
  writes and reads the fields of one kind of document.  A \<open>u32\<close> is a 32-bit word; an \<open>i64\<close> is an
  \<open>int\<close>, since the code only compares it with zero.
\<close>

subsection \<open>Documents\<close>

definition MAX_DOCUMENT_BYTES :: nat where
  "MAX_DOCUMENT_BYTES = 64 * 1024"

definition DOCUMENT_SCHEMA_VERSION :: "32 word" where
  "DOCUMENT_SCHEMA_VERSION = 2"

definition LINUX_OWNERSHIP_SCHEMA_VERSION :: "32 word" where
  "LINUX_OWNERSHIP_SCHEMA_VERSION = 3"

datatype document_error =
  TooLarge | InvalidEncoding | InvalidToml | UnsupportedVersion | InvalidPathHex | InvalidIdentity

record config_document =
  cd_schema_version :: "32 word"
  cd_instance_id :: string
  cd_control_root_hex :: string
  cd_control_volume_id :: string

datatype marker_state = Initializing | Ready

record marker_document =
  md_schema_version :: "32 word"
  md_instance_id :: string
  md_control_root_hex :: string
  md_control_volume_id :: string
  md_state :: marker_state

record ownership_document =
  od_schema_version :: "32 word"
  od_instance_id :: string
  od_workspace_id :: string
  od_volume_id :: string
  od_mount_id :: u64
  od_target_path_hex :: string
  od_target_parent_inode :: u64
  od_target_parent_birth_seconds :: int
  od_target_parent_birth_nanoseconds :: "32 word"
  od_target_inode :: u64
  od_target_birth_seconds :: int
  od_target_birth_nanoseconds :: "32 word"
  od_staging_path_hex :: string
  od_staging_inode :: u64
  od_staging_birth_seconds :: int
  od_staging_birth_nanoseconds :: "32 word"
  od_trash_path_hex :: string
  od_trash_inode :: u64
  od_trash_birth_seconds :: int
  od_trash_birth_nanoseconds :: "32 word"
  od_isolated_path_hex :: "string option"

record historical_directory_identity =
  hd_inode :: u64
  hd_birth_seconds :: int
  hd_birth_nanoseconds :: "32 word"

record operation_directory_ownership =
  oo_path :: absolute_path
  oo_identity :: historical_directory_identity

record workspace_ownership =
  wo_instance_id :: instance_id
  wo_workspace_id :: workspace_id
  wo_volume_id :: volume_id
  wo_mount_id :: u64
  wo_target_path :: absolute_path
  wo_parent :: historical_directory_identity
  wo_target :: historical_directory_identity
  wo_staging :: operation_directory_ownership
  wo_trash :: operation_directory_ownership
  wo_isolated_path :: "absolute_path option"

subsection \<open>TOML\<close>

record 'd toml_form =
  toml_to_string :: "'d \<Rightarrow> bytes option"
  toml_from_str :: "bytes \<Rightarrow> 'd option"

definition decode_toml :: "'d toml_form \<Rightarrow> bytes \<Rightarrow> document_error + 'd" where
  "decode_toml T bs =
     (if MAX_DOCUMENT_BYTES < length bs then Err TooLarge
      else if \<not> utf8_valid bs then Err InvalidEncoding
      else ok_or (toml_from_str T bs) InvalidToml)"

definition encode_toml :: "'d toml_form \<Rightarrow> 'd \<Rightarrow> document_error + bytes" where
  "encode_toml T d =
     and_then (ok_or (toml_to_string T d) InvalidToml) (\<lambda>bs.
       if MAX_DOCUMENT_BYTES < length bs then Err TooLarge else Ok bs)"

text \<open>What \<open>toml\<close> writes is a string, and reads back as the same fields.\<close>

definition toml_faithful :: "'d toml_form \<Rightarrow> bool" where
  "toml_faithful T \<longleftrightarrow>
     (\<forall>d bs. toml_to_string T d = Some bs \<longrightarrow> utf8_valid bs \<and> toml_from_str T bs = Some d)"

subsection \<open>Hexadecimal paths\<close>

definition hex_nibble :: "char \<Rightarrow> nat" where
  "hex_nibble c = (if CHR ''0'' \<le> c \<and> c \<le> CHR ''9'' then of_char c - of_char CHR ''0''
     else of_char c - of_char CHR ''a'' + 10)"

fun hex_pairs :: "string \<Rightarrow> bytes" where
  "hex_pairs (c # d # cs) = char_of (hex_nibble c * 16 + hex_nibble d) # hex_pairs cs"
| "hex_pairs _ = []"

definition decode_hex :: "string \<Rightarrow> document_error + bytes" where
  "decode_hex s =
     (if length s mod 2 \<noteq> 0
        \<or> list_ex (\<lambda>b. \<not> (CHR ''0'' \<le> b \<and> b \<le> CHR ''9'') \<and> \<not> (CHR ''a'' \<le> b \<and> b \<le> CHR ''f'')) s
      then Err InvalidPathHex else Ok (hex_pairs s))"

definition encode_hex :: "bytes \<Rightarrow> string" where
  "encode_hex bs =
     concat (map (\<lambda>b. [hex_digits ! (of_char b div 16), hex_digits ! (of_char b mod 16)]) bs)"

definition decode_path :: "string \<Rightarrow> document_error + absolute_path" where
  "decode_path h =
     and_then (decode_hex h) (\<lambda>bs. map_err (\<lambda>_. InvalidIdentity) (absolute_path_try_from_bytes bs))"

definition parent_path_bytes :: "absolute_path \<Rightarrow> bytes option" where
  "parent_path_bytes p =
     (let bs = path_bytes p in
      if bs = ''/'' then None
      else case rposition (\<lambda>b. b = CHR ''/'') bs of
        None \<Rightarrow> None
      | Some slash \<Rightarrow> Some (if slash = 0 then ''/'' else take slash bs))"

definition sibling_path_bytes :: "bytes \<Rightarrow> string \<Rightarrow> bytes" where
  "sibling_path_bytes parent leaf = (if parent \<noteq> ''/'' then parent @ ''/'' else parent) @ leaf"

subsection \<open>The installation\<close>

definition require_schema_version :: "32 word \<Rightarrow> document_error + unit" where
  "require_schema_version v = (if v = DOCUMENT_SCHEMA_VERSION then Ok () else Err UnsupportedVersion)"

definition decode_identity ::
  "uuid_api \<Rightarrow> string \<Rightarrow> string \<Rightarrow> string \<Rightarrow> document_error + installation_identity" where
  "decode_identity U instance_text root_hex volume_text =
     and_then (map_err (\<lambda>_. InvalidIdentity) (instance_id_from_str U instance_text)) (\<lambda>i.
     and_then (decode_hex root_hex) (\<lambda>bs.
     and_then (map_err (\<lambda>_. InvalidIdentity) (absolute_path_try_from_bytes bs)) (\<lambda>root.
     and_then (map_err (\<lambda>_. InvalidIdentity) (volume_id_from_str U volume_text)) (\<lambda>v.
       Ok \<lparr>ii_instance_id = i, ii_data_root = root, ii_volume_id = v\<rparr>))))"

definition identity_of_config ::
  "uuid_api \<Rightarrow> config_document \<Rightarrow> document_error + installation_identity" where
  "identity_of_config U d =
     and_then (require_schema_version (cd_schema_version d)) (\<lambda>_.
       decode_identity U (cd_instance_id d) (cd_control_root_hex d) (cd_control_volume_id d))"

definition decode_config ::
  "config_document toml_form \<Rightarrow> uuid_api \<Rightarrow> bytes \<Rightarrow> document_error + installation_identity" where
  "decode_config T U bs = and_then (decode_toml T bs) (identity_of_config U)"

fun root_marker_state_of :: "marker_state \<Rightarrow> root_marker_state" where
  "root_marker_state_of Initializing = root_marker_state.Initializing"
| "root_marker_state_of Ready = root_marker_state.Ready"

definition marker_of_document :: "uuid_api \<Rightarrow> marker_document \<Rightarrow> document_error + root_marker" where
  "marker_of_document U d =
     and_then (require_schema_version (md_schema_version d)) (\<lambda>_.
     and_then (decode_identity U (md_instance_id d) (md_control_root_hex d) (md_control_volume_id d)) (\<lambda>i.
       Ok \<lparr>rm_identity = i, rm_state = root_marker_state_of (md_state d)\<rparr>))"

definition decode_marker ::
  "marker_document toml_form \<Rightarrow> uuid_api \<Rightarrow> bytes \<Rightarrow> document_error + root_marker" where
  "decode_marker T U bs = and_then (decode_toml T bs) (marker_of_document U)"

definition config_document_of :: "uuid_api \<Rightarrow> installation_identity \<Rightarrow> config_document" where
  "config_document_of U i =
     \<lparr>cd_schema_version = DOCUMENT_SCHEMA_VERSION,
      cd_instance_id = instance_id_to_string U (ii_instance_id i),
      cd_control_root_hex = encode_hex (path_bytes (ii_data_root i)),
      cd_control_volume_id = volume_id_to_string U (ii_volume_id i)\<rparr>"

definition encode_config ::
  "config_document toml_form \<Rightarrow> uuid_api \<Rightarrow> installation_identity \<Rightarrow> document_error + bytes" where
  "encode_config T U i = encode_toml T (config_document_of U i)"

fun marker_state_of :: "root_marker_state \<Rightarrow> marker_state" where
  "marker_state_of root_marker_state.Initializing = Initializing"
| "marker_state_of root_marker_state.Ready = Ready"

definition marker_document_of :: "uuid_api \<Rightarrow> root_marker \<Rightarrow> marker_document" where
  "marker_document_of U m =
     \<lparr>md_schema_version = DOCUMENT_SCHEMA_VERSION,
      md_instance_id = instance_id_to_string U (ii_instance_id (rm_identity m)),
      md_control_root_hex = encode_hex (path_bytes (ii_data_root (rm_identity m))),
      md_control_volume_id = volume_id_to_string U (ii_volume_id (rm_identity m)),
      md_state = marker_state_of (rm_state m)\<rparr>"

definition encode_marker ::
  "marker_document toml_form \<Rightarrow> uuid_api \<Rightarrow> root_marker \<Rightarrow> document_error + bytes" where
  "encode_marker T U m = encode_toml T (marker_document_of U m)"

subsection \<open>The ownership of a Workspace\<close>

definition ownership_document_of :: "uuid_api \<Rightarrow> workspace_ownership \<Rightarrow> ownership_document" where
  "ownership_document_of U w =
     \<lparr>od_schema_version = LINUX_OWNERSHIP_SCHEMA_VERSION,
      od_instance_id = instance_id_to_string U (wo_instance_id w),
      od_workspace_id = workspace_id_to_string U (wo_workspace_id w),
      od_volume_id = volume_id_to_string U (wo_volume_id w),
      od_mount_id = wo_mount_id w,
      od_target_path_hex = encode_hex (path_bytes (wo_target_path w)),
      od_target_parent_inode = hd_inode (wo_parent w),
      od_target_parent_birth_seconds = hd_birth_seconds (wo_parent w),
      od_target_parent_birth_nanoseconds = hd_birth_nanoseconds (wo_parent w),
      od_target_inode = hd_inode (wo_target w),
      od_target_birth_seconds = hd_birth_seconds (wo_target w),
      od_target_birth_nanoseconds = hd_birth_nanoseconds (wo_target w),
      od_staging_path_hex = encode_hex (path_bytes (oo_path (wo_staging w))),
      od_staging_inode = hd_inode (oo_identity (wo_staging w)),
      od_staging_birth_seconds = hd_birth_seconds (oo_identity (wo_staging w)),
      od_staging_birth_nanoseconds = hd_birth_nanoseconds (oo_identity (wo_staging w)),
      od_trash_path_hex = encode_hex (path_bytes (oo_path (wo_trash w))),
      od_trash_inode = hd_inode (oo_identity (wo_trash w)),
      od_trash_birth_seconds = hd_birth_seconds (oo_identity (wo_trash w)),
      od_trash_birth_nanoseconds = hd_birth_nanoseconds (oo_identity (wo_trash w)),
      od_isolated_path_hex = map_option (\<lambda>p. encode_hex (path_bytes p)) (wo_isolated_path w)\<rparr>"

definition encode_workspace_ownership ::
  "ownership_document toml_form \<Rightarrow> uuid_api \<Rightarrow> workspace_ownership \<Rightarrow> document_error + bytes" where
  "encode_workspace_ownership T U w = encode_toml T (ownership_document_of U w)"

definition historical :: "u64 \<times> int \<times> 32 word \<Rightarrow> historical_directory_identity" where
  "historical = (\<lambda>(inode, seconds, nanos).
     \<lparr>hd_inode = inode, hd_birth_seconds = seconds, hd_birth_nanoseconds = nanos\<rparr>)"

definition implausible_identity :: "u64 \<times> int \<times> 32 word \<Rightarrow> bool" where
  "implausible_identity = (\<lambda>(inode, seconds, nanos).
     inode = 0 \<or> seconds < 0 \<or> 1000000000 \<le> nanos)"

definition document_identities :: "ownership_document \<Rightarrow> (u64 \<times> int \<times> 32 word) list" where
  "document_identities d =
     [(od_target_parent_inode d, od_target_parent_birth_seconds d, od_target_parent_birth_nanoseconds d),
      (od_target_inode d, od_target_birth_seconds d, od_target_birth_nanoseconds d),
      (od_staging_inode d, od_staging_birth_seconds d, od_staging_birth_nanoseconds d),
      (od_trash_inode d, od_trash_birth_seconds d, od_trash_birth_nanoseconds d)]"

definition decode_optional_path :: "string option \<Rightarrow> document_error + absolute_path option" where
  "decode_optional_path h =
     (case h of None \<Rightarrow> Ok None | Some s \<Rightarrow> and_then (decode_path s) (\<lambda>p. Ok (Some p)))"

definition ownership_of_document ::
  "uuid_api \<Rightarrow> ownership_document \<Rightarrow> document_error + workspace_ownership" where
  "ownership_of_document U d =
     (if od_schema_version d \<noteq> LINUX_OWNERSHIP_SCHEMA_VERSION then Err UnsupportedVersion
      else if od_mount_id d = 0 \<or> list_ex implausible_identity (document_identities d)
      then Err InvalidIdentity
      else
        and_then (map_err (\<lambda>_. InvalidIdentity) (workspace_id_from_str U (od_workspace_id d))) (\<lambda>wid.
        and_then (decode_path (od_target_path_hex d)) (\<lambda>target.
        and_then (ok_or (parent_path_bytes target) InvalidIdentity) (\<lambda>parent.
        and_then (decode_path (od_staging_path_hex d)) (\<lambda>staging.
        and_then (decode_path (od_trash_path_hex d)) (\<lambda>trash.
          if path_bytes staging
               \<noteq> sibling_path_bytes parent (''.thinws-staging-'' @ workspace_id_to_string U wid)
             \<or> path_bytes trash
               \<noteq> sibling_path_bytes parent (''.thinws-trash-'' @ workspace_id_to_string U wid)
          then Err InvalidIdentity
          else
            and_then (decode_optional_path (od_isolated_path_hex d)) (\<lambda>isolated.
              if (case isolated of None \<Rightarrow> False
                  | Some p \<Rightarrow> path_bytes p
                      \<noteq> sibling_path_bytes parent (''.thinws-remove-'' @ workspace_id_to_string U wid))
              then Err InvalidIdentity
              else
                and_then (map_err (\<lambda>_. InvalidIdentity) (instance_id_from_str U (od_instance_id d))) (\<lambda>i.
                and_then (map_err (\<lambda>_. InvalidIdentity) (volume_id_from_str U (od_volume_id d))) (\<lambda>v.
                  Ok \<lparr>wo_instance_id = i, wo_workspace_id = wid, wo_volume_id = v,
                      wo_mount_id = od_mount_id d, wo_target_path = target,
                      wo_parent = historical (document_identities d ! 0),
                      wo_target = historical (document_identities d ! 1),
                      wo_staging = \<lparr>oo_path = staging, oo_identity = historical (document_identities d ! 2)\<rparr>,
                      wo_trash = \<lparr>oo_path = trash, oo_identity = historical (document_identities d ! 3)\<rparr>,
                      wo_isolated_path = isolated\<rparr>)))))))))"

definition decode_workspace_ownership ::
  "ownership_document toml_form \<Rightarrow> uuid_api \<Rightarrow> bytes \<Rightarrow> document_error + workspace_ownership" where
  "decode_workspace_ownership T U bs = and_then (decode_toml T bs) (ownership_of_document U)"

subsection \<open>Hexadecimal is canonical\<close>

lemma hex_char_facts:
  assumes "CHR ''0'' \<le> c \<and> c \<le> CHR ''9'' \<or> CHR ''a'' \<le> c \<and> c \<le> CHR ''f''"
  shows "hex_nibble c < 16 \<and> hex_digits ! hex_nibble c = c"
proof -
  have "list_all (\<lambda>n. hex_nibble (char_of n) < 16 \<and> hex_digits ! hex_nibble (char_of n) = char_of n)
      ([48..<58] @ [97..<103 :: nat])"
    by code_simp
  moreover have "(of_char c :: nat) \<in> set ([48..<58] @ [97..<103])"
    using assms by (auto simp: less_eq_char_def simp del: upt_conv_Cons upt_rec_numeral)
  ultimately show ?thesis unfolding list_all_iff by (metis char_of_char)
qed

lemma hex_digit_read:
  assumes "n < 16"
  shows "hex_nibble (hex_digits ! n) = n"
    "CHR ''0'' \<le> hex_digits ! n \<and> hex_digits ! n \<le> CHR ''9''
      \<or> CHR ''a'' \<le> hex_digits ! n \<and> hex_digits ! n \<le> CHR ''f''"
proof -
  have "list_all (\<lambda>n. hex_nibble (hex_digits ! n) = n
      \<and> (CHR ''0'' \<le> hex_digits ! n \<and> hex_digits ! n \<le> CHR ''9''
        \<or> CHR ''a'' \<le> hex_digits ! n \<and> hex_digits ! n \<le> CHR ''f'')) [0..<16]"
    by code_simp
  then show "hex_nibble (hex_digits ! n) = n"
    "CHR ''0'' \<le> hex_digits ! n \<and> hex_digits ! n \<le> CHR ''9''
      \<or> CHR ''a'' \<le> hex_digits ! n \<and> hex_digits ! n \<le> CHR ''f''"
    using assms by (auto simp: list_all_iff)
qed

lemma encode_hex_simps [simp]:
  "encode_hex [] = []"
  "encode_hex (b # bs) = hex_digits ! (of_char b div 16) # hex_digits ! (of_char b mod 16) # encode_hex bs"
  by (simp_all add: encode_hex_def)

lemma decode_encode_hex: "decode_hex (encode_hex bs) = Inr bs"
proof -
  have "length (encode_hex bs) mod 2 = 0" by (induction bs) auto
  moreover have "\<not> list_ex (\<lambda>b. \<not> (CHR ''0'' \<le> b \<and> b \<le> CHR ''9'') \<and> \<not> (CHR ''a'' \<le> b \<and> b \<le> CHR ''f'')) (encode_hex bs)"
    using hex_digit_read(2) nibbles by (induction bs) auto
  moreover have "hex_pairs (encode_hex bs) = bs"
    by (induction bs) (simp_all add: hex_digit_read(1) nibbles)
  ultimately show ?thesis by (simp add: decode_hex_def)
qed

lemma encode_hex_pairs:
  assumes "even (length s)"
    "list_all (\<lambda>c. CHR ''0'' \<le> c \<and> c \<le> CHR ''9'' \<or> CHR ''a'' \<le> c \<and> c \<le> CHR ''f'') s"
  shows "encode_hex (hex_pairs s) = s"
  using assms
proof (induction s rule: hex_pairs.induct)
  case (1 c d cs)
  have "hex_nibble c < 16 \<and> hex_digits ! hex_nibble c = c" "hex_nibble d < 16 \<and> hex_digits ! hex_nibble d = d"
    using 1(3) by (simp_all only: list.pred_inject hex_char_facts)
  moreover from this have "hex_nibble c * 16 + hex_nibble d < 256" by linarith
  ultimately show ?case using 1 by simp
qed auto

interpretation hex_codec: text_codec encode_hex decode_hex "\<lambda>_. True"
proof unfold_locales
  fix s bs assume "decode_hex s = Inr bs"
  then show "encode_hex bs = s \<and> True"
    using encode_hex_pairs[of s] by (auto simp: decode_hex_def list_ex_iff list_all_iff even_iff_mod_2_eq_zero split: if_splits)
qed (simp add: decode_encode_hex)

interpretation path_hex_codec: text_codec "\<lambda>p. encode_hex (path_bytes p)" decode_path valid_path
  by unfold_locales
    (auto simp: decode_path_def result_simps hex_codec.decode_eq_Ok path_codec.decode_eq_Ok)

subsection \<open>Documents as codecs\<close>

definition plausible :: "historical_directory_identity \<Rightarrow> bool" where
  "plausible h \<longleftrightarrow> hd_inode h \<noteq> 0 \<and> 0 \<le> hd_birth_seconds h \<and> hd_birth_nanoseconds h < 1000000000"

definition beside :: "workspace_id \<Rightarrow> uuid_api \<Rightarrow> absolute_path \<Rightarrow> string \<Rightarrow> absolute_path \<Rightarrow> bool" where
  "beside wid U target p q =
     (case parent_path_bytes target of
        None \<Rightarrow> False
      | Some parent \<Rightarrow> path_bytes q = sibling_path_bytes parent (p @ workspace_id_to_string U wid))"

definition valid_ownership :: "uuid_api \<Rightarrow> workspace_ownership \<Rightarrow> bool" where
  "valid_ownership U w \<longleftrightarrow>
     wo_mount_id w \<noteq> 0
     \<and> list_all plausible [wo_parent w, wo_target w, oo_identity (wo_staging w), oo_identity (wo_trash w)]
     \<and> valid_workspace_id U (wo_workspace_id w) \<and> valid_instance_id U (wo_instance_id w)
     \<and> list_all valid_path [wo_target_path w, oo_path (wo_staging w), oo_path (wo_trash w)]
     \<and> beside (wo_workspace_id w) U (wo_target_path w) ''.thinws-staging-'' (oo_path (wo_staging w))
     \<and> beside (wo_workspace_id w) U (wo_target_path w) ''.thinws-trash-'' (oo_path (wo_trash w))
     \<and> pred_option (\<lambda>p. valid_path p \<and> beside (wo_workspace_id w) U (wo_target_path w) ''.thinws-remove-'' p)
          (wo_isolated_path w)"

lemma decode_optional_path_eq_Ok [result_simps]:
  "decode_optional_path h = Inr p \<longleftrightarrow>
     pred_option valid_path p \<and> h = map_option (\<lambda>p. encode_hex (path_bytes p)) p"
  by (cases h; cases p) (auto simp: decode_optional_path_def result_simps path_hex_codec.decode_eq_Ok)

lemma not_implausible:
  "implausible_identity (i, s, n) \<longleftrightarrow> \<not> plausible \<lparr>hd_inode = i, hd_birth_seconds = s, hd_birth_nanoseconds = n\<rparr>"
  by (auto simp: implausible_identity_def plausible_def not_le not_less)

lemma directory_identity_eta [simp]:
  "\<lparr>hd_inode = hd_inode h, hd_birth_seconds = hd_birth_seconds h, hd_birth_nanoseconds = hd_birth_nanoseconds h\<rparr> = h"
  by simp

lemma ownership_document_codec:
  assumes U: "uuid_roundtrip U"
  shows "text_codec (ownership_document_of U) (ownership_of_document U) (valid_ownership U)"
proof unfold_locales
  fix w assume w: "valid_ownership U w"
  note codecs = workspace_id_codec[OF U, THEN text_codec.decode_encode]
    instance_id_codec[OF U, THEN text_codec.decode_encode]
    volume_id_codec[OF U, THEN text_codec.decode_encode] path_hex_codec.decode_encode
  obtain parent where parent: "parent_path_bytes (wo_target_path w) = Some parent"
    using w by (auto simp: valid_ownership_def beside_def split: option.splits)
  define leaf where "leaf p = sibling_path_bytes parent (p @ workspace_id_to_string U (wo_workspace_id w))" for p
  have beside: "beside (wo_workspace_id w) U (wo_target_path w) p q \<longleftrightarrow> path_bytes q = leaf p" for p q
    by (simp add: beside_def parent leaf_def)
  have read: "decode_path (encode_hex (leaf p)) = Inr q"
    if "beside (wo_workspace_id w) U (wo_target_path w) p q" "valid_path q" for p q
    using that beside path_hex_codec.decode_encode[of q] by simp
  have "decode_path (encode_hex (leaf ''.thinws-staging-'')) = Inr (oo_path (wo_staging w))"
    "decode_path (encode_hex (leaf ''.thinws-trash-'')) = Inr (oo_path (wo_trash w))"
    "wo_isolated_path w = Some p \<Longrightarrow> decode_path (encode_hex (leaf ''.thinws-remove-'')) = Inr p" for p
    using w by (intro read; simp add: valid_ownership_def)+
  then show "ownership_of_document U (ownership_document_of U w) = Inr w"
    using w unfolding valid_ownership_def beside
    by (cases "wo_isolated_path w")
      (simp_all add: ownership_of_document_def historical_def ownership_document_of_def codecs not_implausible
        document_identities_def decode_optional_path_def parent leaf_def[symmetric] del: append.simps)
next
  fix d w assume d: "ownership_of_document U d = Inr w"
  note codecs = workspace_id_codec[OF U, THEN text_codec.decode_eq_Ok]
    instance_id_codec[OF U, THEN text_codec.decode_eq_Ok]
    volume_id_codec[OF U, THEN text_codec.decode_eq_Ok] path_hex_codec.decode_eq_Ok
  show "ownership_document_of U w = d \<and> valid_ownership U w"
    using d unfolding ownership_of_document_def result_simps codecs
    by (elim exE conjE)
      (auto simp: valid_ownership_def beside_def historical_def option.pred_set ownership_document_of_def
        result_simps codecs not_implausible document_identities_def split: option.splits)
qed

definition valid_identity :: "uuid_api \<Rightarrow> installation_identity \<Rightarrow> bool" where
  "valid_identity U i \<longleftrightarrow> valid_instance_id U (ii_instance_id i) \<and> valid_path (ii_data_root i)"

lemma decode_identity_eq_Ok:
  assumes U: "uuid_roundtrip U"
  shows "decode_identity U a h v = Inr i \<longleftrightarrow>
    valid_identity U i \<and> a = instance_id_to_string U (ii_instance_id i)
    \<and> h = encode_hex (path_bytes (ii_data_root i)) \<and> v = volume_id_to_string U (ii_volume_id i)"
  by (cases i)
    (auto simp: decode_identity_def valid_identity_def result_simps hex_codec.decode_eq_Ok
      instance_id_codec[OF U, THEN text_codec.decode_eq_Ok] path_codec.decode_eq_Ok
      volume_id_codec[OF U, THEN text_codec.decode_eq_Ok])

lemma config_document_codec:
  "uuid_roundtrip U \<Longrightarrow> text_codec (config_document_of U) (identity_of_config U) (valid_identity U)"
  by unfold_locales
    (auto simp: identity_of_config_def config_document_of_def require_schema_version_def result_simps
      decode_identity_eq_Ok)

lemma marker_states [simp]:
  "root_marker_state_of (marker_state_of s) = s" "marker_state_of (root_marker_state_of t) = t"
  by (cases s; simp) (cases t; simp)

lemma marker_document_codec:
  "uuid_roundtrip U \<Longrightarrow>
   text_codec (marker_document_of U) (marker_of_document U) (\<lambda>m. valid_identity U (rm_identity m))"
  by unfold_locales
    (auto simp: marker_of_document_def marker_document_of_def require_schema_version_def result_simps
      decode_identity_eq_Ok)

text \<open>A codec of documents, and \<open>toml\<close>, give a codec of bytes.\<close>

lemma encoded_document_decodes:
  assumes "toml_faithful T" "text_codec enc dec valid" "valid x" "encode_toml T (enc x) = Inr bs"
  shows "length bs \<le> MAX_DOCUMENT_BYTES \<and> and_then (decode_toml T bs) dec = Inr x"
  using assms text_codec.decode_encode[OF assms(2,3)]
  by (auto simp: encode_toml_def decode_toml_def toml_faithful_def result_simps)

subsection \<open>What a document of ownership may name\<close>

lemma parent_of_components:
  assumes "\<forall>c \<in> set (cs @ [c]). normal_component c"
  shows "parent_path_bytes (AbsolutePath (path_of_components (cs @ [c]))) = Some (path_of_components cs)"
proof -
  have c: "\<not> list_ex (\<lambda>b. b = CHR ''/'') c" using assms by (auto simp: normal_component_def list_ex_iff)
  have root: "path_of_components (cs @ [c]) \<noteq> ''/''" using path_of_components_root[OF assms] by simp
  show ?thesis
  proof (cases "cs = []")
    case True
    then have "rposition (\<lambda>b. b = CHR ''/'') (path_of_components (cs @ [c])) = Some 0"
      using rposition_append[OF c, of "CHR ''/''" "[]"] by (simp add: path_of_components_def)
    then show ?thesis using True root by (simp add: parent_path_bytes_def Let_def path_of_components_def)
  next
    case False
    then have "rposition (\<lambda>b. b = CHR ''/'') (path_of_components (cs @ [c])) = Some (length (path_of_components cs))"
      using rposition_append[OF c, of "CHR ''/''" "path_of_components cs"] by (simp add: path_of_snoc)
    moreover have "path_of_components cs \<noteq> []" using path_of_components_hd by blast
    ultimately show ?thesis using False root by (simp add: parent_path_bytes_def Let_def path_of_snoc)
  qed
qed

lemma sibling_of_components:
  assumes "\<forall>c \<in> set cs. normal_component c"
  shows "sibling_path_bytes (path_of_components cs) leaf = path_of_components (cs @ [leaf])"
  using path_of_components_root[OF assms] by (auto simp: sibling_path_bytes_def path_of_snoc path_of_components_def)

lemma parent_only_below_root: "parent_path_bytes p = Some q \<Longrightarrow> path_bytes p \<noteq> ''/''"
  by (auto simp: parent_path_bytes_def Let_def split: if_splits)

lemma owned_paths_protected:
  assumes U: "uuid_text_format U" and w: "valid_ownership U w"
    and r: "rec_id r = wo_workspace_id w" "res_target_path (rec_reservation r) = wo_target_path w"
  shows "\<exists>removal. active_workspace_protected_paths U r
      = Ok [wo_target_path w, oo_path (wo_staging w), oo_path (wo_trash w), removal]
    \<and> pred_option (\<lambda>p. p = removal) (wo_isolated_path w)"
proof -
  let ?p = "wo_target_path w"
  obtain parent where parent: "parent_path_bytes ?p = Some parent"
    using w by (auto simp: valid_ownership_def beside_def split: option.splits)
  define ds where "ds = path_components ?p"
  have spelled: "path_bytes ?p = path_of_components ds" "\<forall>d \<in> set ds. normal_component d"
    using w valid_path_spelling[of ?p] by (simp_all add: valid_ownership_def ds_def)
  moreover have "ds \<noteq> []" using parent_only_below_root[OF parent] spelled by (auto simp: path_of_components_def)
  then obtain cs c where ds: "ds = cs @ [c]" by (cases ds rule: rev_cases) auto
  ultimately have norm: "\<forall>d \<in> set (cs @ [c]). normal_component d" and target: "?p = AbsolutePath (path_of_components (cs @ [c]))"
    by (simp_all add: absolute_path.expand)
  have at: "path_bytes q = sibling_path_bytes parent n \<Longrightarrow> q = AbsolutePath (path_of_components (cs @ [n]))" for q n
    using parent_of_components[OF norm] parent norm target sibling_of_components[of cs n] by (cases q) simp
  have named: "beside (wo_workspace_id w) U ?p n q \<Longrightarrow>
      AbsolutePath (path_of_components (cs @ [n @ workspace_id_to_string U (rec_id r)])) = q" for n q
    using at[of q "n @ workspace_id_to_string U (wo_workspace_id w)"] parent r by (simp add: beside_def)
  have "active_workspace_protected_paths U r
      = Ok [?p, oo_path (wo_staging w), oo_path (wo_trash w),
          AbsolutePath (path_of_components (cs @ [''.thinws-remove-'' @ workspace_id_to_string U (rec_id r)]))]"
    using protected_paths_components[OF U norm, of r] w r(2) target
      named[of "''.thinws-staging-''" "oo_path (wo_staging w)"] named[of "''.thinws-trash-''" "oo_path (wo_trash w)"]
    by (simp add: valid_ownership_def del: append.simps)
  moreover have "pred_option (\<lambda>p. p = AbsolutePath
      (path_of_components (cs @ [''.thinws-remove-'' @ workspace_id_to_string U (rec_id r)]))) (wo_isolated_path w)"
    using w named by (auto simp: valid_ownership_def option.pred_set simp del: append.simps)
  ultimately show ?thesis by blast
qed

subsection \<open>The properties of the documents\<close>

text \<open>
  C13.  An ownership document that is accepted names plausible directories (no inode 0, no birth
  before the epoch, nanoseconds below a second, a mount), and its staging, trash and removal
  paths are, name by name, the paths beside the target that \<open>create\<close> keeps every other Workspace
  clear of: nothing a document can say makes the adapter touch a directory outside them.
\<close>

theorem accepted_ownership_is_protected:
  assumes "uuid_roundtrip U" "uuid_text_format U" "decode_workspace_ownership T U bs = Inr w"
    "rec_id r = wo_workspace_id w" "res_target_path (rec_reservation r) = wo_target_path w"
  shows "valid_ownership U w
    \<and> (\<exists>removal. active_workspace_protected_paths U r
          = Ok [wo_target_path w, oo_path (wo_staging w), oo_path (wo_trash w), removal]
        \<and> pred_option (\<lambda>p. p = removal) (wo_isolated_path w))"
proof -
  have "valid_ownership U w"
    using assms(3) text_codec.decode_sound[OF ownership_document_codec[OF assms(1)]]
    by (auto simp: decode_workspace_ownership_def result_simps)
  then show ?thesis using owned_paths_protected[OF assms(2) _ assms(4,5)] by blast
qed

text \<open>
  C40.  Control documents round trip.  A document that the adapter wrote of a valid installation,
  root marker or ownership fits the size limit of the reader, and reads back as what was written.
\<close>

theorem control_documents_roundtrip:
  assumes "uuid_roundtrip U" "toml_faithful C" "toml_faithful M" "toml_faithful T"
    "valid_identity U i" "valid_ownership U w"
    "encode_config C U i = Inr config" "encode_marker M U \<lparr>rm_identity = i, rm_state = s\<rparr> = Inr marker"
    "encode_workspace_ownership T U w = Inr ownership"
  shows "decode_config C U config = Inr i
    \<and> decode_marker M U marker = Inr \<lparr>rm_identity = i, rm_state = s\<rparr>
    \<and> decode_workspace_ownership T U ownership = Inr w
    \<and> list_all (\<lambda>bs. length bs \<le> MAX_DOCUMENT_BYTES) [config, marker, ownership]"
  using assms
    encoded_document_decodes[OF assms(2) config_document_codec[OF assms(1)], of i config]
    encoded_document_decodes[OF assms(3) marker_document_codec[OF assms(1)], of "\<lparr>rm_identity = i, rm_state = s\<rparr>" marker]
    encoded_document_decodes[OF assms(4) ownership_document_codec[OF assms(1)], of w ownership]
  by (simp add: decode_config_def decode_marker_def decode_workspace_ownership_def encode_config_def
      encode_marker_def encode_workspace_ownership_def)

text \<open>A \<open>toml\<close> that knows one document, and the ownership of the Workspace at \<open>/t\<close>.\<close>

definition single_toml :: "'d \<Rightarrow> 'd toml_form" where
  "single_toml x = \<lparr>toml_to_string = (\<lambda>d. if d = x then Some ''='' else None),
     toml_from_str = (\<lambda>t. if t = ''='' then Some x else None)\<rparr>"

lemma single_toml_faithful: "toml_faithful (single_toml x)"
proof -
  have "utf8_valid ''=''" by code_simp
  then show ?thesis by (simp add: toml_faithful_def single_toml_def)
qed

lemma single_toml_writes: "encode_toml (single_toml x) x = Inr ''=''"
  by (simp add: encode_toml_def single_toml_def MAX_DOCUMENT_BYTES_def)

definition sample_directory :: historical_directory_identity where
  "sample_directory = \<lparr>hd_inode = 7, hd_birth_seconds = 8, hd_birth_nanoseconds = 9\<rparr>"

definition sample_ownership :: workspace_ownership where
  "sample_ownership =
     (let path = (\<lambda>n. AbsolutePath (''/'' @ n @ workspace_id_to_string plain_uuid (WorkspaceId sample_uuid))) in
      \<lparr>wo_instance_id = InstanceId sample_uuid, wo_workspace_id = WorkspaceId sample_uuid,
       wo_volume_id = VolumeId 3, wo_mount_id = 5, wo_target_path = AbsolutePath ''/t'',
       wo_parent = sample_directory, wo_target = sample_directory,
       wo_staging = \<lparr>oo_path = path ''.thinws-staging-'', oo_identity = sample_directory\<rparr>,
       wo_trash = \<lparr>oo_path = path ''.thinws-trash-'', oo_identity = sample_directory\<rparr>,
       wo_isolated_path = Some (path ''.thinws-remove-'')\<rparr>)"

definition sample_identity :: installation_identity where
  "sample_identity =
     \<lparr>ii_instance_id = InstanceId sample_uuid, ii_data_root = AbsolutePath ''/d'', ii_volume_id = VolumeId 3\<rparr>"

lemma sample_identity_valid: "valid_identity plain_uuid sample_identity"
proof -
  have "valid_path (AbsolutePath ''/d'')" by code_simp
  then show ?thesis
    by (simp add: valid_identity_def sample_identity_def valid_instance_id_def sample_uuid_valid)
qed

lemma sample_ownership_valid: "valid_ownership plain_uuid sample_ownership"
proof -
  have t: "valid_path (AbsolutePath ''/t'')" "parent_path_bytes (AbsolutePath ''/t'') = Some ''/''"
    by code_simp+
  have path: "valid_path (AbsolutePath (''/'' @ p @ workspace_id_to_string plain_uuid (WorkspaceId sample_uuid)))"
    if "p \<in> {''.thinws-staging-'', ''.thinws-trash-'', ''.thinws-remove-''}" for p
  proof -
    have "normal_component (p @ workspace_id_to_string plain_uuid (WorkspaceId sample_uuid))"
      using operation_names_normal[OF plain_uuid_text_format that, of "WorkspaceId sample_uuid"]
      by simp
    then show ?thesis
      using validate_path_components[of "[p @ workspace_id_to_string plain_uuid (WorkspaceId sample_uuid)]"]
      by (simp add: valid_path_def path_of_components_def)
  qed
  show ?thesis
    using t path[of "''.thinws-staging-''"] path[of "''.thinws-trash-''"] path[of "''.thinws-remove-''"]
    by (simp add: valid_ownership_def sample_ownership_def Let_def beside_def sibling_path_bytes_def plausible_def
        sample_directory_def valid_workspace_id_def valid_instance_id_def sample_uuid_valid)
qed

lemma accepted_ownership_is_protected_witness:
  "decode_workspace_ownership (single_toml (ownership_document_of plain_uuid sample_ownership)) plain_uuid ''=''
     = Inr sample_ownership
   \<and> wo_isolated_path sample_ownership
       = Some (AbsolutePath (''/.thinws-remove-'' @ workspace_id_to_string plain_uuid (WorkspaceId sample_uuid)))
   \<and> oo_path (wo_trash sample_ownership)
       \<in> set (projr (active_workspace_protected_paths plain_uuid
            (new_record (sample_reservation\<lparr>res_workspace_id := WorkspaceId sample_uuid\<rparr>))))"
proof -
  let ?T = "single_toml (ownership_document_of plain_uuid sample_ownership)"
  let ?r = "new_record (sample_reservation\<lparr>res_workspace_id := WorkspaceId sample_uuid\<rparr>)"
  have read: "decode_workspace_ownership ?T plain_uuid ''='' = Inr sample_ownership"
    using encoded_document_decodes[OF single_toml_faithful ownership_document_codec[OF plain_uuid_roundtrip]
        sample_ownership_valid single_toml_writes]
    by (simp add: decode_workspace_ownership_def)
  have "rec_id ?r = wo_workspace_id sample_ownership"
    "res_target_path (rec_reservation ?r) = wo_target_path sample_ownership"
    by (simp_all add: new_record_def sample_reservation_def sample_ownership_def Let_def)
  from accepted_ownership_is_protected[OF plain_uuid_roundtrip plain_uuid_text_format read this] read
  show ?thesis by (auto simp: sample_ownership_def Let_def)
qed

lemma control_documents_roundtrip_witness:
  "decode_marker (single_toml (marker_document_of plain_uuid
       \<lparr>rm_identity = sample_identity, rm_state = root_marker_state.Initializing\<rparr>)) plain_uuid ''=''
     = Inr \<lparr>rm_identity = sample_identity, rm_state = root_marker_state.Initializing\<rparr>"
  using control_documents_roundtrip[OF plain_uuid_roundtrip single_toml_faithful single_toml_faithful
      single_toml_faithful sample_identity_valid sample_ownership_valid,
      of "config_document_of plain_uuid sample_identity" "''=''"
        "marker_document_of plain_uuid \<lparr>rm_identity = sample_identity, rm_state = root_marker_state.Initializing\<rparr>"
        root_marker_state.Initializing "''=''"
        "ownership_document_of plain_uuid sample_ownership" "''=''"]
  by (simp add: encode_config_def encode_marker_def encode_workspace_ownership_def single_toml_writes)

end
