(* ===== verification/Linux_Host.thy ===== *)
theory Linux_Host
  imports Diagnostics Materialization
begin

text \<open>
  What the Linux adapter asks of the kernel when it walks, measures and deletes trees, as a record
  of functions on the state of the host, and the shared parts of
  \<open>thinws-adapter-linux/src/tree.rs\<close> that turn the answers into \<open>Node\<close>s and failures.  Nothing is
  assumed of the answers, and the host may change between any two calls.  A directory stream is a
  finite list of names and errors.
\<close>

subsection \<open>System calls\<close>

type_synonym fd = nat

text \<open>
  An \<open>errno\<close> is its number.  Sizes are \<open>int\<close>s, since the code clamps them; a time is only copied
  and compared, so its \<open>i64\<close> is the 64-bit word.
\<close>

type_synonym errno = int

record linux_stat =
  st_dev :: u64
  st_ino :: u64
  st_uid :: nat
  st_mode :: "32 word"
  st_size :: int
  st_blocks :: int
  st_mtime :: u64
  st_mtime_nsec :: u64

record linux_statx =
  stx_mask :: "32 word"
  stx_mnt_id :: u64

type_synonym ('h, 'e, 'a) linux_call = "'h \<Rightarrow> ('e + 'a) \<times> 'h"

record 'h linux_host =
  lh_fstat :: "fd \<Rightarrow> ('h, errno, linux_stat) linux_call"
  lh_statat :: "fd \<Rightarrow> bytes \<Rightarrow> ('h, errno, linux_stat) linux_call"
  lh_statx :: "fd \<Rightarrow> ('h, errno, linux_statx) linux_call"
  lh_statx_at :: "fd \<Rightarrow> bytes \<Rightarrow> ('h, errno, linux_statx) linux_call"
  lh_list_dir :: "fd \<Rightarrow> ('h, errno, (errno + bytes) list) linux_call"
  lh_open_dir :: "fd \<Rightarrow> bytes \<Rightarrow> ('h, errno, fd) linux_call"
  lh_open_file :: "fd \<Rightarrow> bytes \<Rightarrow> ('h, errno, fd) linux_call"
  lh_read :: "fd \<Rightarrow> nat \<Rightarrow> ('h, errno, bytes) linux_call"
  lh_readlink :: "fd \<Rightarrow> bytes \<Rightarrow> ('h, errno, bytes) linux_call"
  lh_unlink :: "fd \<Rightarrow> bytes \<Rightarrow> bool \<Rightarrow> ('h, errno, unit) linux_call"
  lh_fsync :: "fd \<Rightarrow> ('h, errno, unit) linux_call"
  lh_now :: "'h \<Rightarrow> nat \<times> 'h"
  lh_error :: "errno \<Rightarrow> foreign_error"

text \<open>The calls made, with their answers.  No operation reads them.\<close>

datatype linux_event =
  HeldStat fd "errno + linux_stat"
| HeldMount fd "errno + linux_statx"
| NamedStat fd bytes "errno + linux_stat"
| NamedMount fd bytes "errno + linux_statx"
| Listed fd "errno + (errno + bytes) list"
| OpenedDir fd bytes "errno + fd"
| OpenedFile fd bytes "errno + fd"
| FileRead fd "errno + bytes"
| LinkRead fd bytes "errno + bytes"
| Unlinked fd bytes bool "errno + unit"
| Synced fd "errno + unit"
| ScopeVerified "port_error + unit"
| ClockRead nat

record 'h linux_run =
  lr_host :: 'h
  lr_trace :: "linux_event list"

text \<open>A run may not return (\<^const>\<open>None\<close>): a file may grow while it is read.\<close>

type_synonym ('h, 'e, 'a) lx = "'h linux_run \<Rightarrow> (('e + 'a) \<times> 'h linux_run) option"

definition lx_return :: "'a \<Rightarrow> ('h, 'e, 'a) lx" where
  "lx_return x s = Some (Ok x, s)"

definition lx_fail :: "'e \<Rightarrow> ('h, 'e, 'a) lx" where
  "lx_fail e s = Some (Err e, s)"

definition lx_bind :: "('h, 'e, 'a) lx \<Rightarrow> ('a \<Rightarrow> ('h, 'e, 'b) lx) \<Rightarrow> ('h, 'e, 'b) lx" where
  "lx_bind m f s =
     (case m s of
        None \<Rightarrow> None
      | Some (Inl e, s') \<Rightarrow> Some (Inl e, s')
      | Some (Inr x, s') \<Rightarrow> f x s')"

definition lx_lift :: "'e + 'a \<Rightarrow> ('h, 'e, 'a) lx" where
  "lx_lift r s = Some (r, s)"

definition lx_map_err :: "('d \<Rightarrow> 'e) \<Rightarrow> ('h, 'd, 'a) lx \<Rightarrow> ('h, 'e, 'a) lx" where
  "lx_map_err g m s = map_option (\<lambda>(r, s'). (map_err g r, s')) (m s)"

definition lx_ask :: "('e + 'a \<Rightarrow> linux_event) \<Rightarrow> ('h, 'e, 'a) linux_call \<Rightarrow> ('h, 'e, 'a) lx" where
  "lx_ask ev c s =
     (case c (lr_host s) of (r, h) \<Rightarrow> Some (r, \<lparr>lr_host = h, lr_trace = lr_trace s @ [ev r]\<rparr>))"

definition lx_fstat :: "'h linux_host \<Rightarrow> fd \<Rightarrow> ('h, errno, linux_stat) lx" where
  "lx_fstat H d = lx_ask (HeldStat d) (lh_fstat H d)"

definition lx_statat :: "'h linux_host \<Rightarrow> fd \<Rightarrow> bytes \<Rightarrow> ('h, errno, linux_stat) lx" where
  "lx_statat H d n = lx_ask (NamedStat d n) (lh_statat H d n)"

definition lx_statx :: "'h linux_host \<Rightarrow> fd \<Rightarrow> ('h, errno, linux_statx) lx" where
  "lx_statx H d = lx_ask (HeldMount d) (lh_statx H d)"

definition lx_statx_at :: "'h linux_host \<Rightarrow> fd \<Rightarrow> bytes \<Rightarrow> ('h, errno, linux_statx) lx" where
  "lx_statx_at H d n = lx_ask (NamedMount d n) (lh_statx_at H d n)"

subsection \<open>Failures\<close>

record tree_failure =
  tf_kind :: materialization_failure_kind
  tf_port_kind :: port_error_kind
  tf_operation :: string
  tf_source :: "foreign_error option"

definition tree_failure_new :: "materialization_failure_kind \<Rightarrow> port_error_kind \<Rightarrow> string \<Rightarrow> tree_failure" where
  "tree_failure_new k p oper = \<lparr>tf_kind = k, tf_port_kind = p, tf_operation = oper, tf_source = None\<rparr>"

definition ENOSPC :: errno where
  "ENOSPC = 28"

definition tree_failure_io :: "'h linux_host \<Rightarrow> string \<Rightarrow> errno \<Rightarrow> tree_failure" where
  "tree_failure_io H oper e =
     \<lparr>tf_kind = (if e = ENOSPC then NoSpace else Filesystem), tf_port_kind = Io,
      tf_operation = oper, tf_source = Some (lh_error H e)\<rparr>"

definition source_changed :: tree_failure where
  "source_changed =
     tree_failure_new SourceChanged InvalidData ''source tree changed during materialization''"

definition into_port_error :: "tree_failure \<Rightarrow> port_error" where
  "into_port_error f =
     (let e = port_error_new (tf_port_kind f) (tf_operation f) in
      case tf_source f of Some src \<Rightarrow> port_error_with_source e src | None \<Rightarrow> e)"

subsection \<open>Nodes\<close>

datatype node_kind = Directory | File | Symlink | Unsupported

record node =
  nd_device :: u64
  nd_inode :: u64
  nd_kind :: node_kind
  nd_mode :: "32 word"
  nd_size :: u64
  nd_blocks :: u64
  nd_mtime_seconds :: u64
  nd_mtime_nanoseconds :: u64

definition node_identity :: "node \<Rightarrow> file_identity" where
  "node_identity n = \<lparr>device = nd_device n, inode = nd_inode n\<rparr>"

definition node_mtime :: "node \<Rightarrow> u64 \<times> u64" where
  "node_mtime n = (nd_mtime_seconds n, nd_mtime_nanoseconds n)"

definition node_from_stat :: "linux_stat \<Rightarrow> node" where
  "node_from_stat st =
     (let format = and (st_mode st) 0xF000 in
      \<lparr>nd_device = st_dev st, nd_inode = st_ino st,
       nd_kind =
         (if format = 0x4000 then Directory else if format = 0x8000 then File
          else if format = 0xA000 then Symlink else Unsupported),
       nd_mode = and (st_mode st) 0xFFF,
       nd_size = word_of_int (max 0 (st_size st)), nd_blocks = word_of_int (max 0 (st_blocks st)),
       nd_mtime_seconds = st_mtime st, nd_mtime_nanoseconds = st_mtime_nsec st\<rparr>)"

definition node_of :: "'h linux_host \<Rightarrow> fd \<Rightarrow> ('h, tree_failure, node) lx" where
  "node_of H d =
     lx_map_err (tree_failure_io H ''inspect held tree node'')
       (lx_bind (lx_fstat H d) (\<lambda>st. lx_return (node_from_stat st)))"

definition node_at :: "'h linux_host \<Rightarrow> fd \<Rightarrow> bytes \<Rightarrow> ('h, tree_failure, node) lx" where
  "node_at H d name =
     lx_map_err (tree_failure_io H ''inspect named tree node'')
       (lx_bind (lx_statat H d name) (\<lambda>st. lx_return (node_from_stat st)))"

definition STATX_MNT_ID :: "32 word" where
  "STATX_MNT_ID = 0x1000"

definition mount_id_available :: "32 word \<Rightarrow> bool" where
  "mount_id_available bits = (and bits STATX_MNT_ID \<noteq> 0)"

definition mount_id :: "'h linux_host \<Rightarrow> fd \<Rightarrow> ('h, tree_failure, u64) lx" where
  "mount_id H d =
     lx_bind (lx_map_err (tree_failure_io H ''inspect tree mount ID'') (lx_statx H d)) (\<lambda>observed.
       if mount_id_available (stx_mask observed) then lx_return (stx_mnt_id observed)
       else lx_fail (tree_failure_new materialization_failure_kind.InvalidLayout port_error_kind.InvalidLayout
         ''tree mount ID is unavailable''))"

definition mount_id_at :: "'h linux_host \<Rightarrow> fd \<Rightarrow> bytes \<Rightarrow> ('h, tree_failure, u64) lx" where
  "mount_id_at H d name =
     lx_bind (lx_map_err (tree_failure_io H ''inspect tree entry mount ID'') (lx_statx_at H d name)) (\<lambda>observed.
       if mount_id_available (stx_mask observed) then lx_return (stx_mnt_id observed)
       else lx_fail (tree_failure_new materialization_failure_kind.InvalidLayout port_error_kind.InvalidLayout
         ''tree entry mount ID is unavailable''))"

definition dot_names :: "bytes list" where
  "dot_names = [''.'', ''..'']"

definition directory_names :: "'h linux_host \<Rightarrow> fd \<Rightarrow> ('h, tree_failure, bytes list) lx" where
  "directory_names H d =
     lx_bind
       (lx_map_err (tree_failure_io H ''enumerate tree directory'') (lx_ask (Listed d) (lh_list_dir H d)))
       (\<lambda>entries.
          lx_bind
            (lx_lift (map_err (tree_failure_io H ''read tree directory entry'') (collect_results entries)))
            (\<lambda>names. lx_return (sort (filter (\<lambda>n. n \<notin> set dot_names) names))))"

definition open_directory :: "'h linux_host \<Rightarrow> fd \<Rightarrow> bytes \<Rightarrow> ('h, tree_failure, fd) lx" where
  "open_directory H d name =
     lx_map_err (tree_failure_io H ''open tree directory without following links'')
       (lx_ask (OpenedDir d name) (lh_open_dir H d name))"

definition open_file :: "'h linux_host \<Rightarrow> fd \<Rightarrow> bytes \<Rightarrow> ('h, tree_failure, fd) lx" where
  "open_file H d name =
     lx_map_err (tree_failure_io H ''open tree file without following links'')
       (lx_ask (OpenedFile d name) (lh_open_file H d name))"

subsection \<open>Weakest preconditions\<close>

text \<open>\<open>lwp m Q s\<close>: the run of \<open>m\<close> from \<open>s\<close> returns, and its answer and state satisfy \<open>Q\<close>.\<close>

definition lwp :: "('h, 'e, 'a) lx \<Rightarrow> ('e + 'a \<Rightarrow> 'h linux_run \<Rightarrow> bool) \<Rightarrow> 'h linux_run \<Rightarrow> bool" where
  "lwp m Q s \<longleftrightarrow> (case m s of None \<Rightarrow> False | Some (r, s') \<Rightarrow> Q r s')"

named_theorems lwp_simps \<open>weakest preconditions of the combinators\<close>

lemma lwp_bind [lwp_simps]:
  "lwp (lx_bind m f) Q s = lwp m (\<lambda>r s1. case r of Inl e \<Rightarrow> Q (Inl e) s1 | Inr x \<Rightarrow> lwp (f x) Q s1) s"
  by (auto simp: lwp_def lx_bind_def split: option.splits prod.splits sum.splits)

lemma lwp_return [lwp_simps]: "lwp (lx_return x) Q s = Q (Inr x) s"
  by (simp add: lwp_def lx_return_def)

lemma lwp_fail [lwp_simps]: "lwp (lx_fail e) Q s = Q (Inl e) s"
  by (simp add: lwp_def lx_fail_def)

lemma lwp_lift [lwp_simps]: "lwp (lx_lift r) Q s = Q r s"
  by (simp add: lwp_def lx_lift_def)

lemma lwp_map_err [lwp_simps]: "lwp (lx_map_err g m) Q s = lwp m (\<lambda>r s'. Q (map_err g r) s') s"
  by (auto simp: lwp_def lx_map_err_def split: option.splits prod.splits)

lemma lwp_ask:
  "lwp (lx_ask ev c) Q s =
     (case c (lr_host s) of (r, h) \<Rightarrow> Q r \<lparr>lr_host = h, lr_trace = lr_trace s @ [ev r]\<rparr>)"
  by (simp add: lwp_def lx_ask_def split: prod.splits)

lemma lwp_if [lwp_simps]: "lwp (if b then m else n) Q s = (if b then lwp m Q s else lwp n Q s)"
  by simp

lemma lwp_mono: "\<lbrakk>lwp m P s; \<And>r s'. P r s' \<Longrightarrow> Q r s'\<rbrakk> \<Longrightarrow> lwp m Q s"
  by (auto simp: lwp_def split: option.splits)

lemma lwp_ask_any:
  "(\<And>r s'. lr_trace s' = lr_trace s @ [ev r] \<Longrightarrow> Q r s') \<Longrightarrow> lwp (lx_ask ev c) Q s"
  by (simp add: lwp_ask split: prod.splits)

subsection \<open>Steps that only look\<close>

fun is_unlink :: "linux_event \<Rightarrow> bool" where
  "is_unlink (Unlinked d n dir r) = True"
| "is_unlink e = False"

abbreviation no_unlink :: "linux_event list \<Rightarrow> bool" where
  "no_unlink \<equiv> list_all (\<lambda>e. \<not> is_unlink e)"

text \<open>\<open>looks P m\<close>: \<open>m\<close> returns and unlinks nothing; the calls it makes and its answer satisfy \<open>P\<close>.\<close>

definition looks :: "(linux_event list \<Rightarrow> 'e + 'a \<Rightarrow> bool) \<Rightarrow> ('h, 'e, 'a) lx \<Rightarrow> bool" where
  "looks P m \<longleftrightarrow> (\<forall>s. lwp m (\<lambda>r s'. \<exists>es. lr_trace s' = lr_trace s @ es \<and> no_unlink es \<and> P es r) s)"

lemma looksD: "looks P m \<Longrightarrow> lwp m (\<lambda>r s'. \<exists>es. lr_trace s' = lr_trace s @ es \<and> no_unlink es \<and> P es r) s"
  by (simp add: looks_def)

lemma looks_mono: "\<lbrakk>looks P m; \<And>es r. P es r \<Longrightarrow> Q es r\<rbrakk> \<Longrightarrow> looks Q m"
  unfolding looks_def by (blast intro: lwp_mono)

lemma looks_return: "looks (\<lambda>es r. es = [] \<and> r = Inr x) (lx_return x)"
  by (simp add: looks_def lwp_simps)

lemma looks_fail: "looks (\<lambda>es r. es = [] \<and> r = Inl e) (lx_fail e)"
  by (simp add: looks_def lwp_simps)

lemma looks_lift: "looks (\<lambda>es r. es = [] \<and> r = x) (lx_lift x)"
  by (simp add: looks_def lwp_simps)

lemma looks_ask: "(\<And>r. \<not> is_unlink (ev r)) \<Longrightarrow> looks (\<lambda>es r. es = [ev r]) (lx_ask ev c)"
  by (simp add: looks_def lwp_ask split: prod.splits)

lemma looks_map_err: "looks P m \<Longrightarrow> looks (\<lambda>es r. \<exists>r0. r = map_err g r0 \<and> P es r0) (lx_map_err g m)"
  unfolding looks_def lwp_simps by (blast intro: lwp_mono)

lemma looks_bind:
  fixes m :: "('h, 'e, 'a) lx" and f :: "'a \<Rightarrow> ('h, 'e, 'b) lx"
  assumes m: "looks P m" and f: "\<And>es x. P es (Inr x) \<Longrightarrow> looks (Q x) (f x)"
    and err: "\<And>es e. P es (Inl e) \<Longrightarrow> R es (Inl e)"
    and ok: "\<And>es x es' r. \<lbrakk>P es (Inr x); Q x es' r; no_unlink es'\<rbrakk> \<Longrightarrow> R (es @ es') r"
  shows "looks R (lx_bind m f)"
  unfolding looks_def lwp_simps
proof (intro allI, rule lwp_mono[OF looksD[OF m]])
  fix s s' :: "'h linux_run" and r :: "'e + 'a"
  assume "\<exists>es. lr_trace s' = lr_trace s @ es \<and> no_unlink es \<and> P es r"
  then obtain es where es: "lr_trace s' = lr_trace s @ es" "no_unlink es" "P es r" by blast
  show "case r of Inl e \<Rightarrow> \<exists>es. lr_trace s' = lr_trace s @ es \<and> no_unlink es \<and> R es (Inl e)
    | Inr x \<Rightarrow> lwp (f x) (\<lambda>r s'. \<exists>es. lr_trace s' = lr_trace s @ es \<and> no_unlink es \<and> R es r) s'"
  proof (cases r)
    case (Inl e)
    then show ?thesis using es err by auto
  next
    case (Inr x)
    have "lwp (f x) (\<lambda>r s'. \<exists>es. lr_trace s' = lr_trace s @ es \<and> no_unlink es \<and> R es r) s'"
      by (rule lwp_mono[OF looksD[OF f[OF es(3)[unfolded Inr]]]]) (use es Inr ok in \<open>force simp: list_all_append\<close>)
    then show ?thesis using Inr by simp
  qed
qed

definition on_mount :: "u64 \<Rightarrow> linux_statx \<Rightarrow> bool" where
  "on_mount m x \<longleftrightarrow> mount_id_available (stx_mask x) \<and> stx_mnt_id x = m"

text \<open>The answer of a call, when there is one.\<close>

lemma looks_ok_map_err: "looks (\<lambda>es r. \<forall>x. r = Inr x \<longrightarrow> P es x) m \<Longrightarrow> looks (\<lambda>es r. \<forall>x. r = Inr x \<longrightarrow> P es x) (lx_map_err g m)"
  by (rule looks_mono[OF looks_map_err]) (auto simp: result_simps)

lemma looks_ok_bind:
  assumes "looks (\<lambda>es r. \<forall>x. r = Inr x \<longrightarrow> P es x) m"
    "\<And>es x. P es x \<Longrightarrow> looks (\<lambda>es r. \<forall>y. r = Inr y \<longrightarrow> Q x es y) (f x)"
    "\<And>es x es' y. \<lbrakk>P es x; Q x es' y; no_unlink es'\<rbrakk> \<Longrightarrow> R (es @ es') y"
  shows "looks (\<lambda>es r. \<forall>y. r = Inr y \<longrightarrow> R es y) (lx_bind m f)"
  by (rule looks_bind[where Q = "\<lambda>x es r. \<forall>y. r = Inr y \<longrightarrow> Q x es y", OF assms(1)])
    (use assms(2,3) in auto)

lemma looks_ok_ask:
  "(\<And>r. \<not> is_unlink (ev r)) \<Longrightarrow> looks (\<lambda>es r. \<forall>x. r = Inr x \<longrightarrow> es = [ev (Inr x)]) (lx_ask ev c)"
  by (rule looks_mono[OF looks_ask]) auto

lemma looks_ok_if:
  "(b \<Longrightarrow> looks P m) \<Longrightarrow> (\<not> b \<Longrightarrow> looks P n) \<Longrightarrow> looks P (if b then m else n)"
  by simp

lemma looks_ok_return: "looks (\<lambda>es r. \<forall>y. r = Inr y \<longrightarrow> es = [] \<and> y = x) (lx_return x)"
  by (rule looks_mono[OF looks_return]) auto

lemma looks_ok_fail: "looks (\<lambda>es r. \<forall>y. r = Inr y \<longrightarrow> P es y) (lx_fail e)"
  by (rule looks_mono[OF looks_fail]) auto

lemma looks_node_of:
  "looks (\<lambda>es r. \<forall>nd. r = Inr nd \<longrightarrow> (\<exists>st. es = [HeldStat d (Inr st)] \<and> nd = node_from_stat st)) (node_of H d)"
  unfolding node_of_def lx_fstat_def
  by (rule looks_ok_map_err, rule looks_ok_bind[OF looks_ok_ask looks_ok_return]) auto

lemma looks_node_at:
  "looks (\<lambda>es r. \<forall>nd. r = Inr nd \<longrightarrow> (\<exists>st. es = [NamedStat d n (Inr st)] \<and> nd = node_from_stat st)) (node_at H d n)"
  unfolding node_at_def lx_statat_def
  by (rule looks_ok_map_err, rule looks_ok_bind[OF looks_ok_ask looks_ok_return]) auto

lemma looks_mount_id:
  "looks (\<lambda>es r. \<forall>m. r = Inr m \<longrightarrow> (\<exists>x. es = [HeldMount d (Inr x)] \<and> on_mount m x)) (mount_id H d)"
  unfolding mount_id_def lx_statx_def
  by (rule looks_ok_bind[OF looks_ok_map_err[OF looks_ok_ask],
        where Q = "\<lambda>x es m. es = [] \<and> on_mount m x"])
    (auto intro!: looks_mono[OF looks_return] looks_mono[OF looks_fail] simp: on_mount_def)

lemma looks_mount_id_at:
  "looks (\<lambda>es r. \<forall>m. r = Inr m \<longrightarrow> (\<exists>x. es = [NamedMount d n (Inr x)] \<and> on_mount m x)) (mount_id_at H d n)"
  unfolding mount_id_at_def lx_statx_at_def
  by (rule looks_ok_bind[OF looks_ok_map_err[OF looks_ok_ask],
        where Q = "\<lambda>x es m. es = [] \<and> on_mount m x"])
    (auto intro!: looks_mono[OF looks_return] looks_mono[OF looks_fail] simp: on_mount_def)

lemma looks_directory_names:
  "looks (\<lambda>es r. \<forall>ns. r = Inr ns \<longrightarrow> (\<exists>l. es = [Listed d (Inr l)] \<and> sorted ns \<and> set dot_names \<inter> set ns = {}))
     (directory_names H d)"
  unfolding directory_names_def
  by (rule looks_ok_bind[OF looks_ok_map_err[OF looks_ok_ask],
        where Q = "\<lambda>x es ns. es = [] \<and> sorted ns \<and> set dot_names \<inter> set ns = {}"],
      simp, rule looks_bind[OF looks_lift looks_return]) auto

lemma looks_open_directory:
  "looks (\<lambda>es r. \<forall>c. r = Inr c \<longrightarrow> es = [OpenedDir d n (Inr c)]) (open_directory H d n)"
  unfolding open_directory_def by (rule looks_ok_map_err[OF looks_ok_ask]) simp

end
