(* ===== verification/Linux_Destroy.thy ===== *)
theory Linux_Destroy
  imports Linux_Host
begin

text \<open>
  Deletion inside one root that is known to be the Workspace's:
  \<open>thinws-adapter-linux/src/destroy.rs\<close>.  The closures that check the scope are runs: the one the
  caller passes, and for every directory on the way one more that checks its name again.

  What is shown: the deletion always comes back; and nothing is unlinked but an entry whose
  directory was reached from the root through checked names on the same device and mount, was
  just held against its identity, and was checked once more by name.
\<close>

subsection \<open>The code\<close>

definition MAX_DELETE_DEPTH :: nat where
  "MAX_DELETE_DEPTH = 512"

definition stale_scope :: port_error where
  "stale_scope = port_error_new port_error_kind.InvalidLayout ''Workspace deletion scope changed''"

definition require_directory ::
  "'h linux_host \<Rightarrow> fd \<Rightarrow> file_identity \<Rightarrow> u64 \<Rightarrow> ('h, port_error, unit) lx" where
  "require_directory H d expected expected_mount =
     lx_bind (lx_map_err into_port_error (node_of H d)) (\<lambda>current.
     lx_bind (lx_map_err into_port_error (mount_id H d)) (\<lambda>current_mount.
       if nd_kind current \<noteq> Directory \<or> node_identity current \<noteq> expected \<or> current_mount \<noteq> expected_mount
       then lx_fail stale_scope else lx_return ()))"

definition checked_entry ::
  "'h linux_host \<Rightarrow> fd \<Rightarrow> bytes \<Rightarrow> file_identity \<Rightarrow> u64 \<Rightarrow> ('h, port_error, node) lx" where
  "checked_entry H d name expected expected_mount =
     lx_bind (require_directory H d expected expected_mount) (\<lambda>_.
     lx_bind (lx_map_err into_port_error (node_at H d name)) (\<lambda>entry.
     lx_bind (lx_map_err into_port_error (mount_id_at H d name)) (\<lambda>entry_mount.
       if nd_device entry \<noteq> device expected \<or> entry_mount \<noteq> expected_mount
       then lx_fail stale_scope else lx_return entry)))"

definition same_entry :: "node \<Rightarrow> node \<Rightarrow> ('h, port_error, unit) lx" where
  "same_entry current before =
     (if node_identity current \<noteq> node_identity before \<or> nd_kind current \<noteq> nd_kind before
      then lx_fail stale_scope else lx_return ())"

definition verify_child ::
  "'h linux_host \<Rightarrow> fd \<Rightarrow> bytes \<Rightarrow> file_identity \<Rightarrow> u64 \<Rightarrow> node \<Rightarrow> ('h, port_error, unit) lx
   \<Rightarrow> ('h, port_error, unit) lx" where
  "verify_child H d name expected expected_mount before verify_scope =
     lx_bind verify_scope (\<lambda>_.
     lx_bind (checked_entry H d name expected expected_mount) (\<lambda>named. same_entry named before))"

definition count_overflow :: port_error where
  "count_overflow = port_error_new port_error_kind.InvalidLayout ''entry count overflow''"

definition checked_add :: "nat \<Rightarrow> nat \<Rightarrow> ('h, port_error, nat) lx" where
  "checked_add a b = (if a + b < 2 ^ 64 then lx_return (a + b) else lx_fail count_overflow)"

text \<open>The deletion of a directory: descriptor, identity, mount and the check of the scope.\<close>

type_synonym 'h deletion =
  "fd \<Rightarrow> file_identity \<Rightarrow> u64 \<Rightarrow> ('h, port_error, unit) lx \<Rightarrow> ('h, port_error, nat) lx"

definition remove_subdirectory ::
  "'h linux_host \<Rightarrow> 'h deletion \<Rightarrow> fd \<Rightarrow> bytes \<Rightarrow> file_identity \<Rightarrow> u64 \<Rightarrow> node
   \<Rightarrow> ('h, port_error, unit) lx \<Rightarrow> nat \<Rightarrow> ('h, port_error, nat) lx" where
  "remove_subdirectory H remove_child d name expected expected_mount before verify_scope removed =
     lx_bind (lx_map_err into_port_error (open_directory H d name)) (\<lambda>child.
     lx_bind (require_directory H child (node_identity before) expected_mount) (\<lambda>_.
     lx_bind (remove_child child (node_identity before) expected_mount
                (verify_child H d name expected expected_mount before verify_scope)) (\<lambda>inner.
     lx_bind (checked_add removed inner) (\<lambda>total.
     lx_bind (require_directory H child (node_identity before) expected_mount) (\<lambda>_.
       lx_return total)))))"

definition unlink_entry :: "'h linux_host \<Rightarrow> fd \<Rightarrow> bytes \<Rightarrow> bool \<Rightarrow> ('h, port_error, unit) lx" where
  "unlink_entry H d name dir =
     lx_map_err
       (\<lambda>e. port_error_with_source (port_error_new port_error_kind.Io ''remove proven Workspace entry'') (lh_error H e))
       (lx_ask (Unlinked d name dir) (lh_unlink H d name dir))"

definition remove_entry ::
  "'h linux_host \<Rightarrow> 'h deletion \<Rightarrow> fd \<Rightarrow> file_identity \<Rightarrow> u64 \<Rightarrow> ('h, port_error, unit) lx \<Rightarrow> nat \<Rightarrow> bytes
   \<Rightarrow> ('h, port_error, nat) lx" where
  "remove_entry H remove_child d expected expected_mount verify_scope removed name =
     lx_bind verify_scope (\<lambda>_.
     lx_bind (require_directory H d expected expected_mount) (\<lambda>_.
     lx_bind (checked_entry H d name expected expected_mount) (\<lambda>before.
       if nd_kind before = Unsupported
       then lx_fail (port_error_new port_error_kind.InvalidLayout
              ''unsupported special entry in Workspace deletion scope'')
       else
         lx_bind
           (if nd_kind before = Directory
            then remove_subdirectory H remove_child d name expected expected_mount before verify_scope removed
            else lx_return removed) (\<lambda>removed.
         lx_bind verify_scope (\<lambda>_.
         lx_bind (checked_entry H d name expected expected_mount) (\<lambda>current.
         lx_bind (same_entry current before) (\<lambda>_.
         lx_bind (unlink_entry H d name (nd_kind before = Directory)) (\<lambda>_.
           checked_add removed 1))))))))"

primrec remove_entries ::
  "'h linux_host \<Rightarrow> 'h deletion \<Rightarrow> fd \<Rightarrow> file_identity \<Rightarrow> u64 \<Rightarrow> ('h, port_error, unit) lx \<Rightarrow> nat
   \<Rightarrow> bytes list \<Rightarrow> ('h, port_error, nat) lx" where
  "remove_entries H remove_child d expected expected_mount verify_scope removed [] = lx_return removed"
| "remove_entries H remove_child d expected expected_mount verify_scope removed (name # names) =
     lx_bind (remove_entry H remove_child d expected expected_mount verify_scope removed name) (\<lambda>removed.
       remove_entries H remove_child d expected expected_mount verify_scope removed names)"

definition sync_emptied :: "'h linux_host \<Rightarrow> fd \<Rightarrow> ('h, port_error, unit) lx" where
  "sync_emptied H d =
     lx_map_err
       (\<lambda>e. port_error_with_source (port_error_new port_error_kind.Io ''sync removed Workspace entries'') (lh_error H e))
       (lx_ask (Synced d) (lh_fsync H d))"

function remove_directory_contents :: "'h linux_host \<Rightarrow> nat \<Rightarrow> 'h deletion" where
  "remove_directory_contents H depth =
     (if MAX_DELETE_DEPTH < depth
      then (\<lambda>d expected expected_mount verify_scope.
        lx_fail (port_error_new port_error_kind.InvalidLayout
          ''Workspace deletion exceeds directory depth limit''))
      else (\<lambda>d expected expected_mount verify_scope.
        lx_bind (require_directory H d expected expected_mount) (\<lambda>_.
        lx_bind (lx_map_err into_port_error (directory_names H d)) (\<lambda>names.
        lx_bind (remove_entries H (remove_directory_contents H (Suc depth)) d expected expected_mount
                   verify_scope 0 names) (\<lambda>removed.
        lx_bind verify_scope (\<lambda>_.
        lx_bind (require_directory H d expected expected_mount) (\<lambda>_.
        lx_bind (lx_map_err into_port_error (directory_names H d)) (\<lambda>left.
          if left \<noteq> []
          then lx_fail (port_error_new port_error_kind.NotEmpty ''Workspace directory changed during deletion'')
          else lx_bind (sync_emptied H d) (\<lambda>_. lx_return removed)))))))))"
  by auto

termination
  by (relation "measure (\<lambda>(H, depth). Suc MAX_DELETE_DEPTH - depth)") auto

declare remove_directory_contents.simps [simp del]

definition remove_root_contents ::
  "'h linux_host \<Rightarrow> fd \<Rightarrow> file_identity \<Rightarrow> u64 \<Rightarrow> ('h, port_error, unit) lx \<Rightarrow> ('h, port_error, nat) lx" where
  "remove_root_contents H root expected expected_mount verify_scope =
     lx_bind verify_scope (\<lambda>_.
     lx_bind (require_directory H root expected expected_mount) (\<lambda>_.
       remove_directory_contents H 0 root expected expected_mount verify_scope))"

subsection \<open>What must precede an unlink\<close>

text \<open>
  \<open>held_entry m i d n nd es\<close>: the calls \<open>es\<close> found that the descriptor \<open>d\<close> is the directory \<open>i\<close> on
  the mount \<open>m\<close>, and that its entry \<open>n\<close> is the node \<open>nd\<close> of the same device and mount.
\<close>

definition held_directory :: "u64 \<Rightarrow> file_identity \<Rightarrow> fd \<Rightarrow> linux_event list \<Rightarrow> bool" where
  "held_directory m i d es \<longleftrightarrow>
     (\<exists>st x. es = [HeldStat d (Inr st), HeldMount d (Inr x)] \<and> nd_kind (node_from_stat st) = Directory
        \<and> node_identity (node_from_stat st) = i \<and> on_mount m x)"

definition held_entry :: "u64 \<Rightarrow> file_identity \<Rightarrow> fd \<Rightarrow> bytes \<Rightarrow> node \<Rightarrow> linux_event list \<Rightarrow> bool" where
  "held_entry m i d n nd es \<longleftrightarrow>
     (\<exists>hs st x. es = hs @ [NamedStat d n (Inr st), NamedMount d n (Inr x)] \<and> held_directory m i d hs
        \<and> nd = node_from_stat st \<and> nd_device nd = device i \<and> on_mount m x)"

text \<open>The directories reached from the root by such entries.\<close>

inductive in_scope :: "file_identity \<Rightarrow> u64 \<Rightarrow> linux_event list \<Rightarrow> file_identity \<Rightarrow> bool"
  for root m tr where
  root: "in_scope root m tr root"
| entry: "\<lbrakk>in_scope root m tr i; tr = p @ es @ q; held_entry m i d n nd es; nd_kind nd = Directory\<rbrakk>
    \<Longrightarrow> in_scope root m tr (node_identity nd)"

fun unlinked :: "linux_event \<Rightarrow> bool" where
  "unlinked (Unlinked d n dir (Inr u)) = True"
| "unlinked e = False"

abbreviation unlink_count :: "linux_event list \<Rightarrow> nat" where
  "unlink_count tr \<equiv> length (filter unlinked tr)"

text \<open>The scope was verified since the last unlink.\<close>

definition scope_fresh :: "linux_event list \<Rightarrow> bool" where
  "scope_fresh p \<longleftrightarrow> (\<exists>a b. p = a @ ScopeVerified (Inr ()) # b \<and> no_unlink b)"

definition proven :: "file_identity \<Rightarrow> u64 \<Rightarrow> linux_event list \<Rightarrow> fd \<Rightarrow> bytes \<Rightarrow> bool \<Rightarrow> bool" where
  "proven root m p d n dir \<longleftrightarrow>
     scope_fresh p
     \<and> (\<exists>a es i nd. p = a @ es \<and> held_entry m i d n nd es \<and> in_scope root m p i
          \<and> nd_kind nd \<noteq> Unsupported \<and> (dir \<longleftrightarrow> nd_kind nd = Directory))"

definition proven_unlinks :: "file_identity \<Rightarrow> u64 \<Rightarrow> linux_event list \<Rightarrow> bool" where
  "proven_unlinks root m tr \<longleftrightarrow>
     (\<forall>p d n dir r q. tr = p @ Unlinked d n dir r # q \<longrightarrow> proven root m p d n dir)"

lemma proven_unlinksD: "proven_unlinks root m tr \<Longrightarrow> tr = p @ Unlinked d n dir r # q \<Longrightarrow> proven root m p d n dir"
  by (simp add: proven_unlinks_def)

lemma proven_unlinksI:
  "(\<And>p d n dir r q. tr = p @ Unlinked d n dir r # q \<Longrightarrow> proven root m p d n dir) \<Longrightarrow> proven_unlinks root m tr"
  by (simp add: proven_unlinks_def)

lemma provenI:
  "\<lbrakk>scope_fresh (a @ es); held_entry m i d n nd es; in_scope root m (a @ es) i; nd_kind nd \<noteq> Unsupported;
    dir \<longleftrightarrow> nd_kind nd = Directory\<rbrakk> \<Longrightarrow> proven root m (a @ es) d n dir"
  unfolding proven_def by blast

lemma scope_fresh_prepend: "scope_fresh es \<Longrightarrow> scope_fresh (a @ es)"
  unfolding scope_fresh_def by (metis append.assoc)

lemma in_scope_append: "in_scope root m tr i \<Longrightarrow> in_scope root m (tr @ ys) i"
proof (induction rule: in_scope.induct)
  case (entry i p es q d n nd)
  then show ?case using in_scope.entry[of root m "tr @ ys" i p es "q @ ys"] by simp
qed (rule in_scope.root)

lemma in_scope_prefix: "in_scope root m tr i \<Longrightarrow> prefix tr tr' \<Longrightarrow> in_scope root m tr' i"
  by (auto elim!: prefixE intro: in_scope_append)

lemma scope_fresh_append: "scope_fresh p \<Longrightarrow> no_unlink es \<Longrightarrow> scope_fresh (p @ es)"
  unfolding scope_fresh_def by (metis append.assoc append_Cons list_all_append)

lemma unlinked_is_unlink: "unlinked e \<Longrightarrow> is_unlink e"
  by (cases e rule: unlinked.cases) auto

lemma quiet_unlink_count [simp]: "no_unlink es \<Longrightarrow> unlink_count es = 0"
  using unlinked_is_unlink by (auto simp: list_all_iff filter_empty_conv)

lemma proven_unlinks_quiet:
  assumes "proven_unlinks root m tr" "no_unlink es"
  shows "proven_unlinks root m (tr @ es)"
proof (rule proven_unlinksI)
  fix p d n dir r q assume "tr @ es = p @ Unlinked d n dir r # q"
  then obtain us where
    "tr = p @ us \<and> us @ es = Unlinked d n dir r # q \<or> tr @ us = p \<and> es = us @ Unlinked d n dir r # q"
    unfolding append_eq_append_conv2 by blast
  then show "proven root m p d n dir"
  proof
    assume us: "tr = p @ us \<and> us @ es = Unlinked d n dir r # q"
    then obtain vs where "us = Unlinked d n dir r # vs" using assms(2) by (cases us) auto
    then show ?thesis using us proven_unlinksD[OF assms(1)] by blast
  qed (use assms(2) in simp)
qed

lemma proven_unlinks_unlink:
  assumes "proven_unlinks root m p" "proven root m p d n dir"
  shows "proven_unlinks root m (p @ [Unlinked d n dir r])"
proof (rule proven_unlinksI)
  fix p' d' n' dir' r' q assume eq: "p @ [Unlinked d n dir r] = p' @ Unlinked d' n' dir' r' # q"
  show "proven root m p' d' n' dir'"
  proof (cases q rule: rev_cases)
    case Nil
    then show ?thesis using eq assms(2) by simp
  next
    case (snoc q' e)
    then have "p = p' @ Unlinked d' n' dir' r' # q'" using eq by (metis append_Cons append_assoc butlast_snoc)
    then show ?thesis by (rule proven_unlinksD[OF assms(1)])
  qed
qed

subsection \<open>Every unlink is proven\<close>

lemma looks_require_directory:
  "looks (\<lambda>es r. \<forall>u. r = Inr u \<longrightarrow> held_directory m i d es) (require_directory H d i m)"
proof -
  have tail: "looks (\<lambda>es r. \<forall>u. r = Inr u \<longrightarrow> (\<exists>x. es = [HeldMount d (Inr x)] \<and> on_mount m x)
        \<and> nd_kind current = Directory \<and> node_identity current = i)
      (lx_bind (lx_map_err into_port_error (mount_id H d)) (\<lambda>current_mount.
         if nd_kind current \<noteq> Directory \<or> node_identity current \<noteq> i \<or> current_mount \<noteq> m
         then lx_fail stale_scope else lx_return ()))" for current
    by (rule looks_ok_bind[OF looks_ok_map_err[OF looks_mount_id],
          where Q = "\<lambda>x es u. es = [] \<and> x = m \<and> nd_kind current = Directory \<and> node_identity current = i"])
      (auto intro!: looks_mono[OF looks_return] looks_mono[OF looks_fail])
  show ?thesis
    unfolding require_directory_def
    by (rule looks_ok_bind[OF looks_ok_map_err[OF looks_node_of] tail]) (auto simp: held_directory_def)
qed

lemma looks_checked_entry:
  "looks (\<lambda>es r. \<forall>nd. r = Inr nd \<longrightarrow> held_entry m i d n nd es) (checked_entry H d n i m)"
proof -
  have mount: "looks (\<lambda>es r. \<forall>nd. r = Inr nd \<longrightarrow> (\<exists>x. es = [NamedMount d n (Inr x)] \<and> on_mount m x)
        \<and> nd = entry \<and> nd_device nd = device i)
      (lx_bind (lx_map_err into_port_error (mount_id_at H d n)) (\<lambda>entry_mount.
         if nd_device entry \<noteq> device i \<or> entry_mount \<noteq> m then lx_fail stale_scope else lx_return entry))" for entry
    by (rule looks_ok_bind[OF looks_ok_map_err[OF looks_mount_id_at],
          where Q = "\<lambda>x es nd. es = [] \<and> x = m \<and> nd = entry \<and> nd_device nd = device i"])
      (auto intro!: looks_mono[OF looks_return] looks_mono[OF looks_fail])
  have named: "looks (\<lambda>es r. \<forall>nd. r = Inr nd \<longrightarrow> (\<exists>st x. es = [NamedStat d n (Inr st), NamedMount d n (Inr x)]
        \<and> nd = node_from_stat st \<and> nd_device nd = device i \<and> on_mount m x))
      (lx_bind (lx_map_err into_port_error (node_at H d n)) (\<lambda>entry.
       lx_bind (lx_map_err into_port_error (mount_id_at H d n)) (\<lambda>entry_mount.
         if nd_device entry \<noteq> device i \<or> entry_mount \<noteq> m then lx_fail stale_scope else lx_return entry)))"
    by (rule looks_ok_bind[OF looks_ok_map_err[OF looks_node_at] mount]) auto
  show ?thesis
    unfolding checked_entry_def
    by (rule looks_ok_bind[OF looks_require_directory named]) (auto simp: held_entry_def)
qed

lemma looks_same_entry:
  "looks (\<lambda>es r. \<forall>u. r = Inr u \<longrightarrow> es = [] \<and> node_identity a = node_identity b \<and> nd_kind a = nd_kind b) (same_entry a b)"
  by (auto simp: same_entry_def intro!: looks_mono[OF looks_return] looks_mono[OF looks_fail])

text \<open>A check of the scope: it unlinks nothing, and after it succeeded the scope was verified.\<close>

definition scope_check :: "('h, port_error, unit) lx \<Rightarrow> bool" where
  "scope_check V \<longleftrightarrow> looks (\<lambda>es r. \<forall>u. r = Inr u \<longrightarrow> scope_fresh es) V"

lemma scope_check_ask: "scope_check (lx_ask ScopeVerified c)"
  unfolding scope_check_def
  by (rule looks_mono[OF looks_ok_ask]) (auto simp: scope_fresh_def intro: exI[of _ "[]"])

lemma scope_check_child:
  assumes "scope_check V"
  shows "scope_check (verify_child H d n i m before V)"
proof -
  have again: "looks (\<lambda>es r. \<forall>u. r = Inr u \<longrightarrow> True)
      (lx_bind (checked_entry H d n i m) (\<lambda>named. same_entry named before))"
    by (rule looks_ok_bind[OF looks_checked_entry looks_same_entry]) simp
  show ?thesis
    unfolding scope_check_def verify_child_def
    by (rule looks_ok_bind[OF assms[unfolded scope_check_def] again]) (rule scope_fresh_append)
qed

text \<open>What a deletion does to the trace, \<open>k\<close> being the entries counted before it.\<close>

definition deletes ::
  "file_identity \<Rightarrow> u64 \<Rightarrow> nat \<Rightarrow> 'h linux_run \<Rightarrow> port_error + nat \<Rightarrow> 'h linux_run \<Rightarrow> bool" where
  "deletes root m k s r s' \<longleftrightarrow>
     prefix (lr_trace s) (lr_trace s') \<and> proven_unlinks root m (lr_trace s')
     \<and> (\<forall>n. r = Inr n \<longrightarrow> unlink_count (lr_trace s') + k = unlink_count (lr_trace s) + n)"

definition ready :: "file_identity \<Rightarrow> u64 \<Rightarrow> file_identity set \<Rightarrow> 'h linux_run \<Rightarrow> bool" where
  "ready root m I s \<longleftrightarrow> proven_unlinks root m (lr_trace s) \<and> (\<forall>i \<in> I. in_scope root m (lr_trace s) i)"

lemma ready_quiet: "\<lbrakk>ready root m I s; lr_trace s1 = lr_trace s @ es; no_unlink es\<rbrakk> \<Longrightarrow> ready root m I s1"
  by (auto simp: ready_def intro: proven_unlinks_quiet in_scope_append)

lemma deletes_after_look:
  "\<lbrakk>deletes root m k s1 r s'; lr_trace s1 = lr_trace s @ es; no_unlink es\<rbrakk> \<Longrightarrow> deletes root m k s r s'"
  unfolding deletes_def by (auto elim: append_prefixD)

lemma delete_look:
  fixes f :: "'a \<Rightarrow> ('h, port_error, nat) lx"
  assumes "looks P c" and s: "ready root m I s"
    and f: "\<And>x s1 es. \<lbrakk>lr_trace s1 = lr_trace s @ es; no_unlink es; ready root m I s1; P es (Inr x)\<rbrakk>
      \<Longrightarrow> lwp (f x) (deletes root m k s1) s1"
  shows "lwp (lx_bind c f) (deletes root m k s) s"
  unfolding lwp_simps
proof (rule lwp_mono[OF looksD[OF assms(1)]])
  fix r and s1 :: "'h linux_run" assume "\<exists>es. lr_trace s1 = lr_trace s @ es \<and> no_unlink es \<and> P es r"
  then obtain es where es: "lr_trace s1 = lr_trace s @ es" "no_unlink es" "P es r" by blast
  note s1 = ready_quiet[OF s es(1,2)]
  show "case r of Inl e \<Rightarrow> deletes root m k s (Inl e) s1 | Inr x \<Rightarrow> lwp (f x) (deletes root m k s) s1"
  proof (cases r)
    case (Inl e)
    then show ?thesis using s1 es by (simp add: deletes_def ready_def)
  next
    case (Inr x)
    have "lwp (f x) (deletes root m k s) s1"
      by (rule lwp_mono[OF f]) (use es s1 Inr deletes_after_look in auto)
    then show ?thesis using Inr by simp
  qed
qed

lemma delete_then:
  fixes f :: "nat \<Rightarrow> ('h, port_error, nat) lx"
  assumes "lwp c (deletes root m k s) s" and s: "ready root m I s"
    and f: "\<And>k' s1. \<lbrakk>prefix (lr_trace s) (lr_trace s1); ready root m I s1\<rbrakk> \<Longrightarrow> lwp (f k') (deletes root m k' s1) s1"
  shows "lwp (lx_bind c f) (deletes root m k s) s"
  unfolding lwp_simps
proof (rule lwp_mono[OF assms(1)])
  fix r and s1 :: "'h linux_run" assume d: "deletes root m k s r s1"
  show "case r of Inl e \<Rightarrow> deletes root m k s (Inl e) s1 | Inr x \<Rightarrow> lwp (f x) (deletes root m k s) s1"
  proof (cases r)
    case (Inl e)
    then show ?thesis using d by simp
  next
    case (Inr k')
    have "ready root m I s1" using d s by (auto simp: deletes_def ready_def intro: in_scope_prefix)
    then have "lwp (f k') (deletes root m k s) s1"
      by (rule_tac lwp_mono[OF f]) (use d Inr in \<open>auto simp: deletes_def\<close>)
    then show ?thesis using Inr by simp
  qed
qed

lemma delete_return: "ready root m I s \<Longrightarrow> lwp (lx_return k) (deletes root m k s) s"
  by (simp add: lwp_simps deletes_def ready_def)

lemma delete_fail: "ready root m I s \<Longrightarrow> lwp (lx_fail e) (deletes root m k s) s"
  by (simp add: lwp_simps deletes_def ready_def)

definition good_deletion :: "file_identity \<Rightarrow> u64 \<Rightarrow> 'h deletion \<Rightarrow> bool" where
  "good_deletion root m F \<longleftrightarrow>
     (\<forall>d i V s. scope_check V \<longrightarrow> ready root m {i} s \<longrightarrow> lwp (F d i m V) (deletes root m 0 s) s)"

lemma remove_subdirectory_proven:
  fixes s :: "'h linux_run"
  assumes F: "good_deletion root m F" and V: "scope_check V" and s: "ready root m {node_identity before} s"
  shows "lwp (remove_subdirectory H F d n i m before V removed) (deletes root m removed s) s"
proof -
  let ?b = "node_identity before"
  have finish: "lwp (lx_bind (require_directory H child ?b m) (\<lambda>_. lx_return total)) (deletes root m total s) s"
    if "ready root m {?b} s" for child total and s :: "'h linux_run"
    by (rule delete_look[OF looks_require_directory that], rule delete_return)
  have count: "lwp (lx_bind (checked_add removed inner)
        (\<lambda>total. lx_bind (require_directory H child ?b m) (\<lambda>_. lx_return total))) Q s"
    if "\<And>r s'. deletes root m (removed + inner) s r s' \<Longrightarrow> Q r s'" "\<And>e. Q (Inl e) s" "ready root m {?b} s"
    for inner child Q and s :: "'h linux_run"
    using that lwp_mono[OF finish[OF that(3)]] by (simp add: checked_add_def lwp_simps)
  have inner: "lwp (lx_bind (F child ?b m (verify_child H d n i m before V)) (\<lambda>inner.
        lx_bind (checked_add removed inner) (\<lambda>total.
        lx_bind (require_directory H child ?b m) (\<lambda>_. lx_return total)))) (deletes root m removed s) s"
    if ready: "ready root m {?b} s" for child and s :: "'h linux_run"
    unfolding lwp_bind[of "F child ?b m (verify_child H d n i m before V)"]
  proof (rule lwp_mono)
    show "lwp (F child ?b m (verify_child H d n i m before V)) (deletes root m 0 s) s"
      using F ready scope_check_child[OF V] by (simp add: good_deletion_def)
  next
    fix r and s1 :: "'h linux_run" assume d: "deletes root m 0 s r s1"
    then have s1: "ready root m {?b} s1" using ready by (auto simp: deletes_def ready_def intro: in_scope_prefix)
    have "lwp (lx_bind (checked_add removed k) (\<lambda>total.
        lx_bind (require_directory H child ?b m) (\<lambda>_. lx_return total))) (deletes root m removed s) s1"
      if "r = Inr k" for k
      by (rule count[OF _ _ s1]) (use d that in \<open>auto simp: deletes_def\<close>)
    then show "case r of Inl e \<Rightarrow> deletes root m removed s (Inl e) s1
      | Inr k \<Rightarrow> lwp (lx_bind (checked_add removed k) (\<lambda>total.
        lx_bind (require_directory H child ?b m) (\<lambda>_. lx_return total))) (deletes root m removed s) s1"
      using d by (cases r) (auto simp: deletes_def)
  qed
  show ?thesis
    unfolding remove_subdirectory_def
    by (rule delete_look[OF looks_ok_map_err[OF looks_open_directory] s],
        rule delete_look[OF looks_require_directory], assumption, rule inner)
qed

lemma remove_entry_proven:
  fixes s :: "'h linux_run"
  assumes F: "good_deletion root m F" and V: "scope_check V" and s: "ready root m {i} s"
  shows "lwp (remove_entry H F d i m V removed n) (deletes root m removed s) s"
proof -
  have unlink: "lwp (lx_bind (unlink_entry H d n (nd_kind before = Directory)) (\<lambda>_. checked_add k 1)) (deletes root m k s) s"
    if "ready root m {i} s" "lr_trace s = p @ es" "held_entry m i d n current es" "scope_fresh (p @ es)"
      "nd_kind current = nd_kind before" "nd_kind before \<noteq> Unsupported"
    for k before current p es and s :: "'h linux_run"
  proof -
    have "proven root m (lr_trace s) d n (nd_kind before = Directory)"
      using that provenI[of p es m i d n current root] by (simp add: ready_def)
    then have "proven_unlinks root m (lr_trace s @ [Unlinked d n (nd_kind before = Directory) a])" for a
      using that(1) proven_unlinks_unlink by (simp add: ready_def)
    then show ?thesis
      unfolding unlink_entry_def lwp_simps
      by (intro lwp_ask_any) (auto simp: deletes_def checked_add_def lwp_simps result_simps split: sum.splits)
  qed
  have again: "lwp (lx_bind V (\<lambda>_. lx_bind (checked_entry H d n i m) (\<lambda>current. lx_bind (same_entry current before) (\<lambda>_.
        lx_bind (unlink_entry H d n (nd_kind before = Directory)) (\<lambda>_. checked_add k 1))))) (deletes root m k s) s"
    if "ready root m {i} s" "nd_kind before \<noteq> Unsupported" for k before and s :: "'h linux_run"
  proof (rule delete_look[OF V[unfolded scope_check_def] that(1)],
      rule delete_look[OF looks_checked_entry], assumption, rule delete_look[OF looks_same_entry], assumption)
    fix x current y and s1 s2 s3 :: "'h linux_run" and es1 es2 es3
    assume "\<forall>u. Inr x = Inr u \<longrightarrow> scope_fresh es1" "lr_trace s1 = lr_trace s @ es1"
      "\<forall>nd. Inr current = Inr nd \<longrightarrow> held_entry m i d n nd es2" "lr_trace s2 = lr_trace s1 @ es2" "no_unlink es2"
      "\<forall>u. Inr y = Inr u \<longrightarrow> es3 = [] \<and> node_identity current = node_identity before \<and> nd_kind current = nd_kind before"
      "lr_trace s3 = lr_trace s2 @ es3" "ready root m {i} s3"
    then show "lwp (lx_bind (unlink_entry H d n (nd_kind before = Directory)) (\<lambda>_. checked_add k 1)) (deletes root m k s3) s3"
      using that(2)
      by (intro unlink[of s3 "lr_trace s @ es1" es2 current])
        (simp_all add: scope_fresh_append scope_fresh_prepend)
  qed
  show ?thesis
    unfolding remove_entry_def
  proof (rule delete_look[OF V[unfolded scope_check_def] s],
      rule delete_look[OF looks_require_directory], assumption, rule delete_look[OF looks_checked_entry], assumption)
    fix before es and s1 s2 :: "'h linux_run"
    assume held: "lr_trace s2 = lr_trace s1 @ es" "\<forall>nd. Inr before = Inr nd \<longrightarrow> held_entry m i d n nd es"
      and s2: "ready root m {i} s2"
    have "ready root m {node_identity before} s2" if "nd_kind before = Directory"
      using in_scope.entry[of root m "lr_trace s2" i "lr_trace s1" es "[]" d n before] held s2 that
      by (simp add: ready_def)
    then have "lwp (if nd_kind before = Directory then remove_subdirectory H F d n i m before V removed
        else lx_return removed) (deletes root m removed s2) s2"
      using remove_subdirectory_proven[OF F V] delete_return[OF s2] by simp
    note first_part = this
    have "lwp (lx_bind (if nd_kind before = Directory then remove_subdirectory H F d n i m before V removed
        else lx_return removed) (\<lambda>removed. lx_bind V (\<lambda>_. lx_bind (checked_entry H d n i m) (\<lambda>current.
        lx_bind (same_entry current before) (\<lambda>_. lx_bind (unlink_entry H d n (nd_kind before = Directory)) (\<lambda>_.
          checked_add removed 1)))))) (deletes root m removed s2) s2" if "nd_kind before \<noteq> Unsupported"
      by (rule delete_then[OF first_part s2]) (rule again[OF _ that])
    then show "lwp (if nd_kind before = Unsupported
        then lx_fail (port_error_new port_error_kind.InvalidLayout
               ''unsupported special entry in Workspace deletion scope'')
        else lx_bind (if nd_kind before = Directory then remove_subdirectory H F d n i m before V removed
        else lx_return removed) (\<lambda>removed. lx_bind V (\<lambda>_. lx_bind (checked_entry H d n i m) (\<lambda>current.
        lx_bind (same_entry current before) (\<lambda>_. lx_bind (unlink_entry H d n (nd_kind before = Directory)) (\<lambda>_.
          checked_add removed 1)))))) (deletes root m removed s2) s2"
      using delete_fail[OF s2] by (cases "nd_kind before = Unsupported") (simp_all only: if_True if_False simp_thms)
  qed
qed

lemma remove_entries_proven:
  fixes s :: "'h linux_run"
  assumes F: "good_deletion root m F" and V: "scope_check V"
  shows "ready root m {i} s \<Longrightarrow> lwp (remove_entries H F d i m V removed names) (deletes root m removed s) s"
proof (induction names arbitrary: removed s)
  case Nil
  then show ?case by (simp add: delete_return)
next
  case (Cons n names)
  show ?case
    unfolding remove_entries.simps
    by (rule delete_then[OF remove_entry_proven[OF F V Cons.prems] Cons.prems]) (rule Cons.IH)
qed

lemma looks_sync_emptied: "looks (\<lambda>es r. True) (sync_emptied H d)"
  unfolding sync_emptied_def by (rule looks_mono[OF looks_map_err[OF looks_ask]]) auto

lemma remove_directory_contents_proven:
  fixes H :: "'h linux_host"
  shows "good_deletion root m (remove_directory_contents H depth)"
proof (induction H depth rule: remove_directory_contents.induct)
  case (1 H depth)
  show ?case
  proof (cases "MAX_DELETE_DEPTH < depth")
    case True
    then show ?thesis
      by (auto simp: good_deletion_def remove_directory_contents.simps[of H depth] intro: delete_fail)
  next
    case False
    note inner = 1[OF False]
    show ?thesis
      unfolding good_deletion_def
    proof (intro allI impI)
      fix d i and V :: "('h, port_error, unit) lx" and s :: "'h linux_run" assume V: "scope_check V" and s: "ready root m {i} s"
      have finish: "lwp (lx_bind V (\<lambda>_. lx_bind (require_directory H d i m) (\<lambda>_.
          lx_bind (lx_map_err into_port_error (directory_names H d)) (\<lambda>left.
            if left \<noteq> [] then lx_fail (port_error_new port_error_kind.NotEmpty ''Workspace directory changed during deletion'')
            else lx_bind (sync_emptied H d) (\<lambda>_. lx_return k))))) (deletes root m k s) s"
        if "ready root m {i} s" for k and s :: "'h linux_run"
        by (rule delete_look[OF V[unfolded scope_check_def] that],
            rule delete_look[OF looks_require_directory], assumption,
            rule delete_look[OF looks_ok_map_err[OF looks_directory_names]], assumption)
          (auto intro: delete_fail delete_look[OF looks_sync_emptied] delete_return)
      show "lwp (remove_directory_contents H depth d i m V) (deletes root m 0 s) s"
        unfolding remove_directory_contents.simps[of H depth] if_not_P[OF False]
        by (rule delete_look[OF looks_require_directory s],
            rule delete_look[OF looks_ok_map_err[OF looks_directory_names]], assumption,
            rule delete_then[OF remove_entries_proven[OF inner V]], assumption+, rule finish)
    qed
  qed
qed

text \<open>
  C10.  A deletion comes back, on every host, and unlinks only what is proven.  Each unlink of
  the run is preceded at once by the observation that its directory is the one expected, on the
  expected mount, and that its entry is a file, a link or a directory of the same device and
  mount; the directory was reached from the root through such entries; the scope was verified
  since the unlink before; and a successful answer is the number of entries unlinked.
\<close>

theorem deletion_stays_in_scope:
  "lwp (remove_root_contents H d root m (lx_ask ScopeVerified verify))
     (\<lambda>r s'. proven_unlinks root m (lr_trace s')
        \<and> (case r of Inl e \<Rightarrow> True | Inr n \<Rightarrow> n = unlink_count (lr_trace s')))
     \<lparr>lr_host = h, lr_trace = []\<rparr>"
proof -
  let ?s = "\<lparr>lr_host = h, lr_trace = []\<rparr>"
  have s: "ready root m {root} ?s" by (simp add: ready_def proven_unlinks_def in_scope.root)
  have "lwp (remove_root_contents H d root m (lx_ask ScopeVerified verify)) (deletes root m 0 ?s) ?s"
    unfolding remove_root_contents_def
    by (rule delete_look[OF scope_check_ask[unfolded scope_check_def] s],
        rule delete_look[OF looks_require_directory], assumption)
      (use remove_directory_contents_proven[of root m H 0] in \<open>simp add: good_deletion_def scope_check_ask\<close>)
  then show ?thesis by (rule lwp_mono) (auto simp: deletes_def split: sum.splits)
qed

end
