(* ===== verification/Linux_Tree.thy ===== *)
theory Linux_Tree
  imports Linux_Host
begin

text \<open>
  Snapshots of a tree and their manifests: \<open>thinws-adapter-linux/src/tree.rs\<close>.  A materialization
  succeeds only when the manifest of the copy matches that of the source, and receipts carry its
  digest.  BLAKE3 is a parameter, a function of the bytes fed to the hasher; a read may go on for
  ever, and so may the nesting of directories, so a snapshot may not return.

  What is shown: the totals of a manifest are those of its entries; the bytes that are hashed
  determine every promised field of it.
\<close>

subsection \<open>Manifests\<close>

record manifest_entry =
  me_path :: bytes
  me_kind :: node_kind
  me_mode :: "32 word option"
  me_mtime :: "(u64 \<times> u64) option"
  me_length :: u64
  me_digest :: "bytes option"

record tree_manifest =
  tm_root_mode :: "32 word"
  tm_root_mtime :: "u64 \<times> u64"
  tm_entries :: "manifest_entry list"
  tm_regular_files :: u64
  tm_logical_bytes :: u64
  tm_physical_bytes :: u64

record snapshot_entry =
  se_node :: node
  se_link_text :: "bytes option"
  se_content_digest :: "bytes option"

record tree_snapshot =
  ts_root :: node
  ts_entries :: "bytes \<rightharpoonup> snapshot_entry"
  ts_manifest :: tree_manifest

definition matches_promised :: "tree_manifest \<Rightarrow> tree_manifest \<Rightarrow> bool" where
  "matches_promised m source \<longleftrightarrow>
     tm_root_mode m = tm_root_mode source \<and> tm_root_mtime m = tm_root_mtime source
     \<and> tm_entries m = tm_entries source \<and> tm_regular_files m = tm_regular_files source
     \<and> tm_logical_bytes m = tm_logical_bytes source"

subsection \<open>The bytes that are hashed\<close>

definition le_bytes :: "nat \<Rightarrow> nat \<Rightarrow> bytes" where
  "le_bytes k n = map (\<lambda>i. char_of (n div 256 ^ i mod 256)) [0..<k]"

definition update_bytes :: "bytes \<Rightarrow> bytes" where
  "update_bytes bs = le_bytes 8 (length bs mod 2 ^ 64) @ bs"

definition update_time :: "u64 \<times> u64 \<Rightarrow> bytes" where
  "update_time = (\<lambda>(seconds, nanoseconds). le_bytes 8 (unat seconds) @ le_bytes 8 (unat nanoseconds))"

fun kind_code :: "node_kind \<Rightarrow> nat" where
  "kind_code Directory = 1"
| "kind_code File = 2"
| "kind_code Symlink = 3"
| "kind_code Unsupported = 255"

fun update_option :: "('a \<Rightarrow> bytes) \<Rightarrow> 'a option \<Rightarrow> bytes" where
  "update_option f (Some x) = char_of (1 :: nat) # f x"
| "update_option f None = [char_of (0 :: nat)]"

definition entry_bytes :: "manifest_entry \<Rightarrow> bytes" where
  "entry_bytes e =
     update_bytes (me_path e) @ [char_of (kind_code (me_kind e))]
     @ update_option (\<lambda>mode. le_bytes 4 (unat mode)) (me_mode e)
     @ update_option update_time (me_mtime e)
     @ le_bytes 8 (unat (me_length e))
     @ update_option (\<lambda>digest. digest) (me_digest e)"

definition manifest_bytes :: "tree_manifest \<Rightarrow> bytes" where
  "manifest_bytes m =
     ''thinws-tree-manifest-v1'' @ [NUL] @ le_bytes 4 (unat (tm_root_mode m)) @ update_time (tm_root_mtime m)
     @ concat (map entry_bytes (tm_entries m))"

definition manifest_digest :: "(bytes \<Rightarrow> bytes) \<Rightarrow> tree_manifest \<Rightarrow> tree_digest" where
  "manifest_digest blake3 m = TreeDigest (blake3 (manifest_bytes m))"

subsection \<open>Reading a tree\<close>

definition saturating_add :: "u64 \<Rightarrow> u64 \<Rightarrow> u64" where
  "saturating_add a b = (if unat a + unat b < 2 ^ 64 then a + b else - 1)"

definition saturating_mul :: "u64 \<Rightarrow> u64 \<Rightarrow> u64" where
  "saturating_mul a b = (if unat a * unat b < 2 ^ 64 then a * b else - 1)"

definition file_snapshot_matches :: "node \<Rightarrow> node \<Rightarrow> u64 \<Rightarrow> bool" where
  "file_snapshot_matches current expected len = (current = expected \<and> len = nd_size expected)"

text \<open>The loop of \<open>digest_file\<close>: the hasher is the bytes it was fed.\<close>

partial_function (option) digest_loop ::
  "'h linux_host \<Rightarrow> fd \<Rightarrow> bytes \<Rightarrow> u64 \<Rightarrow> ('h, tree_failure, bytes \<times> u64) lx" where
  "digest_loop H file fed len s =
     (case lx_map_err (tree_failure_io H ''read tree file'') (lx_ask (FileRead file) (lh_read H file (64 * 1024))) s of
        None \<Rightarrow> None
      | Some (Inl e, s') \<Rightarrow> Some (Inl e, s')
      | Some (Inr chunk, s') \<Rightarrow>
          (if chunk = [] then Some (Inr (fed, len), s')
           else digest_loop H file (fed @ chunk) (saturating_add len (of_nat (length chunk))) s'))"

definition digest_file ::
  "'h linux_host \<Rightarrow> (bytes \<Rightarrow> bytes) \<Rightarrow> fd \<Rightarrow> node \<Rightarrow> ('h, tree_failure, u64 \<times> bytes) lx" where
  "digest_file H blake3 file expected =
     lx_bind (node_of H file) (\<lambda>opened.
       if opened \<noteq> expected then lx_fail source_changed
       else
         lx_bind (digest_loop H file [] 0) (\<lambda>(fed, len).
         lx_bind (node_of H file) (\<lambda>current.
           if \<not> file_snapshot_matches current expected len then lx_fail source_changed
           else lx_return (len, blake3 fed))))"

definition child_path :: "bytes \<Rightarrow> bytes \<Rightarrow> bytes" where
  "child_path parent name = (if parent \<noteq> [] then parent @ ''/'' else parent) @ name"

text \<open>\<open>entries.insert\<close> and \<open>manifest.entries.push\<close> at the end of the loop body.\<close>

definition push_entry :: "snapshot_entry \<Rightarrow> manifest_entry \<Rightarrow> tree_snapshot \<Rightarrow> tree_snapshot" where
  "push_entry entry e snap =
     snap\<lparr>ts_entries := (ts_entries snap)(me_path e \<mapsto> entry),
          ts_manifest := (ts_manifest snap)\<lparr>tm_entries := tm_entries (ts_manifest snap) @ [e]\<rparr>\<rparr>"

definition count_file :: "u64 \<Rightarrow> u64 \<Rightarrow> tree_snapshot \<Rightarrow> tree_snapshot" where
  "count_file len blocks snap =
     (let m = ts_manifest snap in
      snap\<lparr>ts_manifest :=
        m\<lparr>tm_regular_files := saturating_add (tm_regular_files m) 1,
          tm_logical_bytes := saturating_add (tm_logical_bytes m) len,
          tm_physical_bytes := saturating_add (tm_physical_bytes m) (saturating_mul blocks 512)\<rparr>\<rparr>)"

definition snapshot_file ::
  "'h linux_host \<Rightarrow> (bytes \<Rightarrow> bytes) \<Rightarrow> fd \<Rightarrow> bytes \<Rightarrow> bytes \<Rightarrow> node \<Rightarrow> tree_snapshot
   \<Rightarrow> ('h, tree_failure, tree_snapshot) lx" where
  "snapshot_file H blake3 d name path before snap =
     lx_bind (open_file H d name) (\<lambda>file.
     lx_bind (digest_file H blake3 file before) (\<lambda>(len, digest).
       lx_return
         (push_entry \<lparr>se_node = before, se_link_text = None, se_content_digest = Some digest\<rparr>
            \<lparr>me_path = path, me_kind = nd_kind before, me_mode = Some (nd_mode before),
             me_mtime = Some (node_mtime before), me_length = len, me_digest = Some digest\<rparr>
            (count_file len (nd_blocks before) snap))))"

definition snapshot_symlink ::
  "'h linux_host \<Rightarrow> (bytes \<Rightarrow> bytes) \<Rightarrow> fd \<Rightarrow> bytes \<Rightarrow> bytes \<Rightarrow> node \<Rightarrow> tree_snapshot
   \<Rightarrow> ('h, tree_failure, tree_snapshot) lx" where
  "snapshot_symlink H blake3 d name path before snap =
     lx_bind
       (lx_map_err (tree_failure_io H ''read tree symbolic link'') (lx_ask (LinkRead d name) (lh_readlink H d name)))
       (\<lambda>link.
          lx_bind (node_at H d name) (\<lambda>after.
            if after \<noteq> before then lx_fail source_changed
            else
              (let digest = blake3 link in
               lx_return
                 (push_entry \<lparr>se_node = before, se_link_text = Some link, se_content_digest = Some digest\<rparr>
                    \<lparr>me_path = path, me_kind = nd_kind before, me_mode = None, me_mtime = None,
                     me_length = of_nat (length link), me_digest = Some digest\<rparr> snap))))"

definition snapshot_inspect ::
  "'h linux_host \<Rightarrow> fd \<Rightarrow> bytes \<Rightarrow> u64 \<Rightarrow> ('h, tree_failure, node) lx" where
  "snapshot_inspect H d name root_mount =
     lx_bind (node_at H d name) (\<lambda>before.
     lx_bind (mount_id_at H d name) (\<lambda>entry_mount.
       if entry_mount \<noteq> root_mount
       then lx_fail (tree_failure_new UnsupportedSourceEntry port_error_kind.InvalidLayout ''reject tree submount'')
       else lx_return before))"

definition snapshot_open ::
  "'h linux_host \<Rightarrow> fd \<Rightarrow> bytes \<Rightarrow> u64 \<Rightarrow> node \<Rightarrow> ('h, tree_failure, fd) lx" where
  "snapshot_open H d name root_mount before =
     lx_bind (open_directory H d name) (\<lambda>child.
     lx_bind (node_of H child) (\<lambda>opened.
       if opened \<noteq> before then lx_fail source_changed
       else
         lx_bind (mount_id H child) (\<lambda>child_mount.
           if child_mount \<noteq> root_mount then lx_fail source_changed else lx_return child)))"

definition snapshot_close ::
  "'h linux_host \<Rightarrow> fd \<Rightarrow> bytes \<Rightarrow> node \<Rightarrow> tree_snapshot \<Rightarrow> ('h, tree_failure, tree_snapshot) lx" where
  "snapshot_close H child path before snap =
     lx_bind (node_of H child) (\<lambda>after.
       if after \<noteq> before then lx_fail source_changed
       else lx_return
         (push_entry \<lparr>se_node = before, se_link_text = None, se_content_digest = None\<rparr>
            \<lparr>me_path = path, me_kind = nd_kind before, me_mode = Some (nd_mode before),
             me_mtime = Some (node_mtime before), me_length = 0, me_digest = None\<rparr> snap))"

definition snapshot_unsupported :: "('h, tree_failure, tree_snapshot) lx" where
  "snapshot_unsupported =
     lx_fail (tree_failure_new UnsupportedSourceEntry port_error_kind.InvalidData ''reject unsupported tree entry'')"

lemma lx_bind_mono [partial_function_mono]:
  assumes "\<And>s. mono_option (\<lambda>g. m g s)" "\<And>x s. mono_option (\<lambda>g. k g x s)"
  shows "mono_option (\<lambda>g. lx_bind (m g) (k g) s)"
proof -
  define next_step where
    "next_step g y = (case y of (Inl e, s') \<Rightarrow> Some (Inl e, s') | (Inr x, s') \<Rightarrow> k g x s')" for g y
  have "mono_option (\<lambda>g. next_step g y)" for y
    using assms(2) by (cases y; cases "fst y") (auto simp: next_step_def monotone_def flat_ord_def)
  then have "mono_option (\<lambda>g. Option.bind (m g s) (next_step g))"
    by (rule bind_mono[OF assms(1)])
  moreover have "lx_bind (m g) (k g) s = Option.bind (m g s) (next_step g)" for g
    by (auto simp: lx_bind_def next_step_def split: option.splits prod.splits sum.splits)
  ultimately show ?thesis by simp
qed

text \<open>The loop of \<open>snapshot_directory_with_hook\<close> over the names of a directory; the hook of the tests is left out.\<close>

partial_function (option) snapshot_names ::
  "'h linux_host \<Rightarrow> (bytes \<Rightarrow> bytes) \<Rightarrow> fd \<Rightarrow> bytes \<Rightarrow> u64 \<Rightarrow> bytes list \<Rightarrow> tree_snapshot
   \<Rightarrow> ('h, tree_failure, tree_snapshot) lx" where
  "snapshot_names H blake3 d parent root_mount names snap s =
     (case names of
        [] \<Rightarrow> lx_return snap s
      | name # rest \<Rightarrow>
          lx_bind (snapshot_inspect H d name root_mount) (\<lambda>before.
          lx_bind
            (case nd_kind before of
               Directory \<Rightarrow>
                 lx_bind (snapshot_open H d name root_mount before) (\<lambda>child.
                 lx_bind (directory_names H child) (\<lambda>inner.
                 lx_bind (\<lambda>s. snapshot_names H blake3 child (child_path parent name) root_mount inner snap s)
                   (snapshot_close H child (child_path parent name) before)))
             | File \<Rightarrow> snapshot_file H blake3 d name (child_path parent name) before snap
             | Symlink \<Rightarrow> snapshot_symlink H blake3 d name (child_path parent name) before snap
             | Unsupported \<Rightarrow> snapshot_unsupported)
            (\<lambda>snap s. snapshot_names H blake3 d parent root_mount rest snap s)) s)"

definition snapshot ::
  "'h linux_host \<Rightarrow> (bytes \<Rightarrow> bytes) \<Rightarrow> fd \<Rightarrow> ('h, tree_failure, tree_snapshot) lx" where
  "snapshot H blake3 root =
     lx_bind (node_of H root) (\<lambda>before.
       if nd_kind before \<noteq> Directory
       then lx_fail (tree_failure_new materialization_failure_kind.InvalidLayout port_error_kind.InvalidLayout
              ''require tree root directory'')
       else
         lx_bind (mount_id H root) (\<lambda>root_mount.
         lx_bind (directory_names H root) (\<lambda>names.
         lx_bind
           (snapshot_names H blake3 root [] root_mount names
              \<lparr>ts_root = before, ts_entries = Map.empty,
               ts_manifest =
                 \<lparr>tm_root_mode = nd_mode before, tm_root_mtime = node_mtime before, tm_entries = [],
                  tm_regular_files = 0, tm_logical_bytes = 0, tm_physical_bytes = 0\<rparr>\<rparr>) (\<lambda>snap.
         lx_bind (node_of H root) (\<lambda>after.
           if after \<noteq> before then lx_fail source_changed else lx_return snap)))))"

subsection \<open>Prefix codes\<close>

text \<open>
  The interface of an encoding that can be read off the front of a stream: what the hasher is fed
  has no separators.
\<close>

locale prefix_code =
  fixes enc :: "'a \<Rightarrow> bytes"
    and ok :: "'a \<Rightarrow> bool"
  assumes split_front: "\<lbrakk>ok x; ok y; enc x @ us = enc y @ vs\<rbrakk> \<Longrightarrow> x = y \<and> us = vs"
begin

lemma enc_inject: "ok x \<Longrightarrow> ok y \<Longrightarrow> enc x = enc y \<Longrightarrow> x = y"
  using split_front[of x y "[]" "[]"] by simp

lemma stream_inject:
  assumes "\<And>x. enc x \<noteq> []"
  shows "\<lbrakk>list_all ok xs; list_all ok ys; concat (map enc xs) = concat (map enc ys)\<rbrakk> \<Longrightarrow> xs = ys"
proof (induction xs arbitrary: ys)
  case Nil
  then show ?case using assms by (cases ys) auto
next
  case (Cons x xs)
  have "concat (map enc (x # xs)) \<noteq> []" using assms by simp
  then have "ys \<noteq> []" using Cons.prems(3) by auto
  then obtain y zs where ys: "ys = y # zs" by (cases ys) blast+
  have front: "enc x @ concat (map enc xs) = enc y @ concat (map enc zs)" using Cons.prems(3) ys by simp
  have ok: "ok x" "ok y" "list_all ok xs" "list_all ok zs" using Cons.prems(1,2) ys by simp_all
  have "x = y \<and> concat (map enc xs) = concat (map enc zs)" by (rule split_front[OF ok(1,2) front])
  then show ?case using Cons.IH[OF ok(3,4)] ys by blast
qed

end

lemma fixed_width_code:
  assumes "\<And>x. ok x \<Longrightarrow> length (enc x) = n" "\<And>x y. \<lbrakk>ok x; ok y; enc x = enc y\<rbrakk> \<Longrightarrow> x = y"
  shows "prefix_code enc ok"
proof unfold_locales
  fix x y us vs assume "ok x" "ok y" "enc x @ us = enc y @ vs"
  moreover from this have "length (enc x) = length (enc y)" using assms(1) by simp
  ultimately show "x = y \<and> us = vs" using assms(2) by simp
qed

lemma option_code:
  assumes "prefix_code f ok"
  shows "prefix_code (update_option f) (pred_option ok)"
proof unfold_locales
  fix x y us vs assume xy: "pred_option ok x" "pred_option ok y" "update_option f x @ us = update_option f y @ vs"
  show "x = y \<and> us = vs"
  proof (cases x)
    case None
    then show ?thesis using xy(3) by (cases y) auto
  next
    case (Some a)
    then obtain b where b: "y = Some b" using xy(3) by (cases y) auto
    then have "f a @ us = f b @ vs" using xy(3) Some by simp
    then have "a = b \<and> us = vs" using prefix_code.split_front[OF assms, of a b us vs] xy(1,2) Some b by (simp only: option.pred_inject)
    then show ?thesis using Some b by simp
  qed
qed

lemma length_le_bytes [simp]: "length (le_bytes k n) = k"
  by (simp add: le_bytes_def)

lemma le_bytes_Suc: "le_bytes (Suc k) n = char_of (n mod 256) # le_bytes k (n div 256)"
proof -
  have "[0..<Suc k] = 0 # map Suc [0..<k]" by (simp only: upt_conv_Cons map_Suc_upt zero_less_Suc)
  then show ?thesis by (simp add: le_bytes_def div_mult2_eq o_def)
qed

lemma le_bytes_inject: "\<lbrakk>n < 256 ^ k; n' < 256 ^ k; le_bytes k n = le_bytes k n'\<rbrakk> \<Longrightarrow> n = n'"
proof (induction k arbitrary: n n')
  case (Suc k)
  have "n mod 256 = n' mod 256" using Suc.prems(3) by (auto simp: le_bytes_Suc dest!: arg_cong[where f = "of_char :: char \<Rightarrow> nat"])
  moreover have "n div 256 = n' div 256"
    using Suc.prems by (intro Suc.IH) (auto simp: le_bytes_Suc less_mult_imp_div_less)
  ultimately show ?case by (metis div_mult_mod_eq)
qed simp

interpretation mode_code: prefix_code "\<lambda>w :: 32 word. le_bytes 4 (unat w)" "\<lambda>_. True"
proof (rule fixed_width_code[where n = 4])
  fix x y :: "32 word" assume "le_bytes 4 (unat x) = le_bytes 4 (unat y)"
  then have "unat x = unat y"
    using le_bytes_inject[of "unat x" 4 "unat y"] unsigned_less[of x] unsigned_less[of y] by simp
  then show "x = y" by (rule unsigned_word_eqI)
qed simp

interpretation word_code: prefix_code "\<lambda>w :: u64. le_bytes 8 (unat w)" "\<lambda>_. True"
proof (rule fixed_width_code[where n = 8])
  fix x y :: u64 assume "le_bytes 8 (unat x) = le_bytes 8 (unat y)"
  then have "unat x = unat y"
    using le_bytes_inject[of "unat x" 8 "unat y"] unsigned_less[of x] unsigned_less[of y] by simp
  then show "x = y" by (rule unsigned_word_eqI)
qed simp

interpretation time_code: prefix_code update_time "\<lambda>_. True"
  by unfold_locales (auto simp: update_time_def dest: word_code.enc_inject[OF TrueI TrueI])

interpretation path_code: prefix_code update_bytes "\<lambda>bs. length bs < 2 ^ 64"
proof unfold_locales
  fix x y us vs assume xy: "length x < 2 ^ 64" "length y < 2 ^ 64" "update_bytes x @ us = update_bytes y @ vs"
  then have e: "le_bytes 8 (length x) = le_bytes 8 (length y)" "x @ us = y @ vs"
    by (auto simp: update_bytes_def)
  then have "length x = length y" using le_bytes_inject[of "length x" 8 "length y"] xy by simp
  then show "x = y \<and> us = vs" using e by simp
qed

interpretation kind_code: prefix_code "\<lambda>k. [char_of (kind_code k)]" "\<lambda>_. True"
proof (rule fixed_width_code[where n = 1])
  fix x y :: node_kind assume "[char_of (kind_code x)] = [char_of (kind_code y) :: char]"
  then show "x = y" by (cases x; cases y) (auto simp: char_of_eq_iff)
qed simp

interpretation hash_code: prefix_code "\<lambda>digest. digest" "\<lambda>digest. length digest = 32"
  by (rule fixed_width_code[where n = 32]) auto

text \<open>The entries a hasher tells apart: paths a machine can hold, and digests of 32 bytes.\<close>

definition entry_ok :: "manifest_entry \<Rightarrow> bool" where
  "entry_ok e \<longleftrightarrow> length (me_path e) < 2 ^ 64 \<and> pred_option (\<lambda>d. length d = 32) (me_digest e)"

interpretation entry_code: prefix_code entry_bytes entry_ok
proof unfold_locales
  fix x y us vs assume "entry_ok x" "entry_ok y" and eq: "entry_bytes x @ us = entry_bytes y @ vs"
  then have ok: "length (me_path x) < 2 ^ 64" "length (me_path y) < 2 ^ 64"
    "pred_option (\<lambda>d. length d = 32) (me_digest x)" "pred_option (\<lambda>d. length d = 32) (me_digest y)"
    by (auto simp: entry_ok_def)
  note opt = prefix_code.split_front[OF option_code]
  note path_code.split_front[OF ok(1,2) eq[unfolded entry_bytes_def append_assoc]]
  then have path: "me_path x = me_path y"
    and rest1: "[char_of (kind_code (me_kind x))] @ update_option (\<lambda>mode. le_bytes 4 (unat mode)) (me_mode x)
      @ update_option update_time (me_mtime x) @ le_bytes 8 (unat (me_length x)) @ update_option (\<lambda>d. d) (me_digest x) @ us
    = [char_of (kind_code (me_kind y))] @ update_option (\<lambda>mode. le_bytes 4 (unat mode)) (me_mode y)
      @ update_option update_time (me_mtime y) @ le_bytes 8 (unat (me_length y)) @ update_option (\<lambda>d. d) (me_digest y) @ vs"
    by (simp_all only: append_assoc)
  from kind_code.split_front[OF TrueI TrueI rest1]
  have kind: "me_kind x = me_kind y"
    and rest2: "update_option (\<lambda>mode. le_bytes 4 (unat mode)) (me_mode x)
      @ update_option update_time (me_mtime x) @ le_bytes 8 (unat (me_length x)) @ update_option (\<lambda>d. d) (me_digest x) @ us
    = update_option (\<lambda>mode. le_bytes 4 (unat mode)) (me_mode y)
      @ update_option update_time (me_mtime y) @ le_bytes 8 (unat (me_length y)) @ update_option (\<lambda>d. d) (me_digest y) @ vs"
    by auto
  from opt[OF mode_code.prefix_code_axioms _ _ rest2]
  have mode: "me_mode x = me_mode y"
    and rest3: "update_option update_time (me_mtime x) @ le_bytes 8 (unat (me_length x)) @ update_option (\<lambda>d. d) (me_digest x) @ us
    = update_option update_time (me_mtime y) @ le_bytes 8 (unat (me_length y)) @ update_option (\<lambda>d. d) (me_digest y) @ vs"
    by (auto simp: option.pred_True)
  from opt[OF time_code.prefix_code_axioms _ _ rest3]
  have mtime: "me_mtime x = me_mtime y"
    and rest4: "le_bytes 8 (unat (me_length x)) @ update_option (\<lambda>d. d) (me_digest x) @ us
    = le_bytes 8 (unat (me_length y)) @ update_option (\<lambda>d. d) (me_digest y) @ vs"
    by (auto simp: option.pred_True)
  from word_code.split_front[OF TrueI TrueI rest4] opt[OF hash_code.prefix_code_axioms ok(3,4)]
  have "me_length x = me_length y" "me_digest x = me_digest y \<and> us = vs" by blast+
  with path kind mode mtime show "x = y \<and> us = vs" by (cases x; cases y) simp
qed

lemma entry_bytes_not_Nil: "entry_bytes e \<noteq> []"
  by (simp add: entry_bytes_def)

lemma manifest_bytes_inject:
  assumes "list_all entry_ok (tm_entries a)" "list_all entry_ok (tm_entries b)"
    "manifest_bytes a = manifest_bytes b"
  shows "tm_root_mode a = tm_root_mode b \<and> tm_root_mtime a = tm_root_mtime b \<and> tm_entries a = tm_entries b"
proof -
  have rest: "le_bytes 4 (unat (tm_root_mode a)) @ update_time (tm_root_mtime a) @ concat (map entry_bytes (tm_entries a))
    = le_bytes 4 (unat (tm_root_mode b)) @ update_time (tm_root_mtime b) @ concat (map entry_bytes (tm_entries b))"
    using assms(3) by (simp add: manifest_bytes_def)
  note mode = mode_code.split_front[OF TrueI TrueI rest]
  then have "tm_root_mtime a = tm_root_mtime b
      \<and> concat (map entry_bytes (tm_entries a)) = concat (map entry_bytes (tm_entries b))"
    by (intro time_code.split_front) auto
  then show ?thesis using mode entry_code.stream_inject[OF entry_bytes_not_Nil assms(1,2)] by blast
qed

subsection \<open>The totals of a snapshot\<close>

definition counted_files :: "manifest_entry list \<Rightarrow> u64" where
  "counted_files es = foldl (\<lambda>n e. if me_kind e = File then saturating_add n 1 else n) 0 es"

definition counted_bytes :: "manifest_entry list \<Rightarrow> u64" where
  "counted_bytes es = foldl (\<lambda>n e. if me_kind e = File then saturating_add n (me_length e) else n) 0 es"

text \<open>The totals are those of the entries, which are files, directories and links with their digests.\<close>

definition coherent :: "(bytes \<Rightarrow> bytes) \<Rightarrow> tree_manifest \<Rightarrow> bool" where
  "coherent blake3 m \<longleftrightarrow>
     tm_regular_files m = counted_files (tm_entries m) \<and> tm_logical_bytes m = counted_bytes (tm_entries m)
     \<and> list_all (\<lambda>e. me_kind e \<noteq> Unsupported \<and> pred_option (\<lambda>d. d \<in> range blake3) (me_digest e)) (tm_entries m)"

lemma counted_snoc [simp]:
  "counted_files (es @ [e]) = (if me_kind e = File then saturating_add (counted_files es) 1 else counted_files es)"
  "counted_bytes (es @ [e]) = (if me_kind e = File then saturating_add (counted_bytes es) (me_length e) else counted_bytes es)"
  by (simp_all add: counted_files_def counted_bytes_def)

text \<open>What a step that returns successfully is known to have returned.\<close>

definition brings :: "('a \<Rightarrow> bool) \<Rightarrow> ('h, 'e, 'a) lx \<Rightarrow> bool" where
  "brings P m \<longleftrightarrow> (\<forall>s s' x. m s = Some (Inr x, s') \<longrightarrow> P x)"

lemma brings_bind:
  "\<lbrakk>brings P m; \<And>x. P x \<Longrightarrow> brings Q (f x)\<rbrakk> \<Longrightarrow> brings Q (lx_bind m f)"
  unfolding brings_def lx_bind_def by (fastforce split: option.splits prod.splits sum.splits)

lemma brings_any: "brings (\<lambda>_. True) m"
  by (simp add: brings_def)

lemma brings_bind_any: "(\<And>x. brings Q (f x)) \<Longrightarrow> brings Q (lx_bind m f)"
  by (rule brings_bind[OF brings_any])

lemma brings_return [simp]: "brings P (lx_return x) \<longleftrightarrow> P x"
  by (auto simp: brings_def lx_return_def)

lemma brings_fail [simp]: "brings P (lx_fail e)"
  by (simp add: brings_def lx_fail_def)

lemma brings_mono: "brings P m \<Longrightarrow> (\<And>x. P x \<Longrightarrow> Q x) \<Longrightarrow> brings Q m"
  by (auto simp: brings_def)

lemma digest_file_yields: "brings (\<lambda>(len, digest). digest \<in> range B) (digest_file H B file expected)"
  unfolding digest_file_def by (intro brings_bind_any) (auto intro!: brings_bind_any split: prod.splits)

lemma snapshot_file_coherent:
  assumes "coherent B (ts_manifest snap)" "nd_kind before = File"
  shows "brings (\<lambda>snap'. coherent B (ts_manifest snap')) (snapshot_file H B d name path before snap)"
  unfolding snapshot_file_def
  by (rule brings_bind_any, rule brings_bind[OF digest_file_yields])
    (use assms in \<open>auto simp: coherent_def push_entry_def count_file_def Let_def\<close>)

lemma snapshot_symlink_coherent:
  assumes "coherent B (ts_manifest snap)" "nd_kind before = Symlink"
  shows "brings (\<lambda>snap'. coherent B (ts_manifest snap')) (snapshot_symlink H B d name path before snap)"
  unfolding snapshot_symlink_def
  by (intro brings_bind_any) (use assms in \<open>auto simp: coherent_def push_entry_def Let_def\<close>)

lemma snapshot_close_coherent:
  assumes "coherent B (ts_manifest snap)" "nd_kind before = Directory"
  shows "brings (\<lambda>snap'. coherent B (ts_manifest snap')) (snapshot_close H child path before snap)"
  unfolding snapshot_close_def
  by (intro brings_bind_any) (use assms in \<open>auto simp: coherent_def push_entry_def\<close>)

lemma snapshot_names_coherent:
  assumes "snapshot_names H B d parent root_mount names snap s = Some (r, s')" "coherent B (ts_manifest snap)"
    "r = Inr snap'"
  shows "coherent B (ts_manifest snap')"
proof -
  let ?P = "\<lambda>H B d parent root_mount names snap s y.
    coherent B (ts_manifest snap) \<longrightarrow> (\<forall>snap' s'. y = (Inr snap', s') \<longrightarrow> coherent B (ts_manifest snap'))"
  have "?P H B d parent root_mount names snap s (r, s')"
  proof (rule snapshot_names.raw_induct[of ?P, OF _ assms(1)], intro impI allI)
    fix F :: "'a linux_host \<Rightarrow> (bytes \<Rightarrow> bytes) \<Rightarrow> fd \<Rightarrow> bytes \<Rightarrow> u64 \<Rightarrow> bytes list \<Rightarrow> tree_snapshot
        \<Rightarrow> ('a, tree_failure, tree_snapshot) lx"
      and H B d parent root_mount names snap s y snap' s'
    assume IH: "\<And>H B d parent root_mount names snap s y.
        F H B d parent root_mount names snap s = Some y \<Longrightarrow> ?P H B d parent root_mount names snap s y"
      and body: "(case names of [] \<Rightarrow> lx_return snap s | name # rest \<Rightarrow>
          lx_bind (snapshot_inspect H d name root_mount) (\<lambda>before.
            lx_bind (case nd_kind before of
                Directory \<Rightarrow> lx_bind (snapshot_open H d name root_mount before) (\<lambda>child.
                  lx_bind (directory_names H child) (\<lambda>inner.
                  lx_bind (F H B child (child_path parent name) root_mount inner snap)
                    (snapshot_close H child (child_path parent name) before)))
              | File \<Rightarrow> snapshot_file H B d name (child_path parent name) before snap
              | Symlink \<Rightarrow> snapshot_symlink H B d name (child_path parent name) before snap
              | Unsupported \<Rightarrow> snapshot_unsupported)
              (F H B d parent root_mount rest)) s) = Some y"
      and snap: "coherent B (ts_manifest snap)" and y: "y = (Inr snap', s')"
    let ?Q = "\<lambda>snap'. coherent B (ts_manifest snap')"
    have rec: "brings ?Q (F H B d parent root_mount names sn)" if "?Q sn" for d parent root_mount names sn
      using IH that by (fastforce simp: brings_def)
    have leaf: "brings ?Q (case nd_kind before of
                Directory \<Rightarrow> lx_bind (snapshot_open H d name root_mount before) (\<lambda>child.
                  lx_bind (directory_names H child) (\<lambda>inner.
                  lx_bind (F H B child (child_path parent name) root_mount inner snap)
                    (snapshot_close H child (child_path parent name) before)))
              | File \<Rightarrow> snapshot_file H B d name (child_path parent name) before snap
              | Symlink \<Rightarrow> snapshot_symlink H B d name (child_path parent name) before snap
              | Unsupported \<Rightarrow> snapshot_unsupported)" for before name
    proof (cases "nd_kind before")
      case Directory
      show ?thesis
        unfolding Directory node_kind.case
        by (rule brings_bind_any, rule brings_bind_any, rule brings_bind[OF rec[OF snap]],
            rule snapshot_close_coherent[OF _ Directory])
    qed (use snap in \<open>simp_all add: snapshot_unsupported_def snapshot_file_coherent snapshot_symlink_coherent\<close>)
    show "coherent B (ts_manifest snap')"
    proof (cases names)
      case Nil
      then show ?thesis using body y snap by (simp add: lx_return_def)
    next
      case (Cons name rest)
      have "brings ?Q (lx_bind (snapshot_inspect H d name root_mount) (\<lambda>before.
            lx_bind (case nd_kind before of
                Directory \<Rightarrow> lx_bind (snapshot_open H d name root_mount before) (\<lambda>child.
                  lx_bind (directory_names H child) (\<lambda>inner.
                  lx_bind (F H B child (child_path parent name) root_mount inner snap)
                    (snapshot_close H child (child_path parent name) before)))
              | File \<Rightarrow> snapshot_file H B d name (child_path parent name) before snap
              | Symlink \<Rightarrow> snapshot_symlink H B d name (child_path parent name) before snap
              | Unsupported \<Rightarrow> snapshot_unsupported)
              (F H B d parent root_mount rest)))"
        by (rule brings_bind_any, rule brings_bind[OF leaf rec])
      then show ?thesis using body y Cons unfolding brings_def by simp
    qed
  qed
  then show ?thesis using assms(2,3) by blast
qed

lemma snapshot_coherent:
  fixes H :: "'h linux_host"
  assumes "snapshot H B root s = Some (Inr snap, s')"
  shows "coherent B (ts_manifest snap)"
proof -
  have "brings (\<lambda>snap. coherent B (ts_manifest snap)) (snapshot_names H B root [] root_mount names sn)"
    if "coherent B (ts_manifest sn)" for root_mount names sn
    using snapshot_names_coherent that unfolding brings_def by blast
  moreover have "coherent B \<lparr>tm_root_mode = mode, tm_root_mtime = mtime, tm_entries = [],
      tm_regular_files = 0, tm_logical_bytes = 0, tm_physical_bytes = 0\<rparr>" for mode mtime
    by (simp add: coherent_def counted_files_def counted_bytes_def)
  ultimately have start: "brings (\<lambda>snap. coherent B (ts_manifest snap)) (snapshot_names H B root [] root_mount names
      \<lparr>ts_root = before, ts_entries = Map.empty, ts_manifest =
        \<lparr>tm_root_mode = nd_mode before, tm_root_mtime = node_mtime before, tm_entries = [],
         tm_regular_files = 0, tm_logical_bytes = 0, tm_physical_bytes = 0\<rparr>\<rparr>)" for root_mount names before
    by simp
  have "brings (\<lambda>snap. coherent B (ts_manifest snap)) (lx_bind (mount_id H root) (\<lambda>root_mount.
      lx_bind (directory_names H root) (\<lambda>names.
      lx_bind (snapshot_names H B root [] root_mount names
      \<lparr>ts_root = before, ts_entries = Map.empty, ts_manifest =
        \<lparr>tm_root_mode = nd_mode before, tm_root_mtime = node_mtime before, tm_entries = [],
         tm_regular_files = 0, tm_logical_bytes = 0, tm_physical_bytes = 0\<rparr>\<rparr>) (\<lambda>snap.
      lx_bind (node_of H root) (\<lambda>after.
        if after \<noteq> before then lx_fail source_changed else lx_return snap)))))" for before
    by (rule brings_bind_any, rule brings_bind_any, rule brings_bind[OF start], rule brings_bind_any) simp
  then have "brings (\<lambda>snap. coherent B (ts_manifest snap)) (snapshot H B root)"
    unfolding snapshot_def by (intro brings_bind_any) simp
  then show ?thesis using assms unfolding brings_def by blast
qed

text \<open>
  C12.  Digests decide promises.  Of two snapshots that were taken, of any trees on any hosts, the
  digests of the manifests agree exactly when the manifests match in everything that is promised:
  the mode and times of the root, every entry with its path, kind, mode, times, length and content
  digest, and the totals.  BLAKE3 is only assumed to answer 32 bytes and not to collide on the two
  manifests.
\<close>

theorem digests_decide_promises:
  assumes "snapshot H B a s = Some (Inr x, s')" "snapshot K B b t = Some (Inr y, t')"
    "\<forall>bs. length (B bs) = 32" "inj_on B {manifest_bytes (ts_manifest x), manifest_bytes (ts_manifest y)}"
    "list_all (\<lambda>e. length (me_path e) < 2 ^ 64) (tm_entries (ts_manifest x) @ tm_entries (ts_manifest y))"
  shows "manifest_digest B (ts_manifest x) = manifest_digest B (ts_manifest y)
    \<longleftrightarrow> matches_promised (ts_manifest x) (ts_manifest y)"
proof -
  let ?x = "ts_manifest x" and ?y = "ts_manifest y"
  have coh: "coherent B ?x" "coherent B ?y" using assms(1,2) by (auto intro: snapshot_coherent)
  have ok: "list_all entry_ok (tm_entries m)" if "coherent B m" "list_all (\<lambda>e. length (me_path e) < 2 ^ 64) (tm_entries m)" for m
    using that assms(3) by (fastforce simp: coherent_def entry_ok_def list_all_iff option.pred_set)
  have "manifest_digest B ?x = manifest_digest B ?y \<longleftrightarrow> manifest_bytes ?x = manifest_bytes ?y"
    using assms(4) by (auto simp: manifest_digest_def)
  also have "\<dots> \<longleftrightarrow> tm_root_mode ?x = tm_root_mode ?y \<and> tm_root_mtime ?x = tm_root_mtime ?y \<and> tm_entries ?x = tm_entries ?y"
    using manifest_bytes_inject[of ?x ?y] ok coh assms(5) by (auto simp: manifest_bytes_def)
  finally show ?thesis using coh by (auto simp: matches_promised_def coherent_def)
qed

text \<open>A host with one empty directory, of the mode its state says.\<close>

definition empty_directory_host :: "32 word linux_host" where
  "empty_directory_host =
     \<lparr>lh_fstat = (\<lambda>d mode. (Inr \<lparr>st_dev = 1, st_ino = 2, st_uid = 1000, st_mode = mode, st_size = 0, st_blocks = 0,
        st_mtime = 3, st_mtime_nsec = 4\<rparr>, mode)),
      lh_statat = (\<lambda>d n mode. (Inl 2, mode)),
      lh_statx = (\<lambda>d mode. (Inr \<lparr>stx_mask = 0x1000, stx_mnt_id = 9\<rparr>, mode)),
      lh_statx_at = (\<lambda>d n mode. (Inl 2, mode)), lh_list_dir = (\<lambda>d mode. (Inr [Inr ''.'', Inr ''..''], mode)),
      lh_open_dir = (\<lambda>d n mode. (Inl 2, mode)), lh_open_file = (\<lambda>d n mode. (Inl 2, mode)),
      lh_read = (\<lambda>d n mode. (Inl 2, mode)), lh_readlink = (\<lambda>d n mode. (Inl 2, mode)),
      lh_unlink = (\<lambda>d n dir mode. (Inl 2, mode)), lh_fsync = (\<lambda>d mode. (Inl 2, mode)),
      lh_now = (\<lambda>mode. (0, mode)), lh_error = (\<lambda>e. ForeignError ''os error'')\<rparr>"

definition empty_manifest :: "32 word \<Rightarrow> tree_manifest" where
  "empty_manifest mode =
     \<lparr>tm_root_mode = mode, tm_root_mtime = (3, 4), tm_entries = [],
      tm_regular_files = 0, tm_logical_bytes = 0, tm_physical_bytes = 0\<rparr>"

lemma empty_directory_snapshot:
  assumes "mode \<in> {0x41ED, 0x41C0}"
  shows "\<exists>snap s'. snapshot empty_directory_host B 0 \<lparr>lr_host = mode, lr_trace = []\<rparr> = Some (Inr snap, s')
    \<and> ts_manifest snap = empty_manifest (and mode 0xFFF)"
  using assms
  by (auto simp: snapshot_def lx_bind_def node_of_def lx_map_err_def lx_fstat_def lx_ask_def lx_return_def lx_lift_def
      empty_directory_host_def mount_id_def lx_statx_def mount_id_available_def STATX_MNT_ID_def directory_names_def
      snapshot_names.simps node_from_stat_def Let_def node_mtime_def empty_manifest_def dot_names_def)

definition tell_apart :: "bytes \<Rightarrow> bytes" where
  "tell_apart bs = replicate 32 (if bs = manifest_bytes (empty_manifest 0x1ED) then CHR ''a'' else CHR ''b'')"

lemma digests_decide_promises_witness:
  "manifest_digest tell_apart (empty_manifest 0x1ED) \<noteq> manifest_digest tell_apart (empty_manifest 0x1C0)"
proof -
  obtain x s' where x: "snapshot empty_directory_host tell_apart 0 \<lparr>lr_host = 0x41ED, lr_trace = []\<rparr> = Some (Inr x, s')"
    "ts_manifest x = empty_manifest 0x1ED"
    using empty_directory_snapshot[of "0x41ED" tell_apart] by auto
  obtain y t' where y: "snapshot empty_directory_host tell_apart 0 \<lparr>lr_host = 0x41C0, lr_trace = []\<rparr> = Some (Inr y, t')"
    "ts_manifest y = empty_manifest 0x1C0"
    using empty_directory_snapshot[of "0x41C0" tell_apart] by auto
  have "inj_on tell_apart {manifest_bytes (ts_manifest x), manifest_bytes (ts_manifest y)}"
    by (auto simp: inj_on_def tell_apart_def x y)
  moreover have "\<forall>bs. length (tell_apart bs) = 32" by (simp add: tell_apart_def)
  ultimately have "manifest_digest tell_apart (ts_manifest x) = manifest_digest tell_apart (ts_manifest y)
      \<longleftrightarrow> matches_promised (ts_manifest x) (ts_manifest y)"
    using digests_decide_promises[OF x(1) y(1)] x(2) y(2) by (simp add: empty_manifest_def)
  then show ?thesis using x(2) y(2) by (simp add: matches_promised_def empty_manifest_def)
qed

end
