(* ===== verification/Linux_Space.thy ===== *)
theory Linux_Space
  imports Linux_Host App_Ports
begin

text \<open>
  The estimate of the space of a Ready Workspace: \<open>thinws-adapter-linux/src/space.rs\<close>.  Every
  failure, every limit and every change seen on the way makes the answer \<open>Unknown\<close>.  A failure is
  the error \<open>()\<close> here; the monotonic clock is a call of the host, in nanoseconds.
\<close>

subsection \<open>The code\<close>

definition MAX_SCAN_DEPTH :: nat where
  "MAX_SCAN_DEPTH = 256"

definition MAX_SCAN_ENTRIES :: nat where
  "MAX_SCAN_ENTRIES = 200000"

definition MAX_SCAN_DURATION :: nat where
  "MAX_SCAN_DURATION = 5 * 1000000000"

record space_totals =
  sp_logical :: nat
  sp_allocated :: nat
  sp_entries :: nat
  sp_seen_inodes :: "(u64 \<times> u64) set"
  sp_started :: nat

type_synonym ('h, 'a) scan = "('h, unit, 'a) lx"

definition scan_ok :: "('h, 'e, 'a) lx \<Rightarrow> ('h, 'a) scan" where
  "scan_ok m = lx_map_err (\<lambda>_. ()) m"

definition scan_option :: "'a option \<Rightarrow> ('h, 'a) scan" where
  "scan_option x = lx_lift (ok_or x ())"

definition instant_now :: "'h linux_host \<Rightarrow> ('h, nat) scan" where
  "instant_now H s =
     (case lh_now H (lr_host s) of (t, h) \<Rightarrow> Some (Inr t, \<lparr>lr_host = h, lr_trace = lr_trace s @ [ClockRead t]\<rparr>))"

definition limits_exceeded :: "nat \<Rightarrow> nat \<Rightarrow> nat \<Rightarrow> bool" where
  "limits_exceeded depth entries elapsed \<longleftrightarrow>
     MAX_SCAN_DEPTH < depth \<or> MAX_SCAN_ENTRIES < entries \<or> MAX_SCAN_DURATION < elapsed"

definition check_limits :: "'h linux_host \<Rightarrow> nat \<Rightarrow> space_totals \<Rightarrow> ('h, unit) scan" where
  "check_limits H depth totals =
     lx_bind (instant_now H) (\<lambda>now.
       if limits_exceeded depth (sp_entries totals) (now - sp_started totals) then lx_fail () else lx_return ())"

definition reported_mount_id :: "linux_statx \<Rightarrow> u64 option" where
  "reported_mount_id x = (if mount_id_available (stx_mask x) then Some (stx_mnt_id x) else None)"

definition held_mount :: "'h linux_host \<Rightarrow> fd \<Rightarrow> ('h, u64) scan" where
  "held_mount H d = lx_bind (scan_ok (lx_statx H d)) (\<lambda>x. scan_option (reported_mount_id x))"

definition named_mount :: "'h linux_host \<Rightarrow> fd \<Rightarrow> bytes \<Rightarrow> ('h, u64) scan" where
  "named_mount H d name = lx_bind (scan_ok (lx_statx_at H d name)) (\<lambda>x. scan_option (reported_mount_id x))"

definition format_of :: "linux_stat \<Rightarrow> 32 word" where
  "format_of st = and (st_mode st) 0xF000"

definition same_identity :: "linux_stat \<Rightarrow> linux_stat \<Rightarrow> bool" where
  "same_identity left right =
     ((st_dev left, st_ino left, format_of left) = (st_dev right, st_ino right, format_of right))"

text \<open>The mount is only asked for when the identity is the same.\<close>

definition identity_matches_mount ::
  "linux_stat \<Rightarrow> linux_stat \<Rightarrow> u64 \<Rightarrow> ('h, u64) scan \<Rightarrow> ('h, unit) scan" where
  "identity_matches_mount current expected expected_mount observed_mount =
     (if \<not> same_identity current expected then lx_fail ()
      else lx_bind observed_mount (\<lambda>m. if m \<noteq> expected_mount then lx_fail () else lx_return ()))"

definition checked_u64 :: "nat \<Rightarrow> nat option" where
  "checked_u64 n = (if n < 2 ^ 64 then Some n else None)"

definition u64_of :: "int \<Rightarrow> nat option" where
  "u64_of i = (if i < 0 then None else checked_u64 (nat i))"

definition add_allocated :: "linux_stat \<Rightarrow> space_totals \<Rightarrow> space_totals option" where
  "add_allocated st totals =
     Option.bind (u64_of (st_blocks st)) (\<lambda>b.
     Option.bind (checked_u64 (b * 512)) (\<lambda>blocks.
       if (st_dev st, st_ino st) \<in> sp_seen_inodes totals then Some totals
       else
         Option.bind (checked_u64 (sp_allocated totals + blocks)) (\<lambda>allocated.
           Some (totals\<lparr>sp_seen_inodes := insert (st_dev st, st_ino st) (sp_seen_inodes totals),
                        sp_allocated := allocated\<rparr>))))"

definition add_logical :: "linux_stat \<Rightarrow> space_totals \<Rightarrow> space_totals option" where
  "add_logical st totals =
     Option.bind (u64_of (st_size st)) (\<lambda>size.
       map_option (\<lambda>n. totals\<lparr>sp_logical := n\<rparr>) (checked_u64 (sp_logical totals + size)))"

type_synonym 'h directory_scan = "fd \<Rightarrow> linux_stat \<Rightarrow> u64 \<Rightarrow> space_totals \<Rightarrow> ('h, space_totals) scan"

definition scan_object ::
  "'h linux_host \<Rightarrow> 'h directory_scan \<Rightarrow> fd \<Rightarrow> bytes \<Rightarrow> linux_stat \<Rightarrow> u64 \<Rightarrow> space_totals \<Rightarrow> ('h, space_totals) scan" where
  "scan_object H scan_child d name before expected_mount totals =
     (if format_of before = 0x4000
      then lx_bind (scan_ok (lx_ask (OpenedDir d name) (lh_open_dir H d name))) (\<lambda>child.
             scan_child child before expected_mount totals)
      else if format_of before = 0x8000 \<or> format_of before = 0xA000
      then scan_option (Option.bind (add_logical before totals) (add_allocated before))
      else lx_fail ())"

definition scan_entry ::
  "'h linux_host \<Rightarrow> 'h directory_scan \<Rightarrow> nat \<Rightarrow> fd \<Rightarrow> linux_stat \<Rightarrow> u64 \<Rightarrow> bytes \<Rightarrow> space_totals
   \<Rightarrow> ('h, space_totals) scan" where
  "scan_entry H scan_child depth d expected expected_mount name totals =
     lx_bind (scan_option (checked_u64 (Suc (sp_entries totals)))) (\<lambda>entries.
       (let totals = totals\<lparr>sp_entries := entries\<rparr> in
        lx_bind (check_limits H depth totals) (\<lambda>_.
        lx_bind (scan_ok (lx_statat H d name)) (\<lambda>before.
          if st_dev before \<noteq> st_dev expected then lx_fail ()
          else
            lx_bind (named_mount H d name) (\<lambda>m.
              if m \<noteq> expected_mount then lx_fail ()
              else
                lx_bind (scan_object H scan_child d name before expected_mount totals) (\<lambda>totals.
                lx_bind (scan_ok (lx_statat H d name)) (\<lambda>after.
                lx_bind (identity_matches_mount after before expected_mount (named_mount H d name)) (\<lambda>_.
                  lx_return totals))))))))"

primrec scan_entries ::
  "'h linux_host \<Rightarrow> 'h directory_scan \<Rightarrow> nat \<Rightarrow> fd \<Rightarrow> linux_stat \<Rightarrow> u64 \<Rightarrow> (errno + bytes) list \<Rightarrow> space_totals
   \<Rightarrow> ('h, space_totals) scan" where
  "scan_entries H scan_child depth d expected expected_mount [] totals = lx_return totals"
| "scan_entries H scan_child depth d expected expected_mount (entry # entries) totals =
     (case entry of
        Inl _ \<Rightarrow> lx_fail ()
      | Inr name \<Rightarrow>
          if name \<in> set dot_names
          then scan_entries H scan_child depth d expected expected_mount entries totals
          else
            lx_bind (scan_entry H scan_child depth d expected expected_mount name totals) (\<lambda>totals.
              scan_entries H scan_child depth d expected expected_mount entries totals))"

definition scan_open_directory ::
  "'h linux_host \<Rightarrow> 'h directory_scan \<Rightarrow> nat \<Rightarrow> 'h directory_scan" where
  "scan_open_directory H scan_child depth d expected expected_mount totals =
     lx_bind (held_mount H d) (\<lambda>m.
       if m \<noteq> expected_mount then lx_fail ()
       else
         lx_bind (scan_ok (lx_fstat H d)) (\<lambda>before.
           if \<not> same_identity before expected \<or> format_of before \<noteq> 0x4000 then lx_fail ()
           else
             lx_bind (scan_option (add_allocated expected totals)) (\<lambda>totals.
             lx_bind (scan_ok (lx_ask (Listed d) (lh_list_dir H d))) (\<lambda>entries.
             lx_bind (scan_entries H scan_child depth d expected expected_mount entries totals) (\<lambda>totals.
             lx_bind (scan_ok (lx_fstat H d)) (\<lambda>after.
             lx_bind (identity_matches_mount after expected expected_mount (held_mount H d)) (\<lambda>_.
               lx_return totals)))))))"

text \<open>
  \<open>scan_directory\<close>.  Below the depth limit its first check fails on any clock, so the recursion
  ends there.
\<close>

function scan_directory :: "'h linux_host \<Rightarrow> nat \<Rightarrow> 'h directory_scan" where
  "scan_directory H depth =
     (if MAX_SCAN_DEPTH < depth
      then (\<lambda>d expected expected_mount totals. lx_bind (check_limits H depth totals) (\<lambda>_. lx_fail ()))
      else (\<lambda>d expected expected_mount totals.
        lx_bind (check_limits H depth totals) (\<lambda>_.
          scan_open_directory H (scan_directory H (Suc depth)) depth d expected expected_mount totals)))"
  by auto

termination
  by (relation "measure (\<lambda>(H, depth). Suc MAX_SCAN_DEPTH - depth)") auto

declare scan_directory.simps [simp del]

definition measure_totals :: "'h linux_host \<Rightarrow> fd \<Rightarrow> u64 \<Rightarrow> ('h, space_totals) scan" where
  "measure_totals H root expected_mount =
     lx_bind (scan_ok (lx_fstat H root)) (\<lambda>st.
       if format_of st \<noteq> 0x4000 then lx_fail ()
       else
         lx_bind (instant_now H) (\<lambda>started.
           scan_directory H 0 root st expected_mount
             \<lparr>sp_logical = 0, sp_allocated = 0, sp_entries = 0, sp_seen_inodes = {}, sp_started = started\<rparr>))"

definition measure_root :: "'h linux_host \<Rightarrow> fd \<Rightarrow> u64 \<Rightarrow> ('h, unit, workspace_space) lx" where
  "measure_root H root expected_mount s =
     map_option
       (\<lambda>(r, s'). (Inr (case r of
            Inl _ \<Rightarrow> UnknownSpace
          | Inr totals \<Rightarrow> CompleteSpace (of_nat (sp_logical totals)) (of_nat (sp_allocated totals))), s'))
       (measure_totals H root expected_mount s)"

subsection \<open>A complete scan\<close>

text \<open>
  What the calls of a complete scan are, and the objects it counts, in order: a directory is
  counted when it is entered, a file or link when it was inspected.  Every directory is framed by
  its identity and mount, every entry by its own, and each is preceded by a look at the clock.
\<close>

definition in_time :: "nat \<Rightarrow> nat \<Rightarrow> bool" where
  "in_time began t \<longleftrightarrow> t - began \<le> MAX_SCAN_DURATION"

inductive scanned_directory ::
  "u64 \<Rightarrow> nat \<Rightarrow> nat \<Rightarrow> fd \<Rightarrow> linux_stat \<Rightarrow> linux_event list \<Rightarrow> linux_stat list \<Rightarrow> bool"
and scanned_entries ::
  "u64 \<Rightarrow> nat \<Rightarrow> nat \<Rightarrow> fd \<Rightarrow> linux_stat \<Rightarrow> (errno + bytes) list \<Rightarrow> linux_event list \<Rightarrow> linux_stat list \<Rightarrow> bool"
and scanned_object ::
  "u64 \<Rightarrow> nat \<Rightarrow> nat \<Rightarrow> fd \<Rightarrow> bytes \<Rightarrow> linux_stat \<Rightarrow> linux_event list \<Rightarrow> linux_stat list \<Rightarrow> bool" for m began where
  directory:
  "\<lbrakk>depth \<le> MAX_SCAN_DEPTH; in_time began t; on_mount m x; same_identity before st; format_of before = 0x4000;
    scanned_entries m began depth d st entries es objs; same_identity after st; on_mount m y\<rbrakk> \<Longrightarrow>
   scanned_directory m began depth d st
     (ClockRead t # HeldMount d (Inr x) # HeldStat d (Inr before) # Listed d (Inr entries)
      # es @ [HeldStat d (Inr after), HeldMount d (Inr y)])
     (st # objs)"
| none: "scanned_entries m began depth d st [] [] []"
| dot:
  "\<lbrakk>name \<in> set dot_names; scanned_entries m began depth d st entries es objs\<rbrakk> \<Longrightarrow>
   scanned_entries m began depth d st (Inr name # entries) es objs"
| entry:
  "\<lbrakk>name \<notin> set dot_names; depth \<le> MAX_SCAN_DEPTH; in_time began t; st_dev before = st_dev st; on_mount m x;
    scanned_object m began depth d name before inner objs1; same_identity after before; on_mount m y;
    scanned_entries m began depth d st entries es objs\<rbrakk> \<Longrightarrow>
   scanned_entries m began depth d st (Inr name # entries)
     (ClockRead t # NamedStat d name (Inr before) # NamedMount d name (Inr x)
      # inner @ NamedStat d name (Inr after) # NamedMount d name (Inr y) # es)
     (objs1 @ objs)"
| subdirectory:
  "\<lbrakk>format_of before = 0x4000; scanned_directory m began (Suc depth) child before es objs\<rbrakk> \<Longrightarrow>
   scanned_object m began depth d name before (OpenedDir d name (Inr child) # es) objs"
| leaf:
  "format_of before \<in> {0x8000, 0xA000} \<Longrightarrow> scanned_object m began depth d name before [] [before]"

text \<open>The sums over the objects; an inode is allocated once, by its first object.\<close>

abbreviation inode_of :: "linux_stat \<Rightarrow> u64 \<times> u64" where
  "inode_of st \<equiv> (st_dev st, st_ino st)"

definition object_bytes :: "linux_stat \<Rightarrow> nat" where
  "object_bytes st = (if format_of st = 0x4000 then 0 else nat (st_size st))"

definition logical_size :: "linux_stat list \<Rightarrow> nat" where
  "logical_size objs = sum_list (map object_bytes objs)"

fun allocated_from :: "(u64 \<times> u64) set \<Rightarrow> linux_stat list \<Rightarrow> nat" where
  "allocated_from seen [] = 0"
| "allocated_from seen (st # objs) =
     (if inode_of st \<in> seen then allocated_from seen objs
      else nat (st_blocks st) * 512 + allocated_from (insert (inode_of st) seen) objs)"

definition countable_object :: "linux_stat \<Rightarrow> bool" where
  "countable_object st \<longleftrightarrow>
     0 \<le> st_blocks st \<and> nat (st_blocks st) * 512 < 2 ^ 64 \<and> (format_of st = 0x4000 \<or> 0 \<le> st_size st)"

lemma allocated_from_append:
  "allocated_from seen (xs @ ys) = allocated_from seen xs + allocated_from (seen \<union> inode_of ` set xs) ys"
proof (induction xs arbitrary: seen)
  case (Cons st xs)
  have "insert (inode_of st) seen \<union> inode_of ` set xs = seen \<union> inode_of ` set (st # xs)"
    "inode_of st \<in> seen \<Longrightarrow> seen \<union> inode_of ` set xs = seen \<union> inode_of ` set (st # xs)" by auto
  then show ?case using Cons.IH[of seen] Cons.IH[of "insert (inode_of st) seen"] by simp
qed simp

text \<open>How counting \<open>n\<close> entries, with these objects, changes the totals.\<close>

definition totals_fit :: "space_totals \<Rightarrow> bool" where
  "totals_fit t \<longleftrightarrow>
     sp_entries t \<le> MAX_SCAN_ENTRIES \<and> sp_logical t < 2 ^ 64 \<and> sp_allocated t < 2 ^ 64"

definition counts :: "nat \<Rightarrow> space_totals \<Rightarrow> linux_stat list \<Rightarrow> space_totals \<Rightarrow> bool" where
  "counts n t objs t' \<longleftrightarrow>
     list_all countable_object objs \<and> sp_started t' = sp_started t
     \<and> sp_entries t' = sp_entries t + n
     \<and> sp_logical t' = sp_logical t + logical_size objs
     \<and> sp_allocated t' = sp_allocated t + allocated_from (sp_seen_inodes t) objs
     \<and> sp_seen_inodes t' = sp_seen_inodes t \<union> inode_of ` set objs
     \<and> (totals_fit t \<longrightarrow> totals_fit t')"

lemma counts_none: "counts 0 t [] t"
  by (simp add: counts_def logical_size_def)

lemma counts_append: "\<lbrakk>counts n t xs t1; counts k t1 ys t2\<rbrakk> \<Longrightarrow> counts (n + k) t (xs @ ys) t2"
  by (auto simp: counts_def logical_size_def allocated_from_append)

lemma counts_entry:
  "Suc (sp_entries t) \<le> MAX_SCAN_ENTRIES \<Longrightarrow> counts 1 t [] (t\<lparr>sp_entries := Suc (sp_entries t)\<rparr>)"
  by (simp add: counts_def logical_size_def totals_fit_def)

lemma add_allocated_Some:
  "add_allocated st t = Some t' \<longleftrightarrow>
     0 \<le> st_blocks st \<and> nat (st_blocks st) * 512 < 2 ^ 64
     \<and> (inode_of st \<notin> sp_seen_inodes t \<longrightarrow> sp_allocated t + nat (st_blocks st) * 512 < 2 ^ 64)
     \<and> t' = (if inode_of st \<in> sp_seen_inodes t then t
             else t\<lparr>sp_seen_inodes := insert (inode_of st) (sp_seen_inodes t),
                    sp_allocated := sp_allocated t + nat (st_blocks st) * 512\<rparr>)"
  by (auto simp: add_allocated_def u64_of_def checked_u64_def bind_eq_Some_conv split: if_splits)

lemma counts_directory:
  assumes "add_allocated st t = Some t'" "format_of st = 0x4000"
  shows "counts 0 t [st] t'"
  using assms
  by (auto simp: add_allocated_Some counts_def countable_object_def logical_size_def object_bytes_def totals_fit_def
      split: if_splits)

lemma counts_leaf:
  assumes "Option.bind (add_logical st t) (add_allocated st) = Some t'" "format_of st \<noteq> 0x4000"
  shows "counts 0 t [st] t'"
  using assms
  by (auto simp: add_allocated_Some add_logical_def u64_of_def checked_u64_def bind_eq_Some_conv counts_def
      countable_object_def logical_size_def object_bytes_def totals_fit_def split: if_splits)

subsection \<open>Every complete answer is a complete scan\<close>

text \<open>\<open>gives P c\<close>: \<open>c\<close> returns and only looks, and the calls of a success and its value satisfy \<open>P\<close>.\<close>

definition gives :: "(linux_event list \<Rightarrow> 'a \<Rightarrow> bool) \<Rightarrow> ('h, 'e, 'a) lx \<Rightarrow> bool" where
  "gives P c \<longleftrightarrow> looks (\<lambda>es r. \<forall>x. r = Inr x \<longrightarrow> P es x) c"

lemma gives_bind:
  fixes c :: "('h, 'e, 'a) lx" and f :: "'a \<Rightarrow> ('h, 'e, 'b) lx"
  assumes c: "gives P c" and f: "\<And>es x. P es x \<Longrightarrow> gives (\<lambda>es'. R (es @ es')) (f x)"
  shows "gives R (lx_bind c f)"
  unfolding gives_def looks_def lwp_simps
proof (intro allI, rule lwp_mono[OF looksD[OF c[unfolded gives_def]]])
  fix s s' :: "'h linux_run" and r :: "'e + 'a"
  assume "\<exists>es. lr_trace s' = lr_trace s @ es \<and> no_unlink es \<and> (\<forall>x. r = Inr x \<longrightarrow> P es x)"
  then obtain es where es: "lr_trace s' = lr_trace s @ es" "no_unlink es" "\<forall>x. r = Inr x \<longrightarrow> P es x" by blast
  let ?post = "\<lambda>r s'. \<exists>es. lr_trace s' = lr_trace s @ es \<and> no_unlink es \<and> (\<forall>x. r = Inr x \<longrightarrow> R es x)"
  show "case r of Inl e \<Rightarrow> ?post (Inl e) s' | Inr x \<Rightarrow> lwp (f x) ?post s'"
  proof (cases r)
    case (Inr x)
    have "lwp (f x) ?post s'"
      by (rule lwp_mono[OF looksD[OF f[unfolded gives_def]]]) (use es Inr in \<open>force simp: list_all_append\<close>)+
    then show ?thesis using Inr by simp
  qed (use es in auto)
qed

lemma gives_return: "R [] x \<Longrightarrow> gives R (lx_return x)"
  unfolding gives_def by (rule looks_mono[OF looks_return]) auto

lemma gives_fail [simp]: "gives R (lx_fail e)"
  unfolding gives_def by (rule looks_ok_fail)

lemma gives_mono: "\<lbrakk>gives P c; \<And>es x. P es x \<Longrightarrow> R es x\<rbrakk> \<Longrightarrow> gives R c"
  unfolding gives_def by (erule looks_mono) auto

lemma gives_option: "(\<And>y. x = Some y \<Longrightarrow> R [] y) \<Longrightarrow> gives R (scan_option x)"
  unfolding gives_def scan_option_def by (rule looks_mono[OF looks_lift]) (auto simp: result_simps)

lemma gives_option_bind:
  "(\<And>y. x = Some y \<Longrightarrow> gives R (f y)) \<Longrightarrow> gives R (lx_bind (scan_option x) f)"
  by (rule gives_bind[OF gives_option[where R = "\<lambda>es y. es = [] \<and> x = Some y"]]) auto

lemma gives_asked: "(\<And>r. \<not> is_unlink (ev r)) \<Longrightarrow> gives (\<lambda>es x. es = [ev (Inr x)]) (scan_ok (lx_ask ev c))"
  unfolding gives_def scan_ok_def by (rule looks_ok_map_err[OF looks_ok_ask])

lemma gives_ask:
  "\<lbrakk>\<And>x. gives (\<lambda>es. R (ev (Inr x) # es)) (f x); \<And>r. \<not> is_unlink (ev r)\<rbrakk>
   \<Longrightarrow> gives R (lx_bind (scan_ok (lx_ask ev c)) f)"
  by (rule gives_bind[OF gives_asked]) auto

lemma gives_stat:
  "(\<And>x. gives (\<lambda>es. R (HeldStat d (Inr x) # es)) (f x)) \<Longrightarrow> gives R (lx_bind (scan_ok (lx_fstat H d)) f)"
  "(\<And>x. gives (\<lambda>es. R (NamedStat d n (Inr x) # es)) (f x)) \<Longrightarrow> gives R (lx_bind (scan_ok (lx_statat H d n)) f)"
  unfolding lx_fstat_def lx_statat_def by (rule gives_ask; simp)+

lemma gives_now: "(\<And>t. gives (\<lambda>es. R (ClockRead t # es)) (f t)) \<Longrightarrow> gives R (lx_bind (instant_now H) f)"
  by (rule gives_bind[where P = "\<lambda>es t. es = [ClockRead t]"])
    (auto simp: gives_def looks_def lwp_def instant_now_def split: prod.splits)

lemma gives_limits:
  assumes "\<And>now. \<lbrakk>depth \<le> MAX_SCAN_DEPTH; sp_entries t \<le> MAX_SCAN_ENTRIES; in_time (sp_started t) now\<rbrakk>
    \<Longrightarrow> gives (\<lambda>es. R (ClockRead now # es)) (f ())"
  shows "gives R (lx_bind (check_limits H depth t) f)"
proof (rule gives_bind)
  show "gives (\<lambda>es x. \<exists>now. es = [ClockRead now] \<and> \<not> limits_exceeded depth (sp_entries t) (now - sp_started t))
      (check_limits H depth t)"
    unfolding check_limits_def by (rule gives_now) (auto intro: gives_return)
qed (use assms in \<open>auto simp: limits_exceeded_def in_time_def not_less\<close>)

text \<open>A mount that is asked for and compared at once.\<close>

lemma gives_mount:
  "(\<And>x. on_mount m x \<Longrightarrow> gives (\<lambda>es. R (HeldMount d (Inr x) # es)) rest) \<Longrightarrow>
   gives R (lx_bind (held_mount H d) (\<lambda>k. if k \<noteq> m then lx_fail () else rest))"
  "(\<And>x. on_mount m x \<Longrightarrow> gives (\<lambda>es. R (NamedMount d n (Inr x) # es)) rest) \<Longrightarrow>
   gives R (lx_bind (named_mount H d n) (\<lambda>k. if k \<noteq> m then lx_fail () else rest))"
proof -
  have held: "gives (\<lambda>es k. \<exists>x. es = [HeldMount d (Inr x)] \<and> on_mount k x) (held_mount H d)"
    unfolding held_mount_def lx_statx_def
    by (rule gives_ask) (auto intro!: gives_option simp: reported_mount_id_def on_mount_def split: if_splits)
  have named: "gives (\<lambda>es k. \<exists>x. es = [NamedMount d n (Inr x)] \<and> on_mount k x) (named_mount H d n)"
    unfolding named_mount_def lx_statx_at_def
    by (rule gives_ask) (auto intro!: gives_option simp: reported_mount_id_def on_mount_def split: if_splits)
  show "(\<And>x. on_mount m x \<Longrightarrow> gives (\<lambda>es. R (HeldMount d (Inr x) # es)) rest) \<Longrightarrow>
   gives R (lx_bind (held_mount H d) (\<lambda>k. if k \<noteq> m then lx_fail () else rest))"
    by (rule gives_bind[OF held]) auto
  show "(\<And>x. on_mount m x \<Longrightarrow> gives (\<lambda>es. R (NamedMount d n (Inr x) # es)) rest) \<Longrightarrow>
   gives R (lx_bind (named_mount H d n) (\<lambda>k. if k \<noteq> m then lx_fail () else rest))"
    by (rule gives_bind[OF named]) auto
qed

lemma gives_matches:
  "(\<And>y. \<lbrakk>same_identity a b; on_mount m y\<rbrakk> \<Longrightarrow> gives (\<lambda>es. R (HeldMount d (Inr y) # es)) (f ())) \<Longrightarrow>
   gives R (lx_bind (identity_matches_mount a b m (held_mount H d)) f)"
  "(\<And>y. \<lbrakk>same_identity a b; on_mount m y\<rbrakk> \<Longrightarrow> gives (\<lambda>es. R (NamedMount d n (Inr y) # es)) (f ())) \<Longrightarrow>
   gives R (lx_bind (identity_matches_mount a b m (named_mount H d n)) f)"
proof -
  have held: "gives (\<lambda>es x. \<exists>y. es = [HeldMount d (Inr y)] \<and> same_identity a b \<and> on_mount m y)
      (identity_matches_mount a b m (held_mount H d))"
    unfolding identity_matches_mount_def by (auto intro!: gives_mount(1) gives_return)
  have named: "gives (\<lambda>es x. \<exists>y. es = [NamedMount d n (Inr y)] \<and> same_identity a b \<and> on_mount m y)
      (identity_matches_mount a b m (named_mount H d n))"
    unfolding identity_matches_mount_def by (auto intro!: gives_mount(2) gives_return)
  show "(\<And>y. \<lbrakk>same_identity a b; on_mount m y\<rbrakk> \<Longrightarrow> gives (\<lambda>es. R (HeldMount d (Inr y) # es)) (f ())) \<Longrightarrow>
   gives R (lx_bind (identity_matches_mount a b m (held_mount H d)) f)"
    by (rule gives_bind[OF held]) auto
  show "(\<And>y. \<lbrakk>same_identity a b; on_mount m y\<rbrakk> \<Longrightarrow> gives (\<lambda>es. R (NamedMount d n (Inr y) # es)) (f ())) \<Longrightarrow>
   gives R (lx_bind (identity_matches_mount a b m (named_mount H d n)) f)"
    by (rule gives_bind[OF named]) auto
qed

text \<open>The scan of a directory below, from any totals.\<close>

definition good_scan :: "u64 \<Rightarrow> nat \<Rightarrow> 'h directory_scan \<Rightarrow> bool" where
  "good_scan m depth F \<longleftrightarrow>
     (\<forall>d st t. gives (\<lambda>es t'. \<exists>objs. scanned_directory m (sp_started t) depth d st es objs
        \<and> counts (length objs - 1) t objs t' \<and> objs \<noteq> [] \<and> format_of st = 0x4000) (F d st m t))"

lemma scan_object_gives:
  assumes F: "good_scan m (Suc depth) F"
  shows "gives (\<lambda>es t'. \<exists>objs. scanned_object m (sp_started t) depth d name before es objs
      \<and> counts (length objs - 1) t objs t' \<and> objs \<noteq> []) (scan_object H F d name before m t)"
    (is "gives ?R _")
proof -
  have directory: "gives ?R (lx_bind (scan_ok (lx_ask (OpenedDir d name) (lh_open_dir H d name)))
      (\<lambda>child. F child before m t))"
  proof (rule gives_ask)
    show "gives (\<lambda>es. ?R (OpenedDir d name (Inr child) # es)) (F child before m t)" for child
      by (rule gives_mono[OF F[unfolded good_scan_def, rule_format]])
        (blast intro: scanned_directory_scanned_entries_scanned_object.subdirectory)
  qed simp
  have leaf: "gives ?R (scan_option (Option.bind (add_logical before t) (add_allocated before)))"
    if "format_of before \<in> {0x8000, 0xA000}"
  proof (rule gives_option)
    fix t' assume "Option.bind (add_logical before t) (add_allocated before) = Some t'"
    then have "counts 0 t [before] t'" by (rule counts_leaf) (use that in auto)
    then show "?R [] t'"
      using scanned_directory_scanned_entries_scanned_object.leaf[OF that] by (intro exI[of _ "[before]"]) simp
  qed
  show ?thesis unfolding scan_object_def using directory leaf by auto
qed

lemma scan_entry_gives:
  assumes F: "good_scan m (Suc depth) F" and name: "name \<notin> set dot_names"
  shows "gives (\<lambda>es t'. \<exists>objs. counts (length objs) t objs t'
      \<and> (\<forall>entries fs rest. scanned_entries m (sp_started t) depth d st entries fs rest \<longrightarrow>
           scanned_entries m (sp_started t) depth d st (Inr name # entries) (es @ fs) (objs @ rest)))
    (scan_entry H F depth d st m name t)"
    (is "gives ?R _")
  unfolding scan_entry_def Let_def
proof (rule gives_option_bind, rule gives_limits, rule gives_stat(2))
  fix entries now before
  assume n: "checked_u64 (Suc (sp_entries t)) = Some entries" "depth \<le> MAX_SCAN_DEPTH"
    "sp_entries (t\<lparr>sp_entries := entries\<rparr>) \<le> MAX_SCAN_ENTRIES"
    "in_time (sp_started (t\<lparr>sp_entries := entries\<rparr>)) now"
  let ?t = "t\<lparr>sp_entries := entries\<rparr>"
  have entries: "entries = Suc (sp_entries t)" using n(1) by (auto simp: checked_u64_def split: if_splits)
  have t: "counts 1 t [] ?t" using counts_entry[of t] n(3) entries by simp
  have inner: "gives (\<lambda>es. ?R (ClockRead now # NamedStat d name (Inr before) # NamedMount d name (Inr x) # es))
      (lx_bind (scan_object H F d name before m ?t) (\<lambda>totals.
       lx_bind (scan_ok (lx_statat H d name)) (\<lambda>after.
       lx_bind (identity_matches_mount after before m (named_mount H d name)) (\<lambda>_. lx_return totals))))"
    if same: "st_dev before = st_dev st" and x: "on_mount m x" for x
  proof (rule gives_bind[OF scan_object_gives[OF F]], rule gives_stat(2), rule gives_matches(2), rule gives_return)
    fix es t' after y
    assume "\<exists>objs. scanned_object m (sp_started ?t) depth d name before es objs
        \<and> counts (length objs - 1) ?t objs t' \<and> objs \<noteq> []" and y: "same_identity after before" "on_mount m y"
    then obtain objs where objs: "scanned_object m (sp_started t) depth d name before es objs"
      "counts (length objs - 1) ?t objs t'" "objs \<noteq> []" by auto
    have "counts (length objs) t objs t'" using counts_append[OF t objs(2)] objs(3) by simp
    moreover have "scanned_entries m (sp_started t) depth d st (Inr name # ents)
        ((ClockRead now # NamedStat d name (Inr before) # NamedMount d name (Inr x)
          # es @ [NamedStat d name (Inr after), NamedMount d name (Inr y)]) @ fs) (objs @ rest)"
      if "scanned_entries m (sp_started t) depth d st ents fs rest" for ents fs rest
      using scanned_directory_scanned_entries_scanned_object.entry[OF name n(2) _ same x objs(1) y that, of now] n(4)
      by simp
    ultimately show "?R (ClockRead now # NamedStat d name (Inr before) # NamedMount d name (Inr x)
        # es @ NamedStat d name (Inr after) # NamedMount d name (Inr y) # []) t'"
      by blast
  qed
  show "gives (\<lambda>es. ?R (ClockRead now # NamedStat d name (Inr before) # es))
      (if st_dev before \<noteq> st_dev st then lx_fail ()
       else lx_bind (named_mount H d name) (\<lambda>k. if k \<noteq> m then lx_fail () else
         lx_bind (scan_object H F d name before m ?t) (\<lambda>totals.
         lx_bind (scan_ok (lx_statat H d name)) (\<lambda>after.
         lx_bind (identity_matches_mount after before m (named_mount H d name)) (\<lambda>_. lx_return totals)))))"
    using inner by (auto intro!: gives_mount(2))
qed

lemma scan_entries_gives:
  assumes F: "good_scan m (Suc depth) F"
  shows "gives (\<lambda>es t'. \<exists>objs. scanned_entries m (sp_started t) depth d st entries es objs \<and> counts (length objs) t objs t')
    (scan_entries H F depth d st m entries t)"
proof (induction entries arbitrary: t)
  case Nil
  show ?case using counts_none[of t] scanned_directory_scanned_entries_scanned_object.none
    by (auto intro!: gives_return exI[of _ "[]"])
next
  case (Cons e entries)
  let ?R = "\<lambda>es t'. \<exists>objs. scanned_entries m (sp_started t) depth d st (e # entries) es objs \<and> counts (length objs) t objs t'"
  show ?case
  proof (cases e)
    case (Inr name)
    show ?thesis
    proof (cases "name \<in> set dot_names")
      case True
      have "gives ?R (scan_entries H F depth d st m entries t)"
        by (rule gives_mono[OF Cons.IH])
          (use True Inr in \<open>blast intro: scanned_directory_scanned_entries_scanned_object.dot\<close>)
      then show ?thesis using Inr True by simp
    next
      case False
      have "gives ?R (lx_bind (scan_entry H F depth d st m name t) (\<lambda>totals. scan_entries H F depth d st m entries totals))"
      proof (rule gives_bind[OF scan_entry_gives[OF F False]], erule exE, erule conjE)
        fix es t1 objs
        assume objs: "counts (length objs) t objs t1"
          and step: "\<forall>ents fs rest. scanned_entries m (sp_started t) depth d st ents fs rest \<longrightarrow>
            scanned_entries m (sp_started t) depth d st (Inr name # ents) (es @ fs) (objs @ rest)"
        have began: "sp_started t1 = sp_started t" using objs by (simp add: counts_def)
        show "gives (\<lambda>fs. ?R (es @ fs)) (scan_entries H F depth d st m entries t1)"
        proof (rule gives_mono[OF Cons.IH], erule exE, erule conjE)
          fix fs t' rest
          assume "scanned_entries m (sp_started t1) depth d st entries fs rest" "counts (length rest) t1 rest t'"
          then show "?R (es @ fs) t'"
            using step counts_append[OF objs] began Inr by (intro exI[of _ "objs @ rest"]) simp
        qed
      qed
      then show ?thesis using Inr False by simp
    qed
  qed simp
qed

lemma scan_directory_gives: "good_scan m depth (scan_directory H depth)"
proof (induction H depth rule: scan_directory.induct)
  case (1 H depth)
  show ?case
  proof (cases "MAX_SCAN_DEPTH < depth")
    case True
    then show ?thesis
      unfolding good_scan_def scan_directory.simps[of H depth] if_P[OF True]
      by (auto intro: gives_limits)
  next
    case False
    note F = 1[OF False]
    have "gives (\<lambda>es t'. \<exists>objs. scanned_directory m (sp_started t) depth d st es objs
        \<and> counts (length objs - 1) t objs t' \<and> objs \<noteq> [] \<and> format_of st = 0x4000)
      (lx_bind (check_limits H depth t) (\<lambda>_. scan_open_directory H (scan_directory H (Suc depth)) depth d st m t))"
      (is "gives ?R _") for d st t
      unfolding scan_open_directory_def
    proof (rule gives_limits, rule gives_mount(1), rule gives_stat(1))
      fix now x before
      assume now: "depth \<le> MAX_SCAN_DEPTH" "in_time (sp_started t) now" and x: "on_mount m x"
      let ?head = "\<lambda>es. ClockRead now # HeldMount d (Inr x) # HeldStat d (Inr before) # es"
      have "gives (\<lambda>es. ?R (?head es))
        (lx_bind (scan_option (add_allocated st t)) (\<lambda>totals.
         lx_bind (scan_ok (lx_ask (Listed d) (lh_list_dir H d))) (\<lambda>entries.
         lx_bind (scan_entries H (scan_directory H (Suc depth)) depth d st m entries totals) (\<lambda>totals.
         lx_bind (scan_ok (lx_fstat H d)) (\<lambda>after.
         lx_bind (identity_matches_mount after st m (held_mount H d)) (\<lambda>_. lx_return totals))))))"
        if before: "same_identity before st" "format_of before = 0x4000"
      proof (rule gives_option_bind, rule gives_ask, rule gives_bind[OF scan_entries_gives[OF F]],
          rule gives_stat(1), rule gives_matches(1), rule gives_return, erule exE, erule conjE)
        fix t1 entries es t' after y objs
        assume t1: "add_allocated st t = Some t1" and y: "same_identity after st" "on_mount m y"
          and objs: "scanned_entries m (sp_started t1) depth d st entries es objs" "counts (length objs) t1 objs t'"
        have dir: "format_of st = 0x4000" using before by (simp add: same_identity_def)
        have began: "sp_started t1 = sp_started t" using counts_directory[OF t1 dir] by (simp add: counts_def)
        have "scanned_directory m (sp_started t) depth d st
            (?head (Listed d (Inr entries) # es @ [HeldStat d (Inr after), HeldMount d (Inr y)])) (st # objs)"
          by (rule scanned_directory_scanned_entries_scanned_object.directory[OF now x before _ y]) (use objs(1) began in simp)
        moreover have "counts (length (st # objs) - 1) t (st # objs) t'"
          using counts_append[OF counts_directory[OF t1 dir] objs(2)] by simp
        ultimately show "?R (?head (Listed d (Inr entries) # es @ HeldStat d (Inr after) # HeldMount d (Inr y) # [])) t'"
          using dir by (intro exI[of _ "st # objs"]) simp
      qed simp
      then show "gives (\<lambda>es. ?R (?head es))
        (if \<not> same_identity before st \<or> format_of before \<noteq> 0x4000 then lx_fail ()
         else lx_bind (scan_option (add_allocated st t)) (\<lambda>totals.
         lx_bind (scan_ok (lx_ask (Listed d) (lh_list_dir H d))) (\<lambda>entries.
         lx_bind (scan_entries H (scan_directory H (Suc depth)) depth d st m entries totals) (\<lambda>totals.
         lx_bind (scan_ok (lx_fstat H d)) (\<lambda>after.
         lx_bind (identity_matches_mount after st m (held_mount H d)) (\<lambda>_. lx_return totals))))))"
        by auto
    qed
    then show ?thesis unfolding good_scan_def scan_directory.simps[of H depth] if_not_P[OF False] by blast
  qed
qed

text \<open>What an answer with numbers says.\<close>

definition measured :: "u64 \<Rightarrow> fd \<Rightarrow> linux_event list \<Rightarrow> workspace_space \<Rightarrow> bool" where
  "measured m root es answer \<longleftrightarrow>
     (\<exists>st began scan objs.
        es = HeldStat root (Inr st) # ClockRead began # scan
        \<and> scanned_directory m began 0 root st scan objs
        \<and> list_all countable_object objs \<and> length objs - 1 \<le> MAX_SCAN_ENTRIES
        \<and> logical_size objs < 2 ^ 64 \<and> allocated_from {} objs < 2 ^ 64
        \<and> answer = CompleteSpace (of_nat (logical_size objs)) (of_nat (allocated_from {} objs)))"

lemma measure_totals_gives:
  "gives (\<lambda>es t. measured m root es (CompleteSpace (of_nat (sp_logical t)) (of_nat (sp_allocated t))))
     (measure_totals H root m)"
  unfolding measure_totals_def
proof (rule gives_stat(1), split if_split, intro conjI impI gives_fail gives_now)
  fix st began
  let ?t = "\<lparr>sp_logical = 0, sp_allocated = 0, sp_entries = 0, sp_seen_inodes = {}, sp_started = began\<rparr>"
  have fit: "totals_fit ?t" by (simp add: totals_fit_def)
  show "gives (\<lambda>es t. measured m root (HeldStat root (Inr st) # ClockRead began # es)
        (CompleteSpace (of_nat (sp_logical t)) (of_nat (sp_allocated t))))
      (scan_directory H 0 root st m ?t)"
  proof (rule gives_mono[OF scan_directory_gives[unfolded good_scan_def, rule_format]], elim exE conjE)
    fix es t' objs
    assume scan: "scanned_directory m (sp_started ?t) 0 root st es objs" and c: "counts (length objs - 1) ?t objs t'"
    have "totals_fit t'" using c fit by (simp add: counts_def)
    with c scan show "measured m root (HeldStat root (Inr st) # ClockRead began # es)
        (CompleteSpace (of_nat (sp_logical t')) (of_nat (sp_allocated t')))"
      unfolding measured_def by (intro exI[of _ st] exI[of _ began] exI[of _ es] exI[of _ objs])
        (simp add: counts_def totals_fit_def)
  qed
qed

text \<open>
  C28.  A measurement of a Workspace comes back on every host, with any clock, and changes nothing.
  It answers with numbers only when its calls are those of one complete scan: every directory,
  at most 256 deep, was the one named before and on the expected mount, when it was opened and
  after it was listed; every listed entry was of the device of its directory and on that mount,
  and unchanged after it was counted; the clock was read before each, within five seconds; and
  at most 200 000 entries were counted.  The numbers are the sums over exactly the objects of that
  scan, the blocks of an inode once, and no sum overflowed.
\<close>

theorem measurement_is_bounded:
  "lwp (measure_root H root m)
     (\<lambda>r s'. no_unlink (lr_trace s')
        \<and> (case r of
             Inl _ \<Rightarrow> False
           | Inr answer \<Rightarrow> answer = UnknownSpace \<or> measured m root (lr_trace s') answer))
     \<lparr>lr_host = h, lr_trace = []\<rparr>"
proof -
  let ?s = "\<lparr>lr_host = h, lr_trace = []\<rparr>"
  have "lwp (measure_totals H root m) (\<lambda>r s'. no_unlink (lr_trace s') \<and>
      (\<forall>t. r = Inr t \<longrightarrow> measured m root (lr_trace s') (CompleteSpace (of_nat (sp_logical t)) (of_nat (sp_allocated t))))) ?s"
    by (rule lwp_mono[OF looksD[OF measure_totals_gives[unfolded gives_def]]]) auto
  then show ?thesis
    by (auto simp: lwp_def measure_root_def split: option.splits sum.splits prod.splits)
qed

end
