(* ===== verification/Linux_Process.thy ===== *)
theory Linux_Process
  imports Linux_Host Rust_Path App_Ports Create_Guards
begin

text \<open>
  Whether a process uses a Workspace: \<open>thinws-adapter-linux/src/process.rs\<close>, the \<open>ProcessProbe\<close> of
  Linux.  The files of \<open>/proc\<close>, the clocks and the inspection of paths by the platform probe are
  calls of a host; the answers that the scan rests on are recorded.

  What is shown: "no evidence" is only answered after a complete scan, and a confirmed use has an
  open file or working directory inside the Workspace.
\<close>

subsection \<open>The host\<close>

datatype process_event =
  ProcListed path "errno + (errno + bytes) list"
| ProcLink path "errno + bytes"
| ProcMetadata path "errno + u64 \<times> u64"
| ProcCanonical path "errno + bytes"
| ProcIdentity path "(nat \<times> nat) option"

record 'h proc_host =
  ph_now :: "'h \<Rightarrow> nat \<times> 'h"
  ph_system_millis :: "'h \<Rightarrow> nat option \<times> 'h"
  ph_own_pid :: nat
  ph_euid :: nat
  ph_read_dir :: "path \<Rightarrow> ('h, errno, (errno + bytes) list) linux_call"
  ph_read :: "path \<Rightarrow> ('h, errno, bytes) linux_call"
  ph_read_link :: "path \<Rightarrow> ('h, errno, bytes) linux_call"
  ph_metadata :: "path \<Rightarrow> ('h, errno, u64 \<times> u64) linux_call"
  ph_canonicalize :: "path \<Rightarrow> ('h, errno, bytes) linux_call"
  ph_inspect_path :: "absolute_path \<Rightarrow> ('h, port_error, path_capability_report) linux_call"
  ph_open_root :: "('h, errno, fd) linux_call"
  ph_open_at :: "fd \<Rightarrow> bytes \<Rightarrow> ('h, errno, fd) linux_call"
  ph_fstat :: "fd \<Rightarrow> ('h, errno, linux_stat) linux_call"
  ph_statx :: "fd \<Rightarrow> ('h, errno, linux_statx) linux_call"
  ph_error :: "errno \<Rightarrow> foreign_error"

record 'h proc_run =
  pr_host :: 'h
  pr_trace :: "process_event list"

type_synonym ('h, 'a) scan_step = "'h proc_run \<Rightarrow> 'a \<times> 'h proc_run"

definition pr_bind :: "('h, 'a) scan_step \<Rightarrow> ('a \<Rightarrow> ('h, 'b) scan_step) \<Rightarrow> ('h, 'b) scan_step" where
  "pr_bind m f s = (case m s of (x, s') \<Rightarrow> f x s')"

definition pr_return :: "'a \<Rightarrow> ('h, 'a) scan_step" where
  "pr_return x s = (x, s)"

definition pr_call :: "('h \<Rightarrow> 'a \<times> 'h) \<Rightarrow> ('h, 'a) scan_step" where
  "pr_call c s = (case c (pr_host s) of (x, h) \<Rightarrow> (x, s\<lparr>pr_host := h\<rparr>))"

definition pr_ask :: "('a \<Rightarrow> process_event) \<Rightarrow> ('h \<Rightarrow> 'a \<times> 'h) \<Rightarrow> ('h, 'a) scan_step" where
  "pr_ask ev c s = (case c (pr_host s) of (x, h) \<Rightarrow> (x, \<lparr>pr_host = h, pr_trace = pr_trace s @ [ev x]\<rparr>))"

definition pr_note :: "process_event \<Rightarrow> ('h, unit) scan_step" where
  "pr_note ev s = ((), s\<lparr>pr_trace := pr_trace s @ [ev]\<rparr>)"

text \<open>\<open>?\<close> on a \<open>Result\<close>.\<close>

definition pr_try :: "('h, 'e + 'a) scan_step \<Rightarrow> ('a \<Rightarrow> ('h, 'e + 'b) scan_step) \<Rightarrow> ('h, 'e + 'b) scan_step" where
  "pr_try m f = pr_bind m (\<lambda>r. case r of Inl e \<Rightarrow> pr_return (Inl e) | Inr x \<Rightarrow> f x)"

definition pr_map_err :: "('d \<Rightarrow> 'e) \<Rightarrow> ('h, 'd + 'a) scan_step \<Rightarrow> ('h, 'e + 'a) scan_step" where
  "pr_map_err g m = pr_bind m (\<lambda>r. pr_return (map_err g r))"

subsection \<open>Numbers and words of \<open>/proc\<close>\<close>

text \<open>\<open>str::parse\<close> for an unsigned integer: an optional \<open>+\<close>, then digits that fit.\<close>

definition parse_unsigned :: "nat \<Rightarrow> bytes \<Rightarrow> nat option" where
  "parse_unsigned bits text =
     (let digits = (case text of c # cs \<Rightarrow> if c = CHR ''+'' then cs else text | [] \<Rightarrow> []);
          n = foldl (\<lambda>a c. a * 10 + (of_char c - of_char (CHR ''0''))) 0 digits
      in if digits = [] \<or> \<not> list_all is_ascii_digit digits \<or> 2 ^ bits \<le> n then None else Some n)"

fun split_by :: "('a \<Rightarrow> bool) \<Rightarrow> 'a list \<Rightarrow> 'a list list" where
  "split_by P [] = [[]]"
| "split_by P (x # xs) =
     (if P x then [] # split_by P xs
      else case split_by P xs of [] \<Rightarrow> [[x]] | p # ps \<Rightarrow> (x # p) # ps)"

definition nth_word :: "nat \<Rightarrow> bytes list \<Rightarrow> bytes option" where
  "nth_word n ws = (if n < length ws then Some (ws ! n) else None)"

fun find_field :: "bytes \<Rightarrow> bytes list \<Rightarrow> bytes option" where
  "find_field key [] = None"
| "find_field key (l # ls) = (case strip_prefix key l of Some v \<Rightarrow> Some v | None \<Rightarrow> find_field key ls)"

definition effective_uid :: "bytes \<Rightarrow> nat option" where
  "effective_uid status =
     Option.bind (find_field ''Uid:'' (split_on (CHR 0x0A) status)) (\<lambda>words.
     Option.bind (nth_word 1 (filter (\<lambda>w. w \<noteq> []) (split_by (\<lambda>b. b = CHR 0x09 \<or> b = CHR '' '') words)))
       (parse_unsigned 32))"

definition windows2 :: "'a list \<Rightarrow> 'a list list" where
  "windows2 xs = map (\<lambda>i. take 2 (drop i xs)) [0..<length xs - 1]"

definition start_ticks_of :: "bytes \<Rightarrow> nat option" where
  "start_ticks_of stat =
     Option.bind (rposition (\<lambda>w. w = '') '') (windows2 stat)) (\<lambda>i.
     Option.bind (nth_word 19 (split_on (CHR '' '') (drop (i + 2) stat))) (parse_unsigned 64))"

text \<open>\<open>ProcessIdentity\<close> is the pair of the effective user and the start time.\<close>

type_synonym process_identity = "nat \<times> nat"

definition read_process_identity ::
  "'h proc_host \<Rightarrow> path \<Rightarrow> ('h, process_identity option) scan_step" where
  "read_process_identity H dir =
     pr_bind
       (pr_bind (pr_call (ph_read H (dir @ [component.Normal ''status'']))) (\<lambda>status.
          case Option.bind (result_ok status) effective_uid of
            None \<Rightarrow> pr_return None
          | Some uid \<Rightarrow>
              pr_bind (pr_call (ph_read H (dir @ [component.Normal ''stat'']))) (\<lambda>stat.
                pr_return (map_option (\<lambda>ticks. (uid, ticks)) (Option.bind (result_ok stat) start_ticks_of)))))
       (\<lambda>id. pr_bind (pr_note (ProcIdentity dir id)) (\<lambda>_. pr_return id))"

subsection \<open>The links of a process\<close>

definition process_link_evidence_conflicts :: "u64 \<times> u64 \<Rightarrow> u64 \<times> u64 \<Rightarrow> path \<Rightarrow> path \<Rightarrow> bool" where
  "process_link_evidence_conflicts through_proc through_path canonical container =
     (fst through_proc \<noteq> fst through_path \<or> snd through_proc \<noteq> snd through_path
      \<or> \<not> path_starts_with canonical container)"

text \<open>Whether the link matches, and the flag \<open>incomplete\<close> afterwards.\<close>

definition matches_process_link ::
  "'h proc_host \<Rightarrow> path \<Rightarrow> path \<Rightarrow> bool \<Rightarrow> ('h, bool \<times> bool) scan_step" where
  "matches_process_link H link container incomplete =
     pr_bind (pr_ask (ProcLink link) (ph_read_link H link)) (\<lambda>r.
       case r of
         Inl _ \<Rightarrow> pr_return (False, True)
       | Inr reported \<Rightarrow>
           if \<not> path_starts_with (path_of_bytes reported) container then pr_return (False, incomplete)
           else
             pr_bind (pr_ask (ProcMetadata link) (ph_metadata H link)) (\<lambda>through_proc.
             pr_bind (pr_ask (ProcMetadata (path_of_bytes reported)) (ph_metadata H (path_of_bytes reported))) (\<lambda>through_path.
             pr_bind (pr_ask (ProcCanonical (path_of_bytes reported)) (ph_canonicalize H (path_of_bytes reported))) (\<lambda>canonical.
               case (through_proc, through_path, canonical) of
                 (Inr a, Inr b, Inr c) \<Rightarrow>
                   if process_link_evidence_conflicts a b (path_of_bytes c) container
                   then pr_return (False, True) else pr_return (True, incomplete)
               | _ \<Rightarrow> pr_return (False, True)))))"

text \<open>The loop over the descriptors: \<open>Inl ()\<close> is the early return of a confirmed use.\<close>

fun inspect_descriptors ::
  "'h proc_host \<Rightarrow> path \<Rightarrow> process_identity \<Rightarrow> path \<Rightarrow> nat \<Rightarrow> (errno + bytes) list \<Rightarrow> bool
   \<Rightarrow> ('h, unit + bool) scan_step" where
  "inspect_descriptors H dir ident container deadline [] incomplete = pr_return (Inr incomplete)"
| "inspect_descriptors H dir ident container deadline (entry # entries) incomplete =
     pr_bind (pr_call (ph_now H)) (\<lambda>now.
       if deadline \<le> now then pr_return (Inr True)
       else
         (case entry of
            Inl _ \<Rightarrow> inspect_descriptors H dir ident container deadline entries True
          | Inr name \<Rightarrow>
              pr_bind (matches_process_link H (dir @ [component.Normal ''fd'', component.Normal name]) container incomplete)
                (\<lambda>(matched, incomplete).
                   if matched
                   then
                     pr_bind (read_process_identity H dir) (\<lambda>again.
                       if again = Some ident then pr_return (Inl ())
                       else inspect_descriptors H dir ident container deadline entries True)
                   else inspect_descriptors H dir ident container deadline entries incomplete)))"

definition use_of :: "bool \<Rightarrow> process_use" where
  "use_of incomplete = (if incomplete then ScanIncomplete else NoEvidence)"

definition inspect_open_files ::
  "'h proc_host \<Rightarrow> path \<Rightarrow> process_identity \<Rightarrow> path \<Rightarrow> nat \<Rightarrow> bool \<Rightarrow> ('h, process_use) scan_step" where
  "inspect_open_files H dir ident container deadline incomplete =
     pr_bind (pr_ask (ProcListed (dir @ [component.Normal ''fd''])) (ph_read_dir H (dir @ [component.Normal ''fd'']))) (\<lambda>fds.
       case fds of
         Inl _ \<Rightarrow> pr_return ScanIncomplete
       | Inr entries \<Rightarrow>
           pr_bind (inspect_descriptors H dir ident container deadline entries incomplete) (\<lambda>r.
             case r of
               Inl _ \<Rightarrow> pr_return process_use.ConfirmedInUse
             | Inr incomplete \<Rightarrow>
                 pr_bind (read_process_identity H dir) (\<lambda>after.
                   pr_return (use_of (incomplete \<or> after \<noteq> Some ident)))))"

definition inspect_process ::
  "'h proc_host \<Rightarrow> path \<Rightarrow> process_identity \<Rightarrow> path \<Rightarrow> nat \<Rightarrow> ('h, process_use) scan_step" where
  "inspect_process H dir ident container deadline =
     pr_bind (matches_process_link H (dir @ [component.Normal ''cwd'']) container False) (\<lambda>(matched, incomplete).
     pr_bind (if matched then read_process_identity H dir else pr_return None) (\<lambda>again.
       if matched \<and> again = Some ident then pr_return process_use.ConfirmedInUse
       else inspect_open_files H dir ident container deadline incomplete))"

subsection \<open>The visible processes\<close>

definition SCAN_BUDGET :: nat where
  "SCAN_BUDGET = 2 * 1000000000"

definition proc_root :: path where
  "proc_root = [RootDir, component.Normal ''proc'']"

text \<open>One entry of \<open>/proc\<close>; an entry that \<open>continue\<close> skips adds no evidence.\<close>

definition inspect_entry :: "'h proc_host \<Rightarrow> path \<Rightarrow> nat \<Rightarrow> bytes \<Rightarrow> ('h, process_use) scan_step" where
  "inspect_entry H container deadline name =
     (case parse_unsigned 32 name of
        None \<Rightarrow> pr_return NoEvidence
      | Some pid \<Rightarrow>
          if pid = ph_own_pid H then pr_return NoEvidence
          else
            pr_bind (read_process_identity H (proc_root @ [component.Normal name])) (\<lambda>before.
              case before of
                None \<Rightarrow> pr_return ScanIncomplete
              | Some ident \<Rightarrow>
                  if fst ident \<noteq> ph_euid H then pr_return NoEvidence
                  else inspect_process H (proc_root @ [component.Normal name]) ident container deadline))"

fun scan_processes ::
  "'h proc_host \<Rightarrow> path \<Rightarrow> nat \<Rightarrow> (errno + bytes) list \<Rightarrow> bool \<Rightarrow> ('h, process_use) scan_step" where
  "scan_processes H container deadline [] incomplete = pr_return (use_of incomplete)"
| "scan_processes H container deadline (entry # entries) incomplete =
     pr_bind (pr_call (ph_now H)) (\<lambda>now.
       if deadline \<le> now then pr_return ScanIncomplete
       else
         (case entry of
            Inl _ \<Rightarrow> scan_processes H container deadline entries True
          | Inr name \<Rightarrow>
              pr_bind (inspect_entry H container deadline name) (\<lambda>use.
                case use of
                  process_use.ConfirmedInUse \<Rightarrow> pr_return process_use.ConfirmedInUse
                | ScanIncomplete \<Rightarrow> scan_processes H container deadline entries True
                | NoEvidence \<Rightarrow> scan_processes H container deadline entries incomplete)))"

definition scan_visible_processes :: "'h proc_host \<Rightarrow> path \<Rightarrow> ('h, process_use) scan_step" where
  "scan_visible_processes H container =
     pr_bind (pr_call (ph_now H)) (\<lambda>start.
     pr_bind (pr_ask (ProcListed proc_root) (ph_read_dir H proc_root)) (\<lambda>processes.
       case processes of
         Inl _ \<Rightarrow> pr_return ScanIncomplete
       | Inr entries \<Rightarrow> scan_processes H container (start + SCAN_BUDGET) entries False))"

subsection \<open>The root that is scanned for\<close>

record bound_root =
  br_fd :: fd
  br_report :: path_capability_report

definition root_changed :: port_error where
  "root_changed =
     port_error_new port_error_kind.InvalidLayout ''Workspace process-scan root identity changed''"

definition process_io_error :: "'h proc_host \<Rightarrow> string \<Rightarrow> errno \<Rightarrow> port_error" where
  "process_io_error H oper e = port_error_with_source (port_error_new port_error_kind.Io oper) (ph_error H e)"

definition ELOOP :: errno where "ELOOP = 40"
definition ENOTDIR :: errno where "ENOTDIR = 20"
definition ENOENT :: errno where "ENOENT = 2"

definition path_error :: "'h proc_host \<Rightarrow> string \<Rightarrow> errno \<Rightarrow> port_error" where
  "path_error H oper e =
     port_error_with_source
       (port_error_new
          (if e = ELOOP \<or> e = ENOTDIR then port_error_kind.InvalidLayout
           else if e = ENOENT then NotFound else port_error_kind.Io) oper)
       (ph_error H e)"

definition fd_identity :: "'h proc_host \<Rightarrow> fd \<Rightarrow> ('h, port_error + file_identity) scan_step" where
  "fd_identity H d =
     pr_try (pr_map_err (process_io_error H ''inspect process-scan path identity'') (pr_call (ph_fstat H d)))
       (\<lambda>st. pr_return (Inr \<lparr>device = st_dev st, inode = st_ino st\<rparr>))"

text \<open>The walk down the path: the descriptor at its end, and the ancestry not yet compared.\<close>

fun open_components ::
  "'h proc_host \<Rightarrow> fd \<Rightarrow> directory_identity_evidence list \<Rightarrow> bytes list
   \<Rightarrow> ('h, port_error + fd \<times> directory_identity_evidence list) scan_step" where
  "open_components H directory parts [] = pr_return (Inr (directory, parts))"
| "open_components H directory parts (component # components) =
     (if component = [] then open_components H directory parts components
      else
        pr_try
          (pr_map_err (path_error H ''open process-scan path component'') (pr_call (ph_open_at H directory component)))
          (\<lambda>next.
             pr_try (fd_identity H next) (\<lambda>found.
               case parts of
                 [] \<Rightarrow> pr_return (Inl root_changed)
               | part # rest \<Rightarrow>
                   if di_identity part \<noteq> found then pr_return (Inl root_changed)
                   else open_components H next rest components)))"

definition current_root_identity ::
  "path_capability_report \<Rightarrow> absolute_path \<Rightarrow> file_identity option" where
  "current_root_identity report p =
     (if ancestry report \<noteq> [] \<and> di_path (last (ancestry report)) = p \<and> resolution report = ExistingDirectory
      then Some (di_identity (last (ancestry report))) else None)"

definition root_evidence_changed ::
  "file_identity \<Rightarrow> linux_stat \<Rightarrow> path_capability_report \<Rightarrow> path_capability_report \<Rightarrow> linux_statx \<Rightarrow> nat \<Rightarrow> bool" where
  "root_evidence_changed expected held_stat recorded current mounted owner \<longleftrightarrow>
     expected \<noteq> \<lparr>device = st_dev held_stat, inode = st_ino held_stat\<rparr> \<or> st_uid held_stat \<noteq> owner
     \<or> ancestry recorded \<noteq> ancestry current \<or> filesystem recorded \<noteq> filesystem current
     \<or> Materialization.mount_id (mount recorded) \<noteq> Materialization.mount_id (mount current)
     \<or> \<not> mount_id_available (stx_mask mounted)
     \<or> Some (stx_mnt_id mounted) \<noteq> Materialization.mount_id (mount current)"

definition revalidate_root ::
  "'h proc_host \<Rightarrow> absolute_path \<Rightarrow> bound_root \<Rightarrow> ('h, port_error + unit) scan_step" where
  "revalidate_root H p held =
     pr_try (pr_call (ph_inspect_path H p)) (\<lambda>report.
     pr_try (pr_return (ok_or (current_root_identity report p) root_changed)) (\<lambda>expected.
     pr_try (pr_map_err (process_io_error H ''inspect held process-scan root'') (pr_call (ph_fstat H (br_fd held)))) (\<lambda>st.
     pr_try (pr_map_err (process_io_error H ''inspect held process-scan mount'') (pr_call (ph_statx H (br_fd held)))) (\<lambda>mounted.
       pr_return
         (if root_evidence_changed expected st (br_report held) report mounted (ph_euid H)
          then Inl root_changed else Inr ())))))"

definition open_bound_root ::
  "'h proc_host \<Rightarrow> absolute_path \<Rightarrow> ('h, port_error + bound_root) scan_step" where
  "open_bound_root H p =
     pr_try (pr_call (ph_inspect_path H p)) (\<lambda>report.
       if resolution report \<noteq> ExistingDirectory
       then pr_return (Inl (port_error_new NotFound ''open Workspace process-scan root''))
       else
         pr_try (pr_map_err (process_io_error H ''open process-scan filesystem root'') (pr_call (ph_open_root H))) (\<lambda>top.
           case ancestry report of
             [] \<Rightarrow> pr_return (Inl root_changed)
           | root # rest \<Rightarrow>
               pr_try (fd_identity H top) (\<lambda>found.
                 if di_identity root \<noteq> found then pr_return (Inl root_changed)
                 else
                   pr_try (open_components H top rest (split_on (CHR ''/'') (drop 1 (path_bytes p)))) (\<lambda>(directory, left).
                     if left \<noteq> [] then pr_return (Inl root_changed)
                     else
                       pr_try
                         (pr_map_err (process_io_error H ''inspect process-scan root'') (pr_call (ph_fstat H directory)))
                         (\<lambda>st.
                            if st_uid st \<noteq> ph_euid H then pr_return (Inl root_changed)
                            else
                              (let bound = \<lparr>br_fd = directory, br_report = report\<rparr> in
                               pr_try (revalidate_root H p bound) (\<lambda>_. pr_return (Inr bound))))))))"

definition scan_time :: "nat option \<Rightarrow> port_error + unix_millis" where
  "scan_time elapsed =
     ok_or
       (Option.bind elapsed (\<lambda>n. if n < 2 ^ 63 then result_ok (unix_millis_new (int n)) else None))
       (port_error_new port_error_kind.Io ''record process-scan time'')"

definition linux_process_probe :: "'h proc_host \<Rightarrow> 'h proc_run process_probe" where
  "linux_process_probe H container =
     pr_try (open_bound_root H container) (\<lambda>held.
     pr_bind (scan_visible_processes H (path_of_bytes (path_bytes container))) (\<lambda>found.
     pr_try (revalidate_root H container held) (\<lambda>_.
     pr_bind (pr_call (ph_system_millis H)) (\<lambda>elapsed.
       pr_return (and_then (scan_time elapsed) (\<lambda>at. Ok \<lparr>observed_at = at, use_state = found\<rparr>))))))"

subsection \<open>What an answer rests on\<close>

text \<open>
  \<open>sees m R\<close>: whatever the host answers, \<open>m\<close> only adds to the trace, and \<open>R\<close> holds of the events
  it adds, in their order, and of its answer.
\<close>

definition sees :: "('h, 'a) scan_step \<Rightarrow> (process_event list \<Rightarrow> 'a \<Rightarrow> bool) \<Rightarrow> bool" where
  "sees m R \<longleftrightarrow> (\<forall>s. \<exists>es. pr_trace (snd (m s)) = pr_trace s @ es \<and> R es (fst (m s)))"

lemma sees_then:
  fixes m :: "('h, 'a) scan_step" and f :: "'a \<Rightarrow> ('h, 'b) scan_step"
  assumes m: "sees m P" and f: "\<And>es x. P es x \<Longrightarrow> sees (f x) (\<lambda>fs. R (es @ fs))"
  shows "sees (pr_bind m f) R"
  unfolding sees_def
proof
  fix s :: "'h proc_run"
  obtain x s1 where ms: "m s = (x, s1)" by fastforce
  obtain es where es: "pr_trace s1 = pr_trace s @ es" "P es x"
    using m ms unfolding sees_def by (metis fst_conv snd_conv)
  obtain y s2 where fs: "f x s1 = (y, s2)" by fastforce
  obtain fs where "pr_trace s2 = pr_trace s1 @ fs" "R (es @ fs) y"
    using f[OF es(2)] fs unfolding sees_def by (metis fst_conv snd_conv)
  then show "\<exists>es. pr_trace (snd (pr_bind m f s)) = pr_trace s @ es \<and> R es (fst (pr_bind m f s))"
    using es ms fs by (intro exI[of _ "es @ fs"]) (simp add: pr_bind_def)
qed

lemma sees_mono: "\<lbrakk>sees m P; \<And>es x. P es x \<Longrightarrow> Q es x\<rbrakk> \<Longrightarrow> sees m Q"
  unfolding sees_def by blast

lemma sees_return: "R [] x \<Longrightarrow> sees (pr_return x) R"
  by (simp add: sees_def pr_return_def)

lemma sees_call: "(\<And>y. sees (f y) R) \<Longrightarrow> sees (pr_bind (pr_call c) f) R"
  by (rule sees_then[where P = "\<lambda>es y. es = []"]) (simp_all add: sees_def pr_call_def split: prod.splits)

lemma sees_ask: "(\<And>y. sees (f y) (\<lambda>es. R (ev y # es))) \<Longrightarrow> sees (pr_bind (pr_ask ev c) f) R"
  by (rule sees_then[where P = "\<lambda>es y. es = [ev y]"]) (simp_all add: sees_def pr_ask_def split: prod.splits)

lemma pr_bind_return [simp]: "pr_bind (pr_return x) f = f x"
  by (rule ext) (simp add: pr_bind_def pr_return_def)

lemma read_process_identity_sees:
  "sees (read_process_identity H dir) (\<lambda>es id. es = [ProcIdentity dir id])"
proof -
  have note_it: "sees (pr_bind (pr_note ev) (\<lambda>_. pr_return id)) (\<lambda>es id'. es = [ev] \<and> id' = id)" for ev and id :: "(nat \<times> nat) option"
    by (rule sees_then[where P = "\<lambda>es y. es = [ev]"]) (auto simp: sees_def pr_note_def pr_return_def)
  show ?thesis
    unfolding read_process_identity_def
    by (rule sees_then[where P = "\<lambda>es id. es = []"])
      (auto intro!: sees_call sees_return sees_mono[OF note_it] split: option.splits)
qed

lemma sees_identity:
  "(\<And>id. sees (f id) (\<lambda>es. R (ProcIdentity dir id # es))) \<Longrightarrow> sees (pr_bind (read_process_identity H dir) f) R"
  by (rule sees_then[OF read_process_identity_sees]) simp

text \<open>
  A link that is clean: it was read, and does not lead into the container.  A link that is in
  use: it leads there, through \<open>/proc\<close> and by name to the same object.
\<close>

definition link_clean :: "path \<Rightarrow> path \<Rightarrow> process_event list \<Rightarrow> bool" where
  "link_clean container link es \<longleftrightarrow>
     (\<exists>r. ProcLink link (Inr r) \<in> set es \<and> \<not> path_starts_with (path_of_bytes r) container)"

definition link_inside :: "path \<Rightarrow> path \<Rightarrow> process_event list \<Rightarrow> bool" where
  "link_inside container link es \<longleftrightarrow>
     (\<exists>r object c. ProcLink link (Inr r) \<in> set es \<and> path_starts_with (path_of_bytes r) container
        \<and> ProcMetadata link (Inr object) \<in> set es \<and> ProcMetadata (path_of_bytes r) (Inr object) \<in> set es
        \<and> ProcCanonical (path_of_bytes r) (Inr c) \<in> set es \<and> path_starts_with (path_of_bytes c) container)"

lemma matches_process_link_sees:
  "sees (matches_process_link H link container incomplete)
     (\<lambda>es (matched, incomplete').
        (incomplete \<longrightarrow> incomplete') \<and> (matched \<longrightarrow> link_inside container link es)
        \<and> (\<not> matched \<and> \<not> incomplete' \<longrightarrow> link_clean container link es))"
  unfolding matches_process_link_def
  by (rule sees_ask,
      auto split: sum.splits intro!: sees_return sees_ask
        simp: link_clean_def link_inside_def process_link_evidence_conflicts_def, blast)

definition fd_link :: "path \<Rightarrow> bytes \<Rightarrow> path" where
  "fd_link dir name = dir @ [component.Normal ''fd'', component.Normal name]"

definition cwd_link :: "path \<Rightarrow> path" where
  "cwd_link dir = dir @ [component.Normal ''cwd'']"

text \<open>Every entry of a listing is a name, and its link is clean.\<close>

definition entries_clean :: "path \<Rightarrow> path \<Rightarrow> (errno + bytes) list \<Rightarrow> process_event list \<Rightarrow> bool" where
  "entries_clean container dir entries es \<longleftrightarrow>
     list_all (\<lambda>e. case e of Inl _ \<Rightarrow> False | Inr name \<Rightarrow> link_clean container (fd_link dir name) es) entries"

text \<open>
  The evidence for a use: a link of the process leads into the container, and after that was
  found, as the last event, the process was identified as the one it was before.
\<close>

definition process_uses :: "process_identity \<Rightarrow> path \<Rightarrow> path \<Rightarrow> process_event list \<Rightarrow> bool" where
  "process_uses ident container dir es \<longleftrightarrow>
     (\<exists>before link found. es = before @ found @ [ProcIdentity dir (Some ident)]
        \<and> (link = cwd_link dir \<or> (\<exists>name. link = fd_link dir name)) \<and> link_inside container link found)"

lemma process_uses_later: "process_uses ident container dir es \<Longrightarrow> process_uses ident container dir (xs @ es)"
  unfolding process_uses_def by (metis append.assoc)

lemma link_clean_later: "link_clean container link es \<Longrightarrow> link_clean container link (xs @ es @ ys)"
  by (auto simp: link_clean_def)

lemma entries_clean_later: "entries_clean container dir entries es \<Longrightarrow> entries_clean container dir entries (xs @ es)"
  using link_clean_later[where ys = "[]"]
  by (auto simp: entries_clean_def list_all_iff split: sum.splits)

definition descriptors_result ::
  "path \<Rightarrow> process_identity \<Rightarrow> path \<Rightarrow> (errno + bytes) list \<Rightarrow> bool \<Rightarrow> process_event list \<Rightarrow> unit + bool \<Rightarrow> bool" where
  "descriptors_result dir ident container entries incomplete es r \<longleftrightarrow>
     (case r of
        Inl _ \<Rightarrow> process_uses ident container dir es
      | Inr incomplete' \<Rightarrow> (incomplete \<longrightarrow> incomplete') \<and> (\<not> incomplete' \<longrightarrow> entries_clean container dir entries es))"

lemma descriptors_result_rest:
  assumes "descriptors_result dir ident container entries inc fs r"
    "inc \<or> \<not> incomplete \<and> (\<exists>name. e = Inr name \<and> link_clean container (fd_link dir name) es)"
  shows "descriptors_result dir ident container (e # entries) incomplete (es @ fs) r"
proof -
  have "entries_clean container dir (e # entries) (es @ fs)"
    if "entries_clean container dir entries fs" "e = Inr name" "link_clean container (fd_link dir name) es" for name
    using entries_clean_later[OF that(1)] link_clean_later[OF that(3), of "[]"] that(2) by (simp add: entries_clean_def)
  then show ?thesis using assms
    by (cases r) (auto simp: descriptors_result_def process_uses_later)
qed

lemma inspect_descriptors_sees:
  "sees (inspect_descriptors H dir ident container deadline entries incomplete)
     (descriptors_result dir ident container entries incomplete)"
proof (induction entries arbitrary: incomplete)
  case Nil
  show ?case by (auto intro: sees_return simp: descriptors_result_def entries_clean_def)
next
  case (Cons e entries)
  let ?R = "descriptors_result dir ident container (e # entries) incomplete"
  have rest: "sees (inspect_descriptors H dir ident container deadline entries inc) (\<lambda>fs. ?R (es @ fs))"
    if "inc \<or> \<not> incomplete \<and> (\<exists>name. e = Inr name \<and> link_clean container (fd_link dir name) es)" for inc es
    by (rule sees_mono[OF Cons.IH]) (rule descriptors_result_rest[OF _ that])
  have expired: "sees (pr_return (Inr True)) ?R"
    by (rule sees_return) (simp add: descriptors_result_def)
  have matched: "sees (pr_bind (read_process_identity H dir) (\<lambda>again.
        if again = Some ident then pr_return (Inl ())
        else inspect_descriptors H dir ident container deadline entries True)) (\<lambda>fs. ?R (es @ fs))"
    if "link_inside container (fd_link dir name) es" for es name
  proof (rule sees_identity, split if_split, intro conjI impI)
    fix again assume "again = Some ident"
    then have "process_uses ident container dir ([] @ es @ [ProcIdentity dir again])"
      using that unfolding process_uses_def by blast
    then show "sees (pr_return (Inl ())) (\<lambda>fs. ?R (es @ ProcIdentity dir again # fs))"
      by (intro sees_return) (simp add: descriptors_result_def)
  next
    fix again
    show "sees (inspect_descriptors H dir ident container deadline entries True) (\<lambda>fs. ?R (es @ ProcIdentity dir again # fs))"
      using rest[of True "es @ [ProcIdentity dir again]"] by simp
  qed
  have named: "sees (pr_bind (matches_process_link H (fd_link dir name) container incomplete)
      (\<lambda>(matched, incomplete).
         if matched
         then pr_bind (read_process_identity H dir) (\<lambda>again.
             if again = Some ident then pr_return (Inl ())
             else inspect_descriptors H dir ident container deadline entries True)
         else inspect_descriptors H dir ident container deadline entries incomplete)) ?R"
    if "e = Inr name" for name
  proof (rule sees_then[OF matches_process_link_sees], clarify)
    fix es m inc
    assume "incomplete \<longrightarrow> inc" "m \<longrightarrow> link_inside container (fd_link dir name) es"
      "\<not> m \<and> \<not> inc \<longrightarrow> link_clean container (fd_link dir name) es"
    then show "sees (if m
           then pr_bind (read_process_identity H dir) (\<lambda>again.
               if again = Some ident then pr_return (Inl ())
               else inspect_descriptors H dir ident container deadline entries True)
           else inspect_descriptors H dir ident container deadline entries inc) (\<lambda>fs. ?R (es @ fs))"
      using matched[of name es] rest[of inc es] that by (cases m; cases inc) auto
  qed
  show ?case
    unfolding inspect_descriptors.simps
    by (rule sees_call)
      (use expired rest[of True "[]"] named in \<open>auto simp: fd_link_def split: sum.splits\<close>)
qed

text \<open>
  The descriptors of a process: they were listed, all are clean, and after that the process was
  identified as the one it was before.
\<close>

definition descriptors_clean :: "process_identity \<Rightarrow> path \<Rightarrow> path \<Rightarrow> process_event list \<Rightarrow> bool" where
  "descriptors_clean ident container dir es \<longleftrightarrow>
     (\<exists>fds found. es = ProcListed (dir @ [component.Normal ''fd'']) (Inr fds) # found @ [ProcIdentity dir (Some ident)]
        \<and> entries_clean container dir fds found)"

lemma inspect_open_files_sees:
  "sees (inspect_open_files H dir ident container deadline incomplete)
     (\<lambda>es use. (use = process_use.ConfirmedInUse \<longrightarrow> process_uses ident container dir es)
        \<and> (use = NoEvidence \<longrightarrow> \<not> incomplete \<and> descriptors_clean ident container dir es))"
    (is "sees _ ?R")
  unfolding inspect_open_files_def
proof (rule sees_ask, split sum.split, intro conjI allI impI)
  fix listing :: "errno + (errno + bytes) list" and entries assume listing: "listing = Inr entries"
  let ?listed = "ProcListed (dir @ [component.Normal ''fd'']) listing"
  show "sees (pr_bind (inspect_descriptors H dir ident container deadline entries incomplete) (\<lambda>r. case r of
          Inl _ \<Rightarrow> pr_return process_use.ConfirmedInUse
        | Inr inc \<Rightarrow> pr_bind (read_process_identity H dir) (\<lambda>after. pr_return (use_of (inc \<or> after \<noteq> Some ident)))))
      (\<lambda>es. ?R (?listed # es))"
  proof (rule sees_then[OF inspect_descriptors_sees], split sum.split, intro conjI allI impI)
    fix es r u
    assume "descriptors_result dir ident container entries incomplete es r" "r = Inl u"
    then have "process_uses ident container dir ([?listed] @ es)"
      by (intro process_uses_later) (simp add: descriptors_result_def)
    then show "sees (pr_return process_use.ConfirmedInUse) (\<lambda>fs. ?R (?listed # es @ fs))"
      by (intro sees_return) simp
  next
    fix es r inc
    assume r: "descriptors_result dir ident container entries incomplete es r" "r = Inr inc"
    have "descriptors_clean ident container dir (?listed # es @ [ProcIdentity dir after])"
      if "\<not> inc" "after = Some ident" for after
      using r that listing by (auto simp: descriptors_clean_def descriptors_result_def)
    then show "sees (pr_bind (read_process_identity H dir) (\<lambda>after. pr_return (use_of (inc \<or> after \<noteq> Some ident))))
        (\<lambda>fs. ?R (?listed # es @ fs))"
      by (intro sees_identity sees_return) (use r in \<open>auto simp: use_of_def descriptors_result_def\<close>)
  qed
qed (simp add: sees_return)

text \<open>
  A process of which nothing was seen: its working directory and its descriptors are clean.  A
  process whose working directory was forgotten: it was seen inside the container, then the
  process was identified as another one or not at all, and its descriptors are clean.
\<close>

definition process_clean :: "process_identity \<Rightarrow> path \<Rightarrow> path \<Rightarrow> process_event list \<Rightarrow> bool" where
  "process_clean ident container dir es \<longleftrightarrow>
     (\<exists>first rest. es = first @ rest \<and> link_clean container (cwd_link dir) first
        \<and> descriptors_clean ident container dir rest)"

definition process_forgotten :: "process_identity \<Rightarrow> path \<Rightarrow> path \<Rightarrow> process_event list \<Rightarrow> bool" where
  "process_forgotten ident container dir es \<longleftrightarrow>
     (\<exists>found again rest. es = found @ ProcIdentity dir again # rest \<and> link_inside container (cwd_link dir) found
        \<and> again \<noteq> Some ident \<and> descriptors_clean ident container dir rest)"

definition process_verdict :: "process_identity \<Rightarrow> path \<Rightarrow> path \<Rightarrow> process_event list \<Rightarrow> process_use \<Rightarrow> bool" where
  "process_verdict ident container dir es use \<longleftrightarrow>
     (use = process_use.ConfirmedInUse \<longrightarrow> process_uses ident container dir es)
     \<and> (use = NoEvidence \<longrightarrow> process_clean ident container dir es \<or> process_forgotten ident container dir es)"

lemma inspect_process_sees:
  "sees (inspect_process H dir ident container deadline) (process_verdict ident container dir)"
  unfolding inspect_process_def
proof (rule sees_then[OF matches_process_link_sees], clarify)
  fix es matched inc
  assume m: "matched \<longrightarrow> link_inside container (dir @ [component.Normal ''cwd'']) es"
    "\<not> matched \<and> \<not> inc \<longrightarrow> link_clean container (dir @ [component.Normal ''cwd'']) es"
  show "sees (pr_bind (if matched then read_process_identity H dir else pr_return None) (\<lambda>again.
      if matched \<and> again = Some ident then pr_return process_use.ConfirmedInUse
      else inspect_open_files H dir ident container deadline inc))
    (\<lambda>fs. process_verdict ident container dir (es @ fs))"
  proof (cases matched)
    case False
    have "process_verdict ident container dir (es @ fs) use"
      if "(use = process_use.ConfirmedInUse \<longrightarrow> process_uses ident container dir fs)
        \<and> (use = NoEvidence \<longrightarrow> \<not> inc \<and> descriptors_clean ident container dir fs)" for fs use
      using that m(2) False process_uses_later[of ident container dir fs es]
      unfolding process_verdict_def process_clean_def cwd_link_def by blast
    then show ?thesis using False by (simp add: sees_mono[OF inspect_open_files_sees])
  next
    case True
    have inside: "link_inside container (cwd_link dir) es" using m(1) True by (simp add: cwd_link_def)
    have "sees (if again = Some ident then pr_return process_use.ConfirmedInUse
          else inspect_open_files H dir ident container deadline inc)
        (\<lambda>fs. process_verdict ident container dir (es @ ProcIdentity dir again # fs))" for again
    proof (cases "again = Some ident")
      case True
      have "process_uses ident container dir ([] @ es @ [ProcIdentity dir (Some ident)])"
        using inside unfolding process_uses_def by blast
      then show ?thesis using True by (simp add: sees_return process_verdict_def)
    next
      case False
      have "process_verdict ident container dir (es @ ProcIdentity dir again # fs) use"
        if "(use = process_use.ConfirmedInUse \<longrightarrow> process_uses ident container dir fs)
          \<and> (use = NoEvidence \<longrightarrow> \<not> inc \<and> descriptors_clean ident container dir fs)" for fs use
        using that inside False process_uses_later[of ident container dir fs "es @ [ProcIdentity dir again]"]
        unfolding process_verdict_def process_forgotten_def by auto
      then show ?thesis using False by (simp add: sees_mono[OF inspect_open_files_sees])
    qed
    then show ?thesis using True by (auto intro: sees_identity)
  qed
qed

subsection \<open>The verdict of a scan\<close>

text \<open>
  An entry of \<open>/proc\<close> that is accounted for: it is no process, the scanner itself, a process of
  another user, or one of which nothing was seen.
\<close>

definition accounted :: "'h proc_host \<Rightarrow> path \<Rightarrow> process_event list \<Rightarrow> bytes \<Rightarrow> bool" where
  "accounted H container es name \<longleftrightarrow>
     (case parse_unsigned 32 name of
        None \<Rightarrow> True
      | Some pid \<Rightarrow>
          pid = ph_own_pid H
          \<or> (\<exists>ident before own later. es = before @ ProcIdentity (proc_root @ [component.Normal name]) (Some ident) # own @ later
               \<and> (fst ident \<noteq> ph_euid H \<or> process_clean ident container (proc_root @ [component.Normal name]) own)))"

text \<open>An entry whose working directory was forgotten.\<close>

definition forgotten :: "'h proc_host \<Rightarrow> path \<Rightarrow> process_event list \<Rightarrow> bytes \<Rightarrow> bool" where
  "forgotten H container es name \<longleftrightarrow>
     (\<exists>pid ident before own later. parse_unsigned 32 name = Some pid \<and> pid \<noteq> ph_own_pid H \<and> fst ident = ph_euid H
        \<and> es = before @ ProcIdentity (proc_root @ [component.Normal name]) (Some ident) # own @ later
        \<and> process_forgotten ident container (proc_root @ [component.Normal name]) own)"

definition in_use :: "'h proc_host \<Rightarrow> path \<Rightarrow> process_event list \<Rightarrow> bool" where
  "in_use H container es \<longleftrightarrow>
     (\<exists>name pid ident before own. parse_unsigned 32 name = Some pid \<and> pid \<noteq> ph_own_pid H \<and> fst ident = ph_euid H
        \<and> es = before @ ProcIdentity (proc_root @ [component.Normal name]) (Some ident) # own
        \<and> process_uses ident container (proc_root @ [component.Normal name]) own)"

definition entry_settled :: "'h proc_host \<Rightarrow> path \<Rightarrow> process_event list \<Rightarrow> errno + bytes \<Rightarrow> bool" where
  "entry_settled H container es e =
     (case e of Inl _ \<Rightarrow> False | Inr name \<Rightarrow> accounted H container es name \<or> forgotten H container es name)"

definition scan_verdict ::
  "'h proc_host \<Rightarrow> path \<Rightarrow> (errno + bytes) list \<Rightarrow> bool \<Rightarrow> process_event list \<Rightarrow> process_use \<Rightarrow> bool" where
  "scan_verdict H container entries incomplete es use \<longleftrightarrow>
     (use = process_use.ConfirmedInUse \<longrightarrow> in_use H container es)
     \<and> (use = NoEvidence \<longrightarrow> \<not> incomplete \<and> list_all (entry_settled H container es) entries)"

lemma entry_settled_later: "entry_settled H container es e \<Longrightarrow> entry_settled H container (xs @ es @ ys) e"
proof -
  have more: "\<exists>b l. xs @ (before @ ev # own @ later) @ ys = b @ ev # own @ l" for before ev own later
    by (intro exI[of _ "xs @ before"] exI[of _ "later @ ys"]) simp
  have "accounted H container es name \<Longrightarrow> accounted H container (xs @ es @ ys) name" for name
    unfolding accounted_def using more by (auto split: option.splits, metis more, metis more)
  moreover have "forgotten H container es name \<Longrightarrow> forgotten H container (xs @ es @ ys) name" for name
    unfolding forgotten_def using more by metis
  ultimately show "entry_settled H container es e \<Longrightarrow> entry_settled H container (xs @ es @ ys) e"
    by (auto simp: entry_settled_def split: sum.splits)
qed

lemma in_use_later: "in_use H container es \<Longrightarrow> in_use H container (xs @ es)"
  unfolding in_use_def by (metis append.assoc)

lemma scan_verdict_rest:
  assumes "scan_verdict H container entries inc fs use" "inc \<or> inc = incomplete \<and> entry_settled H container es e"
  shows "scan_verdict H container (e # entries) incomplete (es @ fs) use"
  using assms entry_settled_later[of H container fs _ es "[]"] entry_settled_later[of H container es e "[]" fs] in_use_later
  by (auto simp: scan_verdict_def list_all_iff)

lemma inspect_entry_sees:
  "sees (inspect_entry H container deadline name)
     (\<lambda>es use. (use = process_use.ConfirmedInUse \<longrightarrow> in_use H container es)
        \<and> (use = NoEvidence \<longrightarrow> entry_settled H container es (Inr name)))"
    (is "sees _ ?R")
proof (cases "parse_unsigned 32 name = None \<or> parse_unsigned 32 name = Some (ph_own_pid H)")
  case True
  then show ?thesis
    by (auto intro: sees_return simp: inspect_entry_def entry_settled_def accounted_def)
next
  case False
  then obtain pid where pid: "parse_unsigned 32 name = Some pid" "pid \<noteq> ph_own_pid H" by auto
  let ?dir = "proc_root @ [component.Normal name]"
  have verdict: "?R (ProcIdentity ?dir (Some ident) # es) use"
    if v: "process_verdict ident container ?dir es use" and uid: "fst ident = ph_euid H" for ident es use
  proof (intro conjI impI)
    assume "use = process_use.ConfirmedInUse"
    then have "process_uses ident container ?dir es" using v by (simp add: process_verdict_def)
    then show "in_use H container (ProcIdentity ?dir (Some ident) # es)"
      unfolding in_use_def using pid uid by (metis append_Nil)
  next
    assume "use = NoEvidence"
    then have "process_clean ident container ?dir es \<or> process_forgotten ident container ?dir es"
      using v by (simp add: process_verdict_def)
    moreover have split: "ProcIdentity ?dir (Some ident) # es = [] @ ProcIdentity ?dir (Some ident) # es @ []" by simp
    ultimately show "entry_settled H container (ProcIdentity ?dir (Some ident) # es) (Inr name)"
      unfolding entry_settled_def sum.case accounted_def forgotten_def pid(1) option.case using pid uid by blast
  qed
  have other: "?R [ProcIdentity ?dir (Some ident)] NoEvidence" if "fst ident \<noteq> ph_euid H" for ident
  proof -
    have "[ProcIdentity ?dir (Some ident)] = [] @ ProcIdentity ?dir (Some ident) # [] @ []" by simp
    then have "accounted H container [ProcIdentity ?dir (Some ident)] name"
      unfolding accounted_def pid(1) option.case using that by blast
    then show ?thesis by (simp add: entry_settled_def)
  qed
  have "sees (pr_bind (read_process_identity H ?dir) (\<lambda>before.
            case before of
              None \<Rightarrow> pr_return ScanIncomplete
            | Some ident \<Rightarrow>
                if fst ident \<noteq> ph_euid H then pr_return NoEvidence
                else inspect_process H ?dir ident container deadline)) ?R"
    by (rule sees_identity)
      (use other verdict in \<open>auto intro!: sees_return sees_mono[OF inspect_process_sees] split: option.splits\<close>)
  then show ?thesis using pid by (simp add: inspect_entry_def)
qed

lemma scan_processes_sees:
  "sees (scan_processes H container deadline entries incomplete) (scan_verdict H container entries incomplete)"
proof (induction entries arbitrary: incomplete)
  case Nil
  show ?case by (auto intro: sees_return simp: scan_verdict_def use_of_def)
next
  case (Cons e entries)
  let ?R = "scan_verdict H container (e # entries) incomplete"
  have rest: "sees (scan_processes H container deadline entries inc) (\<lambda>fs. ?R (es @ fs))"
    if "inc \<or> inc = incomplete \<and> entry_settled H container es e" for inc es
    by (rule sees_mono[OF Cons.IH]) (rule scan_verdict_rest[OF _ that])
  have named: "sees (pr_bind (inspect_entry H container deadline name) (\<lambda>use.
                case use of
                  process_use.ConfirmedInUse \<Rightarrow> pr_return process_use.ConfirmedInUse
                | ScanIncomplete \<Rightarrow> scan_processes H container deadline entries True
                | NoEvidence \<Rightarrow> scan_processes H container deadline entries incomplete)) ?R"
    if "e = Inr name" for name
  proof (rule sees_then[OF inspect_entry_sees])
    fix es use
    assume "(use = process_use.ConfirmedInUse \<longrightarrow> in_use H container es)
      \<and> (use = NoEvidence \<longrightarrow> entry_settled H container es (Inr name))"
    then show "sees (case use of
                  process_use.ConfirmedInUse \<Rightarrow> pr_return process_use.ConfirmedInUse
                | ScanIncomplete \<Rightarrow> scan_processes H container deadline entries True
                | NoEvidence \<Rightarrow> scan_processes H container deadline entries incomplete) (\<lambda>fs. ?R (es @ fs))"
      using rest[of True es] rest[of incomplete es] that
      by (cases use) (auto intro!: sees_return simp: scan_verdict_def)
  qed
  have expired: "sees (pr_return ScanIncomplete) ?R"
    by (rule sees_return) (simp add: scan_verdict_def)
  show ?case
    unfolding scan_processes.simps
    by (rule sees_call) (use expired rest[of True "[]"] named in \<open>auto split: sum.splits\<close>)
qed

definition honest_scan :: "'h proc_host \<Rightarrow> path \<Rightarrow> process_event list \<Rightarrow> process_use \<Rightarrow> bool" where
  "honest_scan H container es use \<longleftrightarrow>
     (use = process_use.ConfirmedInUse \<longrightarrow> in_use H container es)
     \<and> (use = NoEvidence \<longrightarrow>
          (\<exists>entries scan. es = ProcListed proc_root (Inr entries) # scan
             \<and> list_all (entry_settled H container scan) entries))"

lemma scan_visible_processes_sees: "sees (scan_visible_processes H container) (honest_scan H container)"
  unfolding scan_visible_processes_def
proof (rule sees_call, rule sees_ask, split sum.split, intro conjI allI impI)
  fix began and processes :: "errno + (errno + bytes) list" and entries
  assume listed: "processes = Inr entries"
  have "honest_scan H container (ProcListed proc_root processes # es) use"
    if "scan_verdict H container entries False es use" for es use
    using that listed in_use_later[of H container es "[ProcListed proc_root processes]"]
    by (simp add: honest_scan_def scan_verdict_def)
  then show "sees (scan_processes H container (began + SCAN_BUDGET) entries False)
      (\<lambda>es. honest_scan H container (ProcListed proc_root processes # es))"
    by (rule sees_mono[OF scan_processes_sees])
qed (simp add: sees_return honest_scan_def)

subsection \<open>The probe\<close>

text \<open>The checks of the root record nothing.\<close>

abbreviation quiet_step :: "('h, 'a) scan_step \<Rightarrow> bool" where
  "quiet_step m \<equiv> sees m (\<lambda>es x. es = [])"

lemma quiet_return [simp]: "quiet_step (pr_return x)"
  by (rule sees_return) simp

lemma quiet_call [simp]: "quiet_step (pr_call c)"
  by (simp add: sees_def pr_call_def split: prod.splits)

lemma quiet_bind: "\<lbrakk>quiet_step m; \<And>x. quiet_step (f x)\<rbrakk> \<Longrightarrow> quiet_step (pr_bind m f)"
  by (rule sees_then[where P = "\<lambda>es x. es = []"]) simp_all

lemma quiet_try: "\<lbrakk>quiet_step m; \<And>x. quiet_step (f x)\<rbrakk> \<Longrightarrow> quiet_step (pr_try m f)"
  unfolding pr_try_def by (rule quiet_bind) (auto split: sum.splits)

lemma quiet_map_err [simp]: "quiet_step m \<Longrightarrow> quiet_step (pr_map_err g m)"
  unfolding pr_map_err_def by (rule quiet_bind) simp_all

lemma quiet_components: "quiet_step (open_components H d parts components)"
  by (induction components arbitrary: d parts)
    (auto simp: fd_identity_def intro!: quiet_try split: list.splits)

lemma quiet_revalidate: "quiet_step (revalidate_root H p held)"
  unfolding revalidate_root_def by (intro quiet_try) simp_all

lemma quiet_open: "quiet_step (open_bound_root H p)"
  unfolding open_bound_root_def
  by (intro quiet_try)
    (auto simp: fd_identity_def Let_def intro!: quiet_try quiet_components quiet_revalidate split: list.splits)

lemma sees_quiet_try:
  assumes "quiet_step m" "\<And>e. R [] (Inl e)" "\<And>x. sees (f x) R"
  shows "sees (pr_try m f) R"
  unfolding pr_try_def
  by (rule sees_then[OF assms(1)]) (use assms(2,3) in \<open>auto intro: sees_return split: sum.splits\<close>)

lemma linux_process_probe_sees:
  "sees (linux_process_probe H container)
     (\<lambda>es r. case r of Inl e \<Rightarrow> True
        | Inr obs \<Rightarrow> honest_scan H (path_of_bytes (path_bytes container)) es (use_state obs))"
    (is "sees _ ?R")
  unfolding linux_process_probe_def
proof (rule sees_quiet_try[OF quiet_open], simp, rule sees_then[OF scan_visible_processes_sees])
  fix held es use
  assume "honest_scan H (path_of_bytes (path_bytes container)) es use"
  then show "sees (pr_try (revalidate_root H container held) (\<lambda>_.
      pr_bind (pr_call (ph_system_millis H)) (\<lambda>elapsed.
        pr_return (and_then (scan_time elapsed) (\<lambda>at. Ok \<lparr>observed_at = at, use_state = use\<rparr>)))))
    (\<lambda>fs. ?R (es @ fs))"
    by (intro sees_quiet_try[OF quiet_revalidate] sees_call sees_return)
      (auto simp: result_simps split: sum.splits)
qed

text \<open>
  C11.  The process probe is honest.  When it answers that a process uses the Workspace, a process
  of the user, not the scanner itself, had a working directory or descriptor inside it, by name
  and by device and inode, and after that was found it was identified again, as the last thing the
  scan did, as the process it was at first.  When it answers that there is no evidence, the
  whole of \<open>/proc\<close> was listed first, and then every entry was settled: it is no process, the scanner
  or a process of another user, or its working directory was read and leads elsewhere, all its
  descriptors were listed and read and lead elsewhere, and after that it was identified as the
  process it was at first.  One exception is stated as such (\<open>forgotten\<close>): the code also settles a
  process whose working directory was seen inside the Workspace when the identification right after
  differs, and the last one agrees with the first; a descriptor in the same place makes the scan
  incomplete.
\<close>

theorem process_probe_is_honest:
  "case linux_process_probe H container \<lparr>pr_host = h, pr_trace = []\<rparr> of
     (Inl e, s') \<Rightarrow> True
   | (Inr obs, s') \<Rightarrow> honest_scan H (path_of_bytes (path_bytes container)) (pr_trace s') (use_state obs)"
  using linux_process_probe_sees[of H container, unfolded sees_def, THEN spec[of _ "\<lparr>pr_host = h, pr_trace = []\<rparr>"]]
  by (auto split: prod.splits sum.splits)

subsection \<open>A working directory that is lost\<close>

text \<open>
  The state is the number of times \<open>status\<close> was read.  The one process works in \<open>/w\<close>, and has
  another effective user whenever it is identified the second time.
\<close>

definition toggling_status :: "nat \<Rightarrow> bytes" where
  "toggling_status n =
     ''Uid:'' @ [CHR 0x09] @ ''1000'' @ [CHR 0x09] @ (if n = 1 then ''0'' else ''1000'') @ [CHR 0x09]"

definition toggling_host :: "nat proc_host" where
  "toggling_host =
     \<lparr>ph_now = (\<lambda>n. (0, n)), ph_system_millis = (\<lambda>n. (Some 5, n)), ph_own_pid = 1, ph_euid = 1000,
      ph_read_dir = (\<lambda>p n. (if p = proc_root then Inr [Inr ''7''] else Inr [], n)),
      ph_read = (\<lambda>p n. if last p = component.Normal ''status'' then (Inr (toggling_status n), Suc n)
        else (Inr (''7 (x) '' @ concat (replicate 19 ''0 '') @ ''9''), n)),
      ph_read_link = (\<lambda>p n. (Inr ''/w'', n)), ph_metadata = (\<lambda>p n. (Inr (1, 2), n)),
      ph_canonicalize = (\<lambda>p n. (Inr ''/w'', n)),
      ph_inspect_path = (\<lambda>p n. (Inl root_changed, n)), ph_open_root = (\<lambda>n. (Inl 2, n)),
      ph_open_at = (\<lambda>d c n. (Inl 2, n)), ph_fstat = (\<lambda>d n. (Inl 2, n)), ph_statx = (\<lambda>d n. (Inl 2, n)),
      ph_error = (\<lambda>e. ForeignError ''os error'')\<rparr>"

lemma toggling_uid:
  "effective_uid (toggling_status 1) = Some 0"
  "n \<noteq> 1 \<Longrightarrow> effective_uid (toggling_status n) = Some 1000"
proof -
  show "effective_uid (toggling_status 1) = Some 0"
    by (simp add: toggling_status_def effective_uid_def strip_prefix_def prefix_def nth_word_def
        parse_unsigned_def is_ascii_digit_def)
  have "effective_uid (toggling_status 0) = Some 1000"
    by (simp add: toggling_status_def effective_uid_def strip_prefix_def nth_word_def
        parse_unsigned_def is_ascii_digit_def)
  then show "n \<noteq> 1 \<Longrightarrow> effective_uid (toggling_status n) = Some 1000" by (simp add: toggling_status_def)
qed

lemma toggling_ticks: "start_ticks_of (''7 (x) '' @ concat (replicate 19 ''0 '') @ ''9'') = Some 9"
proof -
  let ?stat = "''7 (x) '' @ concat (replicate 19 ''0 '') @ ''9''"
  have "rposition (\<lambda>w. w = '') '') (windows2 ?stat) = Some 4" by code_simp
  moreover have "nth_word 19 (split_on (CHR '' '') (drop (4 + 2) ?stat)) = Some ''9''" by code_simp
  moreover have "parse_unsigned 64 ''9'' = Some 9" by (simp add: parse_unsigned_def is_ascii_digit_def)
  ultimately show ?thesis unfolding start_ticks_of_def by simp
qed

lemma toggling_identity:
  "read_process_identity toggling_host dir s =
     (let id = Some (if pr_host s = 1 then 0 else 1000, 9) in
      (id, \<lparr>pr_host = Suc (pr_host s), pr_trace = pr_trace s @ [ProcIdentity dir id]\<rparr>))"
proof -
  have "\<And>h. ph_read toggling_host (dir @ [component.Normal ''status'']) h = (Inr (toggling_status h), Suc h)"
    "\<And>h. ph_read toggling_host (dir @ [component.Normal ''stat'']) h
       = (Inr (''7 (x) '' @ concat (replicate 19 ''0 '') @ ''9''), h)"
    by (simp_all add: toggling_host_def)
  then show ?thesis
    using toggling_uid(1) toggling_uid(2)[of "pr_host s"] toggling_ticks
    by (cases s; cases "pr_host s = 1")
      (simp_all only: read_process_identity_def pr_bind_def pr_call_def pr_note_def pr_return_def Let_def
        prod.case proc_run.simps bind.simps result_ok.simps option.simps if_True if_False simp_thms)
qed

lemma toggling_calls:
  "ph_now toggling_host n = (0, n)" "ph_own_pid toggling_host = 1" "ph_euid toggling_host = 1000"
  "ph_read_dir toggling_host p n = (if p = proc_root then Inr [Inr ''7''] else Inr [], n)"
  "ph_read_link toggling_host p n = (Inr ''/w'', n)" "ph_metadata toggling_host p n = (Inr (1, 2), n)"
  "ph_canonicalize toggling_host p n = (Inr ''/w'', n)"
  by (simp_all add: toggling_host_def)

text \<open>
  The flaw that \<^const>\<open>forgotten\<close> stands for: the working directory
  leads into the Workspace, the second identification differs from the first, and unlike for a
  descriptor the scan is not called incomplete; the answer is "no evidence".
\<close>

lemma working_directory_lost:
  "\<exists>s. scan_visible_processes toggling_host [RootDir, component.Normal ''w''] \<lparr>pr_host = 0, pr_trace = []\<rparr> = (NoEvidence, s)
     \<and> link_inside [RootDir, component.Normal ''w''] (cwd_link (proc_root @ [component.Normal ''7''])) (pr_trace s)"
proof -
  let ?w = "[RootDir, component.Normal ''w'']" and ?dir = "proc_root @ [component.Normal ''7'']"
  have name: "parse_unsigned 32 ''7'' = Some 7" by (simp add: parse_unsigned_def is_ascii_digit_def)
  have link: "path_of_bytes ''/w'' = ?w" by code_simp
  have starts: "path_starts_with ?w ?w" by code_simp
  let ?es = "[ProcListed proc_root (Inr [Inr ''7'']), ProcIdentity ?dir (Some (1000, 9)),
      ProcLink (cwd_link ?dir) (Inr ''/w''), ProcMetadata (cwd_link ?dir) (Inr (1, 2)), ProcMetadata ?w (Inr (1, 2)),
      ProcCanonical ?w (Inr ''/w''), ProcIdentity ?dir (Some (0, 9)),
      ProcListed (?dir @ [component.Normal ''fd'']) (Inr []), ProcIdentity ?dir (Some (1000, 9))]"
  have "scan_visible_processes toggling_host ?w \<lparr>pr_host = 0, pr_trace = []\<rparr> = (NoEvidence, \<lparr>pr_host = 3, pr_trace = ?es\<rparr>)"
    by (simp add: scan_visible_processes_def SCAN_BUDGET_def inspect_entry_def inspect_process_def
        inspect_open_files_def matches_process_link_def process_link_evidence_conflicts_def use_of_def
        pr_bind_def pr_call_def pr_ask_def pr_return_def Let_def name link starts toggling_identity toggling_calls cwd_link_def)
  moreover have "link_inside ?w (cwd_link ?dir) ?es"
    unfolding link_inside_def by (rule exI[of _ "''/w''"], rule exI[of _ "(1, 2)"], rule exI[of _ "''/w''"]) (simp add: link starts)
  ultimately show ?thesis by auto
qed
end
