(* ===== verification/Spec2Isabelle.thy ===== *)
theory Spec2Isabelle
  imports Uuid_Instance Removal_Policy Store_Opening App_Query Composed_System Git_Evidence Cli_System
    Linux_Log Linux_Document Linux_Destroy Linux_Tree Linux_Space Linux_Process
begin

text \<open>
  ThinWorkspace keeps isolated copies ("Workspaces") of a project directory.  \<open>thinws create\<close> makes
  one by a copy-on-write clone or, when that is unavailable and the caller allows it, by a full
  copy; \<open>thinws remove\<close> destroys one, unless a process uses it or Git tracks unsaved changes in it.
  What exists is recorded in one SQLite database of the private installation directory.

  \<^bold>\<open>Parts and how they interact.\<close>
  The program is a hexagon of Rust crates under \<open>src/crates\<close>.  \<open>thinws-core\<close> holds the values and
  the pure rules; \<open>thinws-ports\<close> the traits and the values that cross them; \<open>thinws-application\<close>
  the use cases, written against the traits; \<open>thinws-metadata-sqlite\<close> the store;
  \<open>thinws-adapter-git-cli\<close> the inspection of the repositories of a copy;
  \<open>thinws-adapter-linux\<close> and \<open>-macos\<close> the file system; \<open>thinws-cli\<close> the command line, which calls the
  use cases and renders what they answer.  The theories follow that layering.

  \<^bold>\<open>Which theory models which code.\<close>
  \<^item> \<open>Prelude\<close>: the vocabulary (\<open>Result\<close> is a sum, \<open>Err\<close> and \<open>Ok\<close> its injections; a \<open>u8\<close> is a
    \<open>char\<close>, a \<open>u64\<close> a 64-bit word), lists and \<open>split_on\<close>, the locales \<open>text_codec\<close> (a parser that
    inverts a printer) and \<open>guarded_machine\<close> (steps that keep an invariant along every history).
  \<^item> \<open>thinws-core\<close>: \<open>Identifiers\<close> (\<open>id.rs\<close>, \<open>volume.rs\<close>, \<open>time.rs\<close>), \<open>Names\<close>, \<open>Paths\<close>,
    \<open>Diagnostics\<close>, \<open>Lifecycle\<close> (\<open>workspace.rs\<close>), \<open>Git_Status\<close> and \<open>Git_Report\<close> (\<open>git.rs\<close>),
    \<open>Removal_Policy\<close>, and \<open>Materialization\<close>, \<open>Plans\<close>, \<open>Receipts\<close> (\<open>materialization.rs\<close>).
  \<^item> \<open>thinws-metadata-sqlite\<close>: \<open>Metadata_Port\<close> (the values of the trait), \<open>Metadata_Schema\<close>
    (\<open>schema_v2.sql\<close>: rows, \<open>CHECK\<close>s, triggers, statements), \<open>Metadata_Store\<close> (\<open>lib.rs\<close>: every
    operation as its sequence of SQLite calls, each of which may fail; a connection is the tables
    and header of the file, its journal mode and the number of calls made), \<open>Receipt_Json\<close>.
    \<open>Store_Spec\<close> is the abstract store and \<open>Store_Refinement\<close> the simulation between the two;
    \<open>Schema_Facts\<close>, \<open>Store_Contract\<close>, \<open>Store_Properties\<close> and \<open>Store_Opening\<close> say what follows.
  \<^item> \<open>thinws-application\<close>: \<open>App_Errors\<close>, \<open>App_Ports\<close> (the traits of \<open>thinws-ports\<close> as records of
    functions), \<open>App_Init\<close>, \<open>Create_Guards\<close>, \<open>App_Create\<close>, \<open>App_Remove\<close>, \<open>App_Query\<close>: the use cases
    in a state and error monad that also records every port call.
  \<^item> \<open>thinws-adapter-git-cli\<close>: \<open>Git_Text\<close> (the parsers), \<open>Git_Host\<close> (what is asked of the operating
    system), \<open>Git_Collector\<close> (\<open>git_query.rs\<close>: one bounded query), and from \<open>git_query/inspect.rs\<close>
    \<open>Git_Files\<close>, \<open>Git_Discovery\<close>, \<open>Git_Preflight\<close>, \<open>Git_Repository\<close>, \<open>Git_Inspector\<close>.
    \<open>Rust_Path\<close> is what the adapters use of \<open>std::path\<close>.
  \<^item> \<open>thinws-cli\<close>: \<open>Rust_Text\<close> (UTF-8), \<open>Cli_Views\<close>, \<open>Cli_Render\<close>, \<open>Cli_Run\<close>.
  \<^item> \<open>thinws-adapter-linux\<close>: \<open>Linux_Log\<close> (\<open>operation_log.rs\<close>), \<open>Linux_Document\<close>
    (\<open>document.rs\<close>), \<open>Linux_Host\<close> (the system calls, and the nodes and names of \<open>tree.rs\<close>),
    \<open>Linux_Tree\<close> (the snapshots and digests of \<open>tree.rs\<close>), \<open>Linux_Destroy\<close> (\<open>destroy.rs\<close>),
    \<open>Linux_Space\<close> (\<open>space.rs\<close>) and \<open>Linux_Process\<close> (\<open>process.rs\<close>).

  \<^bold>\<open>State and parameters.\<close>
  The state of a use case is the record \<open>world\<close>: the state of the metadata port, that of the
  platform adapters, and the list of the calls made so far.  The operating system, the
  materializers and the probes are functions on a state of any type, so the properties hold for every
  answer they give, errors included, and for any change between two calls.  Code that is not in the
  repository is a parameter too: the \<open>uuid\<close> crate (\<open>uuid_api\<close>; \<open>Uuid_Instance\<close> shows that what is
  assumed of it can hold), \<open>serde_json\<close> (\<open>json_api\<close>), the argument parser \<open>clap\<close> derives, the failures
  of SQLite (an oracle), the clock and the processes of the Git host, \<open>toml\<close>, BLAKE3 (any function to
  32 bytes), and the calls of \<open>rustix\<close> and \<open>/proc\<close> (\<open>linux_host\<close>, \<open>proc_host\<close>).
  The Linux runs record what they observed in a trace, and the properties are about that trace.
  No loop has fuel: recursion is structural, has a termination proof, or is a \<open>partial_function\<close>
  whose termination is a theorem (\<open>inspection_returns\<close>, \<open>queries_return_bounded\<close>,
  \<open>discovery_returns_bounded\<close>).  The limits of the inspector are those of the code, as arguments.
  The exception is \<open>Linux_Tree\<close>: its loops read until the end of a file or of the tree, which may
  grow meanwhile, so the snapshot has the value \<open>None\<close> when it does not return, and no claim is made then.

  \<^bold>\<open>What is shown.\<close>
  \<^item> \<open>Store_Refinement\<close> and \<open>Store_Properties\<close>: each store operation implements the abstract one, with
    failing SQLite calls it leaves the old or the new store and nothing else, identifiers of deleted
    Workspaces are never used again, and the invariant holds after every history.  The interpretation
    \<open>sqlite\<close> of \<open>guarded_machine\<close> carries the histories.  \<open>Store_Opening\<close>: opening creates a store
    only in a blank file, and changes nothing of another, its journal mode included, before its
    version, schema and identity were validated.
  \<^item> \<open>Create_Protocol\<close>, \<open>Removal_Protocol\<close>: every run of \<open>create\<close> and \<open>remove\<close>, with any adapters,
    makes its port calls in the order of an automaton: nothing is destroyed before the policy
    allowed it on sufficient evidence and the intention was logged and stored, and a failure of a run
    that had begun its operation is recorded unless the record itself cannot be written.
  \<^item> \<open>Metadata_Contract\<close> states what the use cases may rely on in a metadata port (the locale
    \<open>metadata_contract\<close>) and interprets it on the SQLite adapter; \<open>Tracked_Runs\<close> and \<open>Store_Effects\<close>
    are proved inside it; \<open>First_Run\<close> is about the runs without a request, \<open>init\<close> and the runs on a file
    that is still empty; \<open>Composed_System\<close> joins both sides: what one \<open>create\<close> or \<open>remove\<close> leaves
    in the database, and that no history of runs, from the first \<open>init\<close> on, makes two Workspaces overlap.
  \<^item> \<open>Git_Runs\<close>, \<open>Git_Walks\<close>, \<open>Git_Collector_Facts\<close>, \<open>Git_Evidence\<close>: the inspection returns on every
    host whose clock runs, within its limits; a state is only reported clean or dirty when a
    status query framed by the required revalidations says so; every repository found is reported.
    \<open>frame\<close> and the locales that extend it are the effects of the steps, interpreted on the traces
    the properties need.
  \<^item> \<open>Cli_Contract\<close>, \<open>Cli_Local\<close>, \<open>Removal_Honesty\<close>: the exit status, the two writers and the promise
    "no files were removed" agree with what happened; \<open>Cli_System\<close> is a concrete installation on which
    the theorems are applied.
  \<^item> \<open>Linux_Log\<close>: an acknowledged removal record is a complete line of the log and later faults
    do not damage it; the records \<open>remove\<close> writes are never refused for their content.
  \<^item> \<open>Linux_Document\<close>: what is written is read back within the size limit, and an accepted ownership
    document names exactly the paths that \<open>create\<close> protects.
  \<^item> \<open>Linux_Tree\<close>: equal digests mean equal trees; the encoding is injective, composed from
    interpretations of the locale \<open>prefix_code\<close>.
  \<^item> \<open>Linux_Destroy\<close>, \<open>Linux_Space\<close>, \<open>Linux_Process\<close>: a deletion unlinks only what was proven just
    before to be in its scope; the numbers of a measurement are the sums over the objects of one
    complete scan; the answer of the process probe is backed by what was observed, in order: a process
    is identified again after what was seen of it.  The predicate \<open>forgotten\<close> names the one kind of run in
    which the code settles a process without that, and \<open>working_directory_lost\<close> exhibits one: a
    working directory seen inside the Workspace that does not make the scan incomplete.

  \<^bold>\<open>Not modelled, and why.\<close>
  Of \<open>thinws-adapter-linux\<close>, \<open>control.rs\<close>, \<open>layout.rs\<close>, \<open>lock.rs\<close>, \<open>materializer.rs\<close>, \<open>probe.rs\<close>,
  \<open>publication.rs\<close>, \<open>workspace.rs\<close>, \<open>store.rs\<close>, \<open>mountinfo.rs\<close> and \<open>ffi.rs\<close>, and all of
  \<open>thinws-adapter-macos\<close>, are sequences of system calls on descriptors and their flags; they stand
  behind the ports, and what the use cases need of them is any answer at all.  The declarations from which \<open>clap\<close> derives the parser and the
  texts of \<open>Debug\<close> and most \<open>Display\<close> implementations are left out.  \<open>src/experiments\<close>, \<open>src/fuzz\<close>,
  \<open>src/tools\<close> and the tests are not product code.
\<close>

end
